(* ===== verification/Prelude.thy ===== *)
theory Prelude
  imports Main "HOL-Library.Word" "HOL-Library.Multiset" "HOL-Library.Countable"
begin

text \<open>
  Shared vocabulary of the development: the type of field elements, the error values and the
  result type in which every assertion, throw and failed ledger precondition of the source is a
  value, the sequencing combinators that the models of the contract methods are written in, and
  the generic list and function-update lemmas that several components use.
\<close>

named_theorems res_simps \<open>inversion of the result combinators\<close>
named_theorems guard_defs \<open>unfolding of the contract's private check helpers\<close>

section \<open>Results\<close>

text \<open>
  \<open>AssertFail m\<close> is a failed \<open>assert*\<close> (or a \<open>throw\<close>) with message \<open>m\<close>; \<open>Precondition m\<close>
  is an account-update precondition or permission that the ledger rejects at inclusion;
  \<open>AccountNotFound\<close> is a read of the on-chain state of an address that has no guard account.
\<close>

type_synonym field = int

datatype error =
    AssertFail string
  | Precondition string
  | AccountNotFound

type_synonym 'a result = "error + 'a"

definition require :: "bool \<Rightarrow> string \<Rightarrow> 'a result \<Rightarrow> 'a result" where
  "require b m k = (if b then k else Inl (AssertFail m))"

definition requirePre :: "bool \<Rightarrow> string \<Rightarrow> 'a result \<Rightarrow> 'a result" where
  "requirePre b m k = (if b then k else Inl (Precondition m))"

definition andThen :: "'a result \<Rightarrow> ('a \<Rightarrow> 'b result) \<Rightarrow> 'b result" where
  "andThen r f = (case r of Inl e \<Rightarrow> Inl e | Inr x \<Rightarrow> f x)"

definition andAlso :: "unit result \<Rightarrow> 'a result \<Rightarrow> 'a result" where
  "andAlso r k = andThen r (\<lambda>_. k)"

fun forEach :: "('a \<Rightarrow> unit result) \<Rightarrow> 'a list \<Rightarrow> unit result" where
  "forEach f [] = Inr ()"
| "forEach f (x # xs) = andAlso (f x) (forEach f xs)"

definition isOk :: "'a result \<Rightarrow> bool" where
  "isOk r = (case r of Inl _ \<Rightarrow> False | Inr _ \<Rightarrow> True)"

lemma require_Inr [simp, res_simps]: "require b m k = Inr r \<longleftrightarrow> b \<and> k = Inr r"
  by (auto simp: require_def)

lemma requirePre_Inr [simp, res_simps]: "requirePre b m k = Inr r \<longleftrightarrow> b \<and> k = Inr r"
  by (auto simp: requirePre_def)

lemma andThen_Inr [simp, res_simps]:
  "andThen r f = Inr y \<longleftrightarrow> (\<exists>x. r = Inr x \<and> f x = Inr y)"
  by (auto simp: andThen_def split: sum.splits)

lemma andThen_simps [simp]:
  "andThen (Inl e) f = Inl e" "andThen (Inr x) f = f x"
  by (simp_all add: andThen_def)

lemma andAlso_Inr [simp, res_simps]: "andAlso r k = Inr y \<longleftrightarrow> r = Inr () \<and> k = Inr y"
  by (auto simp: andAlso_def)

lemma andAlso_simps [simp]:
  "andAlso (Inl e) k = Inl e" "andAlso (Inr ()) k = k"
  by (simp_all add: andAlso_def)

lemma forEach_Inr [simp, res_simps]: "forEach f xs = Inr () \<longleftrightarrow> (\<forall>x \<in> set xs. f x = Inr ())"
  by (induction xs) auto

lemma require_True [simp]: "require True m k = k"
  by (simp add: require_def)

lemma require_False [simp]: "require False m k = Inl (AssertFail m)"
  by (simp add: require_def)

lemma requirePre_True [simp]: "requirePre True m k = k"
  by (simp add: requirePre_def)

lemma requirePre_False [simp]: "requirePre False m k = Inl (Precondition m)"
  by (simp add: requirePre_def)

lemma isOk_simps [simp]: "isOk (Inl e) = False" "isOk (Inr x) = True"
  by (simp_all add: isOk_def)

lemma isOk_iff: "isOk r \<longleftrightarrow> (\<exists>x. r = Inr x)"
  by (cases r) auto

lemma isOk_unit [simp]: "isOk (r :: unit result) \<longleftrightarrow> r = Inr ()"
  by (cases r) auto

section \<open>Lists\<close>

text \<open>Inserting \<open>a\<close> behind every occurrence of \<open>p\<close>; on a list without repetition that is the
  single position behind \<open>p\<close>.\<close>

fun insertBehind :: "'a \<Rightarrow> 'a \<Rightarrow> 'a list \<Rightarrow> 'a list" where
  "insertBehind p a [] = []"
| "insertBehind p a (q # qs) = (if q = p then q # a # insertBehind p a qs else q # insertBehind p a qs)"

lemma insertBehind_absent [simp]: "p \<notin> set xs \<Longrightarrow> insertBehind p a xs = xs"
  by (induction xs) auto

lemma insertBehind_split:
  "distinct (xs @ p # ys) \<Longrightarrow> insertBehind p a (xs @ p # ys) = xs @ p # a # ys"
  by (induction xs) auto

lemma set_insertBehind: "set (insertBehind p a xs) = set xs \<union> (if p \<in> set xs then {a} else {})"
  by (induction xs) auto

lemma length_insertBehind:
  "length (insertBehind p a xs) = length xs + count_list xs p"
  by (induction xs) auto

lemma count_list_distinct: "distinct xs \<Longrightarrow> count_list xs x = (if x \<in> set xs then 1 else 0)"
  by (induction xs) auto

lemma distinct_map_insertBehind:
  assumes "distinct (map f xs)" "p \<in> set xs" "f a \<notin> f ` set xs"
  shows "distinct (map f (insertBehind p a xs))"
proof -
  from assms(2) obtain ys zs where s: "xs = ys @ p # zs" by (auto dest: split_list)
  from assms(1) have "distinct xs" by (simp add: distinct_map)
  with s have "insertBehind p a xs = ys @ p # a # zs" by (simp add: insertBehind_split)
  with assms s show ?thesis by auto
qed

lemma length_filter_neq_distinct:
  assumes "distinct xs" "x \<in> set xs"
  shows "length (filter (\<lambda>y. y \<noteq> x) xs) = length xs - 1"
proof -
  have "filter (\<lambda>y. y \<noteq> x) xs = removeAll x xs" by (simp add: removeAll_filter_not_eq eq_commute)
  with assms show ?thesis by (simp add: length_remove1 flip: distinct_remove1_removeAll)
qed

lemma distinct_map_filter': "distinct (map f xs) \<Longrightarrow> distinct (map f (filter P xs))"
  by (induction xs) auto

lemma distinct_length_le:
  "distinct xs \<Longrightarrow> set xs \<subseteq> set ys \<Longrightarrow> length xs \<le> length ys"
  by (metis List.finite_set card_length card_mono distinct_card le_trans)

end
