(* ===== verification/Js_Map.thy ===== *)
theory Js_Map
  imports Prelude
begin

text \<open>
  A JavaScript \<open>Map\<close> as an association list in insertion order, with the bounded use that the caches
  of the system make of it: past its capacity the oldest entries are dropped.
\<close>

definition jsDelete :: "'k \<Rightarrow> ('k \<times> 'v) list \<Rightarrow> ('k \<times> 'v) list" where
  "jsDelete k m = filter (\<lambda>e. fst e \<noteq> k) m"

fun jsSet :: "'k \<Rightarrow> 'v \<Rightarrow> ('k \<times> 'v) list \<Rightarrow> ('k \<times> 'v) list" where
  "jsSet k v [] = [(k, v)]"
| "jsSet k v ((k', v') # m) = (if k = k' then (k, v) # m else (k', v') # jsSet k v m)"

fun evictOldest :: "nat \<Rightarrow> ('k \<times> 'v) list \<Rightarrow> ('k \<times> 'v) list" where
  "evictOldest n [] = []"
| "evictOldest n (e # m) = (if length (e # m) > n then evictOldest n m else e # m)"

definition boundedMap :: "nat \<Rightarrow> ('k \<times> 'v) list \<Rightarrow> bool" where
  "boundedMap n m \<longleftrightarrow> distinct (map fst m) \<and> length m \<le> n"

lemma map_of_jsSet: "map_of (jsSet k v m) k' = (if k' = k then Some v else map_of m k')"
  by (induction k v m rule: jsSet.induct) auto

lemma map_of_jsDelete: "map_of (jsDelete k m) k' = (if k' = k then None else map_of m k')"
  by (induction m) (auto simp: jsDelete_def)

lemma jsSet_fresh: "k \<notin> fst ` set m \<Longrightarrow> jsSet k v m = m @ [(k, v)]"
  by (induction k v m rule: jsSet.induct) auto

lemma keys_jsSet: "fst ` set (jsSet k v m) = insert k (fst ` set m)"
  by (induction k v m rule: jsSet.induct) auto

lemma jsSet_keys: "map fst (jsSet k v m) = (if k \<in> fst ` set m then map fst m else map fst m @ [k])"
  by (induction k v m rule: jsSet.induct) auto

lemma distinct_jsDelete: "distinct (map fst m) \<Longrightarrow> distinct (map fst (jsDelete k m))"
  by (simp add: jsDelete_def distinct_map_filter')

lemma length_jsDelete: "length (jsDelete k m) \<le> length m"
  by (simp add: jsDelete_def)

lemma jsDelete_absent: "k \<notin> fst ` set (jsDelete k m)"
  by (auto simp: jsDelete_def)

lemma evictOldest_drop: "evictOldest n m = drop (length m - n) m"
  by (induction n m rule: evictOldest.induct) (auto simp: Suc_diff_le)

lemma evictOldest_bounded: "distinct (map fst m) \<Longrightarrow> boundedMap n (evictOldest n m)"
  by (simp add: boundedMap_def evictOldest_drop drop_map [symmetric])

text \<open>The newest entry survives as long as the capacity is positive.\<close>

lemma evictOldest_last: "0 < n \<Longrightarrow> evictOldest n (m @ [e]) = evictOldest (n - 1) m @ [e]"
  by (simp add: evictOldest_drop)

lemma map_of_newest:
  assumes "0 < n" "distinct (map fst (m @ [(k, v)]))"
  shows "map_of (evictOldest n (m @ [(k, v)])) k = Some v"
proof -
  have "(k, v) \<in> set (evictOldest n (m @ [(k, v)]))" using assms(1) by (simp add: evictOldest_last)
  moreover have "distinct (map fst (evictOldest n (m @ [(k, v)])))"
    using evictOldest_bounded [OF assms(2)] by (simp add: boundedMap_def)
  ultimately show ?thesis by simp
qed

end
