(* ===== verification/Decimal.thy ===== *)
theory Decimal
  imports Prelude
begin

text \<open>
  Decimal strings, the form in which field elements, amounts and slots cross every boundary of the
  system (\<open>Field.toString\<close>, \<open>Field(string)\<close>, \<open>BigInt(string)\<close>). Printing and reading are
  inverse on canonical strings, those that match the expression \<open>^(0|[1-9][0-9]*)$\<close> which the
  sources test before they parse.
\<close>

definition digitChar :: "nat \<Rightarrow> char" where
  "digitChar d = char_of (48 + d)"

definition digitVal :: "char \<Rightarrow> nat" where
  "digitVal c = of_char c - 48"

definition isDigit :: "char \<Rightarrow> bool" where
  "isDigit c \<longleftrightarrow> 48 \<le> (of_char c :: nat) \<and> (of_char c :: nat) \<le> 57"

fun decimal :: "nat \<Rightarrow> string" where
  "decimal n = (if n < 10 then [digitChar n] else decimal (n div 10) @ [digitChar (n mod 10)])"

declare decimal.simps [simp del]

definition parseDecimal :: "string \<Rightarrow> nat" where
  "parseDecimal s = foldl (\<lambda>a c. 10 * a + digitVal c) 0 s"

text \<open>The expressions \<open>^\d+$\<close> and \<open>^(0|[1-9]\d*)$\<close>.\<close>

definition allDigits :: "string \<Rightarrow> bool" where
  "allDigits s \<longleftrightarrow> s \<noteq> [] \<and> list_all isDigit s"

definition canonicalDecimal :: "string \<Rightarrow> bool" where
  "canonicalDecimal s \<longleftrightarrow> allDigits s \<and> (s = [digitChar 0] \<or> digitVal (hd s) \<noteq> 0)"

lemma digit_round [simp]: "d < 10 \<Longrightarrow> digitVal (digitChar d) = d"
  by (simp add: digitVal_def digitChar_def)

lemma isDigit_digitChar [simp]: "d < 10 \<Longrightarrow> isDigit (digitChar d)"
  by (simp add: isDigit_def digitChar_def)

lemma digitChar_val: "isDigit c \<Longrightarrow> digitChar (digitVal c) = c"
  by (simp add: isDigit_def digitChar_def digitVal_def)

lemma digitVal_less: "isDigit c \<Longrightarrow> digitVal c < 10"
  by (auto simp: isDigit_def digitVal_def)

lemma parseDecimal_snoc [simp]: "parseDecimal (s @ [c]) = 10 * parseDecimal s + digitVal c"
  by (simp add: parseDecimal_def)

lemma parseDecimal_single [simp]: "parseDecimal [c] = digitVal c"
  by (simp add: parseDecimal_def)

lemma decimal_nonempty [simp]: "decimal n \<noteq> []"
  by (subst decimal.simps) simp

lemma parseDecimal_decimal [simp]: "parseDecimal (decimal n) = n"
proof (induction n rule: decimal.induct)
  case (1 n)
  then show ?case by (subst decimal.simps) auto
qed

lemma decimal_eq [simp]: "decimal m = decimal n \<longleftrightarrow> m = n"
  by (metis parseDecimal_decimal)

lemma decimal_digits: "list_all isDigit (decimal n)"
proof (induction n rule: decimal.induct)
  case (1 n)
  then show ?case by (subst decimal.simps) auto
qed

lemma decimal_leading: "0 < n \<Longrightarrow> digitVal (hd (decimal n)) \<noteq> 0"
proof (induction n rule: decimal.induct)
  case (1 n)
  show ?case
  proof (cases "n < 10")
    case True
    with 1(2) show ?thesis by (subst decimal.simps) simp
  next
    case False
    then have "digitVal (hd (decimal (n div 10))) \<noteq> 0" by (intro 1(1)) auto
    with False show ?thesis by (subst decimal.simps) simp
  qed
qed

lemma canonical_decimal [simp]: "canonicalDecimal (decimal n)"
  using decimal_digits [of n] decimal_leading [of n]
  by (cases "n = 0") (auto simp: canonicalDecimal_def allDigits_def decimal.simps [of 0])

lemma parse_positive: "list_all isDigit s \<Longrightarrow> s \<noteq> [] \<Longrightarrow> digitVal (hd s) \<noteq> 0 \<Longrightarrow> 0 < parseDecimal s"
proof (induction s rule: rev_induct)
  case (snoc c s)
  then show ?case by (cases "s = []") auto
qed simp

lemma decimal_parse_nz:
  "list_all isDigit s \<Longrightarrow> s \<noteq> [] \<Longrightarrow> digitVal (hd s) \<noteq> 0 \<Longrightarrow> decimal (parseDecimal s) = s"
proof (induction s rule: rev_induct)
  case (snoc c s)
  then have c: "isDigit c" "digitVal c < 10" by (auto simp: digitVal_less)
  show ?case
  proof (cases "s = []")
    case True
    with c show ?thesis by (simp add: decimal.simps digitChar_val)
  next
    case False
    with snoc have ih: "decimal (parseDecimal s) = s" and pos: "0 < parseDecimal s"
      by (auto intro: parse_positive)
    have "\<not> 10 * parseDecimal s + digitVal c < 10" using pos by simp
    then show ?thesis
      using c by (subst parseDecimal_snoc, subst decimal.simps) (simp add: ih digitChar_val)
  qed
qed simp

lemma decimal_parse: "canonicalDecimal s \<Longrightarrow> decimal (parseDecimal s) = s"
  using decimal_parse_nz [of s]
  by (auto simp: canonicalDecimal_def allDigits_def decimal.simps [of 0])

section \<open>Integers\<close>

definition intToString :: "int \<Rightarrow> string" where
  "intToString n = (if n < 0 then ''-'' @ decimal (nat (- n)) else decimal (nat n))"

lemma minus_not_digit: "\<not> isDigit CHR ''-''"
  by (simp add: isDigit_def)

lemma decimal_no_minus: "decimal n \<noteq> CHR ''-'' # s"
  using decimal_digits [of n] minus_not_digit by auto

lemma intToString_eq [simp]: "intToString a = intToString b \<longleftrightarrow> a = b"
  using decimal_no_minus decimal_no_minus [symmetric] by (auto simp: intToString_def)

lemma intToString_nonneg: "0 \<le> n \<Longrightarrow> intToString n = decimal (nat n)"
  by (simp add: intToString_def)

end
