(* ===== verification/Json.thy ===== *)
theory Json
  imports Decimal
begin

text \<open>
  JSON values, as \<open>JSON.parse\<close> yields them: event payloads, request bodies and bundles reach the
  code in this form. Numbers are integers; a missing property is \<open>None\<close>.
\<close>

datatype json = JNull | JBool bool | JNum int | JStr string | JArr "json list" | JObj "(string \<times> json) list"

definition jsGet :: "json \<Rightarrow> string \<Rightarrow> json option" where
  "jsGet v key = (case v of JObj fields \<Rightarrow> map_of fields key | _ \<Rightarrow> None)"

text \<open>\<open>Number(text)\<close> on the empty text and on decimal texts, the ones that events and rows carry;
  \<open>None\<close> is \<open>NaN\<close>.\<close>

definition jsNumber :: "string \<Rightarrow> int option" where
  "jsNumber s = (if s = [] then Some 0 else if allDigits s then Some (int (parseDecimal s))
     else if hd s = CHR ''-'' \<and> allDigits (tl s) then Some (- int (parseDecimal (tl s))) else None)"

text \<open>\<open>Array.prototype.join\<close>, \<open>String(value)\<close> and \<open>JSON.stringify(value)\<close>; a control character is
  written as its hexadecimal escape.\<close>

fun joinWith :: "string \<Rightarrow> string list \<Rightarrow> string" where
  "joinWith sep [] = []"
| "joinWith sep [s] = s"
| "joinWith sep (s # t # ss) = s @ sep @ joinWith sep (t # ss)"

fun jsString :: "json \<Rightarrow> string" where
  "jsString JNull = ''null''"
| "jsString (JBool b) = (if b then ''true'' else ''false'')"
| "jsString (JNum n) = intToString n"
| "jsString (JStr s) = s"
| "jsString (JArr vs) = joinWith '','' (map (\<lambda>v. if v = JNull then [] else jsString v) vs)"
| "jsString (JObj fs) = ''[object Object]''"

definition hexDigit :: "nat \<Rightarrow> char" where
  "hexDigit d = (if d < 10 then digitChar d else char_of (87 + d))"

definition escapeChar :: "char \<Rightarrow> string" where
  "escapeChar c =
     (if c = CHR 0x22 then [CHR 0x5C, CHR 0x22] else if c = CHR 0x5C then [CHR 0x5C, CHR 0x5C]
      else if c = CHR 0x08 then [CHR 0x5C, CHR ''b''] else if c = CHR 0x0C then [CHR 0x5C, CHR ''f'']
      else if c = CHR 0x0A then [CHR 0x5C, CHR ''n''] else if c = CHR 0x0D then [CHR 0x5C, CHR ''r'']
      else if c = CHR 0x09 then [CHR 0x5C, CHR ''t'']
      else if (of_char c :: nat) < 32 then CHR 0x5C # ''u00'' @ [hexDigit (of_char c div 16), hexDigit (of_char c mod 16)]
      else [c])"

definition quoteText :: "string \<Rightarrow> string" where
  "quoteText s = CHR 0x22 # concat (map escapeChar s) @ [CHR 0x22]"

fun jsonStringify :: "json \<Rightarrow> string" where
  "jsonStringify JNull = ''null''"
| "jsonStringify (JBool b) = (if b then ''true'' else ''false'')"
| "jsonStringify (JNum n) = intToString n"
| "jsonStringify (JStr s) = quoteText s"
| "jsonStringify (JArr vs) = ''['' @ joinWith '','' (map jsonStringify vs) @ '']''"
| "jsonStringify (JObj fs) = ''{'' @ joinWith '','' (map (\<lambda>(k, v). quoteText k @ '':'' @ jsonStringify v) fs) @ ''}''"

definition MAX_SAFE_INTEGER :: int where
  "MAX_SAFE_INTEGER = 2 ^ 53 - 1"

definition isSafeInteger :: "int \<Rightarrow> bool" where
  "isSafeInteger n \<longleftrightarrow> \<bar>n\<bar> \<le> MAX_SAFE_INTEGER"

lemma jsGet_simps [simp]: "jsGet (JObj fields) key = map_of fields key" "jsGet JNull key = None"
  by (simp_all add: jsGet_def)

lemma allDigits_decimal [simp]: "allDigits (decimal n)"
  by (simp add: allDigits_def decimal_digits)

lemma jsNumber_decimal [simp]: "jsNumber (decimal n) = Some (int n)"
  by (simp add: jsNumber_def)

definition isFinite :: "int option \<Rightarrow> bool" where
  "isFinite n \<longleftrightarrow> n \<noteq> None"

end
