(* ===== verification/O1js.thy ===== *)
theory O1js
  imports Prelude
begin

text \<open>
  The parameters of the model. MinaGuard is written against o1js, whose code is not part of the
  repository: the order of the field, the Poseidon hash, curve membership, signature verification,
  the Merkle map and its witnesses and the base58 text of a key are therefore arguments of every
  definition that uses them, collected in the record \<open>o1js\<close>. What the contract relies on is stated
  by the named predicates below, and \<open>baseEnv\<close> is a concrete instance that satisfies all of them.

  A field element is an \<^typ>\<open>int\<close>, arithmetic on it is reduced modulo the order. Collision
  resistance of the hash is idealised as injectivity; no bound on the range of the hash is assumed.
\<close>

section \<open>Public keys\<close>

datatype pubkey = PublicKey (pkX: field) (pkIsOdd: bool)

definition emptyKey :: pubkey where
  "emptyKey = PublicKey 0 False"

definition boolToField :: "bool \<Rightarrow> field" where
  "boolToField b = (if b then 1 else 0)"

definition keyToFields :: "pubkey \<Rightarrow> field list" where
  "keyToFields pk = [pkX pk, boolToField (pkIsOdd pk)]"

lemma boolToField_eq [simp]: "boolToField a = boolToField b \<longleftrightarrow> a = b"
  by (simp add: boolToField_def)

lemma keyToFields_eq [simp]: "keyToFields a = keyToFields b \<longleftrightarrow> a = b"
  by (cases a; cases b) (simp add: keyToFields_def)

lemma length_keyToFields [simp]: "length (keyToFields a) = 2"
  by (simp add: keyToFields_def)

section \<open>The parameters\<close>

datatype networkDomainName = Mainnet | Testnet | Devnet

record ('m, 'w, 's) o1js =
  fieldOrder :: int
  hashWithPrefix :: "string \<Rightarrow> field list \<Rightarrow> field"
  onCurve :: "field \<Rightarrow> bool"
  generatorKey :: pubkey
  verifySignature :: "'s \<Rightarrow> pubkey \<Rightarrow> field list \<Rightarrow> bool"
  emptyMap :: "'m"
  mapGet :: "'m \<Rightarrow> field \<Rightarrow> field"
  mapSet :: "'m \<Rightarrow> field \<Rightarrow> field \<Rightarrow> 'm"
  mapRoot :: "'m \<Rightarrow> field"
  mapWitness :: "'m \<Rightarrow> field \<Rightarrow> 'w"
  computeRootAndKey :: "'w \<Rightarrow> field \<Rightarrow> field \<times> field"
  toBase58 :: "pubkey \<Rightarrow> string"
  fromBase58 :: "string \<Rightarrow> pubkey option"
  networkDomainName :: networkDomainName

definition fieldAdd :: "('m, 'w, 's) o1js \<Rightarrow> field \<Rightarrow> field \<Rightarrow> field" where
  "fieldAdd E a b = (a + b) mod fieldOrder E"

definition fieldSub :: "('m, 'w, 's) o1js \<Rightarrow> field \<Rightarrow> field \<Rightarrow> field" where
  "fieldSub E a b = (a - b) mod fieldOrder E"

section \<open>What the contract relies on\<close>

definition fieldLarge :: "('m, 'w, 's) o1js \<Rightarrow> bool" where
  "fieldLarge E \<longleftrightarrow> 2 ^ 254 < fieldOrder E"

definition collisionFree :: "('m, 'w, 's) o1js \<Rightarrow> bool" where
  "collisionFree E \<longleftrightarrow> (\<forall>p q xs ys. hashWithPrefix E p xs = hashWithPrefix E q ys \<longrightarrow> p = q \<and> xs = ys)
     \<and> (\<forall>p xs. hashWithPrefix E p xs \<noteq> 0)"

definition generatorOnCurve :: "('m, 'w, 's) o1js \<Rightarrow> bool" where
  "generatorOnCurve E \<longleftrightarrow> onCurve E (pkX (generatorKey E)) \<and> \<not> onCurve E 0"

text \<open>A Merkle map reads \<open>0\<close> where nothing was written, its root depends on its leaves only, a
  witness taken from a map recomputes the root of that map with any leaf value, and no witness
  opens a root to a leaf the map does not have.\<close>

definition merkleLaws :: "('m, 'w, 's) o1js \<Rightarrow> bool" where
  "merkleLaws E \<longleftrightarrow>
     (\<forall>k. mapGet E (emptyMap E) k = 0) \<and>
     (\<forall>m k v k'. mapGet E (mapSet E m k v) k' = (if k' = k then v else mapGet E m k')) \<and>
     (\<forall>m m'. mapGet E m = mapGet E m' \<longrightarrow> mapRoot E m = mapRoot E m') \<and>
     (\<forall>m k v. computeRootAndKey E (mapWitness E m k) v = (mapRoot E (mapSet E m k v), k)) \<and>
     (\<forall>w v m k. computeRootAndKey E w v = (mapRoot E m, k) \<longrightarrow>
        mapGet E m k = v \<and> (\<forall>v'. computeRootAndKey E w v' = (mapRoot E (mapSet E m k v'), k)))"

definition base58Laws :: "('m, 'w, 's) o1js \<Rightarrow> bool" where
  "base58Laws E \<longleftrightarrow> (\<forall>pk. onCurve E (pkX pk) \<longrightarrow> fromBase58 E (toBase58 E pk) = Some pk)
     \<and> (\<forall>pk pk'. toBase58 E pk = toBase58 E pk' \<longrightarrow> pk = pk')
     \<and> (\<forall>pk. 10 < length (toBase58 E pk)) \<and> fromBase58 E (toBase58 E emptyKey) = None"

definition soundEnv :: "('m, 'w, 's) o1js \<Rightarrow> bool" where
  "soundEnv E \<longleftrightarrow> fieldLarge E \<and> collisionFree E \<and> generatorOnCurve E \<and> merkleLaws E"

lemma merkleLaws_order: "merkleLaws (E\<lparr>fieldOrder := n\<rparr>) = merkleLaws E"
  unfolding merkleLaws_def by simp

lemma base58Laws_order: "base58Laws (E\<lparr>fieldOrder := n\<rparr>) = base58Laws E"
  unfolding base58Laws_def by simp

lemma soundEnvD:
  assumes "soundEnv E"
  shows soundEnv_fieldLarge: "fieldLarge E" and soundEnv_collisionFree: "collisionFree E"
    and soundEnv_generator: "generatorOnCurve E" and soundEnv_merkle: "merkleLaws E"
  using assms by (simp_all add: soundEnv_def)

lemma hash_eq_iff:
  "collisionFree E \<Longrightarrow> hashWithPrefix E p xs = hashWithPrefix E q ys \<longleftrightarrow> p = q \<and> xs = ys"
  by (auto simp: collisionFree_def)

lemma hash_nonzero: "collisionFree E \<Longrightarrow> hashWithPrefix E p xs \<noteq> 0"
  by (simp add: collisionFree_def)

lemma fieldLarge_pos: "fieldLarge E \<Longrightarrow> 1000 < fieldOrder E"
  by (simp add: fieldLarge_def)

lemma fieldAdd_small: "0 \<le> a + b \<Longrightarrow> a + b < fieldOrder E \<Longrightarrow> fieldAdd E a b = a + b"
  by (simp add: fieldAdd_def)

lemma fieldSub_small: "0 \<le> a - b \<Longrightarrow> a - b < fieldOrder E \<Longrightarrow> fieldSub E a b = a - b"
  by (simp add: fieldSub_def)

lemma fieldAdd_range: "0 < fieldOrder E \<Longrightarrow> 0 \<le> fieldAdd E a b \<and> fieldAdd E a b < fieldOrder E"
  by (simp add: fieldAdd_def)

section \<open>Consequences of the Merkle laws\<close>

lemma mapGet_empty: "merkleLaws E \<Longrightarrow> mapGet E (emptyMap E) k = 0"
  unfolding merkleLaws_def by blast

lemma mapGet_set: "merkleLaws E \<Longrightarrow> mapGet E (mapSet E m k v) k' = (if k' = k then v else mapGet E m k')"
  unfolding merkleLaws_def by (elim conjE) (rule spec, rule spec, rule spec, erule spec)

lemma mapRoot_ext: "merkleLaws E \<Longrightarrow> mapGet E m = mapGet E m' \<Longrightarrow> mapRoot E m = mapRoot E m'"
  unfolding merkleLaws_def by blast

lemma witness_computes:
  "merkleLaws E \<Longrightarrow> computeRootAndKey E (mapWitness E m k) v = (mapRoot E (mapSet E m k v), k)"
  unfolding merkleLaws_def by blast

lemma witness_opens:
  "merkleLaws E \<Longrightarrow> computeRootAndKey E w v = (mapRoot E m, k) \<Longrightarrow> mapGet E m k = v"
  unfolding merkleLaws_def by blast

lemma witness_updates:
  "merkleLaws E \<Longrightarrow> computeRootAndKey E w v = (mapRoot E m, k) \<Longrightarrow>
     computeRootAndKey E w v' = (mapRoot E (mapSet E m k v'), k)"
  unfolding merkleLaws_def by blast

lemma mapSet_same: "merkleLaws E \<Longrightarrow> mapRoot E (mapSet E m k (mapGet E m k)) = mapRoot E m"
  by (rule mapRoot_ext) (auto simp: mapGet_set)

lemma mapRoot_binding:
  assumes "merkleLaws E" "mapRoot E m = mapRoot E m'"
  shows "mapGet E m = mapGet E m'"
proof
  fix k
  have "computeRootAndKey E (mapWitness E m k) (mapGet E m k) = (mapRoot E m', k)"
    using assms by (simp add: witness_computes mapSet_same)
  then show "mapGet E m k = mapGet E m' k"
    using assms(1) by (metis witness_opens)
qed

section \<open>A concrete instance of the parameters\<close>

text \<open>The hash is an injective numbering of its inputs, a Merkle map is an association list whose
  root numbers its non-zero leaves in key order, a witness is the map with a key.\<close>

type_synonym sampleMap = "(field \<times> field) list"

definition codeString :: "string \<Rightarrow> nat" where
  "codeString s = list_encode (map of_char s)"

definition codeFields :: "field list \<Rightarrow> nat" where
  "codeFields xs = list_encode (map int_encode xs)"

definition sampleHash :: "string \<Rightarrow> field list \<Rightarrow> field" where
  "sampleHash p xs = 1 + int (prod_encode (codeString p, codeFields xs))"

definition sampleGet :: "sampleMap \<Rightarrow> field \<Rightarrow> field" where
  "sampleGet m k = (case map_of m k of None \<Rightarrow> 0 | Some v \<Rightarrow> v)"

definition sampleSet :: "sampleMap \<Rightarrow> field \<Rightarrow> field \<Rightarrow> sampleMap" where
  "sampleSet m k v = (k, v) # m"

definition sampleLeaves :: "sampleMap \<Rightarrow> field list" where
  "sampleLeaves m = filter (\<lambda>k. sampleGet m k \<noteq> 0) (sorted_list_of_set (set (map fst m)))"

definition sampleRoot :: "sampleMap \<Rightarrow> field" where
  "sampleRoot m = 1 + int (codeFields (concat (map (\<lambda>k. [k, sampleGet m k]) (sampleLeaves m))))"

definition sampleBase58 :: "pubkey \<Rightarrow> string" where
  "sampleBase58 pk = (if pkIsOdd pk then CHR ''1'' else CHR ''0'') # replicate (10 + int_encode (pkX pk)) CHR ''z''"

definition sampleFromBase58 :: "string \<Rightarrow> pubkey option" where
  "sampleFromBase58 s = (case s of [] \<Rightarrow> None
     | c # cs \<Rightarrow> let pk = PublicKey (int_decode (length cs - 10)) (c = CHR ''1'')
        in if sampleBase58 pk = s \<and> pkX pk \<noteq> 0 then Some pk else None)"

definition baseEnv :: "(sampleMap, sampleMap \<times> field, bool) o1js" where
  "baseEnv = \<lparr> fieldOrder = 28948022309329048855892746252171976963363056481941560715954676764349967630337,
     hashWithPrefix = sampleHash,
     onCurve = (\<lambda>x. x \<noteq> 0),
     generatorKey = PublicKey 1 False,
     verifySignature = (\<lambda>s pk msg. s),
     emptyMap = [], mapGet = sampleGet, mapSet = sampleSet, mapRoot = sampleRoot,
     mapWitness = Pair,
     computeRootAndKey = (\<lambda>(m, k) v. (sampleRoot (sampleSet m k v), k)),
     toBase58 = sampleBase58, fromBase58 = sampleFromBase58,
     networkDomainName = Testnet \<rparr>"

lemma inj_of_char: "inj (of_char :: char \<Rightarrow> nat)"
  by (auto intro: injI)

lemma codeString_eq: "codeString p = codeString q \<longleftrightarrow> p = q"
  by (simp add: codeString_def list_encode_eq inj_map_eq_map inj_of_char)

lemma codeFields_eq: "codeFields xs = codeFields ys \<longleftrightarrow> xs = ys"
  by (simp add: codeFields_def list_encode_eq inj_map_eq_map inj_int_encode)

lemma sampleHash_eq: "sampleHash p xs = sampleHash q ys \<longleftrightarrow> p = q \<and> xs = ys"
  by (auto simp: sampleHash_def codeString_eq codeFields_eq)

lemma sampleGet_set: "sampleGet (sampleSet m k v) k' = (if k' = k then v else sampleGet m k')"
  by (simp add: sampleGet_def sampleSet_def)

lemma sampleGet_absent: "k \<notin> set (map fst m) \<Longrightarrow> sampleGet m k = 0"
  by (simp add: sampleGet_def map_of_eq_None_iff [THEN iffD2])

lemma set_sampleLeaves: "set (sampleLeaves m) = {k. sampleGet m k \<noteq> 0}"
  using sampleGet_absent [of _ m] by (auto simp: sampleLeaves_def)

lemma sampleLeaves_canonical: "sampleLeaves m = sorted_list_of_set {k. sampleGet m k \<noteq> 0}"
proof -
  have "sorted (sampleLeaves m)" "distinct (sampleLeaves m)"
    by (simp_all add: sampleLeaves_def sorted_wrt_filter)
  then show ?thesis
    by (metis set_sampleLeaves sorted_list_of_set.idem_if_sorted_distinct)
qed

lemma concat_pairs_eq:
  "concat (map (\<lambda>k. [k, f k]) xs) = concat (map (\<lambda>k. [k, g k]) ys) \<longleftrightarrow>
     xs = ys \<and> (\<forall>k \<in> set xs. f k = g k)"
proof (induction xs arbitrary: ys)
  case Nil
  then show ?case by (cases ys) auto
next
  case (Cons x xs)
  then show ?case by (cases ys) auto
qed

lemma sampleRoot_eq: "sampleRoot m = sampleRoot m' \<longleftrightarrow> sampleGet m = sampleGet m'"
proof
  assume "sampleRoot m = sampleRoot m'"
  then have l: "sampleLeaves m = sampleLeaves m'"
    and v: "\<forall>k \<in> set (sampleLeaves m). sampleGet m k = sampleGet m' k"
    by (simp_all add: sampleRoot_def codeFields_eq concat_pairs_eq)
  show "sampleGet m = sampleGet m'"
  proof
    fix k
    show "sampleGet m k = sampleGet m' k"
      using l v set_sampleLeaves [of m] set_sampleLeaves [of m'] by (cases "k \<in> set (sampleLeaves m)") auto
  qed
next
  assume "sampleGet m = sampleGet m'"
  then show "sampleRoot m = sampleRoot m'"
    by (simp add: sampleRoot_def sampleLeaves_canonical)
qed

lemma baseEnv_merkle: "merkleLaws baseEnv"
  unfolding merkleLaws_def baseEnv_def
proof (simp, intro conjI allI impI, goal_cases)
  case (1 k)
  show ?case by (simp add: sampleGet_def)
next
  case (2 m k v k')
  then show ?case by (simp add: sampleGet_set)
next
  case (3 m k v k')
  then show ?case by (simp add: sampleGet_set)
next
  case (4 m m')
  then show ?case by (simp add: sampleRoot_eq)
next
  case (5 w k v m)
  then have g: "sampleGet (sampleSet w k v) = sampleGet m" by (simp add: sampleRoot_eq)
  then show ?case by (metis sampleGet_set)
next
  case (6 w k v m v')
  then have g: "sampleGet (sampleSet w k v) = sampleGet m" by (simp add: sampleRoot_eq)
  have "sampleGet (sampleSet w k v') = sampleGet (sampleSet m k v')"
  proof
    fix j show "sampleGet (sampleSet w k v') j = sampleGet (sampleSet m k v') j"
      using fun_cong [OF g, of j] by (simp add: sampleGet_set split: if_splits)
  qed
  then show ?case by (simp add: sampleRoot_eq)
qed

lemma baseEnv_sound: "soundEnv baseEnv"
proof -
  have "collisionFree baseEnv"
    by (auto simp: collisionFree_def baseEnv_def sampleHash_eq) (simp add: sampleHash_def)
  moreover have "fieldLarge baseEnv" by (simp add: fieldLarge_def baseEnv_def)
  moreover have "generatorOnCurve baseEnv" by (simp add: generatorOnCurve_def baseEnv_def)
  ultimately show ?thesis by (simp add: soundEnv_def baseEnv_merkle)
qed

lemma baseEnv_base58: "base58Laws baseEnv"
proof -
  have inj: "pk = pk'" if "sampleBase58 pk = sampleBase58 pk'" for pk pk'
    using that by (cases pk; cases pk') (auto simp: sampleBase58_def int_encode_eq split: if_splits dest: arg_cong [where f = length])
  have "sampleFromBase58 (sampleBase58 pk) = Some pk" if "pkX pk \<noteq> 0" for pk
    using that by (cases pk) (simp add: sampleFromBase58_def sampleBase58_def)
  moreover have "10 < length (sampleBase58 pk)" for pk by (simp add: sampleBase58_def)
  moreover have "sampleFromBase58 (sampleBase58 emptyKey) = None"
    by (simp add: sampleFromBase58_def sampleBase58_def emptyKey_def)
  ultimately show ?thesis using inj by (auto simp: base58Laws_def baseEnv_def)
qed

end
