(* ===== verification/Constants.thy ===== *)
theory Constants
  imports O1js
begin

text \<open>
  The constants of the contract package (\<open>constants.ts\<close>), the network domain selection
  (\<open>network-domain.ts\<close>), the domain-separated commitments (\<open>hash-domains.ts\<close>) and the message an
  owner signs (\<open>proposal-signing.ts\<close>).
\<close>

section \<open>Network domain\<close>

definition parseDomain :: "string \<Rightarrow> networkDomainName option" where
  "parseDomain s = (if s = ''mainnet'' then Some Mainnet
     else if s = ''testnet'' then Some Testnet
     else if s = ''devnet'' then Some Devnet else None)"

definition resolveNetworkDomain :: "string option \<Rightarrow> string option \<Rightarrow> networkDomainName result" where
  "resolveNetworkDomain browserNetwork nodeDomain =
     require (\<not> (browserNetwork \<noteq> None \<and> nodeDomain \<noteq> None \<and> browserNetwork \<noteq> nodeDomain))
       ''NEXT_PUBLIC_MINA_NETWORK and MINA_NETWORK_DOMAIN disagree''
     (let domain = (case browserNetwork of None \<Rightarrow> nodeDomain | Some b \<Rightarrow> Some b)
      in case Option.bind domain parseDomain of
           None \<Rightarrow> Inl (AssertFail ''Set NEXT_PUBLIC_MINA_NETWORK or MINA_NETWORK_DOMAIN to mainnet, testnet, or devnet'')
         | Some d \<Rightarrow> Inr d)"

fun NETWORK_DOMAIN_IDS :: "networkDomainName \<Rightarrow> field" where
  "NETWORK_DOMAIN_IDS Mainnet = 1"
| "NETWORK_DOMAIN_IDS Testnet = 2"
| "NETWORK_DOMAIN_IDS Devnet = 2"

definition NETWORK_DOMAIN :: "('m, 'w, 's) o1js \<Rightarrow> field" where
  "NETWORK_DOMAIN E = NETWORK_DOMAIN_IDS (networkDomainName E)"

section \<open>Constants\<close>

definition MAX_OWNERS :: nat where
  "MAX_OWNERS = 20"

definition MAX_RECEIVERS :: nat where
  "MAX_RECEIVERS = 9"

definition NATIVE_TOKEN_ID :: field where
  "NATIVE_TOKEN_ID = 1"

definition INITIAL_OWNER_CHAIN :: "('m, 'w, 's) o1js \<Rightarrow> field" where
  "INITIAL_OWNER_CHAIN E = hashWithPrefix E ''owner-chain'' []"

definition PROPOSED_MARKER :: field where
  "PROPOSED_MARKER = 1"

definition EXECUTED_MARKER :: "('m, 'w, 's) o1js \<Rightarrow> field" where
  "EXECUTED_MARKER E = fieldSub E 0 1"

definition EMPTY_MERKLE_MAP_ROOT :: "('m, 'w, 's) o1js \<Rightarrow> field" where
  "EMPTY_MERKLE_MAP_ROOT E = mapRoot E (emptyMap E)"

datatype txType = TRANSFER | ADD_OWNER | REMOVE_OWNER | CHANGE_THRESHOLD | SET_DELEGATE
  | CREATE_CHILD | ALLOCATE_CHILD | RECLAIM_CHILD | DESTROY_CHILD | ENABLE_CHILD_MULTI_SIG

fun TxType :: "txType \<Rightarrow> field" where
  "TxType TRANSFER = 0"
| "TxType ADD_OWNER = 1"
| "TxType REMOVE_OWNER = 2"
| "TxType CHANGE_THRESHOLD = 3"
| "TxType SET_DELEGATE = 4"
| "TxType CREATE_CHILD = 5"
| "TxType ALLOCATE_CHILD = 6"
| "TxType RECLAIM_CHILD = 7"
| "TxType DESTROY_CHILD = 8"
| "TxType ENABLE_CHILD_MULTI_SIG = 9"

datatype destination = LOCAL | REMOTE

fun Destination :: "destination \<Rightarrow> field" where
  "Destination LOCAL = 0"
| "Destination REMOTE = 1"

section \<open>Domain-separated commitments\<close>

definition ownerChainLink :: "('m, 'w, 's) o1js \<Rightarrow> field \<Rightarrow> pubkey \<Rightarrow> field" where
  "ownerChainLink E previous owner =
     hashWithPrefix E ''owner-link'' [previous, pkX owner, boolToField (pkIsOdd owner)]"

definition voteNullifierKey :: "('m, 'w, 's) o1js \<Rightarrow> field \<Rightarrow> pubkey \<Rightarrow> field" where
  "voteNullifierKey E proposalHash owner =
     hashWithPrefix E ''vote-nullifier'' (proposalHash # keyToFields owner)"

definition childConfigHash :: "('m, 'w, 's) o1js \<Rightarrow> field \<Rightarrow> field \<Rightarrow> field \<Rightarrow> field" where
  "childConfigHash E ownersCommitment threshold numOwners =
     hashWithPrefix E ''child-config'' [ownersCommitment, threshold, numOwners]"

definition PROPOSAL_HASH_PREFIX :: string where
  "PROPOSAL_HASH_PREFIX = ''mina-guard-proposal''"

definition MEMO_HASH_PREFIX :: string where
  "MEMO_HASH_PREFIX = ''mina-guard-memo''"

datatype signingAction = ActPropose | ActApprove

definition proposalSigningMessage :: "('m, 'w, 's) o1js \<Rightarrow> field \<Rightarrow> signingAction \<Rightarrow> field" where
  "proposalSigningMessage E proposalHash action =
     hashWithPrefix E (case action of ActPropose \<Rightarrow> ''mina-guard-propose'' | ActApprove \<Rightarrow> ''mina-guard-approve'')
       [proposalHash]"

section \<open>Lemmas\<close>

lemma TxType_eq [simp]: "TxType a = TxType b \<longleftrightarrow> a = b"
  by (cases a; cases b) simp_all

lemma Destination_eq [simp]: "Destination a = Destination b \<longleftrightarrow> a = b"
  by (cases a; cases b) simp_all

lemma EXECUTED_MARKER_eq: "fieldLarge E \<Longrightarrow> EXECUTED_MARKER E = fieldOrder E - 1"
  using fieldLarge_pos [of E] by (simp add: EXECUTED_MARKER_def fieldSub_def zmod_minus1)

lemma ownerChainLink_eq:
  "collisionFree E \<Longrightarrow> ownerChainLink E c a = ownerChainLink E d b \<longleftrightarrow> c = d \<and> a = b"
  by (cases a; cases b) (auto simp: ownerChainLink_def hash_eq_iff)

lemma ownerChainLink_not_initial:
  "collisionFree E \<Longrightarrow> ownerChainLink E c a \<noteq> INITIAL_OWNER_CHAIN E"
  by (simp add: ownerChainLink_def INITIAL_OWNER_CHAIN_def hash_eq_iff)

lemma voteNullifierKey_eq:
  "collisionFree E \<Longrightarrow> voteNullifierKey E h a = voteNullifierKey E h' b \<longleftrightarrow> h = h' \<and> a = b"
  by (simp add: voteNullifierKey_def hash_eq_iff)

lemma childConfigHash_eq:
  "collisionFree E \<Longrightarrow> childConfigHash E c t n = childConfigHash E c' t' n' \<longleftrightarrow> c = c' \<and> t = t' \<and> n = n'"
  by (simp add: childConfigHash_def hash_eq_iff)

lemma proposalSigningMessage_eq:
  "collisionFree E \<Longrightarrow>
     proposalSigningMessage E h a = proposalSigningMessage E h' b \<longleftrightarrow> h = h' \<and> a = b"
  by (cases a; cases b) (simp_all add: proposalSigningMessage_def hash_eq_iff)

end
