(* ===== verification/Owner_List.thy ===== *)
theory Owner_List
  imports Constants
begin

text \<open>
  The owner-list commitment (\<open>list-commitment.ts\<close>): the hash chain over the owners, the coherence
  check on a setup owner array, and the membership, insertion and removal circuits that recompute
  the chain from an array of optional keys. Every circuit is a fold over the witness array, written
  as a recursion with the loop variables as arguments. The lemmas relate each circuit to the plain
  list operation it stands for.
\<close>

section \<open>Witness arrays\<close>

record pkOption =
  pkValue :: pubkey
  pkSome :: bool

definition pkNone :: pkOption where
  "pkNone = \<lparr>pkValue = emptyKey, pkSome = False\<rparr>"

definition pkJust :: "pubkey \<Rightarrow> pkOption" where
  "pkJust pk = \<lparr>pkValue = pk, pkSome = True\<rparr>"

type_synonym ownerWitness = "pkOption list"

text \<open>The owners a witness array claims, in order.\<close>

definition witnessOwners :: "ownerWitness \<Rightarrow> pubkey list" where
  "witnessOwners w = map pkValue (filter pkSome w)"

section \<open>The circuits\<close>

definition computeOwnerChain :: "('m, 'w, 's) o1js \<Rightarrow> pubkey list \<Rightarrow> field" where
  "computeOwnerChain E owners = foldl (ownerChainLink E) (INITIAL_OWNER_CHAIN E) owners"

fun setupChainLoop :: "('m, 'w, 's) o1js \<Rightarrow> nat \<Rightarrow> field \<Rightarrow> pubkey list \<Rightarrow> field \<Rightarrow> field" where
  "setupChainLoop E i currentChain [] numOwners = currentChain"
| "setupChainLoop E i currentChain (pk # rest) numOwners =
     (let active = int i < numOwners;
          nxt = ownerChainLink E currentChain pk
      in setupChainLoop E (Suc i) (if active then nxt else currentChain) rest numOwners)"

definition computeSetupOwnersChain :: "('m, 'w, 's) o1js \<Rightarrow> pubkey list \<Rightarrow> field \<Rightarrow> field" where
  "computeSetupOwnersChain E owners numOwners = setupChainLoop E 0 (INITIAL_OWNER_CHAIN E) owners numOwners"

definition ON_CURVE_KEY :: "('m, 'w, 's) o1js \<Rightarrow> pubkey" where
  "ON_CURVE_KEY E = generatorKey E"

definition assertOnCurveIf :: "('m, 'w, 's) o1js \<Rightarrow> bool \<Rightarrow> pubkey \<Rightarrow> 'a result \<Rightarrow> 'a result" where
  "assertOnCurveIf E check pk k =
     require (onCurve E (pkX (if check then pk else ON_CURVE_KEY E))) ''not a curve point'' k"

fun dedupLoop :: "nat \<Rightarrow> nat \<Rightarrow> pubkey \<Rightarrow> pubkey list \<Rightarrow> field \<Rightarrow> unit result" where
  "dedupLoop i j pk [] numOwners = Inr ()"
| "dedupLoop i j pk (q # qs) numOwners =
     require (\<not> (pkX pk = pkX q \<and> int i < numOwners \<and> int j < numOwners)) ''Duplicate owner in setup list''
     (dedupLoop i (Suc j) pk qs numOwners)"

fun coherentLoop :: "('m, 'w, 's) o1js \<Rightarrow> nat \<Rightarrow> pubkey list \<Rightarrow> field \<Rightarrow> unit result" where
  "coherentLoop E i [] numOwners = Inr ()"
| "coherentLoop E i (pk # rest) numOwners =
     (let active = int i < numOwners;
          isEmpty = (pk = emptyKey)
      in require (active \<or> isEmpty) ''Padding slot must be empty''
        (require (\<not> (active \<and> isEmpty)) ''Active owner must be non-empty''
        (assertOnCurveIf E active pk
        (andThen (dedupLoop i (Suc i) pk rest numOwners) (\<lambda>_.
         coherentLoop E (Suc i) rest numOwners)))))"

definition assertCoherentSetupOwners :: "('m, 'w, 's) o1js \<Rightarrow> pubkey list \<Rightarrow> field \<Rightarrow> unit result" where
  "assertCoherentSetupOwners E owners numOwners = coherentLoop E 0 owners numOwners"

fun membershipLoop :: "('m, 'w, 's) o1js \<Rightarrow> pubkey \<Rightarrow> bool \<Rightarrow> field \<Rightarrow> ownerWitness \<Rightarrow> bool \<times> field" where
  "membershipLoop E claimedOwner found currentChain [] = (found, currentChain)"
| "membershipLoop E claimedOwner found currentChain (w # ws) =
     (let newChain = ownerChainLink E currentChain (pkValue w)
      in membershipLoop E claimedOwner
           (if claimedOwner = pkValue w \<and> pkSome w then True else found)
           (if pkSome w then newChain else currentChain) ws)"

definition assertOwnerMembership ::
  "('m, 'w, 's) o1js \<Rightarrow> field \<Rightarrow> pubkey \<Rightarrow> ownerWitness \<Rightarrow> unit result" where
  "assertOwnerMembership E ownerCommitment claimedOwner ownersWitness =
     (let (found, currentChain) = membershipLoop E claimedOwner False (INITIAL_OWNER_CHAIN E) ownersWitness
      in require found ''Claimed owner not a member of owners.''
        (require (currentChain = ownerCommitment) ''Owner list mismatch''
        (Inr ())))"

record addLoopState =
  alCurrent :: field
  alNew :: field
  alFoundOwner :: bool
  alFoundPosition :: bool

definition addLoopStep ::
  "('m, 'w, 's) o1js \<Rightarrow> pubkey \<Rightarrow> pkOption \<Rightarrow> addLoopState \<Rightarrow> pkOption \<Rightarrow> addLoopState" where
  "addLoopStep E ownerToAdd insertAfter s w =
     (let pk = pkValue w; isSome = pkSome w;
          currentChain = (if isSome then ownerChainLink E (alCurrent s) pk else alCurrent s);
          newChain = (if isSome then ownerChainLink E (alNew s) pk else alNew s);
          toAdd = ownerChainLink E newChain ownerToAdd;
          isPosition = (pk = pkValue insertAfter \<and> isSome \<and> pkSome insertAfter)
      in \<lparr> alCurrent = currentChain,
           alNew = (if isPosition then toAdd else newChain),
           alFoundOwner = (if pkX pk = pkX ownerToAdd \<and> isSome then True else alFoundOwner s),
           alFoundPosition = (if isPosition then True else alFoundPosition s) \<rparr>)"

definition addOwnerToCommitment ::
  "('m, 'w, 's) o1js \<Rightarrow> field \<Rightarrow> pubkey \<Rightarrow> ownerWitness \<Rightarrow> pkOption \<Rightarrow> field \<times> bool" where
  "addOwnerToCommitment E ownerCommitment ownerToAdd ownersWitness insertAfter =
     (let prepend = \<not> pkSome insertAfter;
          prependHash = ownerChainLink E (INITIAL_OWNER_CHAIN E) ownerToAdd;
          s = foldl (addLoopStep E ownerToAdd insertAfter)
                \<lparr> alCurrent = INITIAL_OWNER_CHAIN E,
                  alNew = (if prepend then prependHash else INITIAL_OWNER_CHAIN E),
                  alFoundOwner = False, alFoundPosition = prepend \<rparr> ownersWitness
      in (alNew s, \<not> alFoundOwner s \<and> alFoundPosition s \<and> alCurrent s = ownerCommitment))"

record removeLoopState =
  rlCurrent :: field
  rlNew :: field
  rlFoundOwner :: bool
  rlRemaining :: field

definition removeLoopStep ::
  "('m, 'w, 's) o1js \<Rightarrow> pubkey \<Rightarrow> removeLoopState \<Rightarrow> pkOption \<Rightarrow> removeLoopState" where
  "removeLoopStep E ownerToRemove s w =
     (let pk = pkValue w; isSome = pkSome w;
          isPosition = (pk = ownerToRemove \<and> isSome)
      in \<lparr> rlCurrent = (if isSome then ownerChainLink E (rlCurrent s) pk else rlCurrent s),
           rlNew = (if isSome \<and> \<not> isPosition then ownerChainLink E (rlNew s) pk else rlNew s),
           rlFoundOwner = (if isPosition then True else rlFoundOwner s),
           rlRemaining = fieldAdd E (rlRemaining s) (boolToField (isSome \<and> \<not> isPosition)) \<rparr>)"

definition removeOwnerFromCommitment ::
  "('m, 'w, 's) o1js \<Rightarrow> field \<Rightarrow> pubkey \<Rightarrow> ownerWitness \<Rightarrow> field \<times> bool" where
  "removeOwnerFromCommitment E ownerCommitment ownerToRemove ownersWitness =
     (let s = foldl (removeLoopStep E ownerToRemove)
                \<lparr> rlCurrent = INITIAL_OWNER_CHAIN E, rlNew = INITIAL_OWNER_CHAIN E,
                  rlFoundOwner = False, rlRemaining = 0 \<rparr> ownersWitness
      in (rlNew s, rlFoundOwner s \<and> rlCurrent s = ownerCommitment \<and> rlRemaining s > 0))"

section \<open>The chain commits to the list\<close>

lemma foldl_chain_eq:
  assumes "collisionFree E"
  shows "foldl (ownerChainLink E) (INITIAL_OWNER_CHAIN E) xs
       = foldl (ownerChainLink E) (INITIAL_OWNER_CHAIN E) ys \<longleftrightarrow> xs = ys"
proof (induction xs arbitrary: ys rule: rev_induct)
  case Nil
  show ?case
    by (cases ys rule: rev_cases) (auto simp: ownerChainLink_not_initial [OF assms, symmetric])
next
  case (snoc x xs)
  then show ?case
    by (cases ys rule: rev_cases) (auto simp: ownerChainLink_not_initial [OF assms] ownerChainLink_eq [OF assms])
qed

lemma computeOwnerChain_eq:
  "collisionFree E \<Longrightarrow> computeOwnerChain E xs = computeOwnerChain E ys \<longleftrightarrow> xs = ys"
  by (simp add: computeOwnerChain_def foldl_chain_eq)

lemma computeOwnerChain_nonzero: "collisionFree E \<Longrightarrow> computeOwnerChain E xs \<noteq> 0"
  by (cases xs rule: rev_cases)
    (simp_all add: computeOwnerChain_def INITIAL_OWNER_CHAIN_def ownerChainLink_def hash_nonzero)

section \<open>Setup arrays\<close>

definition activeOwners :: "pubkey list \<Rightarrow> field \<Rightarrow> pubkey list" where
  "activeOwners owners numOwners = take (nat numOwners) owners"

lemma setupChainLoop_take:
  "setupChainLoop E i c owners n = foldl (ownerChainLink E) c (take (nat n - i) owners)"
proof (induction owners arbitrary: i c)
  case (Cons pk rest)
  then show ?case
    by (cases "int i < n") (auto simp: Let_def nat_less_iff Suc_diff_Suc take_Cons' zless_nat_eq_int_zless)
qed simp

lemma computeSetupOwnersChain_active:
  "computeSetupOwnersChain E owners n = computeOwnerChain E (activeOwners owners n)"
  by (simp add: computeSetupOwnersChain_def computeOwnerChain_def activeOwners_def setupChainLoop_take)


text \<open>What a coherent owner list is: no two owners share an x-coordinate (a key and its negation
  have one secret), and every owner is a point of the curve that can sign.\<close>

definition validOwnerList :: "('m, 'w, 's) o1js \<Rightarrow> pubkey list \<Rightarrow> bool" where
  "validOwnerList E xs \<longleftrightarrow>
     distinct (map pkX xs) \<and> (\<forall>pk \<in> set xs. pk \<noteq> emptyKey \<and> onCurve E (pkX pk))"

lemma validOwnerList_distinct: "validOwnerList E xs \<Longrightarrow> distinct xs"
  by (simp add: validOwnerList_def distinct_map)

lemma assertOnCurveIf_Inr:
  "generatorOnCurve E \<Longrightarrow> assertOnCurveIf E c pk k = Inr r \<longleftrightarrow> (c \<longrightarrow> onCurve E (pkX pk)) \<and> k = Inr r"
  by (auto simp: assertOnCurveIf_def ON_CURVE_KEY_def generatorOnCurve_def)

lemma dedupLoop_Inr:
  "dedupLoop i j pk qs n = Inr () \<longleftrightarrow> (int i < n \<longrightarrow> pkX pk \<notin> pkX ` set (take (nat n - j) qs))"
proof (induction qs arbitrary: j)
  case (Cons q qs)
  have "nat n - j = (if int j < n then Suc (nat n - Suc j) else 0)" by auto
  with Cons show ?case by auto
qed simp

lemma coherentLoop_Inr:
  assumes "generatorOnCurve E"
  shows "coherentLoop E i owners n = Inr () \<longleftrightarrow>
    validOwnerList E (take (nat n - i) owners) \<and> (\<forall>pk \<in> set (drop (nat n - i) owners). pk = emptyKey)"
proof (induction owners arbitrary: i)
  case Nil
  show ?case by (simp add: validOwnerList_def)
next
  case (Cons pk rest)
  have "nat n - i = (if int i < n then Suc (nat n - Suc i) else 0)" by auto
  with Cons show ?case
    by (auto simp: Let_def assertOnCurveIf_Inr [OF assms] dedupLoop_Inr validOwnerList_def)
qed

lemma assertCoherentSetupOwners_Inr:
  "generatorOnCurve E \<Longrightarrow> assertCoherentSetupOwners E owners n = Inr () \<longleftrightarrow>
     validOwnerList E (activeOwners owners n) \<and> (\<forall>pk \<in> set (drop (nat n) owners). pk = emptyKey)"
  by (simp add: assertCoherentSetupOwners_def coherentLoop_Inr activeOwners_def)

lemma coherent_length:
  assumes "assertCoherentSetupOwners E owners n = Inr ()" "0 \<le> n" "n \<le> int (length owners)"
  shows "int (length (activeOwners owners n)) = n"
  using assms by (simp add: activeOwners_def)

section \<open>Witness arrays\<close>

lemma witnessOwners_simps [simp]:
  "witnessOwners [] = []"
  "witnessOwners (w # ws) = (if pkSome w then pkValue w # witnessOwners ws else witnessOwners ws)"
  by (simp_all add: witnessOwners_def)

lemma length_witnessOwners: "length (witnessOwners ws) \<le> length ws"
  by (simp add: witnessOwners_def)

lemma membershipLoop_eq:
  "membershipLoop E c f ch ws =
     (f \<or> c \<in> set (witnessOwners ws), foldl (ownerChainLink E) ch (witnessOwners ws))"
  by (induction ws arbitrary: f ch) (auto simp: Let_def)

lemma assertOwnerMembership_Inr:
  "assertOwnerMembership E commitment claimed ws = Inr () \<longleftrightarrow>
     claimed \<in> set (witnessOwners ws) \<and> computeOwnerChain E (witnessOwners ws) = commitment"
  by (simp add: assertOwnerMembership_def membershipLoop_eq computeOwnerChain_def)

lemma membership_sound:
  assumes "collisionFree E" "assertOwnerMembership E (computeOwnerChain E owners) claimed ws = Inr ()"
  shows "claimed \<in> set owners"
  using assms by (auto simp: assertOwnerMembership_Inr computeOwnerChain_eq)

section \<open>Insertion and removal\<close>

definition insertOwner :: "pubkey \<Rightarrow> pkOption \<Rightarrow> pubkey list \<Rightarrow> pubkey list" where
  "insertOwner a after xs = (if pkSome after then insertBehind (pkValue after) a xs else a # xs)"

lemma addLoop_eq:
  "foldl (addLoopStep E a after) s ws = \<lparr>
     alCurrent = foldl (ownerChainLink E) (alCurrent s) (witnessOwners ws),
     alNew = foldl (ownerChainLink E) (alNew s)
       (if pkSome after then insertBehind (pkValue after) a (witnessOwners ws) else witnessOwners ws),
     alFoundOwner = (alFoundOwner s \<or> pkX a \<in> pkX ` set (witnessOwners ws)),
     alFoundPosition = (alFoundPosition s \<or> pkSome after \<and> pkValue after \<in> set (witnessOwners ws)) \<rparr>"
  by (induction ws arbitrary: s) (auto simp: addLoopStep_def Let_def)

lemma addOwnerToCommitment_eq:
  "addOwnerToCommitment E c a ws after =
     (computeOwnerChain E (insertOwner a after (witnessOwners ws)),
      pkX a \<notin> pkX ` set (witnessOwners ws) \<and>
      (pkSome after \<longrightarrow> pkValue after \<in> set (witnessOwners ws)) \<and>
      computeOwnerChain E (witnessOwners ws) = c)"
  by (auto simp: addOwnerToCommitment_def addLoop_eq Let_def computeOwnerChain_def insertOwner_def)

lemma removeLoop_eq:
  assumes "0 < fieldOrder E" "0 \<le> rlRemaining s" "rlRemaining s + int (length ws) < fieldOrder E"
  shows "foldl (removeLoopStep E r) s ws = \<lparr>
     rlCurrent = foldl (ownerChainLink E) (rlCurrent s) (witnessOwners ws),
     rlNew = foldl (ownerChainLink E) (rlNew s) (filter (\<lambda>q. q \<noteq> r) (witnessOwners ws)),
     rlFoundOwner = (rlFoundOwner s \<or> r \<in> set (witnessOwners ws)),
     rlRemaining = rlRemaining s + int (length (filter (\<lambda>q. q \<noteq> r) (witnessOwners ws))) \<rparr>"
  using assms
proof (induction ws arbitrary: s)
  case (Cons w ws)
  have "rlRemaining (removeLoopStep E r s w)
      = rlRemaining s + (if pkSome w \<and> pkValue w \<noteq> r then 1 else 0)"
    using Cons.prems by (auto simp: removeLoopStep_def Let_def fieldAdd_def boolToField_def)
  with Cons show ?case
    by (auto simp: removeLoopStep_def Let_def)
qed simp

lemma removeOwnerFromCommitment_eq:
  assumes "int (length ws) < fieldOrder E"
  shows "removeOwnerFromCommitment E c r ws =
     (computeOwnerChain E (filter (\<lambda>q. q \<noteq> r) (witnessOwners ws)),
      r \<in> set (witnessOwners ws) \<and> computeOwnerChain E (witnessOwners ws) = c \<and>
      filter (\<lambda>q. q \<noteq> r) (witnessOwners ws) \<noteq> [])"
proof -
  have "0 < fieldOrder E" using assms by linarith
  then show ?thesis
    using assms by (simp add: removeOwnerFromCommitment_def removeLoop_eq Let_def computeOwnerChain_def)
qed

lemma insertOwner_valid:
  assumes "validOwnerList E xs" "a \<noteq> emptyKey" "onCurve E (pkX a)" "pkX a \<notin> pkX ` set xs"
    and "pkSome after \<longrightarrow> pkValue after \<in> set xs"
  shows "validOwnerList E (insertOwner a after xs)"
    and "length (insertOwner a after xs) = Suc (length xs)"
  using assms validOwnerList_distinct [OF assms(1)]
  by (auto simp: validOwnerList_def insertOwner_def distinct_map_insertBehind set_insertBehind
        length_insertBehind count_list_distinct)

lemma removeOwner_valid:
  assumes "validOwnerList E xs" "r \<in> set xs"
  shows "validOwnerList E (filter (\<lambda>q. q \<noteq> r) xs)"
    and "length (filter (\<lambda>q. q \<noteq> r) xs) = length xs - 1"
  using assms validOwnerList_distinct [OF assms(1)]
  by (auto simp: validOwnerList_def distinct_map_filter' length_filter_neq_distinct)

end
