(* ===== verification/Owner_Store.thy ===== *)
theory Owner_Store
  imports Owner_List Decimal "HOL-Library.List_Lexorder" "HOL-Library.Char_ord" "HOL-Library.Multiset"
begin

text \<open>
  The off-chain owner list (\<open>OwnerStore\<close> in \<open>storage.ts\<close>). Keys are compared through their base58
  text, so the order is the lexicographic order of strings. The lemmas show that the store and the
  circuits of \<open>list-commitment.ts\<close> agree: what the store predicts is what the contract accepts.
\<close>

section \<open>Field elements as text\<close>

definition fieldToString :: "field \<Rightarrow> string" where
  "fieldToString f = intToString f"

definition fieldFromString :: "('m, 'w, 's) o1js \<Rightarrow> string \<Rightarrow> field" where
  "fieldFromString E s = int (parseDecimal s) mod fieldOrder E"

definition inField :: "('m, 'w, 's) o1js \<Rightarrow> field \<Rightarrow> bool" where
  "inField E f \<longleftrightarrow> 0 \<le> f \<and> f < fieldOrder E"

lemma fieldFromString_toString [simp]: "inField E f \<Longrightarrow> fieldFromString E (fieldToString f) = f"
  by (simp add: fieldFromString_def fieldToString_def inField_def intToString_nonneg)

lemma fieldToString_eq [simp]: "fieldToString a = fieldToString b \<longleftrightarrow> a = b"
  by (simp add: fieldToString_def)

lemma fieldToString_decimal: "0 \<le> f \<Longrightarrow> fieldToString f = decimal (nat f)"
  by (simp add: fieldToString_def intToString_nonneg)

section \<open>The operations\<close>

fun findIndex :: "('a \<Rightarrow> bool) \<Rightarrow> 'a list \<Rightarrow> nat option" where
  "findIndex P [] = None"
| "findIndex P (x # xs) = (if P x then Some 0 else map_option Suc (findIndex P xs))"

definition spliceAt :: "nat \<Rightarrow> 'a \<Rightarrow> 'a list \<Rightarrow> 'a list" where
  "spliceAt i x xs = take i xs @ x # drop i xs"

definition addSorted :: "('m, 'w, 's) o1js \<Rightarrow> pubkey list \<Rightarrow> pubkey \<Rightarrow> pubkey list" where
  "addSorted E owners owner =
     (case findIndex (\<lambda>o'. toBase58 E o' > toBase58 E owner) owners of
       None \<Rightarrow> owners @ [owner] | Some idx \<Rightarrow> spliceAt idx owner owners)"

definition sortedPredecessor :: "('m, 'w, 's) o1js \<Rightarrow> pubkey list \<Rightarrow> pubkey \<Rightarrow> pubkey option" where
  "sortedPredecessor E owners target =
     foldl (\<lambda>pred o'. if toBase58 E o' < toBase58 E target then Some o' else pred) None owners"

definition insertAfter ::
  "('m, 'w, 's) o1js \<Rightarrow> pubkey list \<Rightarrow> pubkey \<Rightarrow> pubkey option \<Rightarrow> pubkey list result" where
  "insertAfter E owners owner afterOwner = (case afterOwner of
       None \<Rightarrow> Inr (owner # owners)
     | Some after \<Rightarrow> (case findIndex (\<lambda>o'. toBase58 E o' = toBase58 E after) owners of
           None \<Rightarrow> Inl (AssertFail ''afterOwner not found'')
         | Some idx \<Rightarrow> Inr (spliceAt (idx + 1) owner owners)))"

definition removeOwner :: "('m, 'w, 's) o1js \<Rightarrow> pubkey list \<Rightarrow> pubkey \<Rightarrow> pubkey list" where
  "removeOwner E owners owner = filter (\<lambda>o'. toBase58 E o' \<noteq> toBase58 E owner) owners"

definition isOwner :: "('m, 'w, 's) o1js \<Rightarrow> pubkey list \<Rightarrow> pubkey \<Rightarrow> bool" where
  "isOwner E owners owner = list_ex (\<lambda>o'. toBase58 E o' = toBase58 E owner) owners"

definition hasOwnerWithSameX :: "pubkey list \<Rightarrow> pubkey \<Rightarrow> bool" where
  "hasOwnerWithSameX owners owner = list_ex (\<lambda>o'. pkX o' = pkX owner) owners"

definition getCommitment :: "('m, 'w, 's) o1js \<Rightarrow> pubkey list \<Rightarrow> field" where
  "getCommitment E owners = computeOwnerChain E owners"

fun insertSearch :: "(nat \<Rightarrow> bool) \<Rightarrow> nat \<Rightarrow> nat list \<Rightarrow> nat option" where
  "insertSearch matches preferred [] = None"
| "insertSearch matches preferred (i # is) =
     (if i \<noteq> preferred \<and> matches i then Some i else insertSearch matches preferred is)"

definition insertPositionFor :: "('m, 'w, 's) o1js \<Rightarrow> pubkey list \<Rightarrow> pubkey \<Rightarrow> string \<Rightarrow> nat option" where
  "insertPositionFor E owners owner target =
     (let matches = (\<lambda>i. fieldToString (computeOwnerChain E (spliceAt i owner owners)) = target);
          preferred = (case findIndex (\<lambda>o'. toBase58 E o' > toBase58 E owner) owners of
             None \<Rightarrow> length owners | Some i \<Rightarrow> i)
      in if matches preferred then Some preferred
         else insertSearch matches preferred [0..<Suc (length owners)])"

definition commitmentWithSortedAdd :: "('m, 'w, 's) o1js \<Rightarrow> pubkey list \<Rightarrow> pubkey \<Rightarrow> field" where
  "commitmentWithSortedAdd E owners owner = getCommitment E (addSorted E owners owner)"

definition getOwnerWitness :: "pubkey list \<Rightarrow> ownerWitness" where
  "getOwnerWitness owners = map pkJust owners @ replicate (MAX_OWNERS - length owners) pkNone"

text \<open>The serialised form is the JSON list of base58 keys.\<close>

definition serializeOwners :: "('m, 'w, 's) o1js \<Rightarrow> pubkey list \<Rightarrow> string list" where
  "serializeOwners E owners = map (toBase58 E) owners"

fun deserializeOwners :: "('m, 'w, 's) o1js \<Rightarrow> string list \<Rightarrow> pubkey list result" where
  "deserializeOwners E [] = Inr []"
| "deserializeOwners E (s # rest) = (case fromBase58 E s of
       None \<Rightarrow> Inl (AssertFail ''PublicKey.fromBase58'')
     | Some pk \<Rightarrow> andThen (deserializeOwners E rest) (\<lambda>pks. Inr (pk # pks)))"

section \<open>Search and spliceAt\<close>

lemma findIndex_None: "findIndex P xs = None \<longleftrightarrow> (\<forall>x \<in> set xs. \<not> P x)"
  by (induction xs) auto

lemma findIndex_split:
  "findIndex P xs = Some i \<Longrightarrow> \<exists>ys x zs. xs = ys @ x # zs \<and> length ys = i \<and> P x \<and> (\<forall>y \<in> set ys. \<not> P y)"
proof (induction xs arbitrary: i)
  case (Cons a xs)
  show ?case
  proof (cases "P a")
    case True
    with Cons.prems show ?thesis by (intro exI [of _ "[]"]) auto
  next
    case False
    with Cons.prems obtain j where "findIndex P xs = Some j" "i = Suc j" by auto
    with Cons.IH obtain ys x zs where "xs = ys @ x # zs" "length ys = j" "P x" "\<forall>y \<in> set ys. \<not> P y" by blast
    with False \<open>i = Suc j\<close> show ?thesis by (intro exI [of _ "a # ys"] exI [of _ x] exI [of _ zs]) auto
  qed
qed simp

lemma spliceAt_append [simp]: "spliceAt (length ys) x (ys @ zs) = ys @ x # zs"
  by (simp add: spliceAt_def)

lemma length_spliceAt [simp]: "length (spliceAt i x xs) = Suc (length xs)"
  by (simp add: spliceAt_def)

text \<open>What \<open>addSorted\<close> does to a list: it splits it before the first larger key.\<close>

lemma addSorted_split:
  obtains ys zs where "owners = ys @ zs" "addSorted E owners owner = ys @ owner # zs"
    "\<forall>y \<in> set ys. toBase58 E y \<le> toBase58 E owner" "zs \<noteq> [] \<longrightarrow> toBase58 E owner < toBase58 E (hd zs)"
proof (cases "findIndex (\<lambda>o'. toBase58 E o' > toBase58 E owner) owners")
  case None
  then have "\<forall>y \<in> set owners. toBase58 E y \<le> toBase58 E owner" by (simp add: findIndex_None not_less)
  with None show ?thesis by (intro that [of owners "[]"]) (auto simp: addSorted_def)
next
  case (Some i)
  from findIndex_split [OF Some] obtain ys x zs where
    "owners = ys @ x # zs" "length ys = i" "toBase58 E x > toBase58 E owner"
    "\<forall>y \<in> set ys. \<not> toBase58 E y > toBase58 E owner" by blast
  then show ?thesis using Some
    by (intro that [of ys "x # zs"]) (auto simp: addSorted_def not_less simp flip: spliceAt_append)
qed

definition sortedOwners :: "('m, 'w, 's) o1js \<Rightarrow> pubkey list \<Rightarrow> bool" where
  "sortedOwners E owners \<longleftrightarrow> sorted_wrt (\<lambda>a b. toBase58 E a < toBase58 E b) owners"

lemma base58_inj: "base58Laws E \<Longrightarrow> toBase58 E a = toBase58 E b \<longleftrightarrow> a = b"
  by (auto simp: base58Laws_def)

lemma mset_addSorted: "mset (addSorted E owners owner) = add_mset owner (mset owners)"
  by (rule addSorted_split [of owners E owner]) auto

lemma addSorted_sorted:
  assumes "base58Laws E" "sortedOwners E owners" "owner \<notin> set owners"
  shows "sortedOwners E (addSorted E owners owner)"
proof -
  obtain ys zs where s: "owners = ys @ zs" "addSorted E owners owner = ys @ owner # zs"
    "\<forall>y \<in> set ys. toBase58 E y \<le> toBase58 E owner" "zs \<noteq> [] \<longrightarrow> toBase58 E owner < toBase58 E (hd zs)"
    by (rule addSorted_split)
  have "\<forall>y \<in> set ys. toBase58 E y < toBase58 E owner"
    using s(1,3) assms(3) base58_inj [OF assms(1)] by (auto simp: order_less_le)
  moreover have "\<forall>z \<in> set zs. toBase58 E owner < toBase58 E z"
    using s(1,4) assms(2) by (cases zs) (auto simp: sortedOwners_def sorted_wrt_append)
  ultimately show ?thesis using s(1,2) assms(2) by (auto simp: sortedOwners_def sorted_wrt_append)
qed

lemma sortedPredecessor_append:
  assumes "\<forall>y \<in> set ys. toBase58 E y < toBase58 E t" "\<forall>z \<in> set zs. \<not> toBase58 E z < toBase58 E t"
  shows "sortedPredecessor E (ys @ zs) t = (if ys = [] then None else Some (last ys))"
proof -
  let ?f = "\<lambda>pred o'. if toBase58 E o' < toBase58 E t then Some o' else pred"
  have "foldl ?f p ys = (if ys = [] then p else Some (last ys))" for p
    using assms(1) by (induction ys arbitrary: p) auto
  moreover have "foldl ?f p zs = p" for p
    using assms(2) by (induction zs arbitrary: p) auto
  ultimately show ?thesis by (simp add: sortedPredecessor_def)
qed

lemma findIndex_last:
  assumes "distinct (xs @ y # ys)"
  shows "findIndex (\<lambda>o'. o' = y) (xs @ y # ys) = Some (length xs)"
  using assms by (induction xs) auto


section \<open>Store and circuit agree\<close>

lemma addSorted_cut:
  assumes "base58Laws E" "sortedOwners E owners" "owner \<notin> set owners"
  obtains ys zs where "owners = ys @ zs" "addSorted E owners owner = ys @ owner # zs"
    "sortedPredecessor E owners owner = (if ys = [] then None else Some (last ys))"
proof -
  obtain ys zs where s: "owners = ys @ zs" "addSorted E owners owner = ys @ owner # zs"
    "\<forall>y \<in> set ys. toBase58 E y \<le> toBase58 E owner" "zs \<noteq> [] \<longrightarrow> toBase58 E owner < toBase58 E (hd zs)"
    by (rule addSorted_split)
  have "\<forall>y \<in> set ys. toBase58 E y < toBase58 E owner"
    using s(1,3) assms(3) base58_inj [OF assms(1)] by (auto simp: order_less_le)
  moreover have "\<forall>z \<in> set zs. \<not> toBase58 E z < toBase58 E owner"
    using s(1,4) assms(2) by (cases zs) (auto simp: sortedOwners_def sorted_wrt_append)
  ultimately show ?thesis using that s(1,2) sortedPredecessor_append [of ys E owner zs] by simp
qed

lemma sortedOwners_distinct: "sortedOwners E owners \<Longrightarrow> distinct owners"
  unfolding sortedOwners_def by (induction owners) auto

lemma insertAfter_predecessor:
  assumes "base58Laws E" "sortedOwners E owners" "owner \<notin> set owners"
  shows "insertAfter E owners owner (sortedPredecessor E owners owner) = Inr (addSorted E owners owner)"
proof -
  obtain ys zs where s: "owners = ys @ zs" "addSorted E owners owner = ys @ owner # zs"
    "sortedPredecessor E owners owner = (if ys = [] then None else Some (last ys))"
    by (rule addSorted_cut [OF assms])
  show ?thesis
  proof (cases "ys = []")
    case False
    then have o: "owners = butlast ys @ last ys # zs" using s(1) by simp
    then have "findIndex (\<lambda>o'. o' = last ys) owners = Some (length (butlast ys))"
      using sortedOwners_distinct [OF assms(2)] findIndex_last by metis
    moreover have "Suc (length (butlast ys)) = length ys" using False by simp
    ultimately show ?thesis using False s by (simp add: insertAfter_def base58_inj [OF assms(1)])
  qed (use s in \<open>simp add: insertAfter_def\<close>)
qed

lemma witnessOwners_store [simp]: "witnessOwners (getOwnerWitness owners) = owners"
  by (simp add: getOwnerWitness_def witnessOwners_def pkJust_def pkNone_def comp_def)

lemma length_getOwnerWitness: "length owners \<le> MAX_OWNERS \<Longrightarrow> length (getOwnerWitness owners) = MAX_OWNERS"
  by (simp add: getOwnerWitness_def)

definition predecessorOption :: "('m, 'w, 's) o1js \<Rightarrow> pubkey list \<Rightarrow> pubkey \<Rightarrow> pkOption" where
  "predecessorOption E owners owner =
     (case sortedPredecessor E owners owner of None \<Rightarrow> pkNone | Some q \<Rightarrow> pkJust q)"

lemma insertOwner_predecessor:
  assumes "base58Laws E" "sortedOwners E owners" "owner \<notin> set owners"
  shows "insertOwner owner (predecessorOption E owners owner) owners = addSorted E owners owner"
    "pkSome (predecessorOption E owners owner) \<longrightarrow> pkValue (predecessorOption E owners owner) \<in> set owners"
proof -
  obtain ys zs where s: "owners = ys @ zs" "addSorted E owners owner = ys @ owner # zs"
    "sortedPredecessor E owners owner = (if ys = [] then None else Some (last ys))"
    by (rule addSorted_cut [OF assms])
  have "insertBehind (last ys) owner owners = addSorted E owners owner" if "ys \<noteq> []"
  proof -
    have o: "owners = butlast ys @ last ys # zs" using s(1) that by simp
    then have "insertBehind (last ys) owner owners = butlast ys @ last ys # owner # zs"
      using sortedOwners_distinct [OF assms(2)] insertBehind_split by metis
    with s(2) that show ?thesis by simp
  qed
  then show "insertOwner owner (predecessorOption E owners owner) owners = addSorted E owners owner"
    "pkSome (predecessorOption E owners owner) \<longrightarrow> pkValue (predecessorOption E owners owner) \<in> set owners"
    using s by (auto simp: predecessorOption_def insertOwner_def pkNone_def pkJust_def)
qed

lemma add_accepted:
  assumes "base58Laws E" "sortedOwners E owners" "\<not> hasOwnerWithSameX owners owner"
  shows "addOwnerToCommitment E (getCommitment E owners) owner (getOwnerWitness owners)
      (predecessorOption E owners owner) = (commitmentWithSortedAdd E owners owner, True)"
proof -
  have "owner \<notin> set owners" using assms(3) by (auto simp: hasOwnerWithSameX_def list_ex_iff)
  from insertOwner_predecessor [OF assms(1,2) this] assms(3) show ?thesis
    by (auto simp: addOwnerToCommitment_eq getCommitment_def commitmentWithSortedAdd_def
        hasOwnerWithSameX_def list_ex_iff)
qed

lemma remove_accepted:
  assumes "base58Laws E" "isOwner E owners owner" "removeOwner E owners owner \<noteq> []"
    and "length owners \<le> MAX_OWNERS" "fieldLarge E"
  shows "removeOwnerFromCommitment E (getCommitment E owners) owner (getOwnerWitness owners) =
      (getCommitment E (removeOwner E owners owner), True)"
proof -
  have "int (length (getOwnerWitness owners)) < fieldOrder E"
    using fieldLarge_pos [OF assms(5)] assms(4) by (simp add: length_getOwnerWitness MAX_OWNERS_def)
  from removeOwnerFromCommitment_eq [OF this] assms(2,3) show ?thesis
    by (auto simp: getCommitment_def removeOwner_def isOwner_def list_ex_iff base58_inj [OF assms(1)])
qed

lemma member_accepted:
  "base58Laws E \<Longrightarrow> isOwner E owners owner \<Longrightarrow>
     assertOwnerMembership E (getCommitment E owners) owner (getOwnerWitness owners) = Inr ()"
  by (auto simp: assertOwnerMembership_Inr getCommitment_def isOwner_def list_ex_iff base58_inj)

section \<open>The position of an added owner\<close>

lemma insertSearch_Some:
  "insertSearch m pr is = Some i \<Longrightarrow> i \<in> set is \<and> m i"
  by (induction "is") (auto split: if_splits)

lemma insertSearch_None: "insertSearch m pr is = None \<longleftrightarrow> (\<forall>i \<in> set is. i \<noteq> pr \<longrightarrow> \<not> m i)"
  by (induction "is") auto

lemma findIndex_less: "findIndex P xs = Some i \<Longrightarrow> i < length xs"
  by (induction xs arbitrary: i) (auto split: if_splits)

lemma insertPositionFor_Some:
  assumes "insertPositionFor E owners owner c = Some i"
  shows "i \<le> length owners" "fieldToString (computeOwnerChain E (spliceAt i owner owners)) = c"
  using assms insertSearch_Some findIndex_less
  by (fastforce simp: insertPositionFor_def Let_def split: if_splits option.splits)+

lemma insertPositionFor_None:
  assumes "insertPositionFor E owners owner c = None" "i \<le> length owners"
  shows "fieldToString (computeOwnerChain E (spliceAt i owner owners)) \<noteq> c"
proof -
  define pr where "pr = (case findIndex (\<lambda>o'. toBase58 E o' > toBase58 E owner) owners of
    None \<Rightarrow> length owners | Some i \<Rightarrow> i)"
  have "fieldToString (computeOwnerChain E (spliceAt pr owner owners)) \<noteq> c"
    and "\<forall>i \<in> set [0..<Suc (length owners)]. i \<noteq> pr \<longrightarrow> fieldToString (computeOwnerChain E (spliceAt i owner owners)) \<noteq> c"
    using assms(1) unfolding insertPositionFor_def Let_def pr_def [symmetric]
    by (auto simp: insertSearch_None simp del: upt_Suc split: if_splits)
  with assms(2) show ?thesis by (cases "i = pr") auto
qed

lemma insertPositionFor_unique:
  assumes "collisionFree E" "insertPositionFor E owners owner c = Some i" "c = fieldToString (computeOwnerChain E xs)"
  shows "spliceAt i owner owners = xs"
  using insertPositionFor_Some [OF assms(2)] assms(1,3) by (simp add: computeOwnerChain_eq)

section \<open>Serialisation\<close>

lemma deserialize_serialize:
  "base58Laws E \<Longrightarrow> (\<And>pk. pk \<in> set owners \<Longrightarrow> onCurve E (pkX pk)) \<Longrightarrow>
     deserializeOwners E (serializeOwners E owners) = Inr owners"
  by (induction owners) (auto simp: serializeOwners_def base58Laws_def)

end
