(* ===== verification/Js_Values.thy ===== *)
theory Js_Values
  imports Js_Map Json Owner_Store
begin

text \<open>
  Readings of JavaScript values that the clients of the contract share: \<open>BigInt(text)\<close>, and through it
  \<open>Field(text)\<close> and \<open>UInt64.from(text)\<close>, the truth value of a JSON value, and the map of a fallible
  function over an array. A character is a code unit below 256, so the white space of the language is
  the white space of that range.
\<close>

section \<open>Arrays of fallible values\<close>

fun traverse :: "('a \<Rightarrow> 'b result) \<Rightarrow> 'a list \<Rightarrow> 'b list result" where
  "traverse f [] = Inr []"
| "traverse f (x # xs) = andThen (f x) (\<lambda>y. andThen (traverse f xs) (\<lambda>ys. Inr (y # ys)))"

lemma traverse_Inr: "traverse f xs = Inr ys \<longleftrightarrow> list_all2 (\<lambda>x y. f x = Inr y) xs ys"
  by (induction xs arbitrary: ys) (auto simp: list_all2_Cons1)

lemma traverse_length: "traverse f xs = Inr ys \<Longrightarrow> length ys = length xs"
  by (auto simp: traverse_Inr dest: list_all2_lengthD)

lemma traverse_nth: "traverse f xs = Inr ys \<Longrightarrow> i < length xs \<Longrightarrow> f (xs ! i) = Inr (ys ! i)"
  by (auto simp: traverse_Inr list_all2_conv_all_nth)

lemma traverse_map: "traverse f (map g xs) = traverse (\<lambda>x. f (g x)) xs"
  by (induction xs) auto

lemma traverse_total: "(\<And>x. x \<in> set xs \<Longrightarrow> f x = Inr (g x)) \<Longrightarrow> traverse f xs = Inr (map g xs)"
  by (induction xs) auto

lemma traverse_cong [fundef_cong]:
  "xs = ys \<Longrightarrow> (\<And>x. x \<in> set ys \<Longrightarrow> f x = g x) \<Longrightarrow> traverse f xs = traverse g ys"
  by (induction ys arbitrary: xs) auto

definition parseKey :: "('m, 'w, 's) o1js \<Rightarrow> string \<Rightarrow> pubkey result" where
  "parseKey E s = (case fromBase58 E s of None \<Rightarrow> Inl (AssertFail ''PublicKey.fromBase58'') | Some pk \<Rightarrow> Inr pk)"

lemma parseKey_Inr [simp]: "parseKey E s = Inr pk \<longleftrightarrow> fromBase58 E s = Some pk"
  by (simp add: parseKey_def split: option.split)

section \<open>BigInt of a text\<close>

text \<open>A text is modelled by the bytes of its UTF-8 form. The white space and the line ends of the language,
  as byte sequences: tab, line feed, vertical tab, form feed, carriage return and the blank, U+00A0, U+1680,
  U+2000 to U+200A, U+2028, U+2029, U+202F, U+205F, U+3000 and U+FEFF.\<close>

definition WHITE_SPACE :: "string list" where
  "WHITE_SPACE = [[CHR 0x20], [CHR 0x09], [CHR 0x0A], [CHR 0x0B], [CHR 0x0C], [CHR 0x0D], [CHR 0xC2, CHR 0xA0],
     [CHR 0xE1, CHR 0x9A, CHR 0x80], [CHR 0xE2, CHR 0x80, CHR 0x80], [CHR 0xE2, CHR 0x80, CHR 0x81],
     [CHR 0xE2, CHR 0x80, CHR 0x82], [CHR 0xE2, CHR 0x80, CHR 0x83], [CHR 0xE2, CHR 0x80, CHR 0x84],
     [CHR 0xE2, CHR 0x80, CHR 0x85], [CHR 0xE2, CHR 0x80, CHR 0x86], [CHR 0xE2, CHR 0x80, CHR 0x87],
     [CHR 0xE2, CHR 0x80, CHR 0x88], [CHR 0xE2, CHR 0x80, CHR 0x89], [CHR 0xE2, CHR 0x80, CHR 0x8A],
     [CHR 0xE2, CHR 0x80, CHR 0xA8], [CHR 0xE2, CHR 0x80, CHR 0xA9], [CHR 0xE2, CHR 0x80, CHR 0xAF],
     [CHR 0xE2, CHR 0x81, CHR 0x9F], [CHR 0xE3, CHR 0x80, CHR 0x80], [CHR 0xEF, CHR 0xBB, CHR 0xBF]]"

function dropTexts :: "string list \<Rightarrow> string \<Rightarrow> string" where
  "dropTexts ws s = (case find (\<lambda>w. w \<noteq> [] \<and> take (length w) s = w) ws of
       None \<Rightarrow> s | Some w \<Rightarrow> dropTexts ws (drop (length w) s))"
  by pat_completeness auto

termination
proof (relation "measure (\<lambda>(ws, s). length s)")
  fix ws s w assume "find (\<lambda>w. w \<noteq> [] \<and> take (length w) s = w) ws = Some (w :: string)"
  then have "w \<noteq> []" "take (length w) s = w" by (auto simp: find_Some_iff)
  moreover from this have "s \<noteq> []" by auto
  ultimately show "((ws, drop (length w) s), (ws, s)) \<in> measure (\<lambda>(ws, s). length s)" by simp
qed simp

declare dropTexts.simps [simp del]

definition jsTrim :: "string \<Rightarrow> string" where
  "jsTrim s = rev (dropTexts (map rev WHITE_SPACE) (rev (dropTexts WHITE_SPACE s)))"

definition radixDigit :: "nat \<Rightarrow> char \<Rightarrow> nat option" where
  "radixDigit base c =
     (let n = (of_char c :: nat);
          d = (if 48 \<le> n \<and> n \<le> 57 then n - 48 else if 97 \<le> n \<and> n \<le> 102 then n - 87
               else if 65 \<le> n \<and> n \<le> 70 then n - 55 else base)
      in if d < base then Some d else None)"

definition radixValue :: "nat \<Rightarrow> string \<Rightarrow> int option" where
  "radixValue base s = (if s = [] then None
     else map_option (\<lambda>ds. int (foldl (\<lambda>a d. base * a + d) 0 ds)) (those (map (radixDigit base) s)))"

text \<open>The grammar of \<open>StringToBigInt\<close>: white space around it is dropped, the empty text is 0, a decimal may
  have a sign, a hexadecimal, octal or binary literal has none.\<close>

definition stringToBigInt :: "string \<Rightarrow> int option" where
  "stringToBigInt s =
     (let t = jsTrim s
      in if t = [] then Some 0
         else if hd t = CHR ''-'' then (if allDigits (tl t) then Some (- int (parseDecimal (tl t))) else None)
         else if hd t = CHR ''+'' then (if allDigits (tl t) then Some (int (parseDecimal (tl t))) else None)
         else if take 2 t \<in> {''0x'', ''0X''} then radixValue 16 (drop 2 t)
         else if take 2 t \<in> {''0o'', ''0O''} then radixValue 8 (drop 2 t)
         else if take 2 t \<in> {''0b'', ''0B''} then radixValue 2 (drop 2 t)
         else if allDigits t then Some (int (parseDecimal t)) else None)"

definition toBigInt :: "string \<Rightarrow> int result" where
  "toBigInt s = (case stringToBigInt s of
       None \<Rightarrow> Inl (AssertFail ''Cannot convert to a BigInt'') | Some n \<Rightarrow> Inr n)"

definition fieldOfInt :: "('m, 'w, 's) o1js \<Rightarrow> int \<Rightarrow> field" where
  "fieldOfInt E n = n mod fieldOrder E"

definition fieldFromText :: "('m, 'w, 's) o1js \<Rightarrow> string \<Rightarrow> field result" where
  "fieldFromText E s = andThen (toBigInt s) (\<lambda>n. Inr (fieldOfInt E n))"

definition uint64FromText :: "string \<Rightarrow> 64 word result" where
  "uint64FromText s = andThen (toBigInt s) (\<lambda>n.
     require (0 \<le> n \<and> n < 2 ^ 64) ''UInt64: out of range'' (Inr (word_of_int n)))"

text \<open>Whether a value counts as true in a condition.\<close>

definition truthy :: "json option \<Rightarrow> bool" where
  "truthy v = (case v of None \<Rightarrow> False | Some JNull \<Rightarrow> False | Some (JBool b) \<Rightarrow> b
     | Some (JNum n) \<Rightarrow> n \<noteq> 0 | Some (JStr s) \<Rightarrow> s \<noteq> [] | _ \<Rightarrow> True)"

definition truthyText :: "string option \<Rightarrow> bool" where
  "truthyText s \<longleftrightarrow> s \<noteq> None \<and> s \<noteq> Some []"

definition orDefault :: "'a option \<Rightarrow> 'a \<Rightarrow> 'a" where
  "orDefault x d = (case x of None \<Rightarrow> d | Some y \<Rightarrow> y)"

lemma orDefault_simps [simp]: "orDefault None d = d" "orDefault (Some x) d = x"
  by (simp_all add: orDefault_def)

section \<open>Decimal texts\<close>

lemma dropTexts_keep:
  assumes "\<And>w. w \<in> set ws \<Longrightarrow> s \<noteq> [] \<Longrightarrow> hd w \<noteq> hd s"
  shows "dropTexts ws s = s"
proof -
  have "take (length w) s \<noteq> w" if "w \<in> set ws" "w \<noteq> []" for w
    using assms [of w] that by (cases s; cases w) auto
  then have "find (\<lambda>w. w \<noteq> [] \<and> take (length w) s = w) ws = None" by (auto simp: find_None_iff)
  then show ?thesis by (subst dropTexts.simps) simp
qed

text \<open>A text that neither starts nor ends with a byte of a white space is not trimmed.\<close>

definition visibleByte :: "char \<Rightarrow> bool" where
  "visibleByte c \<longleftrightarrow> 33 \<le> (of_char c :: nat) \<and> (of_char c :: nat) < 127"

lemma white_bytes: "list_all (\<lambda>w. \<not> visibleByte (hd w) \<and> \<not> visibleByte (hd (rev w))) WHITE_SPACE"
  by code_simp

lemma jsTrim_visible:
  assumes "s \<noteq> [] \<Longrightarrow> visibleByte (hd s) \<and> visibleByte (last s)"
  shows "jsTrim s = s"
proof -
  have "dropTexts WHITE_SPACE s = s"
    using white_bytes assms by (intro dropTexts_keep) (auto simp: list_all_iff)
  moreover have "dropTexts (map rev WHITE_SPACE) (rev s) = rev s"
    using white_bytes assms by (intro dropTexts_keep) (auto simp: list_all_iff hd_rev)
  ultimately show ?thesis by (simp add: jsTrim_def)
qed

lemma digit_visible: "isDigit c \<Longrightarrow> visibleByte c"
  by (auto simp: isDigit_def visibleByte_def)

lemma jsTrim_Nil [simp]: "jsTrim [] = []"
  by (rule jsTrim_visible) simp

lemma jsTrim_digits: "list_all isDigit s \<Longrightarrow> jsTrim s = s"
  by (rule jsTrim_visible) (auto simp: list_all_iff intro: digit_visible)

lemma digit_no_prefix:
  assumes "list_all isDigit s"
  shows "take 2 s \<notin> {''0x'', ''0X''}" "take 2 s \<notin> {''0o'', ''0O''}" "take 2 s \<notin> {''0b'', ''0B''}"
proof -
  have "list_all isDigit (take 2 s)" using assms by (auto simp: list_all_iff dest: in_set_takeD)
  then show "take 2 s \<notin> {''0x'', ''0X''}" "take 2 s \<notin> {''0o'', ''0O''}" "take 2 s \<notin> {''0b'', ''0B''}"
    by (auto simp: isDigit_def)
qed

lemma stringToBigInt_digits:
  assumes "allDigits s"
  shows "stringToBigInt s = Some (int (parseDecimal s))"
proof -
  have d: "list_all isDigit s" "s \<noteq> []" using assms by (simp_all add: allDigits_def)
  then have "hd s \<noteq> CHR ''-''" "hd s \<noteq> CHR ''+''" by (cases s; auto simp: isDigit_def)+
  then show ?thesis
    using d assms digit_no_prefix [OF d(1)] by (simp add: stringToBigInt_def jsTrim_digits Let_def)
qed

lemma toBigInt_decimal [simp]: "toBigInt (decimal n) = Inr (int n)"
  by (simp add: toBigInt_def stringToBigInt_digits)

lemma jsTrim_negative: "list_all isDigit s \<Longrightarrow> s \<noteq> [] \<Longrightarrow> jsTrim (CHR ''-'' # s) = CHR ''-'' # s"
  by (rule jsTrim_visible) (auto simp: list_all_iff visibleByte_def [of "CHR ''-''"] intro: digit_visible)

lemma toBigInt_fieldToString [simp]: "toBigInt (fieldToString f) = Inr f"
proof (cases "f < 0")
  case True
  have "allDigits (decimal (nat (- f)))" by simp
  then have "stringToBigInt (fieldToString f) = Some f"
    using True jsTrim_negative [of "decimal (nat (- f))"] by (simp add: fieldToString_def intToString_def stringToBigInt_def allDigits_def)
  then show ?thesis by (simp add: toBigInt_def)
qed (simp add: fieldToString_decimal)

lemma fieldFromText_toString [simp]: "fieldFromText E (fieldToString f) = Inr (fieldOfInt E f)"
  by (simp add: fieldFromText_def)

lemma fieldOfInt_inField [simp]: "inField E f \<Longrightarrow> fieldOfInt E f = f"
  by (simp add: fieldOfInt_def inField_def)

lemma uint64FromText_decimal: "uint64FromText (decimal (unat a)) = Inr a"
  using unsigned_less [of a, where 'a = int] by (simp add: uint64FromText_def)

lemma toBigInt_zero: "toBigInt ''0'' = Inr 0"
proof -
  have "''0'' = decimal 0" by (simp add: decimal.simps) code_simp
  then show ?thesis by simp
qed

end
