(* ===== verification/Map_Store.thy ===== *)
theory Map_Store
  imports Owner_Store
begin

text \<open>
  The off-chain Merkle maps (\<open>ApprovalStore\<close> and \<open>VoteNullifierStore\<close> in \<open>storage.ts\<close>). A store
  mirrors a root of the contract and hands out the witnesses its methods consume. The locale
  \<open>committed_store\<close> is that interface: reads see writes, the root depends on the contents only, and
  a witness computes the root of the written map.
\<close>

section \<open>The interface of a committed map\<close>

locale committed_store =
  fixes lawful :: bool
    and readAt :: "'st \<Rightarrow> field \<Rightarrow> field"
    and writeAt :: "'st \<Rightarrow> field \<Rightarrow> field \<Rightarrow> 'st"
    and root :: "'st \<Rightarrow> field"
    and wit :: "'st \<Rightarrow> field \<Rightarrow> 'wit"
    and compute :: "'wit \<Rightarrow> field \<Rightarrow> field \<times> field"
  assumes read_write: "lawful \<Longrightarrow> readAt (writeAt s k v) k' = (if k' = k then v else readAt s k')"
    and root_ext: "lawful \<Longrightarrow> readAt s = readAt s' \<Longrightarrow> root s = root s'"
    and wit_computes: "lawful \<Longrightarrow> compute (wit s k) v = (root (writeAt s k v), k)"
begin

text \<open>The witness of a key opens the root at the stored value.\<close>

lemma wit_reads:
  assumes "lawful"
  shows "compute (wit s k) (readAt s k) = (root s, k)"
  using assms by (simp add: wit_computes) (rule root_ext, auto simp: read_write)

lemma read_writes:
  assumes "lawful"
  shows "readAt (foldl (\<lambda>s (k, v). writeAt s k v) s kvs) k' =
    (case map_of (rev kvs) k' of None \<Rightarrow> readAt s k' | Some v \<Rightarrow> v)"
proof (induction kvs arbitrary: s)
  case (Cons kv kvs)
  then show ?case using assms by (cases kv) (simp add: read_write map_add_def split: option.splits)
qed simp

text \<open>Writes to different keys can be replayed in any order.\<close>

lemma writes_commute:
  assumes "lawful" "distinct (map fst kvs)" "mset kvs = mset kvs'"
  shows "root (foldl (\<lambda>s (k, v). writeAt s k v) s kvs) = root (foldl (\<lambda>s (k, v). writeAt s k v) s kvs')"
proof (rule root_ext [OF assms(1)], rule ext)
  fix k
  have "distinct (map fst kvs')" using assms(2,3) by (metis mset_eq_imp_distinct_iff mset_map)
  moreover have "set kvs = set kvs'" using assms(3) by (rule mset_eq_setD)
  ultimately have "map_of (rev kvs) = map_of (rev kvs')"
    using assms(2) by (intro map_of_inject_set [THEN iffD2]) (auto simp: rev_map [symmetric])
  then show "readAt (foldl (\<lambda>s (k, v). writeAt s k v) s kvs) k = readAt (foldl (\<lambda>s (k, v). writeAt s k v) s kvs') k"
    using assms(1) by (simp add: read_writes)
qed

end

interpretation mm: committed_store "merkleLaws E" "mapGet E" "mapSet E" "mapRoot E" "mapWitness E" "computeRootAndKey E"
  for E :: "('m, 'w, 's) o1js"
  by unfold_locales (auto simp: mapGet_set witness_computes intro: mapRoot_ext)

section \<open>Serialised maps\<close>

text \<open>A \<open>Record<string, string>\<close> is an association list with one entry per key; assigning to an
  existing key keeps its place.\<close>

fun putEntry :: "string \<Rightarrow> string \<Rightarrow> (string \<times> string) list \<Rightarrow> (string \<times> string) list" where
  "putEntry k v [] = [(k, v)]"
| "putEntry k v ((k', v') # es) = (if k = k' then (k, v) # es else (k', v') # putEntry k v es)"

definition serializeMerkleMap :: "('m, 'w, 's) o1js \<Rightarrow> 'm \<Rightarrow> field list \<Rightarrow> (string \<times> string) list" where
  "serializeMerkleMap E m keys =
     foldl (\<lambda>es k. putEntry (fieldToString k) (fieldToString (mapGet E m k)) es) [] keys"

definition deserializeMerkleMap :: "('m, 'w, 's) o1js \<Rightarrow> (string \<times> string) list \<Rightarrow> 'm \<times> field list" where
  "deserializeMerkleMap E es =
     foldl (\<lambda>(m, keys) (k, v). let key = fieldFromString E k
       in (mapSet E m key (fieldFromString E v), keys @ [key])) (emptyMap E, []) es"

section \<open>ApprovalStore\<close>

record 'm approvalStore =
  asMap :: 'm
  asKeys :: "field list"

definition newApprovalStore :: "('m, 'w, 's) o1js \<Rightarrow> 'm approvalStore" where
  "newApprovalStore E = \<lparr>asMap = emptyMap E, asKeys = []\<rparr>"

definition getCount :: "('m, 'w, 's) o1js \<Rightarrow> 'm approvalStore \<Rightarrow> field \<Rightarrow> field" where
  "getCount E s propHash = mapGet E (asMap s) propHash"

definition setCount :: "('m, 'w, 's) o1js \<Rightarrow> 'm approvalStore \<Rightarrow> field \<Rightarrow> field \<Rightarrow> 'm approvalStore" where
  "setCount E s propHash cnt =
     \<lparr>asMap = mapSet E (asMap s) propHash cnt,
      asKeys = (if propHash \<in> set (asKeys s) then asKeys s else asKeys s @ [propHash])\<rparr>"

definition getApprovalWitness :: "('m, 'w, 's) o1js \<Rightarrow> 'm approvalStore \<Rightarrow> field \<Rightarrow> 'w" where
  "getApprovalWitness E s propHash = mapWitness E (asMap s) propHash"

definition isExecuted :: "('m, 'w, 's) o1js \<Rightarrow> 'm approvalStore \<Rightarrow> field \<Rightarrow> bool" where
  "isExecuted E s propHash = (mapGet E (asMap s) propHash = fieldSub E 0 1)"

definition getApprovalRoot :: "('m, 'w, 's) o1js \<Rightarrow> 'm approvalStore \<Rightarrow> field" where
  "getApprovalRoot E s = mapRoot E (asMap s)"

definition serializeApprovals :: "('m, 'w, 's) o1js \<Rightarrow> 'm approvalStore \<Rightarrow> (string \<times> string) list" where
  "serializeApprovals E s = serializeMerkleMap E (asMap s) (asKeys s)"

definition deserializeApprovals :: "('m, 'w, 's) o1js \<Rightarrow> (string \<times> string) list \<Rightarrow> 'm approvalStore" where
  "deserializeApprovals E es =
     (let (m, keys) = deserializeMerkleMap E es in \<lparr>asMap = m, asKeys = keys\<rparr>)"

interpretation ap: committed_store "merkleLaws E" "getCount E" "setCount E" "getApprovalRoot E"
    "getApprovalWitness E" "computeRootAndKey E"
  for E :: "('m, 'w, 's) o1js"
  by unfold_locales (auto simp: getCount_def setCount_def getApprovalRoot_def getApprovalWitness_def
      mapGet_set witness_computes fun_eq_iff intro: mapRoot_ext)

section \<open>VoteNullifierStore\<close>

text \<open>The key set holds decimal texts of field elements; as the text determines the element, the
  model keeps the elements, in insertion order.\<close>

record 'm nullifierStore =
  vnMap :: 'm
  vnKeys :: "field list"

definition newNullifierStore :: "('m, 'w, 's) o1js \<Rightarrow> 'm nullifierStore" where
  "newNullifierStore E = \<lparr>vnMap = emptyMap E, vnKeys = []\<rparr>"

definition isNullified :: "('m, 'w, 's) o1js \<Rightarrow> 'm nullifierStore \<Rightarrow> field \<Rightarrow> pubkey \<Rightarrow> bool" where
  "isNullified E s propHash approver = (mapGet E (vnMap s) (voteNullifierKey E propHash approver) = 1)"

definition nullify :: "('m, 'w, 's) o1js \<Rightarrow> 'm nullifierStore \<Rightarrow> field \<Rightarrow> pubkey \<Rightarrow> 'm nullifierStore" where
  "nullify E s propHash approver =
     (let key = voteNullifierKey E propHash approver
      in if key \<in> set (vnKeys s) then s
         else \<lparr>vnMap = mapSet E (vnMap s) key 1, vnKeys = vnKeys s @ [key]\<rparr>)"

definition getNullifierWitness :: "('m, 'w, 's) o1js \<Rightarrow> 'm nullifierStore \<Rightarrow> field \<Rightarrow> pubkey \<Rightarrow> 'w" where
  "getNullifierWitness E s propHash approver = mapWitness E (vnMap s) (voteNullifierKey E propHash approver)"

definition getNullifierRoot :: "('m, 'w, 's) o1js \<Rightarrow> 'm nullifierStore \<Rightarrow> field" where
  "getNullifierRoot E s = mapRoot E (vnMap s)"

definition serializeNullifiers :: "'m nullifierStore \<Rightarrow> string list" where
  "serializeNullifiers s = map fieldToString (vnKeys s)"

fun deserializeNullifierKeys ::
  "('m, 'w, 's) o1js \<Rightarrow> 'm nullifierStore \<Rightarrow> string list \<Rightarrow> 'm nullifierStore result" where
  "deserializeNullifierKeys E store [] = Inr store"
| "deserializeNullifierKeys E store (key # rest) =
     require (canonicalDecimal key \<and> fieldToString (fieldFromString E key) = key) ''Invalid nullifier key''
     (let f = fieldFromString E key
      in require (f \<notin> set (vnKeys store)) ''Duplicate nullifier key''
        (deserializeNullifierKeys E \<lparr>vnMap = mapSet E (vnMap store) f 1, vnKeys = vnKeys store @ [f]\<rparr> rest))"

definition deserializeNullifiers :: "('m, 'w, 's) o1js \<Rightarrow> string list \<Rightarrow> 'm nullifierStore result" where
  "deserializeNullifiers E keys = deserializeNullifierKeys E (newNullifierStore E) keys"

definition cloneNullifiers :: "'m nullifierStore \<Rightarrow> 'm nullifierStore" where
  "cloneNullifiers s = \<lparr>vnMap = vnMap s, vnKeys = vnKeys s\<rparr>"

section \<open>Approval store invariant and round trip\<close>

text \<open>The keys list has no repetition and covers every leaf that is not zero.\<close>

definition approvalStoreInv :: "('m, 'w, 's) o1js \<Rightarrow> 'm approvalStore \<Rightarrow> bool" where
  "approvalStoreInv E s \<longleftrightarrow> distinct (asKeys s) \<and>
     (\<forall>k. k \<notin> set (asKeys s) \<longrightarrow> getCount E s k = 0)"

lemma approvalStoreInv_new: "merkleLaws E \<Longrightarrow> approvalStoreInv E (newApprovalStore E)"
  by (simp add: approvalStoreInv_def newApprovalStore_def getCount_def mapGet_empty)

lemma setCount_keys: "set (asKeys (setCount E s h c)) = insert h (set (asKeys s))"
  by (auto simp: setCount_def)

lemma approvalStoreInv_setCount:
  "merkleLaws E \<Longrightarrow> approvalStoreInv E s \<Longrightarrow> approvalStoreInv E (setCount E s h c)"
  by (simp add: approvalStoreInv_def ap.read_write setCount_keys) (simp add: setCount_def)

lemma putEntry_fresh: "k \<notin> fst ` set es \<Longrightarrow> putEntry k v es = es @ [(k, v)]"
  by (induction es) auto

lemma serializeMerkleMap_fresh:
  assumes "distinct keys" "\<forall>k \<in> set keys. inField E k"
  shows "serializeMerkleMap E m keys = map (\<lambda>k. (fieldToString k, fieldToString (mapGet E m k))) keys"
  using assms
proof (induction keys rule: rev_induct)
  case (snoc k keys)
  then have "fieldToString k \<notin> fst ` set (map (\<lambda>k. (fieldToString k, fieldToString (mapGet E m k))) keys)"
    by auto
  with snoc show ?case by (simp add: serializeMerkleMap_def putEntry_fresh)
qed (simp add: serializeMerkleMap_def)

lemma deserializeMerkleMap_map:
  assumes "\<forall>k \<in> set keys. inField E k \<and> inField E (f k)"
  shows "deserializeMerkleMap E (map (\<lambda>k. (fieldToString k, fieldToString (f k))) keys) =
    (foldl (\<lambda>m (k, v). mapSet E m k v) (emptyMap E) (map (\<lambda>k. (k, f k)) keys), keys)"
  using assms by (induction keys rule: rev_induct) (auto simp: deserializeMerkleMap_def)

lemma map_of_graph: "map_of (map (\<lambda>k. (k, f k)) ks) k = (if k \<in> set ks then Some (f k) else None)"
  by (induction ks) auto

lemma approvals_round_trip:
  assumes "merkleLaws E" "approvalStoreInv E s"
    and "\<forall>k \<in> set (asKeys s). inField E k \<and> inField E (getCount E s k)"
  shows "getCount E (deserializeApprovals E (serializeApprovals E s)) = getCount E s"
    "asKeys (deserializeApprovals E (serializeApprovals E s)) = asKeys s"
proof -
  have ser: "serializeApprovals E s = map (\<lambda>k. (fieldToString k, fieldToString (mapGet E (asMap s) k))) (asKeys s)"
    unfolding serializeApprovals_def
    using assms(2,3) by (intro serializeMerkleMap_fresh) (auto simp: approvalStoreInv_def)
  have de: "deserializeApprovals E (serializeApprovals E s) =
    \<lparr>asMap = foldl (\<lambda>m (k, v). mapSet E m k v) (emptyMap E) (map (\<lambda>k. (k, mapGet E (asMap s) k)) (asKeys s)), asKeys = asKeys s\<rparr>"
    unfolding ser deserializeApprovals_def
    using deserializeMerkleMap_map [of "asKeys s" E "mapGet E (asMap s)"] assms(3) by (simp add: getCount_def)
  show "asKeys (deserializeApprovals E (serializeApprovals E s)) = asKeys s" by (simp add: de)
  show "getCount E (deserializeApprovals E (serializeApprovals E s)) = getCount E s"
  proof
    fix k
    show "getCount E (deserializeApprovals E (serializeApprovals E s)) k = getCount E s k"
      using assms(2) by (simp add: de getCount_def mm.read_writes [OF assms(1)] rev_map map_of_graph
          mapGet_empty [OF assms(1)] approvalStoreInv_def)
  qed
qed

section \<open>Nullifier store invariant and round trip\<close>

definition nullifierStoreInv :: "('m, 'w, 's) o1js \<Rightarrow> 'm nullifierStore \<Rightarrow> bool" where
  "nullifierStoreInv E s \<longleftrightarrow> distinct (vnKeys s) \<and>
     mapGet E (vnMap s) = (\<lambda>k. if k \<in> set (vnKeys s) then 1 else 0)"

lemma nullifierStoreInv_new: "merkleLaws E \<Longrightarrow> nullifierStoreInv E (newNullifierStore E)"
  by (auto simp: nullifierStoreInv_def newNullifierStore_def mapGet_empty)

lemma nullifierStoreInv_add:
  "merkleLaws E \<Longrightarrow> nullifierStoreInv E s \<Longrightarrow> k \<notin> set (vnKeys s) \<Longrightarrow>
     nullifierStoreInv E \<lparr>vnMap = mapSet E (vnMap s) k 1, vnKeys = vnKeys s @ [k]\<rparr>"
  by (auto simp: nullifierStoreInv_def mapGet_set fun_eq_iff)

lemma nullifierStoreInv_nullify:
  "merkleLaws E \<Longrightarrow> nullifierStoreInv E s \<Longrightarrow> nullifierStoreInv E (nullify E s h pk)"
  using nullifierStoreInv_add [of E s] by (auto simp: nullify_def Let_def)

lemma isNullified_nullify:
  assumes "soundEnv E" "nullifierStoreInv E s"
  shows "isNullified E (nullify E s h pk) h' pk' \<longleftrightarrow> (h' = h \<and> pk' = pk) \<or> isNullified E s h' pk'"
  using assms(2) soundEnv_merkle [OF assms(1)] soundEnv_collisionFree [OF assms(1)]
  by (auto simp: isNullified_def nullify_def Let_def nullifierStoreInv_def mapGet_set voteNullifierKey_eq)

lemma nullify_root:
  assumes "merkleLaws E" "nullifierStoreInv E s"
  shows "getNullifierRoot E (nullify E s h pk) = mapRoot E (mapSet E (vnMap s) (voteNullifierKey E h pk) 1)"
proof (cases "voteNullifierKey E h pk \<in> set (vnKeys s)")
  case True
  then have "mapGet E (vnMap s) (voteNullifierKey E h pk) = 1" using assms(2) by (simp add: nullifierStoreInv_def)
  with True show ?thesis using mapSet_same [OF assms(1), of "vnMap s" "voteNullifierKey E h pk"]
    by (simp add: getNullifierRoot_def nullify_def Let_def)
qed (simp add: getNullifierRoot_def nullify_def Let_def)

lemma canonical_inField:
  assumes "0 < fieldOrder E"
  shows "canonicalDecimal s \<and> fieldToString (fieldFromString E s) = s \<longleftrightarrow>
    (\<exists>f. inField E f \<and> s = fieldToString f)"
proof
  assume "canonicalDecimal s \<and> fieldToString (fieldFromString E s) = s"
  then show "\<exists>f. inField E f \<and> s = fieldToString f"
    using assms by (intro exI [of _ "fieldFromString E s"]) (auto simp: inField_def fieldFromString_def)
next
  assume "\<exists>f. inField E f \<and> s = fieldToString f"
  then obtain f where f: "inField E f" "s = fieldToString f" by blast
  then have "fieldToString (fieldFromString E s) = s" by simp
  moreover have "canonicalDecimal s" using f by (simp add: inField_def fieldToString_decimal)
  ultimately show "canonicalDecimal s \<and> fieldToString (fieldFromString E s) = s" by simp
qed

lemma deserializeNullifierKeys_Inr:
  assumes "0 < fieldOrder E" "merkleLaws E" "nullifierStoreInv E store"
  shows "deserializeNullifierKeys E store keys = Inr s' \<longleftrightarrow>
    (\<exists>fs. keys = map fieldToString fs \<and> (\<forall>f \<in> set fs. inField E f) \<and> distinct (vnKeys store @ fs) \<and>
      s' = \<lparr>vnMap = foldl (\<lambda>m f. mapSet E m f 1) (vnMap store) fs, vnKeys = vnKeys store @ fs\<rparr>)"
  using assms(3)
proof (induction keys arbitrary: store)
  case (Cons key rest)
  show ?case
  proof (cases "\<exists>f. inField E f \<and> key = fieldToString f \<and> f \<notin> set (vnKeys store)")
    case True
    then obtain f where f: "inField E f" "key = fieldToString f" "f \<notin> set (vnKeys store)" by blast
    let ?next = "\<lparr>vnMap = mapSet E (vnMap store) f 1, vnKeys = vnKeys store @ [f]\<rparr>"
    have run: "deserializeNullifierKeys E store (key # rest) = deserializeNullifierKeys E ?next rest"
    proof -
      have "canonicalDecimal key \<and> fieldToString (fieldFromString E key) = key"
        using f canonical_inField [OF assms(1), of key] by blast
      moreover have "fieldFromString E key = f" using f by simp
      ultimately show ?thesis using f(3) by simp
    qed
    have first: "key # rest = map fieldToString fs \<and> (\<forall>f \<in> set fs. inField E f) \<longleftrightarrow>
        (\<exists>fs'. fs = f # fs' \<and> rest = map fieldToString fs' \<and> (\<forall>f \<in> set fs'. inField E f))" for fs
      using f(1,2) by (cases fs) auto
    show ?thesis
      unfolding run Cons.IH [of ?next, OF nullifierStoreInv_add [OF assms(2) Cons.prems f(3)]] conj_assoc [symmetric] first
      by auto
  next
    case False
    then have "deserializeNullifierKeys E store (key # rest) \<noteq> Inr s'"
      using canonical_inField [OF assms(1), of key] by (auto simp: Let_def)
    then show ?thesis using False by (auto simp: Cons_eq_map_conv)
  qed
qed (auto simp: nullifierStoreInv_def)

lemma nullifiers_round_trip:
  assumes "soundEnv E" "nullifierStoreInv E s" "\<forall>k \<in> set (vnKeys s). inField E k"
  shows "\<exists>s'. deserializeNullifiers E (serializeNullifiers s) = Inr s' \<and> vnKeys s' = vnKeys s \<and>
    getNullifierRoot E s' = getNullifierRoot E s"
proof -
  note m = soundEnv_merkle [OF assms(1)]
  have pos: "0 < fieldOrder E" using fieldLarge_pos [OF soundEnv_fieldLarge [OF assms(1)]] by simp
  let ?s' = "\<lparr>vnMap = foldl (\<lambda>m f. mapSet E m f 1) (emptyMap E) (vnKeys s), vnKeys = vnKeys s\<rparr>"
  have "deserializeNullifiers E (serializeNullifiers s) = Inr ?s'"
    using assms(2,3) unfolding deserializeNullifiers_def serializeNullifiers_def
    by (subst deserializeNullifierKeys_Inr [OF pos m nullifierStoreInv_new [OF m]])
      (auto simp: newNullifierStore_def nullifierStoreInv_def)
  moreover have "mapGet E (vnMap ?s') = mapGet E (vnMap s)"
  proof
    fix k
    have "vnMap ?s' = foldl (\<lambda>m (k, v). mapSet E m k v) (emptyMap E) (map (\<lambda>k. (k, 1)) (vnKeys s))"
      by (simp add: foldl_map)
    then have "mapGet E (vnMap ?s') k = (if k \<in> set (vnKeys s) then 1 else 0)"
      by (simp only: mm.read_writes [OF m]) (simp add: rev_map map_of_graph [of "\<lambda>_. 1"] mapGet_empty [OF m])
    then show "mapGet E (vnMap ?s') k = mapGet E (vnMap s) k"
      using assms(2) by (simp only: nullifierStoreInv_def)
  qed
  then have "getNullifierRoot E ?s' = getNullifierRoot E s"
    unfolding getNullifierRoot_def by (rule mapRoot_ext [OF m])
  ultimately show ?thesis by (intro exI [of _ ?s']) simp
qed

end
