(* ===== verification/Event_Rebuild.thy ===== *)
theory Event_Rebuild
  imports Map_Store Json
begin

text \<open>
  Rebuilding a guard's stores from its indexed events (\<open>event-rebuild.ts\<close>). The payload of an event
  is JSON with decimal and base58 texts. A text that \<open>Field\<close> cannot read makes the rebuild throw;
  the texts it can read are taken to be the decimals. A slot index that is no number sorts as 0;
  JavaScript leaves the place of such a slot open.
\<close>

record indexedEvent =
  eventType :: string
  payload :: json
  blockHeight :: "int option"

record 'm rebuiltStores =
  rsOwners :: "pubkey list"
  rsApprovals :: "'m approvalStore"
  rsNullifiers :: "'m nullifierStore"
  rsDivergentApproval :: "int option"
  rsDivergentNullifier :: "int option"

record chainState =
  csOwnersCommitment :: "string option"
  csApprovalRoot :: "string option"
  csVoteNullifierRoot :: "string option"

section \<open>Payload access\<close>

definition payloadField :: "json \<Rightarrow> string \<Rightarrow> string option" where
  "payloadField pl key = (case jsGet pl key of
       Some (JStr s) \<Rightarrow> if s \<noteq> [] then Some s else None
     | Some (JNum n) \<Rightarrow> Some (intToString n)
     | _ \<Rightarrow> None)"

definition payloadKey :: "('m, 'w, 's) o1js \<Rightarrow> json \<Rightarrow> string \<Rightarrow> pubkey option" where
  "payloadKey E pl key = (case payloadField pl key of
       None \<Rightarrow> None
     | Some s \<Rightarrow> if length s \<le> 10 then None else fromBase58 E s)"

definition REMOTE_EXECUTION_TYPES :: "string list" where
  "REMOTE_EXECUTION_TYPES = map (\<lambda>t. fieldToString (TxType t)) [CREATE_CHILD, RECLAIM_CHILD, DESTROY_CHILD, ENABLE_CHILD_MULTI_SIG]"

definition CHILD_EXECUTION_MARKING_TYPES :: "string list" where
  "CHILD_EXECUTION_MARKING_TYPES = map (\<lambda>t. fieldToString (TxType t)) [RECLAIM_CHILD, DESTROY_CHILD, ENABLE_CHILD_MULTI_SIG]"

definition isExecution :: "indexedEvent \<Rightarrow> bool" where
  "isExecution e \<longleftrightarrow> eventType e = ''execution'' \<or> eventType e = ''executionBatch''"

definition txTypeText :: "indexedEvent \<Rightarrow> string" where
  "txTypeText e = (case payloadField (payload e) ''txType'' of None \<Rightarrow> '''' | Some s \<Rightarrow> s)"

definition toField :: "('m, 'w, 's) o1js \<Rightarrow> string \<Rightarrow> field result" where
  "toField E s = require (allDigits s) ''Field'' (Inr (fieldFromString E s))"

section \<open>Owners\<close>

text \<open>\<open>Map.set\<close> guarded by \<open>!Map.has\<close>: the first value of a key stays.\<close>

definition addFirst :: "'k \<Rightarrow> 'v \<Rightarrow> ('k \<times> 'v) list \<Rightarrow> ('k \<times> 'v) list" where
  "addFirst k v m = (if k \<in> fst ` set m then m else m @ [(k, v)])"

definition slotStep ::
  "('m, 'w, 's) o1js \<Rightarrow> (int option \<times> pubkey) list \<times> pubkey list \<Rightarrow> indexedEvent \<Rightarrow> (int option \<times> pubkey) list \<times> pubkey list" where
  "slotStep E st e = (let (slots, unindexed) = st in
     if eventType e \<noteq> ''setupOwner'' then st
     else case payloadKey E (payload e) ''owner'' of
         None \<Rightarrow> st
       | Some owner \<Rightarrow> (case payloadField (payload e) ''index'' of
             None \<Rightarrow> (slots, unindexed @ [owner])
           | Some index \<Rightarrow> (addFirst (jsNumber index) owner slots, unindexed)))"

definition slotOrder :: "int option \<Rightarrow> int" where
  "slotOrder k = (case k of None \<Rightarrow> 0 | Some n \<Rightarrow> n)"

definition setupOwnersFrom :: "('m, 'w, 's) o1js \<Rightarrow> indexedEvent list \<Rightarrow> pubkey list" where
  "setupOwnersFrom E events =
     (let (slots, unindexed) = foldl (slotStep E) ([], []) events
      in if slots \<noteq> [] then map snd (sort_key (\<lambda>(k, _). slotOrder k) slots)
         else foldl (addSorted E) [] unindexed)"

definition isOwnerChange :: "indexedEvent \<Rightarrow> bool" where
  "isOwnerChange e \<longleftrightarrow> eventType e = ''ownerChange'' \<or> eventType e = ''ownerChangeBatch''"

definition textOr :: "string option \<Rightarrow> string" where
  "textOr s = (case s of None \<Rightarrow> '''' | Some t \<Rightarrow> t)"

definition changeKey :: "indexedEvent \<Rightarrow> string" where
  "changeKey e = textOr (payloadField (payload e) ''configNonce'') @ ''|'' @
     textOr (payloadField (payload e) ''owner'') @ ''|'' @ textOr (payloadField (payload e) ''added'')"

text \<open>\<open>Number(null)\<close> is 0, a text that is no number gives the largest safe integer.\<close>

definition nonceOf :: "indexedEvent \<Rightarrow> int" where
  "nonceOf e = (case payloadField (payload e) ''configNonce'' of
       None \<Rightarrow> 0
     | Some s \<Rightarrow> (case jsNumber s of Some n \<Rightarrow> n | None \<Rightarrow> MAX_SAFE_INTEGER))"

definition orderedChanges :: "indexedEvent list \<Rightarrow> indexedEvent list" where
  "orderedChanges events = sort_key nonceOf (map snd
     (foldl (\<lambda>m e. addFirst (changeKey e) e m) [] (filter isOwnerChange events)))"

definition applyOwnerChange :: "('m, 'w, 's) o1js \<Rightarrow> pubkey list \<Rightarrow> indexedEvent \<Rightarrow> pubkey list" where
  "applyOwnerChange E owners e = (case payloadKey E (payload e) ''owner'' of
       None \<Rightarrow> owners
     | Some owner \<Rightarrow>
         (let isAdd = (payloadField (payload e) ''added'' = Some ''1'' \<or> jsGet (payload e) ''added'' = Some (JBool True))
          in if \<not> isAdd then removeOwner E owners owner
             else (case payloadField (payload e) ''newOwnersCommitment'' of
                 None \<Rightarrow> addSorted E owners owner
               | Some target \<Rightarrow>
                   (case insertPositionFor E owners owner target of
                      None \<Rightarrow> addSorted E owners owner
                    | Some position \<Rightarrow> spliceAt position owner owners))))"

definition rebuildOwners :: "('m, 'w, 's) o1js \<Rightarrow> indexedEvent list \<Rightarrow> pubkey list option \<Rightarrow> pubkey list" where
  "rebuildOwners E events initial =
     (let start = (case initial of None \<Rightarrow> setupOwnersFrom E events | Some owners \<Rightarrow> owners)
      in foldl (applyOwnerChange E) start (orderedChanges events))"

section \<open>Approval and nullifier maps\<close>

definition raiseTo :: "('m, 'w, 's) o1js \<Rightarrow> 'm approvalStore \<Rightarrow> field \<Rightarrow> field \<Rightarrow> 'm approvalStore" where
  "raiseTo E store propHash v = (if v > getCount E store propHash then setCount E store propHash v else store)"

definition isLocalExecution :: "indexedEvent \<Rightarrow> bool" where
  "isLocalExecution e \<longleftrightarrow> isExecution e \<and> txTypeText e \<notin> set REMOTE_EXECUTION_TYPES"

type_synonym 'm mapStores = "'m approvalStore \<times> 'm nullifierStore"

definition applyMapEvent :: "('m, 'w, 's) o1js \<Rightarrow> indexedEvent \<Rightarrow> 'm mapStores \<Rightarrow> 'm mapStores result" where
  "applyMapEvent E e st = (let (approvals, nullifiers) = st in
     case payloadField (payload e) ''proposalHash'' of
       None \<Rightarrow> Inr st
     | Some hash \<Rightarrow> andThen (toField E hash) (\<lambda>propHash.
         if eventType e = ''proposal'' \<or> eventType e = ''approval'' then
           andThen (if eventType e = ''proposal'' then Inr (fieldAdd E PROPOSED_MARKER 1)
                    else toField E (case payloadField (payload e) ''approvalCount'' of None \<Rightarrow> ''0'' | Some c \<Rightarrow> c)) (\<lambda>cnt.
           let approvals' = raiseTo E approvals propHash cnt;
               voter = payloadKey E (payload e) (if eventType e = ''proposal'' then ''proposer'' else ''approver'')
           in Inr (approvals', case voter of None \<Rightarrow> nullifiers | Some pk \<Rightarrow> nullify E nullifiers propHash pk))
         else if isLocalExecution e then Inr (raiseTo E approvals propHash (EXECUTED_MARKER E), nullifiers)
         else Inr st))"

fun applyMapEvents :: "('m, 'w, 's) o1js \<Rightarrow> indexedEvent list \<Rightarrow> 'm mapStores \<Rightarrow> 'm mapStores result" where
  "applyMapEvents E [] st = Inr st"
| "applyMapEvents E (e # es) st = andThen (applyMapEvent E e st) (applyMapEvents E es)"

definition someTexts :: "string option list \<Rightarrow> string set" where
  "someTexts xs = {t. Some t \<in> set xs}"

definition emittedApprovalRoots :: "indexedEvent list \<Rightarrow> string set" where
  "emittedApprovalRoots block = someTexts (map (\<lambda>e.
     if eventType e = ''approval'' then payloadField (payload e) ''approvalRoot''
     else if isLocalExecution e then payloadField (payload e) ''root'' else None) block)"

definition emittedNullifierRoots :: "indexedEvent list \<Rightarrow> string set" where
  "emittedNullifierRoots block = someTexts (map (\<lambda>e.
     if eventType e = ''approval'' then payloadField (payload e) ''voteNullifierRoot'' else None) block)"

definition blockHeights :: "indexedEvent list \<Rightarrow> int list" where
  "blockHeights events = sort (remdups (List.map_filter blockHeight events))"

definition blockAt :: "indexedEvent list \<Rightarrow> int \<Rightarrow> indexedEvent list" where
  "blockAt events h = filter (\<lambda>e. blockHeight e = Some h) events"

definition divergence :: "int option \<Rightarrow> string set \<Rightarrow> field \<Rightarrow> int \<Rightarrow> int option" where
  "divergence old roots r height = (if old = None \<and> roots \<noteq> {} \<and> fieldToString r \<notin> roots then Some height else old)"

fun rebuildBlocks :: "('m, 'w, 's) o1js \<Rightarrow> bool \<Rightarrow> indexedEvent list \<Rightarrow> int list \<Rightarrow>
    'm mapStores \<times> int option \<times> int option \<Rightarrow> ('m mapStores \<times> int option \<times> int option) result" where
  "rebuildBlocks E checkpointsUsable events [] st = Inr st"
| "rebuildBlocks E checkpointsUsable events (height # rest) (stores, divA, divN) =
     (let block = blockAt events height
      in andThen (applyMapEvents E block stores) (\<lambda>(approvals, nullifiers).
         rebuildBlocks E checkpointsUsable events rest
           (if \<not> checkpointsUsable then ((approvals, nullifiers), divA, divN)
            else ((approvals, nullifiers),
              divergence divA (emittedApprovalRoots block) (getApprovalRoot E approvals) height,
              divergence divN (emittedNullifierRoots block) (getNullifierRoot E nullifiers) height))))"

definition rebuildStores ::
  "('m, 'w, 's) o1js \<Rightarrow> indexedEvent list \<Rightarrow> 'm rebuiltStores option \<Rightarrow> 'm rebuiltStores result" where
  "rebuildStores E events initial =
     (let owners = rebuildOwners E events (map_option rsOwners initial);
          approvals = (case initial of None \<Rightarrow> newApprovalStore E | Some s \<Rightarrow> rsApprovals s);
          nullifiers = (case initial of None \<Rightarrow> newNullifierStore E | Some s \<Rightarrow> rsNullifiers s);
          unplaced = filter (\<lambda>e. blockHeight e = None) events
      in andThen (applyMapEvents E unplaced (approvals, nullifiers)) (\<lambda>stores.
         andThen (rebuildBlocks E (unplaced = []) events (blockHeights events) (stores, None, None))
           (\<lambda>((approvals', nullifiers'), divA, divN).
            Inr \<lparr>rsOwners = owners, rsApprovals = approvals', rsNullifiers = nullifiers',
                 rsDivergentApproval = divA, rsDivergentNullifier = divN\<rparr>)))"

definition childMark :: "('m, 'w, 's) o1js \<Rightarrow> indexedEvent \<Rightarrow> 'm \<Rightarrow> 'm result" where
  "childMark E e m = (case payloadField (payload e) ''proposalHash'' of
       None \<Rightarrow> Inr m
     | Some hash \<Rightarrow> if \<not> isExecution e \<or> txTypeText e \<notin> set CHILD_EXECUTION_MARKING_TYPES then Inr m
         else andThen (toField E hash) (\<lambda>f. Inr (mapSet E m f (EXECUTED_MARKER E))))"

fun rebuildChildExecutionMap :: "('m, 'w, 's) o1js \<Rightarrow> indexedEvent list \<Rightarrow> 'm \<Rightarrow> 'm result" where
  "rebuildChildExecutionMap E [] m = Inr m"
| "rebuildChildExecutionMap E (e # es) m = andThen (childMark E e m) (rebuildChildExecutionMap E es)"

section \<open>Verification against the chain\<close>

definition sameValue :: "string option \<Rightarrow> field \<Rightarrow> bool" where
  "sameValue text f \<longleftrightarrow> (case text of None \<Rightarrow> True | Some t \<Rightarrow> t = fieldToString f)"

definition assertStoresMatchChain :: "('m, 'w, 's) o1js \<Rightarrow> 'm rebuiltStores \<Rightarrow> chainState \<Rightarrow> unit result" where
  "assertStoresMatchChain E stores chain =
     require (sameValue (csOwnersCommitment chain) (getCommitment E (rsOwners stores)))
       ''Rebuilt owner list does not match''
     (require (sameValue (csApprovalRoot chain) (getApprovalRoot E (rsApprovals stores)))
       ''Rebuilt approval map does not match''
     (require (sameValue (csVoteNullifierRoot chain) (getNullifierRoot E (rsNullifiers stores)))
       ''Rebuilt vote nullifier map does not match''
     (Inr ())))"

definition assertChildExecutionMapMatchesChain :: "('m, 'w, 's) o1js \<Rightarrow> 'm \<Rightarrow> string option \<Rightarrow> unit result" where
  "assertChildExecutionMapMatchesChain E m chainRoot =
     require (sameValue chainRoot (mapRoot E m)) ''Rebuilt child execution map does not match'' (Inr ())"

section \<open>Commuting replays\<close>

text \<open>The contract of a replay that does not depend on delivery order: steps act on what can be
  observed of the state, and any two of them commute there.\<close>

locale commuting_replay =
  fixes ok :: "'st \<Rightarrow> bool" and step :: "'ev \<Rightarrow> 'st \<Rightarrow> 'st" and obs :: "'st \<Rightarrow> 'ob"
  assumes ok_step: "ok s \<Longrightarrow> ok (step e s)"
    and obs_step: "ok s \<Longrightarrow> ok s' \<Longrightarrow> obs s = obs s' \<Longrightarrow> obs (step e s) = obs (step e s')"
    and commute: "ok s \<Longrightarrow> obs (step a (step b s)) = obs (step b (step a s))"
begin

lemma ok_fold: "ok s \<Longrightarrow> ok (fold step es s)"
  by (induction es arbitrary: s) (auto simp: ok_step)

lemma fold_obs: "ok s \<Longrightarrow> ok s' \<Longrightarrow> obs s = obs s' \<Longrightarrow> obs (fold step es s) = obs (fold step es s')"
proof (induction es arbitrary: s s')
  case (Cons e es)
  have "obs (fold step es (step e s)) = obs (fold step es (step e s'))"
    by (rule Cons.IH [OF ok_step ok_step obs_step]) (rule Cons.prems)+
  then show ?case by simp
qed simp

lemma fold_front: "ok s \<Longrightarrow> obs (fold step (xs @ e # ys) s) = obs (fold step (e # xs @ ys) s)"
proof (induction xs arbitrary: s)
  case (Cons x xs)
  have "obs (fold step (xs @ e # ys) (step x s)) = obs (fold step (e # xs @ ys) (step x s))"
    by (rule Cons.IH) (simp add: ok_step Cons.prems)
  also have "\<dots> = obs (fold step (xs @ ys) (step x (step e s)))"
    using Cons.prems fold_obs [of "step e (step x s)" "step x (step e s)" "xs @ ys"] by (simp add: ok_step commute)
  finally show ?case by simp
qed simp

text \<open>Every delivery order of the same events gives the same observation.\<close>

lemma order_independent: "ok s \<Longrightarrow> mset es = mset es' \<Longrightarrow> obs (fold step es s) = obs (fold step es' s)"
proof (induction es arbitrary: es' s)
  case (Cons e es)
  from Cons.prems(2) have "e \<in> set es'" by (metis list.set_intros(1) mset_eq_setD)
  then obtain xs ys where es': "es' = xs @ e # ys" by (auto dest: split_list)
  have "mset es = mset (xs @ ys)" using Cons.prems(2) es' by simp
  then have "obs (fold step es (step e s)) = obs (fold step (xs @ ys) (step e s))"
    by (intro Cons.IH) (simp_all add: ok_step Cons.prems)
  with fold_front [OF Cons.prems(1)] show ?case by (simp add: es')
qed simp

end

section \<open>The map events commute\<close>

text \<open>What an event does to the maps does not depend on them: raise one leaf, nullify one voter.\<close>

definition mapEffect :: "('m, 'w, 's) o1js \<Rightarrow> indexedEvent \<Rightarrow> (field \<times> field \<times> pubkey option) option result" where
  "mapEffect E e = (case payloadField (payload e) ''proposalHash'' of
       None \<Rightarrow> Inr None
     | Some hash \<Rightarrow> andThen (toField E hash) (\<lambda>h.
         if eventType e = ''proposal'' then
           Inr (Some (h, fieldAdd E PROPOSED_MARKER 1, payloadKey E (payload e) ''proposer''))
         else if eventType e = ''approval'' then
           andThen (toField E (case payloadField (payload e) ''approvalCount'' of None \<Rightarrow> ''0'' | Some c \<Rightarrow> c)) (\<lambda>c.
             Inr (Some (h, c, payloadKey E (payload e) ''approver'')))
         else if isLocalExecution e then Inr (Some (h, EXECUTED_MARKER E, None)) else Inr None))"

definition applyEffect ::
  "('m, 'w, 's) o1js \<Rightarrow> (field \<times> field \<times> pubkey option) option \<Rightarrow> 'm mapStores \<Rightarrow> 'm mapStores" where
  "applyEffect E eff st = (case eff of None \<Rightarrow> st
     | Some (h, v, voter) \<Rightarrow> (raiseTo E (fst st) h v,
         case voter of None \<Rightarrow> snd st | Some pk \<Rightarrow> nullify E (snd st) h pk))"

definition effectOf :: "('m, 'w, 's) o1js \<Rightarrow> indexedEvent \<Rightarrow> (field \<times> field \<times> pubkey option) option" where
  "effectOf E e = (case mapEffect E e of Inl _ \<Rightarrow> None | Inr eff \<Rightarrow> eff)"

lemma applyMapEvent_effect:
  "applyMapEvent E e st = andThen (mapEffect E e) (\<lambda>eff. Inr (applyEffect E eff st))"
  by (cases st; cases "toField E (the (payloadField (payload e) ''proposalHash''))")
    (auto simp: applyMapEvent_def mapEffect_def applyEffect_def andThen_def Let_def split: option.splits sum.splits)

lemma applyMapEvents_fold:
  "applyMapEvents E es st = Inr st' \<longleftrightarrow>
     (\<forall>e \<in> set es. isOk (mapEffect E e)) \<and> st' = fold (applyEffect E) (map (effectOf E) es) st"
proof (induction es arbitrary: st)
  case (Cons e es)
  show ?case
  proof (cases "mapEffect E e")
    case (Inr eff)
    then show ?thesis using Cons.IH by (simp add: applyMapEvent_effect effectOf_def)
  qed (simp add: applyMapEvent_effect)
qed auto

definition mapsOk :: "('m, 'w, 's) o1js \<Rightarrow> 'm mapStores \<Rightarrow> bool" where
  "mapsOk E st \<longleftrightarrow> merkleLaws E \<and> nullifierStoreInv E (snd st)"

definition mapsView :: "('m, 'w, 's) o1js \<Rightarrow> 'm mapStores \<Rightarrow> (field \<Rightarrow> field) \<times> field set" where
  "mapsView E st = (getCount E (fst st), set (vnKeys (snd st)))"

definition raiseView :: "field \<Rightarrow> field \<Rightarrow> (field \<Rightarrow> field) \<Rightarrow> field \<Rightarrow> field" where
  "raiseView h v f = f(h := max (f h) v)"

lemma getCount_raiseTo: "merkleLaws E \<Longrightarrow> getCount E (raiseTo E aps h v) = raiseView h v (getCount E aps)"
  by (rule ext) (auto simp: raiseTo_def raiseView_def ap.read_write)

lemma vnKeys_nullify: "set (vnKeys (nullify E nus h pk)) = insert (voteNullifierKey E h pk) (set (vnKeys nus))"
  by (auto simp: nullify_def Let_def)

lemma mapsView_effect:
  "merkleLaws E \<Longrightarrow> mapsView E (applyEffect E eff st) = (case eff of None \<Rightarrow> mapsView E st
     | Some (h, v, voter) \<Rightarrow> (raiseView h v (fst (mapsView E st)),
         (case voter of None \<Rightarrow> {} | Some pk \<Rightarrow> {voteNullifierKey E h pk}) \<union> snd (mapsView E st)))"
  by (auto simp: applyEffect_def mapsView_def getCount_raiseTo vnKeys_nullify split: option.splits prod.splits)

lemma raiseView_commute: "raiseView h v (raiseView h' v' f) = raiseView h' v' (raiseView h v f)"
  by (auto simp: raiseView_def fun_eq_iff)

lemma mapsOk_effect: "mapsOk E st \<Longrightarrow> mapsOk E (applyEffect E eff st)"
  by (auto simp: mapsOk_def applyEffect_def nullifierStoreInv_nullify split: option.splits prod.splits)

interpretation replay: commuting_replay "mapsOk E" "applyEffect E" "mapsView E"
  for E :: "('m, 'w, 's) o1js"
proof unfold_locales
  fix s s' :: "'m mapStores" and e a b
  show "mapsOk E s \<Longrightarrow> mapsOk E (applyEffect E e s)" by (rule mapsOk_effect)
  show "mapsOk E s \<Longrightarrow> mapsOk E s' \<Longrightarrow> mapsView E s = mapsView E s' \<Longrightarrow>
      mapsView E (applyEffect E e s) = mapsView E (applyEffect E e s')"
    by (cases e) (auto simp: mapsView_effect mapsOk_def)
  show "mapsOk E s \<Longrightarrow> mapsView E (applyEffect E a (applyEffect E b s)) = mapsView E (applyEffect E b (applyEffect E a s))"
    by (auto simp: mapsView_effect mapsOk_def raiseView_commute split: option.splits)
qed

text \<open>The view determines the roots.\<close>

lemma mapsView_roots:
  assumes "mapsOk E s" "mapsOk E s'" "mapsView E s = mapsView E s'"
  shows "getApprovalRoot E (fst s) = getApprovalRoot E (fst s')" "getNullifierRoot E (snd s) = getNullifierRoot E (snd s')"
proof -
  have m: "merkleLaws E" using assms(1) by (simp add: mapsOk_def)
  show "getApprovalRoot E (fst s) = getApprovalRoot E (fst s')"
    using assms(3) by (intro ap.root_ext [OF m]) (simp add: mapsView_def)
  have "set (vnKeys (snd s)) = set (vnKeys (snd s'))" using assms(3) by (simp add: mapsView_def)
  then have "mapGet E (vnMap (snd s)) = mapGet E (vnMap (snd s'))"
    using assms(1,2) by (simp only: mapsOk_def nullifierStoreInv_def)
  then show "getNullifierRoot E (snd s) = getNullifierRoot E (snd s')"
    unfolding getNullifierRoot_def by (rule mapRoot_ext [OF m])
qed

section \<open>Blocks\<close>

lemma mset_one_block:
  "distinct ks \<Longrightarrow> mset (concat (map (\<lambda>k. filter (\<lambda>y. f y = Some k) (x # xs)) ks)) =
     (if f x \<in> Some ` set ks then {#x#} else {#}) + mset (concat (map (\<lambda>k. filter (\<lambda>y. f y = Some k) xs) ks))"
  by (induction ks) auto

lemma mset_blocks:
  assumes "distinct ks" "\<And>x k. x \<in> set xs \<Longrightarrow> f x = Some k \<Longrightarrow> k \<in> set ks"
  shows "mset (filter (\<lambda>x. f x = None) xs @ concat (map (\<lambda>k. filter (\<lambda>y. f y = Some k) xs) ks)) = mset xs"
  using assms(2)
proof (induction xs)
  case (Cons x xs)
  then have "f x = None \<or> f x \<in> Some ` set ks" by (cases "f x") auto
  with Cons mset_one_block [OF assms(1), of f x xs] show ?case by auto
qed simp

lemma distinct_blockHeights: "distinct (blockHeights events)"
  by (simp add: blockHeights_def)

lemma set_blockHeights: "set (blockHeights events) = {h. \<exists>e \<in> set events. blockHeight e = Some h}"
  by (force simp: blockHeights_def List.map_filter_def image_iff)

lemma mset_replayed:
  "mset (filter (\<lambda>e. blockHeight e = None) events @ concat (map (blockAt events) (blockHeights events))) = mset events"
  unfolding blockAt_def by (rule mset_blocks) (auto simp: distinct_blockHeights set_blockHeights)

lemma applyMapEvents_append:
  "applyMapEvents E (xs @ ys) st = andThen (applyMapEvents E xs st) (applyMapEvents E ys)"
  by (induction xs arbitrary: st) (auto simp: andThen_def split: sum.splits)

lemma rebuildBlocks_maps:
  "(\<exists>d. rebuildBlocks E u events hs (st, d0) = Inr (st', d)) \<longleftrightarrow>
     applyMapEvents E (concat (map (blockAt events) hs)) st = Inr st'"
proof (induction hs arbitrary: st d0)
  case Nil
  then show ?case by auto
next
  case (Cons h hs)
  obtain da dn where d0: "d0 = (da, dn)" by (cases d0)
  show ?case
  proof (cases "applyMapEvents E (blockAt events h) st")
    case (Inr st1)
    then obtain a n where "applyMapEvents E (blockAt events h) st = Inr (a, n)" by (cases st1) auto
    then have "rebuildBlocks E u events (h # hs) (st, d0) = rebuildBlocks E u events hs ((a, n), if u then
        (divergence da (emittedApprovalRoots (blockAt events h)) (getApprovalRoot E a) h,
         divergence dn (emittedNullifierRoots (blockAt events h)) (getNullifierRoot E n) h) else (da, dn))"
      and "applyMapEvents E (concat (map (blockAt events) (h # hs))) st = applyMapEvents E (concat (map (blockAt events) hs)) (a, n)"
      by (simp_all add: d0 applyMapEvents_append Let_def)
    then show ?thesis by (simp only: Cons.IH)
  qed (simp add: d0 applyMapEvents_append Let_def)
qed

lemma rebuildStores_maps:
  "(\<exists>s. rebuildStores E events initial = Inr s \<and> (rsApprovals s, rsNullifiers s) = st') \<longleftrightarrow>
     applyMapEvents E (filter (\<lambda>e. blockHeight e = None) events @ concat (map (blockAt events) (blockHeights events)))
       (case initial of None \<Rightarrow> newApprovalStore E | Some s \<Rightarrow> rsApprovals s,
        case initial of None \<Rightarrow> newNullifierStore E | Some s \<Rightarrow> rsNullifiers s) = Inr st'"
  (is "?L \<longleftrightarrow> ?R")
proof -
  let ?u = "filter (\<lambda>e. blockHeight e = None) events"
  let ?st = "(case initial of None \<Rightarrow> newApprovalStore E | Some s \<Rightarrow> rsApprovals s,
        case initial of None \<Rightarrow> newNullifierStore E | Some s \<Rightarrow> rsNullifiers s)"
  show ?thesis
  proof (cases "applyMapEvents E ?u ?st")
    case (Inr st1)
    have "?L \<longleftrightarrow> (\<exists>d. rebuildBlocks E (?u = []) events (blockHeights events) (st1, None, None) = Inr (st', d))"
      using Inr by (cases st') (auto simp: rebuildStores_def Let_def)
    also have "\<dots> \<longleftrightarrow> ?R" unfolding rebuildBlocks_maps applyMapEvents_append using Inr by simp
    finally show ?thesis .
  qed (simp add: rebuildStores_def Let_def applyMapEvents_append)
qed

lemma rebuildStores_isOk:
  "isOk (rebuildStores E events initial) \<longleftrightarrow> (\<forall>e \<in> set events. isOk (mapEffect E e))"
proof -
  define es where "es = filter (\<lambda>e. blockHeight e = None) events @ concat (map (blockAt events) (blockHeights events))"
  have set: "set es = set events" unfolding es_def by (rule mset_eq_setD) (rule mset_replayed)
  have "isOk (rebuildStores E events initial) \<longleftrightarrow> (\<exists>st' s. rebuildStores E events initial = Inr s \<and> (rsApprovals s, rsNullifiers s) = st')"
    by (auto simp: isOk_iff)
  also have "\<dots> \<longleftrightarrow> (\<forall>e \<in> set es. isOk (mapEffect E e))"
    unfolding rebuildStores_maps es_def [symmetric] applyMapEvents_fold by blast
  finally show ?thesis by (simp only: set)
qed

text \<open>C14: The approval and nullifier roots of a rebuild do not depend on the order in which the events
  are delivered, nor on how they are spread over blocks: for any permutation of the events, one
  rebuild succeeds exactly if the other does, and both give the same roots.\<close>

theorem rebuild_order_independent:
  assumes "merkleLaws E" "mset events = mset events'" "rebuildStores E events None = Inr s"
  shows "\<exists>s'. rebuildStores E events' None = Inr s' \<and>
    getApprovalRoot E (rsApprovals s') = getApprovalRoot E (rsApprovals s) \<and>
    getNullifierRoot E (rsNullifiers s') = getNullifierRoot E (rsNullifiers s)"
proof -
  define flat where "flat = (\<lambda>es. filter (\<lambda>e. blockHeight e = None) es @ concat (map (blockAt es) (blockHeights es)))"
  define st0 where "st0 = (newApprovalStore E, newNullifierStore E)"
  have ms: "mset (flat events') = mset (flat events)" using assms(2) mset_replayed by (metis flat_def)
  have ok0: "mapsOk E st0" using assms(1) by (simp add: mapsOk_def st0_def nullifierStoreInv_new)
  have "applyMapEvents E (flat events) st0 = Inr (rsApprovals s, rsNullifiers s)"
    using assms(3) rebuildStores_maps [of E events None "(rsApprovals s, rsNullifiers s)"] by (auto simp: flat_def st0_def)
  then have run: "\<forall>e \<in> set (flat events). isOk (mapEffect E e)"
    "(rsApprovals s, rsNullifiers s) = fold (applyEffect E) (map (effectOf E) (flat events)) st0"
    by (simp_all add: applyMapEvents_fold)
  define st' where "st' = fold (applyEffect E) (map (effectOf E) (flat events')) st0"
  have "applyMapEvents E (flat events') st0 = Inr st'"
    using run(1) mset_eq_setD [OF ms] by (simp add: applyMapEvents_fold st'_def)
  then obtain s' where s': "rebuildStores E events' None = Inr s'" "(rsApprovals s', rsNullifiers s') = st'"
    using rebuildStores_maps [of E events' None st'] by (auto simp: flat_def st0_def)
  have "mapsView E st' = mapsView E (rsApprovals s, rsNullifiers s)"
    unfolding st'_def run(2) using ms by (intro replay.order_independent [OF ok0]) simp
  moreover have "mapsOk E st'" "mapsOk E (rsApprovals s, rsNullifiers s)"
    unfolding st'_def run(2) by (simp_all add: replay.ok_fold [OF ok0])
  ultimately have "getApprovalRoot E (fst st') = getApprovalRoot E (rsApprovals s)"
    "getNullifierRoot E (snd st') = getNullifierRoot E (rsNullifiers s)"
    using mapsView_roots [of E st' "(rsApprovals s, rsNullifiers s)"] by simp_all
  then show ?thesis using s' by auto
qed

end
