(* ===== verification/Checkpoint.thy ===== *)
theory Checkpoint
  imports Event_Rebuild Js_Map
begin

text \<open>
  Checkpoints of rebuilt stores and the incremental cache over them (\<open>store-checkpoint.ts\<close>). The
  persistent storage, the event source and the chain are callbacks of the caller: parameters that
  may fail at every call. A checkpoint is the parsed form of its JSON texts.
\<close>

record storeScope =
  scNetwork :: string
  scAddress :: string

record storeCheckpoint =
  cpVersion :: int
  cpNetwork :: string
  cpAddress :: string
  cpThroughBlock :: "int option"
  cpOwners :: "string list"
  cpApprovals :: "(string \<times> string) list"
  cpNullifiers :: "string list"
  cpRoots :: chainState

definition STORE_CHECKPOINT_VERSION :: int where
  "STORE_CHECKPOINT_VERSION = 1"

definition OFFLINE_REQUEST_VERSION :: int where
  "OFFLINE_REQUEST_VERSION = 3"

definition requireRoots :: "chainState \<Rightarrow> unit result" where
  "requireRoots chain =
     require (csOwnersCommitment chain \<noteq> None \<and> csApprovalRoot chain \<noteq> None \<and> csVoteNullifierRoot chain \<noteq> None)
       ''A complete account state is required to verify a store checkpoint'' (Inr ())"

definition checkpointStores ::
  "('m, 'w, 's) o1js \<Rightarrow> 'm rebuiltStores \<Rightarrow> storeScope \<Rightarrow> int option \<Rightarrow> storeCheckpoint" where
  "checkpointStores E stores scope throughBlock =
     \<lparr>cpVersion = STORE_CHECKPOINT_VERSION, cpNetwork = scNetwork scope, cpAddress = scAddress scope,
      cpThroughBlock = throughBlock,
      cpOwners = serializeOwners E (rsOwners stores),
      cpApprovals = serializeApprovals E (rsApprovals stores),
      cpNullifiers = serializeNullifiers (rsNullifiers stores),
      cpRoots = \<lparr>csOwnersCommitment = Some (fieldToString (getCommitment E (rsOwners stores))),
        csApprovalRoot = Some (fieldToString (getApprovalRoot E (rsApprovals stores))),
        csVoteNullifierRoot = Some (fieldToString (getNullifierRoot E (rsNullifiers stores)))\<rparr>\<rparr>"

definition restoreStoreCheckpoint ::
  "('m, 'w, 's) o1js \<Rightarrow> storeCheckpoint \<Rightarrow> storeScope \<Rightarrow> 'm rebuiltStores result" where
  "restoreStoreCheckpoint E cp scope =
     require (cpVersion cp = STORE_CHECKPOINT_VERSION \<and> cpNetwork cp = scNetwork scope \<and> cpAddress cp = scAddress scope
         \<and> (case cpThroughBlock cp of None \<Rightarrow> True | Some b \<Rightarrow> isSafeInteger b \<and> 0 \<le> b))
       ''Invalid or incompatible store checkpoint''
     (require (length (cpOwners cp) \<le> MAX_OWNERS) ''Invalid checkpoint owners''
     (andAlso (requireRoots (cpRoots cp))
     (andThen (deserializeOwners E (cpOwners cp)) (\<lambda>owners.
      andThen (deserializeNullifiers E (cpNullifiers cp)) (\<lambda>nullifiers.
      let stores = \<lparr>rsOwners = owners, rsApprovals = deserializeApprovals E (cpApprovals cp), rsNullifiers = nullifiers,
            rsDivergentApproval = None, rsDivergentNullifier = None\<rparr>
      in andAlso (assertStoresMatchChain E stores (cpRoots cp))
        (Inr stores))))))"

record offlineRequest =
  orVersion :: int
  orNetwork :: string
  orContract :: string
  orEvents :: "indexedEvent list"
  orCheckpoint :: "storeCheckpoint option"

definition storesFromOfflineRequest ::
  "('m, 'w, 's) o1js \<Rightarrow> offlineRequest \<Rightarrow> chainState \<Rightarrow> 'm rebuiltStores result" where
  "storesFromOfflineRequest E request chain =
     require (orVersion request = OFFLINE_REQUEST_VERSION) ''Unsupported request version''
     (andAlso (requireRoots chain)
     (case orCheckpoint request of
        None \<Rightarrow> Inl (AssertFail ''An offline request requires a complete store checkpoint and empty events'')
      | Some cp \<Rightarrow>
         require (orEvents request = []) ''An offline request requires a complete store checkpoint and empty events''
         (andThen (restoreStoreCheckpoint E cp \<lparr>scNetwork = orNetwork request, scAddress = orContract request\<rparr>) (\<lambda>stores.
          andAlso (assertStoresMatchChain E stores chain)
          (Inr stores)))))"

definition cloneStores :: "'m rebuiltStores \<Rightarrow> 'm rebuiltStores" where
  "cloneStores s = \<lparr>rsOwners = rsOwners s,
     rsApprovals = \<lparr>asMap = asMap (rsApprovals s), asKeys = asKeys (rsApprovals s)\<rparr>,
     rsNullifiers = cloneNullifiers (rsNullifiers s),
     rsDivergentApproval = rsDivergentApproval s, rsDivergentNullifier = rsDivergentNullifier s\<rparr>"

section \<open>The incremental cache\<close>

text \<open>A load asks the event source and the chain at most twice, first for the blocks after the cached
  one and then from genesis; both answers are indexed by that first block.\<close>

record checkpointSource =
  csKey :: string
  csScope :: storeScope
  csRead :: "storeCheckpoint option result"
  csEvents :: "int option \<Rightarrow> indexedEvent list result"
  csChain :: "int option \<Rightarrow> chainState result"

type_synonym 'm cachedStores = "'m rebuiltStores \<times> int option"

type_synonym 'm storeCache = "(string \<times> 'm cachedStores) list"

definition cachedFor :: "('m, 'w, 's) o1js \<Rightarrow> checkpointSource \<Rightarrow> 'm storeCache \<Rightarrow> 'm cachedStores option" where
  "cachedFor E src cache = (case map_of cache (csKey src) of
       Some c \<Rightarrow> Some c
     | None \<Rightarrow> (case csRead src of
           Inr (Some cp) \<Rightarrow> (case restoreStoreCheckpoint E cp (csScope src) of
               Inr stores \<Rightarrow> Some (stores, cpThroughBlock cp) | Inl _ \<Rightarrow> None)
         | _ \<Rightarrow> None))"

definition validHeight :: "int \<Rightarrow> indexedEvent \<Rightarrow> bool" where
  "validHeight low e = (case blockHeight e of None \<Rightarrow> False | Some h \<Rightarrow> isSafeInteger h \<and> low \<le> h)"

fun throughBlockOf :: "int option \<Rightarrow> indexedEvent list \<Rightarrow> int option" where
  "throughBlockOf t [] = t"
| "throughBlockOf t (e # es) = (if \<not> validHeight 0 e then None
     else throughBlockOf (Some (max (case t of None \<Rightarrow> 0 | Some b \<Rightarrow> b) (the (blockHeight e)))) es)"

definition loadAttempt ::
  "('m, 'w, 's) o1js \<Rightarrow> checkpointSource \<Rightarrow> 'm cachedStores option \<Rightarrow> 'm cachedStores result" where
  "loadAttempt E src base =
     (let fromBlock = Option.bind base (\<lambda>(_, t). map_option (\<lambda>b. b + 1) t)
      in andThen (csEvents src fromBlock) (\<lambda>events.
         require (case fromBlock of None \<Rightarrow> True | Some b \<Rightarrow> list_all (validHeight b) events)
           ''Event source returned an invalid incremental range''
        (andThen (rebuildStores E events (map_option (\<lambda>(s, _). cloneStores s) base)) (\<lambda>stores.
         andThen (csChain src fromBlock) (\<lambda>chain.
         andAlso (requireRoots chain)
        (andAlso (assertStoresMatchChain E stores chain)
        (Inr (stores, throughBlockOf (Option.bind base snd) events))))))))"

definition storeCached :: "string \<Rightarrow> 'm cachedStores \<Rightarrow> 'm storeCache \<Rightarrow> 'm storeCache" where
  "storeCached key c cache = evictOldest 4 (jsSet key c (jsDelete key cache))"

text \<open>The result of a load, the cache it leaves, and the checkpoint it offers to the storage.\<close>

definition loadFinish ::
  "('m, 'w, 's) o1js \<Rightarrow> checkpointSource \<Rightarrow> 'm storeCache \<Rightarrow> 'm cachedStores \<Rightarrow>
     'm rebuiltStores result \<times> 'm storeCache \<times> storeCheckpoint option" where
  "loadFinish E src cache = (\<lambda>(stores, t).
     (Inr (cloneStores stores), storeCached (csKey src) (stores, t) cache,
      Some (checkpointStores E stores (csScope src) t)))"

definition load ::
  "('m, 'w, 's) o1js \<Rightarrow> checkpointSource \<Rightarrow> 'm storeCache \<Rightarrow>
     'm rebuiltStores result \<times> 'm storeCache \<times> storeCheckpoint option" where
  "load E src cache =
     (let cached = cachedFor E src cache;
          incremental = (case cached of Some (_, Some _) \<Rightarrow> cached | _ \<Rightarrow> None);
          genesis = (\<lambda>cache. case loadAttempt E src None of
              Inl err \<Rightarrow> (Inl err, jsDelete (csKey src) cache, None)
            | Inr c \<Rightarrow> loadFinish E src cache c)
      in case incremental of
           None \<Rightarrow> genesis cache
         | Some base \<Rightarrow> (case loadAttempt E src (Some base) of
              Inr c \<Rightarrow> loadFinish E src cache c
            | Inl _ \<Rightarrow> genesis (jsDelete (csKey src) cache)))"

section \<open>Restoring a checkpoint\<close>

lemma cloneStores_id [simp]: "cloneStores s = s"
  by (simp add: cloneStores_def cloneNullifiers_def)

lemma assertStoresMatchChain_Inr:
  "assertStoresMatchChain E stores chain = Inr () \<longleftrightarrow>
     sameValue (csOwnersCommitment chain) (getCommitment E (rsOwners stores)) \<and>
     sameValue (csApprovalRoot chain) (getApprovalRoot E (rsApprovals stores)) \<and>
     sameValue (csVoteNullifierRoot chain) (getNullifierRoot E (rsNullifiers stores))"
  by (simp add: assertStoresMatchChain_def)

text \<open>The chain state has all three roots and the stores reproduce them.\<close>

definition storesVerified :: "('m, 'w, 's) o1js \<Rightarrow> 'm rebuiltStores \<Rightarrow> chainState \<Rightarrow> bool" where
  "storesVerified E stores chain \<longleftrightarrow>
     csOwnersCommitment chain = Some (fieldToString (getCommitment E (rsOwners stores))) \<and>
     csApprovalRoot chain = Some (fieldToString (getApprovalRoot E (rsApprovals stores))) \<and>
     csVoteNullifierRoot chain = Some (fieldToString (getNullifierRoot E (rsNullifiers stores)))"

lemma verified_iff:
  "requireRoots chain = Inr () \<and> assertStoresMatchChain E stores chain = Inr () \<longleftrightarrow> storesVerified E stores chain"
  by (auto simp: requireRoots_def assertStoresMatchChain_Inr storesVerified_def sameValue_def)

definition storesOk :: "('m, 'w, 's) o1js \<Rightarrow> 'm rebuiltStores \<Rightarrow> bool" where
  "storesOk E s \<longleftrightarrow> length (rsOwners s) \<le> MAX_OWNERS \<and> (\<forall>pk \<in> set (rsOwners s). onCurve E (pkX pk)) \<and>
     approvalStoreInv E (rsApprovals s) \<and>
     (\<forall>k \<in> set (asKeys (rsApprovals s)). inField E k \<and> inField E (getCount E (rsApprovals s) k)) \<and>
     nullifierStoreInv E (rsNullifiers s) \<and> (\<forall>k \<in> set (vnKeys (rsNullifiers s)). inField E k)"

lemma checkpoint_restores:
  assumes E: "soundEnv E" "base58Laws E" and ok: "storesOk E s"
    and t: "case t of None \<Rightarrow> True | Some b \<Rightarrow> isSafeInteger b \<and> 0 \<le> b"
  obtains n where "getNullifierRoot E n = getNullifierRoot E (rsNullifiers s)"
    "restoreStoreCheckpoint E (checkpointStores E s scope t) scope = Inr \<lparr>rsOwners = rsOwners s,
       rsApprovals = deserializeApprovals E (serializeApprovals E (rsApprovals s)), rsNullifiers = n,
       rsDivergentApproval = None, rsDivergentNullifier = None\<rparr>"
proof -
  note m = soundEnv_merkle [OF E(1)]
  have o: "deserializeOwners E (serializeOwners E (rsOwners s)) = Inr (rsOwners s)"
    using ok by (intro deserialize_serialize [OF E(2)]) (auto simp: storesOk_def)
  have "getCount E (deserializeApprovals E (serializeApprovals E (rsApprovals s))) = getCount E (rsApprovals s)"
    using ok by (intro approvals_round_trip(1) [OF m]) (auto simp: storesOk_def)
  then have ar: "getApprovalRoot E (deserializeApprovals E (serializeApprovals E (rsApprovals s))) = getApprovalRoot E (rsApprovals s)"
    by (rule ap.root_ext [OF m])
  obtain n where n: "deserializeNullifiers E (serializeNullifiers (rsNullifiers s)) = Inr n"
    "getNullifierRoot E n = getNullifierRoot E (rsNullifiers s)"
    using nullifiers_round_trip [OF E(1), of "rsNullifiers s"] ok by (auto simp: storesOk_def)
  from n(2) show ?thesis
  proof (rule that)
    show "restoreStoreCheckpoint E (checkpointStores E s scope t) scope = Inr \<lparr>rsOwners = rsOwners s,
       rsApprovals = deserializeApprovals E (serializeApprovals E (rsApprovals s)), rsNullifiers = n,
       rsDivergentApproval = None, rsDivergentNullifier = None\<rparr>"
      using t ok o n ar by (simp add: restoreStoreCheckpoint_def checkpointStores_def requireRoots_def storesOk_def
          serializeOwners_def assertStoresMatchChain_Inr sameValue_def Let_def)
  qed
qed

text \<open>A checkpoint of well-formed stores restores, for the scope it was made for, to stores with the
  same owners, the same approval counts and the same three roots.\<close>

lemma checkpoint_round_trip:
  assumes E: "soundEnv E" "base58Laws E" and ok: "storesOk E s"
    and t: "case t of None \<Rightarrow> True | Some b \<Rightarrow> isSafeInteger b \<and> 0 \<le> b"
  shows "\<exists>s'. restoreStoreCheckpoint E (checkpointStores E s scope t) scope = Inr s' \<and> rsOwners s' = rsOwners s \<and>
    getCount E (rsApprovals s') = getCount E (rsApprovals s) \<and>
    getApprovalRoot E (rsApprovals s') = getApprovalRoot E (rsApprovals s) \<and>
    getNullifierRoot E (rsNullifiers s') = getNullifierRoot E (rsNullifiers s)"
proof -
  obtain n where n: "getNullifierRoot E n = getNullifierRoot E (rsNullifiers s)"
    "restoreStoreCheckpoint E (checkpointStores E s scope t) scope = Inr \<lparr>rsOwners = rsOwners s,
       rsApprovals = deserializeApprovals E (serializeApprovals E (rsApprovals s)), rsNullifiers = n,
       rsDivergentApproval = None, rsDivergentNullifier = None\<rparr>" by (rule checkpoint_restores [OF assms])
  have a: "getCount E (deserializeApprovals E (serializeApprovals E (rsApprovals s))) = getCount E (rsApprovals s)"
    using ok by (intro approvals_round_trip(1) [OF soundEnv_merkle [OF E(1)]]) (auto simp: storesOk_def)
  with n ap.root_ext [OF soundEnv_merkle [OF E(1)] a] show ?thesis by simp
qed

text \<open>Stores taken from an offline request are accepted only if the request has the current version, no
  events and a checkpoint for the requested network and vault, and only if they reproduce all three
  roots of both the checkpoint and the account snapshot.\<close>

lemma offline_stores_verified:
  assumes "storesFromOfflineRequest E request chain = Inr stores"
  shows "orVersion request = OFFLINE_REQUEST_VERSION \<and> orEvents request = [] \<and> storesVerified E stores chain \<and>
    (\<exists>cp. orCheckpoint request = Some cp \<and> cpNetwork cp = orNetwork request \<and> cpAddress cp = orContract request \<and>
      storesVerified E stores (cpRoots cp))"
  using assms
  by (auto simp: storesFromOfflineRequest_def restoreStoreCheckpoint_def Let_def split: option.splits simp flip: verified_iff)

section \<open>Loading\<close>

lemma loadAttempt_verified:
  assumes "loadAttempt E src base = Inr (stores, t)"
  obtains chain b where "csChain src b = Inr chain" "storesVerified E stores chain"
  using assms by (auto simp: loadAttempt_def Let_def simp flip: verified_iff)

lemma load_cases:
  assumes "load E src cache = (Inr stores, cache', cp)"
  obtains base t where "loadAttempt E src base = Inr (stores, t)"
  using assms by (auto simp: load_def loadFinish_def Let_def split: option.splits sum.splits prod.splits)

text \<open>C20: The cache fails closed. Whatever is in the in-memory cache or in the persistent storage, and
  whatever the event source returns, a load returns stores only if they reproduce all three roots of a
  chain state read during that load.\<close>

theorem load_fails_closed:
  assumes "load E src cache = (Inr stores, cache', cp)"
  shows "\<exists>chain b. csChain src b = Inr chain \<and> storesVerified E stores chain"
proof -
  obtain base t where "loadAttempt E src base = Inr (stores, t)" by (rule load_cases [OF assms])
  then show ?thesis by (rule loadAttempt_verified) blast
qed

lemma storeCached_bounded: "boundedMap 4 cache \<Longrightarrow> boundedMap 4 (storeCached key c cache)"
  unfolding storeCached_def
  by (rule evictOldest_bounded) (use jsDelete_absent [of key cache] in
      \<open>simp add: jsSet_keys boundedMap_def distinct_jsDelete\<close>)

lemma jsDelete_bounded: "boundedMap n cache \<Longrightarrow> boundedMap n (jsDelete key cache)"
  using length_jsDelete [of key cache] by (auto simp: boundedMap_def distinct_jsDelete)

text \<open>The in-memory cache never holds more than four vaults, each once, after any load, whether it
  succeeds or fails; after a load that fails the vault is not cached.\<close>

lemma load_cache_bounded:
  assumes "boundedMap 4 cache" "load E src cache = (r, cache', cp)"
  shows "boundedMap 4 cache' \<and> (\<not> isOk r \<longrightarrow> map_of cache' (csKey src) = None)"
  using assms
  by (auto simp: load_def loadFinish_def Let_def map_of_jsDelete storeCached_bounded jsDelete_bounded
      split: option.splits sum.splits prod.splits)

end
