(* ===== verification/Guard_Types.thy ===== *)
theory Guard_Types
  imports Owner_List
begin

text \<open>
  The data of the contract: the permission policy (\<open>guard-permission-policy.ts\<close>,
  \<open>guard-permissions.ts\<close>) and, from \<open>MinaGuard.ts\<close>, receivers, transaction proposals with their
  hash, the events, and the on-chain state of a guard account.
\<close>

section \<open>Permission policy\<close>

datatype guardPermissionName = EditState | Send | Receive | SetDelegate | SetPermissions
  | SetVerificationKey | SetZkappUri | EditActionState | SetTokenSymbol | IncrementNonce
  | SetVotingFor | SetTiming | Access

datatype guardPermissionKind = PermNone | PermEither | PermProof | PermSignature | PermImpossible

definition GUARD_PERMISSION_NAMES :: "guardPermissionName list" where
  "GUARD_PERMISSION_NAMES = [EditState, Send, Receive, SetDelegate, SetPermissions,
     SetVerificationKey, SetZkappUri, EditActionState, SetTokenSymbol, IncrementNonce,
     SetVotingFor, SetTiming, Access]"

fun GUARD_PERMISSION_KINDS :: "guardPermissionName \<Rightarrow> guardPermissionKind" where
  "GUARD_PERMISSION_KINDS EditState = PermProof"
| "GUARD_PERMISSION_KINDS Send = PermProof"
| "GUARD_PERMISSION_KINDS Receive = PermNone"
| "GUARD_PERMISSION_KINDS SetDelegate = PermProof"
| "GUARD_PERMISSION_KINDS SetPermissions = PermImpossible"
| "GUARD_PERMISSION_KINDS SetVerificationKey = PermImpossible"
| "GUARD_PERMISSION_KINDS SetZkappUri = PermImpossible"
| "GUARD_PERMISSION_KINDS EditActionState = PermProof"
| "GUARD_PERMISSION_KINDS SetTokenSymbol = PermImpossible"
| "GUARD_PERMISSION_KINDS IncrementNonce = PermImpossible"
| "GUARD_PERMISSION_KINDS SetVotingFor = PermImpossible"
| "GUARD_PERMISSION_KINDS SetTiming = PermImpossible"
| "GUARD_PERMISSION_KINDS Access = PermNone"

definition GUARD_SET_VERIFICATION_KEY_TXN_VERSION :: string where
  "GUARD_SET_VERIFICATION_KEY_TXN_VERSION = ''4''"

type_synonym permissions = "guardPermissionName \<Rightarrow> guardPermissionKind"

definition GUARD_PERMISSIONS :: permissions where
  "GUARD_PERMISSIONS n = (case n of
       EditState \<Rightarrow> PermProof | Send \<Rightarrow> PermProof | Receive \<Rightarrow> PermNone
     | SetDelegate \<Rightarrow> PermProof | SetPermissions \<Rightarrow> PermImpossible
     | SetVerificationKey \<Rightarrow> PermImpossible | SetZkappUri \<Rightarrow> PermImpossible
     | EditActionState \<Rightarrow> PermProof | SetTokenSymbol \<Rightarrow> PermImpossible
     | IncrementNonce \<Rightarrow> PermImpossible | SetVotingFor \<Rightarrow> PermImpossible
     | SetTiming \<Rightarrow> PermImpossible | Access \<Rightarrow> PermNone)"

definition GUARD_DEPLOY_PERMISSIONS :: permissions where
  "GUARD_DEPLOY_PERMISSIONS = GUARD_PERMISSIONS(SetPermissions := PermProof)"

section \<open>Receivers and proposals\<close>

record receiver =
  rAddress :: pubkey
  rAmount :: "64 word"

definition emptyReceiver :: receiver where
  "emptyReceiver = \<lparr>rAddress = emptyKey, rAmount = 0\<rparr>"

definition receiverToFields :: "receiver \<Rightarrow> field list" where
  "receiverToFields r = keyToFields (rAddress r) @ [uint (rAmount r)]"

record proposal =
  pReceivers :: "receiver list"
  pTokenId :: field
  pTxType :: field
  pData :: field
  pMemoHash :: field
  pNonce :: field
  pConfigNonce :: field
  pExpirySlot :: field
  pGuardAddress :: pubkey
  pDestination :: field
  pChildAccount :: pubkey

definition proposalFields :: "('m, 'w, 's) o1js \<Rightarrow> proposal \<Rightarrow> field list" where
  "proposalFields E p = concat (map receiverToFields (pReceivers p)) @
     [pTokenId p, pTxType p, pData p, pMemoHash p, pNonce p, pConfigNonce p, pExpirySlot p] @
     keyToFields (pGuardAddress p) @ [pDestination p] @ keyToFields (pChildAccount p) @ [NETWORK_DOMAIN E]"

definition proposalHash :: "('m, 'w, 's) o1js \<Rightarrow> proposal \<Rightarrow> field" where
  "proposalHash E p = hashWithPrefix E PROPOSAL_HASH_PREFIX (proposalFields E p)"

text \<open>The receiver array of a proposal has exactly \<open>MAX_RECEIVERS\<close> slots (\<open>ReceiversArray\<close>).\<close>

definition typedProposal :: "proposal \<Rightarrow> bool" where
  "typedProposal p \<longleftrightarrow> length (pReceivers p) = MAX_RECEIVERS"

section \<open>Events\<close>

datatype event =
    DeployEvent pubkey
  | SetupEvent field field field pubkey
  | SetupOwnerEvent pubkey field
  | ProposalEvent field pubkey field field field field field field field pubkey field pubkey
  | ReceiverEvent field pubkey "64 word"
  | ApprovalEvent field pubkey field field field
  | ExecutionEvent field field field
  | OwnerChangeEvent field pubkey field field field field
  | ThresholdChangeEvent field field field field
  | DelegateEvent field pubkey
  | CreateChildEvent field pubkey
  | ReclaimChildEvent field pubkey "64 word"
  | EnableChildMultiSigEvent field pubkey field field
  | CreateChildConfigEvent field pubkey field field field
  | CreateChildOwnerEvent field pubkey field

section \<open>On-chain state\<close>

record guard =
  ownersCommitment :: field
  threshold :: field
  numOwners :: field
  nonce :: field
  voteNullifierRoot :: field
  approvalRoot :: field
  configNonce :: field
  parent :: pubkey
  parentNonce :: field
  childExecutionRoot :: field
  childMultiSigEnabled :: field
  reservedConfigHash :: field
  accPermissions :: permissions
  accDelegate :: pubkey

text \<open>The ledger as far as the contract sees it: the guard accounts, the balances, and the slot.\<close>

record world =
  accounts :: "pubkey \<Rightarrow> guard option"
  balances :: "pubkey \<Rightarrow> nat"
  globalSlot :: nat

text \<open>A method yields the new state of its account, the events it emits and the payments it makes
  from its account.\<close>

type_synonym outcome = "guard \<times> event list \<times> (pubkey \<times> 64 word) list"

section \<open>The hash identifies the proposal\<close>

lemma receiverToFields_eq [simp]: "receiverToFields a = receiverToFields b \<longleftrightarrow> a = b"
proof
  assume "receiverToFields a = receiverToFields b"
  then have "rAddress a = rAddress b" "rAmount a = rAmount b"
    by (simp_all add: receiverToFields_def word_uint_eq_iff)
  then show "a = b" by simp
qed simp

lemma length_receiverToFields [simp]: "length (receiverToFields a) = 3"
  by (simp add: receiverToFields_def)

lemma concat_receivers_eq:
  "length xs = length ys \<Longrightarrow>
     concat (map receiverToFields xs) = concat (map receiverToFields ys) \<longleftrightarrow> xs = ys"
  by (induction xs ys rule: list_induct2) auto

lemma length_concat_receivers [simp]: "length (concat (map receiverToFields xs)) = 3 * length xs"
  by (induction xs) auto

lemma proposalFields_eq:
  assumes "typedProposal p" "typedProposal q" "proposalFields E p = proposalFields E q"
  shows "p = q"
proof -
  from assms have len: "length (concat (map receiverToFields (pReceivers p)))
      = length (concat (map receiverToFields (pReceivers q)))"
    by (simp add: typedProposal_def)
  with assms(3) have "pReceivers p = pReceivers q" and
    "pTokenId p = pTokenId q" "pTxType p = pTxType q" "pData p = pData q" "pMemoHash p = pMemoHash q"
    "pNonce p = pNonce q" "pConfigNonce p = pConfigNonce q" "pExpirySlot p = pExpirySlot q"
    "pGuardAddress p = pGuardAddress q" "pDestination p = pDestination q" "pChildAccount p = pChildAccount q"
    using assms(1,2) by (auto simp: proposalFields_def typedProposal_def concat_receivers_eq)
  then show ?thesis by simp
qed

lemma proposalHash_eq:
  "collisionFree E \<Longrightarrow> typedProposal p \<Longrightarrow> typedProposal q \<Longrightarrow>
     proposalHash E p = proposalHash E q \<longleftrightarrow> p = q"
  by (auto simp: proposalHash_def hash_eq_iff dest: proposalFields_eq)

lemma GUARD_PERMISSIONS_kinds: "GUARD_PERMISSIONS n = GUARD_PERMISSION_KINDS n"
  by (cases n) (simp_all add: GUARD_PERMISSIONS_def)

lemma GUARD_PERMISSION_NAMES_complete: "n \<in> set GUARD_PERMISSION_NAMES"
  by (cases n) (simp_all add: GUARD_PERMISSION_NAMES_def)

end
