(* ===== verification/Guard_Checks.thy ===== *)
theory Guard_Checks
  imports Guard_Types
begin

text \<open>
  The shared validation helpers of \<open>MinaGuard.ts\<close> (lines 335-760), one definition per private
  method. \<open>g\<close> is the state of the account the method runs on, \<open>this\<close> its address and \<open>w\<close> the
  ledger. A \<open>getAndRequireEquals\<close> read is a read of the ledger state at inclusion, because the
  precondition it installs rejects any other value.
\<close>

definition lockPermissions :: "guard \<Rightarrow> guard result" where
  "lockPermissions g =
     requirePre (accPermissions g SetPermissions = PermProof) ''setPermissions''
     (Inr (g\<lparr>accPermissions := GUARD_PERMISSIONS\<rparr>))"

definition lookupGuard :: "world \<Rightarrow> pubkey \<Rightarrow> guard result" where
  "lookupGuard w a = (case accounts w a of None \<Rightarrow> Inl AccountNotFound | Some g \<Rightarrow> Inr g)"

definition getInitializedOwnersCommitment :: "guard \<Rightarrow> field result" where
  "getInitializedOwnersCommitment g =
     require (ownersCommitment g \<noteq> 0) ''Wallet not initialized'' (Inr (ownersCommitment g))"

definition assertMerkleWitnessValue ::
  "('m, 'w, 's) o1js \<Rightarrow> field \<Rightarrow> field \<Rightarrow> 'w \<Rightarrow> field \<Rightarrow> string \<Rightarrow> string \<Rightarrow> unit result" where
  "assertMerkleWitnessValue E expectedRoot expectedKey witness expectedValue rootErrorMessage keyErrorMessage =
     (let (computedRoot, computedKey) = computeRootAndKey E witness expectedValue
      in require (computedRoot = expectedRoot) rootErrorMessage
        (require (computedKey = expectedKey) keyErrorMessage
        (Inr ())))"

definition setGovernanceState :: "field \<Rightarrow> field \<Rightarrow> guard \<Rightarrow> guard" where
  "setGovernanceState thr num g = g\<lparr>threshold := thr, numOwners := num\<rparr>"

definition bumpConfigNonce :: "('m, 'w, 's) o1js \<Rightarrow> guard \<Rightarrow> field \<times> guard" where
  "bumpConfigNonce E g =
     (let nxt = fieldAdd E (configNonce g) 1 in (nxt, g\<lparr>configNonce := nxt\<rparr>))"

definition assertChildMultiSigEnabledIfChild :: "guard \<Rightarrow> unit result" where
  "assertChildMultiSigEnabledIfChild g =
     (let isChild = (parent g \<noteq> emptyKey)
      in require (\<not> isChild \<or> childMultiSigEnabled g = 1) ''Child multi-sig disabled'' (Inr ()))"

definition assertLocalProposal :: "proposal \<Rightarrow> unit result" where
  "assertLocalProposal p =
     require (pDestination p = Destination LOCAL) ''Not a local destination proposal'' (Inr ())"

definition assertValidRemoteProposal :: "pubkey \<Rightarrow> proposal \<Rightarrow> unit result" where
  "assertValidRemoteProposal this p =
     require (pDestination p = Destination REMOTE) ''Not a remote destination proposal''
     (require (pChildAccount p = this) ''Proposal not for this child''
     (Inr ()))"

definition assertCurrAccountIsChild :: "pubkey \<Rightarrow> unit result" where
  "assertCurrAccountIsChild par = require (par \<noteq> emptyKey) ''Not a child account'' (Inr ())"

definition assertValidProposalConfigNetworkAndGuard :: "proposal \<Rightarrow> field \<Rightarrow> pubkey \<Rightarrow> unit result" where
  "assertValidProposalConfigNetworkAndGuard p cfgNonce guardAddr =
     require (pConfigNonce p = cfgNonce) ''Config nonce mismatch - governance changed since proposal''
     (require (pGuardAddress p = guardAddr) ''Guard address mismatch''
     (Inr ()))"

definition assertProposalConfigNetworkAndGuard :: "pubkey \<Rightarrow> guard \<Rightarrow> proposal \<Rightarrow> unit result" where
  "assertProposalConfigNetworkAndGuard this g p =
     assertValidProposalConfigNetworkAndGuard p (configNonce g) this"

definition assertProposalDestinationAndChildAccount :: "guard \<Rightarrow> proposal \<Rightarrow> unit result" where
  "assertProposalDestinationAndChildAccount g p =
     (let isDestinationLocal = (pDestination p = Destination LOCAL);
          isDestinationRemote = (pDestination p = Destination REMOTE);
          childAccountEmpty = (pChildAccount p = emptyKey);
          isRoot = (parent g = emptyKey)
      in require (isDestinationLocal \<or> isDestinationRemote) ''Invalid destination value''
        (require (isDestinationRemote \<or> childAccountEmpty)
           ''Local destination proposals cannot target child accounts''
        (require (isDestinationLocal \<or> \<not> childAccountEmpty)
           ''Remote destination proposals must target a specific child account''
        (require (isDestinationLocal \<or> isRoot)
           ''Remote destination proposals must be proposed on a root guard''
        (Inr ())))))"

definition assertProposalNotExpired :: "world \<Rightarrow> proposal \<Rightarrow> unit result" where
  "assertProposalNotExpired w p =
     require (0 \<le> pExpirySlot p \<and> pExpirySlot p < 2 ^ 32) ''UInt32.check''
     (let noExpiry = (pExpirySlot p = 0);
          upper = (if noExpiry then 2 ^ 32 - 1 else pExpirySlot p)
      in requirePre (int (globalSlot w) \<le> upper) ''globalSlotSinceGenesis''
        (Inr ()))"

definition assertFreshProposalNonce :: "world \<Rightarrow> pubkey \<Rightarrow> guard \<Rightarrow> proposal \<Rightarrow> unit result" where
  "assertFreshProposalNonce w this g p =
     (let isLocal = (pDestination p = Destination LOCAL);
          isCreateChild = (pTxType p = TxType CREATE_CHILD);
          isRemoteNonCreate = (pDestination p = Destination REMOTE \<and> \<not> isCreateChild);
          isRemoteCreate = (pDestination p = Destination REMOTE \<and> isCreateChild);
          nonceAuthority = (if isRemoteNonCreate then pChildAccount p else this)
      in andThen (lookupGuard w nonceAuthority) (\<lambda>childGuard.
         require (\<not> isRemoteNonCreate \<or> ownersCommitment childGuard \<noteq> 0) ''Target child not initialized''
        (require (\<not> isRemoteNonCreate \<or> parent childGuard = this) ''Target child not bound to this parent''
        (require ((isLocal \<and> pNonce p > nonce g)
             \<or> (isRemoteNonCreate \<and> pNonce p > parentNonce childGuard)
             \<or> (isRemoteCreate \<and> pNonce p = 0)) ''Proposal nonce stale''
        (Inr ())))))"

definition assertAndIncrementLocalNonce :: "('m, 'w, 's) o1js \<Rightarrow> guard \<Rightarrow> proposal \<Rightarrow> guard result" where
  "assertAndIncrementLocalNonce E g p =
     (let nextNonce = fieldAdd E (nonce g) 1
      in require (pNonce p = nextNonce) ''Invalid proposal nonce''
        (Inr (g\<lparr>nonce := nextNonce\<rparr>)))"

definition assertAndIncrementParentNonce :: "('m, 'w, 's) o1js \<Rightarrow> guard \<Rightarrow> proposal \<Rightarrow> guard result" where
  "assertAndIncrementParentNonce E g p =
     (let nextParentNonce = fieldAdd E (parentNonce g) 1
      in require (pNonce p = nextParentNonce) ''Invalid parent proposal nonce''
        (Inr (g\<lparr>parentNonce := nextParentNonce\<rparr>)))"

definition assertNotExecuted :: "('m, 'w, 's) o1js \<Rightarrow> field \<Rightarrow> unit result" where
  "assertNotExecuted E approvalCount =
     require (approvalCount \<noteq> EXECUTED_MARKER E) ''Proposal already executed'' (Inr ())"

definition assertProposalExists :: "field \<Rightarrow> unit result" where
  "assertProposalExists approvalCount =
     require (approvalCount \<ge> PROPOSED_MARKER) ''Proposal not found'' (Inr ())"

definition assertThresholdSatisfied :: "('m, 'w, 's) o1js \<Rightarrow> field \<Rightarrow> field \<Rightarrow> unit result" where
  "assertThresholdSatisfied E approvalCount thr =
     require (approvalCount \<ge> fieldAdd E thr PROPOSED_MARKER) ''Insufficient approvals'' (Inr ())"

definition atMostOneReceiver :: "proposal \<Rightarrow> bool" where
  "atMostOneReceiver p = list_all (\<lambda>r. rAddress r = emptyKey) (tl (pReceivers p))"

definition assertApprovalWitnessValue ::
  "('m, 'w, 's) o1js \<Rightarrow> guard \<Rightarrow> field \<Rightarrow> 'w \<Rightarrow> field \<Rightarrow> unit result" where
  "assertApprovalWitnessValue E g propHash approvalWitness expectedValue =
     assertMerkleWitnessValue E (approvalRoot g) propHash approvalWitness expectedValue
       ''Approval root mismatch'' ''Approval key mismatch''"

definition markExecuted :: "('m, 'w, 's) o1js \<Rightarrow> 'w \<Rightarrow> guard \<Rightarrow> field \<times> guard" where
  "markExecuted E approvalWitness g =
     (let newApprovalRoot = fst (computeRootAndKey E approvalWitness (EXECUTED_MARKER E))
      in (newApprovalRoot, g\<lparr>approvalRoot := newApprovalRoot\<rparr>))"

definition assertChildExecutionWitnessValue ::
  "('m, 'w, 's) o1js \<Rightarrow> guard \<Rightarrow> field \<Rightarrow> 'w \<Rightarrow> field \<Rightarrow> unit result" where
  "assertChildExecutionWitnessValue E g propHash childExecutionWitness expectedValue =
     assertMerkleWitnessValue E (childExecutionRoot g) propHash childExecutionWitness expectedValue
       ''Child execution root mismatch'' ''Child execution key mismatch''"

definition markChildExecuted :: "('m, 'w, 's) o1js \<Rightarrow> 'w \<Rightarrow> guard \<Rightarrow> field \<times> guard" where
  "markChildExecuted E childExecutionWitness g =
     (let newRoot = fst (computeRootAndKey E childExecutionWitness (EXECUTED_MARKER E))
      in (newRoot, g\<lparr>childExecutionRoot := newRoot\<rparr>))"

definition assertParentApprovalState ::
  "('m, 'w, 's) o1js \<Rightarrow> world \<Rightarrow> proposal \<Rightarrow> pubkey \<Rightarrow> 'w \<Rightarrow> field \<Rightarrow> field result" where
  "assertParentApprovalState E w p parentAddress parentApprovalWitness parentApprovalCount =
     andThen (lookupGuard w parentAddress) (\<lambda>parentGuard.
     require (ownersCommitment parentGuard \<noteq> 0) ''Parent not initialized''
     (andAlso (assertValidProposalConfigNetworkAndGuard p (configNonce parentGuard) parentAddress)
     (andAlso (assertProposalNotExpired w p)
     (let propHash = proposalHash E p
      in andAlso (assertMerkleWitnessValue E (approvalRoot parentGuard) propHash parentApprovalWitness
           parentApprovalCount ''Parent approval root mismatch'' ''Parent approval key mismatch'')
        (andAlso (assertNotExecuted E parentApprovalCount)
        (andAlso (assertProposalExists parentApprovalCount)
        (andAlso (assertThresholdSatisfied E parentApprovalCount (threshold parentGuard))
        (Inr propHash))))))))"

definition verifyParentApproval ::
  "('m, 'w, 's) o1js \<Rightarrow> world \<Rightarrow> guard \<Rightarrow> proposal \<Rightarrow> 'w \<Rightarrow> field \<Rightarrow> field result" where
  "verifyParentApproval E w g p parentApprovalWitness parentApprovalCount =
     andAlso (assertCurrAccountIsChild (parent g))
     (assertParentApprovalState E w p (parent g) parentApprovalWitness parentApprovalCount)"

definition emitReceiversEvent :: "proposal \<Rightarrow> field \<Rightarrow> event list" where
  "emitReceiversEvent p propHash = map (\<lambda>r.
     let isEmpty = (rAddress r = emptyKey);
         effectiveAmount = (if isEmpty then 0 else rAmount r)
     in ReceiverEvent propHash (rAddress r) effectiveAmount) (pReceivers p)"

definition executeTransfers :: "pubkey \<Rightarrow> proposal \<Rightarrow> (pubkey \<times> 64 word) list" where
  "executeTransfers this p = map (\<lambda>r.
     let isEmpty = (rAddress r = emptyKey)
     in (if isEmpty then this else rAddress r, if isEmpty then 0 else rAmount r)) (pReceivers p)"

definition assertValidInitialGovernance :: "field \<Rightarrow> field \<Rightarrow> unit result" where
  "assertValidInitialGovernance thr num =
     require (thr > 0) ''Threshold must be > 0''
     (require (num \<ge> thr) ''Owners must be >= threshold''
     (require (num \<le> int MAX_OWNERS) ''Too many owners''
     (Inr ())))"

definition ownerEvents :: "(pubkey \<Rightarrow> field \<Rightarrow> event) \<Rightarrow> pubkey list \<Rightarrow> field \<Rightarrow> event list" where
  "ownerEvents mk owners num = map (\<lambda>i.
     let index = int i; active = index < num
     in mk (if active then owners ! i else emptyKey) index) [0..<MAX_OWNERS]"

definition initializeState ::
  "('m, 'w, 's) o1js \<Rightarrow> guard \<Rightarrow> field \<Rightarrow> field \<Rightarrow> pubkey \<Rightarrow> field \<Rightarrow> field \<Rightarrow> pubkey list
     \<Rightarrow> (guard \<times> event list) result" where
  "initializeState E g thr num par nonce0 parentNonce0 initialOwners =
     requirePre (ownersCommitment g = 0) ''ownersCommitment''
     (andAlso (assertValidInitialGovernance thr num)
     (andAlso (assertCoherentSetupOwners E initialOwners num)
     (let commitment = computeSetupOwnersChain E initialOwners num;
          g1 = setGovernanceState thr num (g\<lparr>ownersCommitment := commitment\<rparr>);
          g2 = g1\<lparr>nonce := nonce0, approvalRoot := EMPTY_MERKLE_MAP_ROOT E,
                  voteNullifierRoot := EMPTY_MERKLE_MAP_ROOT E, parent := par,
                  parentNonce := parentNonce0, childExecutionRoot := EMPTY_MERKLE_MAP_ROOT E,
                  childMultiSigEnabled := 1\<rparr>
      in Inr (g2, SetupEvent commitment thr num par # ownerEvents SetupOwnerEvent initialOwners num))))"

lemmas check_defs [guard_defs] =
  lockPermissions_def lookupGuard_def getInitializedOwnersCommitment_def
  assertChildMultiSigEnabledIfChild_def assertLocalProposal_def assertValidRemoteProposal_def
  assertCurrAccountIsChild_def assertValidProposalConfigNetworkAndGuard_def
  assertProposalConfigNetworkAndGuard_def assertProposalDestinationAndChildAccount_def
  assertNotExecuted_def assertProposalExists_def
  assertThresholdSatisfied_def assertAndIncrementLocalNonce_def assertAndIncrementParentNonce_def
  assertValidInitialGovernance_def setGovernanceState_def bumpConfigNonce_def

lemma lookupGuard_Inr [simp]: "lookupGuard w a = Inr g \<longleftrightarrow> accounts w a = Some g"
  by (simp add: lookupGuard_def split: option.splits)

lemma assertMerkleWitnessValue_Inr [simp]:
  "assertMerkleWitnessValue E r k wit v m1 m2 = Inr () \<longleftrightarrow> computeRootAndKey E wit v = (r, k)"
  by (auto simp: assertMerkleWitnessValue_def split: prod.splits)

end
