(* ===== verification/Guard_Methods.thy ===== *)
theory Guard_Methods
  imports Guard_Checks
begin

text \<open>
  The methods of \<open>MinaGuard.ts\<close>, one definition per \<open>@method\<close>, with the assertions in source
  order. \<open>w\<close> is the ledger the method reads foreign accounts and the slot from, \<open>this\<close> the address
  and \<open>g\<close> the state of the account it runs on.
\<close>

section \<open>Deployment and initialisation\<close>

definition deploy :: "pubkey \<Rightarrow> outcome" where
  "deploy this =
     (\<lparr> ownersCommitment = 0, threshold = 0, numOwners = 0, nonce = 0, voteNullifierRoot = 0,
        approvalRoot = 0, configNonce = 0, parent = emptyKey, parentNonce = 0,
        childExecutionRoot = 0, childMultiSigEnabled = 0, reservedConfigHash = 0,
        accPermissions = GUARD_DEPLOY_PERMISSIONS, accDelegate = this \<rparr>,
      [DeployEvent this], [])"

definition setupRoot ::
  "('m, 'w, 's) o1js \<Rightarrow> guard \<Rightarrow> field \<Rightarrow> field \<Rightarrow> pubkey list \<Rightarrow> outcome result" where
  "setupRoot E g thr num initialOwners =
     andThen (lockPermissions g) (\<lambda>g1.
     requirePre (parent g1 = emptyKey) ''parent''
     (andThen (initializeState E g1 thr num emptyKey 0 0 initialOwners) (\<lambda>(g2, evs).
     Inr (g2, evs, []))))"

definition reserveForParent ::
  "('m, 'w, 's) o1js \<Rightarrow> world \<Rightarrow> pubkey \<Rightarrow> guard \<Rightarrow> pubkey \<Rightarrow> field \<Rightarrow> field \<Rightarrow> field \<Rightarrow> pubkey list
     \<Rightarrow> outcome result" where
  "reserveForParent E w this g parentAddress propHash thr num initialOwners =
     andThen (lockPermissions g) (\<lambda>g1.
     requirePre (ownersCommitment g1 = 0) ''ownersCommitment''
     (requirePre (parent g1 = emptyKey) ''parent''
     (require (parentAddress \<noteq> emptyKey) ''Parent address must not be empty''
     (require (onCurve E (pkX parentAddress)) ''not a curve point''
     (require (parentAddress \<noteq> this) ''Parent must not be this account''
     (andThen (lookupGuard w parentAddress) (\<lambda>parentGuard.
     require (ownersCommitment parentGuard \<noteq> 0) ''Parent must be initialized''
     (require (parent parentGuard = emptyKey) ''Parent must be a root guard''
     (andAlso (assertValidInitialGovernance thr num)
     (andAlso (assertCoherentSetupOwners E initialOwners num)
     (let commitment = computeSetupOwnersChain E initialOwners num;
          configHash = childConfigHash E commitment thr num
      in Inr (g1\<lparr>parent := parentAddress, reservedConfigHash := configHash\<rparr>,
          CreateChildConfigEvent propHash this commitment thr num
            # ownerEvents (CreateChildOwnerEvent propHash) initialOwners num, []))))))))))))"

definition executeSetupChild ::
  "('m, 'w, 's) o1js \<Rightarrow> world \<Rightarrow> pubkey \<Rightarrow> guard \<Rightarrow> field \<Rightarrow> field \<Rightarrow> pubkey list \<Rightarrow> proposal \<Rightarrow> 'w \<Rightarrow> field
     \<Rightarrow> outcome result" where
  "executeSetupChild E w this g thr num initialOwners p parentApprovalWitness parentApprovalCount =
     (let parentAddress = pGuardAddress p
      in require (parentAddress \<noteq> emptyKey) ''Parent address required''
     (require (parent g = parentAddress) ''parent''
     (require (pTxType p = TxType CREATE_CHILD) ''Not a create child tx''
     (require (pDestination p = Destination REMOTE) ''Not a remote execution proposal''
     (require (pChildAccount p = this) ''Proposal not for this child''
     (require (pNonce p = 0) ''Create child proposal nonce must be 0''
     (andAlso (assertCoherentSetupOwners E initialOwners num)
     (let commitment = computeSetupOwnersChain E initialOwners num;
          configHash = childConfigHash E commitment thr num
      in require (pData p = configHash) ''Child config mismatch''
     (require (reservedConfigHash g = configHash) ''Executed config must match reserved child config''
     (andThen (assertParentApprovalState E w p parentAddress parentApprovalWitness parentApprovalCount) (\<lambda>propHash.
      andThen (initializeState E g thr num parentAddress 0 0 initialOwners) (\<lambda>(g1, evs).
      Inr (g1\<lparr>reservedConfigHash := 0\<rparr>,
        evs @ [ExecutionEvent propHash (pTxType p) (EMPTY_MERKLE_MAP_ROOT E),
               CreateChildEvent propHash parentAddress], [])))))))))))))"

section \<open>Voting\<close>

definition isTx :: "proposal \<Rightarrow> txType \<Rightarrow> bool" where
  "isTx p t = (pTxType p = TxType t)"

definition assertProposalShape :: "('m, 'w, 's) o1js \<Rightarrow> guard \<Rightarrow> proposal \<Rightarrow> unit result" where
  "assertProposalShape E g p =
     (let isTransfer = isTx p TRANSFER; isChangeThreshold = isTx p CHANGE_THRESHOLD;
          isAddOwner = isTx p ADD_OWNER; isRemoveOwner = isTx p REMOVE_OWNER;
          isSetDelegate = isTx p SET_DELEGATE; isCreateChild = isTx p CREATE_CHILD;
          isAllocateChild = isTx p ALLOCATE_CHILD; isReclaimChild = isTx p RECLAIM_CHILD;
          isDestroyChild = isTx p DESTROY_CHILD; isEnableChildMultiSig = isTx p ENABLE_CHILD_MULTI_SIG;
          isLocalType = (isTransfer \<or> isChangeThreshold \<or> isAddOwner \<or> isRemoveOwner \<or> isSetDelegate \<or> isAllocateChild);
          isRemoteType = (isCreateChild \<or> isReclaimChild \<or> isDestroyChild \<or> isEnableChildMultiSig);
          slot0Empty = (rAddress (pReceivers p ! 0) = emptyKey);
          needsPubKey = (isAddOwner \<or> isRemoveOwner);
          isChildLifecycle = (isCreateChild \<or> isReclaimChild \<or> isDestroyChild \<or> isEnableChildMultiSig);
          isTransferLike = (isTransfer \<or> isAllocateChild);
          allowsData = (isChangeThreshold \<or> isCreateChild \<or> isReclaimChild \<or> isEnableChildMultiSig \<or> isAddOwner)
      in require (isTransfer \<or> isChangeThreshold \<or> isAddOwner \<or> isRemoveOwner \<or> isSetDelegate \<or> isCreateChild
             \<or> isAllocateChild \<or> isReclaimChild \<or> isDestroyChild \<or> isEnableChildMultiSig) ''Unknown txType''
     (require ((isLocalType \<and> pDestination p = Destination LOCAL)
             \<or> (isRemoteType \<and> pDestination p = Destination REMOTE)) ''txType and destination mismatch''
     (require (\<not> (needsPubKey \<and> slot0Empty)) ''addOwner/removeOwner requires target pubkey in receivers[0]''
     (require (\<not> (isChangeThreshold \<and> \<not> slot0Empty)) ''changeThreshold must have empty receivers[0]''
     (require (\<not> (isChildLifecycle \<and> \<not> slot0Empty)) ''Child lifecycle proposal must have empty receivers[0]''
     (require (isTransferLike \<or> atMostOneReceiver p) ''Non-transfer proposal has extra receivers''
     (andAlso (forEach (\<lambda>r. require (isTransferLike \<or> uint (rAmount r) = 0)
         ''Non-transfer proposal must have zero receiver amounts'' (Inr ())) (pReceivers p))
     (require (allowsData \<or> pData p = 0) ''data must be zero for this txType''
     (require (\<not> (isAddOwner \<and> pData p = 0)) ''addOwner requires expected owners commitment in data''
     (require (\<not> isChangeThreshold \<or> pData p > 0) ''Threshold must be > 0''
     (require (\<not> isChangeThreshold \<or> pData p \<le> numOwners g) ''Threshold cannot exceed owner count''
     (require (\<not> isEnableChildMultiSig \<or> pData p = 0 \<or> pData p = 1) ''Enabled must be 0 or 1''
     (require (pTokenId p = NATIVE_TOKEN_ID) ''Only the native MINA token (tokenId 1) is supported''
     (andAlso (forEach (\<lambda>r. let isEmpty = (rAddress r = emptyKey)
         in assertOnCurveIf E (\<not> isEmpty) (rAddress r)
           (require (\<not> (isEmpty \<and> rAmount r \<noteq> 0)) ''Empty receiver must have zero amount'' (Inr ()))) (pReceivers p))
     (Inr ())))))))))))))))"

definition propose ::
  "('m, 'w, 's) o1js \<Rightarrow> world \<Rightarrow> pubkey \<Rightarrow> guard \<Rightarrow> proposal \<Rightarrow> ownerWitness \<Rightarrow> pubkey \<Rightarrow> 's \<Rightarrow> 'w \<Rightarrow> 'w
     \<Rightarrow> outcome result" where
  "propose E w this g p ownerWit proposer signature voteNullifierWitness approvalWitness =
     andAlso (assertChildMultiSigEnabledIfChild g)
     (andThen (getInitializedOwnersCommitment g) (\<lambda>commitment.
      andAlso (assertOwnerMembership E commitment proposer ownerWit)
     (andAlso (assertProposalConfigNetworkAndGuard this g p)
     (andAlso (assertProposalDestinationAndChildAccount g p)
     (andAlso (assertProposalNotExpired w p)
     (andAlso (assertFreshProposalNonce w this g p)
     (andAlso (assertProposalShape E g p)
     (let propHash = proposalHash E p;
          nullKey = voteNullifierKey E propHash proposer
      in require (verifySignature E signature proposer [proposalSigningMessage E propHash ActPropose]) ''Invalid signature''
     (andAlso (assertMerkleWitnessValue E (voteNullifierRoot g) nullKey voteNullifierWitness 0
         ''Vote nullifier root mismatch'' ''Vote nullifier key mismatch'')
     (let newVoteRoot = fst (computeRootAndKey E voteNullifierWitness 1)
      in andAlso (assertApprovalWitnessValue E g propHash approvalWitness 0)
     (let newCount = fieldAdd E PROPOSED_MARKER 1;
          newApprovalRoot = fst (computeRootAndKey E approvalWitness newCount)
      in Inr (g\<lparr>voteNullifierRoot := newVoteRoot, approvalRoot := newApprovalRoot\<rparr>,
          [ProposalEvent propHash proposer (pTokenId p) (pTxType p) (pData p) (pMemoHash p) (pNonce p)
             (pConfigNonce p) (pExpirySlot p) (pGuardAddress p) (pDestination p) (pChildAccount p)]
          @ emitReceiversEvent p propHash
          @ [ApprovalEvent propHash proposer newCount newApprovalRoot newVoteRoot], []))))))))))))"

definition approveProposal ::
  "('m, 'w, 's) o1js \<Rightarrow> world \<Rightarrow> pubkey \<Rightarrow> guard \<Rightarrow> proposal \<Rightarrow> 's \<Rightarrow> pubkey \<Rightarrow> ownerWitness \<Rightarrow> 'w \<Rightarrow> field \<Rightarrow> 'w
     \<Rightarrow> outcome result" where
  "approveProposal E w this g p signature approver ownerWit approvalWitness currentApprovalCount voteNullifierWitness =
     andAlso (assertChildMultiSigEnabledIfChild g)
     (andThen (getInitializedOwnersCommitment g) (\<lambda>commitment.
      andAlso (assertOwnerMembership E commitment approver ownerWit)
     (andAlso (assertProposalConfigNetworkAndGuard this g p)
     (andAlso (assertProposalDestinationAndChildAccount g p)
     (andAlso (assertProposalNotExpired w p)
     (andAlso (assertFreshProposalNonce w this g p)
     (let propHash = proposalHash E p;
          nullKey = voteNullifierKey E propHash approver
      in require (verifySignature E signature approver [proposalSigningMessage E propHash ActApprove]) ''Invalid signature''
     (andAlso (assertNotExecuted E currentApprovalCount)
     (andAlso (assertProposalExists currentApprovalCount)
     (andAlso (assertMerkleWitnessValue E (voteNullifierRoot g) nullKey voteNullifierWitness 0
         ''Vote nullifier root mismatch'' ''Vote nullifier key mismatch'')
     (let newVoteRoot = fst (computeRootAndKey E voteNullifierWitness 1)
      in andAlso (assertApprovalWitnessValue E g propHash approvalWitness currentApprovalCount)
     (let newApprovalCount = fieldAdd E currentApprovalCount 1;
          newApprovalRoot = fst (computeRootAndKey E approvalWitness newApprovalCount)
      in Inr (g\<lparr>voteNullifierRoot := newVoteRoot, approvalRoot := newApprovalRoot\<rparr>,
          [ApprovalEvent propHash approver newApprovalCount newApprovalRoot newVoteRoot], [])))))))))))))"

section \<open>Local execution\<close>

text \<open>The assertions the five local execution methods share, from the configuration check to the
  nonce, in source order.\<close>

definition assertExecutable ::
  "('m, 'w, 's) o1js \<Rightarrow> world \<Rightarrow> pubkey \<Rightarrow> guard \<Rightarrow> proposal \<Rightarrow> 'w \<Rightarrow> field \<Rightarrow> guard result" where
  "assertExecutable E w this g p approvalWitness approvalCount =
     andAlso (assertProposalConfigNetworkAndGuard this g p)
     (andAlso (assertProposalNotExpired w p)
     (andAlso (assertNotExecuted E approvalCount)
     (andAlso (assertProposalExists approvalCount)
     (andAlso (assertThresholdSatisfied E approvalCount (threshold g))
     (andAlso (assertApprovalWitnessValue E g (proposalHash E p) approvalWitness approvalCount)
     (assertAndIncrementLocalNonce E g p))))))"

definition executeTransfer ::
  "('m, 'w, 's) o1js \<Rightarrow> world \<Rightarrow> pubkey \<Rightarrow> guard \<Rightarrow> proposal \<Rightarrow> 'w \<Rightarrow> field \<Rightarrow> outcome result" where
  "executeTransfer E w this g p approvalWitness approvalCount =
     andAlso (assertChildMultiSigEnabledIfChild g)
     (andThen (getInitializedOwnersCommitment g) (\<lambda>_.
      require (pTxType p = TxType TRANSFER) ''Not a transfer tx''
     (andAlso (assertLocalProposal p)
     (andThen (assertExecutable E w this g p approvalWitness approvalCount) (\<lambda>g1.
      let (writtenRoot, g2) = markExecuted E approvalWitness g1
      in Inr (g2, [ExecutionEvent (proposalHash E p) (pTxType p) writtenRoot], executeTransfers this p))))))"

definition assertAllocationRecipient :: "world \<Rightarrow> pubkey \<Rightarrow> receiver \<Rightarrow> unit result" where
  "assertAllocationRecipient w this r =
     (let isEmpty = (rAddress r = emptyKey);
          recipient = (if isEmpty then this else rAddress r)
      in andThen (lookupGuard w recipient) (\<lambda>child.
         require (isEmpty \<or> ownersCommitment child \<noteq> 0) ''Allocation recipient not initialized''
        (require (isEmpty \<or> parent child = this) ''Allocation recipient not bound to this parent''
        (Inr ()))))"

definition executeAllocateToChildren ::
  "('m, 'w, 's) o1js \<Rightarrow> world \<Rightarrow> pubkey \<Rightarrow> guard \<Rightarrow> proposal \<Rightarrow> 'w \<Rightarrow> field \<Rightarrow> outcome result" where
  "executeAllocateToChildren E w this g p approvalWitness approvalCount =
     andAlso (assertChildMultiSigEnabledIfChild g)
     (andThen (getInitializedOwnersCommitment g) (\<lambda>_.
      require (pTxType p = TxType ALLOCATE_CHILD) ''Not an allocate child tx''
     (andAlso (assertLocalProposal p)
     (andThen (assertExecutable E w this g p approvalWitness approvalCount) (\<lambda>g1.
      andAlso (forEach (assertAllocationRecipient w this) (pReceivers p))
     (let (writtenRoot, g2) = markExecuted E approvalWitness g1
      in Inr (g2, [ExecutionEvent (proposalHash E p) (pTxType p) writtenRoot], executeTransfers this p)))))))"

definition executeOwnerChange ::
  "('m, 'w, 's) o1js \<Rightarrow> world \<Rightarrow> pubkey \<Rightarrow> guard \<Rightarrow> proposal \<Rightarrow> 'w \<Rightarrow> field \<Rightarrow> ownerWitness \<Rightarrow> pkOption
     \<Rightarrow> outcome result" where
  "executeOwnerChange E w this g p approvalWitness approvalCount ownerWit insertAfter =
     andAlso (assertChildMultiSigEnabledIfChild g)
     (andThen (getInitializedOwnersCommitment g) (\<lambda>commitment.
      let isAdd = (pTxType p = TxType ADD_OWNER); isRemove = (pTxType p = TxType REMOVE_OWNER)
      in require (isAdd \<or> isRemove) ''Not an owner change tx''
     (andAlso (assertLocalProposal p)
     (andThen (assertExecutable E w this g p approvalWitness approvalCount) (\<lambda>g1.
      let ownerPubKey = rAddress (pReceivers p ! 0);
          (afterAddComm, addIsValid) = addOwnerToCommitment E commitment ownerPubKey ownerWit insertAfter;
          (afterRemoveComm, remIsValid) = removeOwnerFromCommitment E commitment ownerPubKey ownerWit;
          newNumOwners = fieldSub E (fieldAdd E (numOwners g) (boolToField isAdd)) (boolToField isRemove)
      in require (newNumOwners \<ge> threshold g) ''Cannot remove: would go below threshold''
     (require (newNumOwners \<le> int MAX_OWNERS) ''Cannot have more than 20 owners.''
     (require (if isRemove then remIsValid else addIsValid) ''Owner change not valid''
     (require (if isAdd then afterAddComm = pData p else True)
        ''Owner commitment does not match approved proposal.data''
     (let newOwnersCommitment = (if isRemove then afterRemoveComm else afterAddComm);
          g2 = setGovernanceState (threshold g) newNumOwners (g1\<lparr>ownersCommitment := newOwnersCommitment\<rparr>);
          (writtenRoot, g3) = markExecuted E approvalWitness g2;
          (newConfigNonce, g4) = bumpConfigNonce E g3
      in Inr (g4, [ExecutionEvent (proposalHash E p) (pTxType p) writtenRoot,
           OwnerChangeEvent (proposalHash E p) ownerPubKey (boolToField isAdd) newNumOwners
             newOwnersCommitment newConfigNonce], []))))))))))"

definition executeThresholdChange ::
  "('m, 'w, 's) o1js \<Rightarrow> world \<Rightarrow> pubkey \<Rightarrow> guard \<Rightarrow> proposal \<Rightarrow> 'w \<Rightarrow> field \<Rightarrow> field \<Rightarrow> outcome result" where
  "executeThresholdChange E w this g p approvalWitness approvalCount newThreshold =
     andAlso (assertChildMultiSigEnabledIfChild g)
     (andThen (getInitializedOwnersCommitment g) (\<lambda>_.
      require (pTxType p = TxType CHANGE_THRESHOLD) ''Not a threshold change tx''
     (andAlso (assertLocalProposal p)
     (andThen (assertExecutable E w this g p approvalWitness approvalCount) (\<lambda>g1.
      require (pData p = newThreshold) ''Data does not match new threshold''
     (require (newThreshold > 0) ''Threshold must be > 0''
     (require (numOwners g \<ge> newThreshold) ''Threshold cannot exceed owner count''
     (let g2 = setGovernanceState newThreshold (numOwners g) g1;
          (writtenRoot, g3) = markExecuted E approvalWitness g2;
          (newConfigNonce, g4) = bumpConfigNonce E g3
      in Inr (g4, [ExecutionEvent (proposalHash E p) (pTxType p) writtenRoot,
           ThresholdChangeEvent (proposalHash E p) (threshold g) newThreshold newConfigNonce], [])))))))))"

definition executeDelegate ::
  "('m, 'w, 's) o1js \<Rightarrow> world \<Rightarrow> pubkey \<Rightarrow> guard \<Rightarrow> proposal \<Rightarrow> 'w \<Rightarrow> field \<Rightarrow> outcome result" where
  "executeDelegate E w this g p approvalWitness approvalCount =
     andAlso (assertChildMultiSigEnabledIfChild g)
     (andThen (getInitializedOwnersCommitment g) (\<lambda>_.
      require (pTxType p = TxType SET_DELEGATE) ''Not a delegate tx''
     (andAlso (assertLocalProposal p)
     (andThen (assertExecutable E w this g p approvalWitness approvalCount) (\<lambda>g1.
      let isUndelegate = (rAddress (pReceivers p ! 0) = emptyKey);
          targetDelegate = (if isUndelegate then this else rAddress (pReceivers p ! 0));
          g2 = g1\<lparr>accDelegate := targetDelegate\<rparr>;
          (writtenRoot, g3) = markExecuted E approvalWitness g2
      in Inr (g3, [ExecutionEvent (proposalHash E p) (pTxType p) writtenRoot,
           DelegateEvent (proposalHash E p) targetDelegate], []))))))"

section \<open>Child lifecycle\<close>

text \<open>The assertions the three lifecycle methods share, from the initialisation check to the parent
  nonce, in source order.\<close>

definition assertLifecycle ::
  "('m, 'w, 's) o1js \<Rightarrow> world \<Rightarrow> pubkey \<Rightarrow> guard \<Rightarrow> txType \<Rightarrow> string \<Rightarrow> proposal \<Rightarrow> 'w \<Rightarrow> field \<Rightarrow> 'w
     \<Rightarrow> (field \<times> guard) result" where
  "assertLifecycle E w this g ty msg p parentApprovalWitness parentApprovalCount childExecutionWitness =
     andThen (getInitializedOwnersCommitment g) (\<lambda>_.
     require (pTxType p = TxType ty) msg
     (andAlso (assertValidRemoteProposal this p)
     (andThen (verifyParentApproval E w g p parentApprovalWitness parentApprovalCount) (\<lambda>propHash.
      andAlso (assertChildExecutionWitnessValue E g propHash childExecutionWitness 0)
     (andThen (assertAndIncrementParentNonce E g p) (\<lambda>g1.
      Inr (propHash, g1)))))))"

definition executeReclaimToParent ::
  "('m, 'w, 's) o1js \<Rightarrow> world \<Rightarrow> pubkey \<Rightarrow> guard \<Rightarrow> proposal \<Rightarrow> 'w \<Rightarrow> field \<Rightarrow> 'w \<Rightarrow> 64 word \<Rightarrow> outcome result" where
  "executeReclaimToParent E w this g p parentApprovalWitness parentApprovalCount childExecutionWitness amount =
     andThen (assertLifecycle E w this g RECLAIM_CHILD ''Not a reclaim child tx'' p
       parentApprovalWitness parentApprovalCount childExecutionWitness) (\<lambda>(propHash, g1).
     require (pData p = uint amount) ''Data does not match reclaim amount''
     (let parentAddress = parent g;
          (writtenRoot, g2) = markChildExecuted E childExecutionWitness g1
      in Inr (g2, [ExecutionEvent propHash (pTxType p) writtenRoot,
           ReclaimChildEvent propHash parentAddress amount], [(parentAddress, amount)])))"

definition executeDestroy ::
  "('m, 'w, 's) o1js \<Rightarrow> world \<Rightarrow> pubkey \<Rightarrow> guard \<Rightarrow> proposal \<Rightarrow> 'w \<Rightarrow> field \<Rightarrow> 'w \<Rightarrow> 64 word \<Rightarrow> outcome result" where
  "executeDestroy E w this g p parentApprovalWitness parentApprovalCount childExecutionWitness balance =
     andThen (assertLifecycle E w this g DESTROY_CHILD ''Not a destroy child tx'' p
       parentApprovalWitness parentApprovalCount childExecutionWitness) (\<lambda>(propHash, g1).
     requirePre (unat balance \<le> balances w this) ''balance''
     (let parentAddress = parent g;
          (writtenRoot, g2) = markChildExecuted E childExecutionWitness g1;
          g3 = g2\<lparr>childMultiSigEnabled := 0\<rparr>;
          (newConfigNonce, g4) = bumpConfigNonce E g3
      in Inr (g4, [ExecutionEvent propHash (pTxType p) writtenRoot,
           ReclaimChildEvent propHash parentAddress balance,
           EnableChildMultiSigEvent propHash parentAddress 0 newConfigNonce], [(parentAddress, balance)])))"

definition executeEnableChildMultiSig ::
  "('m, 'w, 's) o1js \<Rightarrow> world \<Rightarrow> pubkey \<Rightarrow> guard \<Rightarrow> proposal \<Rightarrow> 'w \<Rightarrow> field \<Rightarrow> 'w \<Rightarrow> field \<Rightarrow> outcome result" where
  "executeEnableChildMultiSig E w this g p parentApprovalWitness parentApprovalCount childExecutionWitness enabled =
     andThen (assertLifecycle E w this g ENABLE_CHILD_MULTI_SIG ''Not an enable-child-multi-sig tx'' p
       parentApprovalWitness parentApprovalCount childExecutionWitness) (\<lambda>(propHash, g1).
     require (pData p = enabled) ''Data does not match enabled flag''
     (require (enabled = 0 \<or> enabled = 1) ''Enabled must be 0 or 1''
     (let newConfigNonce = fieldAdd E (configNonce g) (boolToField (enabled = 0));
          g2 = g1\<lparr>childMultiSigEnabled := enabled, configNonce := newConfigNonce\<rparr>;
          (writtenRoot, g3) = markChildExecuted E childExecutionWitness g2;
          parentAddress = parent g
      in Inr (g3, [ExecutionEvent propHash (pTxType p) writtenRoot,
           EnableChildMultiSigEvent propHash parentAddress enabled newConfigNonce], []))))"

end
