(* ===== verification/Guard_World.thy ===== *)
theory Guard_World
  imports Guard_Methods
begin

text \<open>
  Guards on the ledger. A transaction calls one method on one account; the model dispatches it,
  writes the new account state back and settles the payments. \<open>guardStep\<close> is the step relation of
  the whole ledger: such a call, the slot advancing, money moving outside the guards, and accounts
  that were not created by \<open>deploy\<close> taking any state at all. \<open>reach\<close> counts the steps, because
  the counters of a guard live in a finite field.
\<close>

section \<open>Calls\<close>

datatype ('w, 's) call =
    Deploy
  | Setup field field "pubkey list"
  | ReserveForParent pubkey field field field "pubkey list"
  | ExecuteSetupChild field field "pubkey list" proposal 'w field
  | Propose proposal ownerWitness pubkey 's 'w 'w
  | ApproveProposal proposal 's pubkey ownerWitness 'w field 'w
  | ExecuteTransfer proposal 'w field
  | ExecuteAllocateToChildren proposal 'w field
  | ExecuteOwnerChange proposal 'w field ownerWitness pkOption
  | ExecuteThresholdChange proposal 'w field field
  | ExecuteDelegate proposal 'w field
  | ExecuteReclaimToParent proposal 'w field 'w "64 word"
  | ExecuteDestroy proposal 'w field 'w "64 word"
  | ExecuteEnableChildMultiSig proposal 'w field 'w field

text \<open>The array types of the method signatures: \<open>MAX_RECEIVERS\<close> receivers in a proposal,
  \<open>MAX_OWNERS\<close> slots in a setup owner array and in an owner witness.\<close>

fun typedCall :: "('w, 's) call \<Rightarrow> bool" where
  "typedCall Deploy = True"
| "typedCall (Setup thr num owners) = (length owners = MAX_OWNERS)"
| "typedCall (ReserveForParent par h thr num owners) = (length owners = MAX_OWNERS)"
| "typedCall (ExecuteSetupChild thr num owners p pw pc) = (length owners = MAX_OWNERS \<and> typedProposal p)"
| "typedCall (Propose p ow pk sg vw aw) = (typedProposal p \<and> length ow = MAX_OWNERS)"
| "typedCall (ApproveProposal p sg pk ow aw c vw) = (typedProposal p \<and> length ow = MAX_OWNERS)"
| "typedCall (ExecuteTransfer p aw c) = typedProposal p"
| "typedCall (ExecuteAllocateToChildren p aw c) = typedProposal p"
| "typedCall (ExecuteOwnerChange p aw c ow ia) = (typedProposal p \<and> length ow = MAX_OWNERS)"
| "typedCall (ExecuteThresholdChange p aw c t) = typedProposal p"
| "typedCall (ExecuteDelegate p aw c) = typedProposal p"
| "typedCall (ExecuteReclaimToParent p pw pc cw amt) = typedProposal p"
| "typedCall (ExecuteDestroy p pw pc cw bal) = typedProposal p"
| "typedCall (ExecuteEnableChildMultiSig p pw pc cw en) = typedProposal p"

fun callMethod ::
  "('m, 'w, 's) o1js \<Rightarrow> world \<Rightarrow> pubkey \<Rightarrow> guard \<Rightarrow> ('w, 's) call \<Rightarrow> outcome result" where
  "callMethod E w this g Deploy = Inl (Precondition ''account exists'')"
| "callMethod E w this g (Setup thr num owners) = setupRoot E g thr num owners"
| "callMethod E w this g (ReserveForParent par h thr num owners) =
     reserveForParent E w this g par h thr num owners"
| "callMethod E w this g (ExecuteSetupChild thr num owners p pw pc) =
     executeSetupChild E w this g thr num owners p pw pc"
| "callMethod E w this g (Propose p ow pk sg vw aw) = propose E w this g p ow pk sg vw aw"
| "callMethod E w this g (ApproveProposal p sg pk ow aw c vw) =
     approveProposal E w this g p sg pk ow aw c vw"
| "callMethod E w this g (ExecuteTransfer p aw c) = executeTransfer E w this g p aw c"
| "callMethod E w this g (ExecuteAllocateToChildren p aw c) = executeAllocateToChildren E w this g p aw c"
| "callMethod E w this g (ExecuteOwnerChange p aw c ow ia) = executeOwnerChange E w this g p aw c ow ia"
| "callMethod E w this g (ExecuteThresholdChange p aw c t) = executeThresholdChange E w this g p aw c t"
| "callMethod E w this g (ExecuteDelegate p aw c) = executeDelegate E w this g p aw c"
| "callMethod E w this g (ExecuteReclaimToParent p pw pc cw amt) =
     executeReclaimToParent E w this g p pw pc cw amt"
| "callMethod E w this g (ExecuteDestroy p pw pc cw bal) = executeDestroy E w this g p pw pc cw bal"
| "callMethod E w this g (ExecuteEnableChildMultiSig p pw pc cw en) =
     executeEnableChildMultiSig E w this g p pw pc cw en"

section \<open>Transactions\<close>

fun settle :: "pubkey \<Rightarrow> (pubkey \<times> 64 word) list \<Rightarrow> (pubkey \<Rightarrow> nat) \<Rightarrow> (pubkey \<Rightarrow> nat) result" where
  "settle this [] b = Inr b"
| "settle this ((to, amount) # rest) b =
     requirePre (unat amount \<le> b this) ''insufficient balance''
     (let b1 = b(this := b this - unat amount)
      in settle this rest (b1(to := b1 to + unat amount)))"

definition transact ::
  "('m, 'w, 's) o1js \<Rightarrow> world \<Rightarrow> pubkey \<Rightarrow> ('w, 's) call \<Rightarrow> (world \<times> event list) result" where
  "transact E w this c = (case accounts w this of
       None \<Rightarrow> (case c of
           Deploy \<Rightarrow> (let (g, evs, sends) = deploy this
             in requirePre (this \<noteq> emptyKey) ''invalid public key''
                (Inr (w\<lparr>accounts := (accounts w)(this := Some g)\<rparr>, evs)))
         | _ \<Rightarrow> Inl AccountNotFound)
     | Some g \<Rightarrow>
         requirePre (typedCall c) ''argument arrays''
         (andThen (callMethod E w this g c) (\<lambda>(g', evs, sends).
          andThen (settle this sends (balances w)) (\<lambda>b.
          Inr (w\<lparr>accounts := (accounts w)(this := Some g'), balances := b\<rparr>, evs)))))"

text \<open>The addresses whose account came from \<open>deploy\<close>; a proof-authorised method is the only way
  their state changes, every other account may hold anything.\<close>

record ledger = world +
  genuine :: "pubkey \<Rightarrow> bool"

definition ledgerWorld :: "ledger \<Rightarrow> world" where
  "ledgerWorld l = \<lparr>accounts = accounts l, balances = balances l, globalSlot = globalSlot l\<rparr>"

inductive guardStep :: "('m, 'w, 's) o1js \<Rightarrow> ledger \<Rightarrow> ledger \<Rightarrow> bool" for E where
  create: "accounts l a = None \<Longrightarrow> transact E (ledgerWorld l) a Deploy = Inr (w, evs) \<Longrightarrow>
     guardStep E l (l\<lparr>accounts := accounts w, genuine := (genuine l)(a := True)\<rparr>)"
| invoke: "accounts l a \<noteq> None \<Longrightarrow> transact E (ledgerWorld l) a c = Inr (w, evs) \<Longrightarrow>
     guardStep E l (l\<lparr>accounts := accounts w, balances := balances w\<rparr>)"
| tick: "globalSlot l \<le> s \<Longrightarrow> guardStep E l (l\<lparr>globalSlot := s\<rparr>)"
| outside: "(\<And>a. genuine l a \<Longrightarrow> balances l a \<le> b a) \<Longrightarrow> guardStep E l (l\<lparr>balances := b\<rparr>)"
| rogue: "\<not> genuine l a \<Longrightarrow> guardStep E l (l\<lparr>accounts := (accounts l)(a := Some g)\<rparr>)"

inductive reach :: "('m, 'w, 's) o1js \<Rightarrow> nat \<Rightarrow> ledger \<Rightarrow> bool" for E where
  start: "(\<And>a. accounts l a = None) \<Longrightarrow> (\<And>a. \<not> genuine l a) \<Longrightarrow> reach E 0 l"
| step: "reach E n l \<Longrightarrow> guardStep E l l' \<Longrightarrow> reach E (Suc n) l'"

inductive_cases guardStepE: "guardStep E l l'"

lemma ledgerWorld_simps [simp]:
  "accounts (ledgerWorld l) = accounts l" "balances (ledgerWorld l) = balances l"
  "globalSlot (ledgerWorld l) = globalSlot l"
  by (simp_all add: ledgerWorld_def)

lemma transact_Inr:
  assumes "accounts w a = Some g" "transact E w a c = Inr (w', evs)"
  obtains g' sends where "typedCall c" "callMethod E w a g c = Inr (g', evs, sends)"
    "settle a sends (balances w) = Inr (balances w')"
    "accounts w' = (accounts w)(a := Some g')" "globalSlot w' = globalSlot w"
  using assms by (auto simp: transact_def split: prod.splits)

lemma transact_deploy:
  assumes "accounts w a = None" "transact E w a c = Inr (w', evs)"
  shows "c = Deploy" "a \<noteq> emptyKey" "evs = [DeployEvent a]"
    "accounts w' = (accounts w)(a := Some (fst (deploy a)))" "balances w' = balances w"
  using assms by (auto simp: transact_def deploy_def split: call.splits)

end
