(* ===== verification/Vault_Spec.thy ===== *)
theory Vault_Spec
  imports Guard_World
begin

text \<open>
  The abstract specification of a guard: an owner list, the votes each proposal has received, and
  which proposals have been executed, with no hashes, roots or witnesses. \<open>represents\<close> says that
  the on-chain commitments of a guard stand for such a vault. The lemmas say that opening a
  commitment with a witness reads the vault, and that writing through the witness updates it.
\<close>

section \<open>The abstract vault\<close>

record vault =
  vOwners :: "pubkey list"
  vVotes :: "proposal \<Rightarrow> pubkey list"
  vExecuted :: "proposal \<Rightarrow> bool"
  vChildExecuted :: "proposal \<Rightarrow> bool"

definition newVault :: "pubkey list \<Rightarrow> vault" where
  "newVault owners = \<lparr>vOwners = owners, vVotes = (\<lambda>_. []), vExecuted = (\<lambda>_. False),
     vChildExecuted = (\<lambda>_. False)\<rparr>"

definition vVote :: "proposal \<Rightarrow> pubkey \<Rightarrow> vault \<Rightarrow> vault" where
  "vVote p pk v = v\<lparr>vVotes := (vVotes v)(p := vVotes v p @ [pk])\<rparr>"

definition vExecute :: "proposal \<Rightarrow> vault \<Rightarrow> vault" where
  "vExecute p v = v\<lparr>vExecuted := (vExecuted v)(p := True)\<rparr>"

definition vChildExecute :: "proposal \<Rightarrow> vault \<Rightarrow> vault" where
  "vChildExecute p v = v\<lparr>vChildExecuted := (vChildExecuted v)(p := True)\<rparr>"

definition vSetOwners :: "pubkey list \<Rightarrow> vault \<Rightarrow> vault" where
  "vSetOwners xs v = v\<lparr>vOwners := xs\<rparr>"

lemmas vault_op_defs = vVote_def vExecute_def vChildExecute_def vSetOwners_def newVault_def

section \<open>Representation by commitments\<close>

text \<open>A root stands for a function on some keys if it is the root of a map that has the function's
  values at those keys.\<close>

definition rootOf ::
  "('m, 'w, 's) o1js \<Rightarrow> ('k \<Rightarrow> field) \<Rightarrow> 'k set \<Rightarrow> field \<Rightarrow> ('k \<Rightarrow> field) \<Rightarrow> bool" where
  "rootOf E key ks r f \<longleftrightarrow> (\<exists>m. r = mapRoot E m \<and> (\<forall>k \<in> ks. mapGet E m (key k) = f k))"

definition approvalLeaf :: "('m, 'w, 's) o1js \<Rightarrow> vault \<Rightarrow> proposal \<Rightarrow> field" where
  "approvalLeaf E v p = (if vExecuted v p then EXECUTED_MARKER E
     else if vVotes v p = [] then 0 else 1 + int (length (vVotes v p)))"

definition nullifierLeaf :: "vault \<Rightarrow> proposal \<times> pubkey \<Rightarrow> field" where
  "nullifierLeaf v = (\<lambda>(p, pk). if pk \<in> set (vVotes v p) then 1 else 0)"

definition childLeaf :: "('m, 'w, 's) o1js \<Rightarrow> vault \<Rightarrow> proposal \<Rightarrow> field" where
  "childLeaf E v p = (if vChildExecuted v p then EXECUTED_MARKER E else 0)"

definition nullifierKeyOf :: "('m, 'w, 's) o1js \<Rightarrow> proposal \<times> pubkey \<Rightarrow> field" where
  "nullifierKeyOf E = (\<lambda>(p, pk). voteNullifierKey E (proposalHash E p) pk)"

abbreviation typedProposals :: "proposal set" where
  "typedProposals \<equiv> {p. typedProposal p}"

definition represents :: "('m, 'w, 's) o1js \<Rightarrow> guard \<Rightarrow> vault \<Rightarrow> bool" where
  "represents E g v \<longleftrightarrow>
     ownersCommitment g = computeOwnerChain E (vOwners v) \<and>
     rootOf E (proposalHash E) typedProposals (approvalRoot g) (approvalLeaf E v) \<and>
     rootOf E (nullifierKeyOf E) (typedProposals \<times> UNIV) (voteNullifierRoot g) (nullifierLeaf v) \<and>
     rootOf E (proposalHash E) typedProposals (childExecutionRoot g) (childLeaf E v)"

lemma inj_proposalHash: "collisionFree E \<Longrightarrow> inj_on (proposalHash E) typedProposals"
  by (auto intro!: inj_onI simp: proposalHash_eq)

lemma inj_nullifierKeyOf: "collisionFree E \<Longrightarrow> inj_on (nullifierKeyOf E) (typedProposals \<times> UNIV)"
  by (auto intro!: inj_onI simp: nullifierKeyOf_def voteNullifierKey_eq proposalHash_eq)

lemma rootOf_empty: "merkleLaws E \<Longrightarrow> rootOf E key ks (EMPTY_MERKLE_MAP_ROOT E) (\<lambda>_. 0)"
  by (auto simp: rootOf_def EMPTY_MERKLE_MAP_ROOT_def mapGet_empty)

lemma rootOf_opens:
  assumes "merkleLaws E" "rootOf E key ks r f" "k \<in> ks" "computeRootAndKey E wit c = (r, key k)"
  shows "f k = c"
  using assms witness_opens [OF assms(1)] by (fastforce simp: rootOf_def)

lemma rootOf_writes:
  assumes "merkleLaws E" "inj_on key ks" "rootOf E key ks r f" "k \<in> ks"
    and "computeRootAndKey E wit c = (r, key k)"
  shows "rootOf E key ks (fst (computeRootAndKey E wit c')) (f(k := c'))"
proof -
  obtain m where m: "r = mapRoot E m" "\<forall>k \<in> ks. mapGet E m (key k) = f k"
    using assms(3) by (auto simp: rootOf_def)
  then have "computeRootAndKey E wit c' = (mapRoot E (mapSet E m (key k) c'), key k)"
    using assms(1,5) by (auto intro: witness_updates)
  moreover have "\<forall>k' \<in> ks. mapGet E (mapSet E m (key k) c') (key k') = (f(k := c')) k'"
    using m(2) assms(2,4) by (auto simp: mapGet_set [OF assms(1)] dest: inj_onD)
  ultimately show ?thesis by (auto simp: rootOf_def)
qed

lemma rootOf_cong: "rootOf E key ks r f \<Longrightarrow> (\<And>k. k \<in> ks \<Longrightarrow> f k = f' k) \<Longrightarrow> rootOf E key ks r f'"
  by (auto simp: rootOf_def)

lemma represents_new:
  "merkleLaws E \<Longrightarrow> ownersCommitment g = computeOwnerChain E xs \<Longrightarrow>
     approvalRoot g = EMPTY_MERKLE_MAP_ROOT E \<Longrightarrow> voteNullifierRoot g = EMPTY_MERKLE_MAP_ROOT E \<Longrightarrow>
     childExecutionRoot g = EMPTY_MERKLE_MAP_ROOT E \<Longrightarrow> represents E g (newVault xs)"
  by (auto simp: represents_def newVault_def approvalLeaf_def nullifierLeaf_def childLeaf_def
      intro: rootOf_cong [OF rootOf_empty])

text \<open>Reading and writing the three maps of a represented guard.\<close>

lemma approval_opens:
  assumes "soundEnv E" "represents E g v" "typedProposal p"
    and "computeRootAndKey E wit c = (approvalRoot g, proposalHash E p)"
  shows "approvalLeaf E v p = c"
  using assms by (auto simp: represents_def intro!: rootOf_opens [of E "proposalHash E" typedProposals "approvalRoot g" _ p wit c] dest: soundEnv_merkle)

lemma nullifier_opens:
  assumes "soundEnv E" "represents E g v" "typedProposal p"
    and "computeRootAndKey E wit c = (voteNullifierRoot g, voteNullifierKey E (proposalHash E p) pk)"
  shows "nullifierLeaf v (p, pk) = c"
  using assms by (auto simp: represents_def nullifierKeyOf_def intro!: rootOf_opens [of E "nullifierKeyOf E" "typedProposals \<times> UNIV" "voteNullifierRoot g" _ "(p, pk)" wit c] dest: soundEnv_merkle)

lemma child_opens:
  assumes "soundEnv E" "represents E g v" "typedProposal p"
    and "computeRootAndKey E wit c = (childExecutionRoot g, proposalHash E p)"
  shows "childLeaf E v p = c"
  using assms by (auto simp: represents_def intro!: rootOf_opens [of E "proposalHash E" typedProposals "childExecutionRoot g" _ p wit c] dest: soundEnv_merkle)

lemma represents_vote:
  assumes "soundEnv E" "represents E g v" "typedProposal p" "\<not> vExecuted v p"
    and nul: "computeRootAndKey E vw 0 = (voteNullifierRoot g, voteNullifierKey E (proposalHash E p) pk)"
    and app: "computeRootAndKey E aw c = (approvalRoot g, proposalHash E p)"
    and c': "c' = 2 + int (length (vVotes v p))"
  shows "represents E (g\<lparr>voteNullifierRoot := fst (computeRootAndKey E vw 1),
      approvalRoot := fst (computeRootAndKey E aw c')\<rparr>) (vVote p pk v)"
proof -
  note m = soundEnv_merkle [OF assms(1)] and cf = soundEnv_collisionFree [OF assms(1)]
  have "rootOf E (proposalHash E) typedProposals (fst (computeRootAndKey E aw c')) ((approvalLeaf E v)(p := c'))"
    using rootOf_writes [OF m inj_proposalHash [OF cf]] assms(2,3) app by (auto simp: represents_def)
  then have 1: "rootOf E (proposalHash E) typedProposals (fst (computeRootAndKey E aw c')) (approvalLeaf E (vVote p pk v))"
    by (rule rootOf_cong) (use assms(4) c' in \<open>auto simp: approvalLeaf_def vVote_def\<close>)
  have "rootOf E (nullifierKeyOf E) (typedProposals \<times> UNIV) (fst (computeRootAndKey E vw 1)) ((nullifierLeaf v)((p, pk) := 1))"
    using rootOf_writes [OF m inj_nullifierKeyOf [OF cf], of "voteNullifierRoot g" "nullifierLeaf v" "(p, pk)" vw 0 1] assms(2,3) nul
    by (auto simp: represents_def nullifierKeyOf_def)
  then have 2: "rootOf E (nullifierKeyOf E) (typedProposals \<times> UNIV) (fst (computeRootAndKey E vw 1)) (nullifierLeaf (vVote p pk v))"
    by (rule rootOf_cong) (auto simp: nullifierLeaf_def vVote_def split: prod.splits if_splits)
  show ?thesis using assms(2) 1 2
    by (auto simp: represents_def vVote_def childLeaf_def elim!: rootOf_cong)
qed

lemma represents_execute:
  assumes "soundEnv E" "represents E g v" "typedProposal p"
    and app: "computeRootAndKey E aw c = (approvalRoot g, proposalHash E p)"
  shows "represents E (g\<lparr>approvalRoot := fst (computeRootAndKey E aw (EXECUTED_MARKER E))\<rparr>) (vExecute p v)"
proof -
  note m = soundEnv_merkle [OF assms(1)] and cf = soundEnv_collisionFree [OF assms(1)]
  have "rootOf E (proposalHash E) typedProposals (fst (computeRootAndKey E aw (EXECUTED_MARKER E)))
      ((approvalLeaf E v)(p := EXECUTED_MARKER E))"
    using rootOf_writes [OF m inj_proposalHash [OF cf]] assms(2,3) app by (auto simp: represents_def)
  then have "rootOf E (proposalHash E) typedProposals (fst (computeRootAndKey E aw (EXECUTED_MARKER E)))
      (approvalLeaf E (vExecute p v))"
    by (rule rootOf_cong) (auto simp: approvalLeaf_def vExecute_def)
  then show ?thesis using assms(2)
    by (auto simp: represents_def vExecute_def childLeaf_def nullifierLeaf_def elim!: rootOf_cong)
qed

lemma represents_childExecute:
  assumes "soundEnv E" "represents E g v" "typedProposal p"
    and app: "computeRootAndKey E cw c = (childExecutionRoot g, proposalHash E p)"
  shows "represents E (g\<lparr>childExecutionRoot := fst (computeRootAndKey E cw (EXECUTED_MARKER E))\<rparr>) (vChildExecute p v)"
proof -
  note m = soundEnv_merkle [OF assms(1)] and cf = soundEnv_collisionFree [OF assms(1)]
  have "rootOf E (proposalHash E) typedProposals (fst (computeRootAndKey E cw (EXECUTED_MARKER E)))
      ((childLeaf E v)(p := EXECUTED_MARKER E))"
    using rootOf_writes [OF m inj_proposalHash [OF cf]] assms(2,3) app by (auto simp: represents_def)
  then have "rootOf E (proposalHash E) typedProposals (fst (computeRootAndKey E cw (EXECUTED_MARKER E)))
      (childLeaf E (vChildExecute p v))"
    by (rule rootOf_cong) (auto simp: childLeaf_def vChildExecute_def)
  then show ?thesis using assms(2)
    by (auto simp: represents_def vChildExecute_def approvalLeaf_def nullifierLeaf_def elim!: rootOf_cong)
qed

text \<open>The representation only depends on the four commitments.\<close>

lemma represents_frame:
  "represents E g v \<Longrightarrow> ownersCommitment g' = ownersCommitment g \<Longrightarrow> approvalRoot g' = approvalRoot g \<Longrightarrow>
     voteNullifierRoot g' = voteNullifierRoot g \<Longrightarrow> childExecutionRoot g' = childExecutionRoot g \<Longrightarrow>
     represents E g' v"
  by (simp add: represents_def)

lemma represents_owners:
  "represents E g v \<Longrightarrow> represents E (g\<lparr>ownersCommitment := computeOwnerChain E xs\<rparr>) (vSetOwners xs v)"
  by (auto simp: represents_def vSetOwners_def approvalLeaf_def nullifierLeaf_def childLeaf_def elim!: rootOf_cong)

lemma represents_member:
  "soundEnv E \<Longrightarrow> represents E g v \<Longrightarrow> assertOwnerMembership E (ownersCommitment g) pk ow = Inr () \<Longrightarrow>
     pk \<in> set (vOwners v)"
  by (auto simp: represents_def dest: soundEnv_collisionFree membership_sound)

end
