(* ===== verification/Guard_Refine.thy ===== *)
theory Guard_Refine
  imports Vault_Spec
begin

text \<open>
  The contract methods refine the abstract vault: whenever a method succeeds on a guard that
  represents a vault, the new guard represents the vault the abstract operation yields, and the
  invariant that ties votes, owners, signatures and nonces together is kept.
\<close>

section \<open>Inversion of the checks\<close>

definition notExpired :: "world \<Rightarrow> proposal \<Rightarrow> bool" where
  "notExpired w p \<longleftrightarrow> 0 \<le> pExpirySlot p \<and> pExpirySlot p < 2 ^ 32 \<and>
     int (globalSlot w) \<le> (if pExpirySlot p = 0 then 2 ^ 32 - 1 else pExpirySlot p)"

lemma assertProposalNotExpired_Inr [simp]: "assertProposalNotExpired w p = Inr () \<longleftrightarrow> notExpired w p"
  by (auto simp: assertProposalNotExpired_def notExpired_def Let_def)

lemma assertExecutable_Inr:
  "assertExecutable E w this g p aw c = Inr g1 \<longleftrightarrow>
     pConfigNonce p = configNonce g \<and> pGuardAddress p = this \<and> notExpired w p \<and>
     c \<noteq> EXECUTED_MARKER E \<and> 1 \<le> c \<and> fieldAdd E (threshold g) 1 \<le> c \<and>
     computeRootAndKey E aw c = (approvalRoot g, proposalHash E p) \<and>
     pNonce p = fieldAdd E (nonce g) 1 \<and> g1 = g\<lparr>nonce := fieldAdd E (nonce g) 1\<rparr>"
  by (auto simp: assertExecutable_def assertApprovalWitnessValue_def guard_defs PROPOSED_MARKER_def Let_def)

lemma assertParentApprovalState_Inr:
  "assertParentApprovalState E w p par pw pc = Inr h \<longleftrightarrow>
     (\<exists>pg. accounts w par = Some pg \<and> ownersCommitment pg \<noteq> 0 \<and> pConfigNonce p = configNonce pg \<and>
       pGuardAddress p = par \<and> notExpired w p \<and>
       computeRootAndKey E pw pc = (approvalRoot pg, proposalHash E p) \<and>
       pc \<noteq> EXECUTED_MARKER E \<and> 1 \<le> pc \<and> fieldAdd E (threshold pg) 1 \<le> pc \<and> h = proposalHash E p)"
  by (auto simp: assertParentApprovalState_def assertValidProposalConfigNetworkAndGuard_def
      assertNotExecuted_def assertProposalExists_def assertThresholdSatisfied_def PROPOSED_MARKER_def Let_def)

lemma assertLifecycle_Inr:
  "assertLifecycle E w this g ty msg p pw pc cw = Inr (h, g1) \<longleftrightarrow>
     ownersCommitment g \<noteq> 0 \<and> pTxType p = TxType ty \<and> pDestination p = Destination REMOTE \<and>
     pChildAccount p = this \<and> parent g \<noteq> emptyKey \<and>
     assertParentApprovalState E w p (parent g) pw pc = Inr h \<and>
     computeRootAndKey E cw 0 = (childExecutionRoot g, h) \<and>
     pNonce p = fieldAdd E (parentNonce g) 1 \<and> g1 = g\<lparr>parentNonce := fieldAdd E (parentNonce g) 1\<rparr>"
  by (auto simp: assertLifecycle_def verifyParentApproval_def assertChildExecutionWitnessValue_def
      getInitializedOwnersCommitment_def assertValidRemoteProposal_def assertCurrAccountIsChild_def
      assertAndIncrementParentNonce_def Let_def)

lemma initializeState_Inr:
  "initializeState E g thr num par n0 pn0 owners = Inr (g', evs) \<longleftrightarrow>
     ownersCommitment g = 0 \<and> 0 < thr \<and> thr \<le> num \<and> num \<le> int MAX_OWNERS \<and>
     assertCoherentSetupOwners E owners num = Inr () \<and>
     g' = g\<lparr>ownersCommitment := computeSetupOwnersChain E owners num, threshold := thr, numOwners := num,
       nonce := n0, approvalRoot := EMPTY_MERKLE_MAP_ROOT E, voteNullifierRoot := EMPTY_MERKLE_MAP_ROOT E,
       parent := par, parentNonce := pn0, childExecutionRoot := EMPTY_MERKLE_MAP_ROOT E,
       childMultiSigEnabled := 1\<rparr> \<and>
     evs = SetupEvent (computeSetupOwnersChain E owners num) thr num par # ownerEvents SetupOwnerEvent owners num"
  by (auto simp: initializeState_def assertValidInitialGovernance_def setGovernanceState_def Let_def)

section \<open>The invariant\<close>

definition signedBy :: "('m, 'w, 's) o1js \<Rightarrow> proposal \<Rightarrow> pubkey \<Rightarrow> bool" where
  "signedBy E p pk \<longleftrightarrow>
     (\<exists>sg act. verifySignature E sg pk [proposalSigningMessage E (proposalHash E p) act])"

definition shapeChecked :: "('m, 'w, 's) o1js \<Rightarrow> proposal \<Rightarrow> bool" where
  "shapeChecked E p \<longleftrightarrow> (\<exists>g0. assertProposalShape E g0 p = Inr ())"

definition governanceOk :: "guard \<Rightarrow> bool" where
  "governanceOk g \<longleftrightarrow> 0 < threshold g \<and> threshold g \<le> numOwners g \<and> numOwners g \<le> int MAX_OWNERS"

definition votesOk :: "('m, 'w, 's) o1js \<Rightarrow> pubkey \<Rightarrow> guard \<Rightarrow> vault \<Rightarrow> proposal \<Rightarrow> bool" where
  "votesOk E a g v p \<longleftrightarrow>
     typedProposal p \<and> shapeChecked E p \<and> pGuardAddress p = a \<and> pConfigNonce p \<le> configNonce g \<and>
     distinct (vVotes v p) \<and> length (vVotes v p) \<le> MAX_OWNERS \<and>
     (\<forall>pk \<in> set (vVotes v p). signedBy E p pk) \<and>
     (pConfigNonce p = configNonce g \<longrightarrow> set (vVotes v p) \<subseteq> set (vOwners v))"

definition vaultInv :: "('m, 'w, 's) o1js \<Rightarrow> pubkey \<Rightarrow> guard \<Rightarrow> vault \<Rightarrow> bool" where
  "vaultInv E a g v \<longleftrightarrow>
     represents E g v \<and> validOwnerList E (vOwners v) \<and> numOwners g = int (length (vOwners v)) \<and>
     governanceOk g \<and> 0 \<le> configNonce g \<and> 0 \<le> nonce g \<and> 0 \<le> parentNonce g \<and>
     (\<forall>p. vVotes v p \<noteq> [] \<longrightarrow> votesOk E a g v p) \<and>
     (\<forall>p. vExecuted v p \<longrightarrow> vVotes v p \<noteq> [] \<and> pNonce p \<le> nonce g) \<and>
     (\<forall>p. vChildExecuted v p \<longrightarrow> pNonce p \<le> parentNonce g)"

lemma vaultInvD:
  assumes "vaultInv E a g v"
  shows vaultInv_represents: "represents E g v" and vaultInv_valid: "validOwnerList E (vOwners v)"
    and vaultInv_num: "numOwners g = int (length (vOwners v))" and vaultInv_gov: "governanceOk g"
    and vaultInv_nonces: "0 \<le> configNonce g" "0 \<le> nonce g" "0 \<le> parentNonce g"
    and vaultInv_votes: "vVotes v p \<noteq> [] \<Longrightarrow> votesOk E a g v p"
    and vaultInv_executed: "vExecuted v p \<Longrightarrow> vVotes v p \<noteq> [] \<and> pNonce p \<le> nonce g"
    and vaultInv_childExecuted: "vChildExecuted v p \<Longrightarrow> pNonce p \<le> parentNonce g"
  using assms by (simp_all add: vaultInv_def)

lemma threshold_small:
  assumes "soundEnv E" "governanceOk g"
  shows "fieldAdd E (threshold g) 1 = threshold g + 1"
  using assms fieldLarge_pos [OF soundEnv_fieldLarge [OF assms(1)]]
  by (intro fieldAdd_small) (auto simp: governanceOk_def MAX_OWNERS_def)

lemma votes_length:
  assumes "vaultInv E a g v"
  shows "length (vVotes v p) \<le> MAX_OWNERS"
  using vaultInv_votes [OF assms, of p] by (cases "vVotes v p = []") (auto simp: votesOk_def)

lemma leaf_unexecuted:
  assumes "soundEnv E" "vaultInv E a g v" "approvalLeaf E v p = c" "c \<noteq> EXECUTED_MARKER E"
  shows "\<not> vExecuted v p" and "1 \<le> c \<Longrightarrow> vVotes v p \<noteq> [] \<and> c = 1 + int (length (vVotes v p))"
    and "c = 0 \<Longrightarrow> vVotes v p = []"
  using assms by (auto simp: approvalLeaf_def split: if_splits)

lemma marker_positive: "soundEnv E \<Longrightarrow> 100 < EXECUTED_MARKER E"
  using fieldLarge_pos [of E] by (simp add: EXECUTED_MARKER_eq soundEnv_fieldLarge)

section \<open>Votes\<close>

lemma vaultInv_vote:
  assumes E: "soundEnv E" and inv: "vaultInv E a g v" and ty: "typedProposal p"
    and owner: "pk \<in> set (vOwners v)" and new: "pk \<notin> set (vVotes v p)" and unex: "\<not> vExecuted v p"
    and cfg: "pConfigNonce p = configNonce g" and addr: "pGuardAddress p = a"
    and shape: "vVotes v p = [] \<Longrightarrow> shapeChecked E p" and sg: "signedBy E p pk"
    and rep: "represents E g' (vVote p pk v)"
    and frame: "numOwners g' = numOwners g" "threshold g' = threshold g" "configNonce g' = configNonce g"
      "nonce g' = nonce g" "parentNonce g' = parentNonce g"
  shows "vaultInv E a g' (vVote p pk v)"
proof -
  have old: "votesOk E a g v q" if "vVotes v q \<noteq> []" for q using vaultInv_votes [OF inv that] .
  have sub: "set (vVotes v p) \<subseteq> set (vOwners v)" "distinct (vVotes v p)" "shapeChecked E p"
      "\<forall>k \<in> set (vVotes v p). signedBy E p k"
    using old [of p] shape cfg by (cases "vVotes v p = []"; simp add: votesOk_def)+
  have "length (vVotes v p @ [pk]) \<le> length (vOwners v)"
    using sub new owner by (intro distinct_length_le) auto
  also have "\<dots> \<le> MAX_OWNERS"
    using vaultInv_num [OF inv] vaultInv_gov [OF inv] by (simp add: governanceOk_def)
  finally have len: "length (vVotes v p @ [pk]) \<le> MAX_OWNERS" .
  have "votesOk E a g' (vVote p pk v) p"
    using sub new owner len ty cfg addr sg frame by (auto simp: votesOk_def vVote_def)
  moreover have "votesOk E a g' (vVote p pk v) q" if "q \<noteq> p" "vVotes v q \<noteq> []" for q
    using old [OF that(2)] that(1) frame by (simp add: votesOk_def vVote_def)
  ultimately have "\<forall>q. vVotes (vVote p pk v) q \<noteq> [] \<longrightarrow> votesOk E a g' (vVote p pk v) q"
    by (auto simp: vVote_def)
  then show ?thesis using inv rep frame unex
    by (auto simp: vaultInv_def vVote_def governanceOk_def)
qed

lemma propose_vaultInv:
  assumes E: "soundEnv E" and inv: "vaultInv E a g v" and ty: "typedProposal p"
    and ok: "propose E w a g p ow pk sg vw aw = Inr (g', evs, sends)"
  shows "vVotes v p = []" "vaultInv E a g' (vVote p pk v)" "pk \<in> set (vOwners v)"
proof -
  from ok have mem: "assertOwnerMembership E (ownersCommitment g) pk ow = Inr ()"
    and cfg: "pConfigNonce p = configNonce g" "pGuardAddress p = a"
    and shape: "assertProposalShape E g p = Inr ()"
    and sig: "verifySignature E sg pk [proposalSigningMessage E (proposalHash E p) ActPropose]"
    and nul: "computeRootAndKey E vw 0 = (voteNullifierRoot g, voteNullifierKey E (proposalHash E p) pk)"
    and app: "computeRootAndKey E aw 0 = (approvalRoot g, proposalHash E p)"
    and g': "g' = g\<lparr>voteNullifierRoot := fst (computeRootAndKey E vw 1),
        approvalRoot := fst (computeRootAndKey E aw (fieldAdd E 1 1))\<rparr>"
    by (auto simp: propose_def Let_def getInitializedOwnersCommitment_def PROPOSED_MARKER_def
        assertProposalConfigNetworkAndGuard_def assertValidProposalConfigNetworkAndGuard_def
        assertApprovalWitnessValue_def)
  note rep = vaultInv_represents [OF inv]
  have leaf: "approvalLeaf E v p = 0" using approval_opens [OF E rep ty app] .
  have nz: "(0::int) \<noteq> EXECUTED_MARKER E" using marker_positive [OF E] by simp
  from leaf_unexecuted [OF E inv leaf nz] have un: "\<not> vExecuted v p" and nil: "vVotes v p = []" by auto
  have two: "fieldAdd E 1 1 = 2"
    using fieldLarge_pos [OF soundEnv_fieldLarge [OF E]] by (simp add: fieldAdd_def)
  show "vVotes v p = []" by (rule nil)
  show own: "pk \<in> set (vOwners v)" using represents_member [OF E rep mem] .
  have "represents E g' (vVote p pk v)"
    unfolding g' by (rule represents_vote [OF E rep ty un nul app]) (simp add: two nil)
  then show "vaultInv E a g' (vVote p pk v)"
    using own nil un cfg shape sig unfolding g'
    by (intro vaultInv_vote [OF E inv ty]) (auto simp: shapeChecked_def signedBy_def)
qed

lemma approveProposal_vaultInv:
  assumes E: "soundEnv E" and inv: "vaultInv E a g v" and ty: "typedProposal p"
    and ok: "approveProposal E w a g p sg pk ow aw c vw = Inr (g', evs, sends)"
  shows "vVotes v p \<noteq> []" "pk \<notin> set (vVotes v p)" "vaultInv E a g' (vVote p pk v)" "pk \<in> set (vOwners v)"
proof -
  from ok have mem: "assertOwnerMembership E (ownersCommitment g) pk ow = Inr ()"
    and cfg: "pConfigNonce p = configNonce g" "pGuardAddress p = a"
    and c: "c \<noteq> EXECUTED_MARKER E" "1 \<le> c"
    and sig: "verifySignature E sg pk [proposalSigningMessage E (proposalHash E p) ActApprove]"
    and nul: "computeRootAndKey E vw 0 = (voteNullifierRoot g, voteNullifierKey E (proposalHash E p) pk)"
    and app: "computeRootAndKey E aw c = (approvalRoot g, proposalHash E p)"
    and g': "g' = g\<lparr>voteNullifierRoot := fst (computeRootAndKey E vw 1),
        approvalRoot := fst (computeRootAndKey E aw (fieldAdd E c 1))\<rparr>"
    by (auto simp: approveProposal_def Let_def getInitializedOwnersCommitment_def PROPOSED_MARKER_def
        assertProposalConfigNetworkAndGuard_def assertValidProposalConfigNetworkAndGuard_def
        assertApprovalWitnessValue_def assertNotExecuted_def assertProposalExists_def)
  note rep = vaultInv_represents [OF inv]
  have leaf: "approvalLeaf E v p = c" using approval_opens [OF E rep ty app] .
  from leaf_unexecuted [OF E inv leaf c(1)] c(2)
  have un: "\<not> vExecuted v p" and nonnil: "vVotes v p \<noteq> []" and ceq: "c = 1 + int (length (vVotes v p))" by auto
  have nulleaf: "nullifierLeaf v (p, pk) = 0" using nullifier_opens [OF E rep ty nul] .
  have two: "fieldAdd E c 1 = 2 + int (length (vVotes v p))"
    using fieldLarge_pos [OF soundEnv_fieldLarge [OF E]] votes_length [OF inv, of p] ceq
    by (subst fieldAdd_small) (auto simp: MAX_OWNERS_def)
  show "vVotes v p \<noteq> []" by (rule nonnil)
  show new: "pk \<notin> set (vVotes v p)" using nulleaf by (auto simp: nullifierLeaf_def split: if_splits)
  show own: "pk \<in> set (vOwners v)" using represents_member [OF E rep mem] .
  have "represents E g' (vVote p pk v)"
    unfolding g' by (rule represents_vote [OF E rep ty un nul app]) (simp add: two)
  then show "vaultInv E a g' (vVote p pk v)"
    using own new un cfg sig nonnil unfolding g'
    by (intro vaultInv_vote [OF E inv ty]) (auto simp: signedBy_def)
qed


section \<open>Local execution\<close>

text \<open>The quorum behind an executable proposal: enough distinct current owners have signed it, and
  it has not been executed.\<close>

definition quorum :: "('m, 'w, 's) o1js \<Rightarrow> guard \<Rightarrow> vault \<Rightarrow> proposal \<Rightarrow> bool" where
  "quorum E g v p \<longleftrightarrow> \<not> vExecuted v p \<and> distinct (vVotes v p) \<and> set (vVotes v p) \<subseteq> set (vOwners v) \<and>
     threshold g \<le> int (length (vVotes v p)) \<and> (\<forall>pk \<in> set (vVotes v p). signedBy E p pk) \<and> shapeChecked E p"

lemma approved_quorum:
  assumes E: "soundEnv E" and inv: "vaultInv E a g v" and ty: "typedProposal p"
    and cfg: "pConfigNonce p = configNonce g" and c: "c \<noteq> EXECUTED_MARKER E" "1 \<le> c"
    and thr: "fieldAdd E (threshold g) 1 \<le> c"
    and app: "computeRootAndKey E aw c = (approvalRoot g, proposalHash E p)"
  shows "quorum E g v p" "vVotes v p \<noteq> []"
proof -
  note leaf = approval_opens [OF E vaultInv_represents [OF inv] ty app]
  from leaf_unexecuted [OF E inv leaf c(1)] c(2)
  have un: "\<not> vExecuted v p" and nonnil: "vVotes v p \<noteq> []" and ceq: "c = 1 + int (length (vVotes v p))" by auto
  show "vVotes v p \<noteq> []" by (rule nonnil)
  have "threshold g + 1 \<le> c" using thr threshold_small [OF E vaultInv_gov [OF inv]] by simp
  with un ceq cfg vaultInv_votes [OF inv nonnil] show "quorum E g v p"
    by (simp add: quorum_def votesOk_def)
qed

lemma assertExecutable_vaultInv:
  assumes E: "soundEnv E" and inv: "vaultInv E a g v" and ty: "typedProposal p"
    and small: "nonce g + 1 < fieldOrder E"
    and ok: "assertExecutable E w a g p aw c = Inr g1"
  shows "quorum E g v p" "vaultInv E a (snd (markExecuted E aw g1)) (vExecute p v)"
    "pNonce p = nonce g + 1" "g1 = g\<lparr>nonce := nonce g + 1\<rparr>"
proof -
  from ok have f: "pConfigNonce p = configNonce g" "c \<noteq> EXECUTED_MARKER E" "1 \<le> c"
    "fieldAdd E (threshold g) 1 \<le> c" "computeRootAndKey E aw c = (approvalRoot g, proposalHash E p)"
    and n: "pNonce p = fieldAdd E (nonce g) 1" "g1 = g\<lparr>nonce := fieldAdd E (nonce g) 1\<rparr>"
    by (simp_all add: assertExecutable_Inr)
  have nn: "fieldAdd E (nonce g) 1 = nonce g + 1"
    using small vaultInv_nonces [OF inv] by (intro fieldAdd_small) auto
  show "pNonce p = nonce g + 1" "g1 = g\<lparr>nonce := nonce g + 1\<rparr>" using n nn by simp_all
  show "quorum E g v p" by (rule approved_quorum [OF E inv ty f])
  have nonnil: "vVotes v p \<noteq> []" by (rule approved_quorum [OF E inv ty f])
  have "represents E (g\<lparr>approvalRoot := fst (computeRootAndKey E aw (EXECUTED_MARKER E))\<rparr>) (vExecute p v)"
    by (rule represents_execute [OF E vaultInv_represents [OF inv] ty f(5)])
  then have "represents E (snd (markExecuted E aw g1)) (vExecute p v)"
    using n by (auto simp: markExecuted_def Let_def elim!: represents_frame)
  then show "vaultInv E a (snd (markExecuted E aw g1)) (vExecute p v)"
    using inv nonnil n nn by (auto simp: vaultInv_def votesOk_def vExecute_def markExecuted_def Let_def governanceOk_def)
qed

text \<open>Bumping the configuration nonce freezes every proposal that has votes, so owners and
  threshold may change together with it.\<close>

lemma vaultInv_reconfigure:
  assumes "vaultInv E a g v" "configNonce g + 1 < fieldOrder E"
    and "validOwnerList E xs" "numOwners g' = int (length xs)" "governanceOk g'"
    and "represents E g' (vSetOwners xs v)"
    and "configNonce g' = fieldAdd E (configNonce g) 1" "nonce g' = nonce g" "parentNonce g' = parentNonce g"
  shows "vaultInv E a g' (vSetOwners xs v)"
proof -
  have "configNonce g' = configNonce g + 1"
    using assms(2,7) vaultInv_nonces [OF assms(1)] by (simp add: fieldAdd_small)
  with assms show ?thesis
    by (fastforce simp: vaultInv_def votesOk_def vSetOwners_def)
qed

lemma vaultInv_frame:
  assumes "vaultInv E a g v" "represents E g v \<Longrightarrow> represents E g' v"
    and "numOwners g' = numOwners g" "threshold g' = threshold g" "configNonce g' = configNonce g"
      "nonce g' = nonce g" "parentNonce g' = parentNonce g"
  shows "vaultInv E a g' v"
  using assms by (auto simp: vaultInv_def votesOk_def governanceOk_def)

lemma represents_reconfigured:
  "represents E g v \<Longrightarrow> ownersCommitment g' = computeOwnerChain E xs \<Longrightarrow> approvalRoot g' = approvalRoot g \<Longrightarrow>
     voteNullifierRoot g' = voteNullifierRoot g \<Longrightarrow> childExecutionRoot g' = childExecutionRoot g \<Longrightarrow>
     represents E g' (vSetOwners xs v)"
  by (rule represents_frame [OF represents_owners]) auto

lemma vSetOwners_same [simp]: "vSetOwners (vOwners v) v = v"
  by (simp add: vSetOwners_def)

lemma executeThresholdChange_vaultInv:
  assumes E: "soundEnv E" and inv: "vaultInv E a g v" and ty: "typedProposal p"
    and small: "nonce g + 1 < fieldOrder E" "configNonce g + 1 < fieldOrder E"
    and ok: "executeThresholdChange E w a g p aw c t = Inr (g', evs, sends)"
  shows "quorum E g v p" "vaultInv E a g' (vExecute p v)" "threshold g' = pData p"
proof -
  from ok obtain g1 where ex: "assertExecutable E w a g p aw c = Inr g1"
    and t: "pData p = t" "0 < t" "t \<le> numOwners g"
    and g': "g' = snd (bumpConfigNonce E (snd (markExecuted E aw (setGovernanceState t (numOwners g) g1))))"
    by (auto simp: executeThresholdChange_def Let_def case_prod_beta)
  note inv2 = assertExecutable_vaultInv(2) [OF E inv ty small(1) ex]
  show "quorum E g v p" by (rule assertExecutable_vaultInv(1) [OF E inv ty small(1) ex])
  note g1 = assertExecutable_vaultInv(4) [OF E inv ty small(1) ex]
  have com2: "ownersCommitment (snd (markExecuted E aw g1)) = computeOwnerChain E (vOwners (vExecute p v))"
    using vaultInv_represents [OF inv2] by (simp add: represents_def)
  have "vaultInv E a g' (vSetOwners (vOwners (vExecute p v)) (vExecute p v))"
  proof (rule vaultInv_reconfigure [OF inv2])
    show "represents E g' (vSetOwners (vOwners (vExecute p v)) (vExecute p v))"
      using com2 unfolding g'
      by (intro represents_reconfigured [OF vaultInv_represents [OF inv2]])
        (auto simp: bumpConfigNonce_def markExecuted_def setGovernanceState_def Let_def)
  qed (use small t g1 vaultInv_valid [OF inv2] vaultInv_num [OF inv2] vaultInv_gov [OF inv] in
      \<open>auto simp: g' bumpConfigNonce_def markExecuted_def setGovernanceState_def Let_def governanceOk_def\<close>)
  then show "vaultInv E a g' (vExecute p v)" by simp
  show "threshold g' = pData p"
    using t by (simp add: g' bumpConfigNonce_def markExecuted_def setGovernanceState_def Let_def)
qed

text \<open>The owner list an owner change leads to.\<close>

definition changedOwners :: "proposal \<Rightarrow> pkOption \<Rightarrow> pubkey list \<Rightarrow> pubkey list" where
  "changedOwners p insertAfter xs =
     (if pTxType p = TxType REMOVE_OWNER then filter (\<lambda>q. q \<noteq> rAddress (pReceivers p ! 0)) xs
      else insertOwner (rAddress (pReceivers p ! 0)) insertAfter xs)"

lemma shapeChecked_target:
  assumes "soundEnv E" "shapeChecked E p" "typedProposal p" "pTxType p = TxType ADD_OWNER"
  shows "rAddress (pReceivers p ! 0) \<noteq> emptyKey \<and> onCurve E (pkX (rAddress (pReceivers p ! 0)))"
proof -
  from assms(2) obtain g0 where s: "assertProposalShape E g0 p = Inr ()" by (auto simp: shapeChecked_def)
  then have ne: "rAddress (pReceivers p ! 0) \<noteq> emptyKey"
    using assms(4) by (auto simp: assertProposalShape_def isTx_def Let_def)
  have "pReceivers p ! 0 \<in> set (pReceivers p)"
    using assms(3) by (simp add: typedProposal_def MAX_RECEIVERS_def)
  with s ne show ?thesis
    by (auto simp: assertProposalShape_def Let_def assertOnCurveIf_Inr [OF soundEnv_generator [OF assms(1)]])
qed

text \<open>What a successful owner change has checked, and the state it leaves, before the commitments
  are interpreted.\<close>

definition changedCount :: "('m, 'w, 's) o1js \<Rightarrow> guard \<Rightarrow> proposal \<Rightarrow> field" where
  "changedCount E g p = fieldSub E (fieldAdd E (numOwners g) (boolToField (pTxType p = TxType ADD_OWNER)))
     (boolToField (pTxType p = TxType REMOVE_OWNER))"

lemma executeOwnerChange_Inr:
  assumes "executeOwnerChange E w a g p aw c ow ia = Inr (g', evs, sends)"
  obtains g1 com where "assertExecutable E w a g p aw c = Inr g1"
    "pTxType p = TxType ADD_OWNER \<or> pTxType p = TxType REMOVE_OWNER"
    "threshold g \<le> changedCount E g p" "changedCount E g p \<le> int MAX_OWNERS"
    "(if pTxType p = TxType REMOVE_OWNER
       then removeOwnerFromCommitment E (ownersCommitment g) (rAddress (pReceivers p ! 0)) ow
       else addOwnerToCommitment E (ownersCommitment g) (rAddress (pReceivers p ! 0)) ow ia) = (com, True)"
    "pTxType p = TxType ADD_OWNER \<Longrightarrow> com = pData p"
    "g' = snd (bumpConfigNonce E (snd (markExecuted E aw
       (setGovernanceState (threshold g) (changedCount E g p) (g1\<lparr>ownersCommitment := com\<rparr>)))))"
  using assms
  by (auto simp: executeOwnerChange_def getInitializedOwnersCommitment_def Let_def changedCount_def
      case_prod_beta prod_eq_iff)

lemma changedOwners_valid:
  assumes E: "soundEnv E" and inv: "vaultInv E a g v" and ty: "typedProposal p" and sh: "shapeChecked E p"
    and k: "pTxType p = TxType ADD_OWNER \<or> pTxType p = TxType REMOVE_OWNER"
    and ow: "length ow = MAX_OWNERS"
    and res: "(if pTxType p = TxType REMOVE_OWNER
       then removeOwnerFromCommitment E (ownersCommitment g) (rAddress (pReceivers p ! 0)) ow
       else addOwnerToCommitment E (ownersCommitment g) (rAddress (pReceivers p ! 0)) ow ia) = (com, True)"
  shows "com = computeOwnerChain E (changedOwners p ia (vOwners v))"
    and "validOwnerList E (changedOwners p ia (vOwners v))"
    and "int (length (changedOwners p ia (vOwners v))) = changedCount E g p"
proof -
  let ?o = "rAddress (pReceivers p ! 0)"
  note big = fieldLarge_pos [OF soundEnv_fieldLarge [OF E]]
  note valid = vaultInv_valid [OF inv] and num = vaultInv_num [OF inv] and gov = vaultInv_gov [OF inv]
  have wl: "int (length ow) < fieldOrder E" using ow big by (simp add: MAX_OWNERS_def)
  note eqs = addOwnerToCommitment_eq removeOwnerFromCommitment_eq [OF wl]
  have "ownersCommitment g = computeOwnerChain E (vOwners v)"
    using vaultInv_represents [OF inv] by (simp add: represents_def)
  then have wo: "witnessOwners ow = vOwners v"
    using res by (auto simp: eqs computeOwnerChain_eq [OF soundEnv_collisionFree [OF E]] split: if_splits)
  show "com = computeOwnerChain E (changedOwners p ia (vOwners v))"
    using wo res by (auto simp: changedOwners_def eqs split: if_splits)
  have "validOwnerList E (changedOwners p ia (vOwners v)) \<and>
      int (length (changedOwners p ia (vOwners v))) = changedCount E g p"
  proof (cases "pTxType p = TxType REMOVE_OWNER")
    case True
    then have r: "?o \<in> set (vOwners v)" "0 < length (vOwners v)" using res wo by (auto simp: eqs)
    then have "changedCount E g p = numOwners g - 1" using True num gov big
      by (auto simp: changedCount_def fieldSub_def fieldAdd_def boolToField_def governanceOk_def MAX_OWNERS_def)
    with True r removeOwner_valid [OF valid r(1)] num show ?thesis
      by (auto simp: changedOwners_def of_nat_diff Suc_le_eq)
  next
    case False
    then have addk: "pTxType p = TxType ADD_OWNER" using k by simp
    have "changedCount E g p = numOwners g + 1" using False addk gov big
      by (simp add: changedCount_def fieldSub_def fieldAdd_def boolToField_def governanceOk_def MAX_OWNERS_def)
    moreover have "pkX ?o \<notin> pkX ` set (vOwners v)" "pkSome ia \<longrightarrow> pkValue ia \<in> set (vOwners v)"
      using res False wo by (auto simp: eqs)
    ultimately show ?thesis
      using insertOwner_valid [OF valid] shapeChecked_target [OF E sh ty addk] num False by (simp add: changedOwners_def)
  qed
  then show "validOwnerList E (changedOwners p ia (vOwners v))"
    "int (length (changedOwners p ia (vOwners v))) = changedCount E g p" by auto
qed

lemma executeOwnerChange_vaultInv:
  assumes E: "soundEnv E" and inv: "vaultInv E a g v" and ty: "typedProposal p"
    and small: "nonce g + 1 < fieldOrder E" "configNonce g + 1 < fieldOrder E"
    and ow: "length ow = MAX_OWNERS"
    and ok: "executeOwnerChange E w a g p aw c ow ia = Inr (g', evs, sends)"
  shows "quorum E g v p" "vaultInv E a g' (vSetOwners (changedOwners p ia (vOwners v)) (vExecute p v))"
    "pTxType p = TxType ADD_OWNER \<Longrightarrow> computeOwnerChain E (changedOwners p ia (vOwners v)) = pData p"
proof -
  from ok obtain g1 com where f: "assertExecutable E w a g p aw c = Inr g1"
    "pTxType p = TxType ADD_OWNER \<or> pTxType p = TxType REMOVE_OWNER"
    "threshold g \<le> changedCount E g p" "changedCount E g p \<le> int MAX_OWNERS"
    "(if pTxType p = TxType REMOVE_OWNER
       then removeOwnerFromCommitment E (ownersCommitment g) (rAddress (pReceivers p ! 0)) ow
       else addOwnerToCommitment E (ownersCommitment g) (rAddress (pReceivers p ! 0)) ow ia) = (com, True)"
    "pTxType p = TxType ADD_OWNER \<Longrightarrow> com = pData p"
    "g' = snd (bumpConfigNonce E (snd (markExecuted E aw
       (setGovernanceState (threshold g) (changedCount E g p) (g1\<lparr>ownersCommitment := com\<rparr>)))))"
    by (rule executeOwnerChange_Inr) blast
  note ex = assertExecutable_vaultInv [OF E inv ty small(1) f(1)]
  show q: "quorum E g v p" by (rule ex)
  then have sh: "shapeChecked E p" by (simp add: quorum_def)
  note lists = changedOwners_valid [OF E inv ty sh f(2) ow f(5)]
  show "computeOwnerChain E (changedOwners p ia (vOwners v)) = pData p" if "pTxType p = TxType ADD_OWNER"
    using f(6) [OF that] lists(1) by simp
  show "vaultInv E a g' (vSetOwners (changedOwners p ia (vOwners v)) (vExecute p v))"
  proof (rule vaultInv_reconfigure [OF ex(2)])
    show "represents E g' (vSetOwners (changedOwners p ia (vOwners v)) (vExecute p v))"
      using lists(1) by (intro represents_reconfigured [OF vaultInv_represents [OF ex(2)]])
        (auto simp: f(7) bumpConfigNonce_def markExecuted_def setGovernanceState_def Let_def)
  qed (use small ex(4) lists f(3,4) vaultInv_gov [OF inv] in
      \<open>auto simp: f(7) bumpConfigNonce_def markExecuted_def setGovernanceState_def Let_def governanceOk_def\<close>)
qed

lemma executeTransfer_vaultInv:
  assumes E: "soundEnv E" and inv: "vaultInv E a g v" and ty: "typedProposal p"
    and small: "nonce g + 1 < fieldOrder E"
    and ok: "executeTransfer E w a g p aw c = Inr (g', evs, sends)"
  shows "quorum E g v p" "vaultInv E a g' (vExecute p v)" "sends = executeTransfers a p" "nonce g' = nonce g + 1"
    "pNonce p = nonce g + 1"
proof -
  from ok obtain g1 where ex: "assertExecutable E w a g p aw c = Inr g1"
    and g': "g' = snd (markExecuted E aw g1)" and s: "sends = executeTransfers a p"
    by (auto simp: executeTransfer_def Let_def case_prod_beta)
  note r = assertExecutable_vaultInv [OF E inv ty small ex]
  show "quorum E g v p" "vaultInv E a g' (vExecute p v)" "sends = executeTransfers a p" "pNonce p = nonce g + 1"
    using r s g' by auto
  show "nonce g' = nonce g + 1" using r(4) by (simp add: g' markExecuted_def Let_def)
qed

lemma executeAllocateToChildren_vaultInv:
  assumes E: "soundEnv E" and inv: "vaultInv E a g v" and ty: "typedProposal p"
    and small: "nonce g + 1 < fieldOrder E"
    and ok: "executeAllocateToChildren E w a g p aw c = Inr (g', evs, sends)"
  shows "quorum E g v p" "vaultInv E a g' (vExecute p v)" "sends = executeTransfers a p"
    "\<forall>r \<in> set (pReceivers p). rAddress r \<noteq> emptyKey \<longrightarrow>
       (\<exists>ch. accounts w (rAddress r) = Some ch \<and> ownersCommitment ch \<noteq> 0 \<and> parent ch = a)"
proof -
  from ok obtain g1 where ex: "assertExecutable E w a g p aw c = Inr g1"
    and chk: "\<forall>r \<in> set (pReceivers p). assertAllocationRecipient w a r = Inr ()"
    and g': "g' = snd (markExecuted E aw g1)" and s: "sends = executeTransfers a p"
    by (auto simp: executeAllocateToChildren_def Let_def case_prod_beta)
  note r = assertExecutable_vaultInv [OF E inv ty small ex]
  show "quorum E g v p" "vaultInv E a g' (vExecute p v)" "sends = executeTransfers a p" using r s g' by auto
  show "\<forall>r \<in> set (pReceivers p). rAddress r \<noteq> emptyKey \<longrightarrow>
       (\<exists>ch. accounts w (rAddress r) = Some ch \<and> ownersCommitment ch \<noteq> 0 \<and> parent ch = a)"
    using chk by (auto simp: assertAllocationRecipient_def Let_def)
qed

lemma executeDelegate_vaultInv:
  assumes E: "soundEnv E" and inv: "vaultInv E a g v" and ty: "typedProposal p"
    and small: "nonce g + 1 < fieldOrder E"
    and ok: "executeDelegate E w a g p aw c = Inr (g', evs, sends)"
  shows "quorum E g v p" "vaultInv E a g' (vExecute p v)"
proof -
  define d where "d = (if rAddress (pReceivers p ! 0) = emptyKey then a else rAddress (pReceivers p ! 0))"
  from ok obtain g1 where ex: "assertExecutable E w a g p aw c = Inr g1"
    and g': "g' = snd (markExecuted E aw (g1\<lparr>accDelegate := d\<rparr>))"
    unfolding d_def by (auto simp: executeDelegate_def Let_def case_prod_beta)
  note r = assertExecutable_vaultInv [OF E inv ty small ex]
  show "quorum E g v p" by (rule r)
  show "vaultInv E a g' (vExecute p v)"
    unfolding g' by (rule vaultInv_frame [OF r(2)]) (auto simp: markExecuted_def Let_def elim: represents_frame)
qed

section \<open>Child lifecycle\<close>

text \<open>The parent's quorum behind a lifecycle proposal executed on a child.\<close>

lemma parentApproval_quorum:
  assumes E: "soundEnv E" and inv: "vaultInv E par pg pv" and acc: "accounts w par = Some pg"
    and ty: "typedProposal p"
    and ok: "assertParentApprovalState E w p par pw pc = Inr h"
  shows "quorum E pg pv p" "h = proposalHash E p" "pGuardAddress p = par"
  using ok acc approved_quorum(1) [OF E inv ty] by (auto simp: assertParentApprovalState_Inr)

lemma assertLifecycle_vaultInv:
  assumes E: "soundEnv E" and inv: "vaultInv E a g v" and ty: "typedProposal p"
    and small: "parentNonce g + 1 < fieldOrder E"
    and ok: "assertLifecycle E w a g t msg p pw pc cw = Inr (h, g1)"
  shows "\<not> vChildExecuted v p" "vaultInv E a (snd (markChildExecuted E cw g1)) (vChildExecute p v)"
    "g1 = g\<lparr>parentNonce := parentNonce g + 1\<rparr>" "pNonce p = parentNonce g + 1" "h = proposalHash E p"
    "assertParentApprovalState E w p (parent g) pw pc = Inr h"
proof -
  from ok have ap: "assertParentApprovalState E w p (parent g) pw pc = Inr h"
    and cw: "computeRootAndKey E cw 0 = (childExecutionRoot g, h)"
    and n: "pNonce p = fieldAdd E (parentNonce g) 1" "g1 = g\<lparr>parentNonce := fieldAdd E (parentNonce g) 1\<rparr>"
    by (simp_all add: assertLifecycle_Inr)
  show "assertParentApprovalState E w p (parent g) pw pc = Inr h" by (rule ap)
  show h: "h = proposalHash E p" using ap by (auto simp: assertParentApprovalState_Inr)
  have nn: "fieldAdd E (parentNonce g) 1 = parentNonce g + 1"
    using small vaultInv_nonces [OF inv] by (intro fieldAdd_small) auto
  show "g1 = g\<lparr>parentNonce := parentNonce g + 1\<rparr>" "pNonce p = parentNonce g + 1" using n nn by simp_all
  note cw' = cw [unfolded h]
  have "childLeaf E v p = 0" by (rule child_opens [OF E vaultInv_represents [OF inv] ty cw'])
  then show "\<not> vChildExecuted v p"
    using marker_positive [OF E] by (auto simp: childLeaf_def split: if_splits)
  have "represents E (g\<lparr>childExecutionRoot := fst (computeRootAndKey E cw (EXECUTED_MARKER E))\<rparr>) (vChildExecute p v)"
    by (rule represents_childExecute [OF E vaultInv_represents [OF inv] ty cw'])
  then have "represents E (snd (markChildExecuted E cw g1)) (vChildExecute p v)"
    using n by (auto simp: markChildExecuted_def Let_def elim!: represents_frame)
  then show "vaultInv E a (snd (markChildExecuted E cw g1)) (vChildExecute p v)"
    using inv n nn by (auto simp: vaultInv_def votesOk_def vChildExecute_def markChildExecuted_def Let_def governanceOk_def)
qed

lemma executeReclaimToParent_vaultInv:
  assumes E: "soundEnv E" and inv: "vaultInv E a g v" and ty: "typedProposal p"
    and small: "parentNonce g + 1 < fieldOrder E"
    and ok: "executeReclaimToParent E w a g p pw pc cw amt = Inr (g', evs, sends)"
  shows "vaultInv E a g' (vChildExecute p v)" "sends = [(parent g, amt)]" "pData p = uint amt"
proof -
  from ok obtain h g1 where l: "assertLifecycle E w a g RECLAIM_CHILD ''Not a reclaim child tx'' p pw pc cw = Inr (h, g1)"
    and r: "g' = snd (markChildExecuted E cw g1)" "sends = [(parent g, amt)]" "pData p = uint amt"
    by (auto simp: executeReclaimToParent_def Let_def case_prod_beta)
  show "vaultInv E a g' (vChildExecute p v)" "sends = [(parent g, amt)]" "pData p = uint amt"
    using assertLifecycle_vaultInv(2) [OF E inv ty small l] r by auto
qed

lemma vaultInv_bumped:
  assumes "vaultInv E a g v" "configNonce g + 1 < fieldOrder E"
    and "g' = g\<lparr>childMultiSigEnabled := e, configNonce := fieldAdd E (configNonce g) 1\<rparr>"
  shows "vaultInv E a g' v"
proof -
  have "ownersCommitment g = computeOwnerChain E (vOwners v)"
    using vaultInv_represents [OF assms(1)] by (simp add: represents_def)
  then have "represents E g' (vSetOwners (vOwners v) v)"
    using assms(3) by (intro represents_reconfigured [OF vaultInv_represents [OF assms(1)]]) auto
  from vaultInv_reconfigure [OF assms(1,2) vaultInv_valid [OF assms(1)] _ _ this]
    vaultInv_num [OF assms(1)] vaultInv_gov [OF assms(1)] assms(3)
  show ?thesis by (simp add: governanceOk_def)
qed

lemma executeDestroy_vaultInv:
  assumes E: "soundEnv E" and inv: "vaultInv E a g v" and ty: "typedProposal p"
    and small: "parentNonce g + 1 < fieldOrder E" "configNonce g + 1 < fieldOrder E"
    and ok: "executeDestroy E w a g p pw pc cw bal = Inr (g', evs, sends)"
  shows "vaultInv E a g' (vChildExecute p v)" "sends = [(parent g, bal)]" "childMultiSigEnabled g' = 0"
    "configNonce g' = configNonce g + 1"
proof -
  from ok obtain h g1 where l: "assertLifecycle E w a g DESTROY_CHILD ''Not a destroy child tx'' p pw pc cw = Inr (h, g1)"
    and r: "g' = snd (bumpConfigNonce E ((snd (markChildExecuted E cw g1))\<lparr>childMultiSigEnabled := 0\<rparr>))"
    and s: "sends = [(parent g, bal)]"
    by (auto simp: executeDestroy_def Let_def case_prod_beta)
  note lc = assertLifecycle_vaultInv [OF E inv ty small(1) l]
  show "vaultInv E a g' (vChildExecute p v)"
    by (rule vaultInv_bumped [OF lc(2)])
      (use small lc(3) r in \<open>auto simp: markChildExecuted_def bumpConfigNonce_def Let_def\<close>)
  show "sends = [(parent g, bal)]" by (rule s)
  have "fieldAdd E (configNonce g) 1 = configNonce g + 1"
    using small vaultInv_nonces [OF inv] by (intro fieldAdd_small) auto
  then show "childMultiSigEnabled g' = 0" "configNonce g' = configNonce g + 1"
    using r lc(3) by (auto simp: markChildExecuted_def bumpConfigNonce_def Let_def)
qed

lemma executeEnableChildMultiSig_vaultInv:
  assumes E: "soundEnv E" and inv: "vaultInv E a g v" and ty: "typedProposal p"
    and small: "parentNonce g + 1 < fieldOrder E" "configNonce g + 1 < fieldOrder E"
    and ok: "executeEnableChildMultiSig E w a g p pw pc cw en = Inr (g', evs, sends)"
  shows "vaultInv E a g' (vChildExecute p v)" "childMultiSigEnabled g' = pData p"
    "configNonce g' = (if en = 0 then configNonce g + 1 else configNonce g)" "sends = []"
proof -
  from ok obtain h g1 where
    l: "assertLifecycle E w a g ENABLE_CHILD_MULTI_SIG ''Not an enable-child-multi-sig tx'' p pw pc cw = Inr (h, g1)"
    and r: "g' = snd (markChildExecuted E cw (g1\<lparr>childMultiSigEnabled := en,
       configNonce := fieldAdd E (configNonce g) (boolToField (en = 0))\<rparr>))"
    and en: "pData p = en" "en = 0 \<or> en = 1" and s: "sends = []"
    by (auto simp: executeEnableChildMultiSig_def Let_def case_prod_beta)
  note lc = assertLifecycle_vaultInv [OF E inv ty small(1) l]
  have add: "fieldAdd E (configNonce g) 1 = configNonce g + 1" "fieldAdd E (configNonce g) 0 = configNonce g"
    using small vaultInv_nonces [OF inv] by (auto intro: fieldAdd_small simp: fieldAdd_small)
  show "vaultInv E a g' (vChildExecute p v)"
  proof (cases "en = 0")
    case True
    show ?thesis
      by (rule vaultInv_bumped [OF lc(2), where e = en])
        (use small lc(3) r True in \<open>auto simp: markChildExecuted_def boolToField_def Let_def\<close>)
  next
    case False
    show ?thesis
      by (rule vaultInv_frame [OF lc(2)])
        (use lc(3) r False add in \<open>auto simp: markChildExecuted_def boolToField_def Let_def elim: represents_frame\<close>)
  qed
  show "childMultiSigEnabled g' = pData p" "configNonce g' = (if en = 0 then configNonce g + 1 else configNonce g)"
    "sends = []"
    using r en s add lc(3) by (auto simp: markChildExecuted_def boolToField_def Let_def)
qed

section \<open>Initialisation\<close>

lemma initializeState_vaultInv:
  assumes E: "soundEnv E" and cfg: "configNonce g = 0" and len: "length owners = MAX_OWNERS"
    and ok: "initializeState E g thr num par 0 0 owners = Inr (g', evs)"
  shows "vaultInv E a g' (newVault (activeOwners owners num))" "parent g' = par"
    "configNonce g' = 0" "nonce g' = 0" "parentNonce g' = 0" "accPermissions g' = accPermissions g"
proof -
  from ok have f: "0 < thr" "thr \<le> num" "num \<le> int MAX_OWNERS" "assertCoherentSetupOwners E owners num = Inr ()"
    and g': "g' = g\<lparr>ownersCommitment := computeSetupOwnersChain E owners num, threshold := thr, numOwners := num,
       nonce := 0, approvalRoot := EMPTY_MERKLE_MAP_ROOT E, voteNullifierRoot := EMPTY_MERKLE_MAP_ROOT E,
       parent := par, parentNonce := 0, childExecutionRoot := EMPTY_MERKLE_MAP_ROOT E,
       childMultiSigEnabled := 1\<rparr>"
    by (auto simp: initializeState_Inr)
  have v: "validOwnerList E (activeOwners owners num)"
    using f(4) assertCoherentSetupOwners_Inr [OF soundEnv_generator [OF E]] by auto
  have n: "int (length (activeOwners owners num)) = num"
    using f len by (intro coherent_length) auto
  have "represents E g' (newVault (activeOwners owners num))"
    using soundEnv_merkle [OF E] by (intro represents_new) (simp_all add: g' computeSetupOwnersChain_active)
  then show "vaultInv E a g' (newVault (activeOwners owners num))"
    using v n f cfg by (auto simp: vaultInv_def newVault_def governanceOk_def g')
qed (use ok cfg in \<open>auto simp: initializeState_Inr\<close>)

end
