(* ===== verification/Machines.thy ===== *)
theory Machines
  imports Main
begin

text \<open>
  The interface between a step relation and the invariants proved about it. A \<open>machine\<close> keeps its
  invariant at every step; the limiters and caches of the backend are of this kind. A \<open>counted_machine\<close>
  keeps an invariant that may mention how many steps have been made, as long as fewer than a bound
  have; a \<open>stable_machine\<close> adds a property that no step from an invariant state destroys. The
  contract on the ledger is interpreted in both.
\<close>

locale machine =
  fixes start :: "'s \<Rightarrow> bool"
    and step :: "'s \<Rightarrow> 's \<Rightarrow> bool"
    and inv :: "'s \<Rightarrow> bool"
  assumes inv_start: "start s \<Longrightarrow> inv s"
    and inv_kept: "inv s \<Longrightarrow> step s s' \<Longrightarrow> inv s'"
begin

lemma inv_reachable: "step\<^sup>*\<^sup>* s s' \<Longrightarrow> start s \<Longrightarrow> inv s'"
  by (induction rule: rtranclp_induct) (auto simp: inv_start inv_kept)

end

locale counted_machine =
  fixes step :: "'s \<Rightarrow> 's \<Rightarrow> bool"
    and inv :: "nat \<Rightarrow> 's \<Rightarrow> bool"
    and bound :: nat
  assumes inv_step: "inv n s \<Longrightarrow> step s s' \<Longrightarrow> n < bound \<Longrightarrow> inv (Suc n) s'"
begin

lemma inv_steps: "inv n s \<Longrightarrow> (step ^^ k) s s' \<Longrightarrow> n + k \<le> bound \<Longrightarrow> inv (n + k) s'"
proof (induction k arbitrary: s')
  case 0
  then show ?case by simp
next
  case (Suc k)
  from Suc.prems(2) obtain t where t: "(step ^^ k) s t" "step t s'" by auto
  with Suc have "inv (n + k) t" by simp
  with t(2) Suc.prems(3) show ?case using inv_step by simp
qed

end

locale stable_machine = counted_machine +
  fixes q :: "'s \<Rightarrow> bool"
  assumes stable: "inv n s \<Longrightarrow> step s s' \<Longrightarrow> n < bound \<Longrightarrow> q s \<Longrightarrow> q s'"
begin

lemma stable_steps: "inv n s \<Longrightarrow> (step ^^ k) s s' \<Longrightarrow> n + k \<le> bound \<Longrightarrow> q s \<Longrightarrow> q s'"
proof (induction k arbitrary: s')
  case 0
  then show ?case by simp
next
  case (Suc k)
  from Suc.prems(2) obtain t where t: "(step ^^ k) s t" "step t s'" by auto
  with Suc have "q t" by simp
  moreover have "inv (n + k) t" using Suc.prems t(1) inv_steps by simp
  ultimately show ?case using t(2) Suc.prems(3) stable [of "n + k" t s'] by simp
qed

end

end
