(* ===== verification/Guard_Safety.thy ===== *)
theory Guard_Safety
  imports Guard_Refine Machines
begin

text \<open>
  The contract as a state machine. \<open>absCall\<close> and \<open>absAllowed\<close> are the abstract step of a vault; the
  simulation lemma says that every successful method call is such a step. Rule induction lifts the
  invariant to every reachable ledger, whatever the accounts that are not genuine guards do.
\<close>

section \<open>The abstract step\<close>

fun absCall :: "('w, 's) call \<Rightarrow> vault \<Rightarrow> vault" where
  "absCall (Propose p ow pk sg vw aw) v = vVote p pk v"
| "absCall (ApproveProposal p sg pk ow aw c vw) v = vVote p pk v"
| "absCall (ExecuteTransfer p aw c) v = vExecute p v"
| "absCall (ExecuteAllocateToChildren p aw c) v = vExecute p v"
| "absCall (ExecuteOwnerChange p aw c ow ia) v = vSetOwners (changedOwners p ia (vOwners v)) (vExecute p v)"
| "absCall (ExecuteThresholdChange p aw c t) v = vExecute p v"
| "absCall (ExecuteDelegate p aw c) v = vExecute p v"
| "absCall (ExecuteReclaimToParent p pw pc cw amt) v = vChildExecute p v"
| "absCall (ExecuteDestroy p pw pc cw bal) v = vChildExecute p v"
| "absCall (ExecuteEnableChildMultiSig p pw pc cw en) v = vChildExecute p v"
| "absCall c v = v"

fun localExecution :: "('w, 's) call \<Rightarrow> proposal option" where
  "localExecution (ExecuteTransfer p aw c) = Some p"
| "localExecution (ExecuteAllocateToChildren p aw c) = Some p"
| "localExecution (ExecuteOwnerChange p aw c ow ia) = Some p"
| "localExecution (ExecuteThresholdChange p aw c t) = Some p"
| "localExecution (ExecuteDelegate p aw c) = Some p"
| "localExecution c = None"

fun lifecycleExecution :: "('w, 's) call \<Rightarrow> proposal option" where
  "lifecycleExecution (ExecuteReclaimToParent p pw pc cw amt) = Some p"
| "lifecycleExecution (ExecuteDestroy p pw pc cw bal) = Some p"
| "lifecycleExecution (ExecuteEnableChildMultiSig p pw pc cw en) = Some p"
| "lifecycleExecution c = None"

fun initialises :: "('w, 's) call \<Rightarrow> bool" where
  "initialises Deploy = True"
| "initialises (Setup thr num owners) = True"
| "initialises (ReserveForParent par h thr num owners) = True"
| "initialises (ExecuteSetupChild thr num owners p pw pc) = True"
| "initialises c = False"

definition absAllowed :: "('m, 'w, 's) o1js \<Rightarrow> guard \<Rightarrow> vault \<Rightarrow> ('w, 's) call \<Rightarrow> bool" where
  "absAllowed E g v c \<longleftrightarrow> (case c of
       Propose p ow pk sg vw aw \<Rightarrow> pk \<in> set (vOwners v) \<and> vVotes v p = []
     | ApproveProposal p sg pk ow aw n vw \<Rightarrow>
         pk \<in> set (vOwners v) \<and> vVotes v p \<noteq> [] \<and> pk \<notin> set (vVotes v p)
     | _ \<Rightarrow> (\<forall>p. localExecution c = Some p \<longrightarrow> quorum E g v p) \<and>
            (\<forall>p. lifecycleExecution c = Some p \<longrightarrow> \<not> vChildExecuted v p))"

section \<open>What a method leaves alone\<close>

lemma executable_frame:
  "assertExecutable E w a g p aw c = Inr g1 \<Longrightarrow>
     parent g1 = parent g \<and> accPermissions g1 = accPermissions g \<and> configNonce g1 = configNonce g \<and>
     parentNonce g1 = parentNonce g \<and> nonce g1 = fieldAdd E (nonce g) 1"
  by (simp add: assertExecutable_Inr)

lemma lifecycle_frame:
  "assertLifecycle E w a g t msg p pw pc cw = Inr (h, g1) \<Longrightarrow>
     parent g1 = parent g \<and> accPermissions g1 = accPermissions g \<and> configNonce g1 = configNonce g \<and>
     nonce g1 = nonce g \<and> parentNonce g1 = fieldAdd E (parentNonce g) 1"
  by (simp add: assertLifecycle_Inr)

lemmas method_defs = propose_def approveProposal_def executeTransfer_def executeAllocateToChildren_def
  executeOwnerChange_def executeThresholdChange_def executeDelegate_def executeReclaimToParent_def
  executeDestroy_def executeEnableChildMultiSig_def

lemmas write_defs = markExecuted_def markChildExecuted_def bumpConfigNonce_def setGovernanceState_def

text \<open>Only initialisation touches the parent link and the permissions, and no method moves a
  counter by more than one.\<close>

definition counterStep :: "('m, 'w, 's) o1js \<Rightarrow> field \<Rightarrow> field \<Rightarrow> bool" where
  "counterStep E x y \<longleftrightarrow> y = x \<or> y = fieldAdd E x 1 \<or> y = fieldAdd E x 0"

lemma callMethod_frame:
  assumes "callMethod E w a g c = Inr (g', evs, sends)" "\<not> initialises c"
  shows "parent g' = parent g \<and> accPermissions g' = accPermissions g \<and> counterStep E (configNonce g) (configNonce g') \<and>
     counterStep E (nonce g) (nonce g') \<and> counterStep E (parentNonce g) (parentNonce g') \<and> ownersCommitment g \<noteq> 0"
  using assms
  by (cases c) (auto simp: method_defs write_defs counterStep_def case_prod_beta Let_def boolToField_def
      getInitializedOwnersCommitment_def assertLifecycle_Inr dest!: executable_frame)

lemma counterStep_bound: "counterStep E x y \<Longrightarrow> 0 \<le> x \<Longrightarrow> 0 < fieldOrder E \<Longrightarrow> y \<le> x + 1"
  by (auto simp: counterStep_def fieldAdd_def intro: order_trans [OF zmod_le_nonneg_dividend])

section \<open>Simulation\<close>

lemma callMethod_simulates:
  assumes E: "soundEnv E" and inv: "vaultInv E a g v" and ty: "typedCall c"
    and small: "nonce g + 1 < fieldOrder E" "configNonce g + 1 < fieldOrder E" "parentNonce g + 1 < fieldOrder E"
    and ok: "callMethod E w a g c = Inr (g', evs, sends)" and ni: "\<not> initialises c"
  shows "absAllowed E g v c \<and> vaultInv E a g' (absCall c v)"
proof (cases c)
  case (Propose p ow pk sg vw aw)
  then show ?thesis using propose_vaultInv [OF E inv] ty ok by (auto simp: absAllowed_def)
next
  case (ApproveProposal p sg pk ow aw n vw)
  then show ?thesis using approveProposal_vaultInv [OF E inv] ty ok by (auto simp: absAllowed_def)
next
  case (ExecuteTransfer p aw n)
  then show ?thesis using executeTransfer_vaultInv [OF E inv _ small(1)] ty ok by (auto simp: absAllowed_def)
next
  case (ExecuteAllocateToChildren p aw n)
  then show ?thesis using executeAllocateToChildren_vaultInv [OF E inv _ small(1)] ty ok by (auto simp: absAllowed_def)
next
  case (ExecuteOwnerChange p aw n ow ia)
  then show ?thesis using executeOwnerChange_vaultInv [OF E inv _ small(1,2)] ty ok by (auto simp: absAllowed_def)
next
  case (ExecuteThresholdChange p aw n t)
  then show ?thesis using executeThresholdChange_vaultInv [OF E inv _ small(1,2)] ty ok by (auto simp: absAllowed_def)
next
  case (ExecuteDelegate p aw n)
  then show ?thesis using executeDelegate_vaultInv [OF E inv _ small(1)] ty ok by (auto simp: absAllowed_def)
next
  case (ExecuteReclaimToParent p pw pc cw amt)
  with ok obtain h g1 where "assertLifecycle E w a g RECLAIM_CHILD ''Not a reclaim child tx'' p pw pc cw = Inr (h, g1)"
    by (auto simp: executeReclaimToParent_def)
  with ExecuteReclaimToParent ty have "\<not> vChildExecuted v p"
    using assertLifecycle_vaultInv(1) [OF E inv _ small(3)] by auto
  then show ?thesis using ExecuteReclaimToParent executeReclaimToParent_vaultInv [OF E inv _ small(3)] ty ok
    by (auto simp: absAllowed_def)
next
  case (ExecuteDestroy p pw pc cw bal)
  with ok obtain h g1 where "assertLifecycle E w a g DESTROY_CHILD ''Not a destroy child tx'' p pw pc cw = Inr (h, g1)"
    by (auto simp: executeDestroy_def)
  with ExecuteDestroy ty have "\<not> vChildExecuted v p"
    using assertLifecycle_vaultInv(1) [OF E inv _ small(3)] by auto
  then show ?thesis using ExecuteDestroy executeDestroy_vaultInv [OF E inv _ small(3,2)] ty ok
    by (auto simp: absAllowed_def)
next
  case (ExecuteEnableChildMultiSig p pw pc cw en)
  with ok obtain h g1 where
    "assertLifecycle E w a g ENABLE_CHILD_MULTI_SIG ''Not an enable-child-multi-sig tx'' p pw pc cw = Inr (h, g1)"
    by (auto simp: executeEnableChildMultiSig_def)
  with ExecuteEnableChildMultiSig ty have "\<not> vChildExecuted v p"
    using assertLifecycle_vaultInv(1) [OF E inv _ small(3)] by auto
  then show ?thesis using ExecuteEnableChildMultiSig executeEnableChildMultiSig_vaultInv [OF E inv _ small(3,2)] ty ok
    by (auto simp: absAllowed_def)
qed (use ni in auto)

section \<open>The invariant of a guard account\<close>

text \<open>After \<open>n\<close> steps a genuine guard is either waiting for initialisation, possibly reserved for a
  parent, or it represents a vault whose counters are at most \<open>n\<close>; once it is reserved or
  initialised its permissions are the canonical ones.\<close>

definition guardInv :: "('m, 'w, 's) o1js \<Rightarrow> nat \<Rightarrow> pubkey \<Rightarrow> guard \<Rightarrow> bool" where
  "guardInv E n a g \<longleftrightarrow>
     (ownersCommitment g = 0 \<longrightarrow> configNonce g = 0 \<and>
        (parent g = emptyKey \<longrightarrow> accPermissions g = GUARD_DEPLOY_PERMISSIONS)) \<and>
     (ownersCommitment g \<noteq> 0 \<longrightarrow> (\<exists>v. vaultInv E a g v) \<and>
        nonce g \<le> int n \<and> configNonce g \<le> int n \<and> parentNonce g \<le> int n) \<and>
     (ownersCommitment g \<noteq> 0 \<or> parent g \<noteq> emptyKey \<longrightarrow> accPermissions g = GUARD_PERMISSIONS)"

lemma guardInv_mono: "guardInv E n a g \<Longrightarrow> guardInv E (Suc n) a g"
  by (auto simp: guardInv_def)

lemma guardInv_deploy: "guardInv E n a (fst (deploy a))"
  by (simp add: guardInv_def deploy_def)

lemma vaultInv_initialised: "soundEnv E \<Longrightarrow> vaultInv E a g v \<Longrightarrow> ownersCommitment g \<noteq> 0"
  by (auto simp: vaultInv_def represents_def dest: soundEnv_collisionFree computeOwnerChain_nonzero)

lemma guardInv_fresh:
  assumes "soundEnv E" "vaultInv E a g v" "configNonce g = 0" "nonce g = 0" "parentNonce g = 0"
    and "accPermissions g = GUARD_PERMISSIONS"
  shows "guardInv E n a g"
  using assms vaultInv_initialised [OF assms(1,2)] by (auto simp: guardInv_def)

lemma deploy_not_sealed: "GUARD_DEPLOY_PERMISSIONS \<noteq> GUARD_PERMISSIONS"
  by (auto simp: GUARD_DEPLOY_PERMISSIONS_def GUARD_PERMISSIONS_def fun_eq_iff intro: exI [of _ SetPermissions])

lemma initialising_guardInv:
  assumes E: "soundEnv E" and inv: "guardInv E n a g" and ty: "typedCall c" and i: "initialises c"
    and ok: "callMethod E w a g c = Inr (g', evs, sends)"
  shows "guardInv E n a g'" "ownersCommitment g = 0" "sends = []"
    "parent g' = parent g \<or> (parent g = emptyKey \<and> (\<exists>pg. accounts w (parent g') = Some pg \<and>
       ownersCommitment pg \<noteq> 0 \<and> parent pg = emptyKey \<and> parent g' \<noteq> a))"
proof -
  have "guardInv E n a g' \<and> ownersCommitment g = 0 \<and> sends = [] \<and>
    (parent g' = parent g \<or> (parent g = emptyKey \<and> (\<exists>pg. accounts w (parent g') = Some pg \<and>
       ownersCommitment pg \<noteq> 0 \<and> parent pg = emptyKey \<and> parent g' \<noteq> a)))"
  proof (cases c)
    case (Setup thr num owners)
    with ok obtain g1 evs' where l: "lockPermissions g = Inr g1" and p: "parent g1 = emptyKey" and s: "sends = []"
      and ini: "initializeState E g1 thr num emptyKey 0 0 owners = Inr (g', evs')"
      by (auto simp: setupRoot_def)
    from l have g1: "g1 = g\<lparr>accPermissions := GUARD_PERMISSIONS\<rparr>" by (simp add: lockPermissions_def)
    from ini have z: "ownersCommitment g1 = 0" by (simp add: initializeState_Inr)
    with inv g1 have "configNonce g1 = 0" by (simp add: guardInv_def)
    moreover have "length owners = MAX_OWNERS" using Setup ty by simp
    ultimately have r: "vaultInv E a g' (newVault (activeOwners owners num))" "parent g' = emptyKey"
      "configNonce g' = 0" "nonce g' = 0" "parentNonce g' = 0" "accPermissions g' = accPermissions g1"
      using initializeState_vaultInv [OF E _ _ ini] by auto
    then have "guardInv E n a g'" using g1 by (intro guardInv_fresh [OF E r(1)]) auto
    with r g1 z p s show ?thesis by auto
  next
    case (ReserveForParent par h thr num owners)
    then show ?thesis using ok inv
      by (auto simp: reserveForParent_def lockPermissions_def Let_def guardInv_def)
  next
    case (ExecuteSetupChild thr num owners p pw pc)
    with ok obtain g1 evs' where ini: "initializeState E g thr num (pGuardAddress p) 0 0 owners = Inr (g1, evs')"
      and g': "g' = g1\<lparr>reservedConfigHash := 0\<rparr>" and s: "sends = []"
      and par: "parent g = pGuardAddress p" "pGuardAddress p \<noteq> emptyKey"
      by (auto simp: executeSetupChild_def Let_def)
    from ini have z: "ownersCommitment g = 0" by (simp add: initializeState_Inr)
    with inv have c0: "configNonce g = 0" by (simp add: guardInv_def)
    have len: "length owners = MAX_OWNERS" using ExecuteSetupChild ty by simp
    note r = initializeState_vaultInv [OF E c0 len ini]
    have "vaultInv E a g' (newVault (activeOwners owners num))"
      unfolding g' by (rule vaultInv_frame [OF r(1)]) (auto elim: represents_frame)
    moreover have "accPermissions g' = GUARD_PERMISSIONS" using inv par r(6) g' by (simp add: guardInv_def)
    ultimately have "guardInv E n a g'" using r g' by (intro guardInv_fresh [OF E]) auto
    with r g' z s par show ?thesis by auto
  qed (use ok i in auto)
  then show "guardInv E n a g'" "ownersCommitment g = 0" "sends = []"
    "parent g' = parent g \<or> (parent g = emptyKey \<and> (\<exists>pg. accounts w (parent g') = Some pg \<and>
       ownersCommitment pg \<noteq> 0 \<and> parent pg = emptyKey \<and> parent g' \<noteq> a))"
    by auto
qed

lemma guardInv_small:
  assumes "guardInv E n a g" "ownersCommitment g \<noteq> 0" "int n + 1 < fieldOrder E"
  shows "nonce g + 1 < fieldOrder E" "configNonce g + 1 < fieldOrder E" "parentNonce g + 1 < fieldOrder E"
  using assms by (auto simp: guardInv_def)

lemma callMethod_guardInv:
  assumes E: "soundEnv E" and inv: "guardInv E n a g" and n: "int n + 1 < fieldOrder E"
    and ty: "typedCall c" and ok: "callMethod E w a g c = Inr (g', evs, sends)"
  shows "guardInv E (Suc n) a g'"
proof (cases "initialises c")
  case True
  then show ?thesis using initialising_guardInv [OF E inv ty True ok] guardInv_mono by auto
next
  case False
  note f = callMethod_frame [OF ok False]
  then have nz: "ownersCommitment g \<noteq> 0" by simp
  with inv obtain v where v: "vaultInv E a g v" by (auto simp: guardInv_def)
  note sm = guardInv_small [OF inv nz n]
  have v': "vaultInv E a g' (absCall c v)" using callMethod_simulates [OF E v ty sm ok False] by simp
  have pos: "0 < fieldOrder E" using n by simp
  have "nonce g' \<le> nonce g + 1" "configNonce g' \<le> configNonce g + 1" "parentNonce g' \<le> parentNonce g + 1"
    using f vaultInv_nonces [OF v] pos by (auto intro: counterStep_bound)
  with f v' inv nz vaultInv_initialised [OF E v'] show ?thesis
    by (auto simp: guardInv_def)
qed


section \<open>The invariant of the ledger\<close>

definition hierarchyOk :: "ledger \<Rightarrow> pubkey \<Rightarrow> guard \<Rightarrow> bool" where
  "hierarchyOk l a g \<longleftrightarrow> (parent g \<noteq> emptyKey \<longrightarrow>
     parent g \<noteq> a \<and> (\<exists>pg. accounts l (parent g) = Some pg \<and>
       (genuine l (parent g) \<longrightarrow> ownersCommitment pg \<noteq> 0 \<and> parent pg = emptyKey)))"

definition ledgerInv :: "('m, 'w, 's) o1js \<Rightarrow> nat \<Rightarrow> ledger \<Rightarrow> bool" where
  "ledgerInv E n l \<longleftrightarrow> \<not> genuine l emptyKey \<and>
     (\<forall>a. genuine l a \<longrightarrow> (\<exists>g. accounts l a = Some g \<and> guardInv E n a g \<and> hierarchyOk l a g))"

lemma ledgerInvD:
  assumes "ledgerInv E n l" "genuine l a"
  obtains g where "accounts l a = Some g" "guardInv E n a g" "hierarchyOk l a g"
  using assms by (auto simp: ledgerInv_def)

lemma invoke_call:
  assumes "accounts l a = Some g" "transact E (ledgerWorld l) a c = Inr (w, evs)"
  obtains g' sends where "typedCall c" "callMethod E (ledgerWorld l) a g c = Inr (g', evs, sends)"
    "settle a sends (balances l) = Inr (balances w)" "accounts w = (accounts l)(a := Some g')"
  by (rule transact_Inr [of "ledgerWorld l" a g E c w evs]) (use assms that in auto)

text \<open>A genuine root stays an initialised root, so the link of its children stays sound.\<close>

lemma hierarchyOk_update:
  assumes "hierarchyOk l b gb" "accounts l a = Some g" "genuine l' = genuine l"
    and "accounts l' = (accounts l)(a := Some g')"
    and "genuine l a \<Longrightarrow> ownersCommitment g \<noteq> 0 \<Longrightarrow> parent g = emptyKey \<Longrightarrow>
       ownersCommitment g' \<noteq> 0 \<and> parent g' = emptyKey"
  shows "hierarchyOk l' b gb"
  using assms by (auto simp: hierarchyOk_def)

lemma genuine_call:
  assumes E: "soundEnv E" and inv: "ledgerInv E n l" and n: "int n + 1 < fieldOrder E" and gen: "genuine l a"
    and acc: "accounts l a = Some g" and ty: "typedCall c"
    and ok: "callMethod E (ledgerWorld l) a g c = Inr (g', evs, sends)"
  shows "guardInv E (Suc n) a g'"
    "ownersCommitment g \<noteq> 0 \<Longrightarrow> ownersCommitment g' \<noteq> 0 \<and> parent g' = parent g"
    "hierarchyOk (l\<lparr>accounts := (accounts l)(a := Some g')\<rparr>) a g'"
proof -
  from inv gen acc have gi: "guardInv E n a g" and h: "hierarchyOk l a g" by (auto elim: ledgerInvD)
  show "guardInv E (Suc n) a g'" by (rule callMethod_guardInv [OF E gi n ty ok])
  have fr: "ownersCommitment g' \<noteq> 0 \<and> parent g' = parent g" if nz: "ownersCommitment g \<noteq> 0"
  proof -
    have ni: "\<not> initialises c" using initialising_guardInv(2) [OF E gi ty _ ok] nz by auto
    from gi nz obtain v where v: "vaultInv E a g v" by (auto simp: guardInv_def)
    then have "vaultInv E a g' (absCall c v)"
      using callMethod_simulates [OF E v ty guardInv_small [OF gi nz n] ok ni] by simp
    with callMethod_frame [OF ok ni] vaultInv_initialised [OF E] show ?thesis by auto
  qed
  then show "ownersCommitment g \<noteq> 0 \<Longrightarrow> ownersCommitment g' \<noteq> 0 \<and> parent g' = parent g" .
  show "hierarchyOk (l\<lparr>accounts := (accounts l)(a := Some g')\<rparr>) a g'"
  proof (cases "parent g' = parent g")
    case True
    with h acc show ?thesis by (auto simp: hierarchyOk_def)
  next
    case False
    then have "initialises c" using callMethod_frame [OF ok] by auto
    from initialising_guardInv(4) [OF E gi ty this ok] False show ?thesis
      by (auto simp: hierarchyOk_def)
  qed
qed

lemma ledgerInv_create:
  assumes inv: "ledgerInv E n l" and acc: "accounts l a = None"
    and ok: "transact E (ledgerWorld l) a Deploy = Inr (w, evs)"
  shows "ledgerInv E (Suc n) (l\<lparr>accounts := accounts w, genuine := (genuine l)(a := True)\<rparr>)"
proof -
  have w: "accounts w = (accounts l)(a := Some (fst (deploy a)))" "a \<noteq> emptyKey"
    using transact_deploy [of "ledgerWorld l" a E Deploy w evs] acc ok by auto
  have "hierarchyOk (l\<lparr>accounts := accounts w, genuine := (genuine l)(a := True)\<rparr>) b gb"
    if "hierarchyOk l b gb" "b \<noteq> a" for b gb
    using that acc w by (auto simp: hierarchyOk_def)
  moreover have "hierarchyOk (l\<lparr>accounts := accounts w, genuine := (genuine l)(a := True)\<rparr>) a (fst (deploy a))"
    by (simp add: hierarchyOk_def deploy_def)
  ultimately show ?thesis
    using inv w guardInv_deploy [of E "Suc n" a] guardInv_mono [of E n] by (auto simp: ledgerInv_def)
qed

lemma ledgerInv_write:
  assumes inv: "ledgerInv E n l" and acc: "accounts l a = Some g"
    and l': "accounts l' = (accounts l)(a := Some g')" "genuine l' = genuine l"
    and own: "genuine l a \<Longrightarrow> guardInv E (Suc n) a g' \<and> hierarchyOk l' a g' \<and>
       (ownersCommitment g \<noteq> 0 \<longrightarrow> ownersCommitment g' \<noteq> 0 \<and> parent g' = parent g)"
  shows "ledgerInv E (Suc n) l'"
proof -
  have "\<exists>h. accounts l' b = Some h \<and> guardInv E (Suc n) b h \<and> hierarchyOk l' b h" if "genuine l b" for b
  proof (cases "b = a")
    case True
    then show ?thesis using own that l' by auto
  next
    case False
    from inv that obtain gb where gb: "accounts l b = Some gb" "guardInv E n b gb" "hierarchyOk l b gb"
      by (rule ledgerInvD)
    have "hierarchyOk l' b gb"
      by (rule hierarchyOk_update [OF gb(3) acc l'(2,1)]) (use own in auto)
    then show ?thesis using gb False l' guardInv_mono by auto
  qed
  then show ?thesis using inv l' by (auto simp: ledgerInv_def)
qed

lemma ledgerInv_step:
  assumes E: "soundEnv E" and inv: "ledgerInv E n l" and step: "guardStep E l l'" and n: "int n + 1 < fieldOrder E"
  shows "ledgerInv E (Suc n) l'"
  using step
proof (cases rule: guardStep.cases)
  case (create a w evs)
  then show ?thesis using ledgerInv_create [OF inv] by simp
next
  case (invoke a c w evs)
  then obtain g where acc: "accounts l a = Some g" by auto
  from invoke_call [OF acc invoke(3)] obtain g' sends where
    c: "typedCall c" "callMethod E (ledgerWorld l) a g c = Inr (g', evs, sends)"
    "accounts w = (accounts l)(a := Some g')" by blast
  show ?thesis
  proof (rule ledgerInv_write [OF inv acc])
    show "accounts l' = (accounts l)(a := Some g')" "genuine l' = genuine l" using invoke c by auto
    assume "genuine l a"
    note r = genuine_call [OF E inv n this acc c(1,2)]
    then show "guardInv E (Suc n) a g' \<and> hierarchyOk l' a g' \<and>
       (ownersCommitment g \<noteq> 0 \<longrightarrow> ownersCommitment g' \<noteq> 0 \<and> parent g' = parent g)"
      using invoke c by (auto simp: hierarchyOk_def)
  qed
next
  case (rogue a g)
  then show ?thesis
    using inv guardInv_mono [of E n] by (fastforce simp: ledgerInv_def hierarchyOk_def)
qed (use inv guardInv_mono [of E n] in \<open>fastforce simp: ledgerInv_def hierarchyOk_def\<close>)+


section \<open>Interpretations\<close>

lemma stepBound: "n < nat (fieldOrder E) - 1 \<Longrightarrow> int n + 1 < fieldOrder E"
  by linarith

interpretation gl: counted_machine "guardStep E" "\<lambda>n l. soundEnv E \<longrightarrow> ledgerInv E n l" "nat (fieldOrder E) - 1" for E
  by unfold_locales (auto intro: ledgerInv_step stepBound)

lemma reach_inv: "reach E n l \<Longrightarrow> soundEnv E \<Longrightarrow> int n < fieldOrder E \<Longrightarrow> ledgerInv E n l"
proof (induction rule: reach.induct)
  case (start l)
  then show ?case by (simp add: ledgerInv_def)
next
  case (step n l l')
  then show ?case by (intro ledgerInv_step [OF step.prems(1)]) auto
qed

text \<open>What initialisation fixes for good: a guard stays initialised under its parent with sealed
  permissions, and its three counters never decrease.\<close>

definition settledAt :: "pubkey \<Rightarrow> pubkey \<Rightarrow> field \<Rightarrow> field \<Rightarrow> field \<Rightarrow> ledger \<Rightarrow> bool" where
  "settledAt a par k kp kc l \<longleftrightarrow> genuine l a \<and> (\<exists>g. accounts l a = Some g \<and> ownersCommitment g \<noteq> 0 \<and>
     parent g = par \<and> accPermissions g = GUARD_PERMISSIONS \<and>
     k \<le> nonce g \<and> kp \<le> parentNonce g \<and> kc \<le> configNonce g)"

lemma counterStep_mono: "counterStep E x y \<Longrightarrow> 0 \<le> x \<Longrightarrow> x + 1 < fieldOrder E \<Longrightarrow> x \<le> y"
  by (auto simp: counterStep_def fieldAdd_small)

lemma settledAt_step:
  assumes E: "soundEnv E" and inv: "ledgerInv E n l" and step: "guardStep E l l'" and n: "int n + 1 < fieldOrder E"
    and s: "settledAt a par k kp kc l"
  shows "settledAt a par k kp kc l'"
  using step
proof (cases rule: guardStep.cases)
  case (create b w evs)
  then have "accounts w = (accounts l)(b := Some (fst (deploy b)))"
    using transact_deploy(4) [of "ledgerWorld l" b E Deploy w evs] by simp
  with create s show ?thesis by (auto simp: settledAt_def)
next
  case (invoke b c w evs)
  then obtain gb where acc: "accounts l b = Some gb" by auto
  from invoke_call [OF acc invoke(3)] obtain g' sends where
    c: "typedCall c" "callMethod E (ledgerWorld l) b gb c = Inr (g', evs, sends)"
    "accounts w = (accounts l)(b := Some g')" by blast
  show ?thesis
  proof (cases "b = a")
    case False
    then show ?thesis using s invoke c by (auto simp: settledAt_def)
  next
    case True
    from s acc True have g: "genuine l a" "ownersCommitment gb \<noteq> 0" "parent gb = par" "accPermissions gb = GUARD_PERMISSIONS"
      "k \<le> nonce gb" "kp \<le> parentNonce gb" "kc \<le> configNonce gb" by (auto simp: settledAt_def)
    from inv g(1) acc True have gi: "guardInv E n a gb" by (auto elim: ledgerInvD)
    have ni: "\<not> initialises c" using initialising_guardInv(2) [OF E gi c(1) _ c(2) [unfolded True]] g by auto
    note f = callMethod_frame [OF c(2) ni] and sm = guardInv_small [OF gi g(2) n]
    from gi g(2) obtain v where v: "vaultInv E a gb v" by (auto simp: guardInv_def)
    have "nonce gb \<le> nonce g'" "parentNonce gb \<le> parentNonce g'" "configNonce gb \<le> configNonce g'"
      using f sm vaultInv_nonces [OF v] by (auto intro: counterStep_mono)
    with g f genuine_call(2) [OF E inv n g(1) acc [unfolded True] c(1) c(2) [unfolded True] g(2)] invoke c True
    show ?thesis by (auto simp: settledAt_def)
  qed
qed (use s in \<open>auto simp: settledAt_def\<close>)

interpretation gs: stable_machine "guardStep E" "\<lambda>n l. soundEnv E \<longrightarrow> ledgerInv E n l" "nat (fieldOrder E) - 1"
  "\<lambda>l. soundEnv E \<longrightarrow> settledAt a par k kp kc l" for E a par k kp kc
  by unfold_locales (auto intro: settledAt_step stepBound)

lemma settledAt_forever:
  assumes "soundEnv E" "reach E n l" "settledAt a par k kp kc l" "(guardStep E ^^ m) l l'"
    and "int (n + m) < fieldOrder E"
  shows "settledAt a par k kp kc l'" "ledgerInv E (n + m) l'"
proof -
  have inv: "ledgerInv E n l" using assms by (auto intro: reach_inv)
  have b: "n + m \<le> nat (fieldOrder E) - 1" using assms(5) by linarith
  show "settledAt a par k kp kc l'"
    using gs.stable_steps [of E n l m l' a par k kp kc] assms inv b by blast
  show "ledgerInv E (n + m) l'" using gl.inv_steps [of E n l m l'] assms inv b by blast
qed

end
