(* ===== verification/Guard_Properties.thy ===== *)
theory Guard_Properties
  imports Guard_Safety
begin

text \<open>
  The security properties of the contract, stated over reachable ledgers without mentioning the
  abstract vault: who must have signed before money moves or governance changes, that nothing is
  executed twice, what governance always satisfies, and that an approved proposal can be executed.
\<close>

section \<open>Quorum\<close>

text \<open>Enough distinct owners of the committed owner list have signed the proposal.\<close>

definition approvedBy :: "('m, 'w, 's) o1js \<Rightarrow> guard \<Rightarrow> proposal \<Rightarrow> bool" where
  "approvedBy E g p \<longleftrightarrow> (\<exists>owners signers. ownersCommitment g = computeOwnerChain E owners \<and>
     validOwnerList E owners \<and> distinct signers \<and> set signers \<subseteq> set owners \<and>
     threshold g \<le> int (length signers) \<and> (\<forall>pk \<in> set signers. signedBy E p pk))"

lemma quorum_approvedBy: "vaultInv E a g v \<Longrightarrow> quorum E g v p \<Longrightarrow> approvedBy E g p"
  by (auto simp: approvedBy_def quorum_def vaultInv_def represents_def)

text \<open>The ledger after a successful call.\<close>

definition afterCall :: "ledger \<Rightarrow> world \<Rightarrow> ledger" where
  "afterCall l w = l\<lparr>accounts := accounts w, balances := balances w\<rparr>"

text \<open>What the receivers of a proposal declare: the amount for one address, and the amount that
  leaves the account \<open>a\<close> when all of them are paid. Slots with the empty key declare nothing.\<close>

definition declaredTo :: "proposal \<Rightarrow> pubkey \<Rightarrow> nat" where
  "declaredTo p x = (\<Sum>r \<leftarrow> pReceivers p. if rAddress r = x \<and> x \<noteq> emptyKey then unat (rAmount r) else 0)"

definition declaredFrom :: "pubkey \<Rightarrow> proposal \<Rightarrow> nat" where
  "declaredFrom a p = (\<Sum>r \<leftarrow> pReceivers p. if rAddress r = a \<or> rAddress r = emptyKey then 0 else unat (rAmount r))"

fun payout :: "('w, 's) call \<Rightarrow> proposal option" where
  "payout (ExecuteTransfer p aw c) = Some p"
| "payout (ExecuteAllocateToChildren p aw c) = Some p"
| "payout (ExecuteReclaimToParent p pw pc cw amt) = Some p"
| "payout (ExecuteDestroy p pw pc cw bal) = Some p"
| "payout c = None"

lemma callMethod_no_payout:
  "callMethod E w a g c = Inr (g', evs, sends) \<Longrightarrow> payout c = None \<Longrightarrow> sends = []"
  by (cases c) (auto simp: method_defs setupRoot_def reserveForParent_def executeSetupChild_def Let_def case_prod_beta)

text \<open>Settling pays every listed amount once, out of the calling account.\<close>

lemma settle_exact:
  assumes "settle a sends b = Inr b'"
  shows "x \<noteq> a \<Longrightarrow> b' x = b x + (\<Sum>(to, amount) \<leftarrow> sends. if to = x then unat amount else 0)"
    "b a = b' a + (\<Sum>(to, amount) \<leftarrow> sends. if to = a then 0 else unat amount)"
proof -
  have "(x \<noteq> a \<longrightarrow> b' x = b x + (\<Sum>(to, amount) \<leftarrow> sends. if to = x then unat amount else 0)) \<and>
    b a = b' a + (\<Sum>(to, amount) \<leftarrow> sends. if to = a then 0 else unat amount)"
    using assms
  proof (induction sends arbitrary: b)
    case (Cons s rest)
    obtain to amount where s: "s = (to, amount)" by (cases s)
    define b1 where "b1 = b(a := b a - unat amount)"
    define b2 where "b2 = b1(to := b1 to + unat amount)"
    have le: "unat amount \<le> b a" and "settle a rest b2 = Inr b'"
      using Cons.prems by (simp_all add: s Let_def b2_def b1_def requirePre_def del: fun_upd_apply split: if_splits)
    with Cons.IH have IH: "x \<noteq> a \<longrightarrow> b' x = b2 x + (\<Sum>(to, amount) \<leftarrow> rest. if to = x then unat amount else 0)"
      "b2 a = b' a + (\<Sum>(to, amount) \<leftarrow> rest. if to = a then 0 else unat amount)" by blast+
    then show ?case using le by (auto simp: s b2_def b1_def)
  qed simp
  then show "x \<noteq> a \<Longrightarrow> b' x = b x + (\<Sum>(to, amount) \<leftarrow> sends. if to = x then unat amount else 0)"
    "b a = b' a + (\<Sum>(to, amount) \<leftarrow> sends. if to = a then 0 else unat amount)" by auto
qed

text \<open>The payments of a method are those its proposal declares: every receiver its amount, or one
  payment to the parent, of the approved amount for a reclaim.\<close>

lemma executeTransfers_sums:
  "x \<noteq> a \<Longrightarrow> (\<Sum>(to, amount) \<leftarrow> executeTransfers a p. if to = x then unat amount else 0) = declaredTo p x"
  "(\<Sum>(to, amount) \<leftarrow> executeTransfers a p. if to = a then 0 else unat amount) = declaredFrom a p"
  unfolding executeTransfers_def declaredTo_def declaredFrom_def
  by (induction "pReceivers p") (auto simp: Let_def o_def intro!: arg_cong [of _ _ sum_list])

lemma local_sends:
  assumes "callMethod E w a g c = Inr (g', evs, sends)" "localExecution c = Some p" "sends \<noteq> []"
  shows "sends = executeTransfers a p" "pTxType p = TxType TRANSFER \<or> pTxType p = TxType ALLOCATE_CHILD"
  using assms by (cases c; force simp: method_defs case_prod_beta Let_def)+

lemma lifecycle_sends:
  assumes "callMethod E w a g c = Inr (g', evs, sends)" "lifecycleExecution c = Some p" "sends \<noteq> []"
  obtains amount where "sends = [(parent g, amount)]"
    "pTxType p = TxType RECLAIM_CHILD \<and> pData p = uint amount \<or> pTxType p = TxType DESTROY_CHILD"
  using assms by (cases c) (auto simp: method_defs assertLifecycle_Inr case_prod_beta Let_def)

text \<open>The vault behind a genuine initialised guard of a reachable ledger.\<close>

lemma reach_vault:
  assumes E: "soundEnv E" and r: "reach E n l" and n: "int n + 1 < fieldOrder E" and gen: "genuine l a"
    and acc: "accounts l a = Some g" and nz: "ownersCommitment g \<noteq> 0"
  obtains v where "vaultInv E a g v" "nonce g + 1 < fieldOrder E" "configNonce g + 1 < fieldOrder E"
    "parentNonce g + 1 < fieldOrder E"
proof -
  have "ledgerInv E n l" using reach_inv [OF r E] n by simp
  then have gi: "guardInv E n a g" using gen acc by (auto elim: ledgerInvD)
  then obtain v where "vaultInv E a g v" using nz by (auto simp: guardInv_def)
  with guardInv_small [OF gi nz n] show ?thesis using that by blast
qed

lemma local_quorum:
  assumes E: "soundEnv E" and v: "vaultInv E a g v" and ty: "typedCall c"
    and sm: "nonce g + 1 < fieldOrder E" "configNonce g + 1 < fieldOrder E" "parentNonce g + 1 < fieldOrder E"
    and ok: "callMethod E w a g c = Inr (g', evs, sends)" and le: "localExecution c = Some p"
  shows "quorum E g v p"
proof -
  have ni: "\<not> initialises c" using le by (cases c) auto
  have "absAllowed E g v c" using callMethod_simulates [OF E v ty sm ok ni] by simp
  then show ?thesis using le by (cases c) (auto simp: absAllowed_def)
qed

lemma lifecycle_parent:
  assumes "callMethod E w a g c = Inr (g', evs, sends)" "lifecycleExecution c = Some p"
  obtains h pw pc where "assertParentApprovalState E w p (parent g) pw pc = Inr h" "parent g \<noteq> emptyKey"
    "pDestination p = Destination REMOTE" "pChildAccount p = a" "ownersCommitment g \<noteq> 0"
    "pNonce p = fieldAdd E (parentNonce g) 1" "parentNonce g' = fieldAdd E (parentNonce g) 1"
    "pGuardAddress p = parent g"
  using assms
  by (cases c) (auto simp: method_defs assertLifecycle_Inr assertParentApprovalState_Inr case_prod_beta Let_def markChildExecuted_def bumpConfigNonce_def)

lemma local_approved:
  assumes "soundEnv E" "reach E n l" "int n + 1 < fieldOrder E" "genuine l a" "accounts l a = Some g"
    and c: "typedCall c" "callMethod E (ledgerWorld l) a g c = Inr (g', evs, sends)" "localExecution c = Some p"
  shows "approvedBy E g p"
proof -
  have "\<not> initialises c" using c(3) by (cases c) auto
  then have "ownersCommitment g \<noteq> 0" using callMethod_frame [OF c(2)] by simp
  from reach_vault [OF assms(1-5) this] obtain v where v: "vaultInv E a g v" "nonce g + 1 < fieldOrder E"
    "configNonce g + 1 < fieldOrder E" "parentNonce g + 1 < fieldOrder E" by blast
  show ?thesis
    using quorum_approvedBy [OF v(1) local_quorum [OF assms(1) v(1) c(1) v(2-4) c(2,3)]] .
qed

lemma lifecycle_approved:
  assumes "soundEnv E" "reach E n l" "int n + 1 < fieldOrder E" "accounts l a = Some g"
    and c: "typedCall c" "callMethod E (ledgerWorld l) a g c = Inr (g', evs, sends)" "lifecycleExecution c = Some p"
    and gen: "genuine l (parent g)"
  shows "pGuardAddress p = parent g" "\<exists>pg. accounts l (parent g) = Some pg \<and> approvedBy E pg p"
proof -
  from lifecycle_parent [OF c(2,3)] obtain h pw pc where
    ap: "assertParentApprovalState E (ledgerWorld l) p (parent g) pw pc = Inr h" by blast
  have ty: "typedProposal p" using c(1,3) by (cases c) auto
  from ap obtain pg where pg: "accounts l (parent g) = Some pg" "ownersCommitment pg \<noteq> 0"
    by (auto simp: assertParentApprovalState_Inr)
  from reach_vault [OF assms(1-3) gen pg] obtain v where v: "vaultInv E (parent g) pg v" by blast
  have "accounts (ledgerWorld l) (parent g) = Some pg" using pg by simp
  note q = parentApproval_quorum [OF assms(1) v this ty ap]
  show "pGuardAddress p = parent g" by (rule q)
  show "\<exists>pg. accounts l (parent g) = Some pg \<and> approvedBy E pg p"
    using pg quorum_approvedBy [OF v q(1)] by blast
qed

text \<open>C1: On every reachable ledger, a transfer, an allocation, an owner change, a threshold change or
  a delegate change succeeds on a genuine guard only if at least \<open>threshold\<close> distinct owners of the
  guard's committed owner list have signed that very proposal.\<close>

theorem execution_needs_quorum:
  assumes "soundEnv E" "reach E n l" "int n + 1 < fieldOrder E" "genuine l a" "accounts l a = Some g"
    and "transact E (ledgerWorld l) a c = Inr (w, evs)" "localExecution c = Some p"
  shows "approvedBy E g p"
  using invoke_call [OF assms(5,6)] local_approved [OF assms(1-5)] assms(7) by metis

text \<open>C2: A reclaim, a destruction or a multisig toggle succeeds on a child of a genuine guard only
  if the proposal names that child and that parent, and at least the parent's threshold of distinct
  parent owners have signed it.\<close>

theorem lifecycle_needs_parent_quorum:
  assumes "soundEnv E" "reach E n l" "int n + 1 < fieldOrder E" "accounts l a = Some g"
    and "transact E (ledgerWorld l) a c = Inr (w, evs)" "lifecycleExecution c = Some p"
    and "genuine l (parent g)"
  shows "pChildAccount p = a \<and> pGuardAddress p = parent g \<and>
    (\<exists>pg. accounts l (parent g) = Some pg \<and> approvedBy E pg p)"
proof -
  from invoke_call [OF assms(4,5)] obtain g' sends where c: "typedCall c"
    "callMethod E (ledgerWorld l) a g c = Inr (g', evs, sends)" by blast
  from lifecycle_parent [OF c(2) assms(6)] have "pChildAccount p = a" by blast
  with lifecycle_approved [OF assms(1-4) c assms(6,7)] show ?thesis by blast
qed

text \<open>Only a call on the guard lowers its balance, and only one that pays for a proposal.\<close>

lemma lowering_call:
  assumes gen: "genuine l a" and step: "guardStep E l l'" and less: "balances l' a < balances l a"
  obtains g c w evs g' sends p where "accounts l a = Some g" "transact E (ledgerWorld l) a c = Inr (w, evs)" "l' = afterCall l w"
    "typedCall c" "callMethod E (ledgerWorld l) a g c = Inr (g', evs, sends)" "settle a sends (balances l) = Inr (balances l')"
    "sends \<noteq> []" "localExecution c = Some p \<or> lifecycleExecution c = Some p"
  using step
proof (cases rule: guardStep.cases)
  case (invoke b c w evs)
  then obtain g where acc: "accounts l b = Some g" by auto
  from invoke_call [OF acc invoke(3)] obtain g' sends where
    c: "typedCall c" "callMethod E (ledgerWorld l) b g c = Inr (g', evs, sends)"
    "settle b sends (balances l) = Inr (balances w)" by blast
  have l': "l' = afterCall l w" "balances w = balances l'" using invoke by (simp_all add: afterCall_def)
  have ba: "b = a" using settle_exact(1) [OF c(3), of a] less l'(2) by force
  note c = c [unfolded ba l'(2)] and acc = acc [unfolded ba]
  have ne: "sends \<noteq> []" using c(3) less by auto
  then obtain p where "payout c = Some p" using callMethod_no_payout [OF c(2)] by (cases "payout c") auto
  then have "localExecution c = Some p \<or> lifecycleExecution c = Some p" by (cases c) auto
  then show ?thesis using that acc invoke(3) [unfolded ba] l'(1) c ne by blast
next
  case (outside b)
  then have "balances l a \<le> balances l' a" using gen by simp
  with less show ?thesis by simp
qed (use less in simp_all)

lemma lifecycle_payment:
  assumes settled: "settle a [(q, amount)] b = Inr b'" and less: "b' a < b a"
  shows "b a = b' a + unat amount" "b' q = b q + (b a - b' a)" "x \<noteq> a \<Longrightarrow> x \<noteq> q \<Longrightarrow> b' x = b x"
proof -
  note st = settle_exact [OF settled]
  have "q \<noteq> a" using st(2) less by auto
  then show "b a = b' a + unat amount" "b' q = b q + (b a - b' a)" "x \<noteq> a \<Longrightarrow> x \<noteq> q \<Longrightarrow> b' x = b x"
    using st by simp_all
qed

text \<open>C3: When a step of the ledger lowers the balance of a genuine guard, that step is one successful
  call on the guard, and the money that moved is what its proposal declares. Either it is a transfer
  or an allocation that at least \<open>threshold\<close> owners of the guard signed: every other account gains
  exactly what the receivers declare for it and the guard loses exactly the sum of that. Or it is a
  reclaim or a destruction whose proposal names the guard and its parent: the parent gains exactly
  what the guard loses, nobody else gains or loses, the amount of a reclaim is the one in the
  proposal, and, if the parent is itself a genuine guard, at least its threshold of its owners
  signed the proposal. (A guard can be reserved for a parent account that is no genuine guard; what
  such an account calls approvals is not governed by the contract and nothing is claimed of them.)\<close>

theorem funds_leave_only_with_quorum:
  assumes E: "soundEnv E" and r: "reach E n l" and n: "int n + 1 < fieldOrder E" and gen: "genuine l a"
    and step: "guardStep E l l'" and less: "balances l' a < balances l a"
  shows "\<exists>g c p w evs. accounts l a = Some g \<and> transact E (ledgerWorld l) a c = Inr (w, evs) \<and> l' = afterCall l w \<and>
    (localExecution c = Some p \<and> (pTxType p = TxType TRANSFER \<or> pTxType p = TxType ALLOCATE_CHILD) \<and> approvedBy E g p \<and>
       (\<forall>x. x \<noteq> a \<longrightarrow> balances l' x = balances l x + declaredTo p x) \<and>
       balances l a = balances l' a + declaredFrom a p \<or>
     lifecycleExecution c = Some p \<and> pChildAccount p = a \<and> pGuardAddress p = parent g \<and>
       (pTxType p = TxType RECLAIM_CHILD \<and> pData p = int (balances l a) - int (balances l' a) \<or>
        pTxType p = TxType DESTROY_CHILD) \<and>
       balances l' (parent g) = balances l (parent g) + (balances l a - balances l' a) \<and>
       (\<forall>x. x \<noteq> a \<and> x \<noteq> parent g \<longrightarrow> balances l' x = balances l x) \<and>
       (genuine l (parent g) \<longrightarrow> (\<exists>pg. accounts l (parent g) = Some pg \<and> approvedBy E pg p)))"
proof -
  obtain g c w evs g' sends p where acc: "accounts l a = Some g" and t: "transact E (ledgerWorld l) a c = Inr (w, evs)" "l' = afterCall l w"
    and c: "typedCall c" "callMethod E (ledgerWorld l) a g c = Inr (g', evs, sends)"
    and st: "settle a sends (balances l) = Inr (balances l')" and ne: "sends \<noteq> []"
    and "localExecution c = Some p \<or> lifecycleExecution c = Some p"
    using lowering_call [OF gen step less] by metis
  then consider "localExecution c = Some p" | "lifecycleExecution c = Some p" by blast
  then show ?thesis
  proof cases
    case 1
    note s = local_sends [OF c(2) 1 ne]
    have "approvedBy E g p" by (rule local_approved [OF E r n gen acc c 1])
    moreover have "\<forall>x. x \<noteq> a \<longrightarrow> balances l' x = balances l x + declaredTo p x" "balances l a = balances l' a + declaredFrom a p"
      using settle_exact [OF st] unfolding s(1) by (simp_all add: executeTransfers_sums)
    ultimately show ?thesis using 1 s(2) acc t by blast
  next
    case 2
    from lifecycle_sends [OF c(2) 2 ne] obtain amount where s: "sends = [(parent g, amount)]"
      "pTxType p = TxType RECLAIM_CHILD \<and> pData p = uint amount \<or> pTxType p = TxType DESTROY_CHILD" by blast
    from lifecycle_parent [OF c(2) 2] have k: "pChildAccount p = a" "pGuardAddress p = parent g" by blast+
    note paid = lifecycle_payment [OF st [unfolded s(1)] less]
    have "pTxType p = TxType RECLAIM_CHILD \<and> pData p = int (balances l a) - int (balances l' a) \<or>
        pTxType p = TxType DESTROY_CHILD" using s(2) paid(1) by auto
    then show ?thesis using lifecycle_approved(2) [OF E r n acc c 2] 2 k acc t paid(2,3) by blast
  qed
qed


section \<open>Replay\<close>

lemma local_nonce:
  assumes "callMethod E w a g c = Inr (g', evs, sends)" "localExecution c = Some p"
  shows "pNonce p = fieldAdd E (nonce g) 1" "nonce g' = fieldAdd E (nonce g) 1"
    "pConfigNonce p = configNonce g" "pGuardAddress p = a"
proof -
  from assms obtain g1 aw n where x: "assertExecutable E w a g p aw n = Inr g1" and n: "nonce g' = nonce g1"
    by (cases c) (auto simp: method_defs write_defs case_prod_beta Let_def)
  then show "pNonce p = fieldAdd E (nonce g) 1" "nonce g' = fieldAdd E (nonce g) 1"
    "pConfigNonce p = configNonce g" "pGuardAddress p = a"
    by (auto simp: assertExecutable_Inr)
qed

lemma call_settles:
  assumes E: "soundEnv E" and r: "reach E n l" and n: "int n + 1 < fieldOrder E" and gen: "genuine l a"
    and acc: "accounts l a = Some g" and ok: "transact E (ledgerWorld l) a c = Inr (w, evs)"
    and c: "callMethod E (ledgerWorld l) a g c = Inr (g', evs', sends)" and ni: "\<not> initialises c"
  shows "settledAt a (parent g) (nonce g') (parentNonce g') (configNonce g') (afterCall l w)"
    "reach E (Suc n) (afterCall l w)"
proof -
  from invoke_call [OF acc ok] c have ty: "typedCall c" and w: "accounts w = (accounts l)(a := Some g')" by auto
  have nz: "ownersCommitment g \<noteq> 0" using callMethod_frame [OF c ni] by simp
  have inv: "ledgerInv E n l" using reach_inv [OF r E] n by simp
  then have gi: "guardInv E n a g" using gen acc by (auto elim: ledgerInvD)
  note gc = genuine_call [OF E inv n gen acc ty c]
  show "settledAt a (parent g) (nonce g') (parentNonce g') (configNonce g') (afterCall l w)"
    using gc(2) [OF nz] callMethod_frame [OF c ni] gen w gi nz by (simp add: settledAt_def afterCall_def guardInv_def)
  show "reach E (Suc n) (afterCall l w)"
    unfolding afterCall_def using acc ok by (intro reach.step [OF r] guardStep.invoke) auto
qed

lemma later_account:
  assumes E: "soundEnv E" and r: "reach E n l" and s: "settledAt a par k kp kc l"
    and steps: "(guardStep E ^^ m) l l'" and b: "int (n + m) < fieldOrder E"
  obtains g where "accounts l' a = Some g" "genuine l' a" "ownersCommitment g \<noteq> 0" "parent g = par"
    "k \<le> nonce g" "kp \<le> parentNonce g" "kc \<le> configNonce g" "guardInv E (n + m) a g"
  using settledAt_forever [OF E r s steps b] by (auto simp: settledAt_def elim: ledgerInvD)

lemma later_call:
  assumes E: "soundEnv E" and r: "reach E n l" and gen: "genuine l a" and acc: "accounts l a = Some g"
    and ok: "transact E (ledgerWorld l) a c = Inr (w, evs)" and ni: "\<not> initialises c"
    and steps: "(guardStep E ^^ m) (afterCall l w) l'" and b: "int (n + m) + 2 < fieldOrder E"
    and again: "isOk (transact E (ledgerWorld l') a c')"
  obtains g' sends g2 g3 evs' sends' where "callMethod E (ledgerWorld l) a g c = Inr (g', evs, sends)"
    "accounts w a = Some g'" "ownersCommitment g2 \<noteq> 0" "nonce g' \<le> nonce g2" "parentNonce g' \<le> parentNonce g2"
    "configNonce g' \<le> configNonce g2" "fieldAdd E (nonce g2) 1 = nonce g2 + 1"
    "fieldAdd E (parentNonce g2) 1 = parentNonce g2 + 1"
    "callMethod E (ledgerWorld l') a g2 c' = Inr (g3, evs', sends')"
proof -
  from again obtain w' evs' where t': "transact E (ledgerWorld l') a c' = Inr (w', evs')" by (auto simp: isOk_iff)
  have n: "int n + 1 < fieldOrder E" using b by simp
  obtain g' sends where
    c: "callMethod E (ledgerWorld l) a g c = Inr (g', evs, sends)" and "accounts w = (accounts l)(a := Some g')"
    by (rule invoke_call [OF acc ok])
  then have w: "accounts w a = Some g'" by simp
  note st = call_settles [OF E r n gen acc ok c ni]
  from later_account [OF E st(2,1) steps] b obtain g2 where
    g2: "accounts l' a = Some g2" "ownersCommitment g2 \<noteq> 0" "nonce g' \<le> nonce g2" "parentNonce g' \<le> parentNonce g2"
      "configNonce g' \<le> configNonce g2" "guardInv E (Suc n + m) a g2" by auto
  have "fieldAdd E (nonce g2) 1 = nonce g2 + 1" "fieldAdd E (parentNonce g2) 1 = parentNonce g2 + 1"
    using g2(2,6) b by (auto intro!: fieldAdd_small simp: guardInv_def vaultInv_def)
  moreover obtain g3 sends' where "callMethod E (ledgerWorld l') a g2 c' = Inr (g3, evs', sends')"
    by (rule invoke_call [OF g2(1) t'])
  ultimately show ?thesis by (rule that [OF c w g2(2-5)])
qed

text \<open>C4: A proposal that was executed on a guard (transfer, allocation, owner, threshold or delegate
  change) can never be executed on it again, however the ledger evolves.\<close>

theorem local_never_replayed:
  assumes "soundEnv E" "reach E n l" "genuine l a" "accounts l a = Some g"
    and "transact E (ledgerWorld l) a c = Inr (w, evs)" and le: "localExecution c = Some p"
    and "(guardStep E ^^ m) (afterCall l w) l'" "int (n + m) + 2 < fieldOrder E"
    and again: "localExecution c' = Some p"
  shows "\<not> isOk (transact E (ledgerWorld l') a c')"
proof
  assume ok: "isOk (transact E (ledgerWorld l') a c')"
  have ni: "\<not> initialises c" using le by (cases c) auto
  obtain g' sends g2 g3 evs' sends' where
    c: "callMethod E (ledgerWorld l) a g c = Inr (g', evs, sends)"
      "callMethod E (ledgerWorld l') a g2 c' = Inr (g3, evs', sends')"
    and mono: "nonce g' \<le> nonce g2" "fieldAdd E (nonce g2) 1 = nonce g2 + 1"
    by (rule later_call [OF assms(1-5) ni assms(7,8) ok])
  show False using local_nonce(1,2) [OF c(1) le] local_nonce(1) [OF c(2) again] mono by simp
qed

text \<open>C5: A reclaim, destruction or toggle proposal that was executed on a child can never be executed
  on it again.\<close>

theorem lifecycle_never_replayed:
  assumes "soundEnv E" "reach E n l" "genuine l a" "accounts l a = Some g"
    and "transact E (ledgerWorld l) a c = Inr (w, evs)" and le: "lifecycleExecution c = Some p"
    and "(guardStep E ^^ m) (afterCall l w) l'" "int (n + m) + 2 < fieldOrder E"
    and again: "lifecycleExecution c' = Some p"
  shows "\<not> isOk (transact E (ledgerWorld l') a c')"
proof
  assume ok: "isOk (transact E (ledgerWorld l') a c')"
  have ni: "\<not> initialises c" using le by (cases c) auto
  obtain g' sends g2 g3 evs' sends' where
    c: "callMethod E (ledgerWorld l) a g c = Inr (g', evs, sends)"
      "callMethod E (ledgerWorld l') a g2 c' = Inr (g3, evs', sends')"
    and mono: "parentNonce g' \<le> parentNonce g2" "fieldAdd E (parentNonce g2) 1 = parentNonce g2 + 1"
    by (rule later_call [OF assms(1-5) ni assms(7,8) ok])
  from lifecycle_parent [OF c(1) le] have "pNonce p = parentNonce g'" by metis
  moreover from lifecycle_parent [OF c(2) again] have "pNonce p = fieldAdd E (parentNonce g2) 1" by blast
  ultimately show False using mono by simp
qed

text \<open>The proposals a call votes on or executes locally; such a call needs the current
  configuration nonce.\<close>

fun votesOrExecutes :: "('w, 's) call \<Rightarrow> proposal option" where
  "votesOrExecutes (Propose p ow pk sg vw aw) = Some p"
| "votesOrExecutes (ApproveProposal p sg pk ow aw c vw) = Some p"
| "votesOrExecutes c = localExecution c"

lemma votesOrExecutes_config:
  assumes "callMethod E w a g c = Inr (g', evs, sends)" "votesOrExecutes c = Some p"
  shows "pConfigNonce p = configNonce g" "pGuardAddress p = a"
proof -
  have "pConfigNonce p = configNonce g \<and> pGuardAddress p = a"
    using assms local_nonce(3,4) [OF assms(1)]
    by (cases c) (auto simp: propose_def approveProposal_def assertProposalConfigNetworkAndGuard_def
        assertValidProposalConfigNetworkAndGuard_def Let_def)
  then show "pConfigNonce p = configNonce g" "pGuardAddress p = a" by simp_all
qed

text \<open>The proposals of a guard that are executed on another account: on a child, or to set one up.
  Every call that acts on a proposal, on whatever account, is one of these or one of the above.\<close>

fun remoteExecution :: "('w, 's) call \<Rightarrow> proposal option" where
  "remoteExecution (ExecuteSetupChild thr num owners p pw pc) = Some p"
| "remoteExecution c = lifecycleExecution c"

definition actsOn :: "('w, 's) call \<Rightarrow> proposal option" where
  "actsOn c = (case votesOrExecutes c of Some p \<Rightarrow> Some p | None \<Rightarrow> remoteExecution c)"

lemma actsOn_total: "actsOn c = None \<longleftrightarrow> c = Deploy \<or> (\<exists>thr num owners. c = Setup thr num owners) \<or>
    (\<exists>par h thr num owners. c = ReserveForParent par h thr num owners)"
  by (cases c) (auto simp: actsOn_def)

text \<open>Whatever account a call runs on, it acts on a proposal only under the configuration nonce the
  guard of that proposal has at that moment.\<close>

lemma remote_config:
  assumes "callMethod E w x g c = Inr (g', evs, sends)" "remoteExecution c = Some p"
  obtains pg where "accounts w (pGuardAddress p) = Some pg" "pConfigNonce p = configNonce pg"
proof (cases "lifecycleExecution c")
  case None
  then obtain thr num owners pw pc where "c = ExecuteSetupChild thr num owners p pw pc"
    using assms(2) by (cases c) auto
  then show ?thesis using assms(1) that
    by (auto simp: executeSetupChild_def assertParentApprovalState_Inr Let_def)
next
  case (Some q)
  then have "lifecycleExecution c = Some p" using assms(2) by (cases c) auto
  from lifecycle_parent [OF assms(1) this] obtain h pw pc where
    "assertParentApprovalState E w p (parent g) pw pc = Inr h" "pGuardAddress p = parent g" by metis
  then show ?thesis using that by (auto simp: assertParentApprovalState_Inr)
qed

lemma actsOn_config:
  assumes "accounts w x = Some g" "callMethod E w x g c = Inr (g', evs, sends)" "actsOn c = Some p"
  obtains pg where "accounts w (pGuardAddress p) = Some pg" "pConfigNonce p = configNonce pg"
proof (cases "votesOrExecutes c")
  case None
  then show ?thesis using remote_config [OF assms(2)] assms(3) that by (auto simp: actsOn_def)
next
  case (Some q)
  then have "votesOrExecutes c = Some p" using assms(3) by (simp add: actsOn_def)
  with votesOrExecutes_config [OF assms(2) this] assms(1) that show ?thesis by auto
qed

lemma initialises_config: "initialises c \<Longrightarrow> callMethod E w a g c = Inr (g', evs, sends) \<Longrightarrow> configNonce g' = configNonce g"
  by (cases c) (auto simp: setupRoot_def reserveForParent_def executeSetupChild_def lockPermissions_def
      initializeState_Inr Let_def)

text \<open>C6: When a call changes the configuration nonce of a guard (an owner or threshold change, a
  destruction, a disabled multisig), no proposal of that guard made for the old configuration can be
  used any more: not proposed, approved or executed on the guard, not executed on any child of it
  (reclaim, destroy, multisig toggle), and no child can be set up with it, on any account and in any
  later state.\<close>

theorem config_change_kills_pending:
  assumes E: "soundEnv E" and r: "reach E n l" and gen: "genuine l a" and acc: "accounts l a = Some g"
    and ok: "transact E (ledgerWorld l) a c = Inr (w, evs)"
    and acc': "accounts w a = Some g'" and changed: "configNonce g' \<noteq> configNonce g"
    and steps: "(guardStep E ^^ m) (afterCall l w) l'" and b: "int (n + m) + 2 < fieldOrder E"
    and p: "actsOn c' = Some p" "pGuardAddress p = a" "pConfigNonce p = configNonce g"
  shows "\<not> isOk (transact E (ledgerWorld l') x c')"
proof
  assume "isOk (transact E (ledgerWorld l') x c')"
  then obtain w' evs' where t': "transact E (ledgerWorld l') x c' = Inr (w', evs')" by (auto simp: isOk_iff)
  have n: "int n + 1 < fieldOrder E" using b by simp
  obtain g1 sends where c: "callMethod E (ledgerWorld l) a g c = Inr (g1, evs, sends)"
    and w: "accounts w = (accounts l)(a := Some g1)" by (rule invoke_call [OF acc ok])
  from w acc' have g': "g1 = g'" by simp
  have ni: "\<not> initialises c" using initialises_config [OF _ c] changed g' by auto
  note st = call_settles [OF E r n gen acc ok c ni]
  from later_account [OF E st(2,1) steps] b obtain g2 where
    g2: "accounts l' a = Some g2" "configNonce g1 \<le> configNonce g2" by auto
  have "accounts l' x \<noteq> None" using t' p(1) by (cases c') (auto simp: transact_def actsOn_def split: option.splits)
  then obtain gx where gx: "accounts l' x = Some gx" by auto
  obtain g3 sends' where c': "callMethod E (ledgerWorld l') x gx c' = Inr (g3, evs', sends')"
    by (rule invoke_call [OF gx t'])
  obtain pg where "accounts (ledgerWorld l') (pGuardAddress p) = Some pg" "pConfigNonce p = configNonce pg"
    using actsOn_config [OF _ c' p(1)] gx by auto
  then have eq: "configNonce g2 = configNonce g" using g2 p by simp
  have nz: "ownersCommitment g \<noteq> 0" using callMethod_frame [OF c ni] by simp
  from reach_vault [OF E r n gen acc nz] obtain v where v: "vaultInv E a g v" "configNonce g + 1 < fieldOrder E" by blast
  have "configNonce g \<le> configNonce g1"
    using callMethod_frame [OF c ni] vaultInv_nonces [OF v(1)] v(2) by (auto intro: counterStep_mono)
  with g2(2) eq changed g' show False by simp
qed

section \<open>Invariants\<close>

text \<open>C7: On every reachable ledger an initialised genuine guard satisfies
  \<open>0 < threshold \<le> numOwners \<le> MAX_OWNERS\<close>, and its commitment is the chain of exactly \<open>numOwners\<close>
  owners that are non-empty curve points with pairwise distinct x-coordinates.\<close>

theorem governance_always:
  assumes "soundEnv E" "reach E n l" "int n + 1 < fieldOrder E" "genuine l a" "accounts l a = Some g"
    and "ownersCommitment g \<noteq> 0"
  shows "0 < threshold g \<and> threshold g \<le> numOwners g \<and> numOwners g \<le> int MAX_OWNERS \<and>
    (\<exists>owners. ownersCommitment g = computeOwnerChain E owners \<and> int (length owners) = numOwners g \<and>
       validOwnerList E owners)"
proof -
  from reach_vault [OF assms] obtain v where "vaultInv E a g v" by blast
  then show ?thesis by (auto simp: vaultInv_def governanceOk_def represents_def)
qed

text \<open>C8: The permission vector of a genuine guard is the canonical one from its reservation or
  initialisation on, and an initialised guard keeps it, and its parent link, in every later state.\<close>

theorem permissions_sealed:
  assumes E: "soundEnv E" and r: "reach E n l" and gen: "genuine l a" and acc: "accounts l a = Some g"
    and b: "int (n + m) + 1 < fieldOrder E" and steps: "(guardStep E ^^ m) l l'"
    and nz: "ownersCommitment g \<noteq> 0"
  shows "\<exists>g'. accounts l' a = Some g' \<and> accPermissions g' = GUARD_PERMISSIONS \<and> parent g' = parent g \<and>
    ownersCommitment g' \<noteq> 0"
proof -
  have inv: "ledgerInv E n l" using reach_inv [OF r E] b by simp
  then have "guardInv E n a g" using gen acc by (auto elim: ledgerInvD)
  then have "settledAt a (parent g) (nonce g) (parentNonce g) (configNonce g) l"
    using gen acc nz by (auto simp: settledAt_def guardInv_def)
  from settledAt_forever(1) [OF E r this steps] b show ?thesis by (auto simp: settledAt_def)
qed


section \<open>Refinement\<close>

text \<open>C10: Every successful call on an initialised guard is a step of the abstract vault: the
  abstract precondition holds (a vote comes from an owner who has not voted, an execution has a
  quorum and was not executed) and the new guard represents the vault the abstract operation yields.\<close>

theorem guard_refines_vault:
  assumes "soundEnv E" "vaultInv E a g v" "typedCall c" "\<not> initialises c"
    and "nonce g + 1 < fieldOrder E" "configNonce g + 1 < fieldOrder E" "parentNonce g + 1 < fieldOrder E"
    and "callMethod E w a g c = Inr (g', evs, sends)"
  shows "absAllowed E g v c \<and> vaultInv E a g' (absCall c v)"
  using callMethod_simulates [OF assms(1-3,5-8,4)] .

section \<open>Gates\<close>

text \<open>On a child whose multisig is disabled every vote and every local execution fails with
  that error, whatever its arguments.\<close>

lemma disabled_child_blocks:
  assumes "parent g \<noteq> emptyKey" "childMultiSigEnabled g \<noteq> 1" "votesOrExecutes c = Some p"
  shows "callMethod E w a g c = Inl (AssertFail ''Child multi-sig disabled'')"
  using assms by (cases c) (auto simp: method_defs assertChildMultiSigEnabledIfChild_def)

text \<open>Past its expiry slot a proposal can neither be proposed, approved nor executed, locally, on
  a child, or to set a child up; with expiry slot 0 there is no such limit before slot \<open>2^32\<close>.\<close>

lemma expired_blocks:
  assumes "pExpirySlot p \<noteq> 0" "pExpirySlot p < int (globalSlot w)"
    and "votesOrExecutes c = Some p \<or> lifecycleExecution c = Some p \<or>
      (\<exists>thr num owners pw pc. c = ExecuteSetupChild thr num owners p pw pc)"
  shows "\<not> isOk (callMethod E w a g c)"
proof -
  have "\<not> notExpired w p" using assms by (auto simp: notExpired_def)
  then show ?thesis using assms(3)
    by (cases c) (auto simp: isOk_iff method_defs executeSetupChild_def assertLifecycle_Inr
        assertParentApprovalState_Inr assertExecutable_Inr Let_def case_prod_beta)
qed

end
