(* ===== verification/Proposal_Record.thy ===== *)
theory Proposal_Record
  imports Guard_Properties Json Owner_Store
begin

text \<open>
  What the backend says about a proposal (\<open>backend/src/proposal-record.ts\<close>): whether it is stale, its
  status, whether its memo matches, and the record it serves. The database rows are records of
  optional texts. The lemmas relate the verdicts to the contract: what is reported as stale or
  expired is what the contract rejects.
\<close>

section \<open>Rows\<close>

datatype invalidReason = ConfigNonceStale | ProposalNonceStale

record contractState =
  ctNonce :: "int option"
  ctParentNonce :: "int option"
  ctConfigNonce :: "int option"

record receiverRow =
  rrIdx :: int
  rrAddress :: string
  rrAmount :: string

record executionRow =
  erBlockHeight :: int
  erTxHash :: "string option"

record proposalRow =
  rowProposalHash :: string
  rowProposer :: "string option"
  rowToAddress :: "string option"
  rowTokenId :: "string option"
  rowTxType :: "string option"
  rowData :: "string option"
  rowNonce :: "string option"
  rowConfigNonce :: "string option"
  rowExpirySlot :: "string option"
  rowGuardAddress :: "string option"
  rowMemo :: "string option"
  rowMemoHash :: "string option"
  rowExecutionMemoHash :: "string option"
  rowDestination :: "string option"
  rowChildAccount :: "string option"
  rowApprovals :: nat
  rowCreatedAtBlock :: "int option"
  rowLastApproveTxHash :: "string option"
  rowLastExecuteTxHash :: "string option"
  rowLastApproveError :: "string option"
  rowLastExecuteError :: "string option"
  rowCreatedAt :: int
  rowUpdatedAt :: int
  rowReceivers :: "receiverRow list"
  rowExecutions :: "executionRow list"

definition ctField :: "contractState option \<Rightarrow> (contractState \<Rightarrow> int option) \<Rightarrow> int option" where
  "ctField st f = Option.bind st f"

section \<open>Verdicts\<close>

definition deriveInvalidReason ::
  "proposalRow \<Rightarrow> contractState option \<Rightarrow> contractState option \<Rightarrow> invalidReason option" where
  "deriveInvalidReason row par child =
     (if (case (ctField par ctConfigNonce, rowConfigNonce row) of
            (Some cfg, Some text) \<Rightarrow> (case jsNumber text of Some n \<Rightarrow> n < cfg | None \<Rightarrow> False)
          | _ \<Rightarrow> False)
      then Some ConfigNonceStale
      else if rowTxType row = Some ''5'' then None
      else case rowNonce row of None \<Rightarrow> None
        | Some text \<Rightarrow> (case jsNumber text of None \<Rightarrow> None
            | Some n \<Rightarrow>
                if rowDestination row \<noteq> Some ''remote'' then
                  (case ctField par ctNonce of Some k \<Rightarrow> if n \<le> k then Some ProposalNonceStale else None | None \<Rightarrow> None)
                else
                  (case ctField child ctParentNonce of Some k \<Rightarrow> if n \<le> k then Some ProposalNonceStale else None | None \<Rightarrow> None)))"

definition deriveStatus :: "proposalRow \<Rightarrow> bool \<Rightarrow> int \<Rightarrow> invalidReason option \<Rightarrow> string" where
  "deriveStatus row executed latestSlot invalid =
     (if executed then ''executed''
      else let expiry = jsNumber (case rowExpirySlot row of None \<Rightarrow> ''0'' | Some s \<Rightarrow> s)
        in if (case expiry of Some e \<Rightarrow> e > 0 \<and> latestSlot > e | None \<Rightarrow> False) then ''expired''
           else if invalid \<noteq> None then ''invalidated''
           else ''pending'')"

text \<open>\<open>TextEncoder\<close> gives the bytes of a text; a text is modelled by those bytes.\<close>

definition memoToField :: "('m, 'w, 's) o1js \<Rightarrow> string \<Rightarrow> field" where
  "memoToField E memo = hashWithPrefix E MEMO_HASH_PREFIX (int (length memo) # map of_char memo)"

definition computeProposalMemoMatch :: "('m, 'w, 's) o1js \<Rightarrow> string option \<Rightarrow> string option \<Rightarrow> bool option" where
  "computeProposalMemoMatch E memo memoHash = (case (memo, memoHash) of
       (Some t, Some h) \<Rightarrow> Some (fieldToString (memoToField E t) = h) | _ \<Rightarrow> None)"

definition computeMemoExecutionMatch :: "string option \<Rightarrow> string option \<Rightarrow> bool option" where
  "computeMemoExecutionMatch memoHash executionMemoHash = (case (executionMemoHash, memoHash) of
       (Some e, Some h) \<Rightarrow> Some (h = e) | _ \<Rightarrow> None)"

record serializedProposal =
  spRow :: proposalRow
  spProposalMemoMatch :: "bool option"
  spMemoExecutionMatch :: "bool option"
  spStatus :: string
  spInvalidReason :: "invalidReason option"
  spChildTargetIndexed :: "bool option"
  spExecutedAtBlock :: "int option"
  spExecutionTxHash :: "string option"
  spReceivers :: "receiverRow list"
  spRecipientCount :: nat
  spTotalAmount :: "string option"

definition serializeProposalRecord ::
  "('m, 'w, 's) o1js \<Rightarrow> proposalRow \<Rightarrow> int \<Rightarrow> contractState option \<Rightarrow> contractState option \<Rightarrow> serializedProposal" where
  "serializeProposalRecord E row latestSlot parentState childState =
     (let receivers = sort_key rrIdx (rowReceivers row);
          totalAmount = (if receivers \<noteq> [] then Some (decimal (sum_list (map (\<lambda>r. parseDecimal (rrAmount r)) receivers))) else None);
          execution = (case rowExecutions row of [] \<Rightarrow> None | e # _ \<Rightarrow> Some e);
          invalid = deriveInvalidReason row parentState childState;
          status = deriveStatus row (execution \<noteq> None) latestSlot invalid;
          targetsChild = (rowDestination row = Some ''remote'' \<and> rowTxType row \<noteq> Some ''5'' \<and> rowChildAccount row \<noteq> None)
      in \<lparr>spRow = row,
          spProposalMemoMatch = computeProposalMemoMatch E (rowMemo row) (rowMemoHash row),
          spMemoExecutionMatch = computeMemoExecutionMatch (rowMemoHash row) (rowExecutionMemoHash row),
          spStatus = status, spInvalidReason = invalid,
          spChildTargetIndexed = (if targetsChild then Some (childState \<noteq> None) else None),
          spExecutedAtBlock = map_option erBlockHeight execution,
          spExecutionTxHash = Option.bind execution erTxHash,
          spReceivers = receivers, spRecipientCount = length receivers, spTotalAmount = totalAmount\<rparr>)"

section \<open>Verdicts and the contract\<close>

text \<open>The row the indexer keeps of a proposal, and the counters it keeps of a guard.\<close>

definition rowOf :: "proposalRow \<Rightarrow> proposal \<Rightarrow> bool" where
  "rowOf row p \<longleftrightarrow> rowConfigNonce row = Some (fieldToString (pConfigNonce p)) \<and>
     rowNonce row = Some (fieldToString (pNonce p)) \<and> rowTxType row = Some (fieldToString (pTxType p)) \<and>
     rowExpirySlot row = Some (fieldToString (pExpirySlot p)) \<and>
     rowDestination row = Some (if pDestination p = Destination REMOTE then ''remote'' else ''local'') \<and>
     0 \<le> pConfigNonce p \<and> 0 \<le> pNonce p \<and> 0 \<le> pExpirySlot p"

definition countersOf :: "guard \<Rightarrow> contractState" where
  "countersOf g = \<lparr>ctNonce = Some (nonce g), ctParentNonce = Some (parentNonce g), ctConfigNonce = Some (configNonce g)\<rparr>"

lemma textNumber: "0 \<le> f \<Longrightarrow> jsNumber (fieldToString f) = Some f"
  by (simp add: fieldToString_decimal)

lemma text_five: "fieldToString ty = ''5'' \<longleftrightarrow> ty = TxType CREATE_CHILD"
proof -
  have "''5'' = fieldToString 5" by (simp add: fieldToString_decimal decimal.simps) code_simp
  then show ?thesis by simp
qed

lemma deriveInvalidReason_row:
  assumes "rowOf row p"
  shows "deriveInvalidReason row (Some (countersOf g)) child =
    (if pConfigNonce p < configNonce g then Some ConfigNonceStale
     else if pTxType p = TxType CREATE_CHILD then None
     else if pDestination p \<noteq> Destination REMOTE then (if pNonce p \<le> nonce g then Some ProposalNonceStale else None)
     else case child of None \<Rightarrow> None | Some ch \<Rightarrow> (case ctParentNonce ch of None \<Rightarrow> None
       | Some k \<Rightarrow> if pNonce p \<le> k then Some ProposalNonceStale else None))"
  using assms by (simp add: deriveInvalidReason_def rowOf_def countersOf_def ctField_def textNumber text_five split: option.split)

lemma fresh_nonce:
  assumes "assertFreshProposalNonce w a g p = Inr ()" "pTxType p \<noteq> TxType CREATE_CHILD"
  shows "pDestination p \<noteq> Destination REMOTE \<Longrightarrow> nonce g < pNonce p"
    "pDestination p = Destination REMOTE \<Longrightarrow> \<exists>ch. accounts w (pChildAccount p) = Some ch \<and> parentNonce ch < pNonce p"
  using assms by (auto simp: assertFreshProposalNonce_def Let_def)

lemma vote_or_local:
  assumes "callMethod E w a g c = Inr (g', evs, sends)" "votesOrExecutes c = Some p"
  shows "assertFreshProposalNonce w a g p = Inr () \<or>
    pDestination p = Destination LOCAL \<and> pNonce p = fieldAdd E (nonce g) 1 \<and> pTxType p \<noteq> TxType CREATE_CHILD"
proof -
  consider "localExecution c = Some p" | ow pk sg vw aw where "c = Propose p ow pk sg vw aw"
    | sg pk ow aw k vw where "c = ApproveProposal p sg pk ow aw k vw" using assms(2) by (cases c) auto
  then show ?thesis
  proof cases
    case 1
    then have "pDestination p = Destination LOCAL \<and> pTxType p \<noteq> TxType CREATE_CHILD"
      using assms(1) by (cases c) (auto simp: method_defs assertLocalProposal_def Let_def)
    then show ?thesis using local_nonce(1) [OF assms(1) 1] by simp
  qed (use assms(1) in \<open>auto simp: propose_def approveProposal_def Let_def\<close>)
qed

text \<open>C22: The backend never calls a live proposal stale. If it reports a proposal as invalidated, from
  the current counters of its guard and of its target child, then the contract rejects every call that
  acts on it, on every account: proposing and approving it, executing it on the guard, executing it on
  a child (reclaim, destroy, multisig toggle), and setting a child up with it.\<close>

theorem reported_stale_is_rejected:
  assumes row: "rowOf row p" and acc: "accounts w a = Some g" "pGuardAddress p = a"
    and bad: "deriveInvalidReason row (Some (countersOf g)) (map_option countersOf (accounts w (pChildAccount p))) \<noteq> None"
    and b: "0 \<le> nonce g" "nonce g + 1 < fieldOrder E"
      "\<And>ch. accounts w (pChildAccount p) = Some ch \<Longrightarrow> 0 \<le> parentNonce ch \<and> parentNonce ch + 1 < fieldOrder E"
    and c: "accounts w x = Some gx" "actsOn c = Some p"
  shows "\<not> isOk (callMethod E w x gx c)"
proof
  assume "isOk (callMethod E w x gx c)"
  then obtain g' evs sends where ok: "callMethod E w x gx c = Inr (g', evs, sends)" by (auto simp: isOk_iff)
  note bad = bad [unfolded deriveInvalidReason_row [OF row]]
  have cfg: "pConfigNonce p = configNonce g"
    using actsOn_config [OF c(1) ok c(2)] acc by auto
  with bad have ty: "pTxType p \<noteq> TxType CREATE_CHILD" by (auto split: if_splits)
  from c(2) consider "votesOrExecutes c = Some p" | "lifecycleExecution c = Some p"
    | thr num owners pw pc where "c = ExecuteSetupChild thr num owners p pw pc"
    by (cases c) (auto simp: actsOn_def)
  then show False
  proof cases
    case 1
    have x: "x = a" "gx = g" using votesOrExecutes_config(2) [OF ok 1] acc c(1) by auto
    have "fieldAdd E (nonce g) 1 = nonce g + 1" using b by (simp add: fieldAdd_def)
    then show False
      using vote_or_local [OF ok 1] fresh_nonce [OF _ ty, of w a g] bad cfg x by (auto simp: countersOf_def split: if_splits)
  next
    case 2
    obtain "pDestination p = Destination REMOTE" "pNonce p = fieldAdd E (parentNonce gx) 1" "pChildAccount p = x"
      by (rule lifecycle_parent [OF ok 2])
    moreover from this have "fieldAdd E (parentNonce gx) 1 = parentNonce gx + 1"
      using b(3) [of gx] c(1) by (simp add: fieldAdd_def)
    ultimately show False using bad cfg c(1) by (auto simp: countersOf_def split: if_splits)
  next
    case 3
    then show False using ok ty by (auto simp: executeSetupChild_def Let_def)
  qed
qed

text \<open>The status served for a proposal that was not executed is \<open>expired\<close> exactly if the contract's
  expiry check fails at the latest slot (a slot has 32 bits), and it is \<open>pending\<close> only if the check
  passes and no staleness was found.\<close>

lemma status_matches_expiry:
  assumes "rowOf row p" "pExpirySlot p < 2 ^ 32" "int (globalSlot w) < 2 ^ 32"
  shows "(deriveStatus row False (int (globalSlot w)) reason = ''expired'' \<longleftrightarrow> assertProposalNotExpired w p \<noteq> Inr ()) \<and>
    (deriveStatus row False (int (globalSlot w)) reason = ''pending'' \<longleftrightarrow> assertProposalNotExpired w p = Inr () \<and> reason = None)"
proof -
  have "jsNumber (fieldToString (pExpirySlot p)) = Some (pExpirySlot p)" using assms(1) by (simp add: rowOf_def textNumber)
  then show ?thesis using assms by (auto simp: deriveStatus_def rowOf_def notExpired_def)
qed

lemma inj_of_char_int: "inj (of_char :: char \<Rightarrow> int)"
  by (auto intro: injI)

text \<open>A proposal's memo is reported as matching exactly if it is the memo whose hash the owners signed:
  with a collision-free hash, no other memo text is reported as matching.\<close>

lemma memo_match_exact:
  assumes "collisionFree E" "memoHash = Some (fieldToString (memoToField E original))"
  shows "computeProposalMemoMatch E (Some memo) memoHash = Some (memo = original)"
proof -
  have "memoToField E memo = memoToField E original \<longleftrightarrow> memo = original"
    using assms(1) by (auto simp: memoToField_def hash_eq_iff inj_map_eq_map inj_of_char_int)
  with assms(2) show ?thesis by (simp add: computeProposalMemoMatch_def)
qed

lemma total_amount:
  "spTotalAmount (serializeProposalRecord E row slot ps cs) =
     (if rowReceivers row = [] then None else Some (decimal (\<Sum>r \<leftarrow> rowReceivers row. parseDecimal (rrAmount r))))"
proof -
  have "sum_list (map f (sort_key rrIdx xs)) = sum_list (map f xs)" for f :: "receiverRow \<Rightarrow> nat" and xs
    by (metis mset_map mset_sort sum_mset_sum_list)
  moreover have "sort_key rrIdx (rowReceivers row) = [] \<longleftrightarrow> rowReceivers row = []"
    by (metis mset_sort mset_zero_iff)
  ultimately show ?thesis by (simp add: serializeProposalRecord_def Let_def)
qed

end
