(* ===== verification/Offline_Bundle.thy ===== *)
theory Offline_Bundle
  imports Js_Values Checkpoint Proposal_Record
begin

text \<open>
  Request bundles of the offline command line (\<open>offline-cli/src/build-tx.ts\<close>) and the checks that run on
  them before anything is shown or signed: version, action, transaction type, memo, child configuration,
  fee and network. A bundle is the parsed form of its JSON; the members that the code declares as unknown
  are JSON values.
\<close>

section \<open>Bundles\<close>

record bundleReceiver =
  brAddress :: string
  brAmount :: string

record bundleAccount =
  baToken :: string
  baNonce :: string
  baBalance :: string
  baZkappState :: "string list option"
  baVerificationKey :: "(string \<times> string) option"

record bundleBase =
  bbVersion :: int
  bbCheckpoint :: "storeCheckpoint option"
  bbNetwork :: string
  bbContract :: string
  bbFeePayer :: string
  bbFee :: "json option"
  bbAccounts :: "(string \<times> bundleAccount) list"
  bbEvents :: "indexedEvent list"

record proposalInput =
  piTxType :: "string option"
  piNonce :: int
  piReceivers :: "bundleReceiver list option"
  piNewOwner :: "string option"
  piRemoveOwnerAddress :: "string option"
  piNewThreshold :: "int option"
  piDelegate :: "string option"
  piUndelegate :: bool
  piExpirySlot :: "int option"
  piChildAccount :: "string option"
  piReclaimAmount :: "string option"
  piChildMultiSigEnable :: bool
  piCreateChildConfigHash :: "string option"
  piChildPrivateKey :: "string option"
  piChildOwners :: "json option"
  piChildThreshold :: "json option"
  piMemo :: "string option"

record bundleProposal =
  bpProposalHash :: string
  bpTxType :: "string option"
  bpTokenId :: "string option"
  bpData :: "string option"
  bpNonce :: "string option"
  bpConfigNonce :: "string option"
  bpExpirySlot :: "string option"
  bpGuardAddress :: "string option"
  bpDestination :: "string option"
  bpChildAccount :: "string option"
  bpMemoHash :: "string option"
  bpMemo :: "string option"
  bpReceivers :: "bundleReceiver list"

record proposeBundle = bundleBase +
  pbInput :: proposalInput
  pbConfigNonce :: int

record approveBundle = bundleBase +
  abProposal :: bundleProposal
  abChildAddress :: "string option"
  abChildOwners :: "json option"
  abChildThreshold :: "json option"

record executeBundle = approveBundle +
  ebReceiverAccountExists :: "(string \<times> json) list option"
  ebChildEvents :: "indexedEvent list option"

datatype offlineBundle =
    ProposeBundle proposeBundle
  | ApproveBundle approveBundle
  | ExecuteBundle executeBundle

section \<open>Transaction types\<close>

fun txTypeName :: "txType \<Rightarrow> string" where
  "txTypeName TRANSFER = ''transfer''"
| "txTypeName ADD_OWNER = ''addOwner''"
| "txTypeName REMOVE_OWNER = ''removeOwner''"
| "txTypeName CHANGE_THRESHOLD = ''changeThreshold''"
| "txTypeName SET_DELEGATE = ''setDelegate''"
| "txTypeName CREATE_CHILD = ''createChild''"
| "txTypeName ALLOCATE_CHILD = ''allocateChild''"
| "txTypeName RECLAIM_CHILD = ''reclaimChild''"
| "txTypeName DESTROY_CHILD = ''destroyChild''"
| "txTypeName ENABLE_CHILD_MULTI_SIG = ''enableChildMultiSig''"

definition TX_TYPES :: "txType list" where
  "TX_TYPES = [TRANSFER, ADD_OWNER, REMOVE_OWNER, CHANGE_THRESHOLD, SET_DELEGATE, CREATE_CHILD,
     ALLOCATE_CHILD, RECLAIM_CHILD, DESTROY_CHILD, ENABLE_CHILD_MULTI_SIG]"

definition normalizeTxType :: "string option \<Rightarrow> txType option" where
  "normalizeTxType value = (case value of None \<Rightarrow> None
     | Some v \<Rightarrow> (if v = [] then None
         else case find (\<lambda>t. txTypeName t = v) TX_TYPES of
             Some t \<Rightarrow> Some t
           | None \<Rightarrow>
               (if v = ''0'' then Some TRANSFER
                else if v = ''1'' then Some ADD_OWNER
                else if v = ''2'' then Some REMOVE_OWNER
                else if v = ''3'' then Some CHANGE_THRESHOLD
                else if v = ''4'' then Some SET_DELEGATE
                else if v = ''5'' then Some CREATE_CHILD
                else if v = ''6'' then Some ALLOCATE_CHILD
                else if v = ''7'' then Some RECLAIM_CHILD
                else if v = ''8'' then Some DESTROY_CHILD
                else if v = ''9'' then Some ENABLE_CHILD_MULTI_SIG
                else None)))"

definition requireTxType :: "string option \<Rightarrow> txType result" where
  "requireTxType value = (case normalizeTxType value of
       None \<Rightarrow> Inl (AssertFail ''Unsupported transaction type'') | Some t \<Rightarrow> Inr t)"

definition canonicalizeBundleTxType :: "offlineBundle \<Rightarrow> offlineBundle result" where
  "canonicalizeBundleTxType bundle = (case bundle of
       ProposeBundle b \<Rightarrow> andThen (requireTxType (piTxType (pbInput b))) (\<lambda>t.
         Inr (ProposeBundle (b\<lparr>pbInput := (pbInput b)\<lparr>piTxType := Some (txTypeName t)\<rparr>\<rparr>)))
     | ApproveBundle b \<Rightarrow> andThen (requireTxType (bpTxType (abProposal b))) (\<lambda>t.
         Inr (ApproveBundle (b\<lparr>abProposal := (abProposal b)\<lparr>bpTxType := Some (txTypeName t)\<rparr>\<rparr>)))
     | ExecuteBundle b \<Rightarrow> andThen (requireTxType (bpTxType (abProposal b))) (\<lambda>t.
         Inr (ExecuteBundle (b\<lparr>abProposal := (abProposal b)\<lparr>bpTxType := Some (txTypeName t)\<rparr>\<rparr>))))"

section \<open>Memo\<close>

definition assertBundleMemo :: "('m, 'w, 's) o1js \<Rightarrow> bundleProposal \<Rightarrow> unit result" where
  "assertBundleMemo E p = (case bpMemoHash p of
       None \<Rightarrow> Inl (AssertFail ''Proposal is missing its memo commitment'')
     | Some memoHash \<Rightarrow>
         require (fieldToString (memoToField E (orDefault (bpMemo p) '''')) = memoHash)
           ''The memo in this bundle does not match the memo the owners approved'' (Inr ()))"

section \<open>Child configuration\<close>

text \<open>The text \<open>EMPTY_PUBKEY_B58\<close> is the base58 form of the empty key.\<close>

definition EMPTY_PUBKEY_B58 :: "('m, 'w, 's) o1js \<Rightarrow> string" where
  "EMPTY_PUBKEY_B58 E = toBase58 E emptyKey"

datatype configOrder = ReservedOrder | SortedOrder

definition childOwnerKey :: "('m, 'w, 's) o1js \<Rightarrow> json \<Rightarrow> (string \<times> pubkey) result" where
  "childOwnerKey E owner = (case owner of
       JStr s \<Rightarrow> require (s \<noteq> EMPTY_PUBKEY_B58 E) ''createChild bundle has an invalid SubVault owner address''
         (andThen (parseKey E s) (\<lambda>pk. Inr (s, pk)))
     | _ \<Rightarrow> Inl (AssertFail ''createChild bundle has an invalid SubVault owner address''))"

definition checkedChildConfigHash ::
  "('m, 'w, 's) o1js \<Rightarrow> json option \<Rightarrow> json option \<Rightarrow> configOrder \<Rightarrow> ((string \<times> pubkey) list \<times> int \<times> field) result" where
  "checkedChildConfigHash E childOwners childThreshold order = (case childOwners of
       Some (JArr vs) \<Rightarrow>
         require (vs \<noteq> []) ''createChild bundle is missing the SubVault owner list''
        (require (length vs \<le> MAX_OWNERS) ''createChild bundle lists more than 20 SubVault owners''
        (case childThreshold of
           Some (JNum thr) \<Rightarrow>
             require (1 \<le> thr \<and> thr \<le> int (length vs)) ''createChild bundle has an invalid SubVault threshold''
            (andThen (traverse (childOwnerKey E) vs) (\<lambda>owners.
             require (distinct (map (\<lambda>(_, pk). pkX pk) owners)) ''createChild bundle lists the same SubVault owner twice (or a key and its negation)''
            (let keys = map snd owners;
                 store = (case order of ReservedOrder \<Rightarrow> keys | SortedOrder \<Rightarrow> foldl (addSorted E) [] keys);
                 hash = childConfigHash E (getCommitment E store) (fieldOfInt E thr) (fieldOfInt E (int (length vs)))
             in Inr (owners, thr, hash))))
         | _ \<Rightarrow> Inl (AssertFail ''createChild bundle has an invalid SubVault threshold'')))
     | _ \<Rightarrow> Inl (AssertFail ''createChild bundle is missing the SubVault owner list''))"

text \<open>The result is \<open>None\<close> for the other types, as in the source. The keys ride along with their texts.\<close>

definition assertCreateChildBundleConfig ::
  "('m, 'w, 's) o1js \<Rightarrow> 'a approveBundle_scheme \<Rightarrow> ((string \<times> pubkey) list \<times> int) option result" where
  "assertCreateChildBundleConfig E bundle =
     andThen (requireTxType (bpTxType (abProposal bundle))) (\<lambda>t.
       if t \<noteq> CREATE_CHILD then Inr None
       else require (abChildAddress bundle = None \<or> abChildAddress bundle = bpChildAccount (abProposal bundle))
           ''createChild bundle names a SubVault address other than the proposal's''
         (andThen (checkedChildConfigHash E (abChildOwners bundle) (abChildThreshold bundle) ReservedOrder)
           (\<lambda>(owners, thr, hash).
            require (fieldToString hash = orDefault (bpData (abProposal bundle)) '''') ''SubVault config mismatch''
              (Inr (Some (owners, thr))))))"

definition assertCreateChildProposeConfig ::
  "('m, 'w, 's) o1js \<Rightarrow> proposeBundle \<Rightarrow> ((string \<times> pubkey) list \<times> int) option result" where
  "assertCreateChildProposeConfig E bundle =
     andThen (requireTxType (piTxType (pbInput bundle))) (\<lambda>t.
       if t \<noteq> CREATE_CHILD then Inr None
       else andThen (checkedChildConfigHash E (piChildOwners (pbInput bundle)) (piChildThreshold (pbInput bundle)) SortedOrder)
           (\<lambda>(owners, thr, hash).
            require (truthyText (piCreateChildConfigHash (pbInput bundle))) ''createChild bundle is missing createChildConfigHash''
           (require (Some (fieldToString hash) = piCreateChildConfigHash (pbInput bundle)) ''SubVault config mismatch''
              (Inr (Some (owners, thr))))))"

section \<open>Fee and network\<close>

definition OFFLINE_MIN_FEE_NANOMINA :: int where
  "OFFLINE_MIN_FEE_NANOMINA = 10000000"

definition OFFLINE_MAX_FEE_NANOMINA :: int where
  "OFFLINE_MAX_FEE_NANOMINA = 100000000"

definition OFFLINE_RESPONSE_VERSION :: int where
  "OFFLINE_RESPONSE_VERSION = 1"

definition resolveBundleFee :: "'a bundleBase_scheme \<Rightarrow> int result" where
  "resolveBundleFee bundle = (case bbFee bundle of
       Some (JNum fee) \<Rightarrow>
         require (isSafeInteger fee \<and> \<not> fee < OFFLINE_MIN_FEE_NANOMINA \<and> \<not> fee > OFFLINE_MAX_FEE_NANOMINA)
           ''Invalid request fee'' (Inr fee)
     | _ \<Rightarrow> Inl (AssertFail ''Invalid request fee''))"

definition domainText :: "networkDomainName \<Rightarrow> string" where
  "domainText d = (case d of Mainnet \<Rightarrow> ''mainnet'' | Testnet \<Rightarrow> ''testnet'' | Devnet \<Rightarrow> ''devnet'')"

definition assertBundleNetwork :: "string \<Rightarrow> string option \<Rightarrow> unit result" where
  "assertBundleNetwork bundleNetwork binaryNetwork =
     require (bundleNetwork = ''mainnet'' \<or> bundleNetwork = ''testnet'') ''Unsupported bundle network''
     (let sharedTestDomain = (bundleNetwork = ''testnet'' \<and> binaryNetwork = Some ''devnet'')
      in require (binaryNetwork = Some bundleNetwork \<or> sharedTestDomain) ''Network mismatch'' (Inr ()))"

section \<open>The checks of the command line\<close>

text \<open>\<open>index.ts\<close> before the summary: the version, then \<open>main\<close>. The bundle that is shown and built is the
  canonical one.\<close>

definition bundleVersion :: "offlineBundle \<Rightarrow> int" where
  "bundleVersion b = (case b of ProposeBundle p \<Rightarrow> bbVersion p | ApproveBundle a \<Rightarrow> bbVersion a | ExecuteBundle e \<Rightarrow> bbVersion e)"

definition checkBundle :: "('m, 'w, 's) o1js \<Rightarrow> offlineBundle \<Rightarrow> offlineBundle result" where
  "checkBundle E bundle =
     require (bundleVersion bundle = OFFLINE_REQUEST_VERSION) ''Unsupported bundle version''
     (andThen (canonicalizeBundleTxType bundle) (\<lambda>canonical.
      andThen (case canonical of
           ProposeBundle b \<Rightarrow> andThen (assertCreateChildProposeConfig E b) (\<lambda>_.
             andThen (resolveBundleFee b) (\<lambda>_. Inr ()))
         | ApproveBundle b \<Rightarrow> andThen (assertCreateChildBundleConfig E b) (\<lambda>_.
             andAlso (assertBundleMemo E (abProposal b)) (andThen (resolveBundleFee b) (\<lambda>_. Inr ())))
         | ExecuteBundle b \<Rightarrow> andThen (assertCreateChildBundleConfig E b) (\<lambda>_.
             andAlso (assertBundleMemo E (abProposal b)) (andThen (resolveBundleFee b) (\<lambda>_. Inr ()))))
        (\<lambda>_. Inr canonical)))"

section \<open>Lemmas\<close>

lemma normalizeTxType_name [simp]: "normalizeTxType (Some (txTypeName t)) = Some t"
  by (cases t) (simp_all add: normalizeTxType_def TX_TYPES_def)

lemma requireTxType_name [simp]: "requireTxType (Some (txTypeName t)) = Inr t"
  by (simp add: requireTxType_def)

lemma txTypeName_eq [simp]: "txTypeName a = txTypeName b \<longleftrightarrow> a = b"
  by (metis normalizeTxType_name option.inject)

lemma requireTxType_Inr: "requireTxType v = Inr t \<longleftrightarrow> normalizeTxType v = Some t"
  by (simp add: requireTxType_def split: option.split)

text \<open>The numeric form of a type is the number the contract uses.\<close>

lemma normalizeTxType_code: "normalizeTxType (Some (fieldToString (TxType t))) = Some t"
proof -
  have d: "decimal 0 = ''0''" "decimal (Suc 0) = ''1''" "decimal 2 = ''2''" "decimal 3 = ''3''" "decimal 4 = ''4''"
    "decimal 5 = ''5''" "decimal 6 = ''6''" "decimal 7 = ''7''" "decimal 8 = ''8''" "decimal 9 = ''9''"
    by (code_simp)+
  show ?thesis by (cases t) (simp_all add: fieldToString_decimal d normalizeTxType_def TX_TYPES_def)
qed

lemma assertBundleMemo_Inr:
  "assertBundleMemo E p = Inr () \<longleftrightarrow> bpMemoHash p = Some (fieldToString (memoToField E (orDefault (bpMemo p) '''')))"
  by (auto simp: assertBundleMemo_def split: option.split)

lemma resolveBundleFee_Inr:
  "resolveBundleFee b = Inr fee \<longleftrightarrow> bbFee b = Some (JNum fee) \<and> OFFLINE_MIN_FEE_NANOMINA \<le> fee \<and> fee \<le> OFFLINE_MAX_FEE_NANOMINA"
  by (auto simp: resolveBundleFee_def OFFLINE_MIN_FEE_NANOMINA_def OFFLINE_MAX_FEE_NANOMINA_def isSafeInteger_def
      MAX_SAFE_INTEGER_def split: option.split json.split)

end
