(* ===== verification/Guard_Liveness.thy ===== *)
theory Guard_Liveness
  imports Guard_Properties Map_Store
begin

text \<open>
  What the stores are for: a client whose stores mirror the on-chain roots can always take the next
  step. For each voting and execution method, the witnesses that the stores hand out are accepted,
  and the obvious store update mirrors the new roots again.
\<close>

definition synced ::
  "('m, 'w, 's) o1js \<Rightarrow> guard \<Rightarrow> pubkey list \<Rightarrow> 'm approvalStore \<Rightarrow> 'm nullifierStore \<Rightarrow> bool" where
  "synced E g owners aps nus \<longleftrightarrow> ownersCommitment g = getCommitment E owners \<and>
     approvalRoot g = getApprovalRoot E aps \<and> voteNullifierRoot g = getNullifierRoot E nus \<and>
     nullifierStoreInv E nus"

text \<open>The checks on a proposal that do not involve the stores.\<close>

definition votable :: "world \<Rightarrow> pubkey \<Rightarrow> guard \<Rightarrow> proposal \<Rightarrow> bool" where
  "votable w a g p \<longleftrightarrow> (parent g \<noteq> emptyKey \<longrightarrow> childMultiSigEnabled g = 1) \<and>
     pConfigNonce p = configNonce g \<and> pGuardAddress p = a \<and>
     assertProposalDestinationAndChildAccount g p = Inr () \<and> notExpired w p \<and>
     assertFreshProposalNonce w a g p = Inr ()"

definition executable :: "('m, 'w, 's) o1js \<Rightarrow> world \<Rightarrow> pubkey \<Rightarrow> guard \<Rightarrow> proposal \<Rightarrow> bool" where
  "executable E w a g p \<longleftrightarrow> (parent g \<noteq> emptyKey \<longrightarrow> childMultiSigEnabled g = 1) \<and>
     pConfigNonce p = configNonce g \<and> pGuardAddress p = a \<and> pDestination p = Destination LOCAL \<and>
     notExpired w p \<and> pNonce p = fieldAdd E (nonce g) 1"

definition voteUpdate ::
  "('m, 'w, 's) o1js \<Rightarrow> 'm approvalStore \<Rightarrow> 'm nullifierStore \<Rightarrow> field \<Rightarrow> pubkey \<Rightarrow> field \<Rightarrow> guard \<Rightarrow> guard" where
  "voteUpdate E aps nus h pk c g = g\<lparr>voteNullifierRoot := getNullifierRoot E (nullify E nus h pk),
     approvalRoot := getApprovalRoot E (setCount E aps h c)\<rparr>"

lemma synced_nonzero: "soundEnv E \<Longrightarrow> synced E g owners aps nus \<Longrightarrow> ownersCommitment g \<noteq> 0"
  by (simp add: synced_def getCommitment_def computeOwnerChain_nonzero soundEnv_collisionFree)

lemma nullifier_witness:
  assumes E: "soundEnv E" and s: "synced E g owners aps nus" and n: "\<not> isNullified E nus h pk"
  shows "computeRootAndKey E (getNullifierWitness E nus h pk) 0 = (voteNullifierRoot g, voteNullifierKey E h pk)"
    "computeRootAndKey E (getNullifierWitness E nus h pk) 1 =
       (getNullifierRoot E (nullify E nus h pk), voteNullifierKey E h pk)"
proof -
  note m = soundEnv_merkle [OF E]
  have "mapGet E (vnMap nus) (voteNullifierKey E h pk) = 0"
    using n s by (auto simp: isNullified_def synced_def nullifierStoreInv_def)
  with mm.wit_reads [OF m, of "vnMap nus" "voteNullifierKey E h pk"]
  show "computeRootAndKey E (getNullifierWitness E nus h pk) 0 = (voteNullifierRoot g, voteNullifierKey E h pk)"
    using s by (simp add: synced_def getNullifierRoot_def getNullifierWitness_def)
  show "computeRootAndKey E (getNullifierWitness E nus h pk) 1 =
       (getNullifierRoot E (nullify E nus h pk), voteNullifierKey E h pk)"
    using s nullify_root [OF m] by (simp add: synced_def getNullifierWitness_def witness_computes [OF m])
qed

lemma approval_witness:
  assumes E: "soundEnv E" and s: "synced E g owners aps nus"
  shows "computeRootAndKey E (getApprovalWitness E aps h) (getCount E aps h) = (approvalRoot g, h)"
    "computeRootAndKey E (getApprovalWitness E aps h) c = (getApprovalRoot E (setCount E aps h c), h)"
  using ap.wit_reads [OF soundEnv_merkle [OF E]] ap.wit_computes [OF soundEnv_merkle [OF E]] s
  by (simp_all add: synced_def)

lemma synced_vote:
  assumes "soundEnv E" "synced E g owners aps nus"
  shows "synced E (voteUpdate E aps nus h pk c g) owners (setCount E aps h c) (nullify E nus h pk)"
  using assms nullifierStoreInv_nullify [OF soundEnv_merkle [OF assms(1)]]
  by (simp add: synced_def voteUpdate_def)

lemma synced_execute:
  assumes "soundEnv E" "synced E g owners aps nus"
  shows "synced E (g\<lparr>nonce := k, approvalRoot := getApprovalRoot E (setCount E aps h c)\<rparr>) owners (setCount E aps h c) nus"
  using assms by (simp add: synced_def)

lemma propose_live:
  assumes E: "soundEnv E" "base58Laws E" and s: "synced E g owners aps nus" and v: "votable w a g p"
    and o: "isOwner E owners pk" and n: "\<not> isNullified E nus (proposalHash E p) pk"
    and c: "getCount E aps (proposalHash E p) = 0" and sh: "assertProposalShape E g p = Inr ()"
    and sg: "verifySignature E sg pk [proposalSigningMessage E (proposalHash E p) ActPropose]"
  shows "\<exists>evs. propose E w a g p (getOwnerWitness owners) pk sg
      (getNullifierWitness E nus (proposalHash E p) pk) (getApprovalWitness E aps (proposalHash E p)) =
    Inr (voteUpdate E aps nus (proposalHash E p) pk 2 g, evs, [])"
proof -
  have two: "fieldAdd E PROPOSED_MARKER 1 = 2"
    using fieldLarge_pos [OF soundEnv_fieldLarge [OF E(1)]] by (simp add: fieldAdd_def PROPOSED_MARKER_def)
  have mem: "assertOwnerMembership E (ownersCommitment g) pk (getOwnerWitness owners) = Inr ()"
    using member_accepted [OF E(2) o] s by (simp add: synced_def)
  note nw = nullifier_witness [OF E(1) s n]
  have aw: "computeRootAndKey E (getApprovalWitness E aps (proposalHash E p)) 0 = (approvalRoot g, proposalHash E p)"
    using approval_witness(1) [OF E(1) s, of "proposalHash E p"] c by simp
  show ?thesis
    using v synced_nonzero [OF E(1) s] mem nw aw sg sh approval_witness(2) [OF E(1) s, of "proposalHash E p" 2]
    by (simp add: propose_def votable_def assertChildMultiSigEnabledIfChild_def getInitializedOwnersCommitment_def
        assertProposalConfigNetworkAndGuard_def assertValidProposalConfigNetworkAndGuard_def
        assertApprovalWitnessValue_def two voteUpdate_def Let_def assertMerkleWitnessValue_def)
qed

lemma approve_live:
  assumes E: "soundEnv E" "base58Laws E" and s: "synced E g owners aps nus" and v: "votable w a g p"
    and o: "isOwner E owners pk" and n: "\<not> isNullified E nus (proposalHash E p) pk"
    and c: "PROPOSED_MARKER \<le> getCount E aps (proposalHash E p)" "\<not> isExecuted E aps (proposalHash E p)"
    and sg: "verifySignature E sg pk [proposalSigningMessage E (proposalHash E p) ActApprove]"
  shows "\<exists>evs. approveProposal E w a g p sg pk (getOwnerWitness owners) (getApprovalWitness E aps (proposalHash E p))
      (getCount E aps (proposalHash E p)) (getNullifierWitness E nus (proposalHash E p) pk) =
    Inr (voteUpdate E aps nus (proposalHash E p) pk (fieldAdd E (getCount E aps (proposalHash E p)) 1) g, evs, [])"
proof -
  have mem: "assertOwnerMembership E (ownersCommitment g) pk (getOwnerWitness owners) = Inr ()"
    using member_accepted [OF E(2) o] s by (simp add: synced_def)
  note nw = nullifier_witness [OF E(1) s n] and aw = approval_witness [OF E(1) s]
  have same: "getApprovalRoot E (setCount E aps h (getCount E aps h)) = approvalRoot g" for h
    using aw(1) [of h] aw(2) [of h] by simp
  have "getCount E aps (proposalHash E p) \<noteq> EXECUTED_MARKER E"
    using c(2) by (simp add: isExecuted_def getCount_def EXECUTED_MARKER_def)
  then show ?thesis
    using v synced_nonzero [OF E(1) s] mem nw sg c(1)
    by (simp add: approveProposal_def votable_def assertChildMultiSigEnabledIfChild_def getInitializedOwnersCommitment_def
        assertProposalConfigNetworkAndGuard_def assertValidProposalConfigNetworkAndGuard_def aw assertNotExecuted_def
        assertProposalExists_def assertApprovalWitnessValue_def same voteUpdate_def Let_def assertMerkleWitnessValue_def)
qed

lemma execute_live:
  assumes E: "soundEnv E" and s: "synced E g owners aps nus" and x: "executable E w a g p"
    and c: "fieldAdd E (threshold g) 1 \<le> getCount E aps (proposalHash E p)" "1 \<le> getCount E aps (proposalHash E p)"
    "\<not> isExecuted E aps (proposalHash E p)"
  shows "assertExecutable E w a g p (getApprovalWitness E aps (proposalHash E p)) (getCount E aps (proposalHash E p)) =
      Inr (g\<lparr>nonce := fieldAdd E (nonce g) 1\<rparr>)"
    "markExecuted E (getApprovalWitness E aps (proposalHash E p)) g1 =
      (getApprovalRoot E (setCount E aps (proposalHash E p) (EXECUTED_MARKER E)),
       g1\<lparr>approvalRoot := getApprovalRoot E (setCount E aps (proposalHash E p) (EXECUTED_MARKER E))\<rparr>)"
proof -
  have "getCount E aps (proposalHash E p) \<noteq> EXECUTED_MARKER E"
    using c(3) by (simp add: isExecuted_def getCount_def EXECUTED_MARKER_def)
  then show "assertExecutable E w a g p (getApprovalWitness E aps (proposalHash E p)) (getCount E aps (proposalHash E p)) =
      Inr (g\<lparr>nonce := fieldAdd E (nonce g) 1\<rparr>)"
    using x c approval_witness(1) [OF E s] by (auto simp: assertExecutable_Inr executable_def)
  show "markExecuted E (getApprovalWitness E aps (proposalHash E p)) g1 =
      (getApprovalRoot E (setCount E aps (proposalHash E p) (EXECUTED_MARKER E)),
       g1\<lparr>approvalRoot := getApprovalRoot E (setCount E aps (proposalHash E p) (EXECUTED_MARKER E))\<rparr>)"
    by (simp add: markExecuted_def Let_def approval_witness(2) [OF E s])
qed

section \<open>Whole runs\<close>

text \<open>A client that collects the votes of a list of owners, one transaction per owner, updating its
  stores after each.\<close>

fun voteAll :: "('m, 'w, 's) o1js \<Rightarrow> pubkey \<Rightarrow> proposal \<Rightarrow> pubkey list \<Rightarrow>
    world \<times> 'm approvalStore \<times> 'm nullifierStore \<Rightarrow> (pubkey \<times> 's) list \<Rightarrow>
    (world \<times> 'm approvalStore \<times> 'm nullifierStore) result" where
  "voteAll E a p owners (w, aps, nus) [] = Inr (w, aps, nus)"
| "voteAll E a p owners (w, aps, nus) ((pk, sg) # rest) =
     (let h = proposalHash E p; c = getCount E aps h
      in andThen (transact E w a (ApproveProposal p sg pk (getOwnerWitness owners)
           (getApprovalWitness E aps h) c (getNullifierWitness E nus h pk)))
         (\<lambda>(w', _). voteAll E a p owners (w', setCount E aps h (fieldAdd E c 1), nullify E nus h pk) rest))"

lemma votable_vote:
  assumes "accounts w a = Some g" "g' = g\<lparr>voteNullifierRoot := r1, approvalRoot := r2\<rparr>"
  shows "votable (w\<lparr>accounts := (accounts w)(a := Some g')\<rparr>) a g' p \<longleftrightarrow> votable w a g p"
  using assms by (auto simp: votable_def assertProposalDestinationAndChildAccount_def assertFreshProposalNonce_def
      Let_def lookupGuard_def notExpired_def split: option.splits if_splits)

lemma votable_local:
  "pDestination p = Destination LOCAL \<Longrightarrow> votable w a g p \<longleftrightarrow>
     (parent g \<noteq> emptyKey \<longrightarrow> childMultiSigEnabled g = 1) \<and> pConfigNonce p = configNonce g \<and>
     pGuardAddress p = a \<and> pChildAccount p = emptyKey \<and> notExpired w p \<and> accounts w a \<noteq> None \<and> nonce g < pNonce p"
  by (auto simp: votable_def assertProposalDestinationAndChildAccount_def assertFreshProposalNonce_def Let_def
      lookupGuard_def split: option.splits)

lemma propose_transact:
  assumes E: "soundEnv E" "base58Laws E" and s: "synced E g owners aps nus" and v: "votable w a g p"
    and o: "isOwner E owners pk" "length owners \<le> MAX_OWNERS" and n: "\<not> isNullified E nus (proposalHash E p) pk"
    and c: "getCount E aps (proposalHash E p) = 0" and sh: "assertProposalShape E g p = Inr ()"
    and sg: "verifySignature E sg pk [proposalSigningMessage E (proposalHash E p) ActPropose]"
    and acc: "accounts w a = Some g" and ty: "typedProposal p"
  shows "\<exists>evs. transact E w a (Propose p (getOwnerWitness owners) pk sg
       (getNullifierWitness E nus (proposalHash E p) pk) (getApprovalWitness E aps (proposalHash E p))) =
    Inr (w\<lparr>accounts := (accounts w)(a := Some (voteUpdate E aps nus (proposalHash E p) pk 2 g))\<rparr>, evs)"
  using propose_live [OF E s v o(1) n c sh sg] acc ty length_getOwnerWitness [OF o(2)]
  by (auto simp: transact_def)

lemma approve_transact:
  assumes E: "soundEnv E" "base58Laws E" and s: "synced E g owners aps nus" and v: "votable w a g p"
    and o: "isOwner E owners pk" "length owners \<le> MAX_OWNERS" and n: "\<not> isNullified E nus (proposalHash E p) pk"
    and c: "PROPOSED_MARKER \<le> getCount E aps (proposalHash E p)" "\<not> isExecuted E aps (proposalHash E p)"
    and sg: "verifySignature E sg pk [proposalSigningMessage E (proposalHash E p) ActApprove]"
    and acc: "accounts w a = Some g" and ty: "typedProposal p"
  shows "\<exists>evs. transact E w a (ApproveProposal p sg pk (getOwnerWitness owners)
       (getApprovalWitness E aps (proposalHash E p)) (getCount E aps (proposalHash E p))
       (getNullifierWitness E nus (proposalHash E p) pk)) =
    Inr (w\<lparr>accounts := (accounts w)(a := Some (voteUpdate E aps nus (proposalHash E p) pk
       (fieldAdd E (getCount E aps (proposalHash E p)) 1) g))\<rparr>, evs)"
  using approve_live [OF E s v o(1) n c sg] acc ty length_getOwnerWitness [OF o(2)]
  by (auto simp: transact_def)

definition voteState ::
  "('m, 'w, 's) o1js \<Rightarrow> pubkey \<Rightarrow> proposal \<Rightarrow> pubkey list \<Rightarrow> guard \<Rightarrow> nat \<Rightarrow>
     world \<times> 'm approvalStore \<times> 'm nullifierStore \<Rightarrow> bool" where
  "voteState E a p owners g c = (\<lambda>(w, aps, nus). accounts w a = Some g \<and> synced E g owners aps nus \<and>
     votable w a g p \<and> getCount E aps (proposalHash E p) = int c)"

text \<open>One vote keeps the state of the run, with one vote more, and leaves everything but the two
  roots of the guard alone.\<close>

lemma vote_one:
  assumes E: "soundEnv E" "base58Laws E" and st: "voteState E a p owners g c (w, aps, nus)"
    and p: "typedProposal p"
    and o: "isOwner E owners pk" "length owners \<le> MAX_OWNERS" and n: "\<not> isNullified E nus (proposalHash E p) pk"
    and c: "1 \<le> c" "int c + 1 < fieldOrder E"
    and sg: "verifySignature E sg pk [proposalSigningMessage E (proposalHash E p) ActApprove]"
  obtains w' g' evs where
    "transact E w a (ApproveProposal p sg pk (getOwnerWitness owners) (getApprovalWitness E aps (proposalHash E p))
       (int c) (getNullifierWitness E nus (proposalHash E p) pk)) = Inr (w', evs)"
    "voteState E a p owners g' (Suc c) (w', setCount E aps (proposalHash E p) (int (Suc c)), nullify E nus (proposalHash E p) pk)"
    "g' = voteUpdate E aps nus (proposalHash E p) pk (int (Suc c)) g"
    "w' = w\<lparr>accounts := (accounts w)(a := Some g')\<rparr>"
proof -
  from st have acc: "accounts w a = Some g" and s: "synced E g owners aps nus" and v: "votable w a g p"
    and cnt: "getCount E aps (proposalHash E p) = int c" by (simp_all add: voteState_def)
  note big = fieldLarge_pos [OF soundEnv_fieldLarge [OF E(1)]]
  have c1: "fieldAdd E (int c) 1 = int (Suc c)" using c by (simp add: fieldAdd_def)
  have ne: "\<not> isExecuted E aps (proposalHash E p)"
    using c cnt EXECUTED_MARKER_eq [OF soundEnv_fieldLarge [OF E(1)]]
    by (simp add: isExecuted_def getCount_def EXECUTED_MARKER_def)
  define g' where "g' = voteUpdate E aps nus (proposalHash E p) pk (int (Suc c)) g"
  define w' where "w' = w\<lparr>accounts := (accounts w)(a := Some g')\<rparr>"
  have "PROPOSED_MARKER \<le> getCount E aps (proposalHash E p)" using c cnt by (simp add: PROPOSED_MARKER_def)
  from approve_transact [OF E s v o n this ne sg acc p] obtain evs where
    t: "transact E w a (ApproveProposal p sg pk (getOwnerWitness owners) (getApprovalWitness E aps (proposalHash E p))
       (int c) (getNullifierWitness E nus (proposalHash E p) pk)) = Inr (w', evs)"
    unfolding cnt c1 g'_def w'_def by blast
  have "votable w' a g' p"
    using v votable_vote [OF acc] by (simp add: w'_def g'_def voteUpdate_def)
  moreover have "synced E g' owners (setCount E aps (proposalHash E p) (int (Suc c))) (nullify E nus (proposalHash E p) pk)"
    unfolding g'_def by (rule synced_vote [OF E(1) s])
  moreover have "getCount E (setCount E aps (proposalHash E p) (int (Suc c))) (proposalHash E p) = int (Suc c)"
    by (simp add: ap.read_write [OF soundEnv_merkle [OF E(1)]])
  ultimately have "voteState E a p owners g' (Suc c)
      (w', setCount E aps (proposalHash E p) (int (Suc c)), nullify E nus (proposalHash E p) pk)"
    by (simp add: voteState_def w'_def)
  with t show ?thesis using that g'_def w'_def by blast
qed

lemma voteAll_succeeds:
  assumes E: "soundEnv E" "base58Laws E" and p: "typedProposal p"
    and o: "length owners \<le> MAX_OWNERS"
  shows "voteState E a p owners g c (w, aps, nus) \<Longrightarrow> 1 \<le> c \<Longrightarrow> int c + int (length vs) < fieldOrder E \<Longrightarrow>
    distinct (map fst vs) \<Longrightarrow>
    (\<And>pk sg. (pk, sg) \<in> set vs \<Longrightarrow> isOwner E owners pk \<and> \<not> isNullified E nus (proposalHash E p) pk \<and>
       verifySignature E sg pk [proposalSigningMessage E (proposalHash E p) ActApprove]) \<Longrightarrow>
    \<exists>w' aps' nus' g'. voteAll E a p owners (w, aps, nus) vs = Inr (w', aps', nus') \<and>
      voteState E a p owners g' (c + length vs) (w', aps', nus') \<and>
      (\<exists>r1 r2. g' = g\<lparr>voteNullifierRoot := r1, approvalRoot := r2\<rparr>) \<and>
      balances w' = balances w \<and> globalSlot w' = globalSlot w"
proof (induction vs arbitrary: w aps nus g c)
  case Nil
  have "\<exists>r1 r2. g = g\<lparr>voteNullifierRoot := r1, approvalRoot := r2\<rparr>"
    by (intro exI [of _ "voteNullifierRoot g"] exI [of _ "approvalRoot g"]) simp
  with Nil.prems show ?case by fastforce
next
  case (Cons v vs)
  obtain pk sg where vs: "v = (pk, sg)" by (cases v)
  let ?h = "proposalHash E p"
  have cnt: "getCount E aps ?h = int c" using Cons.prems(1) by (simp add: voteState_def)
  have pk: "isOwner E owners pk" "\<not> isNullified E nus ?h pk"
    "verifySignature E sg pk [proposalSigningMessage E ?h ActApprove]" using Cons.prems(5) vs by auto
  have b1: "int c + 1 < fieldOrder E" using Cons.prems(3) by simp
  obtain w1 g1 evs where one:
    "transact E w a (ApproveProposal p sg pk (getOwnerWitness owners) (getApprovalWitness E aps ?h) (int c)
       (getNullifierWitness E nus ?h pk)) = Inr (w1, evs)"
    "voteState E a p owners g1 (Suc c) (w1, setCount E aps ?h (int (Suc c)), nullify E nus ?h pk)"
    "g1 = voteUpdate E aps nus ?h pk (int (Suc c)) g" "w1 = w\<lparr>accounts := (accounts w)(a := Some g1)\<rparr>"
    by (rule vote_one [OF E Cons.prems(1) p pk(1) o pk(2) Cons.prems(2) b1 pk(3)])
  have run: "voteAll E a p owners (w, aps, nus) (v # vs) =
      voteAll E a p owners (w1, setCount E aps ?h (int (Suc c)), nullify E nus ?h pk) vs"
    using one(1) b1 by (simp add: vs cnt Let_def fieldAdd_def add.commute [of 1])
  have inv: "nullifierStoreInv E nus" using Cons.prems(1) by (simp add: voteState_def synced_def)
  have rest: "isOwner E owners pk' \<and> \<not> isNullified E (nullify E nus ?h pk) ?h pk' \<and>
       verifySignature E sg' pk' [proposalSigningMessage E ?h ActApprove]" if "(pk', sg') \<in> set vs" for pk' sg'
  proof -
    have "pk' \<noteq> pk" using Cons.prems(4) that vs by (auto simp: image_iff)
    then show ?thesis using Cons.prems(5) [of pk' sg'] that isNullified_nullify [OF E(1) inv] by auto
  qed
  have small: "int (Suc c) + int (length vs) < fieldOrder E" "distinct (map fst vs)"
    using Cons.prems(3,4) by auto
  from Cons.IH [OF one(2) _ small rest] obtain w' aps' nus' g' r1 r2 where
    "voteAll E a p owners (w1, setCount E aps ?h (int (Suc c)), nullify E nus ?h pk) vs = Inr (w', aps', nus')"
    "voteState E a p owners g' (Suc c + length vs) (w', aps', nus')"
    "g' = g1\<lparr>voteNullifierRoot := r1, approvalRoot := r2\<rparr>" "balances w' = balances w1" "globalSlot w' = globalSlot w1"
    by auto
  then show ?case unfolding run using one(3,4) by (auto simp: voteUpdate_def)
qed

text \<open>Payments of a transfer settle when the account can cover their sum.\<close>

lemma settle_covered:
  "(\<Sum>(to, amount) \<leftarrow> sends. unat amount) \<le> b a \<Longrightarrow> \<exists>b'. settle a sends b = Inr b'"
proof (induction sends arbitrary: b)
  case (Cons s rest)
  obtain to amount where s: "s = (to, amount)" by (cases s)
  define b1 where "b1 = b(a := b a - unat amount)"
  define b2 where "b2 = b1(to := b1 to + unat amount)"
  have "(\<Sum>(to, amount) \<leftarrow> rest. unat amount) \<le> b2 a" using Cons.prems s by (auto simp: b2_def b1_def)
  then have "\<exists>b'. settle a rest b2 = Inr b'" by (rule Cons.IH)
  with Cons.prems s show ?case by (simp add: Let_def b2_def b1_def del: fun_upd_apply)
qed simp

lemma sum_executeTransfers:
  "(\<Sum>(to, amount) \<leftarrow> executeTransfers a p. unat amount) =
     (\<Sum>r \<leftarrow> pReceivers p. if rAddress r = emptyKey then 0 else unat (rAmount r))"
  by (simp add: executeTransfers_def Let_def comp_def if_distrib [of unat] cong: if_cong)

lemma transfer_transact:
  assumes E: "soundEnv E" and s: "synced E g owners aps nus" and x: "executable E w a g p"
    and ty: "typedProposal p" "pTxType p = TxType TRANSFER" and acc: "accounts w a = Some g"
    and c: "fieldAdd E (threshold g) 1 \<le> getCount E aps (proposalHash E p)" "1 \<le> getCount E aps (proposalHash E p)"
    "\<not> isExecuted E aps (proposalHash E p)"
    and bal: "(\<Sum>r \<leftarrow> pReceivers p. if rAddress r = emptyKey then 0 else unat (rAmount r)) \<le> balances w a"
  shows "isOk (transact E w a (ExecuteTransfer p (getApprovalWitness E aps (proposalHash E p))
      (getCount E aps (proposalHash E p))))"
proof -
  have "executeTransfer E w a g p (getApprovalWitness E aps (proposalHash E p)) (getCount E aps (proposalHash E p)) =
    Inr (g\<lparr>nonce := fieldAdd E (nonce g) 1,
        approvalRoot := getApprovalRoot E (setCount E aps (proposalHash E p) (EXECUTED_MARKER E))\<rparr>,
      [ExecutionEvent (proposalHash E p) (pTxType p) (getApprovalRoot E (setCount E aps (proposalHash E p) (EXECUTED_MARKER E)))],
      executeTransfers a p)"
    using x synced_nonzero [OF E s] ty execute_live [OF E s x c]
    by (simp add: executeTransfer_def executable_def assertChildMultiSigEnabledIfChild_def
        getInitializedOwnersCommitment_def assertLocalProposal_def Let_def)
  moreover obtain b' where "settle a (executeTransfers a p) (balances w) = Inr b'"
    using settle_covered [of "executeTransfers a p" "balances w" a] bal by (auto simp: sum_executeTransfers)
  ultimately show ?thesis using acc ty by (simp add: transact_def)
qed

section \<open>Liveness\<close>

text \<open>C13: Any owners can carry a proposed transfer through. If a client's stores mirror the guard, the
  transfer is the next local proposal, its votes so far are \<open>c - 1\<close>, and the further voters are
  distinct owners who have not voted and sign, then collecting their votes in any order succeeds;
  once the votes reach the threshold and the balance covers the payments, executing the transfer
  with the witness from the store succeeds.\<close>

theorem owners_can_execute:
  assumes E: "soundEnv E" "base58Laws E" and p: "typedProposal p" "pTxType p = TxType TRANSFER"
    and x: "executable E w a g p" and ch: "pChildAccount p = emptyKey"
    and acc: "accounts w a = Some g" and s: "synced E g owners aps nus" and o: "length owners \<le> MAX_OWNERS"
    and g: "0 \<le> nonce g" "nonce g + 1 < fieldOrder E" "0 \<le> threshold g"
    and c: "getCount E aps (proposalHash E p) = int c" "1 \<le> c"
    and bound: "int c + int (length vs) + 1 < fieldOrder E"
    and vs: "distinct (map fst vs)"
      "\<forall>(pk, sg) \<in> set vs. isOwner E owners pk \<and> \<not> isNullified E nus (proposalHash E p) pk \<and>
         verifySignature E sg pk [proposalSigningMessage E (proposalHash E p) ActApprove]"
    and quorum: "threshold g + 1 \<le> int c + int (length vs)"
    and bal: "(\<Sum>r \<leftarrow> pReceivers p. if rAddress r = emptyKey then 0 else unat (rAmount r)) \<le> balances w a"
  shows "\<exists>w' aps' nus'. voteAll E a p owners (w, aps, nus) vs = Inr (w', aps', nus') \<and>
    isOk (transact E w' a (ExecuteTransfer p (getApprovalWitness E aps' (proposalHash E p))
      (getCount E aps' (proposalHash E p))))"
proof -
  have loc: "pDestination p = Destination LOCAL" using x by (simp add: executable_def)
  have n1: "fieldAdd E (nonce g) 1 = nonce g + 1" using g by (simp add: fieldAdd_def)
  have "votable w a g p" using x acc ch n1 by (auto simp: votable_local [OF loc] executable_def)
  then have "voteState E a p owners g c (w, aps, nus)" using acc s c by (simp add: voteState_def)
  from voteAll_succeeds [OF E p(1) o this c(2) _ vs(1)] bound vs(2) obtain w' aps' nus' g' r1 r2 where
    run: "voteAll E a p owners (w, aps, nus) vs = Inr (w', aps', nus')"
    and st: "voteState E a p owners g' (c + length vs) (w', aps', nus')"
    and g': "g' = g\<lparr>voteNullifierRoot := r1, approvalRoot := r2\<rparr>" and w': "balances w' = balances w" "globalSlot w' = globalSlot w"
    by fastforce
  have s': "synced E g' owners aps' nus'" and acc': "accounts w' a = Some g'"
    and cnt: "getCount E aps' (proposalHash E p) = int c + int (length vs)" using st by (simp_all add: voteState_def)
  have x': "executable E w' a g' p" using x g' w' by (simp add: executable_def notExpired_def)
  have t: "fieldAdd E (threshold g') 1 = threshold g + 1" using g' g quorum bound by (simp add: fieldAdd_def)
  have ne: "\<not> isExecuted E aps' (proposalHash E p)"
    using bound cnt EXECUTED_MARKER_eq [OF soundEnv_fieldLarge [OF E(1)]]
    by (simp add: isExecuted_def getCount_def EXECUTED_MARKER_def)
  have "isOk (transact E w' a (ExecuteTransfer p (getApprovalWitness E aps' (proposalHash E p))
      (getCount E aps' (proposalHash E p))))"
    by (rule transfer_transact [OF E(1) s' x' p acc' _ _ ne]) (use t cnt quorum c bal w' in auto)
  with run show ?thesis by blast
qed

end
