(* ===== verification/Offline_Build.thy ===== *)
theory Offline_Build
  imports Offline_Bundle Guard_Liveness
begin

text \<open>
  Building transactions in the offline command line (\<open>offline-cli/src/build-tx.ts\<close>): the proposal struct
  from a bundle, the account snapshots and the verified stores, and the three handlers. A handler yields
  the contract calls it puts into the transaction, with sender, fee and memo. Compiling, proving and the
  network come from o1js, signatures, private keys, token ids and the reading of contract state from an
  injected account from o1js and mina-signer: they are the record \<open>signer\<close>, an argument of the handlers.
  The contract methods run on the ledger (\<open>Guard_World\<close>), not while the transaction is built.
\<close>

section \<open>Building a proposal\<close>

definition uiTxTypeToField :: "txType \<Rightarrow> field" where
  "uiTxTypeToField t = (case t of TRANSFER \<Rightarrow> 0 | ADD_OWNER \<Rightarrow> 1 | REMOVE_OWNER \<Rightarrow> 2 | CHANGE_THRESHOLD \<Rightarrow> 3
     | SET_DELEGATE \<Rightarrow> 4 | CREATE_CHILD \<Rightarrow> 5 | ALLOCATE_CHILD \<Rightarrow> 6 | RECLAIM_CHILD \<Rightarrow> 7 | DESTROY_CHILD \<Rightarrow> 8
     | ENABLE_CHILD_MULTI_SIG \<Rightarrow> 9)"

definition CHILD_LIFECYCLE_TYPES :: "txType list" where
  "CHILD_LIFECYCLE_TYPES = [RECLAIM_CHILD, DESTROY_CHILD, ENABLE_CHILD_MULTI_SIG]"

definition safePublicKey :: "('m, 'w, 's) o1js \<Rightarrow> string option \<Rightarrow> pubkey" where
  "safePublicKey E base58 = (case base58 of None \<Rightarrow> emptyKey
     | Some s \<Rightarrow> if s = [] then emptyKey else (case fromBase58 E s of None \<Rightarrow> emptyKey | Some pk \<Rightarrow> pk))"

text \<open>The type of the input is the canonical one, which the handler writes into its copy of the input.\<close>

definition governanceTargetAddress :: "txType \<Rightarrow> proposalInput \<Rightarrow> string option" where
  "governanceTargetAddress t input =
     (if t = ADD_OWNER then piNewOwner input
      else if t = REMOVE_OWNER then piRemoveOwnerAddress input
      else if t = SET_DELEGATE \<and> \<not> piUndelegate input then piDelegate input
      else None)"

definition transferReceiver :: "('m, 'w, 's) o1js \<Rightarrow> bundleReceiver \<Rightarrow> receiver result" where
  "transferReceiver E r =
     andAlso (if brAddress r = EMPTY_PUBKEY_B58 E
        then andThen (toBigInt (brAmount r)) (\<lambda>n. require (n = 0) ''Empty receiver must have zero amount'' (Inr ()))
        else Inr ())
     (andThen (if brAddress r = EMPTY_PUBKEY_B58 E then Inr emptyKey else parseKey E (brAddress r)) (\<lambda>pk.
      andThen (uint64FromText (brAmount r)) (\<lambda>amount.
      Inr \<lparr>rAddress = pk, rAmount = amount\<rparr>)))"

definition padReceivers :: "receiver list \<Rightarrow> receiver list" where
  "padReceivers rs = take MAX_RECEIVERS (rs @ replicate (MAX_RECEIVERS - length rs) emptyReceiver)"

definition buildTransferReceivers :: "('m, 'w, 's) o1js \<Rightarrow> bundleReceiver list \<Rightarrow> receiver list result" where
  "buildTransferReceivers E receivers = andThen (traverse (transferReceiver E) receivers) (\<lambda>rs. Inr (padReceivers rs))"

text \<open>\<open>isEmpty\<close> of an o1js key looks at its x-coordinate only.\<close>

definition keyIsEmpty :: "pubkey \<Rightarrow> bool" where
  "keyIsEmpty pk \<longleftrightarrow> pkX pk = 0"

fun countNewReceiverAccounts :: "('m, 'w, 's) o1js \<Rightarrow> receiver list \<Rightarrow> (string \<Rightarrow> bool) \<Rightarrow> nat" where
  "countNewReceiverAccounts E [] accountExists = 0"
| "countNewReceiverAccounts E (r # rs) accountExists =
     (if keyIsEmpty (rAddress r) then countNewReceiverAccounts E rs accountExists
      else if \<not> accountExists (toBase58 E (rAddress r)) then Suc (countNewReceiverAccounts E rs accountExists)
      else countNewReceiverAccounts E rs accountExists)"

definition existsFlag :: "(string \<times> json) list option \<Rightarrow> string \<Rightarrow> bool" where
  "existsFlag flags addr = (case flags of None \<Rightarrow> False | Some m \<Rightarrow> map_of m addr = Some (JBool True))"

definition countExecuteNewAccounts :: "('m, 'w, 's) o1js \<Rightarrow> executeBundle \<Rightarrow> nat result" where
  "countExecuteNewAccounts E bundle =
     andThen (requireTxType (bpTxType (abProposal bundle))) (\<lambda>t.
       if t \<noteq> TRANSFER then Inr 0
       else andThen (buildTransferReceivers E (bpReceivers (abProposal bundle))) (\<lambda>rs.
         Inr (countNewReceiverAccounts E rs (existsFlag (ebReceiverAccountExists bundle)))))"

datatype deployTarget = NewAccount | ExistingAccount

definition deployTargetFromSnapshot :: "bundleAccount option \<Rightarrow> deployTarget result" where
  "deployTargetFromSnapshot snapshot = (case snapshot of None \<Rightarrow> Inr NewAccount
     | Some a \<Rightarrow> (let hasState = list_ex (\<lambda>v. v \<noteq> ''0'') (orDefault (baZkappState a) [])
         in require (baVerificationKey a = None \<and> \<not> hasState) ''The child address already holds a zkApp'' (Inr ExistingAccount)))"

definition buildReceiversForProposal :: "('m, 'w, 's) o1js \<Rightarrow> txType \<Rightarrow> proposalInput \<Rightarrow> receiver list result" where
  "buildReceiversForProposal E t input =
     (if t = TRANSFER \<or> t = ALLOCATE_CHILD then buildTransferReceivers E (orDefault (piReceivers input) [])
      else let arr = replicate MAX_RECEIVERS emptyReceiver; target = governanceTargetAddress t input
        in if truthyText target
           then andThen (parseKey E (the target)) (\<lambda>pk. Inr (arr[0 := \<lparr>rAddress = pk, rAmount = 0\<rparr>]))
           else Inr arr)"

definition buildProposalDataField ::
  "('m, 'w, 's) o1js \<Rightarrow> txType \<Rightarrow> proposalInput \<Rightarrow> pubkey list \<Rightarrow> field result" where
  "buildProposalDataField E t input owners =
     (if t = CHANGE_THRESHOLD then Inr (fieldOfInt E (orDefault (piNewThreshold input) 0))
      else if t = RECLAIM_CHILD then fieldFromText E (orDefault (piReclaimAmount input) ''0'')
      else if t = ENABLE_CHILD_MULTI_SIG then Inr (boolToField (piChildMultiSigEnable input))
      else if t = CREATE_CHILD then fieldFromText E (orDefault (piCreateChildConfigHash input) ''0'')
      else if t = ADD_OWNER \<and> truthyText (piNewOwner input)
        then andThen (parseKey E (the (piNewOwner input))) (\<lambda>pk. Inr (commitmentWithSortedAdd E owners pk))
      else Inr 0)"

definition approvedInsertAfter :: "('m, 'w, 's) o1js \<Rightarrow> pubkey list \<Rightarrow> pubkey \<Rightarrow> field \<Rightarrow> pkOption result" where
  "approvedInsertAfter E owners target dat = (case insertPositionFor E owners target (fieldToString dat) of
       None \<Rightarrow> Inl (AssertFail ''No position in the current owner list produces the approved owner commitment'')
     | Some position \<Rightarrow> Inr (if position = 0 then pkNone else pkJust (owners ! (position - 1))))"

definition assertExecutableAddOwnerData :: "('m, 'w, 's) o1js \<Rightarrow> proposal \<Rightarrow> pubkey list \<Rightarrow> unit result" where
  "assertExecutableAddOwnerData E p owners =
     (if pTxType p \<noteq> uiTxTypeToField ADD_OWNER then Inr ()
      else let target = rAddress (pReceivers p ! 0)
        in require (\<not> hasOwnerWithSameX owners target) ''addOwner target is already an owner or the negation of one''
          (require (insertPositionFor E owners target (fieldToString (pData p)) \<noteq> None)
             ''addOwner proposal data matches no position in the current owner list'' (Inr ())))"

definition buildProposalStruct :: "('m, 'w, 's) o1js \<Rightarrow> bundleProposal \<Rightarrow> string \<Rightarrow> proposal result" where
  "buildProposalStruct E p fallbackGuardAddress =
     andThen (requireTxType (bpTxType p)) (\<lambda>t.
     let destination = (if bpDestination p = Some ''remote'' then Destination REMOTE else Destination LOCAL);
         childAccount = (if truthyText (bpChildAccount p) then safePublicKey E (bpChildAccount p) else emptyKey)
     in case bpMemoHash p of None \<Rightarrow> Inl (AssertFail ''Proposal is missing its memo commitment'')
      | Some memoHash \<Rightarrow>
        andThen (buildTransferReceivers E (bpReceivers p)) (\<lambda>receivers.
        andThen (fieldFromText E (orDefault (bpTokenId p) (fieldToString NATIVE_TOKEN_ID))) (\<lambda>tokenId.
        andThen (fieldFromText E (orDefault (bpData p) ''0'')) (\<lambda>dat.
        andThen (fieldFromText E (orDefault (bpNonce p) ''0'')) (\<lambda>nonce.
        andThen (fieldFromText E (orDefault (bpConfigNonce p) ''0'')) (\<lambda>configNonce.
        andThen (fieldFromText E (orDefault (bpExpirySlot p) ''0'')) (\<lambda>expirySlot.
        andThen (fieldFromText E memoHash) (\<lambda>memo.
        Inr \<lparr>pReceivers = receivers, pTokenId = tokenId, pTxType = uiTxTypeToField t, pData = dat, pMemoHash = memo,
          pNonce = nonce, pConfigNonce = configNonce, pExpirySlot = expirySlot,
          pGuardAddress = safePublicKey E (Some (orDefault (bpGuardAddress p) fallbackGuardAddress)),
          pDestination = destination, pChildAccount = childAccount\<rparr>))))))))"

definition assertRecomputedProposalHash :: "field \<Rightarrow> string \<Rightarrow> unit result" where
  "assertRecomputedProposalHash recomputed expected =
     require (fieldToString recomputed = expected) ''the proposal fields do not hash to the declared proposal'' (Inr ())"

section \<open>Account snapshots and stores\<close>

record cachedAccount =
  caNonce :: "32 word"
  caBalance :: "64 word"
  caAppState :: "field list option"
  caVerificationKey :: "(string \<times> field) option"

record 's signer =
  sgSignFields :: "field list \<Rightarrow> string \<Rightarrow> 's option"
  sgPublicKey :: "string \<Rightarrow> pubkey option"
  sgTokenId :: "string \<Rightarrow> field option"
  sgState :: "cachedAccount \<Rightarrow> nat \<Rightarrow> field option"

type_synonym accountCache = "((pubkey \<times> field) \<times> cachedAccount) list"

definition uint32FromText :: "string \<Rightarrow> 32 word result" where
  "uint32FromText s = andThen (toBigInt s) (\<lambda>n.
     require (0 \<le> n \<and> n < 2 ^ 32) ''UInt32: out of range'' (Inr (word_of_int n)))"

definition partialAccount ::
  "('m, 'w, 's) o1js \<Rightarrow> 's signer \<Rightarrow> string \<Rightarrow> bundleAccount \<Rightarrow> ((pubkey \<times> field) \<times> cachedAccount) result" where
  "partialAccount E S address a =
     andThen (parseKey E address) (\<lambda>pk.
     andThen (if baToken a = [] then Inr NATIVE_TOKEN_ID
        else case sgTokenId S (baToken a) of None \<Rightarrow> Inl (AssertFail ''TokenId.fromBase58'') | Some t \<Rightarrow> Inr t) (\<lambda>token.
     andThen (uint32FromText (baNonce a)) (\<lambda>nonce.
     andThen (uint64FromText (baBalance a)) (\<lambda>balance.
     case baZkappState a of
       None \<Rightarrow> Inr ((pk, token), \<lparr>caNonce = nonce, caBalance = balance, caAppState = None, caVerificationKey = None\<rparr>)
     | Some values \<Rightarrow>
         andThen (traverse (fieldFromText E) values) (\<lambda>appState.
         andThen (case baVerificationKey a of None \<Rightarrow> Inr None
            | Some (key, hash) \<Rightarrow> andThen (fieldFromText E hash) (\<lambda>h. Inr (Some (key, h)))) (\<lambda>vk.
         Inr ((pk, token), \<lparr>caNonce = nonce, caBalance = balance, caAppState = Some appState, caVerificationKey = vk\<rparr>)))))))"

text \<open>An account that cannot be read is skipped with a warning; a later one overwrites an earlier one.\<close>

definition injectAccounts ::
  "('m, 'w, 's) o1js \<Rightarrow> 's signer \<Rightarrow> (string \<times> bundleAccount) list \<Rightarrow> accountCache" where
  "injectAccounts E S entries = foldl (\<lambda>cache (address, a). case partialAccount E S address a of
       Inl _ \<Rightarrow> cache | Inr (key, account) \<Rightarrow> jsSet key account cache) [] entries"

record snapshot = chainState +
  ssChildExecutionRoot :: "string option"

text \<open>The offsets are the positions of the state fields of the contract; a key takes two.\<close>

definition snapshotState :: "('m, 'w, 's) o1js \<Rightarrow> 's signer \<Rightarrow> accountCache \<Rightarrow> string \<Rightarrow> snapshot result" where
  "snapshotState E S cache address =
     andThen (parseKey E address) (\<lambda>pk.
     case map_of cache (pk, NATIVE_TOKEN_ID) of
       None \<Rightarrow> Inl (AssertFail ''Bundle has no usable account snapshot'')
     | Some account \<Rightarrow>
        (case (sgState S account 0, sgState S account 5, sgState S account 4, sgState S account 10) of
           (Some oc, Some ar, Some vnr, Some cer) \<Rightarrow>
             Inr \<lparr>csOwnersCommitment = Some (fieldToString oc), csApprovalRoot = Some (fieldToString ar),
               csVoteNullifierRoot = Some (fieldToString vnr), ssChildExecutionRoot = Some (fieldToString cer)\<rparr>
         | _ \<Rightarrow> Inl (AssertFail ''Bundle has no usable account snapshot'')))"

definition requestOf :: "'a bundleBase_scheme \<Rightarrow> offlineRequest" where
  "requestOf b = \<lparr>orVersion = bbVersion b, orNetwork = bbNetwork b, orContract = bbContract b,
     orEvents = bbEvents b, orCheckpoint = bbCheckpoint b\<rparr>"

definition rebuildVerifiedStores ::
  "('m, 'w, 's) o1js \<Rightarrow> 's signer \<Rightarrow> accountCache \<Rightarrow> 'a bundleBase_scheme \<Rightarrow> 'm rebuiltStores result" where
  "rebuildVerifiedStores E S cache b =
     andThen (snapshotState E S cache (bbContract b)) (\<lambda>s. storesFromOfflineRequest E (requestOf b) (chainState.truncate s))"

end
