(* ===== verification/Web_Records.thy ===== *)
theory Web_Records
  imports Offline_Build
begin

text \<open>
  What the browser makes of the backend's answers (\<open>ui/lib/types.ts\<close>, \<open>ui/lib/api.ts\<close>): the normalisation of
  loosely typed JSON into records, the proposal record an owner reads and signs from, the paged reads of
  vaults and events, and the reservation of a child read back from its events. The network is a function
  from a query to an answer.
\<close>

section \<open>Types and their texts\<close>

record uiReceiver =
  urIndex :: int
  urAddress :: string
  urAmount :: string

datatype proposalStatus = PendingStatus | ExecutedStatus | ExpiredStatus | InvalidatedStatus

datatype proposalDestination = LocalDestination | RemoteDestination

record webProposal =
  wpProposalHash :: string
  wpProposer :: "string option"
  wpToAddress :: "string option"
  wpTokenId :: "string option"
  wpTxType :: "txType option"
  wpData :: "string option"
  wpNonce :: "string option"
  wpConfigNonce :: "string option"
  wpExpirySlot :: "string option"
  wpGuardAddress :: "string option"
  wpMemo :: "string option"
  wpMemoHash :: "string option"
  wpProposalMemoMatch :: "bool option"
  wpMemoExecutionMatch :: "bool option"
  wpDestination :: "proposalDestination option"
  wpChildAccount :: "string option"
  wpStatus :: proposalStatus
  wpInvalidReason :: "string option"
  wpChildTargetIndexed :: "bool option"
  wpApprovalCount :: int
  wpCreatedAtBlock :: "int option"
  wpExecutedAtBlock :: "int option"
  wpExecutionTxHash :: "string option"
  wpLastApproveTxHash :: "string option"
  wpLastExecuteTxHash :: "string option"
  wpLastApproveError :: "string option"
  wpLastExecuteError :: "string option"
  wpCreatedAt :: string
  wpUpdatedAt :: string
  wpReceivers :: "uiReceiver list"
  wpRecipientCount :: nat
  wpTotalAmount :: "string option"

definition sumReceiverAmounts :: "uiReceiver list \<Rightarrow> int result" where
  "sumReceiverAmounts receivers = andThen (traverse (\<lambda>r. toBigInt (urAmount r)) receivers) (\<lambda>ns. Inr (sum_list ns))"

definition parseTxType :: "string option \<Rightarrow> txType option" where
  "parseTxType value = (case value of None \<Rightarrow> None
     | Some v \<Rightarrow> (if v = ''0'' then Some TRANSFER else if v = ''1'' then Some ADD_OWNER
         else if v = ''2'' then Some REMOVE_OWNER else if v = ''3'' then Some CHANGE_THRESHOLD
         else if v = ''4'' then Some SET_DELEGATE else if v = ''5'' then Some CREATE_CHILD
         else if v = ''6'' then Some ALLOCATE_CHILD else if v = ''7'' then Some RECLAIM_CHILD
         else if v = ''8'' then Some DESTROY_CHILD else if v = ''9'' then Some ENABLE_CHILD_MULTI_SIG else None))"

definition webNormalizeTxType :: "string option \<Rightarrow> txType option" where
  "webNormalizeTxType value =
     (if \<not> truthyText value then None
      else case find (\<lambda>t. txTypeName t = the value) TX_TYPES of Some t \<Rightarrow> Some t | None \<Rightarrow> parseTxType value)"

definition webNormalizeDestination :: "string option \<Rightarrow> proposalDestination option" where
  "webNormalizeDestination value = (case value of None \<Rightarrow> None
     | Some v \<Rightarrow> if v = ''local'' \<or> v = ''0'' then Some LocalDestination
         else if v = ''remote'' \<or> v = ''1'' then Some RemoteDestination else None)"

text \<open>A deletion: a local transfer without receivers, or a remote reclaim of nothing.\<close>

definition isDeleteProposal :: "webProposal option \<Rightarrow> bool" where
  "isDeleteProposal p = (case p of None \<Rightarrow> False
     | Some q \<Rightarrow>
        (if wpTxType q = Some TRANSFER \<and> wpDestination q = Some LocalDestination then wpReceivers q = []
         else if wpTxType q = Some RECLAIM_CHILD \<and> wpDestination q = Some RemoteDestination then wpData q = Some ''0''
         else False))"

definition nextAvailableNonce :: "int option \<Rightarrow> webProposal list \<Rightarrow> int option" where
  "nextAvailableNonce contractNonce proposals = (case contractNonce of None \<Rightarrow> None
     | Some n0 \<Rightarrow> Some (foldl (\<lambda>acc p. if wpStatus p \<noteq> PendingStatus then acc
          else case jsNumber (orDefault (wpNonce p) '''') of Some n \<Rightarrow> max acc n | None \<Rightarrow> acc) n0 proposals + 1))"

definition truncateAddress :: "string \<Rightarrow> nat \<Rightarrow> string" where
  "truncateAddress addr chars = (if length addr \<le> chars * 2 + 3 then addr
     else take chars addr @ ''...'' @ drop (length addr - chars) addr)"

section \<open>Loosely typed values\<close>

definition asJsonText :: "json option \<Rightarrow> string option" where
  "asJsonText value = (case value of Some (JStr s) \<Rightarrow> Some s | Some (JNum n) \<Rightarrow> Some (intToString n)
     | Some (JBool b) \<Rightarrow> Some (if b then ''true'' else ''false'') | _ \<Rightarrow> None)"

definition asNullableNumber :: "json option \<Rightarrow> int option" where
  "asNullableNumber value = (case value of Some (JNum n) \<Rightarrow> Some n | Some (JStr s) \<Rightarrow> jsNumber s | _ \<Rightarrow> None)"

definition asCount :: "json option \<Rightarrow> int" where
  "asCount value = orDefault (asNullableNumber value) 0"

definition asBoolean :: "json option \<Rightarrow> bool" where
  "asBoolean value = (case value of Some (JBool b) \<Rightarrow> b | Some (JStr s) \<Rightarrow> s = ''true'' \<or> s = ''1''
     | Some (JNum n) \<Rightarrow> n = 1 | _ \<Rightarrow> False)"

definition asNullableBoolean :: "json option \<Rightarrow> bool option" where
  "asNullableBoolean value = (case value of Some (JBool b) \<Rightarrow> Some b
     | Some (JStr s) \<Rightarrow> (if s = ''true'' \<or> s = ''1'' then Some True
         else if s = ''false'' \<or> s = ''0'' then Some False else None)
     | Some (JNum n) \<Rightarrow> Some (n = 1) | _ \<Rightarrow> None)"

definition asProposalStatus :: "json option \<Rightarrow> proposalStatus" where
  "asProposalStatus value = (let t = asJsonText value
     in if t = Some ''executed'' then ExecutedStatus else if t = Some ''expired'' then ExpiredStatus
        else if t = Some ''invalidated'' then InvalidatedStatus else PendingStatus)"

definition asMemoMatch :: "json option \<Rightarrow> bool option" where
  "asMemoMatch value = (case value of Some (JBool b) \<Rightarrow> Some b | _ \<Rightarrow> None)"

definition asReceivers :: "json option \<Rightarrow> uiReceiver list" where
  "asReceivers value = (case value of
       Some (JArr items) \<Rightarrow> map (\<lambda>(index, item). \<lparr>urIndex = orDefault (asNullableNumber (jsGet item ''index'')) (int index),
         urAddress = orDefault (asJsonText (jsGet item ''address'')) '''',
         urAmount = orDefault (asJsonText (jsGet item ''amount'')) ''0''\<rparr>) (List.enumerate 0 items)
     | _ \<Rightarrow> [])"

definition EPOCH :: string where
  "EPOCH = ''1970-01-01T00:00:00.000Z''"

text \<open>The proposal that is shown and signed. The total, the count and the target come from the receivers.\<close>

definition toProposal :: "json \<Rightarrow> webProposal result" where
  "toProposal input =
     (let receivers = take MAX_RECEIVERS (asReceivers (jsGet input ''receivers''));
          field = (\<lambda>key. asJsonText (jsGet input key))
      in andThen (if receivers \<noteq> [] then andThen (sumReceiverAmounts receivers) (\<lambda>n. Inr (Some (intToString n))) else Inr None) (\<lambda>total.
         Inr \<lparr>wpProposalHash = orDefault (field ''proposalHash'') '''', wpProposer = field ''proposer'',
           wpToAddress = (case receivers of [] \<Rightarrow> None | r # _ \<Rightarrow> Some (urAddress r)),
           wpTokenId = field ''tokenId'', wpTxType = webNormalizeTxType (field ''txType''), wpData = field ''data'',
           wpNonce = (case field ''nonce'' of Some n \<Rightarrow> Some n | None \<Rightarrow> field ''uid''),
           wpConfigNonce = field ''configNonce'', wpExpirySlot = field ''expirySlot'', wpGuardAddress = field ''guardAddress'',
           wpMemo = field ''memo'', wpMemoHash = field ''memoHash'',
           wpProposalMemoMatch = asMemoMatch (jsGet input ''proposalMemoMatch''),
           wpMemoExecutionMatch = asMemoMatch (jsGet input ''memoExecutionMatch''),
           wpDestination = webNormalizeDestination (field ''destination''), wpChildAccount = field ''childAccount'',
           wpStatus = asProposalStatus (jsGet input ''status''), wpInvalidReason = field ''invalidReason'',
           wpChildTargetIndexed = asNullableBoolean (jsGet input ''childTargetIndexed''),
           wpApprovalCount = asCount (jsGet input ''approvalCount''),
           wpCreatedAtBlock = asNullableNumber (jsGet input ''createdAtBlock''),
           wpExecutedAtBlock = asNullableNumber (jsGet input ''executedAtBlock''),
           wpExecutionTxHash = field ''executionTxHash'',
           wpLastApproveTxHash = field ''lastApproveTxHash'', wpLastExecuteTxHash = field ''lastExecuteTxHash'',
           wpLastApproveError = field ''lastApproveError'', wpLastExecuteError = field ''lastExecuteError'',
           wpCreatedAt = orDefault (field ''createdAt'') EPOCH, wpUpdatedAt = orDefault (field ''updatedAt'') EPOCH,
           wpReceivers = receivers, wpRecipientCount = length receivers, wpTotalAmount = total\<rparr>))"

record contractSummary =
  csmAddress :: string
  csmActiveOwners :: "string list option"
  csmPermissionsVerified :: bool
  csmOwnersCommitment :: "string option"
  csmThreshold :: "int option"
  csmNumOwners :: "int option"
  csmNonce :: "int option"
  csmConfigNonce :: "int option"
  csmParent :: "string option"
  csmParentNonce :: "int option"
  csmChildMultiSigEnabled :: "bool option"
  csmDelegate :: "string option"
  csmDiscoveredAt :: string
  csmLastSyncedAt :: "string option"

definition textItems :: "json list \<Rightarrow> string list option" where
  "textItems items = (if list_all (\<lambda>v. case v of JStr _ \<Rightarrow> True | _ \<Rightarrow> False) items then Some (map jsString items) else None)"

definition toContractSummary :: "json \<Rightarrow> contractSummary" where
  "toContractSummary input =
     \<lparr>csmAddress = orDefault (asJsonText (jsGet input ''address'')) '''',
      csmActiveOwners = (case jsGet input ''activeOwnerAddresses'' of Some (JArr items) \<Rightarrow> textItems items | _ \<Rightarrow> None),
      csmPermissionsVerified = (jsGet input ''permissionsVerified'' = Some (JBool True)),
      csmOwnersCommitment = asJsonText (jsGet input ''ownersCommitment''),
      csmThreshold = asNullableNumber (jsGet input ''threshold''), csmNumOwners = asNullableNumber (jsGet input ''numOwners''),
      csmNonce = (case asNullableNumber (jsGet input ''nonce'') of Some n \<Rightarrow> Some n
        | None \<Rightarrow> asNullableNumber (jsGet input ''proposalCounter'')),
      csmConfigNonce = asNullableNumber (jsGet input ''configNonce''), csmParent = asJsonText (jsGet input ''parent''),
      csmParentNonce = asNullableNumber (jsGet input ''parentNonce''),
      csmChildMultiSigEnabled = asNullableBoolean (jsGet input ''childMultiSigEnabled''),
      csmDelegate = asJsonText (jsGet input ''delegate''),
      csmDiscoveredAt = orDefault (asJsonText (jsGet input ''discoveredAt'')) EPOCH,
      csmLastSyncedAt = asJsonText (jsGet input ''lastSyncedAt'')\<rparr>"


section \<open>Paged reads\<close>

text \<open>The list of vaults: a failed page empties the list, a page that is not full, brings nothing new or has
  no cursor ends it, and no more than 50 pages are read. \<open>ask\<close> answers a query with the cursor.\<close>

definition CONTRACTS_PAGE_LIMIT :: nat where
  "CONTRACTS_PAGE_LIMIT = 200"

definition CONTRACTS_MAX_PAGES :: nat where
  "CONTRACTS_MAX_PAGES = 50"

definition addContracts :: "(string \<times> contractSummary) list \<Rightarrow> json list \<Rightarrow> (string \<times> contractSummary) list" where
  "addContracts contracts items = foldl (\<lambda>m item. let c = toContractSummary item
     in if map_of m (csmAddress c) = None then jsSet (csmAddress c) c m else m) contracts items"

definition cursorOf :: "json \<Rightarrow> (string \<times> int) option" where
  "cursorOf item = (case (jsGet item ''discoveredAt'', jsGet item ''id'') of
       (Some (JStr d), Some (JNum i)) \<Rightarrow> Some (d, i) | _ \<Rightarrow> None)"

fun contractPages ::
  "((string \<times> int) option \<Rightarrow> json list option) \<Rightarrow> nat \<Rightarrow> (string \<times> int) option \<Rightarrow> (string \<times> contractSummary) list
     \<Rightarrow> contractSummary list" where
  "contractPages ask 0 cursor contracts = map snd contracts"
| "contractPages ask (Suc pages) cursor contracts = (case ask cursor of None \<Rightarrow> []
     | Some items \<Rightarrow> (let contracts' = addContracts contracts items
         in if length items \<noteq> CONTRACTS_PAGE_LIMIT \<or> length contracts' = length contracts then map snd contracts'
            else case cursorOf (last items) of None \<Rightarrow> map snd contracts'
              | Some c \<Rightarrow> contractPages ask pages (Some c) contracts'))"

definition fetchContracts :: "((string \<times> int) option \<Rightarrow> json list option) \<Rightarrow> contractSummary list" where
  "fetchContracts ask = contractPages ask CONTRACTS_MAX_PAGES None []"

text \<open>Events come newest first in pages of 500. Past the offset the backend would clamp, the read fails
  instead of repeating a page. A payload that is text is parsed, \<open>parse\<close> being \<open>JSON.parse\<close>.\<close>

record eventItem =
  evType :: string
  evPayload :: json
  evBlock :: "json option"

definition safeParseJson :: "(string \<Rightarrow> json option) \<Rightarrow> string \<Rightarrow> json" where
  "safeParseJson parse s = (case parse s of Some v \<Rightarrow> v | None \<Rightarrow> JObj [])"

definition eventOf :: "(string \<Rightarrow> json option) \<Rightarrow> eventItem \<Rightarrow> indexedEvent" where
  "eventOf parse e = \<lparr>eventType = evType e,
     payload = (case evPayload e of JStr s \<Rightarrow> safeParseJson parse s | v \<Rightarrow> v),
     blockHeight = (case evBlock e of Some (JNum n) \<Rightarrow> Some n | _ \<Rightarrow> None)\<rparr>"

datatype eventReply = EventHttpError | EventNotArray | EventBatch "eventItem list"

definition EVENTS_LIMIT :: nat where
  "EVENTS_LIMIT = 500"

definition EVENTS_MAX_OFFSET :: nat where
  "EVENTS_MAX_OFFSET = 50000"

function eventPages ::
  "(string \<Rightarrow> json option) \<Rightarrow> (nat \<Rightarrow> eventReply) \<Rightarrow> nat \<Rightarrow> indexedEvent list \<Rightarrow> indexedEvent list result" where
  "eventPages parse ask offset events =
     (if offset > EVENTS_MAX_OFFSET then Inl (AssertFail ''Event history exceeds the backend pagination limit'')
      else case ask offset of
          EventHttpError \<Rightarrow> Inl (AssertFail ''Could not fetch vault events'')
        | EventNotArray \<Rightarrow> Inl (AssertFail ''Invalid vault events response'')
        | EventBatch batch \<Rightarrow>
            (let events' = events @ map (eventOf parse) batch
             in if length batch < EVENTS_LIMIT then Inr events'
                else eventPages parse ask (offset + EVENTS_LIMIT) events'))"
  by pat_completeness auto

termination
  by (relation "measure (\<lambda>(parse, ask, offset, events). EVENTS_MAX_OFFSET + 1 - offset)")
    (auto simp: EVENTS_LIMIT_def EVENTS_MAX_OFFSET_def)

definition fetchAllEvents :: "(string \<Rightarrow> json option) \<Rightarrow> (nat \<Rightarrow> eventReply) \<Rightarrow> indexedEvent list result" where
  "fetchAllEvents parse ask = andThen (eventPages parse ask 0 []) (\<lambda>events. Inr (rev events))"

section \<open>The reservation of a child\<close>

text \<open>\<open>Number\<close> of a loosely typed value; \<open>None\<close> is not a number.\<close>

definition numberOfJson :: "json option \<Rightarrow> int option" where
  "numberOfJson v = (case v of None \<Rightarrow> None | Some JNull \<Rightarrow> Some 0 | Some (JBool b) \<Rightarrow> Some (if b then 1 else 0)
     | Some (JNum n) \<Rightarrow> Some n | Some (JStr s) \<Rightarrow> jsNumber s | Some (JArr vs) \<Rightarrow> jsNumber (jsString (JArr vs))
     | Some (JObj _) \<Rightarrow> None)"

definition numberOrZero :: "json option \<Rightarrow> int option" where
  "numberOrZero v = (case v of None \<Rightarrow> Some 0 | Some JNull \<Rightarrow> Some 0 | _ \<Rightarrow> numberOfJson v)"

definition slotOwner :: "string \<Rightarrow> indexedEvent list \<Rightarrow> nat \<Rightarrow> string result" where
  "slotOwner emptyText ownerEvts index =
     (case filter (\<lambda>e. numberOfJson (jsGet (payload e) ''index'') = Some (int index)) ownerEvts of
        [e] \<Rightarrow> (case jsGet (payload e) ''owner'' of
             Some (JStr owner) \<Rightarrow> require (\<not> length owner \<le> 10 \<and> owner \<noteq> emptyText) ''Invalid SubVault owner'' (Inr owner)
           | _ \<Rightarrow> Inl (AssertFail ''Invalid SubVault owner''))
      | _ \<Rightarrow> Inl (AssertFail ''SubVault owner slot is missing or duplicated''))"

definition parseChildConfigFromEvents ::
  "('m, 'w, 's) o1js \<Rightarrow> indexedEvent list \<Rightarrow> string \<Rightarrow> (string list \<times> int) option result" where
  "parseChildConfigFromEvents E events childAddress =
     (case filter (\<lambda>e. eventType e = ''createChildConfig'') events of
        [] \<Rightarrow> Inr None
      | [config] \<Rightarrow>
          require (jsGet (payload config) ''childAccount'' = Some (JStr childAddress)) ''SubVault reservation address mismatch''
          (case (numberOrZero (jsGet (payload config) ''threshold''), numberOrZero (jsGet (payload config) ''numOwners'')) of
             (Some thr, Some num) \<Rightarrow>
               require (1 \<le> num \<and> 1 \<le> thr \<and> thr \<le> num) ''Invalid SubVault reservation governance''
               (andThen (traverse (slotOwner (EMPTY_PUBKEY_B58 E) (filter (\<lambda>e. eventType e = ''createChildOwner'') events)) [0..<nat num])
                 (\<lambda>owners. Inr (Some (owners, thr))))
           | _ \<Rightarrow> Inl (AssertFail ''Invalid SubVault reservation governance''))
      | _ \<Rightarrow> Inl (AssertFail ''Multiple SubVault reservations found''))"

text \<open>\<open>computeCreateChildConfigHash\<close> of the worker, in the order given or sorted.\<close>

definition computeCreateChildConfigHash ::
  "('m, 'w, 's) o1js \<Rightarrow> string list \<Rightarrow> int \<Rightarrow> bool \<Rightarrow> (string \<times> string) result" where
  "computeCreateChildConfigHash E childOwners childThreshold preserveOrder =
     andThen (traverse (parseKey E) childOwners) (\<lambda>keys.
       let owners = (if preserveOrder then keys else foldl (addSorted E) [] keys);
           commitment = getCommitment E owners
       in Inr (fieldToString commitment, fieldToString (childConfigHash E commitment (fieldOfInt E childThreshold)
            (fieldOfInt E (int (length childOwners))))))"

datatype childReservation =
    MissingReservation
  | InvalidReservation error
  | MatchingReservation "string list" int "indexedEvent list"
  | MismatchingReservation "string list" int "indexedEvent list"

definition loadChildReservation ::
  "('m, 'w, 's) o1js \<Rightarrow> indexedEvent list result \<Rightarrow> string \<Rightarrow> string option \<Rightarrow> childReservation result" where
  "loadChildReservation E fetched childAddress proposalData =
     andThen fetched (\<lambda>events.
     case parseChildConfigFromEvents E events childAddress of
       Inl err \<Rightarrow> Inr (InvalidReservation err)
     | Inr None \<Rightarrow> Inr MissingReservation
     | Inr (Some (owners, thr)) \<Rightarrow>
         andThen (computeCreateChildConfigHash E owners thr True) (\<lambda>(_, configHash).
         Inr (if Some configHash = proposalData then MatchingReservation owners thr events
              else MismatchingReservation owners thr events)))"

definition fetchVerifiedChildConfig ::
  "('m, 'w, 's) o1js \<Rightarrow> indexedEvent list result \<Rightarrow> string \<Rightarrow> string option \<Rightarrow> (string list \<times> int \<times> indexedEvent list) result" where
  "fetchVerifiedChildConfig E fetched childAddress proposalData =
     andThen (loadChildReservation E fetched childAddress proposalData) (\<lambda>r. case r of
         MatchingReservation owners thr events \<Rightarrow> Inr (owners, thr, events)
       | MissingReservation \<Rightarrow> Inl (AssertFail ''SubVault config events not found for this proposal'')
       | InvalidReservation err \<Rightarrow> Inl (AssertFail ''SubVault reservation is invalid'')
       | MismatchingReservation _ _ _ \<Rightarrow> Inl (AssertFail ''SubVault reservation does not match the parent-approved proposal data''))"

end
