(* ===== verification/Offline_Handlers.thy ===== *)
theory Offline_Handlers
  imports Offline_Build
begin

text \<open>
  The three handlers of the offline command line, \<open>handlePropose\<close>, \<open>handleApprove\<close> and \<open>handleExecute\<close>,
  with the refusals in source order and the transaction they build, and the grafting of the second
  signature in \<open>signChildAccount\<close>. \<open>k\<close> is the private key text of the fee payer.
\<close>

section \<open>Transactions\<close>

datatype ('w, 's) txStep =
    FundNewAccount pubkey nat
  | DeployAccount pubkey
  | CallMethod pubkey "('w, 's) call"

record ('w, 's) builtTx =
  btSender :: pubkey
  btFee :: int
  btMemo :: "string option"
  btSteps :: "('w, 's) txStep list"

record ('w, 's) signedTxOutput =
  soVersion :: int
  soAction :: string
  soContractAddress :: string
  soProposalHash :: string
  soTransaction :: "('w, 's) builtTx"

definition signedOutput :: "string \<Rightarrow> string \<Rightarrow> field \<Rightarrow> ('w, 's) builtTx \<Rightarrow> ('w, 's) signedTxOutput" where
  "signedOutput action contract h tx = \<lparr>soVersion = OFFLINE_RESPONSE_VERSION, soAction = action,
     soContractAddress = contract, soProposalHash = fieldToString h, soTransaction = tx\<rparr>"

definition signMessage :: "'s signer \<Rightarrow> field \<Rightarrow> string \<Rightarrow> 's result" where
  "signMessage S message k = (case sgSignFields S [message] k of
       None \<Rightarrow> Inl (AssertFail ''signFields'') | Some sg \<Rightarrow> Inr sg)"

definition padOwners :: "pubkey list \<Rightarrow> pubkey list" where
  "padOwners keys = take MAX_OWNERS (keys @ replicate (MAX_OWNERS - length keys) emptyKey)"

section \<open>Propose\<close>

definition remoteTxType :: "txType \<Rightarrow> bool" where
  "remoteTxType t \<longleftrightarrow> t = CREATE_CHILD \<or> t = RECLAIM_CHILD \<or> t = DESTROY_CHILD \<or> t = ENABLE_CHILD_MULTI_SIG"

definition newProposal ::
  "('m, 'w, 's) o1js \<Rightarrow> txType \<Rightarrow> proposalInput \<Rightarrow> int \<Rightarrow> string \<Rightarrow> pubkey list \<Rightarrow> proposal result" where
  "newProposal E t input cfgNonce contract owners =
     andThen (buildReceiversForProposal E t input) (\<lambda>receivers.
     andThen (buildProposalDataField E t input owners) (\<lambda>dat.
     andThen (parseKey E contract) (\<lambda>guardAddress.
     andThen (if truthyText (piChildAccount input) then parseKey E (the (piChildAccount input)) else Inr emptyKey) (\<lambda>child.
     Inr \<lparr>pReceivers = receivers, pTokenId = NATIVE_TOKEN_ID, pTxType = uiTxTypeToField t, pData = dat,
       pMemoHash = memoToField E (orDefault (piMemo input) ''''),
       pNonce = fieldOfInt E (piNonce input), pConfigNonce = fieldOfInt E cfgNonce,
       pExpirySlot = fieldOfInt E (orDefault (piExpirySlot input) 0), pGuardAddress = guardAddress,
       pDestination = Destination (if remoteTxType t then REMOTE else LOCAL), pChildAccount = child\<rparr>))))"

definition childOwnerKeys :: "('m, 'w, 's) o1js \<Rightarrow> json option \<Rightarrow> pubkey list result" where
  "childOwnerKeys E owners = (case owners of
       Some (JArr vs) \<Rightarrow> traverse (\<lambda>v. case v of JStr s \<Rightarrow> parseKey E s | _ \<Rightarrow> Inl (AssertFail ''PublicKey.fromBase58'')) vs
     | _ \<Rightarrow> Inl (AssertFail ''childOwners is not iterable''))"

definition fieldOfJson :: "('m, 'w, 's) o1js \<Rightarrow> json option \<Rightarrow> field result" where
  "fieldOfJson E v = (case v of Some (JNum n) \<Rightarrow> Inr (fieldOfInt E n)
     | Some (JStr s) \<Rightarrow> fieldFromText E s | _ \<Rightarrow> Inl (AssertFail ''Field''))"

text \<open>The child of a createChild proposal is deployed and reserved in the same transaction.\<close>

definition childSteps ::
  "('m, 'w, 's) o1js \<Rightarrow> 's signer \<Rightarrow> proposalInput \<Rightarrow> (string \<times> bundleAccount) list \<Rightarrow> pubkey \<Rightarrow> pubkey \<Rightarrow> field
     \<Rightarrow> ('w, 's) txStep list result" where
  "childSteps E S input snapshots proposer contract h =
     andThen (case Option.bind (piChildPrivateKey input) (sgPublicKey S) of
         None \<Rightarrow> Inl (AssertFail ''PrivateKey.fromBase58'') | Some pk \<Rightarrow> Inr pk) (\<lambda>child.
     require (Some (toBase58 E child) = piChildAccount input) ''The createChild key does not match input.childAccount''
     (andThen (deployTargetFromSnapshot (map_of snapshots (toBase58 E child))) (\<lambda>target.
      andThen (childOwnerKeys E (piChildOwners input)) (\<lambda>keys.
      andThen (fieldOfJson E (piChildThreshold input)) (\<lambda>thr.
      Inr ((if target = NewAccount then [FundNewAccount proposer 1] else [])
        @ [DeployAccount child,
           CallMethod child (ReserveForParent contract h thr (fieldOfInt E (int (length keys)))
             (padOwners (foldl (addSorted E) [] keys)))]))))))"

definition handlePropose ::
  "('m, 'w, 's) o1js \<Rightarrow> 's signer \<Rightarrow> proposeBundle \<Rightarrow> string \<Rightarrow> ('w, 's) signedTxOutput result" where
  "handlePropose E S b k =
     andAlso (assertBundleNetwork (bbNetwork b) (Some (domainText (networkDomainName E))))
    (andThen (resolveBundleFee b) (\<lambda>fee.
     andThen (requireTxType (piTxType (pbInput b))) (\<lambda>t.
     let input = pbInput b; isCreateChild = (t = CREATE_CHILD)
     in require (\<not> (isCreateChild \<and> (\<not> truthyText (piChildPrivateKey input) \<or> \<not> truthy (piChildOwners input)
            \<or> piChildThreshold input \<in> {None, Some JNull})))
          ''createChild proposal requires childPrivateKey, childOwners, and childThreshold in the bundle''
    (andThen (assertCreateChildProposeConfig E b) (\<lambda>_.
     let cache = injectAccounts E S (bbAccounts b)
     in andThen (rebuildVerifiedStores E S cache b) (\<lambda>stores.
     andAlso (if t = ADD_OWNER \<and> truthyText (piNewOwner input)
        then andThen (parseKey E (the (piNewOwner input))) (\<lambda>pk.
          require (\<not> hasOwnerWithSameX (rsOwners stores) pk) ''This address is already an owner or the negation of one'' (Inr ()))
        else Inr ())
    (andThen (newProposal E t input (pbConfigNonce b) (bbContract b) (rsOwners stores)) (\<lambda>p.
     let h = proposalHash E p
     in andThen (signMessage S (proposalSigningMessage E h ActPropose) k) (\<lambda>signature.
     andThen (parseKey E (bbFeePayer b)) (\<lambda>proposer.
     andThen (parseKey E (bbContract b)) (\<lambda>contract.
     andThen (if isCreateChild then childSteps E S input (bbAccounts b) proposer contract h else Inr []) (\<lambda>children.
     Inr (signedOutput ''propose'' (bbContract b) h
       \<lparr>btSender = proposer, btFee = fee, btMemo = piMemo input,
        btSteps = children @ [CallMethod contract (Propose p (getOwnerWitness (rsOwners stores)) proposer signature
          (getNullifierWitness E (rsNullifiers stores) h proposer) (getApprovalWitness E (rsApprovals stores) h))]\<rparr>)))))))))))))"

section \<open>Approve\<close>

definition handleApprove ::
  "('m, 'w, 's) o1js \<Rightarrow> 's signer \<Rightarrow> approveBundle \<Rightarrow> string \<Rightarrow> ('w, 's) signedTxOutput result" where
  "handleApprove E S b k =
     andAlso (assertBundleNetwork (bbNetwork b) (Some (domainText (networkDomainName E))))
    (andThen (resolveBundleFee b) (\<lambda>fee.
     let cache = injectAccounts E S (bbAccounts b)
     in andThen (rebuildVerifiedStores E S cache b) (\<lambda>stores.
     andThen (buildProposalStruct E ((abProposal b)\<lparr>bpGuardAddress :=
         Some (orDefault (bpGuardAddress (abProposal b)) (bbContract b))\<rparr>) (bbContract b)) (\<lambda>p.
     andAlso (assertExecutableAddOwnerData E p (rsOwners stores))
    (andThen (assertCreateChildBundleConfig E b) (\<lambda>_.
     let h = proposalHash E p
     in andAlso (assertRecomputedProposalHash h (bpProposalHash (abProposal b)))
    (andAlso (assertBundleMemo E (abProposal b))
    (andThen (signMessage S (proposalSigningMessage E h ActApprove) k) (\<lambda>signature.
     andThen (parseKey E (bbFeePayer b)) (\<lambda>approver.
     andThen (parseKey E (bbContract b)) (\<lambda>contract.
     Inr (signedOutput ''approve'' (bbContract b) h
       \<lparr>btSender = approver, btFee = fee, btMemo = None,
        btSteps = [CallMethod contract (ApproveProposal p signature approver (getOwnerWitness (rsOwners stores))
          (getApprovalWitness E (rsApprovals stores) h) (getCount E (rsApprovals stores) h)
          (getNullifierWitness E (rsNullifiers stores) h approver))]\<rparr>))))))))))))"

section \<open>Execute\<close>

definition childAddressOf :: "executeBundle \<Rightarrow> string result" where
  "childAddressOf b = (let a = (case abChildAddress b of Some s \<Rightarrow> Some s | None \<Rightarrow> bpChildAccount (abProposal b))
     in if truthyText a then Inr (the a) else Inl (AssertFail ''bundle missing childAddress''))"

text \<open>The proposal of an execute bundle: lifecycle types and createChild are remote, and their child comes
  from the proposal or else from the bundle.\<close>

definition executeProposal :: "txType \<Rightarrow> executeBundle \<Rightarrow> bundleProposal" where
  "executeProposal t b = (let p = (abProposal b)\<lparr>bpGuardAddress := Some (orDefault (bpGuardAddress (abProposal b)) (bbContract b))\<rparr>
     in if t \<in> set CHILD_LIFECYCLE_TYPES \<or> t = CREATE_CHILD
        then p\<lparr>bpDestination := Some ''remote'',
          bpChildAccount := (case bpChildAccount (abProposal b) of Some s \<Rightarrow> Some s | None \<Rightarrow> abChildAddress b)\<rparr>
        else p)"

definition childUninitialised :: "bundleAccount \<Rightarrow> bool" where
  "childUninitialised a = (case baZkappState a of Some (v # _) \<Rightarrow> v = [] \<or> v = ''0'' | _ \<Rightarrow> True)"

definition executeCreateChild ::
  "('m, 'w, 's) o1js \<Rightarrow> executeBundle \<Rightarrow> int \<Rightarrow> proposal \<Rightarrow> 'm rebuiltStores \<Rightarrow> pubkey \<Rightarrow> ('w, 's) builtTx result" where
  "executeCreateChild E b fee p stores executor =
     andThen (childAddressOf b) (\<lambda>childAddr.
     andThen (assertCreateChildBundleConfig E b) (\<lambda>checked.
     let owners = map snd (fst (the checked)); h = proposalHash E p
     in case map_of (bbAccounts b) childAddr of
         None \<Rightarrow> Inl (AssertFail ''Bundle missing account snapshot for child address'')
       | Some childAccount \<Rightarrow>
          require (childUninitialised childAccount)
            ''This SubVault has already been initialized by another party''
         (andThen (parseKey E childAddr) (\<lambda>child.
          andThen (fieldOfJson E (abChildThreshold b)) (\<lambda>thr.
          Inr \<lparr>btSender = executor, btFee = fee, btMemo = None,
            btSteps = [CallMethod child (ExecuteSetupChild thr (fieldOfInt E (int (length owners))) (padOwners owners) p
              (getApprovalWitness E (rsApprovals stores) h) (getCount E (rsApprovals stores) h))]\<rparr>)))))"

definition lifecycleCall ::
  "('m, 'w, 's) o1js \<Rightarrow> txType \<Rightarrow> bundleProposal \<Rightarrow> proposal \<Rightarrow> 'w \<Rightarrow> field \<Rightarrow> 'w \<Rightarrow> 64 word \<Rightarrow> ('w, 's) call result" where
  "lifecycleCall E t bp p aw c cw balance =
     (if t = RECLAIM_CHILD then andThen (uint64FromText (orDefault (bpData bp) ''0'')) (\<lambda>amount.
          Inr (ExecuteReclaimToParent p aw c cw amount))
      else if t = DESTROY_CHILD then Inr (ExecuteDestroy p aw c cw balance)
      else andThen (fieldFromText E (orDefault (bpData bp) ''0'')) (\<lambda>enabled.
          Inr (ExecuteEnableChildMultiSig p aw c cw enabled)))"

text \<open>\<open>executeDestroy\<close> sends the balance that the injected account of the child shows.\<close>

definition executeLifecycle ::
  "('m, 'w, 's) o1js \<Rightarrow> 's signer \<Rightarrow> accountCache \<Rightarrow> executeBundle \<Rightarrow> txType \<Rightarrow> int \<Rightarrow> proposal \<Rightarrow> 'm rebuiltStores \<Rightarrow> pubkey
     \<Rightarrow> ('w, 's) builtTx result" where
  "executeLifecycle E S cache b t fee p stores executor =
     andThen (childAddressOf b) (\<lambda>childAddr.
     case ebChildEvents b of None \<Rightarrow> Inl (AssertFail ''Child lifecycle bundle missing childEvents'')
     | Some events \<Rightarrow>
        andThen (rebuildChildExecutionMap E events (emptyMap E)) (\<lambda>m.
        andThen (snapshotState E S cache childAddr) (\<lambda>s.
        andAlso (assertChildExecutionMapMatchesChain E m (ssChildExecutionRoot s))
       (let h = proposalHash E p
        in andThen (parseKey E childAddr) (\<lambda>child.
           andThen (case map_of cache (child, NATIVE_TOKEN_ID) of
               None \<Rightarrow> Inl (AssertFail ''account not found'') | Some a \<Rightarrow> Inr (caBalance a)) (\<lambda>balance.
           andThen (lifecycleCall E t (abProposal b) p (getApprovalWitness E (rsApprovals stores) h)
              (getCount E (rsApprovals stores) h) (mapWitness E m h) balance) (\<lambda>c.
           Inr \<lparr>btSender = executor, btFee = fee, btMemo = bpMemo (abProposal b), btSteps = [CallMethod child c]\<rparr>)))))))"

definition assertAllocationSnapshots ::
  "('m, 'w, 's) o1js \<Rightarrow> (string \<times> bundleAccount) list \<Rightarrow> proposal \<Rightarrow> unit result" where
  "assertAllocationSnapshots E snapshots p = forEach (\<lambda>r.
     if keyIsEmpty (rAddress r) then Inr ()
     else require (case map_of snapshots (toBase58 E (rAddress r)) of None \<Rightarrow> False | Some a \<Rightarrow> baZkappState a \<noteq> None)
       ''Allocation requires a child account snapshot'' (Inr ())) (pReceivers p)"

definition localCall ::
  "('m, 'w, 's) o1js \<Rightarrow> txType \<Rightarrow> bundleProposal \<Rightarrow> proposal \<Rightarrow> pubkey list \<Rightarrow> 'w \<Rightarrow> field \<Rightarrow> ('w, 's) call result" where
  "localCall E t bp p owners aw c =
     (if t = TRANSFER then Inr (ExecuteTransfer p aw c)
      else if t = ALLOCATE_CHILD then Inr (ExecuteAllocateToChildren p aw c)
      else if t = ADD_OWNER \<or> t = REMOVE_OWNER
        then andThen (if t = ADD_OWNER then approvedInsertAfter E owners (rAddress (pReceivers p ! 0)) (pData p)
             else Inr pkNone) (\<lambda>ia.
          Inr (ExecuteOwnerChange p aw c (getOwnerWitness owners) ia))
      else if t = CHANGE_THRESHOLD
        then andThen (fieldFromText E (orDefault (bpData bp) ''0'')) (\<lambda>thr. Inr (ExecuteThresholdChange p aw c thr))
      else if t = SET_DELEGATE then Inr (ExecuteDelegate p aw c)
      else Inl (AssertFail ''Unsupported proposal type for execution''))"

definition executeLocal ::
  "('m, 'w, 's) o1js \<Rightarrow> executeBundle \<Rightarrow> txType \<Rightarrow> int \<Rightarrow> proposal \<Rightarrow> 'm rebuiltStores \<Rightarrow> pubkey \<Rightarrow> ('w, 's) builtTx result" where
  "executeLocal E b t fee p stores executor =
     andAlso (if t = ALLOCATE_CHILD then assertAllocationSnapshots E (bbAccounts b) p else Inr ())
    (andThen (countExecuteNewAccounts E b) (\<lambda>newAccountCount.
     let h = proposalHash E p
     in andThen (parseKey E (bbContract b)) (\<lambda>contract.
        andThen (localCall E t (abProposal b) p (rsOwners stores) (getApprovalWitness E (rsApprovals stores) h)
           (getCount E (rsApprovals stores) h)) (\<lambda>c.
        Inr \<lparr>btSender = executor, btFee = fee, btMemo = bpMemo (abProposal b),
          btSteps = (if newAccountCount > 0 then [FundNewAccount executor newAccountCount] else []) @ [CallMethod contract c]\<rparr>))))"

definition handleExecute ::
  "('m, 'w, 's) o1js \<Rightarrow> 's signer \<Rightarrow> executeBundle \<Rightarrow> ('w, 's) signedTxOutput result" where
  "handleExecute E S b =
     andAlso (assertBundleNetwork (bbNetwork b) (Some (domainText (networkDomainName E))))
    (andThen (resolveBundleFee b) (\<lambda>fee.
     andThen (requireTxType (bpTxType (abProposal b))) (\<lambda>t.
     let cache = injectAccounts E S (bbAccounts b)
     in andThen (rebuildVerifiedStores E S cache b) (\<lambda>stores.
     andThen (buildProposalStruct E (executeProposal t b) (bbContract b)) (\<lambda>p.
     let h = proposalHash E p
     in andAlso (assertRecomputedProposalHash h (bpProposalHash (abProposal b)))
    (andAlso (assertBundleMemo E (abProposal b))
    (andThen (parseKey E (bbFeePayer b)) (\<lambda>executor.
     andThen (if t = CREATE_CHILD then executeCreateChild E b fee p stores executor
        else if t \<in> set CHILD_LIFECYCLE_TYPES then executeLifecycle E S cache b t fee p stores executor
        else executeLocal E b t fee p stores executor) (\<lambda>tx.
     Inr (signedOutput ''execute'' (bbContract b) h tx))))))))))"

section \<open>Signatures on the transaction\<close>

text \<open>The parts of the transaction JSON that signing touches: the authorization of the fee payer, and for
  each account update its key, whether it asks for a signature, and its authorization. \<open>sign\<close> is
  \<open>signZkappCommand\<close> of mina-signer, given the transaction and a private key text.\<close>

record 'a jsonUpdate =
  juPublicKey :: string
  juIsSigned :: bool
  juAuthorization :: "'a option"

record 'a jsonTx =
  jtFeePayer :: string
  jtFeePayerAuthorization :: "'a option"
  jtAccountUpdates :: "'a jsonUpdate list"

type_synonym 'a txSigner = "'a jsonTx \<Rightarrow> string \<Rightarrow> 'a jsonTx"

definition signFeePayer :: "'a txSigner \<Rightarrow> 'a jsonTx \<Rightarrow> string \<Rightarrow> 'a jsonTx" where
  "signFeePayer sign parsed k = sign parsed k"

definition graft :: "string \<Rightarrow> 'a jsonUpdate \<Rightarrow> 'a jsonUpdate option \<Rightarrow> 'a jsonUpdate" where
  "graft childPk update signedUpdate =
     (if juPublicKey update = childPk \<and> juIsSigned update
      then update\<lparr>juAuthorization := Option.bind signedUpdate juAuthorization\<rparr> else update)"

definition signChildAccount :: "'a txSigner \<Rightarrow> 'a jsonTx \<Rightarrow> string \<Rightarrow> string \<Rightarrow> 'a jsonTx result" where
  "signChildAccount sign parsed childPk childKey =
     (let signedUpdates = jtAccountUpdates (sign parsed childKey);
          updates = jtAccountUpdates parsed;
          applied = list_ex (\<lambda>u. juPublicKey u = childPk \<and> juIsSigned u) updates
      in require applied ''signChildAccount: no matching deploy account update found''
         (Inr (parsed\<lparr>jtAccountUpdates := map (\<lambda>i. graft childPk (updates ! i)
            (if i < length signedUpdates then Some (signedUpdates ! i) else None)) [0..<length updates]\<rparr>)))"

end
