(* ===== verification/Web_Worker.thy ===== *)
theory Web_Worker
  imports Web_Records Offline_Handlers
begin

text \<open>
  The proving worker of the browser (\<open>ui/lib/multisigClient.worker.ts\<close>): proposals from form input and from
  backend records, the checks before a wallet signs, the retry assessment, and the operations with the
  transaction each of them builds. The Mina node and the wallet are the record \<open>node\<close>: every read is a
  function of the position of the read in the operation, because the chain may move between two reads.
  Compiling, proving and broadcasting come from o1js; the operations end with the transaction.
\<close>

section \<open>Network and verification key\<close>

definition networkAllowed :: "networkDomainName \<Rightarrow> string \<Rightarrow> bool" where
  "networkAllowed domain networkId \<longleftrightarrow>
     (let sharedTestDomain = ((networkId = ''testnet'' \<or> networkId = ''devnet'') \<and> (domain = Testnet \<or> domain = Devnet))
      in networkId = domainText domain \<or> sharedTestDomain)"

definition webConfigureNetwork :: "('m, 'w, 's) o1js \<Rightarrow> string \<Rightarrow> unit result" where
  "webConfigureNetwork E networkId = require (networkAllowed (networkDomainName E) networkId) ''Network mismatch'' (Inr ())"

definition assertExpectedVerificationKey :: "string option \<Rightarrow> string \<Rightarrow> unit result" where
  "assertExpectedVerificationKey expectedHash actualHash =
     require (\<not> truthyText expectedHash \<or> expectedHash = Some actualHash) ''Verification key mismatch'' (Inr ())"

section \<open>The node and the wallet\<close>

record webState =
  wsOwnersCommitment :: field
  wsThreshold :: field
  wsNumOwners :: field
  wsNonce :: field
  wsVoteNullifierRoot :: field
  wsApprovalRoot :: field
  wsConfigNonce :: field
  wsChildExecutionRoot :: field

text \<open>What \<open>fetchAccount\<close> reports: an error with its HTTP status, no account, or an account with its
  application state and whether it has a verification key.\<close>

datatype fetchReply =
    FetchError nat
  | NoAccount
  | FetchedAccount "string list option" bool

record 's node =
  ndState :: "nat \<Rightarrow> string \<Rightarrow> webState option"
  ndAccount :: "nat \<Rightarrow> pubkey \<Rightarrow> fetchReply"
  ndBalance :: "pubkey \<Rightarrow> 64 word option"
  ndSign :: "field \<Rightarrow> 's option"

definition chainOf :: "webState \<Rightarrow> chainState" where
  "chainOf s = \<lparr>csOwnersCommitment = Some (fieldToString (wsOwnersCommitment s)),
     csApprovalRoot = Some (fieldToString (wsApprovalRoot s)),
     csVoteNullifierRoot = Some (fieldToString (wsVoteNullifierRoot s))\<rparr>"

definition requireContractState :: "'s node \<Rightarrow> nat \<Rightarrow> string \<Rightarrow> webState result" where
  "requireContractState N i address = (case ndState N i address of
       None \<Rightarrow> Inl (AssertFail ''Could not read the on-chain state from the Mina node'') | Some s \<Rightarrow> Inr s)"

definition classifyDeployTarget :: "fetchReply \<Rightarrow> deployTarget result" where
  "classifyDeployTarget fetched = (case fetched of
       FetchError code \<Rightarrow> if code = 404 then Inr NewAccount else Inl (AssertFail ''Could not check the vault address'')
     | NoAccount \<Rightarrow> Inr NewAccount
     | FetchedAccount appState hasKey \<Rightarrow>
         (let hasState = list_ex (\<lambda>v. v \<noteq> ''0'') (orDefault appState [])
          in require (\<not> (hasKey \<or> hasState)) ''This address already holds a zkApp'' (Inr ExistingAccount)))"

definition receiverExists :: "fetchReply \<Rightarrow> bool result" where
  "receiverExists fetched = (case fetched of
       FetchError code \<Rightarrow> if code = 404 then Inr False else Inl (AssertFail ''Could not check a receiver address'')
     | NoAccount \<Rightarrow> Inr False
     | FetchedAccount _ _ \<Rightarrow> Inr True)"

section \<open>Proposals\<close>

definition webSafePublicKey :: "('m, 'w, 's) o1js \<Rightarrow> string option \<Rightarrow> pubkey" where
  "webSafePublicKey E base58 = (if \<not> truthyText base58 then emptyKey
     else case fromBase58 E (the base58) of None \<Rightarrow> emptyKey | Some pk \<Rightarrow> pk)"

fun webTxTypeToField :: "txType \<Rightarrow> field" where
  "webTxTypeToField TRANSFER = 0"
| "webTxTypeToField ADD_OWNER = 1"
| "webTxTypeToField REMOVE_OWNER = 2"
| "webTxTypeToField CHANGE_THRESHOLD = 3"
| "webTxTypeToField SET_DELEGATE = 4"
| "webTxTypeToField CREATE_CHILD = 5"
| "webTxTypeToField ALLOCATE_CHILD = 6"
| "webTxTypeToField RECLAIM_CHILD = 7"
| "webTxTypeToField DESTROY_CHILD = 8"
| "webTxTypeToField ENABLE_CHILD_MULTI_SIG = 9"

record webInput =
  wiTxType :: txType
  wiNonce :: int
  wiReceivers :: "bundleReceiver list option"
  wiNewOwner :: "string option"
  wiRemoveOwnerAddress :: "string option"
  wiNewThreshold :: "int option"
  wiDelegate :: "string option"
  wiUndelegate :: bool
  wiExpirySlot :: "int option"
  wiMemo :: "string option"
  wiChildAccount :: "string option"
  wiReclaimAmount :: "string option"
  wiChildMultiSigEnable :: bool
  wiCreateChildConfigHash :: "string option"

definition webProposalDataField :: "('m, 'w, 's) o1js \<Rightarrow> webInput \<Rightarrow> pubkey list \<Rightarrow> field result" where
  "webProposalDataField E input owners =
     (if wiTxType input = CHANGE_THRESHOLD then Inr (fieldOfInt E (case wiNewThreshold input of None \<Rightarrow> 0 | Some n \<Rightarrow> n))
      else if wiTxType input = RECLAIM_CHILD
        then fieldFromText E (case wiReclaimAmount input of None \<Rightarrow> ''0'' | Some s \<Rightarrow> s)
      else if wiTxType input = ENABLE_CHILD_MULTI_SIG then Inr (if wiChildMultiSigEnable input then 1 else 0)
      else if wiTxType input = CREATE_CHILD
        then fieldFromText E (case wiCreateChildConfigHash input of None \<Rightarrow> ''0'' | Some s \<Rightarrow> s)
      else if wiTxType input = ADD_OWNER \<and> truthyText (wiNewOwner input)
        then andThen (parseKey E (the (wiNewOwner input))) (\<lambda>pk. Inr (commitmentWithSortedAdd E owners pk))
      else Inr 0)"

definition webGovernanceTarget :: "webInput \<Rightarrow> string option" where
  "webGovernanceTarget input = (case wiTxType input of
       ADD_OWNER \<Rightarrow> wiNewOwner input
     | REMOVE_OWNER \<Rightarrow> wiRemoveOwnerAddress input
     | SET_DELEGATE \<Rightarrow> if wiUndelegate input then None else wiDelegate input
     | _ \<Rightarrow> None)"

definition webReceiver :: "('m, 'w, 's) o1js \<Rightarrow> string \<Rightarrow> string \<Rightarrow> receiver result" where
  "webReceiver E address amount =
     (if address = EMPTY_PUBKEY_B58 E
      then andThen (toBigInt amount) (\<lambda>n. require (\<not> n \<noteq> 0) ''Empty receiver must have zero amount''
        (andThen (uint64FromText amount) (\<lambda>a. Inr \<lparr>rAddress = emptyKey, rAmount = a\<rparr>)))
      else andThen (parseKey E address) (\<lambda>pk. andThen (uint64FromText amount) (\<lambda>a. Inr \<lparr>rAddress = pk, rAmount = a\<rparr>)))"

fun pushEmpty :: "nat \<Rightarrow> receiver list \<Rightarrow> receiver list" where
  "pushEmpty 0 rs = rs"
| "pushEmpty (Suc n) rs = pushEmpty n (rs @ [emptyReceiver])"

definition webTransferReceivers :: "('m, 'w, 's) o1js \<Rightarrow> (string \<times> string) list \<Rightarrow> receiver list result" where
  "webTransferReceivers E receivers =
     andThen (traverse (\<lambda>(address, amount). webReceiver E address amount) receivers) (\<lambda>normalized.
     Inr (take MAX_RECEIVERS (pushEmpty (MAX_RECEIVERS - length normalized) normalized)))"

definition webReceiversForProposal :: "('m, 'w, 's) o1js \<Rightarrow> webInput \<Rightarrow> receiver list result" where
  "webReceiversForProposal E input =
     (if wiTxType input = TRANSFER \<or> wiTxType input = ALLOCATE_CHILD
      then webTransferReceivers E (map (\<lambda>r. (brAddress r, brAmount r)) (orDefault (wiReceivers input) []))
      else (case webGovernanceTarget input of
          None \<Rightarrow> Inr (replicate MAX_RECEIVERS emptyReceiver)
        | Some target \<Rightarrow> if target = [] then Inr (replicate MAX_RECEIVERS emptyReceiver)
            else andThen (parseKey E target) (\<lambda>pk.
              Inr ((replicate MAX_RECEIVERS emptyReceiver)[0 := \<lparr>rAddress = pk, rAmount = 0\<rparr>]))))"

definition buildNewProposal ::
  "('m, 'w, 's) o1js \<Rightarrow> webInput \<Rightarrow> int \<Rightarrow> string \<Rightarrow> pubkey list \<Rightarrow> proposal result" where
  "buildNewProposal E input cfgNonce contractAddress owners =
     andThen (webReceiversForProposal E input) (\<lambda>receivers.
     andThen (webProposalDataField E input owners) (\<lambda>dat.
     let isRemote = (wiTxType input \<in> {CREATE_CHILD, RECLAIM_CHILD, DESTROY_CHILD, ENABLE_CHILD_MULTI_SIG});
         memoHash = memoToField E (orDefault (wiMemo input) '''')
     in andThen (parseKey E contractAddress) (\<lambda>guardAddress.
        andThen (case wiChildAccount input of None \<Rightarrow> Inr emptyKey
           | Some s \<Rightarrow> if s = [] then Inr emptyKey else parseKey E s) (\<lambda>child.
        Inr \<lparr>pReceivers = receivers, pTokenId = NATIVE_TOKEN_ID, pTxType = webTxTypeToField (wiTxType input), pData = dat,
          pMemoHash = memoHash, pNonce = fieldOfInt E (wiNonce input), pConfigNonce = fieldOfInt E cfgNonce,
          pExpirySlot = fieldOfInt E (orDefault (wiExpirySlot input) 0), pGuardAddress = guardAddress,
          pDestination = (if isRemote then Destination REMOTE else Destination LOCAL), pChildAccount = child\<rparr>))))"

definition webApprovedInsertAfter :: "('m, 'w, 's) o1js \<Rightarrow> pubkey list \<Rightarrow> pubkey \<Rightarrow> field \<Rightarrow> pkOption result" where
  "webApprovedInsertAfter E owners target dat = (case insertPositionFor E owners target (fieldToString dat) of
       None \<Rightarrow> Inl (AssertFail ''No position in the current owner list produces the approved owner commitment'')
     | Some 0 \<Rightarrow> Inr pkNone
     | Some (Suc i) \<Rightarrow> Inr (pkJust (owners ! i)))"

definition webAssertExecutableAddOwner :: "('m, 'w, 's) o1js \<Rightarrow> proposal \<Rightarrow> pubkey list \<Rightarrow> unit result" where
  "webAssertExecutableAddOwner E p owners =
     (if pTxType p = webTxTypeToField ADD_OWNER
      then require (\<not> hasOwnerWithSameX owners (rAddress (pReceivers p ! 0)))
          ''addOwner target is already an owner or the negation of one''
        (require (insertPositionFor E owners (rAddress (pReceivers p ! 0)) (fieldToString (pData p)) \<noteq> None)
          ''addOwner proposal data matches no position in the current owner list'' (Inr ()))
      else Inr ())"

text \<open>The fields of a backend record that are hashed. \<open>type\<close> is the text of the type, canonical or numeric.\<close>

record signedFields =
  sfTxType :: "txType option"
  sfReceivers :: "uiReceiver list"
  sfTokenId :: "string option"
  sfData :: "string option"
  sfMemoHash :: "string option"
  sfNonce :: "string option"
  sfConfigNonce :: "string option"
  sfExpirySlot :: "string option"
  sfGuardAddress :: "string option"
  sfDestination :: "proposalDestination option"
  sfChildAccount :: "string option"

definition webProposalStruct :: "('m, 'w, 's) o1js \<Rightarrow> signedFields \<Rightarrow> string \<Rightarrow> proposal result" where
  "webProposalStruct E p fallbackGuardAddress = (case sfTxType p of
       None \<Rightarrow> Inl (AssertFail ''Unsupported transaction type; refusing to sign'')
     | Some t \<Rightarrow>
        (let destination = (if sfDestination p = Some RemoteDestination then Destination REMOTE else Destination LOCAL);
             childAccount = (if truthyText (sfChildAccount p) then webSafePublicKey E (sfChildAccount p) else emptyKey)
         in case sfMemoHash p of None \<Rightarrow> Inl (AssertFail ''Proposal is missing its memo commitment'')
          | Some memoHash \<Rightarrow>
            andThen (webTransferReceivers E (map (\<lambda>r. (urAddress r, urAmount r)) (sfReceivers p))) (\<lambda>receivers.
            andThen (fieldFromText E (orDefault (sfTokenId p) (fieldToString NATIVE_TOKEN_ID))) (\<lambda>tokenId.
            andThen (fieldFromText E (orDefault (sfData p) ''0'')) (\<lambda>dat.
            andThen (fieldFromText E memoHash) (\<lambda>memo.
            andThen (fieldFromText E (orDefault (sfNonce p) ''0'')) (\<lambda>n.
            andThen (fieldFromText E (orDefault (sfConfigNonce p) ''0'')) (\<lambda>cn.
            andThen (fieldFromText E (orDefault (sfExpirySlot p) ''0'')) (\<lambda>expirySlot.
            Inr \<lparr>pReceivers = receivers, pTokenId = tokenId, pTxType = webTxTypeToField t, pData = dat, pMemoHash = memo,
              pNonce = n, pConfigNonce = cn, pExpirySlot = expirySlot,
              pGuardAddress = webSafePublicKey E (Some (orDefault (sfGuardAddress p) fallbackGuardAddress)),
              pDestination = destination, pChildAccount = childAccount\<rparr>)))))))))"

definition signedFieldsOf :: "webProposal \<Rightarrow> signedFields" where
  "signedFieldsOf p = \<lparr>sfTxType = wpTxType p, sfReceivers = wpReceivers p, sfTokenId = wpTokenId p, sfData = wpData p,
     sfMemoHash = wpMemoHash p, sfNonce = wpNonce p, sfConfigNonce = wpConfigNonce p, sfExpirySlot = wpExpirySlot p,
     sfGuardAddress = wpGuardAddress p, sfDestination = wpDestination p, sfChildAccount = wpChildAccount p\<rparr>"

definition assertApprovedMemo :: "('m, 'w, 's) o1js \<Rightarrow> string option \<Rightarrow> proposal \<Rightarrow> unit result" where
  "assertApprovedMemo E memo p =
     require (fieldToString (memoToField E (orDefault memo '''')) = fieldToString (pMemoHash p))
       ''The memo text from the server does not match'' (Inr ())"

definition webAssertRecomputedHash :: "field \<Rightarrow> string \<Rightarrow> unit result" where
  "webAssertRecomputedHash recomputed expected =
     (let recomputedStr = fieldToString recomputed
      in if recomputedStr \<noteq> expected then Inl (AssertFail ''the proposal data does not match the selected proposal'') else Inr ())"

definition requireUnregisteredProposal :: "string \<Rightarrow> field \<Rightarrow> unit result" where
  "requireUnregisteredProposal propHash approvalValue =
     require (approvalValue = 0) (''MINAGUARD_PROPOSAL_EXISTS:'' @ propHash) (Inr ())"

end
