(* ===== verification/Web_Operations.thy ===== *)
theory Web_Operations
  imports Web_Worker
begin

text \<open>
  The operations of the proving worker (\<open>ui/lib/multisigClient.worker.ts\<close>). Each takes the stores that
  \<open>rebuildStoresFromBackend\<close> returned (the load of \<open>Checkpoint\<close>), the fee and the node, and ends with the
  transaction that is proved and submitted: an error is a refusal, \<open>None\<close> the end without a transaction
  (no state, no signature). Reads of the vault's state are numbered in source order.
\<close>

section \<open>Parts the operations share\<close>

definition rebuildStoresFromBackend ::
  "('m, 'w, 's) o1js \<Rightarrow> checkpointSource \<Rightarrow> 'm storeCache \<Rightarrow> 'm rebuiltStores result" where
  "rebuildStoresFromBackend E src cache = fst (load E src cache)"

definition signProposalAuthorization ::
  "('m, 'w, 's) o1js \<Rightarrow> 's node \<Rightarrow> field \<Rightarrow> signingAction \<Rightarrow> 's option" where
  "signProposalAuthorization E N h action = ndSign N (proposalSigningMessage E h action)"

definition orNone :: "'a option \<Rightarrow> ('a \<Rightarrow> 'b option result) \<Rightarrow> 'b option result" where
  "orNone x k = (case x of None \<Rightarrow> Inr None | Some y \<Rightarrow> k y)"

definition withDefaults :: "webProposal \<Rightarrow> webState \<Rightarrow> string \<Rightarrow> signedFields" where
  "withDefaults p s contractAddress = (signedFieldsOf p)
     \<lparr>sfConfigNonce := Some (orDefault (wpConfigNonce p) (fieldToString (wsConfigNonce s))),
      sfGuardAddress := Some (orDefault (wpGuardAddress p) contractAddress)\<rparr>"

definition remoteFields :: "webProposal \<Rightarrow> string \<Rightarrow> signedFields" where
  "remoteFields p childAddress = (signedFieldsOf p)\<lparr>sfDestination := Some RemoteDestination,
     sfChildAccount := Some (orDefault (wpChildAccount p) childAddress)\<rparr>"

definition onlySubset :: "chainState \<Rightarrow> chainState" where
  "onlySubset s = \<lparr>csOwnersCommitment = None, csApprovalRoot = csApprovalRoot s, csVoteNullifierRoot = None\<rparr>"

text \<open>For a lifecycle action the stores of the parent, whose approval map alone is compared again.\<close>

definition rebuildVerifiedParentApprovals ::
  "('m, 'w, 's) o1js \<Rightarrow> 's node \<Rightarrow> nat \<Rightarrow> 'm rebuiltStores result \<Rightarrow> string \<Rightarrow> 'm rebuiltStores result" where
  "rebuildVerifiedParentApprovals E N i loaded parentAddress =
     andThen loaded (\<lambda>stores.
     andThen (requireContractState N i parentAddress) (\<lambda>s.
     andAlso (assertStoresMatchChain E stores (onlySubset (chainOf s))) (Inr stores)))"

definition verifyStores :: "('m, 'w, 's) o1js \<Rightarrow> 's node \<Rightarrow> nat \<Rightarrow> string \<Rightarrow> 'm rebuiltStores \<Rightarrow> unit result" where
  "verifyStores E N i address stores =
     andThen (requireContractState N i address) (\<lambda>s. assertStoresMatchChain E stores (chainOf s))"

section \<open>Deploying a vault\<close>

definition deployAndSetupContract ::
  "('m, 'w, 's) o1js \<Rightarrow> 's signer \<Rightarrow> 's node \<Rightarrow> string \<Rightarrow> int \<Rightarrow> string \<Rightarrow> string \<Rightarrow> string list \<Rightarrow> int
     \<Rightarrow> ('w, 's) builtTx result" where
  "deployAndSetupContract E S N networkId fee feePayerAddress zkAppKey owners thr =
     andThen (parseKey E feePayerAddress) (\<lambda>feePayer.
     andThen (case sgPublicKey S zkAppKey of None \<Rightarrow> Inl (AssertFail ''PrivateKey.fromBase58'') | Some pk \<Rightarrow> Inr pk) (\<lambda>vault.
     andAlso (webConfigureNetwork E networkId)
    (andThen (classifyDeployTarget (ndAccount N 0 vault)) (\<lambda>target.
     andThen (traverse (parseKey E) owners) (\<lambda>ownerKeys.
     Inr \<lparr>btSender = feePayer, btFee = fee, btMemo = None,
       btSteps = (if target = NewAccount then [FundNewAccount feePayer 1] else [])
         @ [DeployAccount vault,
            CallMethod vault (Setup (fieldOfInt E thr) (fieldOfInt E (int (length ownerKeys)))
              (padOwners (foldl (addSorted E) [] ownerKeys)))]\<rparr>)))))"

section \<open>Proposing\<close>

record webChild =
  wcPrivateKey :: "string option"
  wcOwners :: "string list option"
  wcThreshold :: "int option"

text \<open>The key of the child is checked before the wallet is asked, its owners and threshold after.\<close>

definition checkChildKey ::
  "('m, 'w, 's) o1js \<Rightarrow> 's signer \<Rightarrow> 's node \<Rightarrow> webChild \<Rightarrow> proposal \<Rightarrow> (pubkey \<times> deployTarget) result" where
  "checkChildKey E S N child p =
     require (truthyText (wcPrivateKey child)) ''createChild proposal requires childPrivateKey''
     (andThen (case Option.bind (wcPrivateKey child) (sgPublicKey S) of
         None \<Rightarrow> Inl (AssertFail ''PrivateKey.fromBase58'') | Some pk \<Rightarrow> Inr pk) (\<lambda>pk.
      require (pk = pChildAccount p) ''The createChild key does not match the proposal child address''
      (andThen (classifyDeployTarget (ndAccount N 0 pk)) (\<lambda>target. Inr (pk, target)))))"

definition webChildSteps ::
  "('m, 'w, 's) o1js \<Rightarrow> webChild \<Rightarrow> pubkey \<times> deployTarget \<Rightarrow> pubkey \<Rightarrow> pubkey \<Rightarrow> field \<Rightarrow> ('w, 's) txStep list result" where
  "webChildSteps E child checked proposer contract h = (case (wcOwners child, wcThreshold child) of
       (Some owners, Some thr) \<Rightarrow>
         andThen (traverse (parseKey E) owners) (\<lambda>keys.
         Inr ((if snd checked = NewAccount then [FundNewAccount proposer 1] else [])
           @ [DeployAccount (fst checked),
              CallMethod (fst checked) (ReserveForParent contract h (fieldOfInt E thr) (fieldOfInt E (int (length owners)))
                (padOwners (foldl (addSorted E) [] keys)))]))
     | _ \<Rightarrow> Inl (AssertFail ''createChild proposal requires childPrivateKey, childOwners, and childThreshold''))"

definition createOnchainProposal ::
  "('m, 'w, 's) o1js \<Rightarrow> 's signer \<Rightarrow> 's node \<Rightarrow> 'm rebuiltStores result \<Rightarrow> string \<Rightarrow> int \<Rightarrow> string \<Rightarrow> string \<Rightarrow> webInput \<Rightarrow> int
     \<Rightarrow> webChild \<Rightarrow> (string \<times> ('w, 's) builtTx) option result" where
  "createOnchainProposal E S N loaded networkId fee contractAddress proposerAddress input cfgNonce child =
     andAlso (webConfigureNetwork E networkId)
    (andThen loaded (\<lambda>stores.
     andAlso (verifyStores E N 0 contractAddress stores)
    (andAlso (if wiTxType input = ADD_OWNER \<and> truthyText (wiNewOwner input)
        then andThen (parseKey E (the (wiNewOwner input))) (\<lambda>candidate.
          require (\<not> hasOwnerWithSameX (rsOwners stores) candidate) ''This address is already an owner or the negation of one'' (Inr ()))
        else Inr ())
    (andThen (buildNewProposal E input cfgNonce contractAddress (rsOwners stores)) (\<lambda>p.
     let h = proposalHash E p
     in andAlso (requireUnregisteredProposal (fieldToString h) (getCount E (rsApprovals stores) h))
    (andThen (if wiTxType input = CREATE_CHILD then andThen (checkChildKey E S N child p) (\<lambda>c. Inr (Some c)) else Inr None) (\<lambda>checked.
     orNone (signProposalAuthorization E N h ActPropose) (\<lambda>signature.
     andThen (parseKey E proposerAddress) (\<lambda>proposer.
     andThen (parseKey E contractAddress) (\<lambda>contract.
     andThen (case checked of None \<Rightarrow> Inr [] | Some c \<Rightarrow> webChildSteps E child c proposer contract h) (\<lambda>children.
     andAlso (verifyStores E N 1 contractAddress stores)
    (Inr (Some (fieldToString h,
       \<lparr>btSender = proposer, btFee = fee, btMemo = wiMemo input,
        btSteps = children @ [CallMethod contract (Propose p (getOwnerWitness (rsOwners stores)) proposer signature
          (getNullifierWitness E (rsNullifiers stores) h proposer) (getApprovalWitness E (rsApprovals stores) h))]\<rparr>))))))))))))))"

section \<open>Approving\<close>

datatype addOwnerProblem = SameKeyHolder | NoMatchingPosition

definition validateAddOwnerProposalData ::
  "('m, 'w, 's) o1js \<Rightarrow> 'm rebuiltStores result \<Rightarrow> webProposal \<Rightarrow> addOwnerProblem option option result" where
  "validateAddOwnerProposalData E loaded p =
     (if wpTxType p \<noteq> Some ADD_OWNER then Inr None
      else andThen loaded (\<lambda>stores.
        case wpReceivers p of [] \<Rightarrow> Inl (AssertFail ''undefined receiver'')
        | r # _ \<Rightarrow> andThen (parseKey E (urAddress r)) (\<lambda>target.
            if hasOwnerWithSameX (rsOwners stores) target then Inr (Some (Some SameKeyHolder))
            else andThen (fieldFromText E (orDefault (wpData p) ''0'')) (\<lambda>dat.
              Inr (Some (if insertPositionFor E (rsOwners stores) target (fieldToString dat) \<noteq> None then None
                else Some NoMatchingPosition))))))"

definition approveProposalOnchain ::
  "('m, 'w, 's) o1js \<Rightarrow> 's node \<Rightarrow> 'm rebuiltStores result \<Rightarrow> string \<Rightarrow> int \<Rightarrow> string \<Rightarrow> string \<Rightarrow> webProposal
     \<Rightarrow> ('w, 's) builtTx option result" where
  "approveProposalOnchain E N loaded networkId fee contractAddress approverAddress p =
     andAlso (webConfigureNetwork E networkId)
    (orNone (ndState N 0 contractAddress) (\<lambda>contractState.
     andThen loaded (\<lambda>stores.
     andAlso (assertStoresMatchChain E stores (chainOf contractState))
    (andThen (webProposalStruct E (withDefaults p contractState contractAddress) contractAddress) (\<lambda>struct.
     andAlso (webAssertExecutableAddOwner E struct (rsOwners stores))
    (let h = proposalHash E struct
     in andAlso (webAssertRecomputedHash h (wpProposalHash p))
    (andAlso (assertApprovedMemo E (wpMemo p) struct)
    (orNone (signProposalAuthorization E N h ActApprove) (\<lambda>signature.
     andThen (parseKey E approverAddress) (\<lambda>approver.
     andThen (parseKey E contractAddress) (\<lambda>contract.
     andAlso (verifyStores E N 1 contractAddress stores)
    (Inr (Some \<lparr>btSender = approver, btFee = fee, btMemo = None,
        btSteps = [CallMethod contract (ApproveProposal struct signature approver (getOwnerWitness (rsOwners stores))
          (getApprovalWitness E (rsApprovals stores) h) (getCount E (rsApprovals stores) h)
          (getNullifierWitness E (rsNullifiers stores) h approver))]\<rparr>)))))))))))))"

section \<open>Executing\<close>

fun countNewAccounts :: "('m, 'w, 's) o1js \<Rightarrow> 's node \<Rightarrow> txType \<Rightarrow> receiver list \<Rightarrow> nat result" where
  "countNewAccounts E N t [] = Inr 0"
| "countNewAccounts E N t (r # rs) =
     (if keyIsEmpty (rAddress r) then countNewAccounts E N t rs
      else andThen (receiverExists (ndAccount N 0 (rAddress r))) (\<lambda>existing.
        require (\<not> (\<not> existing \<and> t = ALLOCATE_CHILD)) ''Allocation recipients must be initialized children of this vault''
        (andThen (countNewAccounts E N t rs) (\<lambda>n. Inr (if existing then n else Suc n)))))"

definition webLocalCall ::
  "('m, 'w, 's) o1js \<Rightarrow> webProposal \<Rightarrow> proposal \<Rightarrow> pubkey list \<Rightarrow> 'w \<Rightarrow> field \<Rightarrow> ('w, 's) call result" where
  "webLocalCall E p struct owners aw c = (case wpTxType p of
       Some TRANSFER \<Rightarrow> Inr (ExecuteTransfer struct aw c)
     | Some ALLOCATE_CHILD \<Rightarrow> Inr (ExecuteAllocateToChildren struct aw c)
     | Some ADD_OWNER \<Rightarrow> andThen (webApprovedInsertAfter E owners (rAddress (pReceivers struct ! 0)) (pData struct)) (\<lambda>ia.
         Inr (ExecuteOwnerChange struct aw c (getOwnerWitness owners) ia))
     | Some REMOVE_OWNER \<Rightarrow> Inr (ExecuteOwnerChange struct aw c (getOwnerWitness owners) pkNone)
     | Some CHANGE_THRESHOLD \<Rightarrow> andThen (fieldFromText E (orDefault (wpData p) ''0'')) (\<lambda>thr.
         Inr (ExecuteThresholdChange struct aw c thr))
     | Some SET_DELEGATE \<Rightarrow> Inr (ExecuteDelegate struct aw c)
     | _ \<Rightarrow> Inl (AssertFail ''Unsupported proposal type for execution''))"

definition executeProposalOnchain ::
  "('m, 'w, 's) o1js \<Rightarrow> 's node \<Rightarrow> 'm rebuiltStores result \<Rightarrow> string \<Rightarrow> int \<Rightarrow> string \<Rightarrow> string \<Rightarrow> webProposal
     \<Rightarrow> ('w, 's) builtTx option result" where
  "executeProposalOnchain E N loaded networkId fee contractAddress executorAddress p =
     andAlso (webConfigureNetwork E networkId)
    (orNone (ndState N 0 contractAddress) (\<lambda>contractState.
     andThen loaded (\<lambda>stores.
     andAlso (assertStoresMatchChain E stores (chainOf contractState))
    (andThen (webProposalStruct E (withDefaults p contractState contractAddress) contractAddress) (\<lambda>struct.
     let h = proposalHash E struct
     in andAlso (webAssertRecomputedHash h (wpProposalHash p))
    (andAlso (assertApprovedMemo E (wpMemo p) struct)
    (andThen (parseKey E contractAddress) (\<lambda>contract.
     andThen (parseKey E executorAddress) (\<lambda>executor.
     andThen (if wpTxType p \<in> {Some TRANSFER, Some ALLOCATE_CHILD} then countNewAccounts E N (the (wpTxType p)) (pReceivers struct)
        else Inr 0) (\<lambda>newAccountCount.
     andThen (webLocalCall E p struct (rsOwners stores) (getApprovalWitness E (rsApprovals stores) h)
        (getCount E (rsApprovals stores) h)) (\<lambda>c.
     Inr (Some \<lparr>btSender = executor, btFee = fee, btMemo = wpMemo p,
       btSteps = (if newAccountCount > 0 then [FundNewAccount executor newAccountCount] else []) @ [CallMethod contract c]\<rparr>))))))))))))"

definition executeSetupChildOnchain ::
  "('m, 'w, 's) o1js \<Rightarrow> 's node \<Rightarrow> 'm rebuiltStores result \<Rightarrow> string \<Rightarrow> int \<Rightarrow> string \<Rightarrow> string \<Rightarrow> string \<Rightarrow> string list \<Rightarrow> int
     \<Rightarrow> webProposal \<Rightarrow> ('w, 's) builtTx result" where
  "executeSetupChildOnchain E N loaded networkId fee parentAddress childAddress executorAddress childOwners childThreshold p =
     andAlso (webConfigureNetwork E networkId)
    (andThen (rebuildVerifiedParentApprovals E N 0 loaded parentAddress) (\<lambda>stores.
     andThen (parseKey E childAddress) (\<lambda>child.
     andThen (parseKey E executorAddress) (\<lambda>executor.
     andThen (traverse (parseKey E) childOwners) (\<lambda>owners.
     let num = fieldOfInt E (int (length owners)); thr = fieldOfInt E childThreshold
     in require (fieldToString (childConfigHash E (getCommitment E owners) thr num) = orDefault (wpData p) ''0'')
          ''SubVault config mismatch''
    (andThen (webProposalStruct E (remoteFields p childAddress) parentAddress) (\<lambda>struct.
     let h = proposalHash E struct
     in andAlso (webAssertRecomputedHash h (wpProposalHash p))
    (andAlso (assertApprovedMemo E (wpMemo p) struct)
    (andThen (requireContractState N 1 childAddress) (\<lambda>childState.
     require (wsOwnersCommitment childState = 0) ''This SubVault has already been initialized''
    (Inr \<lparr>btSender = executor, btFee = fee, btMemo = None,
       btSteps = [CallMethod child (ExecuteSetupChild thr num (padOwners owners) struct
         (getApprovalWitness E (rsApprovals stores) h) (getCount E (rsApprovals stores) h))]\<rparr>)))))))))))"

definition executeChildLifecycleOnchain ::
  "('m, 'w, 's) o1js \<Rightarrow> 's node \<Rightarrow> 'm rebuiltStores result \<Rightarrow> indexedEvent list result \<Rightarrow> string \<Rightarrow> int \<Rightarrow> string \<Rightarrow> string
     \<Rightarrow> string \<Rightarrow> webProposal \<Rightarrow> ('w, 's) builtTx result" where
  "executeChildLifecycleOnchain E N loaded childEvents networkId fee childAddress parentAddress executorAddress p =
     andAlso (webConfigureNetwork E networkId)
    (require (wpTxType p \<in> {Some RECLAIM_CHILD, Some DESTROY_CHILD, Some ENABLE_CHILD_MULTI_SIG})
       ''Unsupported child lifecycle txType''
    (andThen (rebuildVerifiedParentApprovals E N 0 loaded parentAddress) (\<lambda>stores.
     andThen childEvents (\<lambda>events.
     andThen (rebuildChildExecutionMap E events (emptyMap E)) (\<lambda>m.
     andThen (requireContractState N 1 childAddress) (\<lambda>childState.
     andAlso (assertChildExecutionMapMatchesChain E m (Some (fieldToString (wsChildExecutionRoot childState))))
    (andThen (webProposalStruct E (remoteFields p childAddress) parentAddress) (\<lambda>struct.
     let h = proposalHash E struct
     in andAlso (webAssertRecomputedHash h (wpProposalHash p))
    (andAlso (assertApprovedMemo E (wpMemo p) struct)
    (andThen (parseKey E childAddress) (\<lambda>child.
     andThen (parseKey E executorAddress) (\<lambda>executor.
     let aw = getApprovalWitness E (rsApprovals stores) h; c = getCount E (rsApprovals stores) h; cw = mapWitness E m h
     in andThen (if wpTxType p = Some RECLAIM_CHILD
          then andThen (uint64FromText (orDefault (wpData p) ''0'')) (\<lambda>amount. Inr (ExecuteReclaimToParent struct aw c cw amount))
          else if wpTxType p = Some DESTROY_CHILD
          then (case ndBalance N child of None \<Rightarrow> Inl (AssertFail ''account not found'')
            | Some balance \<Rightarrow> Inr (ExecuteDestroy struct aw c cw balance))
          else andThen (fieldFromText E (orDefault (wpData p) ''0'')) (\<lambda>enabled.
            Inr (ExecuteEnableChildMultiSig struct aw c cw enabled))) (\<lambda>call.
        Inr \<lparr>btSender = executor, btFee = fee, btMemo = wpMemo p, btSteps = [CallMethod child call]\<rparr>)))))))))))))"

section \<open>Retrying\<close>

datatype preflightAction = ProposeAction | ApproveAction | ExecuteAction | DeployAction

record preflightContext =
  pcAction :: preflightAction
  pcAddress :: string
  pcActor :: "string option"
  pcProposal :: "webProposal option"
  pcConfigNonce :: "int option"
  pcInput :: "webInput option"

datatype retryEligibility =
    RetryEligible
  | RetryExisting string
  | RetryExecuted "string option"
  | RetryInvalid string
  | RetryReview string
  | RetryUnknown

text \<open>What the assessment reads beside the vault's state: the events and state of the child, the parent and
  the switch of the vault itself, and the slot of the best block.\<close>

record retryReads =
  rrChildEvents :: "indexedEvent list result"
  rrParent :: pubkey
  rrChildMultiSigEnabled :: field
  rrChildParentNonce :: "int result"
  rrSlot :: "int option"

text \<open>The checks of a registered proposal. \<open>None\<close> leaves the decision to the checks after it.\<close>

definition assessRegistered ::
  "('m, 'w, 's) o1js \<Rightarrow> 's node \<Rightarrow> retryReads \<Rightarrow> preflightContext \<Rightarrow> 'm rebuiltStores \<Rightarrow> webState \<Rightarrow> webProposal
     \<Rightarrow> retryEligibility option result" where
  "assessRegistered E N R ctx stores s p =
     andThen (fieldFromText E (wpProposalHash p)) (\<lambda>h.
     let count = getCount E (rsApprovals stores) h
     in if count = EXECUTED_MARKER E then Inr (Some (RetryExecuted None))
        else andThen (if truthyText (wpChildAccount p) \<and> wpDestination p = Some RemoteDestination
            then andThen (rrChildEvents R) (\<lambda>events.
              andThen (rebuildChildExecutionMap E events (emptyMap E)) (\<lambda>m.
              andThen (requireContractState N 1 (the (wpChildAccount p))) (\<lambda>child.
              andAlso (assertChildExecutionMapMatchesChain E m (Some (fieldToString (wsChildExecutionRoot child))))
              (Inr (mapGet E m h = EXECUTED_MARKER E)))))
            else Inr False) (\<lambda>executedByChild.
          if executedByChild then Inr (Some (RetryExecuted None))
          else if count < PROPOSED_MARKER then Inr (Some (RetryInvalid ''This proposal is no longer registered.''))
          else if Some (fieldToString (wsConfigNonce s)) \<noteq> wpConfigNonce p
            then Inr (Some (RetryInvalid ''The vault configuration changed and invalidated this proposal.''))
          else andThen (if pcAction ctx = ApproveAction \<and> truthyText (pcActor ctx)
              then andThen (parseKey E (the (pcActor ctx))) (\<lambda>pk. Inr (isNullified E (rsNullifiers stores) h pk)) else Inr False)
            (\<lambda>voted. if voted then Inr (Some (RetryInvalid ''This owner has already approved this proposal.''))
              else if pcAction ctx = ExecuteAction \<and> fieldSub E count PROPOSED_MARKER < wsThreshold s
                then Inr (Some (RetryInvalid ''This proposal does not have enough approvals.''))
              else Inr None)))"

definition orAssess :: "'a option result \<Rightarrow> 'a result \<Rightarrow> 'a result" where
  "orAssess r k = andThen r (\<lambda>x. case x of Some y \<Rightarrow> Inr y | None \<Rightarrow> k)"

definition assessActor :: "('m, 'w, 's) o1js \<Rightarrow> preflightContext \<Rightarrow> 'm rebuiltStores \<Rightarrow> retryEligibility option result" where
  "assessActor E ctx stores =
     (if pcAction ctx = ApproveAction \<or> pcAction ctx = ProposeAction
      then andThen (if truthyText (pcActor ctx)
          then andThen (parseKey E (the (pcActor ctx))) (\<lambda>pk. Inr (isOwner E (rsOwners stores) pk)) else Inr False)
        (\<lambda>owner. Inr (if owner then None else Some (RetryInvalid ''The signer is no longer an owner of this vault.'')))
      else Inr None)"

definition assessPropose :: "('m, 'w, 's) o1js \<Rightarrow> preflightContext \<Rightarrow> 'm rebuiltStores \<Rightarrow> retryEligibility option result" where
  "assessPropose E ctx stores = (case (pcAction ctx, pcInput ctx, pcConfigNonce ctx) of
       (ProposeAction, Some input, Some cn) \<Rightarrow>
         andThen (buildNewProposal E input cn (pcAddress ctx) (rsOwners stores)) (\<lambda>p.
           let h = proposalHash E p
           in Inr (if getCount E (rsApprovals stores) h \<noteq> 0 then Some (RetryExisting (fieldToString h)) else None))
     | _ \<Rightarrow> Inr None)"

definition orZero :: "string option \<Rightarrow> int result" where
  "orZero v = (case v of None \<Rightarrow> Inr 0 | Some t \<Rightarrow> toBigInt t)"

text \<open>Type, nonce, expiry and child of the proposal, or of the form input when there is none.\<close>

definition retryTarget :: "preflightContext \<Rightarrow> (txType option \<times> int result \<times> int result \<times> string option) option" where
  "retryTarget ctx = (case pcProposal ctx of
       Some p \<Rightarrow> Some (wpTxType p, orZero (wpNonce p), orZero (wpExpirySlot p), wpChildAccount p)
     | None \<Rightarrow> (case pcInput ctx of
         Some i \<Rightarrow> Some (Some (wiTxType i), Inr (wiNonce i), Inr (orDefault (wiExpirySlot i) 0), wiChildAccount i)
       | None \<Rightarrow> None))"

definition assessNonce ::
  "preflightContext \<Rightarrow> webState \<Rightarrow> retryReads \<Rightarrow> txType option \<Rightarrow> int result \<Rightarrow> string option \<Rightarrow> retryEligibility option result" where
  "assessNonce ctx s R t nonceText child =
     (if t = Some CREATE_CHILD then Inr None
      else andThen (if truthyText child \<and> t \<in> {Some RECLAIM_CHILD, Some DESTROY_CHILD, Some ENABLE_CHILD_MULTI_SIG}
            then rrChildParentNonce R else Inr (wsNonce s)) (\<lambda>current.
          andThen nonceText (\<lambda>n. Inr (if n \<le> current then Some (RetryInvalid ''Another transaction invalidated this proposal nonce.'')
            else if pcAction ctx = ExecuteAction \<and> n \<noteq> current + 1
              then Some (RetryInvalid ''An earlier proposal must execute first.'') else None))))"

definition assessExpiry :: "retryReads \<Rightarrow> int result \<Rightarrow> retryEligibility result" where
  "assessExpiry R expiry = andThen expiry (\<lambda>e.
     if e = 0 then Inr RetryEligible
     else case rrSlot R of None \<Rightarrow> Inr RetryUnknown
       | Some slot \<Rightarrow> Inr (if slot > e then RetryInvalid ''This proposal has expired.'' else RetryEligible))"

definition assessRetry ::
  "('m, 'w, 's) o1js \<Rightarrow> 's node \<Rightarrow> 'm rebuiltStores result \<Rightarrow> retryReads \<Rightarrow> preflightContext \<Rightarrow> retryEligibility result" where
  "assessRetry E N loaded R ctx =
     (if pcAction ctx = DeployAction then Inr (RetryInvalid ''Review the account before preparing another deployment.'')
      else andThen loaded (\<lambda>stores.
        andThen (requireContractState N 0 (pcAddress ctx)) (\<lambda>s.
        andAlso (assertStoresMatchChain E stores (chainOf s))
       (orAssess (case pcProposal ctx of
            Some p \<Rightarrow> assessRegistered E N R ctx stores s p
          | None \<Rightarrow> Inr (if pcConfigNonce ctx \<noteq> None \<and> pcConfigNonce ctx \<noteq> Some (wsConfigNonce s)
              then Some (RetryInvalid
                ''The vault configuration changed. Review your proposal before creating a new request.'') else None))
       (orAssess (assessActor E ctx stores)
       (orAssess (assessPropose E ctx stores)
       (case retryTarget ctx of None \<Rightarrow> Inr RetryUnknown
        | Some (t, nonceText, expiry, child) \<Rightarrow>
            orAssess (assessNonce ctx s R t nonceText child)
           (if rrParent R \<noteq> emptyKey \<and> rrChildMultiSigEnabled R = 0
            then Inr (RetryInvalid ''This SubVault's multisig is disabled.'')
            else assessExpiry R expiry))))))))"

section \<open>Exports\<close>

definition exportStoreCheckpoint ::
  "('m, 'w, 's) o1js \<Rightarrow> 'm rebuiltStores result \<Rightarrow> string \<Rightarrow> string \<Rightarrow> storeCheckpoint result" where
  "exportStoreCheckpoint E loaded networkId contractAddress = andThen loaded (\<lambda>stores.
     Inr (checkpointStores E stores \<lparr>scNetwork = (if networkId = ''mainnet'' then ''mainnet'' else ''testnet''),
       scAddress = contractAddress\<rparr> None))"

definition computeMemoHash :: "('m, 'w, 's) o1js \<Rightarrow> string \<Rightarrow> string" where
  "computeMemoHash E memo = fieldToString (memoToField E memo)"

end
