(* ===== verification/Web_Preflight.thy ===== *)
theory Web_Preflight
  imports Web_Operations
begin

text \<open>
  The last check before a transaction leaves the browser (\<open>ui/lib/transaction-preflight.ts\<close>,
  \<open>ui/lib/preflight-flow.ts\<close>), and the submission itself (\<open>submitTx\<close> and its paths in
  \<open>ui/lib/multisigClient.worker.ts\<close>, the guard around it in \<open>ui/lib/multisigClient.ts\<close>). A run of the check
  is a list of rounds: what the node, the page and the user answer in one pass of its loop.
\<close>

section \<open>The account states of a transaction\<close>

datatype accountState = AppState "json list" | BareAccount | MissingAccount

datatype preflightResult = CurrentState | StaleState | UnavailableState

type_synonym accountReader = "string \<Rightarrow> string \<Rightarrow> accountState option"

fun jsPath :: "json \<Rightarrow> string list \<Rightarrow> json option" where
  "jsPath v [] = Some v"
| "jsPath v (k # ks) = (case jsGet v k of None \<Rightarrow> None | Some w \<Rightarrow> jsPath w ks)"

definition decimalText :: "json \<Rightarrow> bool" where
  "decimalText x = (case x of
       JStr s \<Rightarrow> s = ''0'' \<or> (s \<noteq> [] \<and> hd s \<noteq> CHR ''0'' \<and> list_all isDigit s)
     | _ \<Rightarrow> False)"

definition decimalValue :: "json \<Rightarrow> int" where
  "decimalValue x = (case x of JStr s \<Rightarrow> int (parseDecimal s) | _ \<Rightarrow> 0)"

definition nullableDecimals :: "json list \<Rightarrow> bool" where
  "nullableDecimals xs = list_all (\<lambda>x. x = JNull \<or> decimalText x) xs"

record accountUpdate =
  auKey :: "string \<times> string"
  auExpected :: "json list"
  auWritten :: "json list"
  auIsNew :: bool

definition readUpdate :: "json \<Rightarrow> accountUpdate result" where
  "readUpdate u = (case (jsPath u [''body'', ''publicKey''], jsPath u [''body'', ''tokenId''],
         jsPath u [''body'', ''preconditions'', ''account'', ''state''], jsPath u [''body'', ''update'', ''appState'']) of
       (Some (JStr pk), Some (JStr tok), Some (JArr expected), Some (JArr written)) \<Rightarrow>
         if length expected = length written \<and> nullableDecimals expected \<and> nullableDecimals written
         then Inr \<lparr>auKey = (pk, tok), auExpected = expected, auWritten = written,
           auIsNew = (jsPath u [''body'', ''preconditions'', ''account'', ''isNew''] = Some (JBool True))\<rparr>
         else Inl (AssertFail ''Invalid account update'')
     | _ \<Rightarrow> Inl (AssertFail ''Invalid account update''))"

definition touchesState :: "accountUpdate \<Rightarrow> bool" where
  "touchesState u \<longleftrightarrow> \<not> (list_all (\<lambda>x. x = JNull) (auExpected u) \<and> list_all (\<lambda>x. x = JNull) (auWritten u))"

definition constrained :: "accountUpdate \<Rightarrow> bool" where
  "constrained u \<longleftrightarrow> list_ex (\<lambda>x. x \<noteq> JNull) (auExpected u)"

definition preconditionFails :: "json \<times> json \<Rightarrow> bool" where
  "preconditionFails = (\<lambda>(wanted, current). wanted \<noteq> JNull \<and> decimalValue wanted \<noteq> decimalValue current)"

definition writeOver :: "json list \<Rightarrow> json list \<Rightarrow> json list" where
  "writeOver written actual = map (\<lambda>(w, a). if w = JNull then a else w) (zip written actual)"

definition stateSeen :: "accountReader \<Rightarrow> (string \<times> string \<rightharpoonup> accountState) \<Rightarrow> string \<times> string \<Rightarrow> accountState result" where
  "stateSeen rd states k = (case states k of Some s \<Rightarrow> Inr s
     | None \<Rightarrow> (case rd (fst k) (snd k) of None \<Rightarrow> Inl (AssertFail ''Node unavailable'') | Some s \<Rightarrow> Inr s))"

text \<open>An account without state reads as zeros, which is what a deployment into it writes.\<close>

definition stateValues :: "nat \<Rightarrow> accountState \<Rightarrow> json list" where
  "stateValues n s = (case s of AppState xs \<Rightarrow> xs | _ \<Rightarrow> replicate n (JStr ''0''))"

text \<open>One update against the states seen so far; \<open>None\<close> is a stale precondition.\<close>

definition checkUpdate ::
  "accountReader \<Rightarrow> (string \<times> string \<rightharpoonup> accountState) \<Rightarrow> json \<Rightarrow> (string \<times> string \<rightharpoonup> accountState) option result" where
  "checkUpdate rd states json = andThen (readUpdate json) (\<lambda>u.
     if \<not> touchesState u then Inr (Some states)
     else andThen (stateSeen rd states (auKey u)) (\<lambda>s.
       if (s = MissingAccount \<and> \<not> auIsNew u \<and> constrained u) \<or> (s = BareAccount \<and> auIsNew u) then Inr None
       else let actual = stateValues (length (auExpected u)) s
         in require (length actual = length (auExpected u) \<and> list_all decimalText actual) ''Incomplete account state''
           (if list_ex preconditionFails (zip (auExpected u) actual) then Inr None
            else Inr (Some (states(auKey u \<mapsto> AppState (writeOver (auWritten u) actual)))))))"

fun checkUpdates :: "accountReader \<Rightarrow> (string \<times> string \<rightharpoonup> accountState) \<Rightarrow> json list \<Rightarrow> preflightResult" where
  "checkUpdates rd states [] = CurrentState"
| "checkUpdates rd states (u # us) = (case checkUpdate rd states u of
       Inl _ \<Rightarrow> UnavailableState | Inr None \<Rightarrow> StaleState | Inr (Some states') \<Rightarrow> checkUpdates rd states' us)"

definition checkTransactionState :: "accountReader \<Rightarrow> json option \<Rightarrow> preflightResult" where
  "checkTransactionState rd tx = (case Option.bind tx (\<lambda>t. jsGet t ''accountUpdates'') of
       Some (JArr us) \<Rightarrow> checkUpdates rd (\<lambda>_. None) us
     | _ \<Rightarrow> UnavailableState)"

record nodeResponse =
  nrOk :: bool
  nrBody :: "json option"

definition nodeAccountReader :: "(string \<Rightarrow> string \<Rightarrow> nodeResponse) \<Rightarrow> accountReader" where
  "nodeAccountReader ask pk tok = (case (nrOk (ask pk tok), nrBody (ask pk tok)) of
       (True, Some reply) \<Rightarrow>
         (if (case jsGet reply ''errors'' of Some (JArr (_ # _)) \<Rightarrow> True
            | Some (JStr (_ # _)) \<Rightarrow> True | _ \<Rightarrow> False) then None
          else (case jsPath reply [''data'', ''account''] of
              None \<Rightarrow> None
            | Some JNull \<Rightarrow> Some MissingAccount
            | Some account \<Rightarrow> (case jsGet account ''zkappState'' of
                 Some JNull \<Rightarrow> Some BareAccount
               | Some (JArr xs) \<Rightarrow> Some (AppState xs)
               | _ \<Rightarrow> None)))
     | _ \<Rightarrow> None)"

section \<open>The check loop\<close>

datatype preflightChoice = RetryChoice | RebuildChoice | CancelChoice

datatype preflightKind =
  CheckingKind | StoresKind | StaleKind | ExistingKind | UnavailableKind | ExecutedKind | InvalidKind | ReviewKind

record preflightView =
  pvKind :: preflightKind
  pvOffline :: bool
  pvCanRebuild :: bool
  pvMessage :: "string option"
  pvExecutionHash :: "string option"
  pvProposalHash :: "string option"

text \<open>One pass: the page's generation and configuration when the pass starts and after the node answered,
  the check before it, the node's accounts, the assessment, the mounted pages, and the user's decision.
  A user who never decides ends the list of passes.\<close>

record preflightRound =
  prGeneration :: nat
  prBefore :: "unit result"
  prAccounts :: accountReader
  prGenerationAfter :: nat
  prConfigAfter :: string
  prAssess :: "retryEligibility result"
  prHosts :: nat
  prGenerationAsked :: nat
  prChoice :: preflightChoice

datatype preflightEnd = PreflightPassed | PreflightThrew error | PreflightWaiting

definition PREFLIGHT_CANCELLED :: error where
  "PREFLIGHT_CANCELLED = AssertFail ''Transaction cancelled before broadcast.''"

definition PREFLIGHT_REBUILD :: error where
  "PREFLIGHT_REBUILD = AssertFail ''MINAGUARD_REBUILD_TRANSACTION''"

definition eligibilityOf :: "preflightResult \<Rightarrow> retryEligibility result \<Rightarrow> retryEligibility" where
  "eligibilityOf checked assessed = (if checked = StaleState then (case assessed of Inr e \<Rightarrow> e | Inl _ \<Rightarrow> RetryUnknown)
     else RetryUnknown)"

definition kindOf :: "preflightResult \<Rightarrow> retryEligibility \<Rightarrow> preflightKind" where
  "kindOf checked e = (if checked = UnavailableState then UnavailableKind
     else case e of RetryUnknown \<Rightarrow> UnavailableKind | RetryEligible \<Rightarrow> StaleKind | RetryExisting _ \<Rightarrow> ExistingKind
       | RetryExecuted _ \<Rightarrow> ExecutedKind | RetryInvalid _ \<Rightarrow> InvalidKind | RetryReview _ \<Rightarrow> ReviewKind)"

definition messageOf :: "retryEligibility \<Rightarrow> string option" where
  "messageOf e = (case e of RetryInvalid m \<Rightarrow> Some m | RetryReview m \<Rightarrow> Some m | _ \<Rightarrow> None)"

text \<open>The views that are published (\<open>None\<close> closes the panel) and how the check ends.\<close>

fun runPreflightCheck ::
  "json option \<Rightarrow> bool \<Rightarrow> bool \<Rightarrow> nat \<Rightarrow> string \<Rightarrow> preflightRound list \<Rightarrow> preflightView option list \<times> preflightEnd" where
  "runPreflightCheck tx offline canRebuild started config [] = ([], PreflightWaiting)"
| "runPreflightCheck tx offline canRebuild started config (r # rs) =
     (if prGeneration r \<noteq> started then ([], PreflightThrew PREFLIGHT_CANCELLED)
      else let checking = Some \<lparr>pvKind = CheckingKind, pvOffline = offline, pvCanRebuild = False,
             pvMessage = None, pvExecutionHash = None, pvProposalHash = None\<rparr>
      in case prBefore r of
        Inl e \<Rightarrow> ([checking, None], PreflightThrew e)
      | Inr _ \<Rightarrow>
         (let checked = checkTransactionState (prAccounts r) tx; e = eligibilityOf checked (prAssess r)
          in if prGenerationAfter r \<noteq> started then ([checking, None], PreflightThrew PREFLIGHT_CANCELLED)
             else if prConfigAfter r \<noteq> config
             then ([checking, None], PreflightThrew (AssertFail ''Network changed. Prepare a new transaction.''))
             else if checked = CurrentState then ([checking, None], PreflightPassed)
             else if prHosts r = 0 \<or> prGenerationAsked r \<noteq> started then ([checking, None], PreflightThrew PREFLIGHT_CANCELLED)
             else let asked = Some \<lparr>pvKind = kindOf checked e, pvOffline = offline,
                    pvCanRebuild = (canRebuild \<and> e = RetryEligible),
                    pvMessage = messageOf e, pvExecutionHash = (case e of RetryExecuted h \<Rightarrow> h | _ \<Rightarrow> None),
                    pvProposalHash = (case e of RetryExisting h \<Rightarrow> Some h | _ \<Rightarrow> None)\<rparr>
             in (case prChoice r of
                  CancelChoice \<Rightarrow> ([checking, asked, None], PreflightThrew PREFLIGHT_CANCELLED)
                | RebuildChoice \<Rightarrow> ([checking, asked, None], PreflightThrew PREFLIGHT_REBUILD)
                | RetryChoice \<Rightarrow> (case runPreflightCheck tx offline canRebuild started config rs of
                     (views, result) \<Rightarrow> ([checking, asked, None] @ views, result)))))"

text \<open>Only one check or recovery runs at a time; the gate is open again after it, however it ended.\<close>

definition preflightBeforeSend ::
  "bool \<Rightarrow> json option \<Rightarrow> bool \<Rightarrow> bool \<Rightarrow> nat \<Rightarrow> string \<Rightarrow> preflightRound list
     \<Rightarrow> (preflightView option list \<times> preflightEnd) \<times> bool" where
  "preflightBeforeSend gateBusy tx offline canRebuild started config rounds =
     (if gateBusy then (([], PreflightThrew (AssertFail ''Resolve the current transaction check before starting another.'')), True)
      else case runPreflightCheck tx offline canRebuild started config rounds of
        (views, PreflightWaiting) \<Rightarrow> ((views, PreflightWaiting), True)
      | (views, result) \<Rightarrow> ((views @ [None], result), False))"

section \<open>Recovery while a transaction is prepared\<close>

definition isStoreStateMismatch :: "error \<Rightarrow> bool" where
  "isStoreStateMismatch e \<longleftrightarrow> e \<in> {AssertFail ''Rebuilt owner list does not match'',
     AssertFail ''Rebuilt approval map does not match'', AssertFail ''Rebuilt vote nullifier map does not match'',
     AssertFail ''Rebuilt child execution map does not match''}"

definition existingProposalHash :: "error \<Rightarrow> string option" where
  "existingProposalHash e = (case e of
       AssertFail m \<Rightarrow>
         (let prefix = ''MINAGUARD_PROPOSAL_EXISTS:''; rest = drop (length prefix) m
          in if take (length prefix) m = prefix \<and> rest \<noteq> [] \<and> list_all isDigit rest then Some rest else None)
     | _ \<Rightarrow> None)"

text \<open>One attempt: the generation and configuration before it, its result, and the page after it failed.\<close>

record 'r recoveryRound =
  rvGeneration :: nat
  rvConfig :: string
  rvResult :: "'r result"
  rvGenerationAfter :: nat
  rvConfigAfter :: string
  rvHosts :: nat
  rvGateBusy :: bool
  rvChoice :: preflightChoice

datatype 'r recoveryEnd = Recovered 'r | RecoveryThrew error | RecoveryWaiting

definition networkChanged :: error where
  "networkChanged = AssertFail ''Network changed. Prepare a new transaction.''"

fun withStoreRecovery :: "bool \<Rightarrow> nat \<Rightarrow> string \<Rightarrow> 'r recoveryRound list \<Rightarrow> 'r recoveryEnd" where
  "withStoreRecovery offline started config [] = RecoveryWaiting"
| "withStoreRecovery offline started config (r # rs) =
     (if rvGeneration r \<noteq> started then RecoveryThrew PREFLIGHT_CANCELLED
      else if rvConfig r \<noteq> config then RecoveryThrew networkChanged
      else let failed = (\<lambda>e. let propHash = existingProposalHash e
             in if propHash = None \<and> \<not> isStoreStateMismatch e then RecoveryThrew e
                else if rvHosts r = 0 \<or> rvGenerationAfter r \<noteq> started then RecoveryThrew PREFLIGHT_CANCELLED
                else if rvGateBusy r then RecoveryThrew e
                else if propHash \<noteq> None \<or> rvChoice r \<noteq> RetryChoice then RecoveryThrew PREFLIGHT_CANCELLED
                else withStoreRecovery offline started config rs)
      in case rvResult r of
           Inr x \<Rightarrow> (if offline \<and> rvGenerationAfter r \<noteq> started then failed PREFLIGHT_CANCELLED
              else if offline \<and> rvConfigAfter r \<noteq> config then failed networkChanged
              else Recovered x)
         | Inl e \<Rightarrow> failed e)"

section \<open>Submission\<close>

datatype sendReply = SendRefused string | SendAnswered "string option"

record directReply =
  drHash :: string
  drErrors :: "string list"
  drRejected :: bool

datatype txEffect =
    CheckedBeforeBroadcast json
  | FeePayerRequested string
  | Broadcast json
  | SentToWallet json "string option"

text \<open>The submission's surroundings: the test key, signing and serialisation of o1js, the two wallets
  and the node.\<close>

record 'g submitter =
  smTestKey :: "string option"
  smSign :: "string list \<Rightarrow> json \<Rightarrow> json"
  smSendDirect :: "json \<Rightarrow> directReply"
  smCommitment :: "json \<Rightarrow> string"
  smSignFeePayer :: "(string \<Rightarrow> 'g option) option"
  smSignatureText :: "'g \<Rightarrow> string"
  smSendZkapp :: "json \<Rightarrow> sendReply"
  smSendFn :: "(json \<Rightarrow> string option \<Rightarrow> string option result) option"

fun jsPut :: "string \<Rightarrow> json \<Rightarrow> (string \<times> json) list \<Rightarrow> (string \<times> json) list" where
  "jsPut k v [] = [(k, v)]"
| "jsPut k v ((k', w) # rest) = (if k = k' then (k, v) # rest else (k', w) # jsPut k v rest)"

definition jsWith :: "json \<Rightarrow> string \<Rightarrow> json \<Rightarrow> json" where
  "jsWith v k w = (case v of JObj entries \<Rightarrow> JObj (jsPut k w entries) | _ \<Rightarrow> v)"

definition signOwnUpdate :: "json option \<Rightarrow> string \<Rightarrow> json \<Rightarrow> json" where
  "signOwnUpdate feePayerPk sig u =
     (if jsPath u [''body''] \<noteq> None \<and> jsPath u [''body'', ''publicKey''] = feePayerPk
         \<and> jsPath u [''body'', ''authorizationKind'', ''isSigned''] = Some (JBool True)
         \<and> jsPath u [''body'', ''useFullCommitment''] = Some (JBool True)
      then jsWith u ''authorization'' (JObj [(''signature'', JStr sig)]) else u)"

text \<open>The fee payer's signature goes on the fee payer and on its own updates that ask for one.\<close>

definition withFeePayerSignature :: "string \<Rightarrow> json \<Rightarrow> json" where
  "withFeePayerSignature sig tx =
     (let payer = orDefault (jsGet tx ''feePayer'') JNull;
          tx' = jsWith tx ''feePayer'' (jsWith payer ''authorization'' (JStr sig))
      in case jsGet tx' ''accountUpdates'' of
           Some (JArr us) \<Rightarrow> jsWith tx' ''accountUpdates'' (JArr (map (signOwnUpdate (jsPath payer [''body'', ''publicKey'']) sig) us))
         | _ \<Rightarrow> tx')"

definition checkThen ::
  "(json \<Rightarrow> unit result) \<Rightarrow> json \<Rightarrow> txEffect \<Rightarrow> string option result \<Rightarrow> txEffect list \<times> string option result" where
  "checkThen check tx eff result = (case check tx of
       Inl e \<Rightarrow> ([], Inl e) | Inr _ \<Rightarrow> ([CheckedBeforeBroadcast tx, eff], result))"

definition signAndSend ::
  "'g submitter \<Rightarrow> (json \<Rightarrow> unit result) \<Rightarrow> string \<Rightarrow> json \<Rightarrow> string list \<Rightarrow> txEffect list \<times> string option result" where
  "signAndSend W check key tx extraKeys =
     (let signed = smSign W (key # extraKeys) tx
      in checkThen check signed (Broadcast signed)
           (let sent = smSendDirect W signed
            in require (drErrors sent = []) ''Transaction rejected by node''
              (require (\<not> drRejected sent) ''Transaction was rejected by the node'' (Inr (Some (drHash sent))))))"

definition broadcastWithLedgerSig ::
  "'g submitter \<Rightarrow> (json \<Rightarrow> unit result) \<Rightarrow> (string \<Rightarrow> 'g option) \<Rightarrow> json \<Rightarrow> txEffect list \<times> string option result" where
  "broadcastWithLedgerSig W check askFeePayer tx =
     (let commitment = smCommitment W tx
      in case askFeePayer commitment of
           None \<Rightarrow> ([FeePayerRequested commitment], Inr None)
         | Some sig \<Rightarrow>
            (let signed = withFeePayerSignature (smSignatureText W sig) tx;
                 (effs, result) = checkThen check signed (Broadcast signed) (case smSendZkapp W signed of
                     SendRefused message \<Rightarrow> Inl (AssertFail (''Transaction rejected by node: '' @ message))
                   | SendAnswered hash \<Rightarrow> (if truthyText hash then Inr hash else Inl (AssertFail ''sendZkapp returned no tx hash'')))
             in (FeePayerRequested commitment # effs, result)))"

definition submitTx ::
  "'g submitter \<Rightarrow> (json \<Rightarrow> unit result) \<Rightarrow> json \<Rightarrow> string list \<Rightarrow> string option \<Rightarrow> txEffect list \<times> string option result" where
  "submitTx W check tx extraKeys memo = (case smTestKey W of
       Some key \<Rightarrow> signAndSend W check key tx extraKeys
     | None \<Rightarrow>
        (let txJson = (if extraKeys \<noteq> [] then smSign W extraKeys tx else tx)
         in case smSignFeePayer W of
              Some askFeePayer \<Rightarrow> broadcastWithLedgerSig W check askFeePayer txJson
            | None \<Rightarrow> (case smSendFn W of
                None \<Rightarrow> ([], Inr None)
              | Some send \<Rightarrow> checkThen check txJson (SentToWallet txJson memo) (send txJson memo))))"

text \<open>The wallet callback of Auro, and the check that the main thread gives to the worker.\<close>

definition auroSend ::
  "string option \<Rightarrow> string list \<Rightarrow> string \<Rightarrow> string option \<Rightarrow> (json \<Rightarrow> string option \<Rightarrow> string option)
     \<Rightarrow> json \<Rightarrow> string option \<Rightarrow> string option result" where
  "auroSend network connected configured actor send tx memo =
     require (truthyText network \<and> (network = Some ''mainnet'') = (configured = ''mainnet''))
       ''Confirm the configured network in Auro before trying again.''
    (require (truthyText actor \<and> the actor \<in> set connected)
       ''The connected wallet changed. Prepare a new transaction with the intended signer.''
    (Inr (send tx memo)))"

record preflightPage =
  ppActive :: bool
  ppGenerationOk :: bool
  ppConfigOk :: bool
  ppGateBusy :: bool
  ppStarted :: nat
  ppConfig :: string
  ppRounds :: "preflightRound list"
  ppConfigOkAfter :: bool

definition pageCheck :: "preflightPage \<Rightarrow> json \<Rightarrow> unit result" where
  "pageCheck P tx =
     require (ppActive P) ''No active transaction context.''
    (if \<not> ppGenerationOk P then Inl PREFLIGHT_CANCELLED
     else require (ppConfigOk P) ''Network configuration changed. Reload before preparing a new transaction.''
       (case snd (fst (preflightBeforeSend (ppGateBusy P) (Some tx) False True (ppStarted P) (ppConfig P) (ppRounds P))) of
          PreflightThrew e \<Rightarrow> Inl e
        | PreflightWaiting \<Rightarrow> Inl (AssertFail ''waiting for a decision'')
        | PreflightPassed \<Rightarrow>
            require (ppConfigOkAfter P) ''Network configuration changed. Reload before preparing a new transaction.'' (Inr ())))"

fun allCanonical :: "(string \<Rightarrow> bool result) \<Rightarrow> string list \<Rightarrow> bool result" where
  "allCanonical canonical [] = Inr True"
| "allCanonical canonical (a # rest) = andThen (canonical a) (\<lambda>ok. if ok then allCanonical canonical rest else Inr False)"

definition assessPreflightRetry ::
  "preflightContext \<Rightarrow> (string \<Rightarrow> bool result) \<Rightarrow> retryEligibility result \<Rightarrow> webProposal option result
     \<Rightarrow> retryEligibility result" where
  "assessPreflightRetry ctx canonical assessed fetched =
     andThen (if pcAction ctx = DeployAction then Inr True
        else allCanonical canonical (filter (\<lambda>a. a \<noteq> [])
             (pcAddress ctx # (case Option.bind (pcProposal ctx) wpChildAccount of None \<Rightarrow> [] | Some a \<Rightarrow> [a])))) (\<lambda>trusted.
     if \<not> trusted then Inr RetryUnknown
     else andThen assessed (\<lambda>e. case (e, pcProposal ctx) of
         (RetryExecuted _, Some p) \<Rightarrow> andThen fetched (\<lambda>q. Inr (RetryExecuted (Option.bind q wpExecutionTxHash)))
       | _ \<Rightarrow> Inr e))"

text \<open>An action runs until it ends otherwise than by the user's wish to prepare the transaction again; then
  it is prepared again only if the action is still eligible. One attempt: the generation and the endpoint
  before it, how the preparation with its recovery ended, and the assessment after it.\<close>

record 'r actionRound =
  arGeneration :: nat
  arEndpoint :: string
  arEnd :: "'r recoveryEnd"
  arAssess :: "retryEligibility result"

fun actionLoop :: "nat \<Rightarrow> string \<Rightarrow> 'r actionRound list \<Rightarrow> 'r recoveryEnd" where
  "actionLoop started endpoint [] = RecoveryWaiting"
| "actionLoop started endpoint (r # rs) =
     (if arGeneration r \<noteq> started then RecoveryThrew PREFLIGHT_CANCELLED
      else if arEndpoint r \<noteq> endpoint then RecoveryThrew networkChanged
      else case arEnd r of
        RecoveryThrew e \<Rightarrow>
          (if e \<noteq> PREFLIGHT_REBUILD then RecoveryThrew e
           else case arAssess r of
             Inl f \<Rightarrow> RecoveryThrew f
           | Inr RetryEligible \<Rightarrow> actionLoop started endpoint rs
           | Inr other \<Rightarrow> RecoveryThrew (AssertFail (orDefault (messageOf other)
               ''This action could not be verified as eligible. Refresh the proposal before trying again.'')))
      | ended \<Rightarrow> ended)"

text \<open>One action at a time: the context of the running action is cleared however it ends, and a second one
  is refused without touching it.\<close>

definition runPreflightAction ::
  "preflightContext option \<Rightarrow> preflightContext \<Rightarrow> nat \<Rightarrow> string \<Rightarrow> 'r actionRound list
     \<Rightarrow> 'r recoveryEnd \<times> preflightContext option" where
  "runPreflightAction active ctx started endpoint rounds =
     (if active \<noteq> None then (RecoveryThrew (AssertFail ''Another transaction is being prepared in this tab.''), active)
      else case actionLoop started endpoint rounds of
        RecoveryWaiting \<Rightarrow> (RecoveryWaiting, Some ctx)
      | result \<Rightarrow> (result, None))"

section \<open>What a current state means\<close>

text \<open>The value of a state field when an update is applied: the last value that an earlier update of the same
  account wrote there, and otherwise the one the node reported (zero where there is no state yet).\<close>

definition writesAt :: "accountUpdate \<Rightarrow> string \<times> string \<Rightarrow> nat \<Rightarrow> bool" where
  "writesAt u k j \<longleftrightarrow> auKey u = k \<and> j < length (auWritten u) \<and> auWritten u ! j \<noteq> JNull"

definition lastWrite :: "accountUpdate list \<Rightarrow> string \<times> string \<Rightarrow> nat \<Rightarrow> int option" where
  "lastWrite us k j = foldl (\<lambda>acc u. if writesAt u k j then Some (decimalValue (auWritten u ! j)) else acc) None us"

definition nodeValue :: "accountReader \<Rightarrow> string \<times> string \<Rightarrow> nat \<Rightarrow> int" where
  "nodeValue rd k j = (case rd (fst k) (snd k) of Some (AppState xs) \<Rightarrow> decimalValue (xs ! j) | _ \<Rightarrow> 0)"

definition valueBefore :: "accountReader \<Rightarrow> accountUpdate list \<Rightarrow> string \<times> string \<Rightarrow> nat \<Rightarrow> int" where
  "valueBefore rd us k j = orDefault (lastWrite us k j) (nodeValue rd k j)"

definition preconditionsHold :: "accountReader \<Rightarrow> accountUpdate list \<Rightarrow> bool" where
  "preconditionsHold rd us \<longleftrightarrow> (\<forall>i<length us. \<forall>j<length (auExpected (us ! i)). auExpected (us ! i) ! j \<noteq> JNull \<longrightarrow>
     decimalValue (auExpected (us ! i) ! j) = valueBefore rd (take i us) (auKey (us ! i)) j)"

lemma lastWrite_snoc:
  "lastWrite (us @ [u]) k j = (if writesAt u k j then Some (decimalValue (auWritten u ! j)) else lastWrite us k j)"
  by (simp add: lastWrite_def)

definition stateFits :: "accountReader \<Rightarrow> accountUpdate list \<Rightarrow> string \<times> string \<Rightarrow> accountState option \<Rightarrow> bool" where
  "stateFits rd done k st \<longleftrightarrow> (case st of
       None \<Rightarrow> (\<forall>j. lastWrite done k j = None)
     | Some s \<Rightarrow> (\<exists>xs. s = AppState xs \<and> (\<forall>j<length xs. decimalValue (xs ! j) = valueBefore rd done k j)))"

definition statesOk :: "accountReader \<Rightarrow> accountUpdate list \<Rightarrow> (string \<times> string \<rightharpoonup> accountState) \<Rightarrow> bool" where
  "statesOk rd done states \<longleftrightarrow> (\<forall>k. stateFits rd done k (states k))"

lemma statesOk_unseen: "statesOk rd done states \<Longrightarrow> states k = None \<Longrightarrow> lastWrite done k j = None"
  unfolding statesOk_def stateFits_def by (erule allE [of _ k]) simp

lemma statesOk_seen:
  "statesOk rd done states \<Longrightarrow> states k = Some s \<Longrightarrow>
   \<exists>xs. s = AppState xs \<and> (\<forall>j<length xs. decimalValue (xs ! j) = valueBefore rd done k j)"
  unfolding statesOk_def stateFits_def by (erule allE [of _ k]) simp

lemma stateFits_cong:
  "(\<And>j. lastWrite done' k j = lastWrite done k j) \<Longrightarrow> stateFits rd done' k st = stateFits rd done k st"
  by (cases st) (simp_all add: stateFits_def valueBefore_def)

lemma readUpdate_lengths: "readUpdate json = Inr u \<Longrightarrow> length (auWritten u) = length (auExpected u)"
  by (auto simp: readUpdate_def split: option.splits json.splits if_splits)

lemma untouched_writes_nothing: "\<not> touchesState u \<Longrightarrow> \<not> writesAt u k j"
  by (auto simp: touchesState_def writesAt_def list_all_length)

lemma statesOk_skip:
  assumes ok: "statesOk rd done states" and skip: "\<not> touchesState u"
  shows "statesOk rd (done @ [u]) states"
  unfolding statesOk_def
proof
  fix k
  have "lastWrite (done @ [u]) k j = lastWrite done k j" for j
    using untouched_writes_nothing [OF skip] by (simp add: lastWrite_snoc)
  thus "stateFits rd (done @ [u]) k (states k)" using ok stateFits_cong unfolding statesOk_def by metis
qed

lemma statesOk_write:
  assumes ok: "statesOk rd done states"
    and vals: "\<And>j. j < length xs \<Longrightarrow> decimalValue (xs ! j) = valueBefore rd done (auKey u) j"
    and len: "length (auWritten u) = length xs"
  shows "statesOk rd (done @ [u]) (states(auKey u \<mapsto> AppState (writeOver (auWritten u) xs)))"
  unfolding statesOk_def
proof
  fix k
  show "stateFits rd (done @ [u]) k ((states(auKey u \<mapsto> AppState (writeOver (auWritten u) xs))) k)"
  proof (cases "k = auKey u")
    case False
    hence "lastWrite (done @ [u]) k j = lastWrite done k j" for j by (simp add: lastWrite_snoc writesAt_def)
    thus ?thesis using ok False stateFits_cong unfolding statesOk_def by (metis fun_upd_other)
  next
    case True
    have "decimalValue (writeOver (auWritten u) xs ! j) = valueBefore rd (done @ [u]) k j"
      if "j < length (writeOver (auWritten u) xs)" for j
      using that vals [of j] len True by (auto simp: writeOver_def valueBefore_def lastWrite_snoc writesAt_def)
    thus ?thesis using True by (simp add: stateFits_def)
  qed
qed

lemma stateValues_node:
  assumes "rd (fst k) (snd k) = Some s" and "j < length (stateValues n s)"
  shows "decimalValue (stateValues n s ! j) = nodeValue rd k j"
proof -
  have "decimalValue (JStr ''0'') = 0" by (simp add: decimalValue_def parseDecimal_def digitVal_def)
  thus ?thesis using assms by (cases s) (simp_all add: stateValues_def nodeValue_def)
qed

text \<open>What one accepted update shows.\<close>

lemma checkUpdate_accepts:
  assumes ok: "statesOk rd done states" and acc: "checkUpdate rd states json = Inr (Some states')"
  shows "\<exists>u. readUpdate json = Inr u \<and> statesOk rd (done @ [u]) states' \<and>
     (\<forall>j<length (auExpected u). auExpected u ! j \<noteq> JNull \<longrightarrow> decimalValue (auExpected u ! j) = valueBefore rd done (auKey u) j)"
proof -
  from acc obtain u where u: "readUpdate json = Inr u" unfolding checkUpdate_def by auto
  note len = readUpdate_lengths [OF u]
  show ?thesis
  proof (cases "touchesState u")
    case False
    hence "states' = states" using acc u by (simp add: checkUpdate_def)
    moreover have "\<forall>j<length (auExpected u). auExpected u ! j = JNull" using False by (simp add: touchesState_def list_all_length)
    ultimately show ?thesis using u statesOk_skip [OF ok False] by auto
  next
    case True
    obtain s where s: "stateSeen rd states (auKey u) = Inr s" and step: "(if (s = MissingAccount \<and> \<not> auIsNew u \<and> constrained u) \<or> (s = BareAccount \<and> auIsNew u) then Inr None
       else let actual = stateValues (length (auExpected u)) s
         in require (length actual = length (auExpected u) \<and> list_all decimalText actual) ''Incomplete account state''
           (if list_ex preconditionFails (zip (auExpected u) actual) then Inr None
            else Inr (Some (states(auKey u \<mapsto> AppState (writeOver (auWritten u) actual)))))) = Inr (Some states')"
      using acc True unfolding checkUpdate_def u andThen_simps by (simp only: True not_True_eq_False if_False andThen_Inr) blast
    define xs where "xs = stateValues (length (auExpected u)) s"
    have lenx: "length xs = length (auExpected u)" and pre: "\<not> list_ex preconditionFails (zip (auExpected u) xs)"
      and st: "states' = states(auKey u \<mapsto> AppState (writeOver (auWritten u) xs))"
      using step unfolding Let_def xs_def [symmetric] by (simp_all only: require_Inr split: if_split_asm) simp_all
    have vals: "decimalValue (xs ! j) = valueBefore rd done (auKey u) j" if j: "j < length xs" for j
    proof (cases "states (auKey u)")
      case None
      hence nw: "lastWrite done (auKey u) j = None" by (rule statesOk_unseen [OF ok])
      have node: "rd (fst (auKey u)) (snd (auKey u)) = Some s" using s None by (auto simp: stateSeen_def split: option.splits)
      show ?thesis using nw stateValues_node [where rd = rd and k = "auKey u", OF node j [unfolded xs_def]] by (simp add: valueBefore_def xs_def)
    next
      case (Some s0)
      hence "s0 = s" using s by (simp add: stateSeen_def)
      moreover have "\<exists>ys. s0 = AppState ys \<and> (\<forall>j<length ys. decimalValue (ys ! j) = valueBefore rd done (auKey u) j)"
        by (rule statesOk_seen [OF ok Some])
      ultimately show ?thesis using j by (auto simp: xs_def stateValues_def)
    qed
    have "decimalValue (auExpected u ! j) = valueBefore rd done (auKey u) j"
      if "j < length (auExpected u)" "auExpected u ! j \<noteq> JNull" for j
      using pre that vals lenx by (fastforce simp: list_ex_length preconditionFails_def)
    thus ?thesis using u statesOk_write [OF ok vals] len lenx st by auto
  qed
qed

lemma checkUpdates_sound:
  "statesOk rd done states \<Longrightarrow> checkUpdates rd states us = CurrentState \<Longrightarrow>
   \<exists>ps. map readUpdate us = map Inr ps \<and> (\<forall>i<length ps. \<forall>j<length (auExpected (ps ! i)). auExpected (ps ! i) ! j \<noteq> JNull \<longrightarrow>
     decimalValue (auExpected (ps ! i) ! j) = valueBefore rd (done @ take i ps) (auKey (ps ! i)) j)"
proof (induction us arbitrary: "done" states)
  case Nil
  thus ?case by (intro exI [of _ "[]"]) simp
next
  case (Cons json us)
  from Cons.prems(2) obtain states' where c: "checkUpdate rd states json = Inr (Some states')"
    and rest: "checkUpdates rd states' us = CurrentState"
    by (auto split: sum.splits option.splits)
  obtain u where u: "readUpdate json = Inr u" "statesOk rd (done @ [u]) states'"
    "\<forall>j<length (auExpected u). auExpected u ! j \<noteq> JNull \<longrightarrow> decimalValue (auExpected u ! j) = valueBefore rd done (auKey u) j"
    using checkUpdate_accepts [OF Cons.prems(1) c] by blast
  obtain ps where ps: "map readUpdate us = map Inr ps"
    "\<forall>i<length ps. \<forall>j<length (auExpected (ps ! i)). auExpected (ps ! i) ! j \<noteq> JNull \<longrightarrow>
      decimalValue (auExpected (ps ! i) ! j) = valueBefore rd ((done @ [u]) @ take i ps) (auKey (ps ! i)) j"
    using Cons.IH [OF u(2) rest] by blast
  have "\<forall>i<length (u # ps). \<forall>j<length (auExpected ((u # ps) ! i)). auExpected ((u # ps) ! i) ! j \<noteq> JNull \<longrightarrow>
     decimalValue (auExpected ((u # ps) ! i) ! j) = valueBefore rd (done @ take i (u # ps)) (auKey ((u # ps) ! i)) j"
    using u(3) ps(2) by (auto simp: nth_Cons split: nat.splits)
  moreover have "map readUpdate (json # us) = map Inr (u # ps)" using u(1) ps(1) by simp
  ultimately show ?case by blast
qed

lemma current_means_preconditions_hold:
  assumes "checkTransactionState rd (Some tx) = CurrentState"
  shows "\<exists>us ps. jsGet tx ''accountUpdates'' = Some (JArr us) \<and> map readUpdate us = map Inr ps \<and> preconditionsHold rd ps"
proof -
  obtain us where us: "jsGet tx ''accountUpdates'' = Some (JArr us)" "checkUpdates rd (\<lambda>_. None) us = CurrentState"
    using assms by (auto simp: checkTransactionState_def split: option.splits json.splits)
  have "statesOk rd [] (\<lambda>_. None)" by (simp add: statesOk_def stateFits_def lastWrite_def)
  from checkUpdates_sound [OF this us(2)] show ?thesis using us(1) unfolding preconditionsHold_def by auto
qed

section \<open>Nothing leaves the browser unchecked\<close>

lemma passed_round:
  "snd (runPreflightCheck tx offline canRebuild started config rs) = PreflightPassed \<Longrightarrow>
   \<exists>r\<in>set rs. prGeneration r = started \<and> prGenerationAfter r = started \<and> prConfigAfter r = config
     \<and> prBefore r = Inr () \<and> checkTransactionState (prAccounts r) tx = CurrentState"
proof (induction rs)
  case (Cons r rs)
  show ?case
  proof (cases "prGeneration r = started \<and> prGenerationAfter r = started \<and> prConfigAfter r = config
     \<and> prBefore r = Inr () \<and> checkTransactionState (prAccounts r) tx = CurrentState")
    case False
    hence "snd (runPreflightCheck tx offline canRebuild started config rs) = PreflightPassed"
      using Cons.prems by (auto simp: Let_def split: if_split_asm sum.split_asm preflightChoice.split_asm prod.split_asm)
    from Cons.IH [OF this] show ?thesis by simp
  qed simp
qed simp

lemma pageCheck_passed:
  assumes "pageCheck P tx = Inr ()"
  shows "ppActive P \<and> ppGenerationOk P \<and> ppConfigOk P \<and> ppConfigOkAfter P \<and>
     snd (runPreflightCheck (Some tx) False True (ppStarted P) (ppConfig P) (ppRounds P)) = PreflightPassed"
  using assms unfolding pageCheck_def preflightBeforeSend_def
  by (auto split: if_split_asm preflightEnd.split_asm prod.split_asm)

text \<open>A transaction leaves the browser in an effect that carries it.\<close>

definition leaves :: "txEffect list \<Rightarrow> json \<Rightarrow> bool" where
  "leaves effs tx \<longleftrightarrow> Broadcast tx \<in> set effs \<or> (\<exists>m. SentToWallet tx m \<in> set effs)"

lemma leaves_simps [simp]:
  "\<not> leaves [] tx" "leaves (CheckedBeforeBroadcast tx' # effs) tx = leaves effs tx"
  "leaves (FeePayerRequested c # effs) tx = leaves effs tx"
  by (simp_all add: leaves_def)

lemma checkThen_leaves:
  "leaves (fst (checkThen check tx eff r)) sent \<Longrightarrow> eff = Broadcast tx \<or> eff = SentToWallet tx m \<Longrightarrow> check sent = Inr ()"
  by (auto simp: checkThen_def leaves_def split: sum.splits)

lemma signAndSend_leaves: "leaves (fst (signAndSend W check key tx keys)) sent \<Longrightarrow> check sent = Inr ()"
  unfolding signAndSend_def Let_def by (erule checkThen_leaves) blast

lemma broadcastWithLedgerSig_leaves:
  "leaves (fst (broadcastWithLedgerSig W check ask tx)) sent \<Longrightarrow> check sent = Inr ()"
  unfolding broadcastWithLedgerSig_def Let_def split_beta
  by (cases "ask (smCommitment W tx)") (auto elim: checkThen_leaves)

lemma submitTx_checks:
  assumes "leaves (fst (submitTx W check tx keys memo)) sent"
  shows "check sent = Inr ()"
  using assms unfolding submitTx_def Let_def
  by (auto dest: signAndSend_leaves broadcastWithLedgerSig_leaves elim: checkThen_leaves split: option.split_asm if_split_asm)

end
