(* ===== verification/Vault_Security.thy ===== *)
theory Vault_Security
  imports Guard_Types Json
begin

text \<open>
  The backend's check that an account is a genuine vault (\<open>vault-security.ts\<close> and
  \<open>fetchVaultSecurityStatus\<close> of \<open>mina-client.ts\<close>): its verification key is the configured one and its
  permissions are the canonical vector. The account is the JSON value that the node answers with; an
  o1js \<open>Bool\<close> inside a permission is its boolean. The transaction version that o1js puts into
  \<open>GUARD_PERMISSIONS\<close> is a parameter.
\<close>

section \<open>Permission vectors\<close>

definition matchesExpectedVerificationKey :: "string option \<Rightarrow> string option \<Rightarrow> bool" where
  "matchesExpectedVerificationKey actual expected \<longleftrightarrow> actual \<noteq> None \<and> expected \<noteq> None \<and> actual = expected"

fun permissionKey :: "guardPermissionName \<Rightarrow> string" where
  "permissionKey EditState = ''editState''"
| "permissionKey Send = ''send''"
| "permissionKey Receive = ''receive''"
| "permissionKey SetDelegate = ''setDelegate''"
| "permissionKey SetPermissions = ''setPermissions''"
| "permissionKey SetVerificationKey = ''setVerificationKey''"
| "permissionKey SetZkappUri = ''setZkappUri''"
| "permissionKey EditActionState = ''editActionState''"
| "permissionKey SetTokenSymbol = ''setTokenSymbol''"
| "permissionKey IncrementNonce = ''incrementNonce''"
| "permissionKey SetVotingFor = ''setVotingFor''"
| "permissionKey SetTiming = ''setTiming''"
| "permissionKey Access = ''access''"

definition readBool :: "json option \<Rightarrow> bool option" where
  "readBool v = (case v of Some (JBool b) \<Rightarrow> Some b | _ \<Rightarrow> None)"

definition permissionKind :: "json option \<Rightarrow> guardPermissionKind option" where
  "permissionKind permission =
     (if permission = Some (JStr ''None'') then Some PermNone
      else if permission = Some (JStr ''Either'') then Some PermEither
      else if permission = Some (JStr ''Proof'') then Some PermProof
      else if permission = Some (JStr ''Signature'') then Some PermSignature
      else if permission = Some (JStr ''Impossible'') then Some PermImpossible
      else let part = (\<lambda>key. readBool (Option.bind permission (\<lambda>v. jsGet v key)))
        in case (part ''constant'', part ''signatureNecessary'', part ''signatureSufficient'') of
             (Some constant, Some necessary, Some sufficient) \<Rightarrow>
               if constant \<and> necessary \<and> \<not> sufficient then Some PermImpossible
               else if constant \<and> \<not> necessary \<and> sufficient then Some PermNone
               else if \<not> constant \<and> \<not> necessary \<and> \<not> sufficient then Some PermProof
               else if \<not> constant \<and> necessary \<and> sufficient then Some PermSignature
               else if \<not> constant \<and> \<not> necessary \<and> sufficient then Some PermEither
               else None
           | _ \<Rightarrow> None)"

text \<open>\<open>a ?? b\<close>\<close>

definition nullish :: "json option \<Rightarrow> json option \<Rightarrow> json option" where
  "nullish a b = (case a of None \<Rightarrow> b | Some JNull \<Rightarrow> b | Some v \<Rightarrow> Some v)"

type_synonym permissionKinds = "guardPermissionName \<Rightarrow> guardPermissionKind option"

definition permissionKindVector :: "json option \<Rightarrow> permissionKinds" where
  "permissionKindVector permissions name =
     (case permissions of Some (JObj fs) \<Rightarrow>
        (let source = map_of fs (permissionKey name)
         in permissionKind (if name = SetVerificationKey
              then nullish (Option.bind source (\<lambda>v. jsGet v ''auth'')) source else source))
      | _ \<Rightarrow> None)"

definition permissionMismatches :: "permissionKinds \<Rightarrow> guardPermissionName list" where
  "permissionMismatches actual =
     filter (\<lambda>name. actual name \<noteq> Some (GUARD_PERMISSION_KINDS name)) GUARD_PERMISSION_NAMES"

definition transactionVersion :: "json option \<Rightarrow> string option" where
  "transactionVersion v = (case v of None \<Rightarrow> None | Some JNull \<Rightarrow> None | Some w \<Rightarrow> Some (jsString w))"

definition storedVersion :: "json option \<Rightarrow> json option" where
  "storedVersion permissions =
     Option.bind (Option.bind permissions (\<lambda>p. jsGet p ''setVerificationKey'')) (\<lambda>v. jsGet v ''txnVersion'')"

definition validatePermissionVector :: "string \<Rightarrow> json option \<Rightarrow> permissionKinds \<times> guardPermissionName list" where
  "validatePermissionVector currentVersion permissions =
     (let kinds = permissionKindVector permissions;
          mismatches = permissionMismatches kinds;
          actualVkVersion = transactionVersion (storedVersion permissions);
          expectedVkVersion = Some currentVersion
      in (kinds, if actualVkVersion \<noteq> expectedVkVersion \<and> SetVerificationKey \<notin> set mismatches
            then mismatches @ [SetVerificationKey] else mismatches))"

definition allowsProofActionsWithOlderVersion ::
  "bool \<Rightarrow> permissionKinds \<Rightarrow> guardPermissionName list \<Rightarrow> json option \<Rightarrow> bool" where
  "allowsProofActionsWithOlderVersion verificationKeyMatches kinds mismatches stored \<longleftrightarrow>
     verificationKeyMatches \<and>
     kinds SetVerificationKey = Some (GUARD_PERMISSION_KINDS SetVerificationKey) \<and>
     mismatches = [SetVerificationKey] \<and>
     (case transactionVersion stored of None \<Rightarrow> False
      | Some version \<Rightarrow> canonicalDecimal version \<and>
          parseDecimal version < parseDecimal GUARD_SET_VERIFICATION_KEY_TXN_VERSION)"

section \<open>The verdict\<close>

record vaultSecurityStatus =
  accountFound :: bool
  verificationKeyHash :: "string option"
  setVerificationKeyTxnVersion :: "string option"
  verificationKeyMatches :: bool
  permissionKindsOf :: permissionKinds
  permissionMismatchesOf :: "guardPermissionName list"
  safe :: bool

text \<open>\<open>account\<close> is the \<open>account\<close> member of the node's answer.\<close>

definition fetchVaultSecurityStatus :: "string \<Rightarrow> string option \<Rightarrow> json option \<Rightarrow> vaultSecurityStatus" where
  "fetchVaultSecurityStatus currentVersion minaguardVkHash account =
     (case account of
        None \<Rightarrow> \<lparr>accountFound = False, verificationKeyHash = None, setVerificationKeyTxnVersion = None,
          verificationKeyMatches = False, permissionKindsOf = (\<lambda>_. None), permissionMismatchesOf = [], safe = False\<rparr>
      | Some JNull \<Rightarrow> \<lparr>accountFound = False, verificationKeyHash = None, setVerificationKeyTxnVersion = None,
          verificationKeyMatches = False, permissionKindsOf = (\<lambda>_. None), permissionMismatchesOf = [], safe = False\<rparr>
      | Some acc \<Rightarrow>
        (let vkHash = (case Option.bind (jsGet acc ''verificationKey'') (\<lambda>v. jsGet v ''hash'') of
               Some (JStr h) \<Rightarrow> Some h | _ \<Rightarrow> None);
             matches = matchesExpectedVerificationKey vkHash minaguardVkHash;
             permissions = jsGet acc ''permissions'';
             (kinds, mismatches) = validatePermissionVector currentVersion permissions;
             stored = storedVersion permissions;
             matchingOlder = allowsProofActionsWithOlderVersion matches kinds mismatches stored
         in \<lparr>accountFound = True, verificationKeyHash = vkHash,
              setVerificationKeyTxnVersion = transactionVersion stored,
              verificationKeyMatches = matches, permissionKindsOf = kinds, permissionMismatchesOf = mismatches,
              safe = (matches \<and> (mismatches = [] \<or> matchingOlder))\<rparr>))"

lemma permissionMismatches_empty:
  "permissionMismatches kinds = [] \<longleftrightarrow> (\<forall>n. kinds n = Some (GUARD_PERMISSION_KINDS n))"
  using GUARD_PERMISSION_NAMES_complete by (auto simp: permissionMismatches_def filter_empty_conv)

lemma set_permissionMismatches:
  "n \<in> set (permissionMismatches kinds) \<longleftrightarrow> kinds n \<noteq> Some (GUARD_PERMISSION_KINDS n)"
  using GUARD_PERMISSION_NAMES_complete by (auto simp: permissionMismatches_def)

lemma mismatches_only_version:
  assumes "kinds SetVerificationKey = Some (GUARD_PERMISSION_KINDS SetVerificationKey)"
  shows "permissionMismatches kinds @ [SetVerificationKey] = [SetVerificationKey] \<longleftrightarrow>
      (\<forall>n. kinds n = Some (GUARD_PERMISSION_KINDS n))"
    "permissionMismatches kinds \<noteq> [SetVerificationKey]"
proof -
  have "SetVerificationKey \<notin> set (permissionMismatches kinds)" using assms by (simp add: set_permissionMismatches)
  then show "permissionMismatches kinds \<noteq> [SetVerificationKey]" by auto
qed (simp add: permissionMismatches_empty)

text \<open>An account of the canonical deployment, as the node reports it.\<close>

definition kindName :: "guardPermissionKind \<Rightarrow> string" where
  "kindName k = (case k of PermNone \<Rightarrow> ''None'' | PermEither \<Rightarrow> ''Either'' | PermProof \<Rightarrow> ''Proof''
     | PermSignature \<Rightarrow> ''Signature'' | PermImpossible \<Rightarrow> ''Impossible'')"

definition accountJson :: "string \<Rightarrow> permissions \<Rightarrow> string \<Rightarrow> json" where
  "accountJson vk perms version = JObj [(''verificationKey'', JObj [(''hash'', JStr vk)]),
     (''permissions'', JObj (map (\<lambda>n. (permissionKey n,
        if n = SetVerificationKey then JObj [(''auth'', JStr (kindName (perms n))), (''txnVersion'', JStr version)]
        else JStr (kindName (perms n)))) GUARD_PERMISSION_NAMES))]"

lemma canonical_kinds: "permissionKindVector (jsGet (accountJson vk GUARD_PERMISSIONS v) ''permissions'') n = Some (GUARD_PERMISSION_KINDS n)"
  by (cases n) (simp_all add: accountJson_def GUARD_PERMISSION_NAMES_def permissionKindVector_def GUARD_PERMISSIONS_def
      kindName_def permissionKind_def nullish_def Let_def)

lemma canonical_version: "storedVersion (jsGet (accountJson vk perms v) ''permissions'') = Some (JStr v)"
  by (simp add: accountJson_def GUARD_PERMISSION_NAMES_def storedVersion_def)

text \<open>An account is reported safe exactly if its verification key hash is the configured one (never
  when none is configured), each of its thirteen permissions is the canonical one, and the transaction
  version stored with the verification-key permission is the current one or an older decimal version. In
  particular a key match alone is not enough, and a missing or unreadable permission is refused.\<close>

lemma safe_vault_is_canonical:
  "safe (fetchVaultSecurityStatus currentVersion expected account) \<longleftrightarrow>
     (\<exists>acc h kinds v. account = Some acc \<and> acc \<noteq> JNull \<and> expected = Some h \<and>
        Option.bind (jsGet acc ''verificationKey'') (\<lambda>k. jsGet k ''hash'') = Some (JStr h) \<and>
        kinds = permissionKindVector (jsGet acc ''permissions'') \<and>
        (\<forall>n. kinds n = Some (GUARD_PERMISSION_KINDS n)) \<and>
        transactionVersion (storedVersion (jsGet acc ''permissions'')) = Some v \<and>
        (v = currentVersion \<or> canonicalDecimal v \<and> parseDecimal v < parseDecimal GUARD_SET_VERIFICATION_KEY_TXN_VERSION))"
proof (cases "account = None \<or> account = Some JNull")
  case True
  then show ?thesis by (auto simp: fetchVaultSecurityStatus_def)
next
  case False
  then obtain acc where acc: "account = Some acc" "acc \<noteq> JNull" by auto
  define perms where "perms = jsGet acc ''permissions''"
  define kinds where "kinds = permissionKindVector perms"
  define ver where "ver = transactionVersion (storedVersion perms)"
  define vk where "vk = (case Option.bind (jsGet acc ''verificationKey'') (\<lambda>k. jsGet k ''hash'') of Some (JStr h) \<Rightarrow> Some h | _ \<Rightarrow> None)"
  define older where "older = (\<exists>v. ver = Some v \<and> canonicalDecimal v \<and>
      parseDecimal v < parseDecimal GUARD_SET_VERIFICATION_KEY_TXN_VERSION)"
  define mm where "mm = (if ver \<noteq> Some currentVersion \<and> SetVerificationKey \<notin> set (permissionMismatches kinds)
      then permissionMismatches kinds @ [SetVerificationKey] else permissionMismatches kinds)"
  have s: "safe (fetchVaultSecurityStatus currentVersion expected account) \<longleftrightarrow>
      (\<exists>h. vk = Some h \<and> expected = Some h) \<and> (mm = [] \<or>
        kinds SetVerificationKey = Some (GUARD_PERMISSION_KINDS SetVerificationKey) \<and> mm = [SetVerificationKey] \<and> older)"
    using acc
    by (auto simp: fetchVaultSecurityStatus_def validatePermissionVector_def allowsProofActionsWithOlderVersion_def
        matchesExpectedVerificationKey_def Let_def perms_def kinds_def ver_def vk_def older_def mm_def
        split: json.splits option.splits)
  have empty: "mm = [] \<longleftrightarrow> ver = Some currentVersion \<and> (\<forall>n. kinds n = Some (GUARD_PERMISSION_KINDS n))"
    using permissionMismatches_empty [of kinds] set_permissionMismatches by (auto simp: mm_def)
  have one: "mm = [SetVerificationKey] \<longleftrightarrow> ver \<noteq> Some currentVersion \<and> (\<forall>n. kinds n = Some (GUARD_PERMISSION_KINDS n))"
    if "kinds SetVerificationKey = Some (GUARD_PERMISSION_KINDS SetVerificationKey)"
    using mismatches_only_version [of kinds, OF that] set_permissionMismatches [of SetVerificationKey kinds] that by (auto simp: mm_def)
  have "safe (fetchVaultSecurityStatus currentVersion expected account) \<longleftrightarrow>
      (\<exists>h. vk = Some h \<and> expected = Some h) \<and> (\<forall>n. kinds n = Some (GUARD_PERMISSION_KINDS n)) \<and>
      (ver = Some currentVersion \<or> older)"
    unfolding s empty using one by blast
  also have "(\<exists>h. vk = Some h \<and> expected = Some h) \<longleftrightarrow>
      (\<exists>h. expected = Some h \<and> Option.bind (jsGet acc ''verificationKey'') (\<lambda>k. jsGet k ''hash'') = Some (JStr h))"
    by (auto simp: vk_def split: option.splits json.splits)
  finally show ?thesis using acc by (auto simp: older_def ver_def kinds_def perms_def)
qed

end
