(* ===== verification/Memo.thy ===== *)
theory Memo
  imports Prelude
begin

text \<open>
  The transaction memo decoder of \<open>contracts/src/memo.ts\<close>: base58 to bytes, then the checked layout of
  a user memo. SHA-256 comes from a package and is a parameter; so is the conversion of UTF-8 bytes to
  text by the runtime. Bytes are natural numbers; \<open>carry & 0xff\<close> and \<open>carry >> 8\<close> are the remainder and
  the quotient by 256, on carries far below the 32-bit limit of the bit operators.
\<close>

definition BASE58_ALPHABET :: string where
  "BASE58_ALPHABET = ''123456789ABCDEFGHJKLMNPQRSTUVWXYZabcdefghijkmnopqrstuvwxyz''"

fun alphabetIndex :: "char \<Rightarrow> string \<Rightarrow> nat option" where
  "alphabetIndex c [] = None"
| "alphabetIndex c (d # ds) = (if c = d then Some 0 else map_option Suc (alphabetIndex c ds))"

function pushCarry :: "nat \<Rightarrow> nat list" where
  "pushCarry carry = (if carry > 0 then carry mod 256 # pushCarry (carry div 256) else [])"
  by pat_completeness auto

termination pushCarry
  by (relation "measure id") auto

declare pushCarry.simps [simp del]

fun mulAdd :: "nat \<Rightarrow> nat list \<Rightarrow> nat list" where
  "mulAdd carry [] = pushCarry carry"
| "mulAdd carry (b # bs) = (carry + b * 58) mod 256 # mulAdd ((carry + b * 58) div 256) bs"

fun base58Loop :: "string \<Rightarrow> nat list \<Rightarrow> nat list result" where
  "base58Loop [] bytes = Inr bytes"
| "base58Loop (c # cs) bytes = (case alphabetIndex c BASE58_ALPHABET of
       None \<Rightarrow> Inl (AssertFail (''Invalid base58 character: '' @ [c]))
     | Some idx \<Rightarrow> base58Loop cs (mulAdd idx bytes))"

definition base58Decode :: "string \<Rightarrow> nat list result" where
  "base58Decode s = andThen (base58Loop s [0]) (\<lambda>bytes.
     Inr (rev (bytes @ replicate (length (takeWhile (\<lambda>c. c = CHR ''1'') s)) 0)))"

text \<open>The layout: version, tag, length, 32 content bytes, 4 checksum bytes.\<close>

definition decodeTxMemo :: "(nat list \<Rightarrow> nat list) \<Rightarrow> (nat list \<Rightarrow> string) \<Rightarrow> string \<Rightarrow> string result" where
  "decodeTxMemo sha256 textDecoder base58Memo = andThen (base58Decode base58Memo) (\<lambda>raw.
     require (length raw = 39) ''decodeTxMemo: expected 39 bytes''
     (require (raw ! 0 = 20) ''decodeTxMemo: invalid memo version''
     (let dat = take 35 raw; expectedChecksum = take 4 (sha256 (sha256 dat))
      in require (list_all (\<lambda>i. i < length expectedChecksum \<and> raw ! (35 + i) = expectedChecksum ! i) [0..<4])
           ''decodeTxMemo: invalid checksum''
     (let payload = drop 1 (take 35 raw)
      in require (payload ! 0 = 1) ''decodeTxMemo: invalid memo tag''
     (let contentLength = payload ! 1
      in require (contentLength \<le> 32) ''decodeTxMemo: invalid content length''
     (require (\<not> list_ex (\<lambda>b. b \<noteq> 0) (drop (2 + contentLength) payload))
        ''decodeTxMemo: nonzero bytes after declared content length''
     (Inr (textDecoder (drop 2 (take (2 + contentLength) payload))))))))))"

section \<open>Base58 is positional\<close>

fun leValue :: "nat \<Rightarrow> nat list \<Rightarrow> nat" where
  "leValue base [] = 0"
| "leValue base (b # bs) = b + base * leValue base bs"

definition digits58 :: "string \<Rightarrow> nat list option" where
  "digits58 s = those (map (\<lambda>c. alphabetIndex c BASE58_ALPHABET) s)"

lemma leValue_pushCarry: "leValue 256 (pushCarry c) = c"
proof (induction c rule: pushCarry.induct)
  case (1 c)
  then show ?case by (subst pushCarry.simps) (auto simp: mult.commute mod_mult_div_eq)
qed

lemma leValue_mulAdd: "leValue 256 (mulAdd c bs) = c + 58 * leValue 256 bs"
proof (induction c bs rule: mulAdd.induct)
  case (2 c b bs)
  have "leValue 256 (mulAdd c (b # bs)) =
      (c + b * 58) mod 256 + 256 * ((c + b * 58) div 256 + 58 * leValue 256 bs)"
    using 2 by simp
  also have "\<dots> = (c + b * 58) + 256 * (58 * leValue 256 bs)"
    by (simp add: distrib_left)
  finally show ?case by simp
qed (simp add: leValue_pushCarry)

lemma bytes_pushCarry: "\<forall>b \<in> set (pushCarry c). b < 256"
proof (induction c rule: pushCarry.induct)
  case (1 c)
  then show ?case by (subst pushCarry.simps) auto
qed

lemma bytes_mulAdd: "\<forall>b \<in> set (mulAdd c bs). b < 256"
  by (induction c bs rule: mulAdd.induct) (auto simp: bytes_pushCarry)

lemma leValue_append_zeros: "leValue base (bs @ replicate k 0) = leValue base bs"
proof (induction bs)
  case Nil
  show ?case by (induction k) auto
qed simp

lemma base58Loop_value:
  "base58Loop s bytes = Inr out \<Longrightarrow> \<forall>b \<in> set bytes. b < 256 \<Longrightarrow>
     (\<forall>b \<in> set out. b < 256) \<and> (\<exists>ds. digits58 s = Some ds \<and>
        leValue 256 out = foldl (\<lambda>v d. d + 58 * v) (leValue 256 bytes) ds)"
proof (induction s bytes rule: base58Loop.induct)
  case (2 c cs bytes)
  then obtain idx where i: "alphabetIndex c BASE58_ALPHABET = Some idx" and "base58Loop cs (mulAdd idx bytes) = Inr out"
    by (auto split: option.splits)
  with 2(1) [OF i] obtain ds where "\<forall>b \<in> set out. b < 256" "digits58 cs = Some ds"
    "leValue 256 out = foldl (\<lambda>v d. d + 58 * v) (leValue 256 (mulAdd idx bytes)) ds"
    using bytes_mulAdd by blast
  then show ?case using i by (simp add: digits58_def leValue_mulAdd)
qed (simp add: digits58_def)

lemma base58Loop_accepts: "isOk (base58Loop s bytes) \<longleftrightarrow> digits58 s \<noteq> None"
proof (induction s bytes rule: base58Loop.induct)
  case (2 c cs bytes)
  then show ?case by (cases "alphabetIndex c BASE58_ALPHABET") (auto simp: digits58_def)
qed (simp add: digits58_def)

text \<open>Decoding succeeds exactly on texts over the alphabet, and the bytes, most significant first, have
  the value of the text read in base 58.\<close>

lemma base58Decode_value:
  assumes "base58Decode s = Inr raw"
  shows "\<forall>b \<in> set raw. b < 256" "\<exists>ds. digits58 s = Some ds \<and> leValue 256 (rev raw) = foldl (\<lambda>v d. d + 58 * v) 0 ds"
proof -
  obtain out where o: "base58Loop s [0] = Inr out"
    and raw: "raw = rev (out @ replicate (length (takeWhile (\<lambda>c. c = CHR ''1'') s)) 0)"
    using assms by (auto simp: base58Decode_def)
  note v = base58Loop_value [OF o, simplified]
  show "\<forall>b \<in> set raw. b < 256" using v by (auto simp: raw)
  show "\<exists>ds. digits58 s = Some ds \<and> leValue 256 (rev raw) = foldl (\<lambda>v d. d + 58 * v) 0 ds"
    using v by (simp add: raw leValue_append_zeros)
qed

section \<open>The layout\<close>

text \<open>The bytes of a memo with the given content, before its checksum.\<close>

definition memoBody :: "nat list \<Rightarrow> nat list" where
  "memoBody content = 20 # 1 # length content # content @ replicate (32 - length content) 0"

definition memoBytes :: "(nat list \<Rightarrow> nat list) \<Rightarrow> nat list \<Rightarrow> nat list" where
  "memoBytes sha256 content = memoBody content @ take 4 (sha256 (sha256 (memoBody content)))"

lemma memo_split:
  assumes "length raw = 39"
  obtains v t n body chk where "raw = v # t # n # body @ chk" "length body = 32" "length chk = 4"
proof -
  from assms obtain v t n rest where r: "raw = v # t # n # rest" "length rest = 36"
    by (cases raw; cases "tl raw"; cases "tl (tl raw)") auto
  show thesis by (rule that [of v t n "take 32 rest" "drop 32 rest"]) (use r in auto)
qed

lemma padding_iff:
  assumes "length body = 32" "n \<le> 32"
  shows "(\<not> list_ex (\<lambda>b. b \<noteq> 0) (drop n body)) \<longleftrightarrow> body = take n body @ replicate (32 - n) 0"
proof -
  have "(\<not> list_ex (\<lambda>b. b \<noteq> 0) (drop n body)) \<longleftrightarrow> drop n body = replicate (length (drop n body)) 0"
    by (auto simp: list_ex_iff replicate_eqI dest!: arg_cong [where f = set])
  also have "\<dots> \<longleftrightarrow> body = take n body @ replicate (32 - n) 0"
    using assms(1) by (metis append_take_drop_id length_drop same_append_eq)
  finally show ?thesis .
qed

lemma checksum_iff:
  assumes "length chk = 4"
  shows "list_all (\<lambda>i. i < length (take 4 d) \<and> chk ! i = take 4 d ! i) [0..<4] \<longleftrightarrow> chk = take 4 d"
proof
  assume a: "list_all (\<lambda>i. i < length (take 4 d) \<and> chk ! i = take 4 d ! i) [0..<4]"
  then have "3 < length (take 4 d)" by (simp add: list_all_iff del: length_take)
  with a show "chk = take 4 d" using assms by (intro nth_equalityI) (auto simp: list_all_iff)
qed (use assms in \<open>auto simp: list_all_iff\<close>)

text \<open>The decoder accepts exactly the well-formed memos: the text decodes in base 58 to version 20,
  tag 1, a length of at most 32, that many content bytes, zero padding to 32 bytes and the first four
  bytes of the double SHA-256 of all that; the result is the text of the content bytes.\<close>

lemma memo_decode_exact:
  "decodeTxMemo sha256 textDecoder s = Inr t \<longleftrightarrow>
     (\<exists>content. length content \<le> 32 \<and> t = textDecoder content \<and>
        base58Decode s = Inr (memoBytes sha256 content) \<and> 4 \<le> length (sha256 (sha256 (memoBody content))))"
proof (cases "\<exists>raw. base58Decode s = Inr raw \<and> length raw = 39")
  case True
  then obtain v g n body chk where raw: "base58Decode s = Inr (v # g # n # body @ chk)" and l: "length body = 32" "length chk = 4"
    using memo_split by metis
  let ?d = "sha256 (sha256 (v # g # n # body))"
  have t35: "take 35 (v # g # n # body @ chk) = v # g # n # body" using l by (simp add: numeral_eq_Suc)
  have at: "(v # g # n # body @ chk) ! (35 + i) = chk ! i" for i using l by (simp add: nth_append numeral_eq_Suc)
  have "decodeTxMemo sha256 textDecoder s = Inr t \<longleftrightarrow>
      v = 20 \<and> chk = take 4 ?d \<and> g = 1 \<and> n \<le> 32 \<and> (\<not> list_ex (\<lambda>b. b \<noteq> 0) (drop n body)) \<and> textDecoder (take n body) = t"
    using l checksum_iff [OF l(2), of ?d]
    by (simp add: decodeTxMemo_def raw Let_def t35 at del: length_take upt_Suc)
  also have "\<dots> \<longleftrightarrow> (\<exists>content. length content \<le> 32 \<and> t = textDecoder content \<and>
      v # g # n # body @ chk = memoBytes sha256 content \<and> 4 \<le> length (sha256 (sha256 (memoBody content))))"
    (is "?L \<longleftrightarrow> ?R")
  proof
    assume L: ?L
    then have "body = take n body @ replicate (32 - n) 0" using padding_iff l by blast
    then have b: "memoBody (take n body) = v # g # n # body" using L l by (simp add: memoBody_def min_def)
    then show ?R using L l by (intro exI [of _ "take n body"]) (auto simp: memoBytes_def)
  next
    assume ?R
    then obtain c where c: "length c \<le> 32" "t = textDecoder c" "v # g # n # body @ chk = memoBytes sha256 c"
      "4 \<le> length (sha256 (sha256 (memoBody c)))" by blast
    let ?pad = "c @ replicate (32 - length c) 0" and ?sum = "take 4 (sha256 (sha256 (memoBody c)))"
    have "v = 20" "g = 1" "n = length c" and app: "body @ chk = ?pad @ ?sum"
      using c(3) by (simp_all add: memoBytes_def memoBody_def)
    moreover have "length body = length ?pad" using l c(1) by simp
    then have "body = ?pad \<and> chk = ?sum" using app by (rule iffD1 [OF append_eq_append_conv [OF disjI1]])
    moreover have "memoBody c = v # g # n # body" using calculation by (simp add: memoBody_def)
    ultimately show ?L using c by (simp add: list_ex_iff)
  qed
  finally show ?thesis using raw by simp
next
  case False
  have "length (memoBytes sha256 c) = 39" if "length c \<le> 32" "4 \<le> length (sha256 (sha256 (memoBody c)))" for c
    using that by (simp add: memoBytes_def memoBody_def)
  with False show ?thesis by (auto simp: decodeTxMemo_def)
qed

end
