(* ===== verification/Web_Checks.thy ===== *)
theory Web_Checks
  imports Web_Preflight Vault_Security Memo
begin

text \<open>
  What the browser checks itself, without trusting the backend: the permissions and the key of a vault
  (\<open>fetchVaultSecurityStatus\<close> of \<open>ui/lib/api.ts\<close>), the fee of a transaction (\<open>ui/lib/mempoolFee.ts\<close>,
  \<open>ui/lib/offline-format.ts\<close>), whether two addresses are one key holder (\<open>ui/lib/pubkey.ts\<close>), the memo
  (\<open>ui/lib/memo-check.ts\<close>), the text a Ledger shows (\<open>ui/lib/ledger-field.ts\<close>), the accounts an execution
  creates (\<open>ui/lib/recipient-account-fee.ts\<close>), the network of a new vault (\<open>ui/lib/create-vault-network.ts\<close>),
  and the response to a migration request (\<open>ui/lib/vk-migration-validation.ts\<close>).
\<close>

section \<open>The security of a vault\<close>

record webSecurity =
  wvAccountFound :: bool
  wvKeyHash :: "string option"
  wvTxnVersion :: "string option"
  wvKeyMatches :: bool
  wvKinds :: "guardPermissionName \<Rightarrow> string option"
  wvMismatches :: "guardPermissionName list"
  wvSafe :: bool

definition EXPECTED_PERMISSION_KINDS :: "guardPermissionName \<Rightarrow> string" where
  "EXPECTED_PERMISSION_KINDS n = kindName (GUARD_PERMISSION_KINDS n)"

definition noAccountSecurity :: webSecurity where
  "noAccountSecurity = \<lparr>wvAccountFound = False, wvKeyHash = None, wvTxnVersion = None, wvKeyMatches = False,
     wvKinds = (\<lambda>_. None), wvMismatches = GUARD_PERMISSION_NAMES, wvSafe = False\<rparr>"

definition permissionText :: "json \<Rightarrow> guardPermissionName \<Rightarrow> string option" where
  "permissionText raw n =
     (let v = jsGet raw (permissionKey n)
      in case (if n = SetVerificationKey then Option.bind v (\<lambda>w. jsGet w ''auth'') else v) of
           Some (JStr s) \<Rightarrow> Some s | _ \<Rightarrow> None)"

text \<open>\<open>account.permissions ?? {}\<close>\<close>

definition permissionsOf :: "json \<Rightarrow> json" where
  "permissionsOf account = orDefault (nullish (jsGet account ''permissions'') None) (JObj [])"

definition keyHashOf :: "json \<Rightarrow> string option" where
  "keyHashOf account = (case Option.bind (jsGet account ''verificationKey'') (\<lambda>k. jsGet k ''hash'') of
     Some (JStr h) \<Rightarrow> Some h | _ \<Rightarrow> None)"

definition accountSecurity :: "string option \<Rightarrow> json \<Rightarrow> webSecurity" where
  "accountSecurity expectedVkHash account =
     (let raw = permissionsOf account;
          kinds = permissionText raw;
          differing = filter (\<lambda>n. kinds n \<noteq> Some (EXPECTED_PERMISSION_KINDS n)) GUARD_PERMISSION_NAMES;
          txnVersion = nullish (Option.bind (jsGet raw ''setVerificationKey'') (\<lambda>v. jsGet v ''txnVersion'')) None;
          mismatches = (if orDefault (map_option jsString txnVersion) [] \<noteq> GUARD_SET_VERIFICATION_KEY_TXN_VERSION
              \<and> SetVerificationKey \<notin> set differing then differing @ [SetVerificationKey] else differing);
          keyHash = keyHashOf account;
          keyMatches = (keyHash \<noteq> None \<and> expectedVkHash \<noteq> None \<and> keyHash = expectedVkHash);
          version = map_option jsString txnVersion;
          matchingOlderVersion = (keyMatches \<and> kinds SetVerificationKey = Some (EXPECTED_PERMISSION_KINDS SetVerificationKey)
            \<and> mismatches = [SetVerificationKey]
            \<and> (case version of None \<Rightarrow> False | Some v \<Rightarrow> canonicalDecimal v \<and>
                 parseDecimal v < parseDecimal GUARD_SET_VERIFICATION_KEY_TXN_VERSION))
      in \<lparr>wvAccountFound = True, wvKeyHash = keyHash, wvTxnVersion = version, wvKeyMatches = keyMatches, wvKinds = kinds,
           wvMismatches = mismatches, wvSafe = (keyMatches \<and> (mismatches = [] \<or> matchingOlderVersion))\<rparr>)"

text \<open>The configured hash, trimmed; an empty one counts as none.\<close>

definition expectedVkHashOf :: "string option \<Rightarrow> string option" where
  "expectedVkHashOf configured = (case configured of None \<Rightarrow> None
     | Some s \<Rightarrow> if jsTrim s = [] then None else Some (jsTrim s))"

definition webFetchVaultSecurityStatus :: "string option \<Rightarrow> nodeResponse \<Rightarrow> webSecurity option" where
  "webFetchVaultSecurityStatus configured response = (case (nrOk response, nrBody response) of
       (True, Some body) \<Rightarrow>
         (if body = JNull \<or> truthy (jsGet body ''errors'') then None
          else (let account = jsPath body [''data'', ''account'']
            in if truthy account then Some (accountSecurity (expectedVkHashOf configured) (the account)) else Some noAccountSecurity))
     | _ \<Rightarrow> None)"

definition isCanonicalVaultSecurity :: "webSecurity option \<Rightarrow> bool" where
  "isCanonicalVaultSecurity status = (case status of None \<Rightarrow> False
     | Some s \<Rightarrow> wvAccountFound s \<and> wvKeyMatches s \<and> wvSafe s \<and>
         list_all (\<lambda>n. wvKinds s n = Some (EXPECTED_PERMISSION_KINDS n)) GUARD_PERMISSION_NAMES)"

definition vaultSecurityError :: "bool \<Rightarrow> string \<Rightarrow> string" where
  "vaultSecurityError nodeUnavailable label = (if nodeUnavailable
     then ''Could not reach the Mina node to check the '' @ label @ '''s permissions; try again in a minute''
     else label @ '' permissions have not passed the canonical security check'')"

section \<open>Fees\<close>

definition TOP_N :: nat where
  "TOP_N = 12"

definition MIN_FEE_PER_AU :: rat where
  "MIN_FEE_PER_AU = 1000000"

definition DEFAULT_AU_ESTIMATE :: int where
  "DEFAULT_AU_ESTIMATE = 4"

definition AURO_TX_FEE :: int where
  "AURO_TX_FEE = OFFLINE_MAX_FEE_NANOMINA"

definition EMPTY_MEMPOOL_FALLBACK_FEE :: int where
  "EMPTY_MEMPOOL_FALLBACK_FEE = OFFLINE_MIN_FEE_NANOMINA"

definition UNAVAILABLE_MEMPOOL_FALLBACK_FEE :: int where
  "UNAVAILABLE_MEMPOOL_FALLBACK_FEE = OFFLINE_MAX_FEE_NANOMINA"

definition median :: "rat list \<Rightarrow> rat" where
  "median xs = (let n = length xs; mid = n div 2
     in if n mod 2 = 0 then (xs ! (mid - 1) + xs ! mid) / 2 else xs ! mid)"

text \<open>The fee per account update of a pooled command, unless it is unusable.\<close>

definition pooledFee :: "json \<Rightarrow> rat option" where
  "pooledFee entry = (case (jsPath entry [''zkappCommand'', ''accountUpdates''],
         jsPath entry [''zkappCommand'', ''feePayer'', ''body'', ''fee'']) of
       (Some (JArr us), Some (JStr rawFee)) \<Rightarrow>
         (if us = [] \<or> \<not> allDigits rawFee \<or> \<not> isSafeInteger (int (parseDecimal rawFee)) then None
          else Some (rat_of_nat (parseDecimal rawFee) / rat_of_nat (length us)))
     | _ \<Rightarrow> None)"

datatype feeEstimate = EstimatedFee int rat nat | EmptyMempool | MempoolUnusable

definition estimateZkappFee :: "nodeResponse \<Rightarrow> int \<Rightarrow> feeEstimate" where
  "estimateZkappFee response accountUpdateCount =
     (if \<not> isSafeInteger accountUpdateCount \<or> accountUpdateCount \<le> 0 then MempoolUnusable
      else case (nrOk response, nrBody response) of
        (True, Some body) \<Rightarrow>
          (if truthy (jsGet body ''errors'') then MempoolUnusable
           else (case jsPath body [''data'', ''pooledZkappCommands''] of
               Some (JArr pool) \<Rightarrow>
                 (if pool = [] then EmptyMempool
                  else let feePerAU = List.map_filter pooledFee pool
                    in if feePerAU = [] then MempoolUnusable
                       else let top = take TOP_N (rev (sort feePerAU));
                                floored = max (median (sort top)) MIN_FEE_PER_AU
                         in EstimatedFee \<lceil>floored * rat_of_int accountUpdateCount\<rceil> floored (length top))
             | _ \<Rightarrow> MempoolUnusable))
      | _ \<Rightarrow> MempoolUnusable)"

definition resolveZkappFee :: "nodeResponse \<Rightarrow> int" where
  "resolveZkappFee response = (case estimateZkappFee response DEFAULT_AU_ESTIMATE of
       EstimatedFee fee _ _ \<Rightarrow> min (max fee EMPTY_MEMPOOL_FALLBACK_FEE) OFFLINE_MAX_FEE_NANOMINA
     | EmptyMempool \<Rightarrow> EMPTY_MEMPOOL_FALLBACK_FEE
     | MempoolUnusable \<Rightarrow> UNAVAILABLE_MEMPOOL_FALLBACK_FEE)"

definition resolveOnlineZkappFee :: "nodeResponse \<Rightarrow> bool \<Rightarrow> int" where
  "resolveOnlineZkappFee response ledger = (if ledger then resolveZkappFee response else AURO_TX_FEE)"

definition assertOfflineResponseVersion :: "json option \<Rightarrow> unit result" where
  "assertOfflineResponseVersion version =
     require (version = Some (JNum OFFLINE_RESPONSE_VERSION)) ''Unsupported signed response version'' (Inr ())"

text \<open>The fee of the signed command itself.\<close>

definition signedOwnerFeeNanomina :: "json \<Rightarrow> int option \<Rightarrow> int result" where
  "signedOwnerFeeNanomina transaction expectedFee = (case jsPath transaction [''feePayer'', ''body'', ''fee''] of
       Some (JStr fee) \<Rightarrow>
         require (canonicalDecimal fee) ''Signed transaction has no valid fee. Not broadcasting.''
        (let nanomina = int (parseDecimal fee)
         in require (isSafeInteger nanomina \<and> \<not> nanomina < OFFLINE_MIN_FEE_NANOMINA \<and> \<not> nanomina > OFFLINE_MAX_FEE_NANOMINA)
              ''Signed transaction fee is outside the allowed 0.01-0.1 MINA range. Not broadcasting.''
           (require (expectedFee = None \<or> expectedFee = Some nanomina)
              ''Signed transaction fee differs from the exported request. Not broadcasting.''
           (Inr nanomina)))
     | _ \<Rightarrow> Inl (AssertFail ''Signed transaction has no valid fee. Not broadcasting.''))"

section \<open>Addresses and memos\<close>

text \<open>The base58 decoder of \<open>pubkey.ts\<close> is, step for step, the one of \<open>memo.ts\<close>.\<close>

definition addressBytes :: "string \<Rightarrow> nat list result" where
  "addressBytes = base58Decode"

definition ADDRESS_BYTES :: nat where
  "ADDRESS_BYTES = 40"

definition PARITY_INDEX :: nat where
  "PARITY_INDEX = 35"

definition sameKeyHolder :: "string \<Rightarrow> string \<Rightarrow> bool" where
  "sameKeyHolder a b = (case (addressBytes a, addressBytes b) of
       (Inr x, Inr y) \<Rightarrow> length x = ADDRESS_BYTES \<and> length y = ADDRESS_BYTES \<and>
         (\<forall>i<PARITY_INDEX. x ! i = y ! i) \<and> x ! PARITY_INDEX \<le> 1 \<and> y ! PARITY_INDEX \<le> 1
     | _ \<Rightarrow> False)"

definition conflictsWithOwner :: "string \<Rightarrow> string list \<Rightarrow> bool" where
  "conflictsWithOwner address owners \<longleftrightarrow> list_ex (\<lambda>owner. sameKeyHolder owner address) owners"

datatype memoBadge = MatchBadge | MismatchBadge | ProposalMismatchBadge

definition memoBadgeFor :: "webProposal \<Rightarrow> bool option \<Rightarrow> memoBadge option" where
  "memoBadgeFor p localMemoMatch = (case (wpMemoHash p, localMemoMatch) of
       (Some _, Some matching) \<Rightarrow>
         (if wpStatus p = ExecutedStatus
          then Some (if matching \<and> wpMemoExecutionMatch p = Some True then MatchBadge else MismatchBadge)
          else if matching then None else Some ProposalMismatchBadge)
     | _ \<Rightarrow> None)"

section \<open>Field elements on a Ledger\<close>

definition fieldToBytes :: "int \<Rightarrow> int list result" where
  "fieldToBytes v = require (\<not> v < 0 \<and> \<not> v \<ge> 2 ^ 256) ''Field element does not fit in 32 bytes''
     (Inr (map (\<lambda>i. v div 2 ^ (8 * i) mod 256) [0..<32]))"

definition hexByte :: "int \<Rightarrow> string" where
  "hexByte b = [hexDigit (nat (b div 16)), hexDigit (nat (b mod 16))]"

definition ledgerHashDisplay :: "int \<Rightarrow> string result" where
  "ledgerHashDisplay v = andThen (fieldToBytes v) (\<lambda>bytes. Inr (concat (map hexByte (rev bytes))))"

section \<open>New accounts of an execution\<close>

definition canonicalRecipientAddresses :: "('m, 'w, 's) o1js \<Rightarrow> uiReceiver list \<Rightarrow> string list" where
  "canonicalRecipientAddresses E receivers =
     filter (\<lambda>a. a \<noteq> [] \<and> a \<noteq> EMPTY_PUBKEY_B58 E) (map urAddress (take MAX_RECEIVERS receivers))"

definition countNewRecipientSlotsFromSnapshot :: "('m, 'w, 's) o1js \<Rightarrow> uiReceiver list \<Rightarrow> (string \<Rightarrow> bool option) \<Rightarrow> nat" where
  "countNewRecipientSlotsFromSnapshot E receivers existing =
     length (filter (\<lambda>a. existing a \<noteq> Some True) (canonicalRecipientAddresses E receivers))"

text \<open>Whether the node has no account of an address, or an error.\<close>

definition recipientMissing :: "nodeResponse \<Rightarrow> bool result" where
  "recipientMissing response =
     (let failed = Inl (AssertFail ''Could not check recipient accounts. Try again.'')
      in case (nrOk response, nrBody response) of
           (True, Some body) \<Rightarrow>
             (if truthy (jsGet body ''errors'') then failed
              else (case jsPath body [''data'', ''account''] of None \<Rightarrow> failed | Some v \<Rightarrow> Inr (v = JNull)))
         | _ \<Rightarrow> failed)"

definition countNewRecipientSlots :: "('m, 'w, 's) o1js \<Rightarrow> uiReceiver list \<Rightarrow> (string \<Rightarrow> nodeResponse) \<Rightarrow> nat result" where
  "countNewRecipientSlots E receivers ask =
     andThen (traverse (\<lambda>a. recipientMissing (ask a)) (canonicalRecipientAddresses E receivers)) (\<lambda>missing.
     Inr (length (filter id missing)))"

section \<open>The network of a new vault\<close>

record createVaultBuild =
  cvNetwork :: "string option"
  cvMinaEndpoint :: "string option"
  cvArchiveEndpoint :: "string option"
  cvExpectedVkHash :: "string option"

text \<open>\<open>isHttps\<close> is the reading of an endpoint by \<open>URL\<close>: a secure address of a host without credentials.\<close>

definition resolveCreateVaultNetwork :: "(string \<Rightarrow> bool) \<Rightarrow> createVaultBuild \<Rightarrow> json option \<Rightarrow> string option" where
  "resolveCreateVaultNetwork isHttps build runtime =
     (let https = (\<lambda>v. truthyText v \<and> isHttps (the v))
      in if cvNetwork build = Some ''mainnet''
         then (if runtime = Some (JStr ''mainnet'') \<and> https (cvMinaEndpoint build) \<and> https (cvArchiveEndpoint build)
               \<and> canonicalDecimal (orDefault (cvExpectedVkHash build) []) \<and> cvExpectedVkHash build \<noteq> Some ''0''
             then Some ''mainnet'' else None)
         else if cvNetwork build = Some ''testnet'' \<or> cvNetwork build = Some ''devnet''
         then (case runtime of Some (JStr r) \<Rightarrow> (if r = ''testnet'' \<or> r = ''devnet'' then Some r else None) | _ \<Rightarrow> None)
         else None)"

definition lowerText :: "string \<Rightarrow> string" where
  "lowerText s = map (\<lambda>c. if 65 \<le> (of_char c :: nat) \<and> (of_char c :: nat) \<le> 90 then char_of (of_char c + 32 :: nat) else c) s"

definition assertMinaNodeNetwork :: "string \<Rightarrow> nodeResponse option \<Rightarrow> unit result" where
  "assertMinaNodeNetwork networkId response = (case response of
       None \<Rightarrow> Inl (AssertFail ''Could not confirm the Mina node network. Check the endpoint and try again.'')
     | Some r \<Rightarrow>
        require (nrOk r) ''The Mina node did not answer the network check. Try again.''
       (case nrBody r of None \<Rightarrow> Inl (AssertFail ''The Mina node did not return a valid network response.'')
        | Some body \<Rightarrow>
           (let reported = (case jsPath body [''data'', ''networkID''] of Some (JStr s) \<Rightarrow> lowerText (jsTrim s) | _ \<Rightarrow> []);
                nodeNetwork = (if take 5 reported = ''mina:'' then drop 5 reported else reported);
                graphqlError = (case jsGet body ''errors'' of None \<Rightarrow> False | Some (JArr []) \<Rightarrow> False | _ \<Rightarrow> True)
            in require (\<not> graphqlError \<and> nodeNetwork \<in> {''mainnet'', ''testnet'', ''devnet''})
                 ''The Mina node did not report a supported network ID.''
              (require ((nodeNetwork = ''mainnet'') = (networkId = ''mainnet'')) ''Mina node network mismatch'' (Inr ())))))"

section \<open>Migration responses\<close>

record migrationRequest =
  mrContract :: string
  mrFeePayer :: string
  mrSourceHash :: string
  mrTargetHash :: string
  mrTokens :: "string \<rightharpoonup> string"

definition lengthOrZero :: "json option \<Rightarrow> nat" where
  "lengthOrZero v = (case v of Some (JArr xs) \<Rightarrow> length xs | Some (JStr s) \<Rightarrow> length s | _ \<Rightarrow> 0)"

text \<open>A member that would change something: neither absent nor a list of absent values.\<close>

definition changesMember :: "string \<times> json \<Rightarrow> bool" where
  "changesMember = (\<lambda>(name, value). name \<noteq> ''verificationKey'' \<and> value \<noteq> JNull \<and>
     \<not> (case value of JArr xs \<Rightarrow> list_all (\<lambda>x. x = JNull) xs | _ \<Rightarrow> False))"

definition otherChanges :: "json option \<Rightarrow> bool" where
  "otherChanges update = (case update of Some (JObj ms) \<Rightarrow> list_ex changesMember ms | _ \<Rightarrow> False)"

definition expectedMigration :: "json \<Rightarrow> migrationRequest \<Rightarrow> bool" where
  "expectedMigration command request = (case jsGet command ''accountUpdates'' of
       Some (JArr [update]) \<Rightarrow>
         jsPath command [''feePayer'', ''body'', ''publicKey''] = Some (JStr (mrFeePayer request)) \<and>
         jsPath command [''feePayer'', ''body'', ''fee''] = Some (JStr ''100000000'') \<and>
         truthy (jsPath command [''feePayer'', ''authorization'']) \<and>
         jsPath update [''body'', ''publicKey''] = Some (JStr (mrContract request)) \<and>
         jsPath update [''body'', ''tokenId''] = map_option JStr (mrTokens request (mrContract request)) \<and>
         jsPath update [''body'', ''authorizationKind'', ''isSigned''] = Some (JBool True) \<and>
         jsPath update [''body'', ''authorizationKind'', ''isProved''] = Some (JBool False) \<and>
         truthy (jsPath update [''authorization'', ''signature'']) \<and>
         jsPath update [''body'', ''update'', ''verificationKey'', ''hash''] = Some (JStr (mrTargetHash request)) \<and>
         truthy (jsPath update [''body'', ''update'', ''verificationKey'', ''data'']) \<and>
         jsPath update [''body'', ''balanceChange'', ''magnitude''] = Some (JStr ''0'') \<and>
         \<not> otherChanges (jsPath update [''body'', ''update'']) \<and>
         lengthOrZero (jsPath update [''body'', ''events'']) = 0 \<and> lengthOrZero (jsPath update [''body'', ''actions'']) = 0
     | _ \<Rightarrow> False)"

definition assertMigrationResponse :: "(string \<Rightarrow> json option) \<Rightarrow> json \<Rightarrow> migrationRequest \<Rightarrow> string result" where
  "assertMigrationResponse parse response request =
     (let text = (\<lambda>key. jsGet response key)
      in require (text ''version'' = Some (JNum 2) \<and> text ''type'' = Some (JStr ''offline-signed-tx'') \<and>
           text ''action'' = Some (JStr ''migrate-verification-key'') \<and>
           text ''contractAddress'' = Some (JStr (mrContract request)) \<and> text ''feePayerAddress'' = Some (JStr (mrFeePayer request)) \<and>
           text ''sourceVerificationKeyHash'' = Some (JStr (mrSourceHash request)) \<and>
           text ''targetVerificationKeyHash'' = Some (JStr (mrTargetHash request)))
         ''Signed response does not match this migration request.''
        (case (case text ''transaction'' of Some (JStr s) \<Rightarrow> parse s | t \<Rightarrow> t) of
           None \<Rightarrow> Inl (AssertFail ''Signed command contains an unexpected account update.'')
         | Some command \<Rightarrow> require (expectedMigration command request) ''Signed command contains an unexpected account update.''
             (Inr (jsonStringify command))))"

section \<open>One fee for all of them\<close>

lemma fee_bounds: "OFFLINE_MIN_FEE_NANOMINA \<le> resolveZkappFee response" "resolveZkappFee response \<le> OFFLINE_MAX_FEE_NANOMINA"
  by (simp_all add: resolveZkappFee_def OFFLINE_MIN_FEE_NANOMINA_def OFFLINE_MAX_FEE_NANOMINA_def EMPTY_MEMPOOL_FALLBACK_FEE_def
      UNAVAILABLE_MEMPOOL_FALLBACK_FEE_def split: feeEstimate.split)

lemma bounds_accepted:
  assumes "OFFLINE_MIN_FEE_NANOMINA \<le> fee" "fee \<le> OFFLINE_MAX_FEE_NANOMINA"
  shows "resolveBundleFee (b\<lparr>bbFee := Some (JNum fee)\<rparr>) = Inr fee"
    "jsPath tx [''feePayer'', ''body'', ''fee''] = Some (JStr (intToString fee)) \<Longrightarrow> signedOwnerFeeNanomina tx (Some fee) = Inr fee"
proof -
  have s: "isSafeInteger fee" "0 \<le> fee"
    using assms by (simp_all add: isSafeInteger_def MAX_SAFE_INTEGER_def OFFLINE_MIN_FEE_NANOMINA_def OFFLINE_MAX_FEE_NANOMINA_def)
  then show "resolveBundleFee (b\<lparr>bbFee := Some (JNum fee)\<rparr>) = Inr fee" using assms by (simp add: resolveBundleFee_def)
  have t: "intToString fee = decimal (nat fee)" using s(2) by (simp add: intToString_def)
  show "signedOwnerFeeNanomina tx (Some fee) = Inr fee" if "jsPath tx [''feePayer'', ''body'', ''fee''] = Some (JStr (intToString fee))"
    using that assms s by (simp add: signedOwnerFeeNanomina_def t del: jsPath.simps)
qed

text \<open>
  C36: One fee passes every check. Whatever the node answers for its pool, or fails to answer, the fee that
  the browser chooses lies within the offline bounds, and so does the one of the online signers. A request
  with that fee is accepted by the command line with exactly this fee, and the signed transaction that
  comes back with it in its fee payer is accepted for broadcast as the fee of the exported request.
\<close>
theorem one_fee_everywhere:
  "let fee = resolveZkappFee response; online = resolveOnlineZkappFee response ledger
   in OFFLINE_MIN_FEE_NANOMINA \<le> fee \<and> fee \<le> OFFLINE_MAX_FEE_NANOMINA \<and>
      OFFLINE_MIN_FEE_NANOMINA \<le> online \<and> online \<le> OFFLINE_MAX_FEE_NANOMINA \<and>
      resolveBundleFee (b\<lparr>bbFee := Some (JNum fee)\<rparr>) = Inr fee \<and>
      signedOwnerFeeNanomina (JObj [(''feePayer'', JObj [(''body'', JObj ((''fee'', JStr (intToString fee)) # members))])]) (Some fee)
        = Inr fee"
proof -
  have "jsPath (JObj [(''feePayer'', JObj [(''body'', JObj ((''fee'', JStr (intToString fee)) # members))])])
      [''feePayer'', ''body'', ''fee''] = Some (JStr (intToString fee))" for fee
    by (simp add: jsGet_def)
  from bounds_accepted [OF fee_bounds] this fee_bounds show ?thesis
    by (simp add: Let_def resolveOnlineZkappFee_def AURO_TX_FEE_def OFFLINE_MIN_FEE_NANOMINA_def OFFLINE_MAX_FEE_NANOMINA_def)
qed

end
