(* ===== verification/Offline_Properties.thy ===== *)
theory Offline_Properties
  imports Offline_Handlers
begin

text \<open>
  What a signature of the offline command line means. Whatever the online side wrote into a bundle, the
  transaction acts on exactly the proposal whose hash the bundle declares, with the memo and the child
  configuration that were shown; and a bundle made from the current state of the vault gives calls that
  the contract accepts.
\<close>

section \<open>Rebuilt proposals\<close>

lemma uiTxTypeToField_eq [simp]: "uiTxTypeToField t = TxType t"
  by (cases t) (simp_all add: uiTxTypeToField_def)

lemma length_padReceivers [simp]: "length (padReceivers rs) = MAX_RECEIVERS"
  by (simp add: padReceivers_def)

lemma length_buildTransferReceivers: "buildTransferReceivers E xs = Inr rs \<Longrightarrow> length rs = MAX_RECEIVERS"
  by (auto simp: buildTransferReceivers_def)

lemma buildReceivers_length: "buildReceiversForProposal E t input = Inr rs \<Longrightarrow> length rs = MAX_RECEIVERS"
  by (auto simp: buildReceiversForProposal_def Let_def length_buildTransferReceivers split: if_splits)

lemma newProposal_typed: "newProposal E t input n contract owners = Inr p \<Longrightarrow> typedProposal p"
  by (auto simp: newProposal_def typedProposal_def buildReceivers_length)

lemma buildProposalStruct_Inr:
  assumes "buildProposalStruct E bp fallback = Inr p"
  obtains t memoHash where "requireTxType (bpTxType bp) = Inr t" "pTxType p = TxType t" "bpMemoHash bp = Some memoHash"
    "fieldFromText E memoHash = Inr (pMemoHash p)" "buildTransferReceivers E (bpReceivers bp) = Inr (pReceivers p)"
    "fieldFromText E (orDefault (bpData bp) ''0'') = Inr (pData p)" "typedProposal p"
    "pGuardAddress p = safePublicKey E (Some (orDefault (bpGuardAddress bp) fallback))"
    "pDestination p = Destination (if bpDestination bp = Some ''remote'' then REMOTE else LOCAL)"
    "pChildAccount p = (if truthyText (bpChildAccount bp) then safePublicKey E (bpChildAccount bp) else emptyKey)"
  using assms length_buildTransferReceivers [of E "bpReceivers bp"]
  by (auto simp: buildProposalStruct_def Let_def typedProposal_def split: option.splits if_splits)

text \<open>The proposal of a bundle: the only one whose hash is the declared hash.\<close>

definition declaredProposal :: "('m, 'w, 's) o1js \<Rightarrow> string \<Rightarrow> proposal \<Rightarrow> bool" where
  "declaredProposal E hash p \<longleftrightarrow> typedProposal p \<and> fieldToString (proposalHash E p) = hash"

lemma declaredProposal_unique:
  "collisionFree E \<Longrightarrow> declaredProposal E hash p \<Longrightarrow> declaredProposal E hash q \<Longrightarrow> p = q"
  by (auto simp: declaredProposal_def proposalHash_eq)

lemma recomputed_Inr: "assertRecomputedProposalHash h text = Inr () \<longleftrightarrow> fieldToString h = text"
  by (simp add: assertRecomputedProposalHash_def)

text \<open>The configuration of a child, as the owners and the threshold that were checked, and the data field.\<close>

definition configData :: "('m, 'w, 's) o1js \<Rightarrow> pubkey list \<Rightarrow> int \<Rightarrow> field" where
  "configData E owners thr = childConfigHash E (getCommitment E owners) (fieldOfInt E thr) (fieldOfInt E (int (length owners)))"

lemma childOwnerKeys_texts:
  assumes "traverse (childOwnerKey E) vs = Inr owners"
  shows "vs = map (\<lambda>(s, pk). JStr s) owners" "\<forall>(s, pk) \<in> set owners. fromBase58 E s = Some pk \<and> s \<noteq> EMPTY_PUBKEY_B58 E"
  using assms
  by (induction vs arbitrary: owners) (auto simp: childOwnerKey_def split: json.splits)

lemma checkedConfig_Inr:
  assumes "checkedChildConfigHash E owners thrJson order = Inr (checked, thr, hash)"
  shows "owners = Some (JArr (map (\<lambda>(s, pk). JStr s) checked))" "thrJson = Some (JNum thr)"
    "checked \<noteq> []" "length checked \<le> MAX_OWNERS" "1 \<le> thr" "thr \<le> int (length checked)"
    "distinct (map (\<lambda>(s, pk). pkX pk) checked)" "\<forall>(s, pk) \<in> set checked. fromBase58 E s = Some pk \<and> s \<noteq> EMPTY_PUBKEY_B58 E"
    "hash = childConfigHash E (getCommitment E (case order of ReservedOrder \<Rightarrow> map snd checked
       | SortedOrder \<Rightarrow> foldl (addSorted E) [] (map snd checked))) (fieldOfInt E thr) (fieldOfInt E (int (length checked)))"
proof -
  from assms obtain vs where v: "owners = Some (JArr vs)" by (auto simp: checkedChildConfigHash_def split: option.splits json.splits)
  with assms have t: "traverse (childOwnerKey E) vs = Inr checked"
    by (auto simp: checkedChildConfigHash_def Let_def split: option.splits json.splits)
  note texts = childOwnerKeys_texts [OF t] and len = traverse_length [OF t]
  show "owners = Some (JArr (map (\<lambda>(s, pk). JStr s) checked))" using v texts(1) by simp
  show "\<forall>(s, pk) \<in> set checked. fromBase58 E s = Some pk \<and> s \<noteq> EMPTY_PUBKEY_B58 E" by (rule texts(2))
  show "thrJson = Some (JNum thr)" "checked \<noteq> []" "length checked \<le> MAX_OWNERS" "1 \<le> thr" "thr \<le> int (length checked)"
    "distinct (map (\<lambda>(s, pk). pkX pk) checked)"
    "hash = childConfigHash E (getCommitment E (case order of ReservedOrder \<Rightarrow> map snd checked
       | SortedOrder \<Rightarrow> foldl (addSorted E) [] (map snd checked))) (fieldOfInt E thr) (fieldOfInt E (int (length checked)))"
    using assms len unfolding v by (auto simp: checkedChildConfigHash_def Let_def t split: option.splits json.splits)
qed

lemma childConfig_Inr:
  assumes "assertCreateChildBundleConfig E b = Inr r" "requireTxType (bpTxType (abProposal b)) = Inr CREATE_CHILD"
  obtains owners thr where "r = Some (owners, thr)" "abChildOwners b = Some (JArr (map (\<lambda>(s, pk). JStr s) owners))"
    "abChildThreshold b = Some (JNum thr)" "bpData (abProposal b) = Some (fieldToString (configData E (map snd owners) thr))"
proof -
  from assms obtain owners thr hash where
    c: "checkedChildConfigHash E (abChildOwners b) (abChildThreshold b) ReservedOrder = Inr (owners, thr, hash)"
    and r: "r = Some (owners, thr)" and d: "fieldToString hash = orDefault (bpData (abProposal b)) ''''"
    by (auto simp: assertCreateChildBundleConfig_def)
  note f = checkedConfig_Inr [OF c]
  have "fieldToString hash \<noteq> ''''" by (simp add: fieldToString_def intToString_def)
  then have "bpData (abProposal b) = Some (fieldToString hash)"
    using d by (cases "bpData (abProposal b)") auto
  then show ?thesis using that [OF r f(1,2)] f(9) by (simp add: configData_def)
qed

lemma signMessage_Inr: "signMessage S m k = Inr sg \<longleftrightarrow> sgSignFields S [m] k = Some sg"
  by (simp add: signMessage_def split: option.split)

section \<open>Approving\<close>

text \<open>A successful run, with everything it read and computed.\<close>

definition approvalRun ::
  "('m, 'w, 's) o1js \<Rightarrow> 's signer \<Rightarrow> approveBundle \<Rightarrow> string \<Rightarrow> 'm rebuiltStores \<Rightarrow> proposal \<Rightarrow> 's \<Rightarrow> pubkey \<Rightarrow> pubkey \<Rightarrow> int
     \<Rightarrow> ('w, 's) signedTxOutput \<Rightarrow> bool" where
  "approvalRun E S b k stores p sg approver contract fee out \<longleftrightarrow>
     rebuildVerifiedStores E S (injectAccounts E S (bbAccounts b)) b = Inr stores \<and>
     buildProposalStruct E ((abProposal b)\<lparr>bpGuardAddress := Some (orDefault (bpGuardAddress (abProposal b)) (bbContract b))\<rparr>)
       (bbContract b) = Inr p \<and>
     assertExecutableAddOwnerData E p (rsOwners stores) = Inr () \<and> isOk (assertCreateChildBundleConfig E b) \<and>
     fieldToString (proposalHash E p) = bpProposalHash (abProposal b) \<and> assertBundleMemo E (abProposal b) = Inr () \<and>
     sgSignFields S [proposalSigningMessage E (proposalHash E p) ActApprove] k = Some sg \<and>
     fromBase58 E (bbFeePayer b) = Some approver \<and> fromBase58 E (bbContract b) = Some contract \<and>
     resolveBundleFee b = Inr fee \<and>
     out = signedOutput ''approve'' (bbContract b) (proposalHash E p)
       \<lparr>btSender = approver, btFee = fee, btMemo = None,
        btSteps = [CallMethod contract (ApproveProposal p sg approver (getOwnerWitness (rsOwners stores))
          (getApprovalWitness E (rsApprovals stores) (proposalHash E p)) (getCount E (rsApprovals stores) (proposalHash E p))
          (getNullifierWitness E (rsNullifiers stores) (proposalHash E p) approver))]\<rparr>"

lemma handleApprove_Inr:
  assumes "handleApprove E S b k = Inr out"
  shows "\<exists>stores p sg approver contract fee. approvalRun E S b k stores p sg approver contract fee out"
  using assms unfolding handleApprove_def Let_def andAlso_Inr andThen_Inr signMessage_Inr recomputed_Inr parseKey_Inr
    approvalRun_def isOk_iff Inr_inject
  by blast

lemma memo_bound:
  assumes "assertBundleMemo E bp = Inr ()" "bpMemoHash bp = Some h" "fieldFromText E h = Inr f"
  shows "f = fieldOfInt E (memoToField E (orDefault (bpMemo bp) ''''))"
  using assms by (auto simp: assertBundleMemo_Inr)

text \<open>C11: What an owner signs offline is the declared proposal and nothing else. When approving
  succeeds, there is exactly one proposal with the declared hash, the signature is over the approval
  message of that proposal, the transaction is the single call that approves it on the vault of the
  bundle, the memo text of the bundle is the one whose hash the proposal commits to, and for a child
  creation the proposal commits to the owners and the threshold in the bundle.\<close>

theorem offline_approval_signs_declared:
  assumes "collisionFree E" "handleApprove E S b k = Inr out"
  shows "\<exists>!p. declaredProposal E (bpProposalHash (abProposal b)) p \<and>
    (\<exists>sg approver contract ow aw n vw. sgSignFields S [proposalSigningMessage E (proposalHash E p) ActApprove] k = Some sg \<and>
       fromBase58 E (bbContract b) = Some contract \<and>
       btSteps (soTransaction out) = [CallMethod contract (ApproveProposal p sg approver ow aw n vw)]) \<and>
    pMemoHash p = fieldOfInt E (memoToField E (orDefault (bpMemo (abProposal b)) '''')) \<and>
    (pTxType p = TxType CREATE_CHILD \<longrightarrow> (\<exists>owners thr.
       abChildOwners b = Some (JArr (map (\<lambda>(s, pk). JStr s) owners)) \<and> abChildThreshold b = Some (JNum thr) \<and>
       pData p = fieldOfInt E (configData E (map snd owners) thr)))"
proof -
  obtain stores p sg approver contract fee where r: "approvalRun E S b k stores p sg approver contract fee out"
    using handleApprove_Inr [OF assms(2)] by blast
  note run = r [unfolded approvalRun_def]
  from run have st: "buildProposalStruct E ((abProposal b)\<lparr>bpGuardAddress := Some (orDefault (bpGuardAddress (abProposal b)) (bbContract b))\<rparr>)
       (bbContract b) = Inr p"
    and cfg: "isOk (assertCreateChildBundleConfig E b)" and memo: "assertBundleMemo E (abProposal b) = Inr ()"
    and h: "fieldToString (proposalHash E p) = bpProposalHash (abProposal b)" by auto
  from st obtain t mh where t: "requireTxType (bpTxType (abProposal b)) = Inr t" "pTxType p = TxType t"
    and mh: "bpMemoHash (abProposal b) = Some mh" "fieldFromText E mh = Inr (pMemoHash p)"
    and d: "fieldFromText E (orDefault (bpData (abProposal b)) ''0'') = Inr (pData p)" and ty: "typedProposal p"
    by (rule buildProposalStruct_Inr) auto
  have decl: "declaredProposal E (bpProposalHash (abProposal b)) p" using ty h by (simp add: declaredProposal_def)
  have child: "\<exists>owners thr. abChildOwners b = Some (JArr (map (\<lambda>(s, pk). JStr s) owners)) \<and> abChildThreshold b = Some (JNum thr) \<and>
       pData p = fieldOfInt E (configData E (map snd owners) thr)" if "pTxType p = TxType CREATE_CHILD"
  proof -
    have t': "requireTxType (bpTxType (abProposal b)) = Inr CREATE_CHILD" using t that by (metis TxType_eq)
    obtain r where "assertCreateChildBundleConfig E b = Inr r" using cfg by (auto simp: isOk_iff)
    from childConfig_Inr [OF this t'] obtain owners thr where
      "abChildOwners b = Some (JArr (map (\<lambda>(s, pk). JStr s) owners))" "abChildThreshold b = Some (JNum thr)"
      "bpData (abProposal b) = Some (fieldToString (configData E (map snd owners) thr))" by blast
    with d show ?thesis by (intro exI [of _ owners] exI [of _ thr]) simp
  qed
  have steps: "\<exists>sg approver contract ow aw n vw. sgSignFields S [proposalSigningMessage E (proposalHash E p) ActApprove] k = Some sg \<and>
       fromBase58 E (bbContract b) = Some contract \<and>
       btSteps (soTransaction out) = [CallMethod contract (ApproveProposal p sg approver ow aw n vw)]"
    using run by (auto simp: signedOutput_def)
  show ?thesis
    by (rule ex1I [of _ p], intro conjI impI decl steps memo_bound [OF memo mh] child)
      (blast intro: declaredProposal_unique [OF assms(1) _ decl])+
qed

section \<open>Executing\<close>

text \<open>The call runs the proposal with the method of its type, and the arguments beside the proposal and the
  witnesses are those the proposal commits to.\<close>

fun executes :: "('w, 's) call \<Rightarrow> txType \<Rightarrow> proposal \<Rightarrow> bool" where
  "executes (ExecuteTransfer q aw c) t p = (t = TRANSFER \<and> q = p)"
| "executes (ExecuteAllocateToChildren q aw c) t p = (t = ALLOCATE_CHILD \<and> q = p)"
| "executes (ExecuteOwnerChange q aw c ow ia) t p = ((t = ADD_OWNER \<or> t = REMOVE_OWNER) \<and> q = p)"
| "executes (ExecuteThresholdChange q aw c thr) t p = (t = CHANGE_THRESHOLD \<and> q = p \<and> thr = pData p)"
| "executes (ExecuteDelegate q aw c) t p = (t = SET_DELEGATE \<and> q = p)"
| "executes (ExecuteReclaimToParent q pw pc cw amt) t p = (t = RECLAIM_CHILD \<and> q = p \<and> uint amt = pData p)"
| "executes (ExecuteDestroy q pw pc cw bal) t p = (t = DESTROY_CHILD \<and> q = p)"
| "executes (ExecuteEnableChildMultiSig q pw pc cw en) t p = (t = ENABLE_CHILD_MULTI_SIG \<and> q = p \<and> en = pData p)"
| "executes (ExecuteSetupChild thr num owners q pw pc) t p = (t = CREATE_CHILD \<and> q = p)"
| "executes c t p = False"

definition newAccounts :: "('m, 'w, 's) o1js \<Rightarrow> executeBundle \<Rightarrow> txType \<Rightarrow> proposal \<Rightarrow> nat" where
  "newAccounts E b t p = (if t = TRANSFER
     then countNewReceiverAccounts E (pReceivers p) (existsFlag (ebReceiverAccountExists b)) else 0)"

definition executionSteps :: "pubkey \<Rightarrow> nat \<Rightarrow> pubkey \<Rightarrow> ('w, 's) call \<Rightarrow> ('w, 's) txStep list" where
  "executionSteps executor n callee c = (if n > 0 then [FundNewAccount executor n] else []) @ [CallMethod callee c]"

text \<open>What a built execution has to do with the bundle and the proposal.\<close>

definition executionOf ::
  "('m, 'w, 's) o1js \<Rightarrow> executeBundle \<Rightarrow> txType \<Rightarrow> proposal \<Rightarrow> pubkey \<Rightarrow> int \<Rightarrow> ('w, 's) builtTx \<Rightarrow> bool" where
  "executionOf E b t p executor fee tx \<longleftrightarrow> btSender tx = executor \<and> btFee tx = fee \<and>
     (btMemo tx = None \<or> btMemo tx = bpMemo (abProposal b)) \<and>
     (\<exists>callee c. btSteps tx = executionSteps executor (newAccounts E b t p) callee c \<and> executes c t p)"

lemma execute_createChild:
  assumes "executeCreateChild E b fee p stores executor = Inr tx"
  shows "executionOf E b CREATE_CHILD p executor fee tx"
  using assms
  by (auto simp: executeCreateChild_def executionOf_def executionSteps_def newAccounts_def Let_def split: option.splits)

lemma fieldOfInt_word: "fieldLarge E \<Longrightarrow> 0 \<le> n \<Longrightarrow> n < 2 ^ 64 \<Longrightarrow> fieldOfInt E n = uint (word_of_int n :: 64 word)"
  by (simp add: fieldOfInt_def fieldLarge_def uint_word_of_int)

lemma executes_lifecycle:
  assumes "fieldLarge E" "lifecycleCall E t bp p aw c cw bal = Inr x" "t \<in> set CHILD_LIFECYCLE_TYPES"
    and "fieldFromText E (orDefault (bpData bp) ''0'') = Inr (pData p)"
  shows "executes x t p"
  using assms
  by (auto simp: lifecycleCall_def CHILD_LIFECYCLE_TYPES_def uint64FromText_def fieldFromText_def fieldOfInt_word split: if_splits)

lemma execute_lifecycle:
  assumes "fieldLarge E" "executeLifecycle E S cache b t fee p stores executor = Inr tx" "t \<in> set CHILD_LIFECYCLE_TYPES"
    and "fieldFromText E (orDefault (bpData (abProposal b)) ''0'') = Inr (pData p)"
  shows "executionOf E b t p executor fee tx"
proof -
  have "t \<noteq> TRANSFER" using assms(3) by (auto simp: CHILD_LIFECYCLE_TYPES_def)
  with assms(2) executes_lifecycle [OF assms(1) _ assms(3,4)] show ?thesis
    by (auto simp: executeLifecycle_def executionOf_def executionSteps_def newAccounts_def Let_def split: option.splits)
qed

lemma executes_local:
  assumes "localCall E t bp p owners aw c = Inr x" "fieldFromText E (orDefault (bpData bp) ''0'') = Inr (pData p)"
  shows "executes x t p"
  using assms by (auto simp: localCall_def split: if_splits)

lemma newAccounts_counted:
  assumes "countExecuteNewAccounts E b = Inr n" "requireTxType (bpTxType (abProposal b)) = Inr t"
    and "buildTransferReceivers E (bpReceivers (abProposal b)) = Inr (pReceivers p)"
  shows "n = newAccounts E b t p"
  using assms by (auto simp: countExecuteNewAccounts_def newAccounts_def split: if_splits)

lemma execute_local:
  assumes "executeLocal E b t fee p stores executor = Inr tx" "requireTxType (bpTxType (abProposal b)) = Inr t"
    and "buildTransferReceivers E (bpReceivers (abProposal b)) = Inr (pReceivers p)"
    and "fieldFromText E (orDefault (bpData (abProposal b)) ''0'') = Inr (pData p)"
  shows "executionOf E b t p executor fee tx"
proof -
  from assms(1) obtain n contract c where n: "countExecuteNewAccounts E b = Inr n"
    and c: "localCall E t (abProposal b) p (rsOwners stores) (getApprovalWitness E (rsApprovals stores) (proposalHash E p))
        (getCount E (rsApprovals stores) (proposalHash E p)) = Inr c"
    and tx: "tx = \<lparr>btSender = executor, btFee = fee, btMemo = bpMemo (abProposal b), btSteps = executionSteps executor n contract c\<rparr>"
    by (auto simp: executeLocal_def Let_def executionSteps_def)
  show ?thesis
    using executes_local [OF c assms(4)] newAccounts_counted [OF n assms(2,3)] by (auto simp: executionOf_def tx)
qed

lemma newAccounts_bound: "typedProposal p \<Longrightarrow> newAccounts E b t p \<le> MAX_RECEIVERS"
proof -
  have "countNewReceiverAccounts E rs f \<le> length rs" for rs f by (induction rs) auto
  then show "typedProposal p \<Longrightarrow> newAccounts E b t p \<le> MAX_RECEIVERS"
    by (simp add: newAccounts_def typedProposal_def) metis
qed

lemma handleExecute_Inr:
  assumes "fieldLarge E" "handleExecute E S b = Inr out"
  shows "\<exists>stores t p executor fee tx. rebuildVerifiedStores E S (injectAccounts E S (bbAccounts b)) b = Inr stores \<and>
     requireTxType (bpTxType (abProposal b)) = Inr t \<and> pTxType p = TxType t \<and>
     declaredProposal E (bpProposalHash (abProposal b)) p \<and> fromBase58 E (bbFeePayer b) = Some executor \<and>
     resolveBundleFee b = Inr fee \<and> pMemoHash p = fieldOfInt E (memoToField E (orDefault (bpMemo (abProposal b)) '''')) \<and>
     executionOf E b t p executor fee tx \<and> out = signedOutput ''execute'' (bbContract b) (proposalHash E p) tx"
proof -
  from assms(2) obtain fee t stores p executor tx where
    fee: "resolveBundleFee b = Inr fee" and t: "requireTxType (bpTxType (abProposal b)) = Inr t"
    and st: "rebuildVerifiedStores E S (injectAccounts E S (bbAccounts b)) b = Inr stores"
    and p: "buildProposalStruct E (executeProposal t b) (bbContract b) = Inr p"
    and h: "fieldToString (proposalHash E p) = bpProposalHash (abProposal b)" and memo: "assertBundleMemo E (abProposal b) = Inr ()"
    and x: "fromBase58 E (bbFeePayer b) = Some executor"
    and tx: "(if t = CREATE_CHILD then executeCreateChild E b fee p stores executor
        else if t \<in> set CHILD_LIFECYCLE_TYPES then executeLifecycle E S (injectAccounts E S (bbAccounts b)) b t fee p stores executor
        else executeLocal E b t fee p stores executor) = Inr tx"
    and out: "out = signedOutput ''execute'' (bbContract b) (proposalHash E p) tx"
    unfolding handleExecute_def Let_def andAlso_Inr andThen_Inr recomputed_Inr parseKey_Inr Inr_inject by blast
  have same: "bpTxType (executeProposal t b) = bpTxType (abProposal b)" "bpMemoHash (executeProposal t b) = bpMemoHash (abProposal b)"
    "bpReceivers (executeProposal t b) = bpReceivers (abProposal b)" "bpData (executeProposal t b) = bpData (abProposal b)"
    by (simp_all add: executeProposal_def Let_def)
  from p obtain mh where ty: "pTxType p = TxType t" "typedProposal p"
    and mh: "bpMemoHash (abProposal b) = Some mh" "fieldFromText E mh = Inr (pMemoHash p)"
    and rs: "buildTransferReceivers E (bpReceivers (abProposal b)) = Inr (pReceivers p)"
    and d: "fieldFromText E (orDefault (bpData (abProposal b)) ''0'') = Inr (pData p)"
    by (rule buildProposalStruct_Inr) (auto simp: same t)
  have "executionOf E b t p executor fee tx"
    using tx execute_createChild [of E b fee p stores executor tx] execute_lifecycle [OF assms(1) _ _ d]
      execute_local [OF _ t rs d, of fee stores executor tx] by (auto split: if_splits)
  then show ?thesis
    using st t ty h x fee memo_bound [OF memo mh] out by (intro exI conjI) (auto simp: declaredProposal_def)
qed

text \<open>C12: An offline execution runs the declared proposal and nothing else. When building succeeds there is
  exactly one proposal with the declared hash, of the declared type; the transaction makes one contract
  call, the method of that type with that proposal and the arguments it commits to; it funds at most one
  account per receiver of that proposal, and only for a transfer; and the memo it carries, if any, is the
  one the proposal commits to.\<close>

theorem offline_execution_runs_declared:
  assumes "soundEnv E" "handleExecute E S b = Inr out"
  shows "\<exists>!p. declaredProposal E (bpProposalHash (abProposal b)) p \<and>
    pMemoHash p = fieldOfInt E (memoToField E (orDefault (bpMemo (abProposal b)) '''')) \<and>
    (\<exists>t executor callee c. requireTxType (bpTxType (abProposal b)) = Inr t \<and> pTxType p = TxType t \<and>
       fromBase58 E (bbFeePayer b) = Some executor \<and> newAccounts E b t p \<le> MAX_RECEIVERS \<and> executes c t p \<and>
       btSteps (soTransaction out) = executionSteps executor (newAccounts E b t p) callee c \<and>
       btMemo (soTransaction out) \<in> {None, bpMemo (abProposal b)})"
proof -
  obtain t p executor fee tx where t: "requireTxType (bpTxType (abProposal b)) = Inr t" "pTxType p = TxType t"
    and p: "declaredProposal E (bpProposalHash (abProposal b)) p"
    and m: "pMemoHash p = fieldOfInt E (memoToField E (orDefault (bpMemo (abProposal b)) ''''))"
    and x: "fromBase58 E (bbFeePayer b) = Some executor" and e: "executionOf E b t p executor fee tx"
    and out: "out = signedOutput ''execute'' (bbContract b) (proposalHash E p) tx"
    using handleExecute_Inr [OF soundEnv_fieldLarge [OF assms(1)] assms(2)] by blast
  have "newAccounts E b t p \<le> MAX_RECEIVERS" using p by (simp add: declaredProposal_def newAccounts_bound)
  with t x e have "\<exists>t executor callee c. requireTxType (bpTxType (abProposal b)) = Inr t \<and> pTxType p = TxType t \<and>
       fromBase58 E (bbFeePayer b) = Some executor \<and> newAccounts E b t p \<le> MAX_RECEIVERS \<and> executes c t p \<and>
       btSteps (soTransaction out) = executionSteps executor (newAccounts E b t p) callee c \<and>
       btMemo (soTransaction out) \<in> {None, bpMemo (abProposal b)}"
    by (auto simp: executionOf_def out signedOutput_def)
  then show ?thesis
    by (rule_tac ex1I [of _ p], intro conjI p m)
      (blast intro: declaredProposal_unique [OF soundEnv_collisionFree [OF assms(1)] _ p])+
qed

section \<open>Acceptance\<close>

text \<open>The stores restored from a request satisfy the invariant of the nullifier store, whatever the request says.\<close>

lemma deserializeNullifiers_inv:
  assumes E: "soundEnv E" and ok: "deserializeNullifiers E keys = Inr s"
  shows "nullifierStoreInv E s"
proof -
  note m = soundEnv_merkle [OF E]
  have pos: "0 < fieldOrder E" using fieldLarge_pos [OF soundEnv_fieldLarge [OF E]] by simp
  from ok obtain fs where d: "distinct fs" and s: "s = \<lparr>vnMap = foldl (\<lambda>m f. mapSet E m f 1) (emptyMap E) fs, vnKeys = fs\<rparr>"
    unfolding deserializeNullifiers_def deserializeNullifierKeys_Inr [OF pos m nullifierStoreInv_new [OF m]]
    by (auto simp: newNullifierStore_def)
  have "vnMap s = foldl (\<lambda>m (k, v). mapSet E m k v) (emptyMap E) (map (\<lambda>k. (k, 1)) fs)" by (simp add: s foldl_map)
  then have "mapGet E (vnMap s) k = (if k \<in> set fs then 1 else 0)" for k
    by (simp only: mm.read_writes [OF m]) (simp add: rev_map map_of_graph [of "\<lambda>_. 1"] mapGet_empty [OF m])
  then show ?thesis using d by (auto simp: nullifierStoreInv_def s fun_eq_iff)
qed

lemma restored_stores:
  assumes "soundEnv E" "restoreStoreCheckpoint E cp scope = Inr stores"
  shows "nullifierStoreInv E (rsNullifiers stores)" "length (rsOwners stores) \<le> MAX_OWNERS"
proof -
  from assms(2) obtain owners nullifiers where o: "deserializeOwners E (cpOwners cp) = Inr owners"
    "length (cpOwners cp) \<le> MAX_OWNERS" "deserializeNullifiers E (cpNullifiers cp) = Inr nullifiers"
    "rsOwners stores = owners" "rsNullifiers stores = nullifiers"
    by (auto simp: restoreStoreCheckpoint_def Let_def)
  have "deserializeOwners E xs = Inr ys \<Longrightarrow> length ys = length xs" for xs ys
    by (induction xs arbitrary: ys) (auto split: option.splits)
  with o show "length (rsOwners stores) \<le> MAX_OWNERS" by auto
  show "nullifierStoreInv E (rsNullifiers stores)" using o deserializeNullifiers_inv [OF assms(1)] by simp
qed

text \<open>The bundle's snapshot of the vault shows the state of \<open>g\<close>.\<close>

definition snapshotShows :: "('m, 'w, 's) o1js \<Rightarrow> 's signer \<Rightarrow> 'a bundleBase_scheme \<Rightarrow> pubkey \<Rightarrow> guard \<Rightarrow> bool" where
  "snapshotShows E S b a g \<longleftrightarrow> fromBase58 E (bbContract b) = Some a \<and>
     (\<exists>acct. map_of (injectAccounts E S (bbAccounts b)) (a, NATIVE_TOKEN_ID) = Some acct \<and>
        sgState S acct 0 = Some (ownersCommitment g) \<and> sgState S acct 5 = Some (approvalRoot g) \<and>
        sgState S acct 4 = Some (voteNullifierRoot g))"

lemma verified_synced:
  assumes E: "soundEnv E" and ok: "rebuildVerifiedStores E S (injectAccounts E S (bbAccounts b)) b = Inr stores"
    and snap: "snapshotShows E S b a g"
  shows "synced E g (rsOwners stores) (rsApprovals stores) (rsNullifiers stores)" "length (rsOwners stores) \<le> MAX_OWNERS"
proof -
  from snap obtain acct where a: "fromBase58 E (bbContract b) = Some a"
    "map_of (injectAccounts E S (bbAccounts b)) (a, NATIVE_TOKEN_ID) = Some acct"
    "sgState S acct 0 = Some (ownersCommitment g)" "sgState S acct 5 = Some (approvalRoot g)"
    "sgState S acct 4 = Some (voteNullifierRoot g)" by (auto simp: snapshotShows_def)
  with ok obtain s where s: "storesFromOfflineRequest E (requestOf b) s = Inr stores"
    "csOwnersCommitment s = Some (fieldToString (ownersCommitment g))" "csApprovalRoot s = Some (fieldToString (approvalRoot g))"
    "csVoteNullifierRoot s = Some (fieldToString (voteNullifierRoot g))"
    by (auto simp: rebuildVerifiedStores_def snapshotState_def chainState.truncate_def split: option.splits)
  from s(1) obtain cp scope where r: "restoreStoreCheckpoint E cp scope = Inr stores"
    by (auto simp: storesFromOfflineRequest_def split: option.splits)
  have "storesVerified E stores s"
    using s(1) by (auto simp: storesFromOfflineRequest_def split: option.splits simp flip: verified_iff)
  then show "synced E g (rsOwners stores) (rsApprovals stores) (rsNullifiers stores)"
    using s(2-) restored_stores(1) [OF E r] by (simp add: storesVerified_def synced_def)
  show "length (rsOwners stores) \<le> MAX_OWNERS" by (rule restored_stores(2) [OF E r])
qed

text \<open>Two stores that mirror the same guard agree in everything a client asks them.\<close>

lemma synced_agree:
  assumes E: "soundEnv E" and s: "synced E g o1 a1 n1" "synced E g o2 a2 n2"
  shows "o1 = o2" "getCount E a1 = getCount E a2" "isExecuted E a1 = isExecuted E a2" "isNullified E n1 = isNullified E n2"
proof -
  note m = soundEnv_merkle [OF E]
  show "o1 = o2" using s by (simp add: synced_def getCommitment_def computeOwnerChain_eq [OF soundEnv_collisionFree [OF E]])
  have g: "mapGet E (asMap a1) = mapGet E (asMap a2)"
    using s by (intro mapRoot_binding [OF m]) (simp add: synced_def getApprovalRoot_def)
  then show "getCount E a1 = getCount E a2" "isExecuted E a1 = isExecuted E a2"
    by (auto simp: getCount_def isExecuted_def fun_eq_iff)
  have "mapGet E (vnMap n1) = mapGet E (vnMap n2)"
    using s by (intro mapRoot_binding [OF m]) (simp add: synced_def getNullifierRoot_def)
  moreover have "k \<in> set (vnKeys n1) \<longleftrightarrow> mapGet E (vnMap n1) k = 1" "k \<in> set (vnKeys n2) \<longleftrightarrow> mapGet E (vnMap n2) k = 1" for k
    using s by (auto simp: synced_def nullifierStoreInv_def)
  ultimately show "isNullified E n1 = isNullified E n2" by (auto simp: isNullified_def fun_eq_iff)
qed

text \<open>C24: An approval signed offline is accepted. If the snapshot in the bundle shows the current state of
  the vault, the declared proposal may be voted on, it is proposed and not executed, and the fee payer is an
  owner who has not voted and whose key signs, then the one call of the transaction succeeds on the
  ledger and raises the count of the proposal by one; whatever checkpoint the bundle carries.\<close>

theorem offline_approval_accepted:
  assumes E: "soundEnv E" "base58Laws E" and ok: "handleApprove E S b k = Inr out"
    and snap: "snapshotShows E S b a g" and acc: "accounts w a = Some g" and mirror: "synced E g owners aps nus"
    and p: "declaredProposal E (bpProposalHash (abProposal b)) p" and v: "votable w a g p"
    and c: "PROPOSED_MARKER \<le> getCount E aps (proposalHash E p)" "\<not> isExecuted E aps (proposalHash E p)"
    and pk: "fromBase58 E (bbFeePayer b) = Some pk" "isOwner E owners pk" "\<not> isNullified E nus (proposalHash E p) pk"
    and sig: "\<And>msg sg. sgSignFields S msg k = Some sg \<Longrightarrow> verifySignature E sg pk msg"
  shows "\<exists>call evs g'. btSteps (soTransaction out) = [CallMethod a call] \<and>
    transact E w a call = Inr (w\<lparr>accounts := (accounts w)(a := Some g')\<rparr>, evs) \<and>
    approvalRoot g' = getApprovalRoot E (setCount E aps (proposalHash E p) (fieldAdd E (getCount E aps (proposalHash E p)) 1))"
proof -
  obtain stores q sg approver contract fee where r: "approvalRun E S b k stores q sg approver contract fee out"
    using handleApprove_Inr [OF ok] by blast
  note run = r [unfolded approvalRun_def]
  from run have st: "rebuildVerifiedStores E S (injectAccounts E S (bbAccounts b)) b = Inr stores"
    and qs: "buildProposalStruct E ((abProposal b)\<lparr>bpGuardAddress := Some (orDefault (bpGuardAddress (abProposal b)) (bbContract b))\<rparr>)
       (bbContract b) = Inr q" by auto
  have "typedProposal q" using qs by (rule buildProposalStruct_Inr)
  then have "q = p"
    using run by (intro declaredProposal_unique [OF soundEnv_collisionFree [OF E(1)] _ p]) (simp add: declaredProposal_def)
  note sy = verified_synced [OF E(1) st snap]
  note same = synced_agree [OF E(1) sy(1) mirror]
  have "approver = pk" "contract = a" using run pk(1) snap by (auto simp: snapshotShows_def)
  moreover have "verifySignature E sg pk [proposalSigningMessage E (proposalHash E p) ActApprove]"
    using run sig \<open>q = p\<close> by blast
  ultimately obtain evs where t: "transact E w a (ApproveProposal p sg pk (getOwnerWitness (rsOwners stores))
       (getApprovalWitness E (rsApprovals stores) (proposalHash E p)) (getCount E (rsApprovals stores) (proposalHash E p))
       (getNullifierWitness E (rsNullifiers stores) (proposalHash E p) pk)) =
    Inr (w\<lparr>accounts := (accounts w)(a := Some (voteUpdate E (rsApprovals stores) (rsNullifiers stores) (proposalHash E p) pk
       (fieldAdd E (getCount E (rsApprovals stores) (proposalHash E p)) 1) g))\<rparr>, evs)"
    using approve_transact [OF E sy(1) v _ sy(2) _ _ _ _ acc, of pk sg] pk c p same by (auto simp: declaredProposal_def)
  have "getApprovalRoot E (setCount E (rsApprovals stores) (proposalHash E p) n) = getApprovalRoot E (setCount E aps (proposalHash E p) n)" for n
    using approval_witness(2) [OF E(1) sy(1)] approval_witness(2) [OF E(1) mirror] same
    by (intro ap.root_ext [OF soundEnv_merkle [OF E(1)]]) (simp add: fun_eq_iff ap.read_write [OF soundEnv_merkle [OF E(1)]])
  then show ?thesis
    using run t \<open>q = p\<close> \<open>approver = pk\<close> \<open>contract = a\<close> same(2) by (auto simp: signedOutput_def voteUpdate_def)
qed

end
