(* ===== verification/Offline_Summary.thy ===== *)
theory Offline_Summary
  imports Offline_Properties "HOL-Library.Signed_Division"
begin

text \<open>
  The text an operator reads before signing (\<open>offline-cli/src/summary.ts\<close>, \<open>terminal-safe.ts\<close>). Texts are the
  bytes of their UTF-8 form, as everywhere in the model; the screen is a list of Unicode code points, because
  the escaping is defined on code points. A memo may contain any of them. Error messages are the ones of the
  model.
\<close>

type_synonym screenText = "nat list"

text \<open>The code points of UTF-8 bytes. A text is well formed; a stray byte, which does not occur, becomes the
  replacement character.\<close>

definition isContinuation :: "nat \<Rightarrow> bool" where
  "isContinuation b \<longleftrightarrow> 0x80 \<le> b \<and> b < 0xC0"

fun codePoints :: "nat list \<Rightarrow> screenText" where
  "codePoints [] = []"
| "codePoints (a # bs) =
     (if a < 0x80 then a # codePoints bs
      else if 0xC2 \<le> a \<and> a < 0xE0 \<and> 1 \<le> length bs \<and> list_all isContinuation (take 1 bs)
      then (64 * (a - 0xC0) + (bs ! 0 - 0x80)) # codePoints (drop 1 bs)
      else if 0xE0 \<le> a \<and> a < 0xF0 \<and> 2 \<le> length bs \<and> list_all isContinuation (take 2 bs)
      then (4096 * (a - 0xE0) + 64 * (bs ! 0 - 0x80) + (bs ! 1 - 0x80)) # codePoints (drop 2 bs)
      else if 0xF0 \<le> a \<and> a < 0xF5 \<and> 3 \<le> length bs \<and> list_all isContinuation (take 3 bs)
      then (262144 * (a - 0xF0) + 4096 * (bs ! 0 - 0x80) + 64 * (bs ! 1 - 0x80) + (bs ! 2 - 0x80)) # codePoints (drop 3 bs)
      else 0xFFFD # codePoints bs)"

definition asText :: "string \<Rightarrow> screenText" where
  "asText s = codePoints (map of_char s)"

lemma asText_ascii: "list_all (\<lambda>c. (of_char c :: nat) < 0x80) s \<Longrightarrow> asText s = map of_char s"
  unfolding asText_def by (induction s) auto

section \<open>Escaping\<close>

text \<open>The general categories Cc, Cf, Zl and Zp of Unicode, as ranges of code points.\<close>

definition TERMINAL_UNSAFE :: "(nat \<times> nat) list" where
  "TERMINAL_UNSAFE = [(0, 0x1F), (0x7F, 0x9F), (0xAD, 0xAD), (0x600, 0x605), (0x61C, 0x61C), (0x6DD, 0x6DD), (0x70F, 0x70F),
     (0x890, 0x891), (0x8E2, 0x8E2), (0x180E, 0x180E), (0x200B, 0x200F), (0x2028, 0x2029), (0x202A, 0x202E), (0x2060, 0x2064),
     (0x2066, 0x206F), (0xFEFF, 0xFEFF), (0xFFF9, 0xFFFB), (0x110BD, 0x110BD), (0x110CD, 0x110CD), (0x13430, 0x1343F),
     (0x1BCA0, 0x1BCA3), (0x1D173, 0x1D17A), (0xE0001, 0xE0001), (0xE0020, 0xE007F)]"

definition terminalUnsafe :: "nat \<Rightarrow> bool" where
  "terminalUnsafe c = list_ex (\<lambda>(lo, hi). lo \<le> c \<and> c \<le> hi) TERMINAL_UNSAFE"

definition upperHexDigit :: "nat \<Rightarrow> nat" where
  "upperHexDigit d = (if d < 10 then 48 + d else 55 + d)"

fun upperHex :: "nat \<Rightarrow> screenText" where
  "upperHex n = (if n < 16 then [upperHexDigit n] else upperHex (n div 16) @ [upperHexDigit (n mod 16)])"

declare upperHex.simps [simp del]

definition escapeTerminalText :: "screenText \<Rightarrow> screenText" where
  "escapeTerminalText input = concat (map (\<lambda>c. if terminalUnsafe c
     then [92, 117, 123] @ upperHex c @ [125] else [c]) input)"

fun splitLines :: "screenText \<Rightarrow> screenText list" where
  "splitLines [] = [[]]"
| "splitLines (c # cs) = (if c = 10 then [] # splitLines cs
     else (case splitLines cs of [] \<Rightarrow> [[c]] | l # ls \<Rightarrow> (c # l) # ls))"

fun joinLines :: "screenText list \<Rightarrow> screenText" where
  "joinLines [] = []"
| "joinLines [l] = l"
| "joinLines (l # k # ls) = l @ 10 # joinLines (k # ls)"

definition escapeTerminalLines :: "screenText \<Rightarrow> screenText" where
  "escapeTerminalLines t = joinLines (map escapeTerminalText (splitLines t))"

section \<open>Formatting\<close>

definition NANO :: int where
  "NANO = 1000000000"

definition padStart :: "nat \<Rightarrow> string \<Rightarrow> string" where
  "padStart n s = replicate (n - length s) CHR ''0'' @ s"

definition dropTrailingZeros :: "string \<Rightarrow> string" where
  "dropTrailingZeros s = rev (dropWhile (\<lambda>c. c = CHR ''0'') (rev s))"

definition formatNano :: "int \<Rightarrow> string" where
  "formatNano n = (let whole = n sdiv NANO; frac = n smod NANO
     in if frac = 0 then intToString whole
        else intToString whole @ ''.'' @ dropTrailingZeros (padStart 9 (intToString frac)))"

definition formatMina :: "string option \<Rightarrow> string" where
  "formatMina nanomina = (if \<not> truthyText nanomina then ''0''
     else case stringToBigInt (the nanomina) of None \<Rightarrow> ''0'' | Some n \<Rightarrow> formatNano n)"

definition TX_TYPE_LABELS :: "txType \<Rightarrow> string" where
  "TX_TYPE_LABELS t = (case t of TRANSFER \<Rightarrow> ''Send'' | ADD_OWNER \<Rightarrow> ''Add Owner'' | REMOVE_OWNER \<Rightarrow> ''Remove Owner''
     | CHANGE_THRESHOLD \<Rightarrow> ''Change Threshold'' | SET_DELEGATE \<Rightarrow> ''Set Delegate'' | CREATE_CHILD \<Rightarrow> ''Create SubVault''
     | ALLOCATE_CHILD \<Rightarrow> ''Allocate to SubVaults'' | RECLAIM_CHILD \<Rightarrow> ''Reclaim from SubVault''
     | DESTROY_CHILD \<Rightarrow> ''Destroy SubVault'' | ENABLE_CHILD_MULTI_SIG \<Rightarrow> ''Toggle SubVault Multi-sig'')"

definition actionLabel :: "string option \<Rightarrow> string" where
  "actionLabel rawTxType = (case normalizeTxType rawTxType of Some t \<Rightarrow> TX_TYPE_LABELS t
     | None \<Rightarrow> if truthyText rawTxType then ''Unknown ('' @ the rawTxType @ '')'' else ''Unknown'')"

definition realReceivers :: "('m, 'w, 's) o1js \<Rightarrow> bundleReceiver list \<Rightarrow> bundleReceiver list" where
  "realReceivers E receivers = filter (\<lambda>r. brAddress r \<noteq> [] \<and> brAddress r \<noteq> EMPTY_PUBKEY_B58 E) receivers"

definition totalMina :: "bundleReceiver list \<Rightarrow> string" where
  "totalMina receivers = formatMina (Some (intToString (foldl (\<lambda>acc r. case stringToBigInt (brAmount r) of
     None \<Rightarrow> acc | Some n \<Rightarrow> acc + n) 0 receivers)))"

definition line :: "string \<Rightarrow> string option \<Rightarrow> screenText" where
  "line label v = asText (''  '' @ label @ replicate (16 - length label) CHR '' '' @ orDefault v '''')"

definition receiverLine :: "string \<Rightarrow> string \<Rightarrow> screenText" where
  "receiverLine address amount = asText (''    '' @ address @ ''  '') @ 0x2192 # asText (''  '' @ formatMina (Some amount) @ '' MINA'')"

definition renderReceivers :: "('m, 'w, 's) o1js \<Rightarrow> bundleReceiver list \<Rightarrow> screenText list" where
  "renderReceivers E receivers =
     (let warning = (if length receivers > MAX_RECEIVERS then
            [line ''WARNING'' (Some (''the bundle lists '' @ decimal (length receivers) @ '' receivers; only the first ''
               @ decimal MAX_RECEIVERS @ '' are signed''))] else []);
          real = realReceivers E (take MAX_RECEIVERS receivers)
      in if real = [] then warning @ [line ''Receivers'' (Some ''(none)'')]
         else warning @ [asText (''  Receivers ('' @ decimal (length real) @ ''):'')]
           @ map (\<lambda>r. receiverLine (brAddress r) (brAmount r)) real
           @ [line ''Total'' (Some (totalMina real @ '' MINA''))])"

definition errorMessage :: "error \<Rightarrow> string" where
  "errorMessage e = (case e of AssertFail m \<Rightarrow> m | Precondition m \<Rightarrow> m | AccountNotFound \<Rightarrow> ''account not found'')"

definition renderAccountCreation :: "('m, 'w, 's) o1js \<Rightarrow> executeBundle \<Rightarrow> screenText" where
  "renderAccountCreation E bundle = (case countExecuteNewAccounts E bundle of
       Inl err \<Rightarrow> line ''New accounts'' (Some (''UNKNOWN: '' @ errorMessage err))
     | Inr n \<Rightarrow> line ''New accounts'' (Some (if n = 0 then ''0 new receiver account(s), no account creation fee''
         else decimal n @ '' new receiver account(s), '' @ decimal n @ '' MINA charged to the fee payer in addition to the fee'')))"

section \<open>The body\<close>

record bodySource =
  bsReceivers :: "bundleReceiver list"
  bsOwnerTarget :: "string option"
  bsThreshold :: "string option"
  bsDelegate :: "string option"
  bsUndelegate :: bool
  bsChildAddress :: "string option"
  bsChildOwners :: "json option"
  bsChildThreshold :: "json option"
  bsChildAccountExists :: "bool option"
  bsReclaimAmount :: "string option"
  bsEnableMultiSig :: bool

definition orUnknown :: "string option \<Rightarrow> string option" where
  "orUnknown v = Some (orDefault v ''(unknown)'')"

definition jsonText :: "json option \<Rightarrow> string option" where
  "jsonText v = (case v of None \<Rightarrow> None | Some JNull \<Rightarrow> None | Some j \<Rightarrow> Some (jsString j))"

definition ownerLines :: "json option \<Rightarrow> screenText list" where
  "ownerLines owners = (case owners of Some (JArr vs) \<Rightarrow>
       (if vs = [] then [] else asText (''  Owners ('' @ decimal (length vs) @ ''):'') # map (\<lambda>o'. asText (''    '' @ jsString o')) vs)
     | _ \<Rightarrow> [])"

definition renderBody :: "('m, 'w, 's) o1js \<Rightarrow> txType option \<Rightarrow> bodySource \<Rightarrow> screenText list" where
  "renderBody E t src = (case t of
       Some TRANSFER \<Rightarrow> renderReceivers E (bsReceivers src)
     | Some ALLOCATE_CHILD \<Rightarrow> renderReceivers E (bsReceivers src)
     | Some ADD_OWNER \<Rightarrow> [line ''New owner'' (orUnknown (bsOwnerTarget src))]
     | Some REMOVE_OWNER \<Rightarrow> [line ''Remove owner'' (orUnknown (bsOwnerTarget src))]
     | Some CHANGE_THRESHOLD \<Rightarrow> [line ''New threshold'' (orUnknown (bsThreshold src))]
     | Some SET_DELEGATE \<Rightarrow> (if bsUndelegate src then [line ''Delegate'' (Some ''undelegate (clear)'')]
         else [line ''Delegate to'' (orUnknown (bsDelegate src))])
     | Some CREATE_CHILD \<Rightarrow> [line ''SubVault'' (orUnknown (bsChildAddress src))] @ ownerLines (bsChildOwners src)
         @ [line ''Threshold'' (orUnknown (jsonText (bsChildThreshold src)))]
         @ (case bsChildAccountExists src of None \<Rightarrow> []
            | Some ex \<Rightarrow> [line ''Child account'' (Some (if ex then ''exists, no creation fee'' else ''new, 1 MINA creation fee''))])
     | Some RECLAIM_CHILD \<Rightarrow> [line ''SubVault'' (orUnknown (bsChildAddress src)),
         line ''Amount'' (Some (formatMina (bsReclaimAmount src) @ '' MINA''))]
     | Some DESTROY_CHILD \<Rightarrow> [line ''SubVault'' (orUnknown (bsChildAddress src)),
         line ''Effect'' (Some ''disables the SubVault multi-sig and cancels its pending local proposals''),
         line ''Funds'' (Some ''returned to the parent Vault; a balance may remain and needs a separate Reclaim''),
         line ''Later'' (Some ''the parent Vault can re-enable the SubVault'')]
     | Some ENABLE_CHILD_MULTI_SIG \<Rightarrow> [line ''SubVault'' (orUnknown (bsChildAddress src)),
         line ''Multi-sig'' (Some (if bsEnableMultiSig src then ''enable'' else ''disable''))]
         @ (if bsEnableMultiSig src then [] else [line ''Effect'' (Some ''cancels the SubVault's pending local proposals'')])
     | None \<Rightarrow> [line ''Details'' (Some ''(unrecognized action type)'')])"

section \<open>The header and the whole summary\<close>

definition memoCheck :: "('m, 'w, 's) o1js \<Rightarrow> string \<Rightarrow> string option \<Rightarrow> string" where
  "memoCheck E memo memoHash = (if \<not> truthyText memoHash then ''MISSING: the bundle has no memo commitment''
     else if Some (fieldToString (memoToField E memo)) = memoHash then ''matches the proposal's memo commitment''
     else ''MISMATCH: the proposal commits to a different memo than the one shown'')"

record headerExtra =
  heNonce :: "string option"
  heMemo :: "string option"
  heMemoHash :: "string option option"
  heProposalHash :: "string option"
  heExpirySlot :: "string option"

definition ruleLine :: screenText where
  "ruleLine = asText (replicate 56 CHR ''='')"

definition renderHeader ::
  "('m, 'w, 's) o1js \<Rightarrow> string \<Rightarrow> 'a bundleBase_scheme \<Rightarrow> string option \<Rightarrow> headerExtra \<Rightarrow> screenText list result" where
  "renderHeader E action bundle rawTxType extra =
     andThen (resolveBundleFee bundle) (\<lambda>fee. Inr (
       [[], ruleLine, asText (''  '' @ action @ '':  '' @ actionLabel rawTxType), ruleLine]
       @ (if bbNetwork bundle = ''mainnet'' then [asText ''  *** MAINNET '' @ 0x2014 # asText '' REAL FUNDS AT STAKE ***'']
          else [line ''Network'' (Some ''testnet'')])
       @ [line ''Contract'' (Some (bbContract bundle)), line ''Fee payer'' (Some (bbFeePayer bundle)),
          line ''Fee'' (Some (formatMina (Some (intToString fee)) @ '' MINA''))]
       @ (if truthyText (heNonce extra) then [line ''Nonce'' (heNonce extra)] else [])
       @ [line ''Memo'' (Some (if truthyText (heMemo extra) then the (heMemo extra) else ''(none)''))]
       @ (case heMemoHash extra of None \<Rightarrow> []
          | Some memoHash \<Rightarrow> [line ''Memo check'' (Some (memoCheck E (orDefault (heMemo extra) '''') memoHash))])
       @ (if truthyText (heProposalHash extra) then [line ''Proposal hash'' (heProposalHash extra)] else [])
       @ (if truthyText (heExpirySlot extra) \<and> heExpirySlot extra \<noteq> Some ''0'' then [line ''Expiry slot'' (heExpirySlot extra)] else [])))"

definition proposeLines :: "('m, 'w, 's) o1js \<Rightarrow> proposeBundle \<Rightarrow> screenText list result" where
  "proposeLines E b = (let input = pbInput b
     in andThen (renderHeader E ''PROPOSE'' b (piTxType input) \<lparr>heNonce = Some (intToString (piNonce input)), heMemo = piMemo input,
         heMemoHash = None, heProposalHash = None, heExpirySlot = map_option intToString (piExpirySlot input)\<rparr>) (\<lambda>header.
        Inr (header @ renderBody E (normalizeTxType (piTxType input)) \<lparr>bsReceivers = orDefault (piReceivers input) [],
          bsOwnerTarget = (if piTxType input = Some ''addOwner'' then piNewOwner input
            else if piTxType input = Some ''removeOwner'' then piRemoveOwnerAddress input else None),
          bsThreshold = map_option intToString (piNewThreshold input), bsDelegate = piDelegate input, bsUndelegate = piUndelegate input,
          bsChildAddress = piChildAccount input, bsChildOwners = piChildOwners input, bsChildThreshold = piChildThreshold input,
          bsChildAccountExists = (if piTxType input = Some ''createChild'' \<and> truthyText (piChildAccount input)
            then Some (map_of (bbAccounts b) (the (piChildAccount input)) \<noteq> None) else None),
          bsReclaimAmount = piReclaimAmount input, bsEnableMultiSig = piChildMultiSigEnable input\<rparr>)))"

definition proposalBody :: "('m, 'w, 's) o1js \<Rightarrow> 'a approveBundle_scheme \<Rightarrow> screenText list" where
  "proposalBody E b = (let p = abProposal b; t = normalizeTxType (bpTxType p);
       target0 = (case realReceivers E (bpReceivers p) of [] \<Rightarrow> None | r # _ \<Rightarrow> Some (brAddress r))
     in renderBody E t \<lparr>bsReceivers = bpReceivers p, bsOwnerTarget = target0, bsThreshold = bpData p, bsDelegate = target0,
          bsUndelegate = (target0 = None \<and> t = Some SET_DELEGATE),
          bsChildAddress = (case bpChildAccount p of Some s \<Rightarrow> Some s | None \<Rightarrow> abChildAddress b),
          bsChildOwners = abChildOwners b, bsChildThreshold = abChildThreshold b, bsChildAccountExists = None,
          bsReclaimAmount = bpData p, bsEnableMultiSig = (bpData p = Some ''1'')\<rparr>)"

definition proposalLines :: "('m, 'w, 's) o1js \<Rightarrow> string \<Rightarrow> 'a approveBundle_scheme \<Rightarrow> screenText list result" where
  "proposalLines E action b = (let p = abProposal b
     in andThen (renderHeader E action b (bpTxType p) \<lparr>heNonce = bpNonce p, heMemo = bpMemo p, heMemoHash = Some (bpMemoHash p),
         heProposalHash = Some (bpProposalHash p), heExpirySlot = bpExpirySlot p\<rparr>) (\<lambda>header. Inr (header @ proposalBody E b)))"

definition summaryLines :: "('m, 'w, 's) o1js \<Rightarrow> offlineBundle \<Rightarrow> screenText list result" where
  "summaryLines E bundle = (case bundle of
       ProposeBundle b \<Rightarrow> proposeLines E b
     | ApproveBundle b \<Rightarrow> proposalLines E ''APPROVE'' b
     | ExecuteBundle b \<Rightarrow> andThen (proposalLines E ''EXECUTE'' b) (\<lambda>ls. Inr (ls @
         (if normalizeTxType (bpTxType (abProposal b)) \<in> {Some TRANSFER, Some ALLOCATE_CHILD} then [renderAccountCreation E b] else []))))"

definition renderBundleSummary :: "('m, 'w, 's) o1js \<Rightarrow> offlineBundle \<Rightarrow> screenText" where
  "renderBundleSummary E bundle =
     (let ls = (case summaryLines E bundle of Inr ls \<Rightarrow> ls
         | Inl err \<Rightarrow> [[], asText ''  WARNING: could not fully render this bundle.'', asText (''  '' @ errorMessage err),
             asText ''  Inspect the bundle file manually before signing.''])
      in joinLines (map escapeTerminalText (ls @ [ruleLine])))"

text \<open>The answer that counts as consent: \<open>confirmOrExit\<close> signs on it, or when confirmation was waived; without
  a terminal, or when reading fails (\<open>None\<close>), it does not.\<close>

definition lowerChar :: "char \<Rightarrow> char" where
  "lowerChar c = (if 65 \<le> (of_char c :: nat) \<and> (of_char c :: nat) \<le> 90 then char_of ((of_char c :: nat) + 32) else c)"

definition confirms :: "bool \<Rightarrow> string option option \<Rightarrow> bool" where
  "confirms assumeYes tty = (assumeYes \<or> (case tty of None \<Rightarrow> False
     | Some answer \<Rightarrow> map lowerChar (jsTrim (orDefault answer '''')) \<in> {''y'', ''yes''}))"


text \<open>\<open>main\<close>: the checks, the screen with the question, and only then the handler. \<open>k\<close> is the private key;
  the answer of the operator is \<open>tty\<close>.\<close>

definition runBundle ::
  "('m, 'w, 's) o1js \<Rightarrow> 's signer \<Rightarrow> bool \<Rightarrow> string option option \<Rightarrow> offlineBundle \<Rightarrow> string
     \<Rightarrow> ('w, 's) signedTxOutput result" where
  "runBundle E S assumeYes tty bundle k =
     andThen (checkBundle E bundle) (\<lambda>b.
     require (confirms assumeYes tty) ''Aborted. No transaction was signed.''
     (case b of ProposeBundle p \<Rightarrow> handlePropose E S p k
      | ApproveBundle a \<Rightarrow> handleApprove E S a k
      | ExecuteBundle e \<Rightarrow> handleExecute E S e))"

section \<open>The screen has one line per entry, and nothing on it acts on the terminal\<close>

lemma upperHexDigit_range: "d < 16 \<Longrightarrow> upperHexDigit d \<in> {48..70}"
  by (auto simp: upperHexDigit_def)

lemma upperHex_range: "set (upperHex n) \<subseteq> {48..70}"
proof (induction n rule: upperHex.induct)
  case (1 n)
  then show ?case
    using upperHexDigit_range [of n] upperHexDigit_range [of "n mod 16"] by (subst upperHex.simps) auto
qed

lemma safe_code: "33 \<le> c \<Longrightarrow> c < 127 \<Longrightarrow> \<not> terminalUnsafe c"
  by (auto simp: terminalUnsafe_def TERMINAL_UNSAFE_def)

lemma escape_Nil [simp]: "escapeTerminalText [] = []"
  by (simp add: escapeTerminalText_def)

lemma escape_Cons: "escapeTerminalText (c # cs) =
    (if terminalUnsafe c then [92, 117, 123] @ upperHex c @ [125] else [c]) @ escapeTerminalText cs"
  by (simp add: escapeTerminalText_def)

lemma escape_safe: "c \<in> set (escapeTerminalText t) \<Longrightarrow> \<not> terminalUnsafe c"
proof (induction t)
  case (Cons a t)
  have "\<not> terminalUnsafe x" if "x \<in> set (upperHex a)" for x
    using that upperHex_range [of a] by (intro safe_code) auto
  with Cons show ?case by (auto simp: escape_Cons safe_code split: if_splits)
qed simp

lemma newline_unsafe: "terminalUnsafe 10"
  by (simp add: terminalUnsafe_def TERMINAL_UNSAFE_def)

lemma escape_no_newline: "10 \<notin> set (escapeTerminalText t)"
  using escape_safe [of 10 t] newline_unsafe by blast

lemma escape_id: "\<forall>c \<in> set t. \<not> terminalUnsafe c \<Longrightarrow> escapeTerminalText t = t"
  by (induction t) (auto simp: escape_Cons)

lemma splitLines_nonempty [simp]: "splitLines t \<noteq> []"
  by (induction t) (auto split: list.split)

lemma splitLines_single: "10 \<notin> set l \<Longrightarrow> splitLines l = [l]"
  by (induction l) auto

lemma splitLines_append: "10 \<notin> set l \<Longrightarrow> splitLines (l @ 10 # t) = l # splitLines t"
  by (induction l) auto

lemma splitLines_join: "ls \<noteq> [] \<Longrightarrow> (\<And>l. l \<in> set ls \<Longrightarrow> 10 \<notin> set l) \<Longrightarrow> splitLines (joinLines ls) = ls"
  by (induction ls rule: joinLines.induct) (auto simp: splitLines_single splitLines_append)

lemma joinLines_set: "c \<in> set (joinLines ls) \<Longrightarrow> c = 10 \<or> (\<exists>l \<in> set ls. c \<in> set l)"
  by (induction ls rule: joinLines.induct) auto

text \<open>The entries of the summary, before they are escaped and joined.\<close>

definition screenEntries :: "('m, 'w, 's) o1js \<Rightarrow> offlineBundle \<Rightarrow> screenText list" where
  "screenEntries E bundle = (case summaryLines E bundle of Inr ls \<Rightarrow> ls
     | Inl err \<Rightarrow> [[], asText ''  WARNING: could not fully render this bundle.'', asText (''  '' @ errorMessage err),
         asText ''  Inspect the bundle file manually before signing.'']) @ [ruleLine]"

lemma render_entries: "renderBundleSummary E bundle = joinLines (map escapeTerminalText (screenEntries E bundle))"
  by (simp add: renderBundleSummary_def screenEntries_def)

lemma screen_split: "splitLines (renderBundleSummary E bundle) = map escapeTerminalText (screenEntries E bundle)"
  unfolding render_entries by (rule splitLines_join) (auto simp: screenEntries_def escape_no_newline)

lemma screen_is_inert:
  "splitLines (renderBundleSummary E bundle) = map escapeTerminalText (screenEntries E bundle) \<and>
   list_all (\<lambda>c. c = 10 \<or> \<not> terminalUnsafe c) (renderBundleSummary E bundle)"
proof
  show "list_all (\<lambda>c. c = 10 \<or> \<not> terminalUnsafe c) (renderBundleSummary E bundle)"
    unfolding render_entries by (auto simp: list_all_iff dest!: joinLines_set escape_safe)
qed (rule screen_split)

section \<open>Amounts\<close>

lemma formatNano_nonneg:
  assumes "0 \<le> n"
  shows "formatNano n = (if n mod NANO = 0 then decimal (nat (n div NANO))
    else decimal (nat (n div NANO)) @ ''.'' @ dropTrailingZeros (padStart 9 (decimal (nat (n mod NANO)))))"
proof -
  have "n sdiv NANO = n div NANO" "n smod NANO = n mod NANO"
    using assms by (auto simp: NANO_def signed_divide_int_def signed_modulo_int_def sgn_if)
  then show ?thesis
    using assms by (simp add: formatNano_def Let_def intToString_nonneg NANO_def pos_imp_zdiv_nonneg_iff)
qed


lemma length_decimal: "n < 10 ^ k \<Longrightarrow> 0 < k \<Longrightarrow> length (decimal n) \<le> k"
proof (induction n arbitrary: k rule: decimal.induct)
  case (1 n)
  show ?case
  proof (cases "n < 10")
    case True
    then show ?thesis using 1(3) by (subst decimal.simps) simp
  next
    case False
    obtain j where j: "k = Suc j" "0 < j" using False 1(2,3) by (cases k; cases "k - 1") auto
    have "n div 10 < 10 ^ j" using 1(2) j by (simp add: div_less_iff_less_mult mult.commute)
    then have "length (decimal (n div 10)) \<le> j" using 1(1) False j by simp
    then show ?thesis using False j by (subst decimal.simps) simp
  qed
qed

lemma takeWhile_zeros: "takeWhile (\<lambda>c. c = z) s = replicate (length (takeWhile (\<lambda>c. c = z) s)) z"
  by (induction s) auto

lemma dropTrailingZeros_pad: "dropTrailingZeros s @ replicate (length s - length (dropTrailingZeros s)) CHR ''0'' = s"
proof -
  let ?z = "\<lambda>c. c = CHR ''0''"
  have l: "length s - length (dropTrailingZeros s) = length (takeWhile ?z (rev s))"
  proof -
    have "length (takeWhile ?z (rev s)) + length (dropWhile ?z (rev s)) = length s"
      by (metis length_append length_rev takeWhile_dropWhile_id)
    then show ?thesis by (simp add: dropTrailingZeros_def)
  qed
  have "rev (dropWhile ?z (rev s)) @ rev (takeWhile ?z (rev s)) = s"
    by (metis rev_append rev_rev_ident takeWhile_dropWhile_id)
  then show ?thesis
    by (subst l) (metis dropTrailingZeros_def takeWhile_zeros rev_replicate)
qed

lemma parseDecimal_zeros: "parseDecimal (replicate k CHR ''0'' @ s) = parseDecimal s"
  by (induction k) (simp_all add: parseDecimal_def digitVal_def)

text \<open>Reading an amount back: the whole part before the point, the fraction to nine places.\<close>

definition readNano :: "string \<Rightarrow> int" where
  "readNano s = (let w = takeWhile (\<lambda>c. c \<noteq> CHR ''.'') s; f = drop (length w + 1) s
     in int (parseDecimal w) * NANO + int (parseDecimal (f @ replicate (9 - length f) CHR ''0'')))"

lemma takeWhile_point: "takeWhile (\<lambda>c. c \<noteq> CHR ''.'') (decimal n) = decimal n"
  "takeWhile (\<lambda>c. c \<noteq> CHR ''.'') (decimal n @ CHR ''.'' # t) = decimal n"
proof -
  have "\<forall>c \<in> set (decimal n). c \<noteq> CHR ''.''" using decimal_digits [of n] by (auto simp: list_all_iff isDigit_def)
  then show "takeWhile (\<lambda>c. c \<noteq> CHR ''.'') (decimal n) = decimal n"
    "takeWhile (\<lambda>c. c \<noteq> CHR ''.'') (decimal n @ CHR ''.'' # t) = decimal n"
    by (simp_all add: takeWhile_append2)
qed

lemma readNano_format:
  assumes "0 \<le> n"
  shows "readNano (formatNano n) = n"
proof -
  let ?w = "nat (n div NANO)" and ?f = "nat (n mod NANO)"
  let ?t = "padStart 9 (decimal ?f)"
  have f: "?f < 10 ^ 9" by (simp add: NANO_def nat_less_iff)
  have lt: "length ?t = 9" using length_decimal [OF f] by (simp add: padStart_def)
  have w: "int ?w * NANO + int ?f = n" using assms by (simp add: NANO_def pos_imp_zdiv_nonneg_iff)
  have nine: "dropTrailingZeros ?t @ replicate (9 - length (dropTrailingZeros ?t)) CHR ''0'' = ?t"
    using dropTrailingZeros_pad [of ?t] lt by simp
  have p: "parseDecimal ?t = ?f" by (simp add: padStart_def parseDecimal_zeros)
  have z: "parseDecimal (replicate 9 CHR ''0'') = 0" using parseDecimal_zeros [of 9 "[]"] by (simp add: parseDecimal_def)
  show ?thesis
  proof (cases "n mod NANO = 0")
    case True
    then show ?thesis using w z by (simp add: formatNano_nonneg [OF assms] readNano_def takeWhile_point)
  next
    case False
    then have "readNano (formatNano n) = int ?w * NANO +
        int (parseDecimal (dropTrailingZeros ?t @ replicate (9 - length (dropTrailingZeros ?t)) CHR ''0''))"
      by (simp add: formatNano_nonneg [OF assms] readNano_def takeWhile_point Let_def)
    then show ?thesis unfolding nine p w .
  qed
qed


section \<open>The payments on the screen\<close>

text \<open>The line of one payment, for the text of the address and the amount that is signed; the lines of a
  list of payments with their number and their sum; and the warning above them.\<close>

definition paymentLine :: "string \<Rightarrow> 64 word \<Rightarrow> screenText" where
  "paymentLine s a = asText (''    '' @ s @ ''  '') @ 0x2192 # asText (''  '' @ formatNano (uint a) @ '' MINA'')"

definition paymentBlock :: "(string \<times> receiver) list \<Rightarrow> screenText list" where
  "paymentBlock shown = (if shown = [] then [line ''Receivers'' (Some ''(none)'')]
     else [asText (''  Receivers ('' @ decimal (length shown) @ ''):'')] @ map (\<lambda>(s, r). paymentLine s (rAmount r)) shown
       @ [line ''Total'' (Some (formatNano (\<Sum>(s, r) \<leftarrow> shown. uint (rAmount r)) @ '' MINA''))])"

definition receiverWarning :: "bundleReceiver list \<Rightarrow> screenText list" where
  "receiverWarning receivers = (if length receivers > MAX_RECEIVERS then
     [line ''WARNING'' (Some (''the bundle lists '' @ decimal (length receivers) @ '' receivers; only the first ''
        @ decimal MAX_RECEIVERS @ '' are signed''))] else [])"

lemma zero_text: "formatNano 0 = ''0''"
  by code_simp

lemma receiver_amount:
  assumes "transferReceiver E r = Inr r'"
  shows "stringToBigInt (brAmount r) = Some (uint (rAmount r'))"
  using assms by (auto simp: transferReceiver_def uint64FromText_def toBigInt_def uint_word_of_int split: option.splits)

lemma receiver_payment:
  assumes "transferReceiver E r = Inr r'"
  shows "receiverLine (brAddress r) (brAmount r) = paymentLine (brAddress r) (rAmount r')"
proof -
  note n = receiver_amount [OF assms]
  have "uint (rAmount r') = 0" if "brAmount r = []"
    using n unfolding that by (simp add: stringToBigInt_def)
  then have "formatMina (Some (brAmount r)) = formatNano (uint (rAmount r'))"
    using n by (auto simp: formatMina_def truthyText_def zero_text)
  then show ?thesis by (simp add: receiverLine_def paymentLine_def)
qed

lemma transferReceiver_address:
  assumes "transferReceiver E r = Inr r'"
  shows "brAddress r = EMPTY_PUBKEY_B58 E \<Longrightarrow> rAddress r' = emptyKey"
    "brAddress r \<noteq> EMPTY_PUBKEY_B58 E \<Longrightarrow> fromBase58 E (brAddress r) = Some (rAddress r')"
  using assms by (auto simp: transferReceiver_def)

text \<open>Two facts about addresses: the empty text is none, and the empty key has one text.\<close>

definition emptyTexts :: "('m, 'w, 's) o1js \<Rightarrow> bool" where
  "emptyTexts E \<longleftrightarrow> fromBase58 E [] = None \<and> (\<forall>s. fromBase58 E s = Some emptyKey \<longrightarrow> s = EMPTY_PUBKEY_B58 E)"

abbreviation realPayments :: "receiver list \<Rightarrow> receiver list" where
  "realPayments rs \<equiv> filter (\<lambda>r. rAddress r \<noteq> emptyKey) rs"

definition amountOf :: "bundleReceiver \<Rightarrow> int" where
  "amountOf r = (case stringToBigInt (brAmount r) of None \<Rightarrow> 0 | Some n \<Rightarrow> n)"

lemma total_fold: "foldl (\<lambda>acc r. case stringToBigInt (brAmount r) of None \<Rightarrow> acc | Some n \<Rightarrow> acc + n) a rs = a + (\<Sum>r \<leftarrow> rs. amountOf r)"
  by (induction rs arbitrary: a) (auto simp: amountOf_def split: option.split)

lemma totalMina_sum:
  assumes "0 \<le> (\<Sum>r \<leftarrow> rs. amountOf r)"
  shows "totalMina rs = formatNano (\<Sum>r \<leftarrow> rs. amountOf r)"
proof -
  have "stringToBigInt (intToString n) = Some n" for n
    using toBigInt_fieldToString [of n] by (simp add: toBigInt_def fieldToString_def split: option.splits)
  moreover have "truthyText (Some (intToString n))" if "0 \<le> n" for n
    using that allDigits_decimal [of "nat n"] by (auto simp: truthyText_def intToString_nonneg allDigits_def)
  ultimately show ?thesis using assms by (simp add: totalMina_def total_fold formatMina_def)
qed

lemma shown_rows:
  assumes "list_all2 (\<lambda>r r'. transferReceiver E r = Inr r') rs rs'" "emptyTexts E"
  shows "\<exists>shown. map (\<lambda>r. receiverLine (brAddress r) (brAmount r)) (realReceivers E rs) = map (\<lambda>(s, r). paymentLine s (rAmount r)) shown \<and>
    list_all (\<lambda>(s, r). fromBase58 E s = Some (rAddress r)) shown \<and> map snd shown = realPayments rs' \<and>
    (\<Sum>r \<leftarrow> realReceivers E rs. amountOf r) = (\<Sum>(s, r) \<leftarrow> shown. uint (rAmount r))"
  using assms(1)
proof (induction rs rs' rule: list_all2_induct)
  case (Cons r rs r' rs')
  then obtain shown where ih: "map (\<lambda>r. receiverLine (brAddress r) (brAmount r)) (realReceivers E rs) = map (\<lambda>(s, r). paymentLine s (rAmount r)) shown"
    "list_all (\<lambda>(s, r). fromBase58 E s = Some (rAddress r)) shown" "map snd shown = realPayments rs'"
    "(\<Sum>r \<leftarrow> realReceivers E rs. amountOf r) = (\<Sum>(s, r) \<leftarrow> shown. uint (rAmount r))" by blast
  note t = transferReceiver_address [OF Cons.hyps(1)] and line = receiver_payment [OF Cons.hyps(1)]
    and amount = receiver_amount [OF Cons.hyps(1)]
  show ?case
  proof (cases "brAddress r = EMPTY_PUBKEY_B58 E")
    case True
    then show ?thesis using ih t(1) by (intro exI [of _ shown]) (simp add: realReceivers_def)
  next
    case False
    then have "brAddress r \<noteq> []" "rAddress r' \<noteq> emptyKey" using t(2) assms(2) by (auto simp: emptyTexts_def)
    then show ?thesis using ih t(2) line amount False
      by (intro exI [of _ "(brAddress r, r') # shown"]) (simp add: realReceivers_def amountOf_def)
  qed
qed (simp add: realReceivers_def)

text \<open>What the renderer prints for the receivers of a bundle, in terms of the receivers that are signed.\<close>

lemma realPayments_pad: "realPayments (padReceivers rs) = realPayments (take MAX_RECEIVERS rs)"
  by (simp add: padReceivers_def take_replicate emptyReceiver_def)

lemma receivers_block:
  assumes "buildTransferReceivers E rs = Inr slots" "emptyTexts E"
  obtains shown where "renderReceivers E rs = receiverWarning rs @ paymentBlock shown"
    "list_all (\<lambda>(s, r). fromBase58 E s = Some (rAddress r)) shown" "map snd shown = realPayments slots"
proof -
  let ?real = "realReceivers E (take MAX_RECEIVERS rs)"
  from assms(1) obtain rs' where rs': "list_all2 (\<lambda>r r'. transferReceiver E r = Inr r') rs rs'" "slots = padReceivers rs'"
    by (auto simp: buildTransferReceivers_def traverse_Inr)
  obtain shown where s: "map (\<lambda>r. receiverLine (brAddress r) (brAmount r)) ?real = map (\<lambda>(s, r). paymentLine s (rAmount r)) shown"
      "list_all (\<lambda>(s, r). fromBase58 E s = Some (rAddress r)) shown" "map snd shown = realPayments (take MAX_RECEIVERS rs')"
      "(\<Sum>r \<leftarrow> ?real. amountOf r) = (\<Sum>(s, r) \<leftarrow> shown. uint (rAmount r))"
    using shown_rows [OF list_all2_takeI [OF rs'(1), of MAX_RECEIVERS] assms(2)] by blast
  have len: "length ?real = length shown" using arg_cong [OF s(1), of length] by simp
  have "0 \<le> (\<Sum>(s, r) \<leftarrow> shown. uint (rAmount r))" by (rule sum_list_nonneg) auto
  then have total: "totalMina ?real = formatNano (\<Sum>(s, r) \<leftarrow> shown. uint (rAmount r))"
    using totalMina_sum [of ?real] by (simp add: s(4))
  have "renderReceivers E rs = receiverWarning rs @ paymentBlock shown"
  proof (cases "shown = []")
    case True
    then have "?real = []" using len by simp
    with True show ?thesis by (simp add: renderReceivers_def receiverWarning_def paymentBlock_def Let_def)
  next
    case False
    then have "?real \<noteq> []" using len by auto
    with False show ?thesis
      unfolding renderReceivers_def Let_def receiverWarning_def paymentBlock_def s(1) total len by simp
  qed
  with s(2,3) show ?thesis by (intro that) (simp_all add: rs'(2) realPayments_pad)
qed

text \<open>The header of an approval or an execution. The number of its lines depends only on which optional
  members the proposal has, never on what a member contains.\<close>

definition proposalHeader :: "('m, 'w, 's) o1js \<Rightarrow> string \<Rightarrow> 'a approveBundle_scheme \<Rightarrow> screenText list result" where
  "proposalHeader E action b = (let p = abProposal b
     in renderHeader E action b (bpTxType p) \<lparr>heNonce = bpNonce p, heMemo = bpMemo p, heMemoHash = Some (bpMemoHash p),
         heProposalHash = Some (bpProposalHash p), heExpirySlot = bpExpirySlot p\<rparr>)"

definition headerLength :: "bundleProposal \<Rightarrow> nat" where
  "headerLength p = 10 + (if truthyText (bpNonce p) then 1 else 0) + (if bpProposalHash p \<noteq> [] then 1 else 0)
     + (if truthyText (bpExpirySlot p) \<and> bpExpirySlot p \<noteq> Some ''0'' then 1 else 0)"

lemma header_length: "proposalHeader E action b = Inr header \<Longrightarrow> length header = headerLength (abProposal b)"
  by (auto simp: proposalHeader_def renderHeader_def headerLength_def truthyText_def Let_def)

lemma proposalLines_payment:
  assumes "resolveBundleFee b = Inr fee" "requireTxType (bpTxType (abProposal b)) = Inr t" "t \<in> {TRANSFER, ALLOCATE_CHILD}"
  obtains header where "proposalHeader E action b = Inr header"
    "proposalLines E action b = Inr (header @ renderReceivers E (bpReceivers (abProposal b)))"
proof -
  have t: "normalizeTxType (bpTxType (abProposal b)) = Some t"
    using assms(2) by (auto simp: requireTxType_def split: option.splits)
  have body: "proposalBody E b = renderReceivers E (bpReceivers (abProposal b))"
    using assms(3) by (auto simp: proposalBody_def Let_def t renderBody_def)
  obtain header where h: "proposalHeader E action b = Inr header"
    using assms(1) by (simp add: proposalHeader_def renderHeader_def Let_def)
  moreover have "proposalLines E action b = Inr (header @ renderReceivers E (bpReceivers (abProposal b)))"
    using h by (simp add: proposalLines_def proposalHeader_def Let_def body)
  ultimately show ?thesis by (rule that)
qed

lemma handleExecute_receivers:
  assumes "handleExecute E S b = Inr out"
  shows "\<exists>p fee. declaredProposal E (bpProposalHash (abProposal b)) p \<and> resolveBundleFee b = Inr fee \<and>
    buildTransferReceivers E (bpReceivers (abProposal b)) = Inr (pReceivers p)"
proof -
  from assms obtain fee t p where fee: "resolveBundleFee b = Inr fee"
    and p: "buildProposalStruct E (executeProposal t b) (bbContract b) = Inr p"
    and h: "fieldToString (proposalHash E p) = bpProposalHash (abProposal b)"
    unfolding handleExecute_def Let_def andAlso_Inr andThen_Inr recomputed_Inr parseKey_Inr sum.inject by blast
  have "bpReceivers (executeProposal t b) = bpReceivers (abProposal b)" by (simp add: executeProposal_def Let_def)
  with p h fee show ?thesis
    by (intro exI [of _ p] exI [of _ fee]) (auto simp: declaredProposal_def elim!: buildProposalStruct_Inr)
qed

lemma handleApprove_receivers:
  assumes "handleApprove E S b k = Inr out"
  shows "\<exists>p fee. declaredProposal E (bpProposalHash (abProposal b)) p \<and> resolveBundleFee b = Inr fee \<and>
    buildTransferReceivers E (bpReceivers (abProposal b)) = Inr (pReceivers p)"
proof -
  from handleApprove_Inr [OF assms] obtain p fee where
    p: "buildProposalStruct E ((abProposal b)\<lparr>bpGuardAddress := Some (orDefault (bpGuardAddress (abProposal b)) (bbContract b))\<rparr>)
       (bbContract b) = Inr p" "fieldToString (proposalHash E p) = bpProposalHash (abProposal b)" "resolveBundleFee b = Inr fee"
    unfolding approvalRun_def by blast
  then show ?thesis
    by (intro exI [of _ p] exI [of _ fee]) (auto simp: declaredProposal_def elim!: buildProposalStruct_Inr)
qed

text \<open>The whole screen of a payment, line by line: the header, the payments that are signed, and the lines
  below them.\<close>

definition paymentScreen ::
  "('m, 'w, 's) o1js \<Rightarrow> string \<Rightarrow> 'a approveBundle_scheme \<Rightarrow> proposal \<Rightarrow> screenText list \<Rightarrow> screenText \<Rightarrow> bool" where
  "paymentScreen E action b p below screen \<longleftrightarrow> (\<exists>header shown.
     proposalHeader E action b = Inr header \<and> length header = headerLength (abProposal b) \<and>
     list_all (\<lambda>(s, r). fromBase58 E s = Some (rAddress r)) shown \<and> map snd shown = realPayments (pReceivers p) \<and>
     splitLines screen = map escapeTerminalText
       (header @ receiverWarning (bpReceivers (abProposal b)) @ paymentBlock shown @ below @ [ruleLine]))"

lemma approve_payments_shown:
  assumes "handleApprove E S b k = Inr out" "collisionFree E" "emptyTexts E"
    and "requireTxType (bpTxType (abProposal b)) = Inr t" "t \<in> {TRANSFER, ALLOCATE_CHILD}"
    and "declaredProposal E (bpProposalHash (abProposal b)) p"
  shows "paymentScreen E ''APPROVE'' b p [] (renderBundleSummary E (ApproveBundle b))"
proof -
  obtain q fee where q: "declaredProposal E (bpProposalHash (abProposal b)) q" "resolveBundleFee b = Inr fee"
    "buildTransferReceivers E (bpReceivers (abProposal b)) = Inr (pReceivers q)"
    using handleApprove_receivers [OF assms(1)] by blast
  have qp: "q = p" by (rule declaredProposal_unique [OF assms(2) q(1) assms(6)])
  obtain header where h: "proposalHeader E ''APPROVE'' b = Inr header"
    "proposalLines E ''APPROVE'' b = Inr (header @ renderReceivers E (bpReceivers (abProposal b)))"
    by (rule proposalLines_payment [OF q(2) assms(4,5)])
  obtain shown where s: "renderReceivers E (bpReceivers (abProposal b)) = receiverWarning (bpReceivers (abProposal b)) @ paymentBlock shown"
    "list_all (\<lambda>(s, r). fromBase58 E s = Some (rAddress r)) shown" "map snd shown = realPayments (pReceivers q)"
    by (rule receivers_block [OF q(3) assms(3)])
  have "screenEntries E (ApproveBundle b) = header @ receiverWarning (bpReceivers (abProposal b)) @ paymentBlock shown @ [] @ [ruleLine]"
    by (simp add: screenEntries_def summaryLines_def h(2) s(1))
  then show ?thesis
    unfolding paymentScreen_def screen_split using h(1) header_length [OF h(1)] s(2,3) qp by metis
qed

definition chargeLine :: "nat \<Rightarrow> screenText" where
  "chargeLine n = line ''New accounts'' (Some (if n = 0 then ''0 new receiver account(s), no account creation fee''
     else decimal n @ '' new receiver account(s), '' @ decimal n @ '' MINA charged to the fee payer in addition to the fee''))"

lemma account_creation_charge:
  assumes "requireTxType (bpTxType (abProposal b)) = Inr t" "buildTransferReceivers E (bpReceivers (abProposal b)) = Inr (pReceivers p)"
  shows "renderAccountCreation E b = chargeLine (newAccounts E b t p)"
  unfolding renderAccountCreation_def chargeLine_def
  by (simp add: countExecuteNewAccounts_def newAccounts_def assms)

text \<open>C21: The screen shows the payments that are made, and nothing on it can pass for a payment that is not.
  If the execution of a payment is built, then the screen is, line by line, a header whose number of lines
  depends only on which optional members the proposal has, the warning if more than nine receivers are
  listed, the payments, the charge, and the closing rule. The payments are one line per receiver of the
  declared proposal, in order, with an address text that decodes to the signed key and the exact signed
  amount, between a line with their number and a line with their exact sum; the charge is the number of
  accounts the transaction funds at the operator's expense. So a memo or an address with line breaks,
  control characters or arrows in it does not move or add a line. The empty text must decode to no key and
  the empty key must have one text only.\<close>

theorem offline_screen_shows_payments:
  assumes "soundEnv E" "emptyTexts E" "requireTxType (bpTxType (abProposal b)) = Inr t" "t \<in> {TRANSFER, ALLOCATE_CHILD}"
    and "handleExecute E S b = Inr out"
  shows "\<exists>!p. declaredProposal E (bpProposalHash (abProposal b)) p \<and>
    (\<exists>executor callee c n. btSteps (soTransaction out) = executionSteps executor n callee c \<and> executes c t p \<and>
       paymentScreen E ''EXECUTE'' b p [chargeLine n] (renderBundleSummary E (ExecuteBundle b)))"
proof -
  note cf = soundEnv_collisionFree [OF assms(1)]
  obtain q fee where q: "declaredProposal E (bpProposalHash (abProposal b)) q" "resolveBundleFee b = Inr fee"
    "buildTransferReceivers E (bpReceivers (abProposal b)) = Inr (pReceivers q)"
    using handleExecute_receivers [OF assms(5)] by blast
  obtain p executor fee' tx where p: "declaredProposal E (bpProposalHash (abProposal b)) p"
    and e: "executionOf E b t p executor fee' tx" and out: "out = signedOutput ''execute'' (bbContract b) (proposalHash E p) tx"
    using handleExecute_Inr [OF soundEnv_fieldLarge [OF assms(1)] assms(5)] assms(3) by auto
  have qp: "q = p" by (rule declaredProposal_unique [OF cf q(1) p])
  obtain header where h: "proposalHeader E ''EXECUTE'' b = Inr header"
    "proposalLines E ''EXECUTE'' b = Inr (header @ renderReceivers E (bpReceivers (abProposal b)))"
    by (rule proposalLines_payment [OF q(2) assms(3,4)])
  obtain shown where s: "renderReceivers E (bpReceivers (abProposal b)) = receiverWarning (bpReceivers (abProposal b)) @ paymentBlock shown"
    "list_all (\<lambda>(s, r). fromBase58 E s = Some (rAddress r)) shown" "map snd shown = realPayments (pReceivers q)"
    by (rule receivers_block [OF q(3) assms(2)])
  have t: "normalizeTxType (bpTxType (abProposal b)) \<in> {Some TRANSFER, Some ALLOCATE_CHILD}"
    using assms(3,4) by (auto simp: requireTxType_def split: option.splits)
  have "screenEntries E (ExecuteBundle b) =
      header @ receiverWarning (bpReceivers (abProposal b)) @ paymentBlock shown @ [chargeLine (newAccounts E b t p)] @ [ruleLine]"
    using account_creation_charge [OF assms(3) q(3)] t by (simp add: screenEntries_def summaryLines_def h(2) s(1) qp)
  then have "paymentScreen E ''EXECUTE'' b p [chargeLine (newAccounts E b t p)] (renderBundleSummary E (ExecuteBundle b))"
    unfolding paymentScreen_def screen_split using h(1) header_length [OF h(1)] s(2,3) qp by metis
  then have "\<exists>executor callee c n. btSteps (soTransaction out) = executionSteps executor n callee c \<and> executes c t p \<and>
       paymentScreen E ''EXECUTE'' b p [chargeLine n] (renderBundleSummary E (ExecuteBundle b))"
    using e unfolding executionOf_def out signedOutput_def by auto
  then show ?thesis
    by (intro ex1I [of _ p] conjI p) (auto intro: declaredProposal_unique [OF cf _ p])
qed

end
