(* ===== verification/Web_Form.thy ===== *)
theory Web_Form
  imports Web_Checks Offline_Summary
begin

text \<open>
  The proposal form of the web interface (\<open>ui/components/ProposalForm.tsx\<close>): how the texts a person enters
  become the input from which the worker builds a proposal. The fields of the form are a record, what the page
  passes to it another; the lemmas follow an amount from the text to the proposal.
\<close>

section \<open>Amounts\<close>

text \<open>\<open>replace(/^0+(?=\d)/, '')\<close>\<close>

fun stripZeros :: "string \<Rightarrow> string" where
  "stripZeros (c # d # cs) = (if c = CHR ''0'' \<and> isDigit d then stripZeros (d # cs) else c # d # cs)"
| "stripZeros s = s"

text \<open>The two parts of a text that matches \<open>^\d+(\.\d*)?$\<close>.\<close>

definition decimalParts :: "string \<Rightarrow> (string \<times> string) option" where
  "decimalParts s =
     (let whole = takeWhile (\<lambda>c. c \<noteq> CHR ''.'') s; fraction = drop (Suc (length whole)) s
      in if allDigits whole \<and> list_all isDigit fraction then Some (whole, fraction) else None)"

definition parseMinaToNanomina :: "string \<Rightarrow> (string \<times> bool) option" where
  "parseMinaToNanomina s = (case decimalParts s of None \<Rightarrow> None
     | Some (whole, fraction) \<Rightarrow>
        (let fracTrimmed = take 9 fraction @ replicate (9 - length (take 9 fraction)) CHR ''0'';
             amount = stripZeros (whole @ fracTrimmed)
         in if parseDecimal amount = 0 then None else Some (amount, length fraction > 9)))"

definition formatNanominaAsMina :: "string \<Rightarrow> string" where
  "formatNanominaAsMina s =
     (let normalized = (if stripZeros s = [] then ''0'' else stripZeros s);
          whole = (if length normalized > 9 then take (length normalized - 9) normalized else ''0'');
          fraction = (if length normalized > 9 then drop (length normalized - 9) normalized else padStart 9 normalized);
          trimmedFrac = dropTrailingZeros fraction
      in if trimmedFrac \<noteq> [] then whole @ ''.'' @ trimmedFrac else whole)"

definition parseProposalNonce :: "string \<Rightarrow> int option" where
  "parseProposalNonce s =
     (let trimmed = jsTrim s; parsed = int (parseDecimal trimmed)
      in if allDigits trimmed \<and> isSafeInteger parsed \<and> \<not> parsed \<le> 0 then Some parsed else None)"

section \<open>Recipients\<close>

type_synonym recipientRow = "string \<times> string"

definition rowEmpty :: "recipientRow \<Rightarrow> bool" where
  "rowEmpty r \<longleftrightarrow> jsTrim (fst r) = [] \<and> jsTrim (snd r) = []"

text \<open>The expression \<open>^B62[1-9A-HJ-NP-Za-km-z]+$\<close>.\<close>

definition addressShape :: "string \<Rightarrow> bool" where
  "addressShape a \<longleftrightarrow> take 3 a = ''B62'' \<and> length a > 3 \<and> list_all (\<lambda>c. c \<in> set BASE58_ALPHABET) (drop 3 a)"

record rowValidation =
  rvOk :: bool
  rvNanomina :: "string option"
  rvErrors :: "string list"
  rvWarning :: "string option"

definition addressErrors :: "('m, 'w, 's) o1js \<Rightarrow> recipientRow list \<Rightarrow> string \<Rightarrow> string list" where
  "addressErrors E rows address =
     (if address = [] then [''Address required'']
      else if \<not> addressShape address then [''Invalid Mina address'']
      else if address = EMPTY_PUBKEY_B58 E then [''The empty address cannot receive funds'']
      else if length (filter (\<lambda>r. jsTrim (fst r) = address) rows) > 1 then [''Duplicate recipient'']
      else [])"

definition validateRow :: "('m, 'w, 's) o1js \<Rightarrow> recipientRow list \<Rightarrow> recipientRow \<Rightarrow> rowValidation" where
  "validateRow E rows row =
     (if rowEmpty row then \<lparr>rvOk = False, rvNanomina = None, rvErrors = [], rvWarning = None\<rparr>
      else (let address = jsTrim (fst row);
                amountText = jsTrim (snd row);
                parsed = (if amountText = [] then None else parseMinaToNanomina amountText);
                errors = addressErrors E rows address @
                  (if amountText = [] then [''Amount required''] else if parsed = None then [''Invalid amount''] else []);
                warning = (case parsed of Some (nanomina, True) \<Rightarrow>
                    Some (''Will send '' @ formatNanominaAsMina nanomina @ '' MINA (Mina's precision is 9 decimals).'') | _ \<Rightarrow> None)
            in \<lparr>rvOk = (errors = [] \<and> parsed \<noteq> None), rvNanomina = (if errors = [] then map_option fst parsed else None),
                 rvErrors = errors, rvWarning = warning\<rparr>))"

record recipientsParse =
  rpRows :: "rowValidation list"
  rpOk :: bool
  rpReceivers :: "bundleReceiver list"
  rpTotal :: string
  rpCount :: nat
  rpTopError :: "string option"

text \<open>The rows that validate, as they are submitted.\<close>

definition validReceiver :: "('m, 'w, 's) o1js \<Rightarrow> recipientRow list \<Rightarrow> recipientRow \<Rightarrow> bundleReceiver option" where
  "validReceiver E rows row = (let v = validateRow E rows row
     in if rvOk v \<and> truthyText (rvNanomina v) then Some \<lparr>brAddress = jsTrim (fst row), brAmount = the (rvNanomina v)\<rparr> else None)"

definition parseRecipients :: "('m, 'w, 's) o1js \<Rightarrow> recipientRow list \<Rightarrow> recipientsParse" where
  "parseRecipients E rows =
     (let filledCount = length (filter (\<lambda>r. \<not> rowEmpty r) rows);
          validations = map (validateRow E rows) rows;
          receivers = List.map_filter (validReceiver E rows) rows;
          topError = (if filledCount = 0 then Some ''Add at least one recipient.''
            else if filledCount > MAX_RECEIVERS then Some ''Too many recipients.'' else None)
      in \<lparr>rpRows = validations,
           rpOk = (topError = None \<and> receivers \<noteq> [] \<and> list_all (\<lambda>r. rowEmpty r \<or> rvOk (validateRow E rows r)) rows),
           rpReceivers = receivers, rpTotal = decimal (sum_list (map (\<lambda>r. parseDecimal (brAmount r)) receivers)),
           rpCount = length receivers, rpTopError = topError\<rparr>)"

definition serializeRecipients :: "recipientRow list \<Rightarrow> string" where
  "serializeRecipients rows = joinWith [CHR 0x0A]
     (map (\<lambda>r. jsTrim (fst r) @ '','' @ jsTrim (snd r)) (filter (\<lambda>r. \<not> rowEmpty r) rows))"

text \<open>\<open>text.split(separator)\<close> for one character.\<close>

fun splitOn :: "char \<Rightarrow> string \<Rightarrow> string list" where
  "splitOn sep [] = [[]]"
| "splitOn sep (c # cs) = (if c = sep then [] # splitOn sep cs
     else (case splitOn sep cs of l # ls \<Rightarrow> (c # l) # ls | [] \<Rightarrow> [[c]]))"

definition parseBulkRecipients :: "string \<Rightarrow> recipientRow list" where
  "parseBulkRecipients s = map (\<lambda>line. let address = takeWhile (\<lambda>c. c \<noteq> CHR '','') line
     in if length address = length line then (jsTrim line, [])
        else (jsTrim address, jsTrim (drop (Suc (length address)) line))) (splitOn (CHR 0x0A) s)"

definition addRow :: "recipientRow list \<Rightarrow> recipientRow list" where
  "addRow rows = (if length rows \<ge> MAX_RECEIVERS then rows else rows @ [([], [])])"

definition removeRow :: "nat \<Rightarrow> recipientRow list \<Rightarrow> recipientRow list" where
  "removeRow i rows = (if length rows \<le> 1 then rows else take i rows @ drop (Suc i) rows)"

section \<open>The form\<close>

text \<open>What the page passes to the form, with the balance of the selected child once it is known.\<close>

record formProps =
  fpOwners :: "string list"
  fpCurrentThreshold :: int
  fpNumOwners :: int
  fpTxType :: txType
  fpChildren :: "contractSummary list"
  fpInitialNonce :: "int option"
  fpCurrentNonce :: "int option"
  fpProposals :: "webProposal list"
  fpDeleteMode :: bool
  fpDeleteTarget :: "webProposal option"
  fpTargetBalance :: "string option"

text \<open>The fields as they were entered.\<close>

record formFields =
  ffRecipients :: "recipientRow list"
  ffNewOwner :: string
  ffRemoveOwner :: string
  ffNewThreshold :: int
  ffDelegate :: string
  ffUndelegate :: bool
  ffExpirySlot :: string
  ffMemo :: string
  ffTargetChild :: string
  ffReclaimAmount :: string
  ffDestroyConfirm :: bool
  ffNonce :: string

definition selectedChild :: "formProps \<Rightarrow> string \<Rightarrow> contractSummary option" where
  "selectedChild F target = find (\<lambda>c. csmAddress c = target) (fpChildren F)"

text \<open>Whether the proposal enables the child's own proposals: the opposite of what the child has now.\<close>

definition enableTarget :: "formProps \<Rightarrow> formFields \<Rightarrow> bool" where
  "enableTarget F f = (Option.bind (selectedChild F (ffTargetChild f)) csmChildMultiSigEnabled = Some False)"

definition isRemoteDelete :: "formProps \<Rightarrow> bool" where
  "isRemoteDelete F \<longleftrightarrow> fpDeleteMode F \<and> Option.bind (fpDeleteTarget F) wpDestination = Some RemoteDestination"

definition effectiveTxType :: "formProps \<Rightarrow> txType" where
  "effectiveTxType F = (if fpDeleteMode F then (if isRemoteDelete F then RECLAIM_CHILD else TRANSFER) else fpTxType F)"

definition isRemoteSpaceTxType :: "formProps \<Rightarrow> bool" where
  "isRemoteSpaceTxType F \<longleftrightarrow> effectiveTxType F \<in> {RECLAIM_CHILD, DESTROY_CHILD, ENABLE_CHILD_MULTI_SIG}"

definition nonceSpaceChildAddress :: "formProps \<Rightarrow> formFields \<Rightarrow> string option" where
  "nonceSpaceChildAddress F f =
     (if isRemoteDelete F then Option.bind (fpDeleteTarget F) wpChildAccount
      else if isRemoteSpaceTxType F \<and> ffTargetChild f \<noteq> [] then Some (ffTargetChild f) else None)"

definition nonceSpaceChild :: "formProps \<Rightarrow> formFields \<Rightarrow> contractSummary option" where
  "nonceSpaceChild F f = (let address = nonceSpaceChildAddress F f
     in if truthyText address then selectedChild F (the address) else None)"

definition effectiveNonceFloor :: "formProps \<Rightarrow> formFields \<Rightarrow> int option" where
  "effectiveNonceFloor F f = (if isRemoteSpaceTxType F then Option.bind (nonceSpaceChild F f) csmParentNonce else fpCurrentNonce F)"

definition effectiveSpaceProposals :: "formProps \<Rightarrow> formFields \<Rightarrow> webProposal list" where
  "effectiveSpaceProposals F f =
     (if isRemoteSpaceTxType F
      then filter (\<lambda>p. wpDestination p = Some RemoteDestination \<and> wpChildAccount p = nonceSpaceChildAddress F f) (fpProposals F)
      else filter (\<lambda>p. wpDestination p = Some LocalDestination) (fpProposals F))"

definition effectiveTakenNonces :: "formProps \<Rightarrow> formFields \<Rightarrow> int list" where
  "effectiveTakenNonces F f = List.map_filter (\<lambda>p. case wpNonce p of None \<Rightarrow> Some 0 | Some s \<Rightarrow> jsNumber s)
     (filter (\<lambda>p. wpStatus p = PendingStatus) (effectiveSpaceProposals F f))"

definition effectiveDefaultNonce :: "formProps \<Rightarrow> formFields \<Rightarrow> int option" where
  "effectiveDefaultNonce F f = (if fpDeleteMode F then fpInitialNonce F
     else nextAvailableNonce (effectiveNonceFloor F f) (effectiveSpaceProposals F f))"

definition nonceCollisionWarning :: "formProps \<Rightarrow> formFields \<Rightarrow> int option" where
  "nonceCollisionWarning F f = (if fpDeleteMode F then None
     else (case parseProposalNonce (ffNonce f) of None \<Rightarrow> None
       | Some n \<Rightarrow> if n \<in> set (effectiveTakenNonces F f) then Some n else None))"

text \<open>The button that fills in the whole balance of the child.\<close>

definition maxReclaim :: "formProps \<Rightarrow> formFields \<Rightarrow> formFields" where
  "maxReclaim F f = (if truthyText (fpTargetBalance F) then f\<lparr>ffReclaimAmount := formatMina (fpTargetBalance F)\<rparr> else f)"

definition MEMO_MAX_BYTES :: nat where
  "MEMO_MAX_BYTES = 32"

text \<open>The bytes of a text are what the model has of it.\<close>

definition memoByteLength :: "string \<Rightarrow> nat" where
  "memoByteLength memo = length memo"

definition checkReclaim :: "formProps \<Rightarrow> formFields \<Rightarrow> unit result" where
  "checkReclaim F f = (case parseMinaToNanomina (ffReclaimAmount f) of
       None \<Rightarrow> Inl (AssertFail ''Reclaim amount must be a positive MINA value.'')
     | Some (nanomina, _) \<Rightarrow> (case fpTargetBalance F of None \<Rightarrow> Inr ()
         | Some balance \<Rightarrow> andThen (toBigInt balance) (\<lambda>b.
             require (\<not> int (parseDecimal nanomina) > b) ''Reclaim amount exceeds SubVault balance'' (Inr ()))))"

text \<open>The guards of \<open>getInput\<close>, in source order.\<close>

definition checkInput :: "('m, 'w, 's) o1js \<Rightarrow> formProps \<Rightarrow> formFields \<Rightarrow> int \<Rightarrow> unit result" where
  "checkInput E F f parsedNonce =
     (let t = effectiveTxType F; normal = (\<not> fpDeleteMode F); own = fpTxType F; parsed = parseRecipients E (ffRecipients f);
          onChild = (own \<in> {RECLAIM_CHILD, DESTROY_CHILD, ENABLE_CHILD_MULTI_SIG}); top = max 1 (fpNumOwners F)
      in require (\<not> (normal \<and> (case effectiveNonceFloor F f of Some k \<Rightarrow> parsedNonce \<le> k | None \<Rightarrow> False))) ''Nonce must be greater''
        (require (\<not> (t = ADD_OWNER \<and> fpNumOwners F \<ge> int MAX_OWNERS)) ''Cannot exceed the maximum of owners.''
        (require (\<not> (normal \<and> own \<in> {TRANSFER, ALLOCATE_CHILD} \<and> \<not> rpOk parsed)) ''Fix the highlighted recipient rows before submitting.''
        (require (\<not> (normal \<and> onChild \<and> ffTargetChild f = [])) ''Pick a SubVault to target.''
        (andAlso (if normal \<and> own = RECLAIM_CHILD then checkReclaim F f else Inr ())
        (require (\<not> (normal \<and> own = DESTROY_CHILD \<and> \<not> ffDestroyConfirm f)) ''Confirm the destroy action''
        (require (\<not> (t = ADD_OWNER \<and> jsTrim (ffNewOwner f) \<in> set (fpOwners F))) ''This address is already an owner.''
        (require (\<not> (t = ADD_OWNER \<and> conflictsWithOwner (jsTrim (ffNewOwner f)) (fpOwners F))) ''This address is the negation of an existing owner''
        (require (\<not> (t = REMOVE_OWNER \<and> jsTrim (ffRemoveOwner f) \<notin> set (fpOwners F))) ''This address is not a current owner.''
        (require (\<not> (t = REMOVE_OWNER \<and> fpNumOwners F - 1 < fpCurrentThreshold F)) ''Reduce the threshold first before removing an owner.''
        (require (\<not> (t = CHANGE_THRESHOLD \<and> (ffNewThreshold f < 1 \<or> ffNewThreshold f > top))) ''Threshold out of range''
        (require (\<not> (t = CHANGE_THRESHOLD \<and> ffNewThreshold f = fpCurrentThreshold F)) ''The new threshold is the same as the current one.''
        (require (\<not> (t = SET_DELEGATE \<and> \<not> ffUndelegate f \<and> \<not> addressShape (jsTrim (ffDelegate f)))) ''Invalid delegate address.''
        (require (memoByteLength (ffMemo f) \<le> MEMO_MAX_BYTES) ''Memo exceeds the limit.'' (Inr ())))))))))))))))"

definition getInput :: "('m, 'w, 's) o1js \<Rightarrow> formProps \<Rightarrow> formFields \<Rightarrow> webInput result" where
  "getInput E F f = (case parseProposalNonce (ffNonce f) of
       None \<Rightarrow> Inl (AssertFail ''Nonce must be a positive integer.'')
     | Some parsedNonce \<Rightarrow> andAlso (checkInput E F f parsedNonce)
        (let t = effectiveTxType F; normal = (\<not> fpDeleteMode F); own = fpTxType F; remote = isRemoteDelete F;
             onChild = (own \<in> {RECLAIM_CHILD, DESTROY_CHILD, ENABLE_CHILD_MULTI_SIG});
             targetAccount = Option.bind (fpDeleteTarget F) wpChildAccount;
             expiry = (case jsNumber (ffExpirySlot f) of Some n \<Rightarrow> if n > 0 then n else 0 | None \<Rightarrow> 0)
         in Inr \<lparr>wiTxType = t, wiNonce = parsedNonce,
              wiReceivers = (if fpDeleteMode F \<and> \<not> remote then Some [\<lparr>brAddress = EMPTY_PUBKEY_B58 E, brAmount = ''0''\<rparr>]
                else if t \<in> {TRANSFER, ALLOCATE_CHILD} then Some (rpReceivers (parseRecipients E (ffRecipients f))) else None),
              wiNewOwner = (if normal \<and> t = ADD_OWNER then Some (ffNewOwner f) else None),
              wiRemoveOwnerAddress = (if normal \<and> t = REMOVE_OWNER then Some (ffRemoveOwner f) else None),
              wiNewThreshold = (if normal \<and> t = CHANGE_THRESHOLD then Some (ffNewThreshold f) else None),
              wiDelegate = (if normal \<and> t = SET_DELEGATE \<and> \<not> ffUndelegate f then Some (ffDelegate f) else None),
              wiUndelegate = (normal \<and> t = SET_DELEGATE \<and> ffUndelegate f),
              wiExpirySlot = Some expiry,
              wiMemo = (if ffMemo f \<noteq> [] then Some (ffMemo f) else None),
              wiChildAccount = (if remote \<and> truthyText targetAccount then targetAccount
                else if normal \<and> onChild then Some (ffTargetChild f) else None),
              wiReclaimAmount = (if remote then Some ''0''
                else if normal \<and> own = RECLAIM_CHILD
                  then Some (case parseMinaToNanomina (ffReclaimAmount f) of Some (nanomina, _) \<Rightarrow> nanomina | None \<Rightarrow> ''0'') else None),
              wiChildMultiSigEnable = (normal \<and> own = ENABLE_CHILD_MULTI_SIG \<and> enableTarget F f),
              wiCreateChildConfigHash = None\<rparr>))"

section \<open>The value of an amount\<close>

text \<open>The number that a decimal text stands for.\<close>

definition minaValue :: "string \<Rightarrow> rat" where
  "minaValue s = (let whole = takeWhile (\<lambda>c. c \<noteq> CHR ''.'') s; fraction = drop (Suc (length whole)) s
     in of_nat (parseDecimal whole) + of_nat (parseDecimal fraction) / 10 ^ length fraction)"

lemma parseDecimal_append: "parseDecimal (a @ b) = parseDecimal a * 10 ^ length b + parseDecimal b"
  by (induction b rule: rev_induct) (simp_all add: parseDecimal_def algebra_simps)

lemma parseDecimal_less: "list_all isDigit s \<Longrightarrow> parseDecimal s < 10 ^ length s"
proof (induction s rule: rev_induct)
  case (snoc c s)
  then show ?case using digitVal_less [of c] by simp
qed (simp add: parseDecimal_def)

lemma stripZeros_value: "parseDecimal (stripZeros s) = parseDecimal s"
  by (induction s rule: stripZeros.induct) (simp_all add: parseDecimal_def digitVal_def)

lemma zeroChar: "digitChar 0 = CHR ''0''"
  by code_simp

lemma digit_zero: "isDigit c \<Longrightarrow> digitVal c = 0 \<longleftrightarrow> c = CHR ''0''"
  using digitChar_val [of c] zeroChar by (auto simp: digitVal_def)

lemma stripZeros_digits: "allDigits s \<Longrightarrow> canonicalDecimal (stripZeros s)"
proof (induction s rule: stripZeros.induct)
  case (1 c d cs)
  have "isDigit c" using 1(2) by (simp add: allDigits_def)
  then show ?case using 1 digit_zero [of c] by (auto simp: allDigits_def canonicalDecimal_def)
qed (auto simp: allDigits_def canonicalDecimal_def digit_zero zeroChar)

lemma nano_floor:
  assumes "list_all isDigit fraction"
  shows "int (parseDecimal (take 9 fraction @ replicate (9 - length (take 9 fraction)) CHR ''0'')) =
    \<lfloor>(of_nat (parseDecimal fraction) / 10 ^ length fraction :: rat) * 10 ^ 9\<rfloor>"
proof (cases "length fraction \<le> 9")
  case True
  have z: "parseDecimal (replicate k CHR ''0'') = 0" for k using parseDecimal_zeros [of k "[]"] by (simp add: parseDecimal_def)
  have "(10 :: rat) ^ 9 = 10 ^ length fraction * 10 ^ (9 - length fraction)" using True by (simp flip: power_add)
  then have "(of_nat (parseDecimal fraction) / 10 ^ length fraction :: rat) * 10 ^ 9 = of_int (int (parseDecimal fraction * 10 ^ (9 - length fraction)))"
    by (simp add: field_simps)
  then show ?thesis using True by (simp only: floor_of_int) (simp add: parseDecimal_append z)
next
  case False
  define k where "k = length fraction - 9"
  let ?a = "parseDecimal (take 9 fraction)" and ?b = "parseDecimal (drop 9 fraction)"
  have b: "?b < 10 ^ k" using parseDecimal_less [of "drop 9 fraction"] assms by (auto simp: k_def list_all_iff dest: in_set_dropD)
  have v: "parseDecimal fraction = ?a * 10 ^ k + ?b" using parseDecimal_append [of "take 9 fraction" "drop 9 fraction"] by (simp add: k_def)
  have len: "length fraction = k + 9" using False by (simp add: k_def)
  have p: "(10 :: rat) ^ length fraction = 10 ^ k * 10 ^ 9" unfolding len by (simp add: power_add)
  have "(of_nat (parseDecimal fraction) / 10 ^ length fraction :: rat) * 10 ^ 9 = of_int (int ?a) + of_nat ?b / 10 ^ k"
    unfolding v p by (simp add: field_simps)
  moreover have "(of_nat ?b / 10 ^ k :: rat) < 1" using b by (simp add: divide_less_eq)
  ultimately have "\<lfloor>(of_nat (parseDecimal fraction) / 10 ^ length fraction :: rat) * 10 ^ 9\<rfloor> = int ?a"
    by (simp add: floor_eq_iff)
  then show ?thesis using False by simp
qed

text \<open>What the form makes of an amount: the entered value in nanomina, rounded down, as a decimal text.\<close>

lemma parse_mina_value:
  assumes "parseMinaToNanomina s = Some (n, truncated)"
  shows "canonicalDecimal n" "int (parseDecimal n) = \<lfloor>minaValue s * 10 ^ 9\<rfloor>" "0 < parseDecimal n"
proof -
  let ?w = "takeWhile (\<lambda>c. c \<noteq> CHR ''.'') s"
  let ?f = "drop (Suc (length ?w)) s"
  let ?t = "take 9 ?f @ replicate (9 - length (take 9 ?f)) CHR ''0''"
  have d: "allDigits ?w" "list_all isDigit ?f" and n: "n = stripZeros (?w @ ?t)" "parseDecimal n \<noteq> 0"
    using assms by (auto simp: parseMinaToNanomina_def decimalParts_def Let_def split: if_split_asm)
  have t: "length ?t = 9" by simp
  have "list_all isDigit ?t" using d(2) by (auto simp: list_all_iff isDigit_def dest: in_set_takeD)
  then show "canonicalDecimal n" unfolding n(1) by (intro stripZeros_digits) (use d(1) in \<open>simp add: allDigits_def\<close>)
  have "int (parseDecimal n) = int (parseDecimal ?w) * 10 ^ 9 + \<lfloor>(of_nat (parseDecimal ?f) / 10 ^ length ?f :: rat) * 10 ^ 9\<rfloor>"
    unfolding n(1) stripZeros_value parseDecimal_append t nano_floor [OF d(2), symmetric] by simp
  also have "\<dots> = \<lfloor>minaValue s * 10 ^ 9\<rfloor>"
  proof -
    have "minaValue s * 10 ^ 9 = (of_nat (parseDecimal ?f) / 10 ^ length ?f) * 10 ^ 9 + of_int (int (parseDecimal ?w) * 10 ^ 9)"
      by (simp add: minaValue_def Let_def algebra_simps)
    then show ?thesis using floor_add_int [of "(of_nat (parseDecimal ?f) / 10 ^ length ?f :: rat) * 10 ^ 9" "int (parseDecimal ?w) * 10 ^ 9"]
      by (simp only: add.commute)
  qed
  finally show "int (parseDecimal n) = \<lfloor>minaValue s * 10 ^ 9\<rfloor>" .
  show "0 < parseDecimal n" using n(2) by simp
qed

section \<open>What is proposed is what was entered\<close>

lemma row_ok: "rvOk (validateRow E rows row) \<longleftrightarrow> \<not> rowEmpty row \<and> addressErrors E rows (jsTrim (fst row)) = [] \<and>
    (\<exists>n t. parseMinaToNanomina (jsTrim (snd row)) = Some (n, t) \<and> rvNanomina (validateRow E rows row) = Some n \<and> n \<noteq> [])"
proof -
  have "parseMinaToNanomina [] = None" by (simp add: parseMinaToNanomina_def decimalParts_def allDigits_def)
  moreover have "parseMinaToNanomina s = Some (n, t) \<Longrightarrow> n \<noteq> []" for s n t
    using parse_mina_value(1) [of s n t] by (auto simp: canonicalDecimal_def allDigits_def)
  ultimately show ?thesis by (auto simp: validateRow_def Let_def split: if_splits)
qed

definition receiverOf :: "recipientRow \<Rightarrow> bundleReceiver" where
  "receiverOf row = \<lparr>brAddress = jsTrim (fst row), brAmount = (case parseMinaToNanomina (jsTrim (snd row)) of Some (n, _) \<Rightarrow> n | None \<Rightarrow> [])\<rparr>"

lemma valid_receiver: "rvOk (validateRow E rows row) \<Longrightarrow> validReceiver E rows row = Some (receiverOf row)"
  by (auto simp: row_ok validReceiver_def receiverOf_def Let_def truthyText_def)

lemma parsed_recipients:
  assumes "rpOk (parseRecipients E rows)"
  defines "filled \<equiv> filter (\<lambda>r. \<not> rowEmpty r) rows"
  shows "rpReceivers (parseRecipients E rows) = map receiverOf filled" "filled \<noteq> []" "length filled \<le> MAX_RECEIVERS"
    "\<And>r. r \<in> set filled \<Longrightarrow> rvOk (validateRow E rows r)"
proof -
  have all: "\<forall>r\<in>set rows. rowEmpty r \<or> rvOk (validateRow E rows r)"
    using assms(1) by (auto simp: parseRecipients_def Let_def list_all_iff split: if_split_asm)
  show "filled \<noteq> []" "length filled \<le> MAX_RECEIVERS"
    using assms(1) by (auto simp: filled_def parseRecipients_def Let_def split: if_split_asm)
  show valid: "rvOk (validateRow E rows r)" if "r \<in> set filled" for r using that all by (auto simp: filled_def)
  have "List.map_filter (validReceiver E rows) xs = map receiverOf (filter (\<lambda>r. \<not> rowEmpty r) xs)" if "set xs \<subseteq> set rows" for xs
    using that
  proof (induction xs)
    case (Cons x xs)
    have "rowEmpty x \<Longrightarrow> validReceiver E rows x = None" by (simp add: validReceiver_def validateRow_def)
    then show ?case using Cons all valid_receiver [of E rows x] by (auto simp: List.map_filter_simps)
  qed (simp add: List.map_filter_simps)
  then show "rpReceivers (parseRecipients E rows) = map receiverOf filled"
    by (simp add: parseRecipients_def Let_def filled_def)
qed

lemma distinct_once: "(\<And>x. x \<in> set xs \<Longrightarrow> length (filter (\<lambda>y. g y = g x) xs) \<le> 1) \<Longrightarrow> distinct (map g xs)"
proof (induction xs)
  case (Cons x xs)
  have "g x \<notin> g ` set xs"
  proof
    assume "g x \<in> g ` set xs"
    then obtain y where "y \<in> set (filter (\<lambda>y. g y = g x) xs)" by auto
    then have "length (filter (\<lambda>y. g y = g x) xs) > 0" by (rule length_pos_if_in_set)
    then show False using Cons.prems [of x] by simp
  qed
  moreover have "length (filter (\<lambda>y. g y = g z) xs) \<le> 1" if "z \<in> set xs" for z
    using Cons.prems [of z] that by (simp split: if_split_asm)
  ultimately show ?case using Cons.IH by simp
qed simp

lemma filled_distinct:
  assumes "rpOk (parseRecipients E rows)"
  shows "distinct (map (\<lambda>r. jsTrim (fst r)) (filter (\<lambda>r. \<not> rowEmpty r) rows))"
proof (rule distinct_once)
  fix x assume x: "x \<in> set (filter (\<lambda>r. \<not> rowEmpty r) rows)"
  let ?same = "\<lambda>y. jsTrim (fst y) = jsTrim (fst x)"
  have "length (filter ?same rows) \<le> 1"
    using parsed_recipients(4) [OF assms x] by (auto simp: row_ok addressErrors_def split: if_split_asm)
  moreover have "length (filter ?same (filter (\<lambda>r. \<not> rowEmpty r) rows)) \<le> length (filter ?same rows)"
    by (simp add: filter_filter, induction rows) auto
  ultimately show "length (filter ?same (filter (\<lambda>r. \<not> rowEmpty r) rows)) \<le> 1" by simp
qed

text \<open>A receiver of the proposal pays what the row says: to the key of its address, the entered amount in
  nanomina, which is not zero.\<close>

definition paysRow :: "('m, 'w, 's) o1js \<Rightarrow> recipientRow \<Rightarrow> receiver \<Rightarrow> bool" where
  "paysRow E row r \<longleftrightarrow> fromBase58 E (jsTrim (fst row)) = Some (rAddress r) \<and>
     int (unat (rAmount r)) = \<lfloor>minaValue (jsTrim (snd row)) * 10 ^ 9\<rfloor> \<and> 0 < rAmount r"

lemma web_receiver_pays:
  assumes "rvOk (validateRow E rows row)" "webReceiver E (brAddress (receiverOf row)) (brAmount (receiverOf row)) = Inr r"
  shows "paysRow E row r"
proof -
  obtain n t where n: "parseMinaToNanomina (jsTrim (snd row)) = Some (n, t)" "addressErrors E rows (jsTrim (fst row)) = []"
    using assms(1) by (auto simp: row_ok)
  have not_empty: "jsTrim (fst row) \<noteq> EMPTY_PUBKEY_B58 E" using n(2) by (auto simp: addressErrors_def split: if_split_asm)
  have v: "int (parseDecimal n) = \<lfloor>minaValue (jsTrim (snd row)) * 10 ^ 9\<rfloor>" "0 < parseDecimal n" "allDigits n"
    using parse_mina_value [OF n(1)] by (auto simp: canonicalDecimal_def)
  have w: "fromBase58 E (jsTrim (fst row)) = Some (rAddress r)" "uint64FromText n = Inr (rAmount r)"
    using assms(2) n(1) not_empty by (auto simp: webReceiver_def receiverOf_def)
  have "toBigInt n = Inr (int (parseDecimal n))" by (simp add: toBigInt_def stringToBigInt_digits v(3))
  then have a: "int (parseDecimal n) < 2 ^ 64" "rAmount r = word_of_nat (parseDecimal n)" using w(2) by (auto simp: uint64FromText_def)
  then have u: "unat (rAmount r) = parseDecimal n"
    by (simp add: unsigned_of_nat take_bit_nat_eq_self)
  then have "0 < rAmount r" using v(2) by (simp add: word_less_nat_alt)
  then show ?thesis using w(1) v(1) u by (simp add: paysRow_def)
qed

text \<open>
  C28: What is proposed is what was entered. If the form accepts a payment and the worker builds a proposal from
  it, the proposal has one receiver for each row that was filled in, in the same order and to distinct
  addresses: the key of the entered address, and the entered amount in nanomina, rounded down and not zero. The
  places after them are empty, the memo is the entered one, and the number is the entered one, above the last
  executed.
\<close>
theorem form_proposes_what_was_entered:
  assumes form: "getInput E F f = Inr input"
    and built: "buildNewProposal E input cfgNonce vault owners = Inr p"
    and mode: "\<not> fpDeleteMode F" "fpTxType F = TRANSFER \<or> fpTxType F = ALLOCATE_CHILD"
  shows "let rows = filter (\<lambda>r. \<not> rowEmpty r) (ffRecipients f)
    in rows \<noteq> [] \<and> distinct (map (\<lambda>r. jsTrim (fst r)) rows) \<and>
      (\<exists>rs. list_all2 (paysRow E) rows rs \<and> length rs \<le> MAX_RECEIVERS \<and>
        pReceivers p = rs @ replicate (MAX_RECEIVERS - length rs) emptyReceiver) \<and>
      pMemoHash p = memoToField E (ffMemo f) \<and>
      (\<exists>n. parseProposalNonce (ffNonce f) = Some n \<and> 0 < n \<and> pNonce p = fieldOfInt E n \<and>
        (case fpCurrentNonce F of Some k \<Rightarrow> k < n | None \<Rightarrow> True))"
proof -
  let ?rows = "filter (\<lambda>r. \<not> rowEmpty r) (ffRecipients f)"
  have t: "effectiveTxType F = fpTxType F" "\<not> isRemoteDelete F" "effectiveNonceFloor F f = fpCurrentNonce F"
    using mode by (auto simp: effectiveTxType_def isRemoteDelete_def effectiveNonceFloor_def isRemoteSpaceTxType_def)
  obtain n where n: "parseProposalNonce (ffNonce f) = Some n" using form by (auto simp: getInput_def split: option.split_asm)
  then have checked: "checkInput E F f n = Inr ()" using form by (simp add: getInput_def)
  have ok: "rpOk (parseRecipients E (ffRecipients f))" and above: "case fpCurrentNonce F of Some k \<Rightarrow> k < n | None \<Rightarrow> True"
    using checked mode t by (auto simp: checkInput_def Let_def split: option.split_asm option.split)
  have input: "wiTxType input = fpTxType F" "wiReceivers input = Some (map receiverOf ?rows)" "wiNonce input = n"
      "orDefault (wiMemo input) '''' = ffMemo f"
    using form n checked mode t parsed_recipients(1) [OF ok] by (auto simp: getInput_def Let_def)
  obtain rs where rs: "traverse (\<lambda>r. webReceiver E (brAddress r) (brAmount r)) (map receiverOf ?rows) = Inr rs"
    and p: "pReceivers p = take MAX_RECEIVERS (pushEmpty (MAX_RECEIVERS - length rs) rs)" "pNonce p = fieldOfInt E n"
      "pMemoHash p = memoToField E (ffMemo f)"
    using built input mode(2) unfolding buildNewProposal_def webReceiversForProposal_def webTransferReceivers_def Let_def
    by (auto simp: traverse_map)
  have pays: "list_all2 (paysRow E) ?rows rs"
  proof (rule list_all2I)
    have l: "list_all2 (\<lambda>row r. webReceiver E (brAddress (receiverOf row)) (brAmount (receiverOf row)) = Inr r) ?rows rs"
      using rs by (simp add: traverse_Inr list_all2_map1)
    then show "\<forall>x\<in>set (zip ?rows rs). case x of (row, r) \<Rightarrow> paysRow E row r"
      using web_receiver_pays parsed_recipients(4) [OF ok] by (fastforce simp: list_all2_iff dest: set_zip_leftD)
    show "length ?rows = length rs" using l by (rule list_all2_lengthD)
  qed
  have len: "length rs \<le> MAX_RECEIVERS" using parsed_recipients(3) [OF ok] list_all2_lengthD [OF pays] by simp
  have "pushEmpty k xs = xs @ replicate k emptyReceiver" for k xs by (induction k arbitrary: xs) (simp_all add: replicate_app_Cons_same)
  then have "pReceivers p = rs @ replicate (MAX_RECEIVERS - length rs) emptyReceiver" using p(1) len by simp
  moreover have "0 < n" using n by (auto simp: parseProposalNonce_def Let_def split: if_split_asm)
  ultimately show ?thesis
    using pays len parsed_recipients(2) [OF ok] filled_distinct [OF ok] n above p(2,3) unfolding Let_def by blast
qed

section \<open>Deletions, expiry and the whole balance\<close>

text \<open>A deletion moves nothing, whatever was left in the other fields, and keeps the number that was entered.\<close>

lemma delete_form_moves_nothing:
  assumes form: "getInput E F f = Inr input" and built: "buildNewProposal E input cfgNonce vault owners = Inr p"
    and mode: "fpDeleteMode F"
  shows "pReceivers p = replicate MAX_RECEIVERS emptyReceiver \<and> pData p = 0 \<and>
    (\<exists>n. parseProposalNonce (ffNonce f) = Some n \<and> pNonce p = fieldOfInt E n)"
proof -
  obtain n where n: "parseProposalNonce (ffNonce f) = Some n" using form by (auto simp: getInput_def split: option.split_asm)
  have zero: "fieldFromText E ''0'' = Inr 0" "uint64FromText ''0'' = Inr 0"
    by (simp_all add: fieldFromText_def uint64FromText_def toBigInt_zero fieldOfInt_def)
  have "pushEmpty k xs = xs @ replicate k emptyReceiver" for k xs by (induction k arbitrary: xs) (simp_all add: replicate_app_Cons_same)
  then have pad: "take MAX_RECEIVERS (pushEmpty (MAX_RECEIVERS - 1) [\<lparr>rAddress = emptyKey, rAmount = 0\<rparr>]) = replicate MAX_RECEIVERS emptyReceiver"
    by (simp add: emptyReceiver_def MAX_RECEIVERS_def numeral_eq_Suc)
  show ?thesis
  proof (cases "isRemoteDelete F")
    case True
    then have i: "wiTxType input = RECLAIM_CHILD" "wiReclaimAmount input = Some ''0''" "wiNonce input = n"
      using form n mode by (auto simp: getInput_def Let_def effectiveTxType_def)
    then show ?thesis using built n
      by (auto simp: buildNewProposal_def webReceiversForProposal_def webGovernanceTarget_def webProposalDataField_def zero Let_def)
  next
    case False
    then have i: "wiTxType input = TRANSFER" "wiReceivers input = Some [\<lparr>brAddress = EMPTY_PUBKEY_B58 E, brAmount = ''0''\<rparr>]" "wiNonce input = n"
      using form n mode by (auto simp: getInput_def Let_def effectiveTxType_def)
    then show ?thesis using built n pad
      by (auto simp: buildNewProposal_def webReceiversForProposal_def webTransferReceivers_def webReceiver_def webProposalDataField_def
          zero toBigInt_zero Let_def)
  qed
qed

text \<open>An expiry that cannot be read as a number is not refused: the proposal never expires.\<close>

lemma unreadable_expiry_never_expires:
  assumes "getInput E F f = Inr input" "jsNumber (ffExpirySlot f) = None"
    and "buildNewProposal E input cfgNonce vault owners = Inr p"
  shows "pExpirySlot p = 0"
proof -
  have "wiExpirySlot input = Some 0" using assms(1,2) by (auto simp: getInput_def Let_def split: option.split_asm)
  then show ?thesis using assms(3) by (auto simp: buildNewProposal_def Let_def fieldOfInt_def)
qed

text \<open>The button for the whole balance fills in a text that is read back as exactly that balance.\<close>

lemma max_reclaims_all:
  assumes "0 < n"
  shows "parseMinaToNanomina (formatMina (Some (decimal n))) = Some (decimal n, False)"
proof -
  let ?s = "formatNano (int n)"
  let ?w = "takeWhile (\<lambda>c. c \<noteq> CHR ''.'') ?s"
  let ?f = "drop (Suc (length ?w)) ?s"
  have s: "formatMina (Some (decimal n)) = ?s"
    by (simp add: formatMina_def truthyText_def stringToBigInt_digits)
  have d: "allDigits ?w" "list_all isDigit ?f" "length ?f \<le> 9"
  proof -
    let ?t = "padStart 9 (decimal (nat (int n mod NANO)))"
    have w: "?s = (if int n mod NANO = 0 then decimal (nat (int n div NANO))
      else decimal (nat (int n div NANO)) @ CHR ''.'' # dropTrailingZeros ?t)"
      using formatNano_nonneg [of "int n"] by simp
    have "length ?t = 9" using length_decimal [of "nat (int n mod NANO)" 9] by (simp add: padStart_def NANO_def nat_less_iff)
    moreover have t: "dropTrailingZeros ?t @ replicate (length ?t - length (dropTrailingZeros ?t)) CHR ''0'' = ?t"
      by (rule dropTrailingZeros_pad)
    ultimately have "length (dropTrailingZeros ?t) \<le> 9" by (metis length_append le_add1)
    moreover have "list_all isDigit ?t" using decimal_digits [of "nat (int n mod NANO)"] by (auto simp: padStart_def list_all_iff isDigit_def)
    then have "list_all isDigit (dropTrailingZeros ?t)" using t by (metis list_all_append)
    ultimately show "allDigits ?w" "list_all isDigit ?f" "length ?f \<le> 9"
      unfolding w by (simp_all add: takeWhile_point allDigits_def decimal_digits)
  qed
  have v: "parseDecimal (?w @ ?f @ replicate (9 - length ?f) CHR ''0'') = n"
    using readNano_format [of "int n"] d(3) unfolding readNano_def Let_def NANO_def
    by (simp add: parseDecimal_append [of ?w])
  have "canonicalDecimal (stripZeros (?w @ ?f @ replicate (9 - length ?f) CHR ''0''))"
    by (rule stripZeros_digits) (use d in \<open>auto simp: allDigits_def list_all_iff isDigit_def\<close>)
  then have "stripZeros (?w @ ?f @ replicate (9 - length ?f) CHR ''0'') = decimal n"
    using decimal_parse stripZeros_value v by metis
  then show ?thesis unfolding s using d assms
    by (simp add: parseMinaToNanomina_def decimalParts_def Let_def)
qed

end
