(* ===== verification/Web_Pending.thy ===== *)
theory Web_Pending
  imports Web_Records Machines
begin

text \<open>
  The transactions this browser has broadcast and waits for: the store behind them (\<open>ui/lib/storage.ts\<close>), how
  the proposals of the indexer resolve them (\<open>reconcilePendingTxs\<close> of \<open>ui/hooks/useTransactions.ts\<close>), and the
  lock they put on the vault meanwhile (\<open>ui/hooks/useContractTxLock.ts\<close>). Times are in milliseconds;
  \<open>date\<close> is the reading of a time text by \<open>new Date\<close>, with no value for an invalid one.
\<close>

section \<open>The store\<close>

datatype pendingKind = CreatePending | ApprovePending | ExecutePending | DeployPending

record pendingSummary =
  psTxType :: "string option"
  psNonce :: "string option"
  psConfigNonce :: "string option"
  psExpirySlot :: "string option"
  psDestination :: "proposalDestination option"
  psChildAccount :: "string option"
  psReceivers :: "(string \<times> string) list"

record pendingTx =
  pdKind :: pendingKind
  pdContract :: string
  pdProposal :: string
  pdTxHash :: string
  pdSigner :: string
  pdCreatedAt :: string
  pdSummary :: "pendingSummary option"
  pdUntracked :: bool
  pdRecorded :: bool

definition PENDING_TX_TTL_MS :: int where
  "PENDING_TX_TTL_MS = 24 * 60 * 60 * 1000"

definition UNTRACKED_PENDING_TX_TTL_MS :: int where
  "UNTRACKED_PENDING_TX_TTL_MS = 20 * 60 * 1000"

definition shortLived :: "pendingTx \<Rightarrow> bool" where
  "shortLived r \<longleftrightarrow> pdUntracked r \<or>
     (pdKind r = CreatePending \<and> Option.bind (pdSummary r) psTxType = Some ''createChild'')"

definition freshTx :: "(string \<Rightarrow> int option) \<Rightarrow> int \<Rightarrow> pendingTx \<Rightarrow> bool" where
  "freshTx date now r = (case date (pdCreatedAt r) of None \<Rightarrow> False
     | Some ts \<Rightarrow> now - ts < (if shortLived r then UNTRACKED_PENDING_TX_TTL_MS else PENDING_TX_TTL_MS))"

definition pruneStale :: "(string \<Rightarrow> int option) \<Rightarrow> int \<Rightarrow> pendingTx list \<Rightarrow> pendingTx list" where
  "pruneStale date now rs = filter (freshTx date now) rs"

fun kindText :: "pendingKind \<Rightarrow> string" where
  "kindText CreatePending = ''create''"
| "kindText ApprovePending = ''approve''"
| "kindText ExecutePending = ''execute''"
| "kindText DeployPending = ''deploy''"

definition pendingTxKey :: "pendingTx \<Rightarrow> string" where
  "pendingTxKey r = pdContract r @ ''::'' @ pdProposal r @ ''::'' @ kindText (pdKind r) @ ''::'' @ pdSigner r"

definition getPendingTxs :: "(string \<Rightarrow> int option) \<Rightarrow> int \<Rightarrow> pendingTx list \<Rightarrow> pendingTx list" where
  "getPendingTxs date now raw = pruneStale date now raw"

definition getPendingTxsForContract :: "(string \<Rightarrow> int option) \<Rightarrow> int \<Rightarrow> string \<Rightarrow> pendingTx list \<Rightarrow> pendingTx list" where
  "getPendingTxsForContract date now contract raw = filter (\<lambda>r. pdContract r = contract) (getPendingTxs date now raw)"

text \<open>Whether a record is the one that is asked for; without a signer any of the proposal's kind is.\<close>

definition matchesTx :: "string \<Rightarrow> string \<Rightarrow> pendingKind \<Rightarrow> string option \<Rightarrow> pendingTx \<Rightarrow> bool" where
  "matchesTx contract ph k signer r \<longleftrightarrow> pdContract r = contract \<and> pdProposal r = ph \<and> pdKind r = k \<and>
     (signer = None \<or> signer = Some (pdSigner r))"

definition getPendingTx ::
  "(string \<Rightarrow> int option) \<Rightarrow> int \<Rightarrow> string \<Rightarrow> string \<Rightarrow> pendingKind \<Rightarrow> string option \<Rightarrow> pendingTx list \<Rightarrow> pendingTx option" where
  "getPendingTx date now contract ph k signer raw = find (matchesTx contract ph k signer) (getPendingTxs date now raw)"

definition savePendingTx :: "(string \<Rightarrow> int option) \<Rightarrow> int \<Rightarrow> pendingTx \<Rightarrow> pendingTx list \<Rightarrow> pendingTx list" where
  "savePendingTx date now r raw = pruneStale date now (filter (\<lambda>q. pendingTxKey q \<noteq> pendingTxKey r) raw @ [r])"

text \<open>A flag is set on the records of one transaction; nothing is written when all of them have it.\<close>

datatype pendingFlag = UntrackedFlag | RecordedFlag

definition flagOf :: "pendingFlag \<Rightarrow> pendingTx \<Rightarrow> bool" where
  "flagOf f r = (case f of UntrackedFlag \<Rightarrow> pdUntracked r | RecordedFlag \<Rightarrow> pdRecorded r)"

definition withFlag :: "pendingFlag \<Rightarrow> pendingTx \<Rightarrow> pendingTx" where
  "withFlag f r = (case f of UntrackedFlag \<Rightarrow> r\<lparr>pdUntracked := True\<rparr> | RecordedFlag \<Rightarrow> r\<lparr>pdRecorded := True\<rparr>)"

definition flagPendingTx ::
  "(string \<Rightarrow> int option) \<Rightarrow> int \<Rightarrow> string \<Rightarrow> string \<Rightarrow> pendingKind \<Rightarrow> string \<Rightarrow> pendingFlag \<Rightarrow> pendingTx list \<Rightarrow> pendingTx list" where
  "flagPendingTx date now contract ph k txHash f raw =
     (let flagged = (\<lambda>r. matchesTx contract ph k None r \<and> pdTxHash r = txHash \<and> \<not> flagOf f r)
      in if list_ex flagged raw then pruneStale date now (map (\<lambda>r. if flagged r then withFlag f r else r) raw) else raw)"

definition clearPendingTx ::
  "(string \<Rightarrow> int option) \<Rightarrow> int \<Rightarrow> string \<Rightarrow> string \<Rightarrow> pendingKind \<Rightarrow> string option \<Rightarrow> pendingTx list \<Rightarrow> pendingTx list" where
  "clearPendingTx date now contract ph k signer raw = pruneStale date now (filter (\<lambda>r. \<not> matchesTx contract ph k signer r) raw)"

definition prunePendingTxs :: "(string \<Rightarrow> int option) \<Rightarrow> int \<Rightarrow> pendingTx list \<Rightarrow> pendingTx list" where
  "prunePendingTxs date now raw =
     (let kept = pruneStale date now raw in if length kept = length raw then raw else kept)"

text \<open>The answer to the report of a broadcast transaction (\<open>reportSubmission\<close>).\<close>

definition reportSubmission ::
  "(string \<Rightarrow> int option) \<Rightarrow> int \<Rightarrow> string \<Rightarrow> string \<Rightarrow> pendingKind \<Rightarrow> string \<Rightarrow> bool \<Rightarrow> pendingTx list \<Rightarrow> pendingTx list" where
  "reportSubmission date now contract ph k txHash recorded =
     flagPendingTx date now contract ph k txHash (if recorded then RecordedFlag else UntrackedFlag)"

definition REPORT_ANSWER_GRACE_MS :: int where
  "REPORT_ANSWER_GRACE_MS = 2 * 60 * 1000"

definition reportUnanswered :: "(string \<Rightarrow> int option) \<Rightarrow> int \<Rightarrow> pendingTx \<Rightarrow> bool" where
  "reportUnanswered date now r =
     (if pdRecorded r \<or> pdUntracked r then False
      else if pdKind r \<noteq> ApprovePending \<and> pdKind r \<noteq> ExecutePending then False
      else case date (pdCreatedAt r) of None \<Rightarrow> False | Some ts \<Rightarrow> now - ts > REPORT_ANSWER_GRACE_MS)"

definition backendNoLongerTracks :: "pendingTx \<Rightarrow> webProposal \<Rightarrow> bool" where
  "backendNoLongerTracks r row =
     (if \<not> pdRecorded r then False
      else (case pdKind r of ApprovePending \<Rightarrow> wpLastApproveTxHash row | ExecutePending \<Rightarrow> wpLastExecuteTxHash row
        | _ \<Rightarrow> Some (pdTxHash r)) \<noteq> Some (pdTxHash r))"

section \<open>Reconciling with the indexer\<close>

definition CREATE_TX_STATUS_PROBE_MIN_AGE_MS :: int where
  "CREATE_TX_STATUS_PROBE_MIN_AGE_MS = 30000"

text \<open>The row of a proposal hash: a map built from the rows keeps the last one.\<close>

definition indexedBy :: "webProposal list \<Rightarrow> string \<Rightarrow> webProposal option" where
  "indexedBy rows h = find (\<lambda>p. wpProposalHash p = h) (rev rows)"

text \<open>What a pass reads beside the rows: the status of a transaction on the best chain, the approvers of a
  proposal, and the approval counts of the pass before.\<close>

record passReads =
  prdFailed :: "string \<Rightarrow> bool"
  prdApprovers :: "string \<Rightarrow> string list"
  prdPrevCounts :: "string \<rightharpoonup> int"

datatype pendingAction = ClearAction | MarkUntrackedAction

definition untrackIf :: "(string \<Rightarrow> int option) \<Rightarrow> int \<Rightarrow> pendingTx \<Rightarrow> webProposal \<Rightarrow> pendingAction list" where
  "untrackIf date now pt row =
     (if \<not> pdUntracked pt \<and> (backendNoLongerTracks pt row \<or> reportUnanswered date now pt) then [MarkUntrackedAction] else [])"

definition reconcileActions ::
  "(string \<Rightarrow> int option) \<Rightarrow> int \<Rightarrow> passReads \<Rightarrow> webProposal list \<Rightarrow> pendingTx \<Rightarrow> pendingAction list" where
  "reconcileActions date now R rows pt = (case (pdKind pt, indexedBy rows (pdProposal pt)) of
       (CreatePending, Some _) \<Rightarrow> [ClearAction]
     | (CreatePending, None) \<Rightarrow>
         (if pdTxHash pt \<noteq> [] \<and> (case date (pdCreatedAt pt) of None \<Rightarrow> False | Some ts \<Rightarrow> now - ts \<ge> CREATE_TX_STATUS_PROBE_MIN_AGE_MS)
             \<and> prdFailed R (pdTxHash pt) then [ClearAction] else [])
     | (ExecutePending, Some row) \<Rightarrow>
         (if wpStatus row = ExecutedStatus then [ClearAction]
          else if truthyText (wpLastExecuteError row) \<and> wpLastExecuteTxHash row = Some (pdTxHash pt) then [ClearAction]
          else untrackIf date now pt row)
     | (ApprovePending, Some row) \<Rightarrow>
         (if wpStatus row \<noteq> PendingStatus then [ClearAction]
          else if truthyText (wpLastApproveError row) \<and> wpLastApproveTxHash row = Some (pdTxHash pt) then [ClearAction]
          else untrackIf date now pt row @
            (if wpApprovalCount row > orDefault (prdPrevCounts R (pdProposal pt)) (wpApprovalCount row)
                \<and> pdSigner pt \<in> set (prdApprovers R (pdProposal pt)) then [ClearAction] else []))
     | _ \<Rightarrow> [])"

definition applyAction :: "(string \<Rightarrow> int option) \<Rightarrow> int \<Rightarrow> pendingTx \<Rightarrow> pendingAction \<Rightarrow> pendingTx list \<Rightarrow> pendingTx list" where
  "applyAction date now pt action raw = (case action of
       ClearAction \<Rightarrow> clearPendingTx date now (pdContract pt) (pdProposal pt) (pdKind pt) (Some (pdSigner pt)) raw
     | MarkUntrackedAction \<Rightarrow> flagPendingTx date now (pdContract pt) (pdProposal pt) (pdKind pt) (pdTxHash pt) UntrackedFlag raw)"

definition reconcilePendingTxs ::
  "(string \<Rightarrow> int option) \<Rightarrow> int \<Rightarrow> passReads \<Rightarrow> webProposal list \<Rightarrow> pendingTx list \<Rightarrow> pendingTx list \<Rightarrow> pendingTx list" where
  "reconcilePendingTxs date now R rows pending raw =
     fold (\<lambda>pt. fold (applyAction date now pt) (reconcileActions date now R rows pt)) pending raw"

text \<open>One refresh of a vault's page: expired records go, the others are held against the rows.\<close>

definition refreshPending ::
  "(string \<Rightarrow> int option) \<Rightarrow> int \<Rightarrow> passReads \<Rightarrow> string \<Rightarrow> webProposal list \<Rightarrow> pendingTx list \<Rightarrow> pendingTx list" where
  "refreshPending date now R contract rows raw =
     (let pruned = prunePendingTxs date now raw
      in reconcilePendingTxs date now R rows (getPendingTxsForContract date now contract pruned) pruned)"

section \<open>The lock\<close>

record txLock =
  tlLocked :: bool
  tlReason :: "string option"
  tlTxHash :: "string option"

definition NOT_LOCKED :: txLock where
  "NOT_LOCKED = \<lparr>tlLocked = False, tlReason = None, tlTxHash = None\<rparr>"

definition lockable :: "webProposal list \<Rightarrow> pendingTx \<Rightarrow> bool" where
  "lockable proposals pt \<longleftrightarrow> pdKind pt \<in> {CreatePending, ApprovePending, ExecutePending} \<and>
     (case indexedBy proposals (pdProposal pt) of None \<Rightarrow> True | Some p \<Rightarrow> wpStatus p = PendingStatus)"

fun othersLock :: "webProposal list \<Rightarrow> txLock" where
  "othersLock [] = NOT_LOCKED"
| "othersLock (p # ps) =
     (if wpStatus p \<noteq> PendingStatus then othersLock ps
      else if truthyText (wpLastApproveTxHash p) \<and> \<not> truthyText (wpLastApproveError p)
        then \<lparr>tlLocked = True, tlReason = Some ''Another signer's approve is awaiting indexer confirmation.'', tlTxHash = wpLastApproveTxHash p\<rparr>
      else if truthyText (wpLastExecuteTxHash p) \<and> \<not> truthyText (wpLastExecuteError p)
        then \<lparr>tlLocked = True, tlReason = Some ''Another signer's execute is awaiting indexer confirmation.'', tlTxHash = wpLastExecuteTxHash p\<rparr>
      else othersLock ps)"

definition contractTxLock :: "string option \<Rightarrow> pendingTx list \<Rightarrow> webProposal list \<Rightarrow> txLock" where
  "contractTxLock contract pendingTxs proposals =
     (if \<not> truthyText contract then NOT_LOCKED
      else case find (lockable proposals) pendingTxs of
        Some pt \<Rightarrow> \<lparr>tlLocked = True, tlReason = Some ''Your previous transaction is awaiting indexer confirmation.'',
          tlTxHash = (if pdTxHash pt = [] then None else Some (pdTxHash pt))\<rparr>
      | None \<Rightarrow> othersLock proposals)"


section \<open>Rows for transactions that are not indexed yet\<close>

text \<open>The type in a summary is the text the form wrote, a name of \<open>TxType\<close>.\<close>

definition synthesizePendingProposal :: "pendingTx \<Rightarrow> webProposal result" where
  "synthesizePendingProposal pt =
     (let receivers = map (\<lambda>(i, a, n). \<lparr>urIndex = int i, urAddress = a, urAmount = n\<rparr>)
            (List.enumerate 0 (case pdSummary pt of None \<Rightarrow> [] | Some x \<Rightarrow> psReceivers x))
      in andThen (if receivers \<noteq> [] then andThen (sumReceiverAmounts receivers) (\<lambda>n. Inr (Some (intToString n))) else Inr None) (\<lambda>total.
         Inr \<lparr>wpProposalHash = pdProposal pt, wpProposer = (if pdSigner pt = [] then None else Some (pdSigner pt)), wpToAddress = None,
           wpTokenId = None, wpTxType = webNormalizeTxType (Option.bind (pdSummary pt) psTxType), wpData = None, wpNonce = Option.bind (pdSummary pt) psNonce,
           wpConfigNonce = Option.bind (pdSummary pt) psConfigNonce, wpExpirySlot = Option.bind (pdSummary pt) psExpirySlot, wpGuardAddress = Some (pdContract pt),
           wpMemo = None, wpMemoHash = None, wpProposalMemoMatch = None, wpMemoExecutionMatch = None,
           wpDestination = Option.bind (pdSummary pt) psDestination, wpChildAccount = Option.bind (pdSummary pt) psChildAccount, wpStatus = PendingStatus,
           wpInvalidReason = None, wpChildTargetIndexed = None, wpApprovalCount = 0, wpCreatedAtBlock = None,
           wpExecutedAtBlock = None, wpExecutionTxHash = None, wpLastApproveTxHash = None, wpLastExecuteTxHash = None,
           wpLastApproveError = None, wpLastExecuteError = None, wpCreatedAt = pdCreatedAt pt, wpUpdatedAt = pdCreatedAt pt,
           wpReceivers = receivers, wpRecipientCount = length receivers, wpTotalAmount = total\<rparr>))"

definition proposalsWithPending :: "webProposal list \<Rightarrow> pendingTx list \<Rightarrow> webProposal list result" where
  "proposalsWithPending proposals pendingTxs = andThen (traverse synthesizePendingProposal
     (filter (\<lambda>pt. pdKind pt = CreatePending \<and> pdProposal pt \<notin> wpProposalHash ` set proposals) pendingTxs))
     (\<lambda>synthetic. Inr (synthetic @ proposals))"

section \<open>The store as a machine\<close>

text \<open>One record per vault, proposal, kind and signer: every write keeps the keys distinct.\<close>

definition pendingInv :: "pendingTx list \<Rightarrow> bool" where
  "pendingInv raw \<longleftrightarrow> distinct (map pendingTxKey raw)"

inductive pendingStep :: "(string \<Rightarrow> int option) \<Rightarrow> pendingTx list \<Rightarrow> pendingTx list \<Rightarrow> bool" for date where
  save: "pendingStep date raw (savePendingTx date now r raw)"
| flag: "pendingStep date raw (flagPendingTx date now contract ph k txHash f raw)"
| clear: "pendingStep date raw (clearPendingTx date now contract ph k signer raw)"
| prune: "pendingStep date raw (prunePendingTxs date now raw)"
| refresh: "pendingStep date raw (refreshPending date now R contract rows raw)"

lemma key_withFlag [simp]: "pendingTxKey (withFlag f r) = pendingTxKey r"
  by (simp add: withFlag_def pendingTxKey_def split: pendingFlag.split)

lemma inv_prune: "pendingInv raw \<Longrightarrow> pendingInv (pruneStale date now raw)"
  by (simp add: pendingInv_def pruneStale_def distinct_map_filter)

lemma inv_save: "pendingInv raw \<Longrightarrow> pendingInv (savePendingTx date now r raw)"
  unfolding savePendingTx_def by (intro inv_prune) (auto simp: pendingInv_def distinct_map_filter)

lemma inv_mark: "pendingInv raw \<Longrightarrow> pendingInv (map (\<lambda>r. if Q r then withFlag f r else r) raw)"
proof -
  have "pendingTxKey \<circ> (\<lambda>r. if Q r then withFlag f r else r) = pendingTxKey" by auto
  then show "pendingInv raw \<Longrightarrow> ?thesis" by (simp add: pendingInv_def)
qed

lemma inv_flag: "pendingInv raw \<Longrightarrow> pendingInv (flagPendingTx date now contract ph k txHash f raw)"
  by (simp add: flagPendingTx_def Let_def inv_prune inv_mark)

lemma inv_clear: "pendingInv raw \<Longrightarrow> pendingInv (clearPendingTx date now contract ph k signer raw)"
  unfolding clearPendingTx_def by (intro inv_prune) (auto simp: pendingInv_def distinct_map_filter)

lemma inv_prunePending: "pendingInv raw \<Longrightarrow> pendingInv (prunePendingTxs date now raw)"
  by (simp add: prunePendingTxs_def Let_def inv_prune)

lemma inv_apply: "pendingInv raw \<Longrightarrow> pendingInv (applyAction date now pt action raw)"
  by (cases action) (simp_all add: applyAction_def inv_flag inv_clear)

lemma inv_actions: "pendingInv raw \<Longrightarrow> pendingInv (fold (applyAction date now pt) actions raw)"
  by (induction actions arbitrary: raw) (simp_all add: inv_apply)

lemma inv_reconcile: "pendingInv raw \<Longrightarrow> pendingInv (reconcilePendingTxs date now R rows pending raw)"
  unfolding reconcilePendingTxs_def by (induction pending arbitrary: raw) (simp_all add: inv_actions)

interpretation pendingStore: machine "\<lambda>raw. raw = []" "pendingStep date" pendingInv for date
proof unfold_locales
  show "pendingInv raw'" if "pendingInv raw" "pendingStep date raw raw'" for raw raw'
    using that(2,1) by (induction rule: pendingStep.induct)
      (simp_all add: inv_save inv_flag inv_clear inv_prunePending inv_reconcile refreshPending_def Let_def)
qed (simp add: pendingInv_def)

section \<open>A broadcast transaction locks until its outcome is known\<close>

text \<open>The outcome of a transaction is unknown while neither the rows nor the node show that it, or the action
  it carries out, has been applied, has failed or has become void.\<close>

definition outcomeUnknown :: "passReads \<Rightarrow> webProposal list \<Rightarrow> pendingTx \<Rightarrow> bool" where
  "outcomeUnknown R rows r \<longleftrightarrow> (case indexedBy rows (pdProposal r) of
       None \<Rightarrow> pdKind r = CreatePending \<longrightarrow> \<not> prdFailed R (pdTxHash r)
     | Some row \<Rightarrow> pdKind r \<noteq> CreatePending \<and> wpStatus row = PendingStatus \<and>
         (pdKind r = ExecutePending \<longrightarrow> \<not> (truthyText (wpLastExecuteError row) \<and> wpLastExecuteTxHash row = Some (pdTxHash r))) \<and>
         (pdKind r = ApprovePending \<longrightarrow> \<not> (truthyText (wpLastApproveError row) \<and> wpLastApproveTxHash row = Some (pdTxHash r))
            \<and> pdSigner r \<notin> set (prdApprovers R (pdProposal r))))"

lemma unknown_not_cleared: "outcomeUnknown R rows r \<Longrightarrow> ClearAction \<notin> set (reconcileActions date now R rows r)"
  by (cases "pdKind r"; cases "indexedBy rows (pdProposal r)") (auto simp: outcomeUnknown_def reconcileActions_def untrackIf_def)

definition sameTx :: "pendingTx \<Rightarrow> pendingTx \<Rightarrow> bool" where
  "sameTx r r' \<longleftrightarrow> r' = r \<or> r' = withFlag UntrackedFlag r"

lemma sameTx_key: "sameTx r r' \<Longrightarrow> pendingTxKey r' = pendingTxKey r"
  by (auto simp: sameTx_def)

lemma sameTx_matches: "sameTx r r' \<Longrightarrow> matchesTx contract ph k signer r' = matchesTx contract ph k signer r"
  by (auto simp: sameTx_def withFlag_def matchesTx_def)

lemma sameTx_flag: "sameTx r r' \<Longrightarrow> sameTx r (withFlag UntrackedFlag r')"
  by (auto simp: sameTx_def withFlag_def)

definition young :: "(string \<Rightarrow> int option) \<Rightarrow> int \<Rightarrow> pendingTx \<Rightarrow> bool" where
  "young date now r \<longleftrightarrow> (\<exists>t. date (pdCreatedAt r) = Some t \<and> now - t < UNTRACKED_PENDING_TX_TTL_MS)"

lemma young_fresh: "young date now r \<Longrightarrow> sameTx r r' \<Longrightarrow> freshTx date now r'"
  by (auto simp: young_def sameTx_def withFlag_def freshTx_def UNTRACKED_PENDING_TX_TTL_MS_def PENDING_TX_TTL_MS_def)

definition keeps :: "pendingTx \<Rightarrow> pendingTx list \<Rightarrow> bool" where
  "keeps r raw \<longleftrightarrow> (\<exists>r'\<in>set raw. sameTx r r')"

lemma keeps_prune: "young date now r \<Longrightarrow> keeps r raw \<Longrightarrow> keeps r (pruneStale date now raw)"
  by (auto simp: keeps_def pruneStale_def young_fresh)

lemma keeps_prunePending: "young date now r \<Longrightarrow> keeps r raw \<Longrightarrow> keeps r (prunePendingTxs date now raw)"
  by (simp add: prunePendingTxs_def Let_def keeps_prune)

lemma keeps_flag:
  assumes "young date now r" "keeps r raw"
  shows "keeps r (flagPendingTx date now contract ph k txHash UntrackedFlag raw)"
proof -
  obtain r' where r': "r' \<in> set raw" "sameTx r r'" using assms(2) by (auto simp: keeps_def)
  let ?flagged = "\<lambda>x. matchesTx contract ph k None x \<and> pdTxHash x = txHash \<and> \<not> flagOf UntrackedFlag x"
  have "keeps r (map (\<lambda>x. if ?flagged x then withFlag UntrackedFlag x else x) raw)"
    using r' sameTx_flag [OF r'(2)] by (auto simp: keeps_def)
  then show ?thesis using assms keeps_prune by (auto simp: flagPendingTx_def Let_def)
qed

lemma keeps_clear:
  assumes "young date now r" "keeps r raw" "\<not> matchesTx contract ph k signer r"
  shows "keeps r (clearPendingTx date now contract ph k signer raw)"
proof -
  have "keeps r (filter (\<lambda>x. \<not> matchesTx contract ph k signer x) raw)"
    using assms(2,3) by (auto simp: keeps_def sameTx_matches)
  then show ?thesis unfolding clearPendingTx_def by (rule keeps_prune [OF assms(1)])
qed

lemma keeps_actions:
  assumes "young date now r" "keeps r raw"
    and "ClearAction \<in> set actions \<Longrightarrow> \<not> matchesTx (pdContract pt) (pdProposal pt) (pdKind pt) (Some (pdSigner pt)) r"
  shows "keeps r (fold (applyAction date now pt) actions raw)"
  using assms(2,3)
proof (induction actions arbitrary: raw)
  case (Cons action actions)
  have "keeps r (applyAction date now pt action raw)"
    using Cons.prems keeps_flag [OF assms(1)] keeps_clear [OF assms(1)] by (cases action) (simp_all add: applyAction_def)
  then show ?case using Cons.IH Cons.prems(2) by simp
qed simp

lemma keeps_reconcile:
  assumes "young date now r"
    and "\<And>pt. pt \<in> set pending \<Longrightarrow> matchesTx (pdContract pt) (pdProposal pt) (pdKind pt) (Some (pdSigner pt)) r \<Longrightarrow>
      ClearAction \<notin> set (reconcileActions date now R rows pt)"
  shows "keeps r raw \<Longrightarrow> keeps r (reconcilePendingTxs date now R rows pending raw)"
  using assms(2) unfolding reconcilePendingTxs_def
proof (induction pending arbitrary: raw)
  case (Cons pt pending)
  have "keeps r (fold (applyAction date now pt) (reconcileActions date now R rows pt) raw)"
    by (rule keeps_actions [OF assms(1) Cons.prems(1)]) (use Cons.prems(2) [of pt] in auto)
  then show ?case using Cons.IH Cons.prems(2) by simp
qed simp

lemma same_key: "matchesTx (pdContract pt) (pdProposal pt) (pdKind pt) (Some (pdSigner pt)) r \<Longrightarrow> pendingTxKey pt = pendingTxKey r"
  by (simp add: matchesTx_def pendingTxKey_def)

lemma keeps_refresh:
  assumes inv: "pendingInv raw" and r: "r \<in> set raw" "young date now r" "outcomeUnknown R rows r"
  shows "keeps r (refreshPending date now R contract rows raw)"
proof -
  let ?pruned = "prunePendingTxs date now raw"
  have sub: "set ?pruned \<subseteq> set raw" by (auto simp: prunePendingTxs_def pruneStale_def Let_def)
  have "keeps r raw" using r(1) by (auto simp: keeps_def sameTx_def)
  then have k: "keeps r ?pruned" by (rule keeps_prunePending [OF r(2)])
  have "ClearAction \<notin> set (reconcileActions date now R rows pt)"
    if "pt \<in> set (getPendingTxsForContract date now contract ?pruned)"
      "matchesTx (pdContract pt) (pdProposal pt) (pdKind pt) (Some (pdSigner pt)) r" for pt
  proof -
    have "pt \<in> set raw" using that(1) sub by (auto simp: getPendingTxsForContract_def getPendingTxs_def pruneStale_def)
    then have "pt = r" using inv same_key [OF that(2)] r(1) by (auto simp: pendingInv_def distinct_map inj_on_def)
    then show ?thesis using unknown_not_cleared [OF r(3)] by simp
  qed
  from keeps_reconcile [OF r(2) this k] show ?thesis by (simp add: refreshPending_def Let_def)
qed

text \<open>
  C38: The vault stays locked while a transaction is on its way, but not for ever. Take any state the store of
  pending transactions can get into and any record in it of a proposal, an approval or an execution (the
  deployment of a new vault locks nothing, as it is meant) that is less than twenty minutes old: after a refresh
  in which neither the indexer's rows nor the node show the outcome of its transaction, whatever else the
  refresh cleared or flagged, the page refuses to build another transaction for the vault. And no record of a
  transaction survives the day after its broadcast.
\<close>
theorem broadcast_locks_until_known:
  assumes reach: "(pendingStep date)\<^sup>*\<^sup>* [] raw" and r: "r \<in> set raw" "pdKind r \<noteq> DeployPending" "pdContract r = contract" "contract \<noteq> []"
    and age: "date (pdCreatedAt r) = Some t" "now - t < UNTRACKED_PENDING_TX_TTL_MS" and unknown: "outcomeUnknown R rows r"
  shows "tlLocked (contractTxLock (Some contract) (getPendingTxsForContract date now contract
      (refreshPending date now R contract rows raw)) rows)
    \<and> (\<forall>later. later - t \<ge> PENDING_TX_TTL_MS \<longrightarrow> r \<notin> set (getPendingTxs date later raw))"
proof
  have inv: "pendingInv raw" by (rule pendingStore.inv_reachable [OF reach refl])
  have y: "young date now r" using age by (simp add: young_def)
  obtain r' where r': "r' \<in> set (refreshPending date now R contract rows raw)" "sameTx r r'"
    using keeps_refresh [OF inv r(1) y unknown] by (auto simp: keeps_def)
  have same: "pdKind r' = pdKind r" "pdContract r' = pdContract r" "pdProposal r' = pdProposal r"
    using r'(2) by (auto simp: sameTx_def withFlag_def)
  have "r' \<in> set (getPendingTxsForContract date now contract (refreshPending date now R contract rows raw))"
    using r' young_fresh [OF y r'(2)] same r(3) by (simp add: getPendingTxsForContract_def getPendingTxs_def pruneStale_def)
  moreover have "lockable rows r'"
    using unknown r(2) by (cases "pdKind r") (auto simp: lockable_def same outcomeUnknown_def split: option.split_asm)
  ultimately have "find (lockable rows) (getPendingTxsForContract date now contract (refreshPending date now R contract rows raw)) \<noteq> None"
    by (auto simp: find_None_iff)
  then show "tlLocked (contractTxLock (Some contract) (getPendingTxsForContract date now contract
      (refreshPending date now R contract rows raw)) rows)"
    using r(4) by (auto simp: contractTxLock_def truthyText_def)
  show "\<forall>later. later - t \<ge> PENDING_TX_TTL_MS \<longrightarrow> r \<notin> set (getPendingTxs date later raw)"
    using age(1) by (auto simp: getPendingTxs_def pruneStale_def freshTx_def PENDING_TX_TTL_MS_def UNTRACKED_PENDING_TX_TTL_MS_def)
qed

end
