(* ===== verification/Owner_Rebuild.thy ===== *)
theory Owner_Rebuild
  imports Event_Rebuild Guard_Checks
begin

text \<open>
  The owner list rebuilt from events is the on-chain owner list. \<open>indexEvent\<close> is the form in which
  an event of the contract reaches the rebuild: its name in the \<open>events\<close> table of \<open>MinaGuard.ts\<close> and
  the fields of its struct as text.
\<close>

definition jField :: "field \<Rightarrow> json" where
  "jField f = JStr (fieldToString f)"

definition jKey :: "('m, 'w, 's) o1js \<Rightarrow> pubkey \<Rightarrow> json" where
  "jKey E pk = JStr (toBase58 E pk)"

definition jAmount :: "64 word \<Rightarrow> json" where
  "jAmount a = JStr (decimal (unat a))"

definition mkEvent :: "int option \<Rightarrow> string \<Rightarrow> (string \<times> json) list \<Rightarrow> indexedEvent" where
  "mkEvent h ty fs = \<lparr>eventType = ty, payload = JObj fs, blockHeight = h\<rparr>"

fun indexEvent :: "('m, 'w, 's) o1js \<Rightarrow> int option \<Rightarrow> event \<Rightarrow> indexedEvent" where
  "indexEvent E h (DeployEvent a) = mkEvent h ''deployed'' [(''guardAddress'', jKey E a)]"
| "indexEvent E h (SetupEvent c t n par) = mkEvent h ''setup''
     [(''ownersCommitment'', jField c), (''threshold'', jField t), (''numOwners'', jField n), (''parent'', jKey E par)]"
| "indexEvent E h (SetupOwnerEvent pk i) = mkEvent h ''setupOwner'' [(''owner'', jKey E pk), (''index'', jField i)]"
| "indexEvent E h (ProposalEvent ph pr tok ty d mh n cn ex ga dst ch) = mkEvent h ''proposal''
     [(''proposalHash'', jField ph), (''proposer'', jKey E pr), (''tokenId'', jField tok), (''txType'', jField ty),
      (''data'', jField d), (''memoHash'', jField mh), (''nonce'', jField n), (''configNonce'', jField cn),
      (''expirySlot'', jField ex), (''guardAddress'', jKey E ga), (''destination'', jField dst), (''childAccount'', jKey E ch)]"
| "indexEvent E h (ReceiverEvent ph r a) = mkEvent h ''receiver''
     [(''proposalHash'', jField ph), (''receiver'', jKey E r), (''amount'', jAmount a)]"
| "indexEvent E h (ApprovalEvent ph pk c ar nr) = mkEvent h ''approval''
     [(''proposalHash'', jField ph), (''approver'', jKey E pk), (''approvalCount'', jField c),
      (''approvalRoot'', jField ar), (''voteNullifierRoot'', jField nr)]"
| "indexEvent E h (ExecutionEvent ph ty r) = mkEvent h ''execution''
     [(''proposalHash'', jField ph), (''txType'', jField ty), (''root'', jField r)]"
| "indexEvent E h (OwnerChangeEvent ph pk ad n c cn) = mkEvent h ''ownerChange''
     [(''proposalHash'', jField ph), (''owner'', jKey E pk), (''added'', jField ad), (''newNumOwners'', jField n),
      (''newOwnersCommitment'', jField c), (''configNonce'', jField cn)]"
| "indexEvent E h (ThresholdChangeEvent ph t t' cn) = mkEvent h ''thresholdChange''
     [(''proposalHash'', jField ph), (''oldThreshold'', jField t), (''newThreshold'', jField t'), (''configNonce'', jField cn)]"
| "indexEvent E h (DelegateEvent ph d) = mkEvent h ''delegate'' [(''proposalHash'', jField ph), (''delegate'', jKey E d)]"
| "indexEvent E h (CreateChildEvent ph par) = mkEvent h ''createChild''
     [(''proposalHash'', jField ph), (''parentAddress'', jKey E par)]"
| "indexEvent E h (ReclaimChildEvent ph par a) = mkEvent h ''reclaimChild''
     [(''proposalHash'', jField ph), (''parentAddress'', jKey E par), (''amount'', jAmount a)]"
| "indexEvent E h (EnableChildMultiSigEvent ph par en cn) = mkEvent h ''enableChildMultiSig''
     [(''proposalHash'', jField ph), (''parentAddress'', jKey E par), (''enabled'', jField en), (''configNonce'', jField cn)]"
| "indexEvent E h (CreateChildConfigEvent ph ch c t n) = mkEvent h ''createChildConfig''
     [(''proposalHash'', jField ph), (''childAccount'', jKey E ch), (''ownersCommitment'', jField c),
      (''threshold'', jField t), (''numOwners'', jField n)]"
| "indexEvent E h (CreateChildOwnerEvent ph pk i) = mkEvent h ''createChildOwner''
     [(''proposalHash'', jField ph), (''owner'', jKey E pk), (''index'', jField i)]"

lemma mkEvent_simps [simp]:
  "eventType (mkEvent h ty fs) = ty" "payload (mkEvent h ty fs) = JObj fs" "blockHeight (mkEvent h ty fs) = h"
  by (simp_all add: mkEvent_def)

lemma fieldToString_nonempty [simp]: "fieldToString f \<noteq> []"
  by (simp add: fieldToString_def intToString_def)

lemma payloadField_field [simp]:
  "map_of fs k = Some (jField f) \<Longrightarrow> payloadField (JObj fs) k = Some (fieldToString f)"
  by (simp add: payloadField_def jField_def)

lemma base58_long: "base58Laws E \<Longrightarrow> 10 < length (toBase58 E pk)"
  by (simp add: base58Laws_def)

lemma base58_nonempty: "base58Laws E \<Longrightarrow> toBase58 E pk \<noteq> []"
  using base58_long [of E pk] by auto

lemma payloadKey_key:
  "base58Laws E \<Longrightarrow> map_of fs k = Some (jKey E pk) \<Longrightarrow> payloadKey E (JObj fs) k = fromBase58 E (toBase58 E pk)"
  using base58_nonempty [of E pk] base58_long [of E pk] by (simp add: payloadKey_def payloadField_def jKey_def)

lemma base58_decode:
  "base58Laws E \<Longrightarrow> onCurve E (pkX pk) \<Longrightarrow> fromBase58 E (toBase58 E pk) = Some pk"
  "base58Laws E \<Longrightarrow> fromBase58 E (toBase58 E emptyKey) = None"
  by (simp_all add: base58Laws_def)

lemma jsNumber_field [simp]: "0 \<le> f \<Longrightarrow> jsNumber (fieldToString f) = Some f"
  by (simp add: fieldToString_decimal)

section \<open>Setup slots\<close>

lemma mset_map_filter:
  "mset (List.map_filter f xs) = image_mset (\<lambda>x. the (f x)) (filter_mset (\<lambda>x. f x \<noteq> None) (mset xs))"
  by (simp add: List.map_filter_def comp_def)

text \<open>The slot an event fills, if it fills one.\<close>

definition slotEntry :: "('m, 'w, 's) o1js \<Rightarrow> indexedEvent \<Rightarrow> (int option \<times> pubkey) option" where
  "slotEntry E e = (if eventType e \<noteq> ''setupOwner'' then None
     else case payloadKey E (payload e) ''owner'' of None \<Rightarrow> None
       | Some pk \<Rightarrow> map_option (\<lambda>i. (jsNumber i, pk)) (payloadField (payload e) ''index''))"

lemma foldl_slotStep:
  assumes "distinct (map fst (sl @ List.map_filter (slotEntry E) es))"
    and "\<And>e. e \<in> set es \<Longrightarrow> eventType e = ''setupOwner'' \<Longrightarrow> payloadField (payload e) ''index'' \<noteq> None"
  shows "foldl (slotStep E) (sl, un) es = (sl @ List.map_filter (slotEntry E) es, un)"
  using assms
proof (induction es arbitrary: sl)
  case (Cons e es)
  show ?case
  proof (cases "slotEntry E e")
    case None
    then have "slotStep E (sl, un) e = (sl, un)"
      using Cons.prems(2) [of e] by (auto simp: slotStep_def slotEntry_def split: if_splits option.splits)
    then show ?thesis using Cons None by (simp add: List.map_filter_simps)
  next
    case (Some kv)
    then have "slotStep E (sl, un) e = (sl @ [kv], un)"
      using Cons.prems by (cases kv) (auto simp: slotStep_def slotEntry_def addFirst_def List.map_filter_simps image_iff
          split: if_splits option.splits)
    then show ?thesis using Cons.IH [of "sl @ [kv]"] Cons.prems Some by (simp add: List.map_filter_simps)
  qed
qed (simp add: List.map_filter_simps)

lemma setupOwnersFrom_permuted:
  assumes "mset events = mset (es @ others)" "\<And>e. e \<in> set others \<Longrightarrow> eventType e \<noteq> ''setupOwner''"
    and "List.map_filter (slotEntry E) es = map (\<lambda>i. (Some (int i), xs ! i)) [0..<length xs]" "xs \<noteq> []"
    and "\<And>e. e \<in> set es \<Longrightarrow> payloadField (payload e) ''index'' \<noteq> None"
  shows "setupOwnersFrom E events = xs"
proof -
  let ?kv = "map (\<lambda>i. (Some (int i), xs ! i)) [0..<length xs]"
  let ?f = "\<lambda>(k, _). slotOrder k"
  have "mset (List.map_filter (slotEntry E) events) = mset (List.map_filter (slotEntry E) (es @ others))"
    by (simp only: mset_map_filter assms(1))
  moreover have "List.map_filter (slotEntry E) others = []"
    using assms(2) by (simp add: List.map_filter_def filter_empty_conv slotEntry_def)
  moreover have "List.map_filter (slotEntry E) (es @ others) = List.map_filter (slotEntry E) es @ List.map_filter (slotEntry E) others"
    by (simp add: List.map_filter_def)
  ultimately have m: "mset (List.map_filter (slotEntry E) events) = mset ?kv"
    using assms(3) by (metis append_Nil2)
  have d: "distinct (map fst ?kv)" by (simp add: comp_def distinct_map inj_on_def)
  then have "distinct (map fst (List.map_filter (slotEntry E) events))"
    using m by (metis mset_eq_imp_distinct_iff mset_map)
  moreover have "\<And>e. e \<in> set events \<Longrightarrow> eventType e = ''setupOwner'' \<Longrightarrow> payloadField (payload e) ''index'' \<noteq> None"
    using assms(2,5) mset_eq_setD [OF assms(1)] by auto
  ultimately have "foldl (slotStep E) ([], []) events = (List.map_filter (slotEntry E) events, [])"
    using foldl_slotStep [of "[]" E events "[]"] by simp
  moreover have "sort_key ?f (List.map_filter (slotEntry E) events) = ?kv"
  proof (rule sort_key_inj_key_eq [OF m])
    show "inj_on ?f (set (List.map_filter (slotEntry E) events))"
      using mset_eq_setD [OF m] by (auto simp: inj_on_def slotOrder_def)
    show "sorted (map ?f ?kv)" by (simp add: comp_def slotOrder_def sorted_wrt_map sorted_wrt_upt)
  qed
  moreover have "List.map_filter (slotEntry E) events \<noteq> []" using m assms(4) by (metis length_0_conv length_map length_upt minus_nat.diff_0 mset_zero_iff size_mset)
  ultimately show ?thesis by (simp add: setupOwnersFrom_def map_nth comp_def)
qed

lemma setup_entries:
  assumes b: "base58Laws E" and g: "generatorOnCurve E" and c: "assertCoherentSetupOwners E arr num = Inr ()"
    and n: "0 \<le> num" "num \<le> int MAX_OWNERS" "length arr = MAX_OWNERS"
  shows "List.map_filter (slotEntry E) (map (indexEvent E h) (ownerEvents SetupOwnerEvent arr num)) =
    map (\<lambda>i. (Some (int i), activeOwners arr num ! i)) [0..<length (activeOwners arr num)]"
proof -
  let ?ev = "\<lambda>i. indexEvent E h (SetupOwnerEvent (if int i < num then arr ! i else emptyKey) (int i))"
  have len: "length (activeOwners arr num) = nat num" using n by (simp add: activeOwners_def)
  have curve: "onCurve E (pkX (arr ! i))" if "int i < num" for i
  proof -
    have "arr ! i \<in> set (activeOwners arr num)" using that n by (auto simp: activeOwners_def in_set_conv_nth intro!: exI [of _ i])
    then show ?thesis using c assertCoherentSetupOwners_Inr [OF g] by (auto simp: validOwnerList_def)
  qed
  have slot: "slotEntry E (?ev i) = (if i < nat num then Some (Some (int i), activeOwners arr num ! i) else None)" for i
    using curve [of i] by (auto simp: slotEntry_def payloadKey_key [OF b] base58_decode [OF b] activeOwners_def)
  have split: "[0..<MAX_OWNERS] = [0..<nat num] @ [nat num..<MAX_OWNERS]"
    using n upt_add_eq_append [of 0 "nat num" "MAX_OWNERS - nat num"] by simp
  have "List.map_filter (slotEntry E) (map (indexEvent E h) (ownerEvents SetupOwnerEvent arr num)) =
      List.map_filter (\<lambda>i. slotEntry E (?ev i)) [0..<MAX_OWNERS]"
    by (simp add: ownerEvents_def List.map_filter_def filter_map comp_def Let_def)
  also have "\<dots> = map (\<lambda>i. (Some (int i), activeOwners arr num ! i)) [0..<nat num]"
    unfolding slot split by (simp add: List.map_filter_def filter_empty_conv filter_id_conv)
  finally show ?thesis by (simp add: len)
qed

section \<open>Owner changes\<close>

text \<open>A history of owner changes: the configuration nonce each one set, the owner, whether it was
  added, and the list it led to.\<close>

type_synonym ownerChange = "field \<times> pubkey \<times> bool \<times> pubkey list"

fun ownerRun :: "pubkey list \<Rightarrow> ownerChange list \<Rightarrow> pubkey list option" where
  "ownerRun xs [] = Some xs"
| "ownerRun xs ((cfg, pk, isAdd, ys) # cs) =
     (if (if isAdd then \<exists>i \<le> length xs. ys = spliceAt i pk xs else ys = filter (\<lambda>q. q \<noteq> pk) xs)
      then ownerRun ys cs else None)"

definition changeEvent :: "('m, 'w, 's) o1js \<Rightarrow> (field \<Rightarrow> int option) \<Rightarrow> (field \<Rightarrow> field) \<Rightarrow> ownerChange \<Rightarrow> indexedEvent" where
  "changeEvent E heights hashes = (\<lambda>(cfg, pk, isAdd, ys). indexEvent E (heights cfg)
     (OwnerChangeEvent (hashes cfg) pk (boolToField isAdd) (int (length ys)) (computeOwnerChain E ys) cfg))"

lemma takeWhile_digits: "takeWhile isDigit (decimal n @ CHR ''|'' # s) = decimal n"
  using decimal_digits [of n] by (simp add: takeWhile_append list_all_iff isDigit_def)

lemma changeEvent_simps [simp]:
  "eventType (changeEvent E hts hs c) = ''ownerChange''" "isOwnerChange (changeEvent E hts hs c)"
  "0 \<le> fst c \<Longrightarrow> nonceOf (changeEvent E hts hs c) = fst c"
  by (cases c; simp add: changeEvent_def isOwnerChange_def nonceOf_def)+

lemma changeKey_nonce:
  "0 \<le> fst c \<Longrightarrow> takeWhile isDigit (changeKey (changeEvent E hts hs c)) = fieldToString (fst c)"
  by (cases c) (simp add: changeEvent_def changeKey_def textOr_def fieldToString_decimal takeWhile_digits)

lemma foldl_addFirst:
  "distinct (map fst m @ map f es) \<Longrightarrow> foldl (\<lambda>m e. addFirst (f e) e m) m es = m @ map (\<lambda>e. (f e, e)) es"
  by (induction es arbitrary: m) (auto simp: addFirst_def)

lemma orderedChanges_permuted:
  assumes m: "mset (filter isOwnerChange events) = mset (map (changeEvent E hts hs) cs)"
    and inc: "sorted_wrt (<) (map fst cs)" and nn: "\<And>c. c \<in> set cs \<Longrightarrow> 0 \<le> fst c"
  shows "orderedChanges events = map (changeEvent E hts hs) cs"
proof -
  have dm: "distinct (map fst cs)" using inc by (simp add: strict_sorted_iff)
  then have inj: "inj_on fst (set cs)" by (simp add: distinct_map)
  have keys: "distinct (map changeKey (map (changeEvent E hts hs) cs))"
  proof -
    have "map (takeWhile isDigit) (map changeKey (map (changeEvent E hts hs) cs)) = map fieldToString (map fst cs)"
      using nn by (simp add: changeKey_nonce)
    moreover have "distinct (map fieldToString (map fst cs))"
      using dm by (subst distinct_map) (auto intro: inj_onI)
    ultimately have "distinct (map (takeWhile isDigit) (map changeKey (map (changeEvent E hts hs) cs)))" by (simp only:)
    then show ?thesis unfolding distinct_map by blast
  qed
  then have "distinct (map changeKey (filter isOwnerChange events))" using m by (metis mset_eq_imp_distinct_iff mset_map)
  then have all: "map snd (foldl (\<lambda>m e. addFirst (changeKey e) e m) [] (filter isOwnerChange events)) = filter isOwnerChange events"
    using foldl_addFirst [of "[]" changeKey "filter isOwnerChange events"] by (simp add: comp_def)
  have nonces: "map nonceOf (map (changeEvent E hts hs) cs) = map fst cs" using nn by simp
  show ?thesis
    unfolding orderedChanges_def all
  proof (rule sort_key_inj_key_eq [OF m])
    show "sorted (map nonceOf (map (changeEvent E hts hs) cs))" unfolding nonces using inc by (simp add: strict_sorted_iff)
    show "inj_on nonceOf (set (filter isOwnerChange events))"
      using mset_eq_setD [OF m] inj nn by (auto simp: inj_on_def)
  qed
qed

lemma digitChar_one: "digitChar 1 = CHR ''1''"
  by code_simp

lemma replay_changes:
  assumes "base58Laws E" "collisionFree E"
  shows "ownerRun xs cs = Some zs \<Longrightarrow> (\<And>c. c \<in> set cs \<Longrightarrow> onCurve E (pkX (fst (snd c)))) \<Longrightarrow>
    foldl (applyOwnerChange E) xs (map (changeEvent E hts hs) cs) = zs"
proof (induction cs arbitrary: xs)
  case (Cons c cs)
  obtain cfg pk isAdd ys where c: "c = (cfg, pk, isAdd, ys)" by (cases c)
  have pk: "fromBase58 E (toBase58 E pk) = Some pk" using Cons.prems(2) [of c] c base58_decode(1) [OF assms(1)] by simp
  have one: "fieldToString 1 = ''1''" by (simp add: fieldToString_decimal decimal.simps digitChar_one [simplified])
  have "applyOwnerChange E xs (changeEvent E hts hs c) = ys"
  proof (cases isAdd)
    case True
    then obtain i where i: "i \<le> length xs" "ys = spliceAt i pk xs" using Cons.prems(1) c by (auto split: if_splits)
    then obtain j where j: "insertPositionFor E xs pk (fieldToString (computeOwnerChain E ys)) = Some j"
      using insertPositionFor_None [of E xs pk _ i] by fastforce
    then have "spliceAt j pk xs = ys" by (rule insertPositionFor_unique [OF assms(2)]) simp
    then show ?thesis using True j pk one
      by (simp add: c changeEvent_def applyOwnerChange_def payloadKey_key [OF assms(1)] boolToField_def)
  next
    case False
    then have "ys = filter (\<lambda>q. q \<noteq> pk) xs" using Cons.prems(1) c by (auto split: if_splits)
    moreover have "fieldToString 0 \<noteq> ''1''" using one by (metis fieldToString_eq zero_neq_one)
    ultimately show ?thesis using False pk
      by (simp add: c changeEvent_def applyOwnerChange_def payloadKey_key [OF assms(1)] boolToField_def jField_def
          removeOwner_def base58_inj [OF assms(1)])
  qed
  moreover have "ownerRun ys cs = Some zs" using Cons.prems(1) c by (simp split: if_splits)
  ultimately show ?case using Cons.IH Cons.prems(2) by simp
qed simp

text \<open>C15: However the events of a guard are delivered, the rebuilt owner list is the on-chain one: for
  every permutation of the setup slots the contract emitted, the owner changes with their increasing
  configuration nonces, and any events of other types, the rebuild returns the list that the changes
  led to, in its exact order.\<close>

theorem rebuild_owners_exact:
  assumes b: "base58Laws E" and cf: "collisionFree E" and g: "generatorOnCurve E"
    and ev: "mset events = mset (map (indexEvent E h) (ownerEvents SetupOwnerEvent arr num) @
        map (changeEvent E heights hashes) cs @ others)"
    and ot: "\<forall>e \<in> set others. eventType e \<noteq> ''setupOwner'' \<and> \<not> isOwnerChange e"
    and su: "assertCoherentSetupOwners E arr num = Inr ()" "0 < num" "num \<le> int MAX_OWNERS" "length arr = MAX_OWNERS"
    and inc: "sorted_wrt (<) (map fst cs)" and nn: "\<forall>c \<in> set cs. 0 \<le> fst c \<and> onCurve E (pkX (fst (snd c)))"
    and run: "ownerRun (activeOwners arr num) cs = Some owners"
  shows "rebuildOwners E events None = owners"
proof -
  let ?su = "map (indexEvent E h) (ownerEvents SetupOwnerEvent arr num)"
  have "setupOwnersFrom E events = activeOwners arr num"
  proof (rule setupOwnersFrom_permuted)
    show "mset events = mset (?su @ (map (changeEvent E heights hashes) cs @ others))" using ev by simp
    show "activeOwners arr num \<noteq> []" using su(2-4) by (auto simp: activeOwners_def MAX_OWNERS_def)
    show "List.map_filter (slotEntry E) ?su = map (\<lambda>i. (Some (int i), activeOwners arr num ! i)) [0..<length (activeOwners arr num)]"
      using su by (intro setup_entries [OF b g]) auto
  qed (use ot in \<open>auto simp: ownerEvents_def Let_def\<close>)
  moreover have "orderedChanges events = map (changeEvent E heights hashes) cs"
  proof (rule orderedChanges_permuted [OF _ inc])
    have "filter isOwnerChange ?su = []" by (auto simp: filter_empty_conv ownerEvents_def Let_def isOwnerChange_def)
    moreover have "filter isOwnerChange others = []" using ot by (auto simp: filter_empty_conv)
    moreover have "mset (filter isOwnerChange events) =
        mset (filter isOwnerChange (?su @ map (changeEvent E heights hashes) cs @ others))"
      by (simp only: mset_filter ev)
    moreover have "filter isOwnerChange (map (changeEvent E heights hashes) cs) = map (changeEvent E heights hashes) cs"
      by (simp add: filter_id_conv)
    ultimately show "mset (filter isOwnerChange events) = mset (map (changeEvent E heights hashes) cs)"
      by (simp only: filter_append append_Nil append_Nil2)
  qed (use nn in auto)
  ultimately show ?thesis
    using replay_changes [OF b cf run] nn by (simp add: rebuildOwners_def)
qed

text \<open>An owner change whose payload has no configuration nonce is ordered with nonce 0, before every
  change that has one, although it is documented to be replayed last; only a nonce that is present
  but is no number is ordered last.\<close>

theorem missing_nonce_sorts_first:
  assumes "payloadField (payload e) ''configNonce'' = None"
    and "payloadField (payload e') ''configNonce'' = Some (fieldToString n)" "0 < n"
  shows "nonceOf e = 0 \<and> nonceOf e < nonceOf e'"
  using assms by (simp add: nonceOf_def)

end
