(* ===== verification/Web_Reservation.thy ===== *)
theory Web_Reservation
  imports Web_Records Owner_Rebuild
begin

text \<open>
  The reservation of a child as the browser reads it back. Whoever calls \<open>reserveForParent\<close>, the owners and
  the threshold that are later shown to the approvers and passed to the setup of the child are the ones
  the child committed to, in their exact order, and they match a proposal exactly if its data is the hash
  the contract will compare with.
\<close>

lemma filter_upt_single: "i < n \<Longrightarrow> filter (\<lambda>j. j = i) [0..<n] = [i]"
proof (induction n)
  case (Suc n)
  have "filter (\<lambda>j. j = i) [0..<n] = []" if "i = n" using that by (simp add: filter_empty_conv)
  with Suc show ?case by (cases "i = n") (auto simp: less_Suc_eq)
qed simp

lemma single_of_mset: "mset xs = {#x#} \<Longrightarrow> xs = [x]"
  by simp

lemma filter_sub: "(\<And>x. Q x \<Longrightarrow> P x) \<Longrightarrow> filter Q (filter P xs) = filter Q xs"
  by (induction xs) auto

lemma reserve_Inr:
  assumes "reserveForParent E w child g par h thr num owners = Inr (g', evs, sends)"
  shows "0 < thr" "thr \<le> num" "num \<le> int MAX_OWNERS" "assertCoherentSetupOwners E owners num = Inr ()"
    "evs = CreateChildConfigEvent h child (computeSetupOwnersChain E owners num) thr num # ownerEvents (CreateChildOwnerEvent h) owners num"
    "reservedConfigHash g' = childConfigHash E (computeSetupOwnersChain E owners num) thr num"
  using assms by (auto simp: reserveForParent_def assertValidInitialGovernance_def lockPermissions_def Let_def split: if_splits)

definition reservationEvent :: "indexedEvent \<Rightarrow> bool" where
  "reservationEvent e \<longleftrightarrow> eventType e \<in> {''createChildConfig'', ''createChildOwner''}"

definition slotEvent :: "('m, 'w, 's) o1js \<Rightarrow> int option \<Rightarrow> field \<Rightarrow> pubkey list \<Rightarrow> field \<Rightarrow> nat \<Rightarrow> indexedEvent" where
  "slotEvent E b h owners num i = indexEvent E b (CreateChildOwnerEvent h (if int i < num then owners ! i else emptyKey) (int i))"

lemma owner_slots: "map (indexEvent E b) (ownerEvents (CreateChildOwnerEvent h) owners num) = map (slotEvent E b h owners num) [0..<MAX_OWNERS]"
  by (simp add: ownerEvents_def slotEvent_def Let_def)

lemma slot_index: "numberOfJson (jsGet (payload (slotEvent E b h owners num j)) ''index'') = Some (int j)"
  by (simp add: slotEvent_def numberOfJson_def jField_def)

lemma slot_type: "eventType (slotEvent E b h owners num j) = ''createChildOwner''"
  by (simp add: slotEvent_def)

lemma slot_found:
  assumes L: "mset L = mset (map (slotEvent E b h owners num) [0..<MAX_OWNERS])" and i: "i < MAX_OWNERS"
  shows "filter (\<lambda>e. numberOfJson (jsGet (payload e) ''index'') = Some (int i)) L = [slotEvent E b h owners num i]"
proof (rule single_of_mset)
  have "mset (filter (\<lambda>e. numberOfJson (jsGet (payload e) ''index'') = Some (int i)) L) =
      mset (filter (\<lambda>e. numberOfJson (jsGet (payload e) ''index'') = Some (int i)) (map (slotEvent E b h owners num) [0..<MAX_OWNERS]))"
    by (simp only: mset_filter L)
  also have "\<dots> = mset (map (slotEvent E b h owners num) (filter (\<lambda>j. j = i) [0..<MAX_OWNERS]))"
    by (simp only: filter_map o_def slot_index option.inject of_nat_eq_iff)
  finally show "mset (filter (\<lambda>e. numberOfJson (jsGet (payload e) ''index'') = Some (int i)) L) = {#slotEvent E b h owners num i#}"
    unfolding filter_upt_single [OF i] by simp
qed

lemma slotOwner_slot:
  assumes E: "base58Laws E" and L: "mset L = mset (map (slotEvent E b h owners num) [0..<MAX_OWNERS])" and i: "i < MAX_OWNERS"
    and o: "int i < num" "owners ! i \<noteq> emptyKey"
  shows "slotOwner (EMPTY_PUBKEY_B58 E) L i = Inr (toBase58 E (owners ! i))"
proof -
  have "jsGet (payload (slotEvent E b h owners num i)) ''owner'' = Some (JStr (toBase58 E (owners ! i)))"
    using o(1) by (simp add: slotEvent_def jKey_def)
  then show ?thesis
    unfolding slotOwner_def slot_found [OF L i] using base58_long [OF E, of "owners ! i"] base58_inj [OF E] o(2)
    by (simp add: EMPTY_PUBKEY_B58_def)
qed

lemma parse_reservation:
  assumes E: "soundEnv E" "base58Laws E"
    and ok: "reserveForParent E w child g par h thr num owners = Inr (g', evs, sends)" and len: "length owners = MAX_OWNERS"
    and evs: "mset (filter reservationEvent events) = mset (map (indexEvent E b) evs)"
  shows "parseChildConfigFromEvents E events (toBase58 E child) = Inr (Some (map (toBase58 E) (activeOwners owners num), thr))"
proof -
  note r = reserve_Inr [OF ok]
  let ?cfg = "indexEvent E b (CreateChildConfigEvent h child (computeSetupOwnersChain E owners num) thr num)"
  let ?slots = "map (slotEvent E b h owners num) [0..<MAX_OWNERS]"
  have all: "mset (filter reservationEvent events) = add_mset ?cfg (mset ?slots)"
    unfolding evs r(5) by (simp add: owner_slots del: indexEvent.simps)
  have part: "mset (filter Q events) = filter_mset Q (add_mset ?cfg (mset ?slots))" if "\<And>e. Q e \<Longrightarrow> reservationEvent e" for Q
    unfolding all [symmetric] mset_filter [symmetric] by (subst filter_sub) (auto intro: that)
  have none: "filter (\<lambda>e. eventType e = ''createChildConfig'') ?slots = []"
    "filter (\<lambda>e. eventType e = ''createChildOwner'') ?slots = ?slots"
    by (simp_all add: filter_map o_def slot_type)
  have c: "filter (\<lambda>e. eventType e = ''createChildConfig'') events = [?cfg]"
    by (rule single_of_mset, subst part) (simp_all add: reservationEvent_def mset_filter [symmetric] none del: mset_filter mset_map)
  have s: "mset (filter (\<lambda>e. eventType e = ''createChildOwner'') events) = mset ?slots"
    by (subst part) (simp_all add: reservationEvent_def mset_filter [symmetric] none del: mset_filter mset_map)
  have n: "nat num \<le> MAX_OWNERS" using r(2,3) by simp
  have act: "length (activeOwners owners num) = nat num" "\<And>i. i < nat num \<Longrightarrow> activeOwners owners num ! i = owners ! i"
    using n len by (simp_all add: activeOwners_def)
  have valid: "validOwnerList E (activeOwners owners num)"
    using r(4) by (simp add: assertCoherentSetupOwners_Inr [OF soundEnv_generator [OF E(1)]])
  have slot: "slotOwner (EMPTY_PUBKEY_B58 E) (filter (\<lambda>e. eventType e = ''createChildOwner'') events) i = Inr (toBase58 E (owners ! i))"
    if "i < nat num" for i
  proof (rule slotOwner_slot [OF E(2) s])
    have "owners ! i \<in> set (activeOwners owners num)" using that act nth_mem [of i "activeOwners owners num"] by simp
    then show "owners ! i \<noteq> emptyKey" using valid by (simp add: validOwnerList_def)
  qed (use that n in simp_all)
  have t: "traverse (slotOwner (EMPTY_PUBKEY_B58 E) (filter (\<lambda>e. eventType e = ''createChildOwner'') events)) [0..<nat num]
      = Inr (map (\<lambda>i. toBase58 E (owners ! i)) [0..<nat num])"
    by (rule traverse_total) (simp add: slot)
  have m: "map (\<lambda>i. toBase58 E (owners ! i)) [0..<nat num] = map (toBase58 E) (activeOwners owners num)"
    using act by (intro nth_equalityI) simp_all
  show ?thesis
    unfolding parseChildConfigFromEvents_def c using r(1-3) t m
    by (simp add: jKey_def jField_def numberOrZero_def numberOfJson_def)
qed

text \<open>What is shown of a reservation is what was reserved. Take any event list whose reservation events are,
  in any order and mixed with any other events, the ones a successful \<open>reserveForParent\<close> emitted. Then the
  browser reads back exactly the reserved owners in slot order and the reserved threshold, and it reports
  them as matching a proposal exactly if the proposal's data is the configuration hash the child stores,
  which is what the setup of the child compares with.\<close>

theorem reservation_round_trip:
  assumes E: "soundEnv E" "base58Laws E"
    and ok: "reserveForParent E w child g par h thr num owners = Inr (g', evs, sends)" and len: "length owners = MAX_OWNERS"
    and evs: "mset (filter reservationEvent events) = mset (map (indexEvent E b) evs)"
  shows "loadChildReservation E (Inr events) (toBase58 E child) d = Inr (
    if d = Some (fieldToString (reservedConfigHash g'))
    then MatchingReservation (map (toBase58 E) (activeOwners owners num)) thr events
    else MismatchingReservation (map (toBase58 E) (activeOwners owners num)) thr events)"
proof -
  note r = reserve_Inr [OF ok]
  have n: "nat num \<le> MAX_OWNERS" using r(2,3) by simp
  have act: "length (activeOwners owners num) = nat num" using n len by (simp add: activeOwners_def)
  have valid: "validOwnerList E (activeOwners owners num)"
    using r(4) by (simp add: assertCoherentSetupOwners_Inr [OF soundEnv_generator [OF E(1)]])
  have keys: "traverse (parseKey E) (map (toBase58 E) (activeOwners owners num)) = Inr (map id (activeOwners owners num))"
    using valid E(2) by (subst traverse_map, intro traverse_total) (auto simp: validOwnerList_def base58_decode)
  have big: "1000 < fieldOrder E" by (rule fieldLarge_pos [OF soundEnv_fieldLarge [OF E(1)]])
  then have small: "inField E thr" "inField E num" using r(1-3) by (simp_all add: inField_def MAX_OWNERS_def)
  have "computeCreateChildConfigHash E (map (toBase58 E) (activeOwners owners num)) thr True =
      Inr (fieldToString (computeSetupOwnersChain E owners num), fieldToString (reservedConfigHash g'))"
    using keys act small r(1,2)
    by (simp add: computeCreateChildConfigHash_def computeSetupOwnersChain_active getCommitment_def r(6) Let_def)
  then show ?thesis
    by (simp add: loadChildReservation_def parse_reservation [OF E ok len evs])
qed

end
