(* ===== verification/Web_Offline.thy ===== *)
theory Web_Offline
  imports Web_Checks Web_Reservation Offline_Handlers
begin

text \<open>
  The requests that the browser exports for the offline command line (\<open>ui/lib/offline-signing.ts\<close>). The
  accounts come from the node, the stores as a verified checkpoint from the worker, the fee from the pool. A
  request is the bundle that \<open>Offline_Bundle\<close> reads; \<open>xeRead\<close> is the reading of the node's account by its
  members, of which those that the command line does not read are left out. An address without an account
  has the value null in the request, which the command line skips; here it has no entry.
\<close>

section \<open>Addresses, network and accounts\<close>

definition validMinaAddress :: "string \<Rightarrow> bool" where
  "validMinaAddress a \<longleftrightarrow> take 4 a = ''B62q'' \<and> length a = 55 \<and> list_all (\<lambda>c. c \<in> set BASE58_ALPHABET) (drop 4 a)"

definition assertValidMinaAddress :: "string \<Rightarrow> unit result" where
  "assertValidMinaAddress a = require (validMinaAddress a) ''Enter a valid Mina address (starts with B62q, 55 characters)'' (Inr ())"

definition minaNetwork :: "string \<Rightarrow> string result" where
  "minaNetwork networkId = (if networkId = ''mainnet'' then Inr ''mainnet''
     else if networkId = ''testnet'' \<or> networkId = ''devnet'' then Inr ''testnet''
     else Inl (AssertFail ''Unsupported offline signing network''))"

definition fetchGraphQLAccount :: "nodeResponse \<Rightarrow> json option result" where
  "fetchGraphQLAccount response = (case nrBody response of
       None \<Rightarrow> Inl (AssertFail ''Could not fetch account from the Mina node'')
     | Some body \<Rightarrow>
        require (nrOk response \<and> \<not> truthy (jsGet body ''errors'') \<and> truthy (jsGet body ''data''))
          ''Could not fetch account from the Mina node''
       (case nullish (jsPath body [''data'', ''account'']) None of None \<Rightarrow> Inr None
        | Some account \<Rightarrow>
           require (list_all (\<lambda>member. jsGet account member \<noteq> None) [''nonce'', ''balance'', ''zkappState''])
             ''Incomplete account snapshot from the Mina node'' (Inr (Some account))))"

definition checkAccountExists :: "nodeResponse \<Rightarrow> bool result" where
  "checkAccountExists response = andThen (fetchGraphQLAccount response) (\<lambda>account. Inr (account \<noteq> None))"

text \<open>The surroundings of an export: the network, the node's answers for addresses and the pool, the reading
  of an account, the exported checkpoint and the events of a child.\<close>

record exportEnv =
  xeNetworkId :: string
  xeAsk :: "string \<Rightarrow> nodeResponse"
  xeRead :: "json \<Rightarrow> bundleAccount"
  xePool :: nodeResponse
  xeCheckpoint :: "storeCheckpoint result"
  xeChildEvents :: "string \<Rightarrow> indexedEvent list result"

definition accountEntry :: "exportEnv \<Rightarrow> string \<Rightarrow> (string \<times> bundleAccount) list \<Rightarrow> (string \<times> bundleAccount) list result" where
  "accountEntry X address accs = andThen (fetchGraphQLAccount (xeAsk X address)) (\<lambda>account.
     Inr (case account of None \<Rightarrow> accs | Some a \<Rightarrow> jsSet address (xeRead X a) accs))"

text \<open>The accounts of the vault, the fee payer and, when there is one, the child.\<close>

definition exportAccounts :: "exportEnv \<Rightarrow> string \<Rightarrow> string \<Rightarrow> string option \<Rightarrow> (string \<times> bundleAccount) list result" where
  "exportAccounts X contract feePayer child =
     andThen (accountEntry X contract []) (\<lambda>accs.
     andThen (accountEntry X feePayer accs) (\<lambda>accs'.
     if truthyText child then accountEntry X (the child) accs' else Inr accs'))"

section \<open>Requests\<close>

definition buildOfflineProposeBundle ::
  "exportEnv \<Rightarrow> string \<Rightarrow> string \<Rightarrow> proposalInput \<Rightarrow> int \<Rightarrow> proposeBundle result" where
  "buildOfflineProposeBundle X contract feePayer input cfgNonce =
     andThen (minaNetwork (xeNetworkId X)) (\<lambda>net.
     andThen (xeCheckpoint X) (\<lambda>cp.
     andThen (exportAccounts X contract feePayer (piChildAccount input)) (\<lambda>accs.
     Inr \<lparr>bbVersion = OFFLINE_REQUEST_VERSION, bbCheckpoint = Some cp, bbNetwork = net, bbContract = contract,
       bbFeePayer = feePayer, bbFee = Some (JNum (resolveZkappFee (xePool X))), bbAccounts = accs, bbEvents = [],
       pbInput = input, pbConfigNonce = cfgNonce\<rparr>)))"

text \<open>The reserved configuration of a child, checked against the data of the proposal.\<close>

definition verifiedChild :: "('m, 'w, 's) o1js \<Rightarrow> exportEnv \<Rightarrow> bundleProposal \<Rightarrow> (string \<times> string list \<times> int \<times> indexedEvent list) option result" where
  "verifiedChild E X p =
     (if bpTxType p = Some ''createChild'' \<and> truthyText (bpChildAccount p)
      then andThen (fetchVerifiedChildConfig E (xeChildEvents X (the (bpChildAccount p))) (the (bpChildAccount p)) (bpData p)) (\<lambda>c.
        Inr (Some (the (bpChildAccount p), c)))
      else Inr None)"

definition buildOfflineApproveBundle ::
  "('m, 'w, 's) o1js \<Rightarrow> exportEnv \<Rightarrow> string \<Rightarrow> string \<Rightarrow> bundleProposal \<Rightarrow> approveBundle result" where
  "buildOfflineApproveBundle E X contract feePayer p =
     andThen (minaNetwork (xeNetworkId X)) (\<lambda>net.
     andThen (xeCheckpoint X) (\<lambda>cp.
     require (\<not> (bpTxType p = Some ''createChild'' \<and> \<not> truthyText (bpChildAccount p))) ''createChild proposal missing childAccount''
    (andThen (exportAccounts X contract feePayer (bpChildAccount p)) (\<lambda>accs.
     andThen (verifiedChild E X p) (\<lambda>child.
     Inr \<lparr>bbVersion = OFFLINE_REQUEST_VERSION, bbCheckpoint = Some cp, bbNetwork = net, bbContract = contract,
       bbFeePayer = feePayer, bbFee = Some (JNum (resolveZkappFee (xePool X))), bbAccounts = accs, bbEvents = [],
       abProposal = p, abChildAddress = map_option fst child,
       abChildOwners = map_option (\<lambda>(_, owners, _, _). JArr (map JStr owners)) child,
       abChildThreshold = map_option (\<lambda>(_, _, thr, _). JNum thr) child\<rparr>)))))"

text \<open>For an allocation the accounts of the recipients go into the request, for a transfer only whether they
  exist.\<close>

fun exportReceivers ::
  "exportEnv \<Rightarrow> bool \<Rightarrow> string list \<Rightarrow> (string \<times> bundleAccount) list \<times> (string \<times> json) list
     \<Rightarrow> ((string \<times> bundleAccount) list \<times> (string \<times> json) list) result" where
  "exportReceivers X allocating [] st = Inr st"
| "exportReceivers X allocating (a # as) (accs, exist) =
     (if allocating then andThen (accountEntry X a accs) (\<lambda>accs'. exportReceivers X allocating as (accs', jsSet a (JBool True) exist))
      else andThen (checkAccountExists (xeAsk X a)) (\<lambda>found. exportReceivers X allocating as (accs, jsSet a (JBool found) exist)))"

definition buildOfflineExecuteBundle ::
  "('m, 'w, 's) o1js \<Rightarrow> exportEnv \<Rightarrow> string \<Rightarrow> string \<Rightarrow> bundleProposal \<Rightarrow> string option \<Rightarrow> indexedEvent list option
     \<Rightarrow> executeBundle result" where
  "buildOfflineExecuteBundle E X contract feePayer p givenChild givenEvents =
     andThen (minaNetwork (xeNetworkId X)) (\<lambda>net.
     andThen (xeCheckpoint X) (\<lambda>cp.
     andThen (exportAccounts X contract feePayer (bpChildAccount p)) (\<lambda>accs0.
     andThen (exportReceivers X (bpTxType p = Some ''allocateChild'')
       (filter (\<lambda>a. a \<noteq> [] \<and> a \<noteq> EMPTY_PUBKEY_B58 E) (map brAddress (bpReceivers p))) (accs0, [])) (\<lambda>(accs, exist).
     let lifecycle = (bpTxType p \<in> {Some ''reclaimChild'', Some ''destroyChild'', Some ''enableChildMultiSig''} \<and>
           truthyText (bpChildAccount p) \<and> givenEvents = None)
     in andThen (if lifecycle then andThen (xeChildEvents X (the (bpChildAccount p))) (\<lambda>es. Inr (bpChildAccount p, Some es))
          else Inr (givenChild, givenEvents)) (\<lambda>(childAddress, childEvents).
        andThen (verifiedChild E X p) (\<lambda>child.
        Inr \<lparr>bbVersion = OFFLINE_REQUEST_VERSION, bbCheckpoint = Some cp, bbNetwork = net, bbContract = contract,
          bbFeePayer = feePayer, bbFee = Some (JNum (resolveZkappFee (xePool X))), bbAccounts = accs, bbEvents = [],
          abProposal = p, abChildAddress = (case child of None \<Rightarrow> childAddress | Some (a, _) \<Rightarrow> Some a),
          abChildOwners = map_option (\<lambda>(_, owners, _, _). JArr (map JStr owners)) child,
          abChildThreshold = map_option (\<lambda>(_, _, thr, _). JNum thr) child,
          ebReceiverAccountExists = Some exist,
          ebChildEvents = (case child of None \<Rightarrow> childEvents | Some (_, _, _, es) \<Rightarrow> Some es)\<rparr>))))))"

section \<open>Migrations of the verification key\<close>

record migrationBundle =
  mbNetwork :: string
  mbContract :: string
  mbFeePayer :: string
  mbAccounts :: "(string \<times> json) list"
  mbSourceHash :: string
  mbSourceVersion :: string
  mbTargetHash :: string
  mbTargetVersion :: string

definition migrationEligible :: "webSecurity \<Rightarrow> bool" where
  "migrationEligible s \<longleftrightarrow> wvAccountFound s \<and> truthyText (wvKeyHash s) \<and> truthyText (wvTxnVersion s) \<and>
     wvKinds s SetVerificationKey = Some ''Impossible'' \<and>
     wvTxnVersion s \<noteq> Some GUARD_SET_VERIFICATION_KEY_TXN_VERSION \<and>
     list_all (\<lambda>n. n = SetVerificationKey) (wvMismatches s)"

text \<open>The account is read again after the check and must still have the same key, permission and version.\<close>

definition unchangedSince :: "webSecurity \<Rightarrow> json option \<Rightarrow> bool" where
  "unchangedSince s account = (case account of None \<Rightarrow> False
     | Some a \<Rightarrow>
        (let permission = jsPath a [''permissions'', ''setVerificationKey'']
         in jsPath a [''verificationKey'', ''hash''] = map_option JStr (wvKeyHash s) \<and>
            Option.bind permission (\<lambda>p. jsGet p ''auth'') = Some (JStr ''Impossible'') \<and>
            (case Option.bind permission (\<lambda>p. jsGet p ''txnVersion'') of None \<Rightarrow> ''undefined'' | Some v \<Rightarrow> jsString v)
              = orDefault (wvTxnVersion s) []))"

definition buildOfflineMigrationBundle ::
  "exportEnv \<Rightarrow> string option \<Rightarrow> webSecurity option \<Rightarrow> string \<Rightarrow> string \<Rightarrow> migrationBundle result" where
  "buildOfflineMigrationBundle X configured status contract feePayer =
     (case expectedVkHashOf configured of
        None \<Rightarrow> Inl (AssertFail ''This release has no pinned, reviewed verification-key hash.'')
      | Some target \<Rightarrow> (case status of
          None \<Rightarrow> Inl (AssertFail ''This vault is not eligible for the release-guided verification-key migration.'')
        | Some s \<Rightarrow>
           require (migrationEligible s) ''This vault is not eligible for the release-guided verification-key migration.''
          (let version = orDefault (wvTxnVersion s) []
           in require (allDigits version \<and> parseDecimal version < parseDecimal GUARD_SET_VERIFICATION_KEY_TXN_VERSION)
             ''The vault transaction version is not older than this release.''
          (andThen (fetchGraphQLAccount (xeAsk X contract)) (\<lambda>vault.
           andThen (fetchGraphQLAccount (xeAsk X feePayer)) (\<lambda>payer.
           require (payer \<noteq> None \<and> unchangedSince s vault) ''Vault state changed while preparing the request. Refresh and retry.''
          (andThen (minaNetwork (xeNetworkId X)) (\<lambda>net.
           Inr \<lparr>mbNetwork = net, mbContract = contract, mbFeePayer = feePayer,
             mbAccounts = jsSet feePayer (the payer) [(contract, the vault)], mbSourceHash = orDefault (wvKeyHash s) [],
             mbSourceVersion = version, mbTargetHash = target, mbTargetVersion = GUARD_SET_VERIFICATION_KEY_TXN_VERSION\<rparr>))))))))"

section \<open>A migration request is never built\<close>

text \<open>The account query of this file asks for \<open>setVerificationKey\<close> without a selection, where the query of
  \<open>api.ts\<close> selects \<open>auth\<close> and \<open>txnVersion\<close>. A node answers a field by the members that are selected, or by
  an error. Either way there is no \<open>auth\<close> to compare.\<close>

definition withoutSelection :: "nodeResponse \<Rightarrow> bool" where
  "withoutSelection response \<longleftrightarrow> (\<forall>body. nrBody response = Some body \<longrightarrow> truthy (jsGet body ''errors'') \<or>
     jsPath body [''data'', ''account'', ''permissions'', ''setVerificationKey'', ''auth''] = None)"

lemma jsPath_append: "jsPath v (ks @ ks') = Option.bind (jsPath v ks) (\<lambda>w. jsPath w ks')"
  by (induction ks arbitrary: v) (auto split: option.split)

lemma migration_never_built:
  assumes "withoutSelection (xeAsk X contract)"
  shows "\<not> isOk (buildOfflineMigrationBundle X configured status contract feePayer)"
proof
  assume "isOk (buildOfflineMigrationBundle X configured status contract feePayer)"
  then obtain s account where f: "fetchGraphQLAccount (xeAsk X contract) = Inr account" and u: "unchangedSince s account"
    by (auto simp: buildOfflineMigrationBundle_def isOk_iff Let_def split: option.split_asm)
  obtain a where a: "account = Some a"
    and "Option.bind (jsPath a [''permissions'', ''setVerificationKey'']) (\<lambda>v. jsGet v ''auth'') = Some (JStr ''Impossible'')"
    using u by (auto simp: unchangedSince_def Let_def simp del: jsPath.simps split: option.split_asm)
  then obtain v where v: "jsPath a [''permissions'', ''setVerificationKey''] = Some v" "jsGet v ''auth'' = Some (JStr ''Impossible'')"
    by (auto simp: bind_eq_Some_conv simp del: jsPath.simps)
  obtain body where b: "nrBody (xeAsk X contract) = Some body" "\<not> truthy (jsGet body ''errors'')"
    "jsPath body [''data'', ''account''] = Some a"
    using f a by (auto simp: fetchGraphQLAccount_def nullish_def simp del: jsPath.simps split: option.split_asm json.split_asm if_split_asm)
  have "jsPath v [''auth''] = Some (JStr ''Impossible'')" using v(2) by simp
  then have "jsPath body ([''data'', ''account''] @ [''permissions'', ''setVerificationKey''] @ [''auth'']) \<noteq> None"
    unfolding jsPath_append using v(1) b(3) by (simp del: jsPath.simps)
  then show False using assms b by (auto simp: withoutSelection_def simp del: jsPath.simps)
qed

section \<open>An exported request is accepted\<close>

lemma minaNetwork_Inr: "minaNetwork n = Inr net \<Longrightarrow> net = (if n = ''mainnet'' then ''mainnet'' else ''testnet'')"
  by (auto simp: minaNetwork_def split: if_split_asm)

lemma network_accepted:
  assumes "minaNetwork n = Inr net" "networkAllowed domain n"
  shows "assertBundleNetwork net (Some (domainText domain)) = Inr ()"
  using assms by (cases domain) (auto simp: minaNetwork_def networkAllowed_def assertBundleNetwork_def domainText_def Let_def split: if_split_asm)

lemma exported_approve:
  assumes "buildOfflineApproveBundle E X contract feePayer p = Inr b"
  obtains net cp child where "minaNetwork (xeNetworkId X) = Inr net" "xeCheckpoint X = Inr cp" "bbVersion b = OFFLINE_REQUEST_VERSION"
    "bbCheckpoint b = Some cp" "bbNetwork b = net" "bbContract b = contract" "bbEvents b = []" "abProposal b = p"
    "bbFee b = Some (JNum (resolveZkappFee (xePool X)))" "verifiedChild E X p = Inr child"
    "abChildAddress b = map_option fst child"
    "abChildOwners b = map_option (\<lambda>(_, owners, _, _). JArr (map JStr owners)) child"
    "abChildThreshold b = map_option (\<lambda>(_, _, thr, _). JNum thr) child"
    "bpTxType p = Some ''createChild'' \<longrightarrow> truthyText (bpChildAccount p)"
  using assms unfolding buildOfflineApproveBundle_def andThen_Inr require_Inr by (elim exE conjE) (auto intro: that)

text \<open>The events the browser fetches for the child of a proposal contain the reservation that a successful
  \<open>reserveForParent\<close> emitted, in any order and mixed with any other events.\<close>

definition childReserved ::
  "('m, 'w, 's) o1js \<Rightarrow> exportEnv \<Rightarrow> bundleProposal \<Rightarrow> pubkey list \<Rightarrow> field \<Rightarrow> field \<Rightarrow> bool" where
  "childReserved E X p owners num thr \<longleftrightarrow> (\<exists>w child g par h g' evs sends events b.
     reserveForParent E w child g par h thr num owners = Inr (g', evs, sends) \<and> length owners = MAX_OWNERS \<and>
     bpChildAccount p = Some (toBase58 E child) \<and> xeChildEvents X (toBase58 E child) = Inr events \<and>
     mset (filter reservationEvent events) = mset (map (indexEvent E b) evs))"

text \<open>The command line accepts a list of reserved owners, and computes for it the hash the child stores.\<close>

lemma reserved_config_accepted:
  assumes E: "soundEnv E" "base58Laws E" and len: "length owners = MAX_OWNERS"
    and ok: "reserveForParent E w child g par h thr num owners = Inr (g', evs, sends)"
  shows "\<exists>texts. checkedChildConfigHash E (Some (JArr (map JStr (map (toBase58 E) (activeOwners owners num))))) (Some (JNum thr)) ReservedOrder
    = Inr (texts, thr, reservedConfigHash g')"
proof -
  let ?act = "activeOwners owners num"
  note r = reserve_Inr [OF ok]
  have n: "nat num \<le> MAX_OWNERS" using r(2,3) by simp
  have act: "length ?act = nat num" using n len by (simp add: activeOwners_def)
  have valid: "validOwnerList E ?act"
    using r(4) by (simp add: assertCoherentSetupOwners_Inr [OF soundEnv_generator [OF E(1)]])
  have key: "childOwnerKey E (JStr (toBase58 E pk)) = Inr (toBase58 E pk, pk)" if "pk \<in> set ?act" for pk
  proof -
    have "pk \<noteq> emptyKey" "parseKey E (toBase58 E pk) = Inr pk"
      using valid that E(2) by (auto simp: validOwnerList_def base58_decode)
    then show ?thesis by (simp add: childOwnerKey_def EMPTY_PUBKEY_B58_def base58_inj [OF E(2)])
  qed
  have keys: "traverse (childOwnerKey E) (map JStr (map (toBase58 E) ?act)) = Inr (map (\<lambda>pk. (toBase58 E pk, pk)) ?act)"
    by (subst map_map, subst traverse_map, rule traverse_total) (simp add: key)
  have big: "1000 < fieldOrder E" by (rule fieldLarge_pos [OF soundEnv_fieldLarge [OF E(1)]])
  then have small: "inField E thr" "inField E num" using r(1-3) by (simp_all add: inField_def MAX_OWNERS_def)
  have hash: "childConfigHash E (getCommitment E ?act) (fieldOfInt E thr) (fieldOfInt E (int (length ?act))) = reservedConfigHash g'"
    using small r(1,2) act by (simp add: computeSetupOwnersChain_active getCommitment_def r(6))
  have d: "distinct (map (\<lambda>(_, pk). pkX pk) (map (\<lambda>pk. (toBase58 E pk, pk)) ?act))"
    using valid by (simp add: validOwnerList_def o_def)
  have m: "map snd (map (\<lambda>pk. (toBase58 E pk, pk)) ?act) = ?act" by (simp add: o_def)
  have ne: "map JStr (map (toBase58 E) ?act) \<noteq> []" using act r(1,2) by auto
  have l: "length (map JStr (map (toBase58 E) ?act)) = length ?act" by simp
  show ?thesis
    using ne d hash act n r(1,2)
    by (intro exI [of _ "map (\<lambda>pk. (toBase58 E pk, pk)) ?act"])
      (simp only: checkedChildConfigHash_def option.case json.case keys andThen_simps m l Let_def configOrder.case require_True,
       simp)
qed

text \<open>The configuration of a child that the browser puts into a request is the reserved one, and the
  command line accepts it.\<close>

lemma exported_child:
  assumes E: "soundEnv E" "base58Laws E" and res: "childReserved E X p owners num thr"
    and t: "bpTxType p = Some ''createChild''" and v: "verifiedChild E X p = Inr child"
    and b: "abChildAddress b = map_option fst child" "abProposal b = p"
      "abChildOwners b = map_option (\<lambda>(_, owners, _, _). JArr (map JStr owners)) child"
      "abChildThreshold b = map_option (\<lambda>(_, _, thr, _). JNum thr) child"
      "bpTxType p = Some ''createChild'' \<longrightarrow> truthyText (bpChildAccount p)"
  shows "\<exists>r. assertCreateChildBundleConfig E b = Inr r"
    "abChildOwners b = Some (JArr (map JStr (map (toBase58 E) (activeOwners owners num))))" "abChildThreshold b = Some (JNum thr)"
proof -
  obtain w child' g par h g' evs sends events blk where
    ok: "reserveForParent E w child' g par h thr num owners = Inr (g', evs, sends)" and len: "length owners = MAX_OWNERS"
    and ca: "bpChildAccount p = Some (toBase58 E child')" and ev: "xeChildEvents X (toBase58 E child') = Inr events"
    and ms: "mset (filter reservationEvent events) = mset (map (indexEvent E blk) evs)"
    using res unfolding childReserved_def by blast
  have ty: "requireTxType (bpTxType p) = Inr CREATE_CHILD"
    using requireTxType_name [of CREATE_CHILD] by (simp add: t)
  have d: "bpData p = Some (fieldToString (reservedConfigHash g'))"
    and child: "child = Some (toBase58 E child', map (toBase58 E) (activeOwners owners num), thr, events)"
    using v b(5) t ca ev reservation_round_trip [OF E ok len ms, of "bpData p"]
    by (auto simp: verifiedChild_def fetchVerifiedChildConfig_def split: if_splits)
  show own: "abChildOwners b = Some (JArr (map JStr (map (toBase58 E) (activeOwners owners num))))"
    and thr: "abChildThreshold b = Some (JNum thr)" by (simp_all add: b child)
  obtain texts where x: "checkedChildConfigHash E (abChildOwners b) (abChildThreshold b) ReservedOrder = Inr (texts, thr, reservedConfigHash g')"
    unfolding own thr using reserved_config_accepted [OF E len ok] by blast
  show "\<exists>r. assertCreateChildBundleConfig E b = Inr r"
    unfolding assertCreateChildBundleConfig_def b(2) ty by (simp add: x b(1) child ca d)
qed

lemma restored_verified:
  assumes "storesVerified E stores chain" "rsOwners s = rsOwners stores"
    "getApprovalRoot E (rsApprovals s) = getApprovalRoot E (rsApprovals stores)"
    "getNullifierRoot E (rsNullifiers s) = getNullifierRoot E (rsNullifiers stores)"
  shows "storesVerified E s chain"
  using assms by (simp add: storesVerified_def)

text \<open>
  C18: An approval request that the browser exports is accepted offline and carries the vault over
  unchanged, for all ten types of proposal. If the worker exported the checkpoint from well-formed stores,
  the browser's network is the one of its circuits, the account snapshot in the request shows the state the
  stores were checked against, and, for a proposal to create a child, the child's events contain its
  reservation, then the command line accepts the version, the fee, the network and the child configuration
  of the request: the one thing it can still refuse is the memo, and it refuses it exactly if the memo is
  not the one the proposal commits to. It rebuilds from the request stores with the same owners, the same
  approval counts and the same roots, and a request to approve the creation of a child shows the reserved
  owners in their slots and the reserved threshold.
\<close>
theorem exported_request_accepted:
  assumes E: "soundEnv E" "base58Laws E" and stores: "storesOk E stores"
    and cp: "xeCheckpoint X = exportStoreCheckpoint E (Inr stores) (xeNetworkId X) contract"
    and out: "buildOfflineApproveBundle E X contract feePayer p = Inr b"
    and net: "networkAllowed (networkDomainName E) (xeNetworkId X)"
    and t: "bpTxType p = Some (txTypeName t)" and res: "t = CREATE_CHILD \<Longrightarrow> childReserved E X p owners num thr"
    and snap: "snapshotState E S (injectAccounts E S (bbAccounts b)) contract = Inr snap"
      "storesVerified E stores (chainState.truncate snap)"
  shows "\<exists>s. checkBundle E (ApproveBundle b) = andAlso (assertBundleMemo E p) (Inr (ApproveBundle b)) \<and>
    assertBundleNetwork (bbNetwork b) (Some (domainText (networkDomainName E))) = Inr () \<and>
    rebuildVerifiedStores E S (injectAccounts E S (bbAccounts b)) b = Inr s \<and> rsOwners s = rsOwners stores \<and>
    getCount E (rsApprovals s) = getCount E (rsApprovals stores) \<and>
    getApprovalRoot E (rsApprovals s) = getApprovalRoot E (rsApprovals stores) \<and>
    getNullifierRoot E (rsNullifiers s) = getNullifierRoot E (rsNullifiers stores) \<and>
    (t = CREATE_CHILD \<longrightarrow> abChildOwners b = Some (JArr (map JStr (map (toBase58 E) (activeOwners owners num)))) \<and>
       abChildThreshold b = Some (JNum thr))"
proof -
  obtain n c0 child where b: "minaNetwork (xeNetworkId X) = Inr n" "xeCheckpoint X = Inr c0" "bbVersion b = OFFLINE_REQUEST_VERSION"
    "bbCheckpoint b = Some c0" "bbNetwork b = n" "bbContract b = contract" "bbEvents b = []" "abProposal b = p"
    "bbFee b = Some (JNum (resolveZkappFee (xePool X)))" and v: "verifiedChild E X p = Inr child"
    and k: "abChildAddress b = map_option fst child"
      "abChildOwners b = map_option (\<lambda>(_, owners, _, _). JArr (map JStr owners)) child"
      "abChildThreshold b = map_option (\<lambda>(_, _, thr, _). JNum thr) child"
      "bpTxType p = Some ''createChild'' \<longrightarrow> truthyText (bpChildAccount p)"
    by (rule exported_approve [OF out])
  have tt: "requireTxType (bpTxType p) = Inr t" by (simp add: t)
  have cc: "bpTxType p = Some ''createChild''" if "t = CREATE_CHILD" using t that by simp
  have fee: "resolveBundleFee b = Inr (resolveZkappFee (xePool X))"
    using bounds_accepted(1) [OF fee_bounds(1) fee_bounds(2), where b = b] by (simp add: resolveBundleFee_def b(9))
  have config: "\<exists>r. assertCreateChildBundleConfig E b = Inr r"
  proof (cases "t = CREATE_CHILD")
    case True
    show ?thesis by (rule exported_child(1) [OF E res [OF True] cc [OF True] v k(1) b(8) k(2-4)])
  qed (simp add: assertCreateChildBundleConfig_def b(8) tt)
  have canon: "canonicalizeBundleTxType (ApproveBundle b) = Inr (ApproveBundle b)"
    using t by (simp add: canonicalizeBundleTxType_def b(8) tt flip: b(8))
  have check: "checkBundle E (ApproveBundle b) = andAlso (assertBundleMemo E p) (Inr (ApproveBundle b))"
    using config fee canon by (cases "assertBundleMemo E p") (auto simp: checkBundle_def bundleVersion_def b(3,8))
  let ?scope = "\<lparr>scNetwork = n, scAddress = contract\<rparr>"
  have c0: "c0 = checkpointStores E stores ?scope None"
    using b(2) cp minaNetwork_Inr [OF b(1)] by (simp add: exportStoreCheckpoint_def)
  have "case None of None \<Rightarrow> True | Some (k :: int) \<Rightarrow> isSafeInteger k \<and> 0 \<le> k" by simp
  from checkpoint_round_trip [OF E stores this, of ?scope] obtain s where s: "restoreStoreCheckpoint E c0 ?scope = Inr s"
    "rsOwners s = rsOwners stores" "getCount E (rsApprovals s) = getCount E (rsApprovals stores)"
    "getApprovalRoot E (rsApprovals s) = getApprovalRoot E (rsApprovals stores)"
    "getNullifierRoot E (rsNullifiers s) = getNullifierRoot E (rsNullifiers stores)" unfolding c0 by blast
  have ver: "requireRoots (chainState.truncate snap) = Inr ()" "assertStoresMatchChain E s (chainState.truncate snap) = Inr ()"
    using verified_iff [of "chainState.truncate snap" E s] restored_verified [OF snap(2) s(2,4,5)] by blast+
  have "storesFromOfflineRequest E (requestOf b) (chainState.truncate snap) = Inr s"
    using s(1) ver by (simp add: storesFromOfflineRequest_def requestOf_def b)
  then have rs: "rebuildVerifiedStores E S (injectAccounts E S (bbAccounts b)) b = Inr s"
    using snap(1) by (simp add: rebuildVerifiedStores_def b(6))
  have "t = CREATE_CHILD \<longrightarrow> abChildOwners b = Some (JArr (map JStr (map (toBase58 E) (activeOwners owners num)))) \<and>
       abChildThreshold b = Some (JNum thr)"
    using exported_child(2,3) [OF E res cc v k(1) b(8) k(2-4)] by blast
  then show ?thesis using check s rs network_accepted [OF b(1) net] b(5) by auto
qed

end
