(* ===== verification/Web_Equivalence.thy ===== *)
theory Web_Equivalence
  imports Web_Operations Offline_Properties
begin

text \<open>
  The proving worker of the browser and the offline command line have each their own builders. The lemmas
  here show that they agree: the same input gives the same proposal, the same record the same struct, and an
  approval, whichever of the two prepares it, is the same transaction.
\<close>

section \<open>Receivers and types\<close>

lemma webTxTypeToField_eq: "webTxTypeToField t = uiTxTypeToField t"
  by (cases t) (simp_all add: uiTxTypeToField_def)

lemma pushEmpty_eq: "pushEmpty n rs = rs @ replicate n emptyReceiver"
proof (induction n arbitrary: rs)
  case (Suc n)
  have "emptyReceiver # replicate n emptyReceiver = replicate n emptyReceiver @ [emptyReceiver]"
    by (rule replicate_append_same [symmetric])
  thus ?case using Suc.IH by simp
qed simp

lemma webReceiver_same: "webReceiver E (brAddress x) (brAmount x) = Inr r \<longleftrightarrow> transferReceiver E x = Inr r"
  by (auto simp: webReceiver_def transferReceiver_def)

lemma list_all2_same: "(\<And>x y. P x y \<longleftrightarrow> Q x y) \<Longrightarrow> list_all2 P xs ys \<longleftrightarrow> list_all2 Q xs ys"
  by (metis list_all2_mono)

lemma webTransferReceivers_same:
  "webTransferReceivers E (map (\<lambda>r. (brAddress r, brAmount r)) rs) = Inr xs \<longleftrightarrow> buildTransferReceivers E rs = Inr xs"
proof -
  have "list_all2 (\<lambda>r y. webReceiver E (brAddress r) (brAmount r) = Inr y) rs ys \<longleftrightarrow> list_all2 (\<lambda>r y. transferReceiver E r = Inr y) rs ys" for ys
    by (rule list_all2_same) (simp add: webReceiver_same)
  thus ?thesis
    by (simp add: webTransferReceivers_def buildTransferReceivers_def padReceivers_def pushEmpty_eq traverse_Inr list_all2_map1)
qed

lemma webApprovedInsertAfter_same: "webApprovedInsertAfter E owners target dat = approvedInsertAfter E owners target dat"
  by (auto simp: webApprovedInsertAfter_def approvedInsertAfter_def split: option.split nat.split)

lemma webAssertExecutable_same:
  "webAssertExecutableAddOwner E p owners = Inr () \<longleftrightarrow> assertExecutableAddOwnerData E p owners = Inr ()"
  by (auto simp: webAssertExecutableAddOwner_def assertExecutableAddOwnerData_def Let_def webTxTypeToField_eq)

section \<open>New proposals\<close>

text \<open>The form input that carries the same values as an offline input of the given type.\<close>

definition webInputOf :: "txType \<Rightarrow> proposalInput \<Rightarrow> webInput" where
  "webInputOf t i = \<lparr>wiTxType = t, wiNonce = piNonce i, wiReceivers = piReceivers i, wiNewOwner = piNewOwner i,
     wiRemoveOwnerAddress = piRemoveOwnerAddress i, wiNewThreshold = piNewThreshold i, wiDelegate = piDelegate i,
     wiUndelegate = piUndelegate i, wiExpirySlot = piExpirySlot i, wiMemo = piMemo i, wiChildAccount = piChildAccount i,
     wiReclaimAmount = piReclaimAmount i, wiChildMultiSigEnable = piChildMultiSigEnable i,
     wiCreateChildConfigHash = piCreateChildConfigHash i\<rparr>"

lemma webGovernanceTarget_same: "webGovernanceTarget (webInputOf t i) = governanceTargetAddress t i"
  by (cases t) (simp_all add: webGovernanceTarget_def governanceTargetAddress_def webInputOf_def)

lemma webReceiversForProposal_same:
  "webReceiversForProposal E (webInputOf t i) = Inr xs \<longleftrightarrow> buildReceiversForProposal E t i = Inr xs"
proof -
  have "webReceiversForProposal E (webInputOf t i) = Inr xs \<longleftrightarrow>
    (if t = TRANSFER \<or> t = ALLOCATE_CHILD then webTransferReceivers E (map (\<lambda>r. (brAddress r, brAmount r)) (orDefault (piReceivers i) [])) = Inr xs
     else (case governanceTargetAddress t i of None \<Rightarrow> xs = replicate MAX_RECEIVERS emptyReceiver
       | Some target \<Rightarrow> if target = [] then xs = replicate MAX_RECEIVERS emptyReceiver
          else \<exists>pk. fromBase58 E target = Some pk \<and> xs = (replicate MAX_RECEIVERS emptyReceiver)[0 := \<lparr>rAddress = pk, rAmount = 0\<rparr>]))"
    unfolding webReceiversForProposal_def webGovernanceTarget_same
    by (auto simp: webInputOf_def split: option.split)
  also have "\<dots> \<longleftrightarrow> buildReceiversForProposal E t i = Inr xs"
    unfolding webTransferReceivers_same buildReceiversForProposal_def Let_def
    by (auto simp: truthyText_def split: option.split)
  finally show ?thesis .
qed

lemma webProposalDataField_same:
  "webProposalDataField E (webInputOf t i) owners = buildProposalDataField E t i owners"
  by (cases t) (simp_all add: webProposalDataField_def buildProposalDataField_def webInputOf_def orDefault_def boolToField_def)

text \<open>
  C25: The browser and the offline command line propose the same thing. From the same values, nonce,
  configuration nonce, vault and owner list, either both refuse the input or both build the same proposal,
  so its hash, which the wallet signs, does not depend on the tool.
\<close>
theorem builders_agree:
  "buildNewProposal E (webInputOf t i) cfgNonce contract owners = Inr p \<longleftrightarrow> newProposal E t i cfgNonce contract owners = Inr p"
proof -
  have remote: "t \<in> {CREATE_CHILD, RECLAIM_CHILD, DESTROY_CHILD, ENABLE_CHILD_MULTI_SIG} \<longleftrightarrow> remoteTxType t"
    by (auto simp: remoteTxType_def)
  have child: "(case piChildAccount i of None \<Rightarrow> Inr emptyKey | Some s \<Rightarrow> if s = [] then Inr emptyKey else parseKey E s) =
     (if truthyText (piChildAccount i) then parseKey E (the (piChildAccount i)) else Inr emptyKey)"
    by (auto simp: truthyText_def split: option.split)
  have fields: "wiTxType (webInputOf t i) = t" "wiMemo (webInputOf t i) = piMemo i" "wiNonce (webInputOf t i) = piNonce i"
    "wiExpirySlot (webInputOf t i) = piExpirySlot i" "wiChildAccount (webInputOf t i) = piChildAccount i"
    by (simp_all add: webInputOf_def)
  show ?thesis unfolding buildNewProposal_def newProposal_def Let_def fields remote child webProposalDataField_same webTxTypeToField_eq
    by (auto simp: webReceiversForProposal_same)
qed

section \<open>Approvals\<close>

text \<open>A record of the browser and a proposal of a bundle with the same signed fields and memo.\<close>

definition sameRecord :: "webProposal \<Rightarrow> bundleProposal \<Rightarrow> bool" where
  "sameRecord p bp \<longleftrightarrow> wpTxType p = normalizeTxType (bpTxType bp) \<and>
     map (\<lambda>r. (urAddress r, urAmount r)) (wpReceivers p) = map (\<lambda>r. (brAddress r, brAmount r)) (bpReceivers bp) \<and>
     wpTokenId p = bpTokenId bp \<and> wpData p = bpData bp \<and> wpMemoHash p = bpMemoHash bp \<and> wpNonce p = bpNonce bp \<and>
     wpConfigNonce p = bpConfigNonce bp \<and> bpConfigNonce bp \<noteq> None \<and> wpExpirySlot p = bpExpirySlot bp \<and>
     wpGuardAddress p = bpGuardAddress bp \<and> wpMemo p = bpMemo bp \<and> wpChildAccount p = bpChildAccount bp \<and>
     wpProposalHash p = bpProposalHash bp \<and> (wpDestination p = Some RemoteDestination \<longleftrightarrow> bpDestination bp = Some ''remote'')"

lemma webSafePublicKey_same: "webSafePublicKey E s = safePublicKey E s"
  by (auto simp: webSafePublicKey_def safePublicKey_def truthyText_def split: option.split)

lemma webProposalStruct_same:
  assumes rec: "sameRecord p bp"
  shows "webProposalStruct E (withDefaults p s contract) contract = Inr q \<longleftrightarrow>
    buildProposalStruct E (bp\<lparr>bpGuardAddress := Some (orDefault (bpGuardAddress bp) contract)\<rparr>) contract = Inr q"
proof -
  have cn: "Some (orDefault (wpConfigNonce p) x) = bpConfigNonce bp" for x using rec by (auto simp: sameRecord_def)
  have rs: "webTransferReceivers E (map (\<lambda>r. (urAddress r, urAmount r)) (wpReceivers p)) = Inr xs \<longleftrightarrow>
    buildTransferReceivers E (bpReceivers bp) = Inr xs" for xs
    using rec webTransferReceivers_same [of E "bpReceivers bp"] by (simp add: sameRecord_def)
  have dst: "wpDestination p = Some RemoteDestination \<longleftrightarrow> bpDestination bp = Some ''remote''"
    using rec by (simp add: sameRecord_def)
  have same: "wpTxType p = normalizeTxType (bpTxType bp)" "wpTokenId p = bpTokenId bp" "wpData p = bpData bp"
    "wpMemoHash p = bpMemoHash bp" "wpNonce p = bpNonce bp" "wpExpirySlot p = bpExpirySlot bp"
    "wpGuardAddress p = bpGuardAddress bp" "wpChildAccount p = bpChildAccount bp"
    using rec by (simp_all add: sameRecord_def)
  show ?thesis unfolding webProposalStruct_def buildProposalStruct_def withDefaults_def signedFieldsOf_def Let_def
    by (cases "normalizeTxType (bpTxType bp)"; cases "bpMemoHash bp")
      (auto simp: same rs dst cn requireTxType_def webSafePublicKey_same webTxTypeToField_eq)
qed

lemma approveProposalOnchain_Inr:
  assumes "approveProposalOnchain E N loaded networkId fee contract approver p = Inr (Some tx)"
  obtains s stores q sg ak ck where "ndState N 0 contract = Some s" "loaded = Inr stores"
    "assertStoresMatchChain E stores (chainOf s) = Inr ()"
    "webProposalStruct E (withDefaults p s contract) contract = Inr q"
    "webAssertExecutableAddOwner E q (rsOwners stores) = Inr ()"
    "webAssertRecomputedHash (proposalHash E q) (wpProposalHash p) = Inr ()" "assertApprovedMemo E (wpMemo p) q = Inr ()"
    "ndSign N (proposalSigningMessage E (proposalHash E q) ActApprove) = Some sg"
    "fromBase58 E approver = Some ak" "fromBase58 E contract = Some ck" "verifyStores E N 1 contract stores = Inr ()"
    "tx = \<lparr>btSender = ak, btFee = fee, btMemo = None,
       btSteps = [CallMethod ck (ApproveProposal q sg ak (getOwnerWitness (rsOwners stores))
         (getApprovalWitness E (rsApprovals stores) (proposalHash E q)) (getCount E (rsApprovals stores) (proposalHash E q))
         (getNullifierWitness E (rsNullifiers stores) (proposalHash E q) ak))]\<rparr>"
  using assms unfolding approveProposalOnchain_def Let_def orNone_def signProposalAuthorization_def andAlso_Inr
  by (auto split: option.split_asm)

lemma handleApprove_parts:
  assumes "handleApprove E S b k = Inr out"
  obtains fee stores q sg ak ck where "resolveBundleFee b = Inr fee"
    "rebuildVerifiedStores E S (injectAccounts E S (bbAccounts b)) b = Inr stores"
    "buildProposalStruct E ((abProposal b)\<lparr>bpGuardAddress := Some (orDefault (bpGuardAddress (abProposal b)) (bbContract b))\<rparr>)
       (bbContract b) = Inr q"
    "sgSignFields S [proposalSigningMessage E (proposalHash E q) ActApprove] k = Some sg"
    "fromBase58 E (bbFeePayer b) = Some ak" "fromBase58 E (bbContract b) = Some ck"
    "soTransaction out = \<lparr>btSender = ak, btFee = fee, btMemo = None,
       btSteps = [CallMethod ck (ApproveProposal q sg ak (getOwnerWitness (rsOwners stores))
         (getApprovalWitness E (rsApprovals stores) (proposalHash E q)) (getCount E (rsApprovals stores) (proposalHash E q))
         (getNullifierWitness E (rsNullifiers stores) (proposalHash E q) ak))]\<rparr>"
  using assms unfolding handleApprove_def Let_def andAlso_Inr andThen_Inr signMessage_def
  by (auto simp: signedOutput_def split: option.split_asm)

text \<open>
  C26: An approval is one transaction, whichever tool prepares it. If the browser and the offline command line
  both accept the same record, from the same stores and with the same wallet and fee, they put the same call
  of the contract with the same arguments and signature into the transaction.
\<close>
theorem same_approval_online_offline:
  assumes online: "approveProposalOnchain E N (Inr stores) networkId fee (bbContract b) (bbFeePayer b) p = Inr (Some tx)"
    and offline: "handleApprove E S b k = Inr out"
    and same: "sameRecord p (abProposal b)"
    and st: "rebuildVerifiedStores E S (injectAccounts E S (bbAccounts b)) b = Inr stores"
    and wallet: "\<And>m. sgSignFields S [m] k = ndSign N m" and fee: "resolveBundleFee b = Inr fee"
  shows "soTransaction out = tx"
  using online offline same st wallet fee
  by (elim approveProposalOnchain_Inr handleApprove_parts) (auto simp: webProposalStruct_same [OF same])

end
