(* ===== verification/Chain_Events.thy ===== *)
theory Chain_Events
  imports Owner_Rebuild "HOL-Library.List_Lexorder" "HOL-Library.Char_ord"
begin

text \<open>
  How events reach the indexer (\<open>mina-client.ts\<close>): the archive is asked in windows of bounded width, and
  its answer is filtered and decoded. The answers of the archive are parameters; the decoding of a
  struct from its field elements, which o1js does from the declarations in \<open>MinaGuard.ts\<close>, is written
  out from those declarations.
\<close>

section \<open>Decoding one event\<close>

datatype fieldKind = KField | KKey | KUInt64

definition MINAGUARD_EVENTS :: "(string \<times> (string \<times> fieldKind) list) list" where
  "MINAGUARD_EVENTS =
    [(''deployed'', [(''guardAddress'', KKey)]),
     (''setup'', [(''ownersCommitment'', KField), (''threshold'', KField), (''numOwners'', KField), (''parent'', KKey)]),
     (''setupOwner'', [(''owner'', KKey), (''index'', KField)]),
     (''proposal'', [(''proposalHash'', KField), (''proposer'', KKey), (''tokenId'', KField), (''txType'', KField),
        (''data'', KField), (''memoHash'', KField), (''nonce'', KField), (''configNonce'', KField), (''expirySlot'', KField),
        (''guardAddress'', KKey), (''destination'', KField), (''childAccount'', KKey)]),
     (''receiver'', [(''proposalHash'', KField), (''receiver'', KKey), (''amount'', KUInt64)]),
     (''approval'', [(''proposalHash'', KField), (''approver'', KKey), (''approvalCount'', KField),
        (''approvalRoot'', KField), (''voteNullifierRoot'', KField)]),
     (''execution'', [(''proposalHash'', KField), (''txType'', KField), (''root'', KField)]),
     (''ownerChange'', [(''proposalHash'', KField), (''owner'', KKey), (''added'', KField), (''newNumOwners'', KField),
        (''newOwnersCommitment'', KField), (''configNonce'', KField)]),
     (''thresholdChange'', [(''proposalHash'', KField), (''oldThreshold'', KField), (''newThreshold'', KField),
        (''configNonce'', KField)]),
     (''delegate'', [(''proposalHash'', KField), (''delegate'', KKey)]),
     (''createChild'', [(''proposalHash'', KField), (''parentAddress'', KKey)]),
     (''reclaimChild'', [(''proposalHash'', KField), (''parentAddress'', KKey), (''amount'', KUInt64)]),
     (''enableChildMultiSig'', [(''proposalHash'', KField), (''parentAddress'', KKey), (''enabled'', KField),
        (''configNonce'', KField)]),
     (''createChildConfig'', [(''proposalHash'', KField), (''childAccount'', KKey), (''ownersCommitment'', KField),
        (''threshold'', KField), (''numOwners'', KField)]),
     (''createChildOwner'', [(''proposalHash'', KField), (''owner'', KKey), (''index'', KField)])]"

definition MINAGUARD_EVENT_NAMES :: "string list" where
  "MINAGUARD_EVENT_NAMES = sort (map fst MINAGUARD_EVENTS)"

fun sizeInFields :: "(string \<times> fieldKind) list \<Rightarrow> nat" where
  "sizeInFields [] = 0"
| "sizeInFields ((k, kind) # rest) = (if kind = KKey then 2 else 1) + sizeInFields rest"

text \<open>\<open>fromFields\<close>, \<open>check\<close> and the serialisation of the value: a key is its base58 text, every other
  value its decimal.\<close>

fun structFromFields :: "('m, 'w, 's) o1js \<Rightarrow> (string \<times> fieldKind) list \<Rightarrow> field list \<Rightarrow> (string \<times> json) list option" where
  "structFromFields E [] fs = Some []"
| "structFromFields E ((k, KField) # rest) (f # fs) =
     map_option (Cons (k, JStr (fieldToString f))) (structFromFields E rest fs)"
| "structFromFields E ((k, KUInt64) # rest) (f # fs) =
     (if f < 2 ^ 64 then map_option (Cons (k, JStr (fieldToString f))) (structFromFields E rest fs) else None)"
| "structFromFields E ((k, KKey) # rest) (x # isOdd # fs) =
     (if isOdd = 0 \<or> isOdd = 1 then map_option (Cons (k, JStr (toBase58 E (PublicKey x (isOdd = 1))))) (structFromFields E rest fs)
      else None)"
| "structFromFields E _ _ = None"

definition isFieldText :: "('m, 'w, 's) o1js \<Rightarrow> json \<Rightarrow> bool" where
  "isFieldText E v = (case v of JStr s \<Rightarrow> allDigits s \<and> int (parseDecimal s) < fieldOrder E | _ \<Rightarrow> False)"

definition fieldOfText :: "json \<Rightarrow> field" where
  "fieldOfText v = (case v of JStr s \<Rightarrow> int (parseDecimal s) | _ \<Rightarrow> 0)"

definition decodeMinaGuardEvent :: "('m, 'w, 's) o1js \<Rightarrow> json \<Rightarrow> string + (string \<times> json)" where
  "decodeMinaGuardEvent E dat = (case dat of
       JArr (index # rest) \<Rightarrow>
         if \<not> list_all (isFieldText E) (index # rest) then Inl ''event data is not a list of field elements''
         else (let i = fieldOfText index; values = map fieldOfText rest
           in if \<not> isSafeInteger i \<or> nat i \<ge> length MINAGUARD_EVENT_NAMES then Inl (''unknown event type index '' @ intToString i)
              else (let ty = MINAGUARD_EVENT_NAMES ! nat i; layout = the (map_of MINAGUARD_EVENTS ty)
                in if length values \<noteq> sizeInFields layout then Inl (ty @ '' expects another number of fields'')
                   else (case structFromFields E layout values of
                       Some fs \<Rightarrow> Inr (ty, JObj fs)
                     | None \<Rightarrow> Inl (ty @ '' does not decode''))))
     | _ \<Rightarrow> Inl ''no event data'')"

section \<open>Decoding the archive's answer\<close>

record chainEvent =
  ceType :: string
  cePayload :: json
  ceBlockHeight :: int
  ceBlockHash :: string
  ceParentHash :: string
  ceTxHash :: "string option"
  ceTxMemo :: "string option"
  ceDecodeError :: "string option"

record transactionInfo =
  tiHash :: "string option"
  tiMemo :: "string option"
  tiStatus :: "string option"
  tiAuthorizationKind :: "string option"

record rawEvent =
  reInfo :: "transactionInfo option"
  reData :: json

record archiveEventBlock =
  abHeight :: int
  abStateHash :: string
  abParentHash :: string
  abEventData :: "rawEvent option list option"

definition toLowerChar :: "char \<Rightarrow> char" where
  "toLowerChar c = (if 65 \<le> (of_char c :: nat) \<and> (of_char c :: nat) \<le> 90 then char_of ((of_char c :: nat) + 32) else c)"

definition isFromAppliedTransaction :: "string option \<Rightarrow> bool" where
  "isFromAppliedTransaction status = (case status of None \<Rightarrow> True | Some s \<Rightarrow> map toLowerChar s \<noteq> ''failed'')"

definition infoOf :: "rawEvent \<Rightarrow> (transactionInfo \<Rightarrow> string option) \<Rightarrow> string option" where
  "infoOf raw f = Option.bind (reInfo raw) f"

definition normalizedKind :: "rawEvent \<Rightarrow> string option" where
  "normalizedKind raw = map_option (map toLowerChar) (infoOf raw tiAuthorizationKind)"

text \<open>One raw event of a block: nothing, an event, or the refusal of the whole answer.\<close>

definition decodeRawEvent :: "('m, 'w, 's) o1js \<Rightarrow> archiveEventBlock \<Rightarrow> rawEvent option \<Rightarrow> chainEvent list result" where
  "decodeRawEvent E block r = (case r of
       None \<Rightarrow> Inr []
     | Some raw \<Rightarrow>
        if \<not> isFromAppliedTransaction (infoOf raw tiStatus) then Inr []
        else let normalized = normalizedKind raw
          in require (normalized \<in> {Some ''proof'', Some ''signature'', Some ''none_given''})
               ''Archive event has no recognized authorization kind; refusing to index it''
            (if normalized \<noteq> Some ''proof'' then Inr []
             else (case decodeMinaGuardEvent E (reData raw) of
                 Inl err \<Rightarrow> Inr [\<lparr>ceType = ''malformed'', cePayload = JObj [(''data'', reData raw)],
                   ceBlockHeight = abHeight block, ceBlockHash = abStateHash block, ceParentHash = abParentHash block,
                   ceTxHash = infoOf raw tiHash, ceTxMemo = infoOf raw tiMemo, ceDecodeError = Some err\<rparr>]
               | Inr (ty, ev) \<Rightarrow> Inr [\<lparr>ceType = ty, cePayload = ev,
                   ceBlockHeight = abHeight block, ceBlockHash = abStateHash block, ceParentHash = abParentHash block,
                   ceTxHash = infoOf raw tiHash, ceTxMemo = infoOf raw tiMemo, ceDecodeError = None\<rparr>])))"

fun concatM :: "('a \<Rightarrow> 'b list result) \<Rightarrow> 'a list \<Rightarrow> 'b list result" where
  "concatM f [] = Inr []"
| "concatM f (x # xs) = andThen (f x) (\<lambda>ys. andThen (concatM f xs) (\<lambda>zs. Inr (ys @ zs)))"

definition decodeContractEvents :: "('m, 'w, 's) o1js \<Rightarrow> archiveEventBlock list \<Rightarrow> chainEvent list result" where
  "decodeContractEvents E blocks = concatM (\<lambda>block.
     concatM (decodeRawEvent E block) (case abEventData block of None \<Rightarrow> [] | Some rs \<Rightarrow> rs)) blocks"

section \<open>Asking the archive\<close>

definition EVENT_QUERY_BLOCK_SPAN :: int where
  "EVENT_QUERY_BLOCK_SPAN = 5000"

text \<open>\<open>request from to\<close> is the answer for the half-open range: an error, or the list of events if the
  answer has one.\<close>

type_synonym archive = "int \<Rightarrow> int \<Rightarrow> string + archiveEventBlock list option"

definition askArchive :: "archive \<Rightarrow> int \<Rightarrow> int \<Rightarrow> archiveEventBlock list result" where
  "askArchive request from to = (case request from to of
       Inl message \<Rightarrow> Inl (AssertFail message)
     | Inr None \<Rightarrow> Inl (AssertFail ''archive response has no events list'')
     | Inr (Some events) \<Rightarrow>
         require (\<not> list_ex (\<lambda>e. \<not> isSafeInteger (abHeight e) \<or> abHeight e < from \<or> abHeight e \<ge> to) events)
           ''archive response contains an event outside the requested block range'' (Inr events))"

function archiveLoop :: "archive \<Rightarrow> int \<Rightarrow> int \<Rightarrow> archiveEventBlock list result" where
  "archiveLoop request from toHeight =
     (if from \<le> toHeight then
        (let to = min (from + EVENT_QUERY_BLOCK_SPAN) (toHeight + 1)
         in andThen (askArchive request from to) (\<lambda>events.
            andThen (archiveLoop request (from + EVENT_QUERY_BLOCK_SPAN) toHeight) (\<lambda>rest. Inr (events @ rest))))
      else Inr [])"
  by pat_completeness auto

termination archiveLoop
  by (relation "measure (\<lambda>(r, from, to). nat (to + 1 - from))") (auto simp: EVENT_QUERY_BLOCK_SPAN_def)

declare archiveLoop.simps [simp del]

fun containsText :: "string \<Rightarrow> string \<Rightarrow> bool" where
  "containsText pat [] = (pat = [])"
| "containsText pat (c # cs) = (take (length pat) (c # cs) = pat \<or> containsText pat cs)"

definition fetchArchiveEventBlocks :: "archive \<Rightarrow> int \<Rightarrow> int \<Rightarrow> archiveEventBlock list result" where
  "fetchArchiveEventBlocks request fromHeight toHeight =
     require (isSafeInteger fromHeight \<and> 0 \<le> fromHeight \<and> isSafeInteger toHeight \<and> fromHeight \<le> toHeight \<and>
         toHeight < 2147483647) ''Invalid archive event block range''
       (case archiveLoop request fromHeight toHeight of
          Inr blocks \<Rightarrow> Inr blocks
        | Inl (AssertFail message) \<Rightarrow> if containsText ''authorizationKind'' message
            then Inl (AssertFail (''The archive endpoint does not report event authorization ('' @ message @ ''). MinaGuard needs an Archive-Node-API that exposes transactionInfo.authorizationKind on events (v0.0.8 or later).''))
            else Inl (AssertFail message)
        | Inl e \<Rightarrow> Inl e)"

definition fetchDecodedContractEvents :: "('m, 'w, 's) o1js \<Rightarrow> archive \<Rightarrow> int \<Rightarrow> int \<Rightarrow> chainEvent list result" where
  "fetchDecodedContractEvents E request fromHeight toHeight =
     andThen (fetchArchiveEventBlocks request fromHeight toHeight) (decodeContractEvents E)"

section \<open>The decoder inverts the contract's encoding\<close>

text \<open>The field elements that an event of the contract is emitted as: the position of its name among the
  sorted names, then the fields of its struct.\<close>

fun eventFields :: "event \<Rightarrow> field list" where
  "eventFields (DeployEvent a) = keyToFields a"
| "eventFields (SetupEvent c t n par) = [c, t, n] @ keyToFields par"
| "eventFields (SetupOwnerEvent pk i) = keyToFields pk @ [i]"
| "eventFields (ProposalEvent ph pr tok ty d mh n cn ex ga dst ch) =
     [ph] @ keyToFields pr @ [tok, ty, d, mh, n, cn, ex] @ keyToFields ga @ [dst] @ keyToFields ch"
| "eventFields (ReceiverEvent ph r a) = [ph] @ keyToFields r @ [uint a]"
| "eventFields (ApprovalEvent ph pk c ar nr) = [ph] @ keyToFields pk @ [c, ar, nr]"
| "eventFields (ExecutionEvent ph ty r) = [ph, ty, r]"
| "eventFields (OwnerChangeEvent ph pk ad n c cn) = [ph] @ keyToFields pk @ [ad, n, c, cn]"
| "eventFields (ThresholdChangeEvent ph t t' cn) = [ph, t, t', cn]"
| "eventFields (DelegateEvent ph d) = [ph] @ keyToFields d"
| "eventFields (CreateChildEvent ph par) = [ph] @ keyToFields par"
| "eventFields (ReclaimChildEvent ph par a) = [ph] @ keyToFields par @ [uint a]"
| "eventFields (EnableChildMultiSigEvent ph par en cn) = [ph] @ keyToFields par @ [en, cn]"
| "eventFields (CreateChildConfigEvent ph ch c t n) = [ph] @ keyToFields ch @ [c, t, n]"
| "eventFields (CreateChildOwnerEvent ph pk i) = [ph] @ keyToFields pk @ [i]"

fun eventTypeIndex :: "event \<Rightarrow> nat" where
  "eventTypeIndex (ApprovalEvent _ _ _ _ _) = 0"
| "eventTypeIndex (CreateChildEvent _ _) = 1"
| "eventTypeIndex (CreateChildConfigEvent _ _ _ _ _) = 2"
| "eventTypeIndex (CreateChildOwnerEvent _ _ _) = 3"
| "eventTypeIndex (DelegateEvent _ _) = 4"
| "eventTypeIndex (DeployEvent _) = 5"
| "eventTypeIndex (EnableChildMultiSigEvent _ _ _ _) = 6"
| "eventTypeIndex (ExecutionEvent _ _ _) = 7"
| "eventTypeIndex (OwnerChangeEvent _ _ _ _ _ _) = 8"
| "eventTypeIndex (ProposalEvent _ _ _ _ _ _ _ _ _ _ _ _) = 9"
| "eventTypeIndex (ReceiverEvent _ _ _) = 10"
| "eventTypeIndex (ReclaimChildEvent _ _ _) = 11"
| "eventTypeIndex (SetupEvent _ _ _ _) = 12"
| "eventTypeIndex (SetupOwnerEvent _ _) = 13"
| "eventTypeIndex (ThresholdChangeEvent _ _ _ _) = 14"

definition emittedJson :: "event \<Rightarrow> json" where
  "emittedJson e = JArr (map (\<lambda>f. JStr (fieldToString f)) (int (eventTypeIndex e) # eventFields e))"

lemma event_names_sorted:
  "MINAGUARD_EVENT_NAMES = [''approval'', ''createChild'', ''createChildConfig'', ''createChildOwner'', ''delegate'', ''deployed'',
     ''enableChildMultiSig'', ''execution'', ''ownerChange'', ''proposal'', ''receiver'', ''reclaimChild'', ''setup'',
     ''setupOwner'', ''thresholdChange'']"
  by code_simp

lemma fieldText:
  assumes "0 \<le> f" "f < fieldOrder E"
  shows "isFieldText E (JStr (fieldToString f))" "fieldOfText (JStr (fieldToString f)) = f"
  using assms by (simp_all add: isFieldText_def fieldOfText_def fieldToString_decimal)

lemma structFromFields_key [simp]:
  "structFromFields E ((k, KKey) # rest) (pkX pk # boolToField (pkIsOdd pk) # fs) =
     map_option (Cons (k, JStr (toBase58 E pk))) (structFromFields E rest fs)"
  by (cases pk) (auto simp: boolToField_def)

lemma amountText: "fieldToString (uint (a :: 64 word)) = decimal (unat a)"
  by (simp add: fieldToString_decimal flip: unat_eq_nat_uint)

lemma amountRange: "uint (a :: 64 word) < 18446744073709551616"
  using uint_lt2p [of a] by simp

lemma eventTypeIndex_small: "eventTypeIndex e < 15"
  by (cases e) simp_all

lemma event_layouts:
  "map_of MINAGUARD_EVENTS ''deployed'' = Some [(''guardAddress'', KKey)]"
  "map_of MINAGUARD_EVENTS ''setup'' = Some [(''ownersCommitment'', KField), (''threshold'', KField), (''numOwners'', KField), (''parent'', KKey)]"
  "map_of MINAGUARD_EVENTS ''setupOwner'' = Some [(''owner'', KKey), (''index'', KField)]"
  "map_of MINAGUARD_EVENTS ''proposal'' = Some [(''proposalHash'', KField), (''proposer'', KKey), (''tokenId'', KField), (''txType'', KField), (''data'', KField), (''memoHash'', KField), (''nonce'', KField), (''configNonce'', KField), (''expirySlot'', KField), (''guardAddress'', KKey), (''destination'', KField), (''childAccount'', KKey)]"
  "map_of MINAGUARD_EVENTS ''receiver'' = Some [(''proposalHash'', KField), (''receiver'', KKey), (''amount'', KUInt64)]"
  "map_of MINAGUARD_EVENTS ''approval'' = Some [(''proposalHash'', KField), (''approver'', KKey), (''approvalCount'', KField), (''approvalRoot'', KField), (''voteNullifierRoot'', KField)]"
  "map_of MINAGUARD_EVENTS ''execution'' = Some [(''proposalHash'', KField), (''txType'', KField), (''root'', KField)]"
  "map_of MINAGUARD_EVENTS ''ownerChange'' = Some [(''proposalHash'', KField), (''owner'', KKey), (''added'', KField), (''newNumOwners'', KField), (''newOwnersCommitment'', KField), (''configNonce'', KField)]"
  "map_of MINAGUARD_EVENTS ''thresholdChange'' = Some [(''proposalHash'', KField), (''oldThreshold'', KField), (''newThreshold'', KField), (''configNonce'', KField)]"
  "map_of MINAGUARD_EVENTS ''delegate'' = Some [(''proposalHash'', KField), (''delegate'', KKey)]"
  "map_of MINAGUARD_EVENTS ''createChild'' = Some [(''proposalHash'', KField), (''parentAddress'', KKey)]"
  "map_of MINAGUARD_EVENTS ''reclaimChild'' = Some [(''proposalHash'', KField), (''parentAddress'', KKey), (''amount'', KUInt64)]"
  "map_of MINAGUARD_EVENTS ''enableChildMultiSig'' = Some [(''proposalHash'', KField), (''parentAddress'', KKey), (''enabled'', KField), (''configNonce'', KField)]"
  "map_of MINAGUARD_EVENTS ''createChildConfig'' = Some [(''proposalHash'', KField), (''childAccount'', KKey), (''ownersCommitment'', KField), (''threshold'', KField), (''numOwners'', KField)]"
  "map_of MINAGUARD_EVENTS ''createChildOwner'' = Some [(''proposalHash'', KField), (''owner'', KKey), (''index'', KField)]"
  by code_simp+

fun eventName :: "event \<Rightarrow> string" where
  "eventName (ApprovalEvent _ _ _ _ _) = ''approval''"
| "eventName (CreateChildEvent _ _) = ''createChild''"
| "eventName (CreateChildConfigEvent _ _ _ _ _) = ''createChildConfig''"
| "eventName (CreateChildOwnerEvent _ _ _) = ''createChildOwner''"
| "eventName (DelegateEvent _ _) = ''delegate''"
| "eventName (DeployEvent _) = ''deployed''"
| "eventName (EnableChildMultiSigEvent _ _ _ _) = ''enableChildMultiSig''"
| "eventName (ExecutionEvent _ _ _) = ''execution''"
| "eventName (OwnerChangeEvent _ _ _ _ _ _) = ''ownerChange''"
| "eventName (ProposalEvent _ _ _ _ _ _ _ _ _ _ _ _) = ''proposal''"
| "eventName (ReceiverEvent _ _ _) = ''receiver''"
| "eventName (ReclaimChildEvent _ _ _) = ''reclaimChild''"
| "eventName (SetupEvent _ _ _ _) = ''setup''"
| "eventName (SetupOwnerEvent _ _) = ''setupOwner''"
| "eventName (ThresholdChangeEvent _ _ _ _) = ''thresholdChange''"

lemma eventName_nth: "MINAGUARD_EVENT_NAMES ! eventTypeIndex e = eventName e"
  by (cases e) (simp_all add: event_names_sorted)

lemma eventName_index: "eventName e = eventType (indexEvent E h e)"
  by (cases e) simp_all

lemma emitted_layout:
  "structFromFields E (the (map_of MINAGUARD_EVENTS (eventName e))) (eventFields e) =
     (case payload (indexEvent E h e) of JObj fs \<Rightarrow> Some fs | _ \<Rightarrow> None)"
  by (cases e) (simp_all only: eventName.simps event_layouts option.sel,
      simp_all add: keyToFields_def jField_def jKey_def jAmount_def amountText amountRange del: structFromFields.simps(4))

lemma emitted_size: "sizeInFields (the (map_of MINAGUARD_EVENTS (eventName e))) = length (eventFields e)"
  by (cases e) (simp_all only: eventName.simps event_layouts option.sel, simp_all)

lemma payload_object: "\<exists>fs. payload (indexEvent E h e) = JObj fs"
  by (cases e) simp_all

text \<open>C16: What the contract emits is what the indexer reads: an event whose fields are field elements,
  encoded as the position of its name and its fields in decimal, decodes to the name of the event and
  the text of each field.\<close>

theorem event_decode_round_trip:
  assumes "15 \<le> fieldOrder E" "\<forall>f \<in> set (eventFields e). 0 \<le> f \<and> f < fieldOrder E"
  shows "decodeMinaGuardEvent E (emittedJson e) = Inr (eventType (indexEvent E h e), payload (indexEvent E h e))"
proof -
  let ?i = "int (eventTypeIndex e)" and ?text = "\<lambda>f. JStr (fieldToString f)"
  have i: "0 \<le> ?i" "?i < fieldOrder E" using assms(1) eventTypeIndex_small [of e] by simp_all
  then have all: "list_all (isFieldText E) (?text ?i # map ?text (eventFields e))"
    using assms(2) by (simp add: list_all_iff fieldText)
  have vals: "map fieldOfText (map ?text (eventFields e)) = eventFields e"
    using assms(2) by (auto simp: fieldText intro!: map_idI)
  have safe: "isSafeInteger ?i" using eventTypeIndex_small [of e] by (simp add: isSafeInteger_def MAX_SAFE_INTEGER_def)
  have len: "\<not> nat ?i \<ge> length MINAGUARD_EVENT_NAMES"
    using eventTypeIndex_small [of e] by (simp add: event_names_sorted)
  obtain fs where fs: "payload (indexEvent E h e) = JObj fs" using payload_object by blast
  have layout: "structFromFields E (the (map_of MINAGUARD_EVENTS (eventName e))) (eventFields e) = Some fs"
    using emitted_layout [of E e h] fs by simp
  show ?thesis
    unfolding emittedJson_def decodeMinaGuardEvent_def list.map json.case list.case Let_def vals fieldText(2) [OF i]
    using all safe len by (simp add: eventName_nth layout emitted_size eventName_index [symmetric] fs)
qed

section \<open>Which events are indexed\<close>

text \<open>The raw events of an answer, with their blocks, whose transaction was applied.\<close>

definition present :: "'a option list \<Rightarrow> 'a list" where
  "present rs = map the (filter (\<lambda>r. r \<noteq> None) rs)"

definition rawEvents :: "archiveEventBlock list \<Rightarrow> (archiveEventBlock \<times> rawEvent) list" where
  "rawEvents blocks = concat (map (\<lambda>b. map (Pair b)
     (present (case abEventData b of None \<Rightarrow> [] | Some rs \<Rightarrow> rs))) blocks)"

definition appliedEvents :: "archiveEventBlock list \<Rightarrow> (archiveEventBlock \<times> rawEvent) list" where
  "appliedEvents blocks = filter (\<lambda>(b, raw). isFromAppliedTransaction (infoOf raw tiStatus)) (rawEvents blocks)"

definition toChainEvent :: "('m, 'w, 's) o1js \<Rightarrow> archiveEventBlock \<times> rawEvent \<Rightarrow> chainEvent" where
  "toChainEvent E = (\<lambda>(b, raw). \<lparr>
     ceType = (case decodeMinaGuardEvent E (reData raw) of Inl _ \<Rightarrow> ''malformed'' | Inr (ty, _) \<Rightarrow> ty),
     cePayload = (case decodeMinaGuardEvent E (reData raw) of Inl _ \<Rightarrow> JObj [(''data'', reData raw)] | Inr (_, ev) \<Rightarrow> ev),
     ceBlockHeight = abHeight b, ceBlockHash = abStateHash b, ceParentHash = abParentHash b,
     ceTxHash = infoOf raw tiHash, ceTxMemo = infoOf raw tiMemo,
     ceDecodeError = (case decodeMinaGuardEvent E (reData raw) of Inl err \<Rightarrow> Some err | Inr _ \<Rightarrow> None)\<rparr>)"

lemma concatM_iff:
  "concatM f xs = Inr ys \<longleftrightarrow> (\<forall>x \<in> set xs. isOk (f x)) \<and> ys = concat (map (\<lambda>x. case f x of Inr zs \<Rightarrow> zs | Inl _ \<Rightarrow> []) xs)"
  by (induction xs arbitrary: ys) (auto simp: isOk_iff)

lemma decodeRawEvent_Some:
  "decodeRawEvent E b (Some raw) = Inr evs \<longleftrightarrow>
     (isFromAppliedTransaction (infoOf raw tiStatus) \<longrightarrow>
        normalizedKind raw \<in> {Some ''proof'', Some ''signature'', Some ''none_given''}) \<and>
     evs = (if isFromAppliedTransaction (infoOf raw tiStatus) \<and> normalizedKind raw = Some ''proof''
            then [toChainEvent E (b, raw)] else [])"
  by (auto simp: decodeRawEvent_def toChainEvent_def Let_def split: sum.splits)

lemma present_simps [simp]: "present [] = []" "present (None # rs) = present rs" "present (Some x # rs) = x # present rs"
  by (simp_all add: present_def)

lemma decodeBlock:
  "concatM (decodeRawEvent E b) rs = Inr evs \<longleftrightarrow>
     (\<forall>raw \<in> set (filter (\<lambda>raw. isFromAppliedTransaction (infoOf raw tiStatus)) (present rs)).
        normalizedKind raw \<in> {Some ''proof'', Some ''signature'', Some ''none_given''}) \<and>
     evs = map (\<lambda>raw. toChainEvent E (b, raw)) (filter (\<lambda>raw. normalizedKind raw = Some ''proof'')
        (filter (\<lambda>raw. isFromAppliedTransaction (infoOf raw tiStatus)) (present rs)))"
proof (induction rs arbitrary: evs)
  case Nil
  show ?case by auto
next
  case (Cons r rs)
  show ?case
  proof (cases r)
    case None
    have none: "decodeRawEvent E b None = Inr []" by (simp add: decodeRawEvent_def)
    show ?thesis unfolding None concatM.simps none andThen_simps andThen_Inr Cons.IH present_simps by auto
  next
    case (Some raw)
    let ?ap = "isFromAppliedTransaction (infoOf raw tiStatus)"
    show ?thesis unfolding Some concatM.simps andThen_Inr decodeRawEvent_Some Cons.IH present_simps
      by (cases "?ap \<and> normalizedKind raw = Some ''proof''") auto
  qed
qed

text \<open>C35: The indexer is handed exactly the proof-authorised events of applied transactions, in the
  order of the archive's answer, each decoded or marked as malformed; an answer in which an applied
  event has no recognised authorisation kind is refused as a whole.\<close>

theorem only_proved_events_indexed:
  "decodeContractEvents E blocks = Inr evs \<longleftrightarrow>
     (\<forall>(b, raw) \<in> set (appliedEvents blocks).
        normalizedKind raw \<in> {Some ''proof'', Some ''signature'', Some ''none_given''}) \<and>
     evs = map (toChainEvent E) (filter (\<lambda>(b, raw). normalizedKind raw = Some ''proof'') (appliedEvents blocks))"
proof (induction blocks arbitrary: evs)
  case Nil
  show ?case by (auto simp: decodeContractEvents_def appliedEvents_def rawEvents_def)
next
  case (Cons b blocks)
  let ?rs = "case abEventData b of None \<Rightarrow> [] | Some rs \<Rightarrow> rs"
  define good where "good = filter (\<lambda>raw. isFromAppliedTransaction (infoOf raw tiStatus)) (present ?rs)"
  have raws: "appliedEvents (b # blocks) = map (Pair b) good @ appliedEvents blocks"
    by (simp add: appliedEvents_def rawEvents_def filter_map comp_def good_def)
  have proved: "map (toChainEvent E) (filter (\<lambda>(b, raw). normalizedKind raw = Some ''proof'') (map (Pair b) good)) =
      map (\<lambda>raw. toChainEvent E (b, raw)) (filter (\<lambda>raw. normalizedKind raw = Some ''proof'') good)"
    by (simp add: filter_map comp_def)
  have step: "decodeContractEvents E (b # blocks) = Inr evs \<longleftrightarrow>
      (\<exists>xs ys. concatM (decodeRawEvent E b) ?rs = Inr xs \<and> decodeContractEvents E blocks = Inr ys \<and> evs = xs @ ys)"
    by (auto simp: decodeContractEvents_def)
  show ?case
    unfolding step decodeBlock Cons.IH raws good_def [symmetric] filter_append map_append proved set_append
    by auto
qed

section \<open>The windows cover the range\<close>

function archiveWindows :: "int \<Rightarrow> int \<Rightarrow> (int \<times> int) list" where
  "archiveWindows from toHeight =
     (if from \<le> toHeight then (from, min (from + EVENT_QUERY_BLOCK_SPAN) (toHeight + 1))
        # archiveWindows (from + EVENT_QUERY_BLOCK_SPAN) toHeight else [])"
  by pat_completeness auto

termination archiveWindows
  by (relation "measure (\<lambda>(from, to). nat (to + 1 - from))") (auto simp: EVENT_QUERY_BLOCK_SPAN_def)

declare archiveWindows.simps [simp del]

lemma archiveLoop_windows: "archiveLoop request lo hi = concatM (\<lambda>(a, b). askArchive request a b) (archiveWindows lo hi)"
proof (induction request lo hi rule: archiveLoop.induct)
  case (1 request lo hi)
  then show ?case by (subst archiveLoop.simps, subst archiveWindows.simps) (simp add: Let_def andThen_def split: sum.split)
qed

lemma windows_in: "(a, b) \<in> set (archiveWindows lo hi) \<Longrightarrow> lo \<le> a \<and> a < b \<and> b \<le> hi + 1 \<and> b - a \<le> EVENT_QUERY_BLOCK_SPAN"
proof (induction lo hi rule: archiveWindows.induct)
  case (1 lo hi)
  show ?case
  proof (cases "lo \<le> hi")
    case True
    then have "archiveWindows lo hi = (lo, min (lo + EVENT_QUERY_BLOCK_SPAN) (hi + 1)) # archiveWindows (lo + EVENT_QUERY_BLOCK_SPAN) hi"
      by (subst archiveWindows.simps) simp
    with 1 True show ?thesis by (force simp: EVENT_QUERY_BLOCK_SPAN_def)
  next
    case False
    with 1(2) show ?thesis by (subst (asm) archiveWindows.simps) simp
  qed
qed

lemma windows_count: "lo \<le> hi \<Longrightarrow> length (archiveWindows lo hi) = nat ((hi - lo) div EVENT_QUERY_BLOCK_SPAN + 1)"
proof (induction lo hi rule: archiveWindows.induct)
  case (1 lo hi)
  let ?S = "EVENT_QUERY_BLOCK_SPAN"
  have S: "?S = 5000" by (simp add: EVENT_QUERY_BLOCK_SPAN_def)
  have w: "archiveWindows lo hi = (lo, min (lo + ?S) (hi + 1)) # archiveWindows (lo + ?S) hi"
    using 1(2) by (subst archiveWindows.simps) simp
  show ?case
  proof (cases "lo + ?S \<le> hi")
    case True
    have "(hi - (lo + ?S)) div ?S + 1 = (hi - lo) div ?S" by (simp add: S)
    with 1(1) [OF 1(2) True] True show ?thesis by (simp add: w S nat_add_distrib)
  next
    case False
    then have "archiveWindows (lo + ?S) hi = []" by (subst archiveWindows.simps) simp
    moreover have "(hi - lo) div ?S = 0" using False 1(2) by (simp add: S)
    ultimately show ?thesis by (simp add: w)
  qed
qed

lemma windows_cover:
  "lo \<le> h \<Longrightarrow> h \<le> hi \<Longrightarrow> \<exists>!w. w \<in> set (archiveWindows lo hi) \<and> fst w \<le> h \<and> h < snd w"
proof (induction lo hi rule: archiveWindows.induct)
  case (1 lo hi)
  let ?S = "EVENT_QUERY_BLOCK_SPAN" and ?w = "(lo, min (lo + EVENT_QUERY_BLOCK_SPAN) (hi + 1))"
  have w: "archiveWindows lo hi = ?w # archiveWindows (lo + ?S) hi"
    using 1(2,3) by (subst archiveWindows.simps) simp
  show ?case
  proof (cases "h < lo + ?S")
    case True
    have "\<not> fst v \<le> h" if "v \<in> set (archiveWindows (lo + ?S) hi)" for v
      using windows_in [of "fst v" "snd v" "lo + ?S" hi] that True by auto
    then show ?thesis using True 1(2,3) by (intro ex1I [of _ ?w]) (auto simp: w)
  next
    case False
    then have "\<exists>!v. v \<in> set (archiveWindows (lo + ?S) hi) \<and> fst v \<le> h \<and> h < snd v"
      using 1(1) [OF _ _ 1(3)] 1(2,3) by simp
    moreover have "\<not> h < snd ?w" using False by simp
    ultimately show ?thesis unfolding w by (metis set_ConsD list.set_intros(2))
  qed
qed

text \<open>C34: The archive is asked in finitely many windows: one per 5000 blocks of the range, none wider than
  that, and every height of the range falls into exactly one of them. If each window is answered with a
  list of blocks inside it, the fetch succeeds and returns the blocks of all windows in order.\<close>

theorem archive_range_covered:
  assumes "0 \<le> lo" "lo \<le> hi" "hi < 2147483647"
    and "\<forall>w \<in> set (archiveWindows lo hi). request (fst w) (snd w) = Inr (Some (blocksIn w)) \<and>
       (\<forall>b \<in> set (blocksIn w). fst w \<le> abHeight b \<and> abHeight b < snd w)"
  shows "fetchArchiveEventBlocks request lo hi = Inr (concat (map blocksIn (archiveWindows lo hi))) \<and>
    length (archiveWindows lo hi) = nat ((hi - lo) div 5000 + 1) \<and>
    (\<forall>w \<in> set (archiveWindows lo hi). snd w - fst w \<le> 5000) \<and>
    (\<forall>h. lo \<le> h \<and> h \<le> hi \<longrightarrow> (\<exists>!w. w \<in> set (archiveWindows lo hi) \<and> fst w \<le> h \<and> h < snd w))"
proof (intro conjI)
  have ask: "askArchive request (fst w) (snd w) = Inr (blocksIn w)" if w: "w \<in> set (archiveWindows lo hi)" for w
  proof -
    have "lo \<le> fst w" "snd w \<le> hi + 1" using windows_in [of "fst w" "snd w"] w by auto
    then have "isSafeInteger (abHeight b)" if "b \<in> set (blocksIn w)" for b
      using assms w that by (force simp: isSafeInteger_def MAX_SAFE_INTEGER_def)
    moreover have "request (fst w) (snd w) = Inr (Some (blocksIn w))"
      "\<forall>b \<in> set (blocksIn w). fst w \<le> abHeight b \<and> abHeight b < snd w" using assms(4) w by blast+
    ultimately show ?thesis by (fastforce simp: askArchive_def list_ex_iff require_def)
  qed
  have "concatM (\<lambda>(a, b). askArchive request a b) ws = Inr (concat (map blocksIn ws))"
    if "set ws \<subseteq> set (archiveWindows lo hi)" for ws
    using that by (induction ws) (auto simp: case_prod_beta ask)
  then have "archiveLoop request lo hi = Inr (concat (map blocksIn (archiveWindows lo hi)))"
    by (simp add: archiveLoop_windows)
  then show "fetchArchiveEventBlocks request lo hi = Inr (concat (map blocksIn (archiveWindows lo hi)))"
    using assms(1-3) by (simp add: fetchArchiveEventBlocks_def isSafeInteger_def MAX_SAFE_INTEGER_def)
  show "length (archiveWindows lo hi) = nat ((hi - lo) div 5000 + 1)"
    using windows_count [OF assms(2)] by (simp add: EVENT_QUERY_BLOCK_SPAN_def)
  show "\<forall>w \<in> set (archiveWindows lo hi). snd w - fst w \<le> 5000"
    using windows_in by (force simp: EVENT_QUERY_BLOCK_SPAN_def)
  show "\<forall>h. lo \<le> h \<and> h \<le> hi \<longrightarrow> (\<exists>!w. w \<in> set (archiveWindows lo hi) \<and> fst w \<le> h \<and> h < snd w)"
    using windows_cover by blast
qed

end
