(* ===== verification/Web_Broadcast.thy ===== *)
theory Web_Broadcast
  imports Web_Checks Chain_Events
begin

text \<open>
  The other ways on which a transaction leaves the browser: the upload of a response that was signed offline
  (\<open>UploadSignedResponse\<close> and \<open>broadcastSignedTx\<close> of \<open>ui/components/OfflineSigningFlow.tsx\<close>) and the
  import of a signed migration of the verification key (\<open>ui/components/VaultVerificationKeyMigration.tsx\<close>).
  With \<open>submitTx\<close> of the worker (\<open>Web_Preflight\<close>) these are all of them. \<open>JSON.parse\<close> and what the node
  answers are parameters; \<open>None\<close> is a text that does not parse, or a request that failed.
\<close>

section \<open>Sending a signed command\<close>

definition broadcastSignedTx :: "(string \<Rightarrow> json option) \<Rightarrow> (json \<Rightarrow> json option) \<Rightarrow> string \<Rightarrow> txEffect list \<times> string result" where
  "broadcastSignedTx parse send txJson = (case parse txJson of
       None \<Rightarrow> ([], Inl (AssertFail ''Unexpected token in JSON''))
     | Some zkappCommand \<Rightarrow> ([Broadcast zkappCommand], case send zkappCommand of
         None \<Rightarrow> Inl (AssertFail ''Failed to fetch'')
       | Some reply \<Rightarrow>
           require (reply \<noteq> JNull \<and> \<not> truthy (jsGet reply ''errors'')) ''GraphQL error''
          (case jsPath reply [''data'', ''sendZkapp'', ''zkapp'', ''hash''] of
             Some (JStr hash) \<Rightarrow> require (hash \<noteq> []) ''sendZkapp returned no transaction hash'' (Inr hash)
           | _ \<Rightarrow> Inl (AssertFail ''sendZkapp returned no transaction hash''))))"

section \<open>The upload of a signed response\<close>

record pendingUpload =
  puResponse :: json
  puTxJson :: string
  puFee :: int
  puFeePayer :: string
  puConfig :: string

record uploadProps =
  upAcceptActions :: "string list"
  upExpectedFees :: "string \<Rightarrow> int option"
  upExpectedContract :: "string option"
  upExpectedProposal :: "string option"
  upOnRecreate :: "(json \<Rightarrow> unit result) option"

record uploadPanel =
  uaProcessing :: bool
  uaPending :: "pendingUpload option"
  uaError :: "error option"
  uaDone :: bool
  uaRecreated :: bool

definition responseText :: "json \<Rightarrow> string \<Rightarrow> string" where
  "responseText v k = (case jsGet v k of Some (JStr s) \<Rightarrow> s | _ \<Rightarrow> [])"

text \<open>A cancelled check is not shown as an error.\<close>

definition shownError :: "error \<Rightarrow> error option" where
  "shownError e = (if e = PREFLIGHT_CANCELLED then None else Some e)"

text \<open>The checks of an uploaded file: its form, the action, the vault and the proposal of the page, the fee and
  the fee payer.\<close>

definition checkUpload :: "(string \<Rightarrow> json option) \<Rightarrow> uploadProps \<Rightarrow> string \<Rightarrow> string \<Rightarrow> pendingUpload result" where
  "checkUpload parse props config contents = (case parse contents of
       None \<Rightarrow> Inl (AssertFail ''File is not valid JSON'')
     | Some response \<Rightarrow>
         (let action = responseText response ''action'';
              expected = (\<lambda>want key. truthyText want \<and> jsGet response key \<noteq> map_option JStr want)
          in require (case response of JObj _ \<Rightarrow> True | JArr _ \<Rightarrow> True | _ \<Rightarrow> False) ''File does not contain a JSON object.''
            (require (jsGet response ''type'' = Some (JStr ''offline-signed-tx'')) ''Unrecognized file format''
            (andThen (assertOfflineResponseVersion (jsGet response ''version'')) (\<lambda>_.
             require (jsGet response ''action'' = Some (JStr action) \<and> action \<in> set (upAcceptActions props))
               ''This upload expects another action''
            (require (truthy (jsGet response ''transaction'')) ''Signed response is missing the transaction field''
            (require (\<not> expected (upExpectedContract props) ''contractAddress'') ''This signed transaction is for a different vault''
            (require (\<not> expected (upExpectedProposal props) ''proposalHash'') ''This signed transaction is for a different proposal''
            (let txJson = (case jsGet response ''transaction'' of Some (JStr s) \<Rightarrow> s | t \<Rightarrow> jsonStringify (the t))
             in case parse txJson of
                  None \<Rightarrow> Inl (AssertFail ''Signed response contains an invalid transaction. Not broadcasting.'')
                | Some tx \<Rightarrow> andThen (signedOwnerFeeNanomina tx (upExpectedFees props action)) (\<lambda>fee.
                    case jsPath tx [''feePayer'', ''body'', ''publicKey''] of
                      Some (JStr feePayer) \<Rightarrow> require (feePayer \<noteq> []) ''Signed transaction has no fee payer. Not broadcasting.''
                        (Inr \<lparr>puResponse = response, puTxJson = txJson, puFee = fee, puFeePayer = feePayer, puConfig = config\<rparr>)
                    | _ \<Rightarrow> Inl (AssertFail ''Signed transaction has no fee payer. Not broadcasting.'')))))))))))"

definition processFile :: "(string \<Rightarrow> json option) \<Rightarrow> uploadProps \<Rightarrow> string \<Rightarrow> string \<Rightarrow> uploadPanel \<Rightarrow> uploadPanel" where
  "processFile parse props config contents panel =
     (if uaProcessing panel then panel
      else case checkUpload parse props config contents of
        Inl e \<Rightarrow> panel\<lparr>uaPending := None, uaError := shownError e, uaDone := False, uaRecreated := False\<rparr>
      | Inr u \<Rightarrow> panel\<lparr>uaPending := Some u, uaError := None, uaDone := False, uaRecreated := False\<rparr>)"

section \<open>The confirmed broadcast\<close>

text \<open>What surrounds a confirmation: the configuration when it is given, the passes of the last check, and for
  each pass the proposal the backend answers with and the assessment of \<open>assessPreflightRetry\<close>.\<close>

record confirmEnv =
  cbParse :: "string \<Rightarrow> json option"
  cbConfig :: string
  cbGateBusy :: bool
  cbGeneration :: nat
  cbRounds :: "preflightRound list"
  cbProposal :: "nat \<Rightarrow> webProposal option result"
  cbAssess :: "nat \<Rightarrow> preflightContext \<Rightarrow> retryEligibility result"
  cbSend :: "json \<Rightarrow> json option"

definition assessUpload :: "confirmEnv \<Rightarrow> pendingUpload \<Rightarrow> nat \<Rightarrow> retryEligibility result" where
  "assessUpload E u i =
     (let action = responseText (puResponse u) ''action''; address = responseText (puResponse u) ''contractAddress''
      in if action = ''propose'' then Inr (RetryReview ''Review the proposal form and export a fresh request.'')
         else andThen (cbProposal E i) (\<lambda>found. case found of
             None \<Rightarrow> Inr RetryUnknown
           | Some p \<Rightarrow> cbAssess E i \<lparr>pcAction = (if action = ''approve'' then ApproveAction else ExecuteAction), pcAddress = address,
               pcActor = (case Option.bind (cbParse E (puTxJson u)) (\<lambda>tx. jsPath tx [''feePayer'', ''body'', ''publicKey'']) of
                 Some (JStr pk) \<Rightarrow> Some pk | _ \<Rightarrow> None),
               pcProposal = Some p, pcConfigNonce = None, pcInput = None\<rparr>))"

definition assessedRounds :: "confirmEnv \<Rightarrow> pendingUpload \<Rightarrow> preflightRound list" where
  "assessedRounds E u = map (\<lambda>(i, r). r\<lparr>prAssess := assessUpload E u i\<rparr>) (enumerate 0 (cbRounds E))"

definition uploadPreflight :: "confirmEnv \<Rightarrow> uploadProps \<Rightarrow> pendingUpload \<Rightarrow> preflightEnd" where
  "uploadPreflight E props u = snd (fst (preflightBeforeSend (cbGateBusy E) (cbParse E (puTxJson u)) True
     (upOnRecreate props \<noteq> None) (cbGeneration E) (cbConfig E) (assessedRounds E u)))"

definition recreateUpload :: "confirmEnv \<Rightarrow> (json \<Rightarrow> unit result) \<Rightarrow> pendingUpload \<Rightarrow> unit result" where
  "recreateUpload E recreate u = andThen (assessUpload E u (length (cbRounds E))) (\<lambda>e.
     if e = RetryEligible then recreate (puResponse u)
     else Inl (AssertFail (orDefault (messageOf e) ''This action is no longer verified as eligible. Nothing was exported.'')))"

definition failureText :: "error \<Rightarrow> string" where
  "failureText e = (case e of AssertFail m \<Rightarrow> m | Precondition m \<Rightarrow> m | AccountNotFound \<Rightarrow> ''account not found'')"

definition preflightFailureMessage :: "error \<Rightarrow> string" where
  "preflightFailureMessage e = (if containsText ''Account_app_state_precondition_unsatisfied'' (failureText e)
     then ''The vault changed before this transaction could be accepted.'' else failureText e)"

definition broadcastFailure :: "error \<Rightarrow> error" where
  "broadcastFailure e = (let msg = preflightFailureMessage e; has = (\<lambda>part. containsText part msg)
     in if has ''Invalid_signature'' \<or> has ''invalid signature''
        then AssertFail ''The Mina node rejected the transaction signature.''
        else if has ''Invalid_proof'' \<or> has ''invalid proof'' then AssertFail ''The Mina node rejected the transaction proof.''
        else if has ''Insufficient_fee'' \<or> has ''insufficient''
        then AssertFail ''The fee payer account does not have enough MINA to cover the transaction fee.''
        else AssertFail (''Broadcast failed: '' @ msg))"

text \<open>What leaves the browser, the panel after it, and the completion it reports: the response, the hash and
  the fee payer. While the user decides, the panel stays busy.\<close>

definition broadcastReviewed ::
  "confirmEnv \<Rightarrow> uploadProps \<Rightarrow> uploadPanel \<Rightarrow> txEffect list \<times> uploadPanel \<times> (json \<times> string \<times> string) option" where
  "broadcastReviewed E props panel = (case (uaProcessing panel, uaPending panel) of
       (False, Some u) \<Rightarrow>
         (let cleared = panel\<lparr>uaPending := None, uaError := None\<rparr>;
              failed = (\<lambda>e. ([], cleared\<lparr>uaError := shownError e\<rparr>, None))
          in if cbConfig E \<noteq> puConfig u
             then failed (AssertFail ''Network changed since the signed file was uploaded. Upload it again on the intended network.'')
             else case (case cbParse E (puTxJson u) of
                 None \<Rightarrow> Inl (AssertFail ''Unexpected token in JSON'')
               | Some tx \<Rightarrow> signedOwnerFeeNanomina tx (upExpectedFees props (responseText (puResponse u) ''action''))) of
               Inl e \<Rightarrow> failed e
             | Inr _ \<Rightarrow> (case uploadPreflight E props u of
                 PreflightWaiting \<Rightarrow> ([], cleared\<lparr>uaProcessing := True\<rparr>, None)
               | PreflightThrew e \<Rightarrow> (case (e = PREFLIGHT_REBUILD, upOnRecreate props) of
                   (True, Some recreate) \<Rightarrow> (case recreateUpload E recreate u of
                       Inl f \<Rightarrow> failed f | Inr _ \<Rightarrow> ([], cleared\<lparr>uaRecreated := True\<rparr>, None))
                 | _ \<Rightarrow> failed e)
               | PreflightPassed \<Rightarrow> (case broadcastSignedTx (cbParse E) (cbSend E) (puTxJson u) of
                   (effs, Inl e) \<Rightarrow> (effs, cleared\<lparr>uaError := shownError (broadcastFailure e)\<rparr>, None)
                 | (effs, Inr hash) \<Rightarrow> (effs, cleared\<lparr>uaDone := True\<rparr>, Some (puResponse u, hash, puFeePayer u)))))
     | _ \<Rightarrow> ([], panel, None))"

section \<open>The import of a signed migration\<close>

definition vaultEligible :: "webSecurity option \<Rightarrow> bool" where
  "vaultEligible status = (case status of None \<Rightarrow> False
     | Some s \<Rightarrow> wvAccountFound s \<and> truthyText (wvKeyHash s) \<and>
         (case wvTxnVersion s of None \<Rightarrow> False
          | Some v \<Rightarrow> allDigits v \<and> parseDecimal v < parseDecimal GUARD_SET_VERIFICATION_KEY_TXN_VERSION) \<and>
         wvKinds s SetVerificationKey = Some ''Impossible'' \<and>
         list_all (\<lambda>n. n = SetVerificationKey) (wvMismatches s))"

text \<open>\<open>status\<close> is the security of the vault read anew, \<open>sourceVersion\<close> the transaction version in the request.\<close>

definition importMigration ::
  "(string \<Rightarrow> json option) \<Rightarrow> (json \<Rightarrow> json option) \<Rightarrow> string option \<Rightarrow> string \<Rightarrow> migrationRequest \<Rightarrow> string
     \<Rightarrow> webSecurity option \<Rightarrow> string \<Rightarrow> txEffect list \<times> string result" where
  "importMigration parse send exportConfig config request sourceVersion status contents = (case parse contents of
       None \<Rightarrow> ([], Inl (AssertFail ''Unexpected token in JSON''))
     | Some response \<Rightarrow>
         (if \<not> truthyText exportConfig \<or> exportConfig \<noteq> Some config
          then ([], Inl (AssertFail ''Network configuration changed after export. Prepare a new migration request.''))
          else case assertMigrationResponse parse response request of
            Inl e \<Rightarrow> ([], Inl e)
          | Inr txJson \<Rightarrow>
              (if vaultEligible status \<and> Option.bind status wvKeyHash = Some (mrSourceHash request) \<and>
                  Option.bind status wvTxnVersion = Some sourceVersion
               then broadcastSignedTx parse send txJson
               else ([], Inl (AssertFail ''Vault state changed after export. Prepare a new migration request.'')))))"

section \<open>Nothing leaves the browser unchecked\<close>

datatype 'g sending =
    WorkerSend "'g submitter" preflightPage json "string list" "string option"
  | UploadSend confirmEnv uploadProps uploadPanel
  | MigrationSend "string \<Rightarrow> json option" "json \<Rightarrow> json option" "string option" string migrationRequest string "webSecurity option" string

fun sendingEffects :: "'g sending \<Rightarrow> txEffect list" where
  "sendingEffects (WorkerSend W P tx keys memo) = fst (submitTx W (pageCheck P) tx keys memo)"
| "sendingEffects (UploadSend E props panel) = fst (broadcastReviewed E props panel)"
| "sendingEffects (MigrationSend parse send exportConfig config request version status contents) =
     fst (importMigration parse send exportConfig config request version status contents)"

text \<open>Some pass of the check, all in one generation of the page and one configuration, read accounts of the
  node on which every app-state precondition of the command holds.\<close>

definition checkedCurrent :: "preflightRound list \<Rightarrow> nat \<Rightarrow> string \<Rightarrow> json \<Rightarrow> bool" where
  "checkedCurrent rounds started config sent \<longleftrightarrow>
     (\<exists>r\<in>set rounds. prBefore r = Inr () \<and> prGeneration r = started \<and> prGenerationAfter r = started \<and> prConfigAfter r = config \<and>
        (\<exists>us ps. jsGet sent ''accountUpdates'' = Some (JArr us) \<and> map readUpdate us = map Inr ps
           \<and> preconditionsHold (prAccounts r) ps))"

lemma passed_current:
  assumes "snd (runPreflightCheck (Some sent) offline canRebuild started config rounds) = PreflightPassed"
  shows "checkedCurrent rounds started config sent"
  using passed_round [OF assms] current_means_preconditions_hold unfolding checkedCurrent_def by blast

lemma broadcast_parsed:
  "leaves (fst (broadcastSignedTx parse send txJson)) sent \<Longrightarrow> parse txJson = Some sent"
  by (auto simp: broadcastSignedTx_def leaves_def split: option.split_asm)

text \<open>The assessments do not touch what the passes read.\<close>

lemma assessedRounds_current:
  assumes "checkedCurrent (assessedRounds E u) started config sent"
  shows "checkedCurrent (cbRounds E) started config sent"
proof -
  have "\<exists>i r. (i, r) \<in> set (enumerate 0 (cbRounds E)) \<and> r' = r\<lparr>prAssess := assessUpload E u i\<rparr>"
    if "r' \<in> set (assessedRounds E u)" for r' using that by (auto simp: assessedRounds_def)
  then have "\<exists>r\<in>set (cbRounds E). prBefore r = prBefore r' \<and> prGeneration r = prGeneration r' \<and>
      prGenerationAfter r = prGenerationAfter r' \<and> prConfigAfter r = prConfigAfter r' \<and> prAccounts r = prAccounts r'"
    if "r' \<in> set (assessedRounds E u)" for r'
    using that by (fastforce simp: in_set_enumerate_eq)
  then show ?thesis using assms unfolding checkedCurrent_def by metis
qed

lemma uploadPreflight_passed:
  assumes "uploadPreflight E props u = PreflightPassed" "cbParse E (puTxJson u) = Some sent"
  shows "checkedCurrent (cbRounds E) (cbGeneration E) (cbConfig E) sent"
proof (rule assessedRounds_current)
  have "snd (runPreflightCheck (Some sent) True (upOnRecreate props \<noteq> None) (cbGeneration E) (cbConfig E) (assessedRounds E u)) = PreflightPassed"
    using assms unfolding uploadPreflight_def preflightBeforeSend_def
    by (auto split: if_split_asm preflightEnd.split_asm prod.split_asm)
  then show "checkedCurrent (assessedRounds E u) (cbGeneration E) (cbConfig E) sent" by (rule passed_current)
qed

lemma broadcastReviewed_leaves:
  assumes "leaves (fst (broadcastReviewed E props panel)) sent"
  shows "\<exists>u fee. \<not> uaProcessing panel \<and> uaPending panel = Some u \<and> cbConfig E = puConfig u \<and> cbParse E (puTxJson u) = Some sent \<and>
    signedOwnerFeeNanomina sent (upExpectedFees props (responseText (puResponse u) ''action'')) = Inr fee \<and>
    uploadPreflight E props u = PreflightPassed"
proof -
  obtain u where u: "\<not> uaProcessing panel" "uaPending panel = Some u"
    using assms by (auto simp: broadcastReviewed_def split: bool.split_asm option.split_asm)
  note b = assms [unfolded broadcastReviewed_def u(2) Let_def, simplified u(1), simplified]
  have "cbConfig E = puConfig u" using b by (simp split: if_split_asm)
  moreover have "uploadPreflight E props u = PreflightPassed"
    using b by (simp split: if_split_asm option.split_asm sum.split_asm preflightEnd.split_asm bool.split_asm)
  moreover from this have "leaves (fst (broadcastSignedTx (cbParse E) (cbSend E) (puTxJson u))) sent"
    using b by (simp split: if_split_asm sum.split_asm prod.split_asm)
  then have "cbParse E (puTxJson u) = Some sent" by (rule broadcast_parsed)
  moreover from this have "\<exists>fee. signedOwnerFeeNanomina sent (upExpectedFees props (responseText (puResponse u) ''action'')) = Inr fee"
    using b by (simp split: if_split_asm sum.split_asm)
  ultimately show ?thesis using u by blast
qed

lemma assertMigrationResponse_command:
  "assertMigrationResponse parse response request = Inr txJson \<Longrightarrow>
   \<exists>command. expectedMigration command request \<and> txJson = jsonStringify command"
  by (auto simp: assertMigrationResponse_def Let_def split: option.split_asm)

lemma importMigration_leaves:
  assumes "leaves (fst (importMigration parse send exportConfig config request version status contents)) sent"
  shows "exportConfig = Some config \<and> vaultEligible status \<and> Option.bind status wvKeyHash = Some (mrSourceHash request) \<and>
    Option.bind status wvTxnVersion = Some version \<and>
    (\<exists>command. expectedMigration command request \<and> parse (jsonStringify command) = Some sent)"
proof -
  obtain response txJson where r: "exportConfig = Some config" "assertMigrationResponse parse response request = Inr txJson"
    "vaultEligible status" "Option.bind status wvKeyHash = Some (mrSourceHash request)" "Option.bind status wvTxnVersion = Some version"
    "leaves (fst (broadcastSignedTx parse send txJson)) sent"
    using assms by (auto simp: importMigration_def split: option.split_asm if_split_asm sum.split_asm)
  then show ?thesis using assertMigrationResponse_command [OF r(2)] broadcast_parsed [OF r(6)] by blast
qed

text \<open>
  C40: Whatever the browser sends was checked in exactly that form. A command that the worker sends, to the
  node or to a wallet that broadcasts it, and a command that was signed offline and uploaded, passed the last
  check: in some pass of it, during which neither the page nor the network configuration changed, every
  app-state precondition of every account update equals the value the node reported, as changed by the earlier
  updates of the same transaction. The uploaded command is moreover the one the user reviewed, on the
  configuration of its upload, with an accepted fee. The only other command the browser sends is a migration
  of the verification key, which has no last check of its own kind: it is the command of the exported request,
  for a vault that the node still reports with the key and the version of that request.
\<close>
theorem sent_transaction_is_current:
  assumes "leaves (sendingEffects s) sent"
  shows "case s of
      WorkerSend W P tx keys memo \<Rightarrow> ppActive P \<and> ppConfigOkAfter P \<and> checkedCurrent (ppRounds P) (ppStarted P) (ppConfig P) sent
    | UploadSend E props panel \<Rightarrow> checkedCurrent (cbRounds E) (cbGeneration E) (cbConfig E) sent \<and>
        (\<exists>u fee. uaPending panel = Some u \<and> puConfig u = cbConfig E \<and> cbParse E (puTxJson u) = Some sent \<and>
           signedOwnerFeeNanomina sent (upExpectedFees props (responseText (puResponse u) ''action'')) = Inr fee)
    | MigrationSend parse send exportConfig config request version status contents \<Rightarrow>
        exportConfig = Some config \<and> vaultEligible status \<and> Option.bind status wvKeyHash = Some (mrSourceHash request) \<and>
        Option.bind status wvTxnVersion = Some version \<and>
        (\<exists>command. expectedMigration command request \<and> parse (jsonStringify command) = Some sent)"
proof (cases s)
  case (WorkerSend W P tx keys memo)
  have ok: "pageCheck P sent = Inr ()" using assms unfolding WorkerSend sendingEffects.simps by (rule submitTx_checks)
  note page = pageCheck_passed [OF ok]
  then have "checkedCurrent (ppRounds P) (ppStarted P) (ppConfig P) sent" by (intro passed_current) blast
  then show ?thesis using page by (simp add: WorkerSend)
next
  case (UploadSend E props panel)
  obtain u fee where u: "uaPending panel = Some u" "cbConfig E = puConfig u" "cbParse E (puTxJson u) = Some sent"
    "signedOwnerFeeNanomina sent (upExpectedFees props (responseText (puResponse u) ''action'')) = Inr fee"
    "uploadPreflight E props u = PreflightPassed"
    using broadcastReviewed_leaves [OF assms [unfolded UploadSend sendingEffects.simps]] by blast
  show ?thesis using u uploadPreflight_passed [OF u(5,3)] by (simp add: UploadSend)
next
  case (MigrationSend parse send exportConfig config request version status contents)
  show ?thesis using importMigration_leaves [OF assms [unfolded MigrationSend sendingEffects.simps]] by (simp add: MigrationSend)
qed

end
