(* ===== verification/Indexer_Db.thy ===== *)
theory Indexer_Db
  imports Chain_Events Memo Proposal_Record
begin

text \<open>
  The database of the backend's indexer (the tables of \<open>schema.prisma\<close>) and the helpers of \<open>indexer.ts\<close>
  that read and write single rows. A table is the list of its rows in insertion order. Ids are drawn
  from one counter, so they are unique within each table as the autoincremented ones are; time stamps
  are left out, except for whether a contract was ever synced.
\<close>

section \<open>Tables\<close>

record contractRow =
  coId :: nat
  coAddress :: string
  coParent :: "string option"
  coReady :: bool
  coPermissionsVerified :: bool
  coDiscoveredAtBlock :: "int option"
  coSynced :: bool

record configFields =
  cfgThreshold :: "int option"
  cfgNumOwners :: "int option"
  cfgNonce :: "int option"
  cfgParentNonce :: "int option"
  cfgConfigNonce :: "int option"
  cfgDelegate :: "string option"
  cfgChildMultiSigEnabled :: "bool option"
  cfgOwnersCommitment :: "string option"

record configRow =
  cfContractId :: nat
  cfValidFromBlock :: int
  cfEventOrder :: nat
  cfSourceEventId :: "nat option"
  cfFields :: configFields

record membershipRow =
  omContractId :: nat
  omAddress :: string
  omAdded :: bool
  omIndex :: "int option"
  omValidFromBlock :: int
  omEventOrder :: nat
  omSourceEventId :: nat

record proposalTableRow =
  ptId :: nat
  ptContractId :: nat
  ptProposalHash :: string
  ptProposer :: "string option"
  ptToAddress :: "string option"
  ptTokenId :: "string option"
  ptTxType :: "string option"
  ptData :: "string option"
  ptMemoHash :: "string option"
  ptMemo :: "string option"
  ptNonce :: "string option"
  ptConfigNonce :: "string option"
  ptExpirySlot :: "string option"
  ptGuardAddress :: "string option"
  ptDestination :: "string option"
  ptChildAccount :: "string option"
  ptExecutionMemoHash :: "string option"
  ptLastApproveTxHash :: "string option"
  ptLastApproveError :: "string option"
  ptLastExecuteTxHash :: "string option"
  ptLastExecuteError :: "string option"
  ptCreatedAtBlock :: int

record receiverTableRow =
  rtProposalId :: nat
  rtIdx :: nat
  rtAddress :: string
  rtAmount :: string

record approvalRow =
  apProposalId :: nat
  apApprover :: string
  apApprovalRaw :: "string option"
  apBlockHeight :: int
  apEventOrder :: nat

record executionTableRow =
  etProposalId :: nat
  etBlockHeight :: int
  etTxHash :: "string option"
  etEventOrder :: nat

record eventRawRow =
  erwId :: nat
  erwContractId :: "nat option"
  erwBlockHeight :: int
  erwTxHash :: "string option"
  erwEventType :: string
  erwPayload :: string
  erwFingerprint :: string
  erwApplyError :: "string option"

record blockHeaderRow =
  bhHeight :: int
  bhBlockHash :: string
  bhParentHash :: string

record database =
  dbHeaders :: "blockHeaderRow list"
  dbContracts :: "contractRow list"
  dbConfigs :: "configRow list"
  dbMembers :: "membershipRow list"
  dbProposals :: "proposalTableRow list"
  dbReceivers :: "receiverTableRow list"
  dbApprovals :: "approvalRow list"
  dbExecutions :: "executionTableRow list"
  dbEvents :: "eventRawRow list"
  dbCursors :: "(string \<times> string) list"
  dbNextId :: nat

section \<open>Values of a payload\<close>

definition asString :: "json option \<Rightarrow> string option" where
  "asString value = (case value of
       Some (JStr s) \<Rightarrow> Some s
     | Some (JNum n) \<Rightarrow> Some (jsString (JNum n))
     | Some (JBool b) \<Rightarrow> Some (jsString (JBool b))
     | _ \<Rightarrow> None)"

definition asNumber :: "json option \<Rightarrow> int option" where
  "asNumber value = (case asString value of
       None \<Rightarrow> None
     | Some asText \<Rightarrow> if asText = [] then None else jsNumber asText)"

definition normalizeDestination :: "string option \<Rightarrow> string option" where
  "normalizeDestination value = (case value of
       None \<Rightarrow> None
     | Some v \<Rightarrow> if v = ''0'' \<or> v = ''local'' then Some ''local''
         else if v = ''1'' \<or> v = ''remote'' then Some ''remote'' else Some v)"

definition asNullableAddress :: "('m, 'w, 's) o1js \<Rightarrow> string option \<Rightarrow> string option" where
  "asNullableAddress E value = (case value of
       None \<Rightarrow> None
     | Some v \<Rightarrow> if v = [] \<or> v = toBase58 E emptyKey then None else Some v)"

section \<open>Reading rows\<close>

definition findContract :: "nat \<Rightarrow> database \<Rightarrow> contractRow option" where
  "findContract cid db = find (\<lambda>c. coId c = cid) (dbContracts db)"

definition findContractAt :: "string \<Rightarrow> database \<Rightarrow> contractRow option" where
  "findContractAt address db = find (\<lambda>c. coAddress c = address) (dbContracts db)"

definition findProposal :: "nat \<Rightarrow> string \<Rightarrow> database \<Rightarrow> proposalTableRow option" where
  "findProposal cid ph db = find (\<lambda>p. ptContractId p = cid \<and> ptProposalHash p = ph) (dbProposals db)"

definition isRecorded :: "string \<Rightarrow> database \<Rightarrow> bool" where
  "isRecorded fingerprint db \<longleftrightarrow> find (\<lambda>e. erwFingerprint e = fingerprint) (dbEvents db) \<noteq> None"

text \<open>The first row in descending order of block and event order; the newest row among equals.\<close>

definition configBefore :: "configRow \<Rightarrow> configRow \<Rightarrow> bool" where
  "configBefore a b \<longleftrightarrow> cfValidFromBlock a < cfValidFromBlock b \<or>
     cfValidFromBlock a = cfValidFromBlock b \<and> cfEventOrder a \<le> cfEventOrder b"

fun latestRow :: "configRow list \<Rightarrow> configRow option" where
  "latestRow [] = None"
| "latestRow (r # rs) = (case latestRow rs of None \<Rightarrow> Some r | Some r' \<Rightarrow> if configBefore r r' then Some r' else Some r)"

definition getLatestConfig :: "nat \<Rightarrow> database \<Rightarrow> configRow option" where
  "getLatestConfig cid db = latestRow (filter (\<lambda>r. cfContractId r = cid) (dbConfigs db))"

section \<open>Writing rows\<close>

definition updateRow :: "('r \<Rightarrow> bool) \<Rightarrow> ('r \<Rightarrow> 'r) \<Rightarrow> 'r list \<Rightarrow> 'r list" where
  "updateRow which change rows = map (\<lambda>r. if which r then change r else r) rows"

definition upsertRow :: "('r \<Rightarrow> bool) \<Rightarrow> 'r \<Rightarrow> ('r \<Rightarrow> 'r) \<Rightarrow> 'r list \<Rightarrow> 'r list" where
  "upsertRow which create change rows =
     (if find which rows = None then rows @ [create] else updateRow which change rows)"

definition orElse :: "'a option \<Rightarrow> 'a option \<Rightarrow> 'a option" where
  "orElse a b = (case a of None \<Rightarrow> b | Some x \<Rightarrow> Some x)"

definition noChanges :: configFields where
  "noChanges = \<lparr>cfgThreshold = None, cfgNumOwners = None, cfgNonce = None, cfgParentNonce = None, cfgConfigNonce = None,
     cfgDelegate = None, cfgChildMultiSigEnabled = None, cfgOwnersCommitment = None\<rparr>"

definition mergeConfig :: "configFields \<Rightarrow> configFields \<Rightarrow> configFields" where
  "mergeConfig changes latest = \<lparr>
     cfgThreshold = orElse (cfgThreshold changes) (cfgThreshold latest),
     cfgNumOwners = orElse (cfgNumOwners changes) (cfgNumOwners latest),
     cfgNonce = orElse (cfgNonce changes) (cfgNonce latest),
     cfgParentNonce = orElse (cfgParentNonce changes) (cfgParentNonce latest),
     cfgConfigNonce = orElse (cfgConfigNonce changes) (cfgConfigNonce latest),
     cfgDelegate = orElse (cfgDelegate changes) (cfgDelegate latest),
     cfgChildMultiSigEnabled = orElse (cfgChildMultiSigEnabled changes) (cfgChildMultiSigEnabled latest),
     cfgOwnersCommitment = orElse (cfgOwnersCommitment changes) (cfgOwnersCommitment latest)\<rparr>"

definition latestFields :: "nat \<Rightarrow> database \<Rightarrow> configFields" where
  "latestFields cid db = (case getLatestConfig cid db of None \<Rightarrow> noChanges | Some r \<Rightarrow> cfFields r)"

definition appendContractConfigSnapshot ::
  "nat \<Rightarrow> int \<Rightarrow> nat \<Rightarrow> nat option \<Rightarrow> configFields \<Rightarrow> database \<Rightarrow> database" where
  "appendContractConfigSnapshot cid validFromBlock eventOrder sourceEventId changes db =
     db\<lparr>dbConfigs := dbConfigs db @ [\<lparr>cfContractId = cid, cfValidFromBlock = validFromBlock, cfEventOrder = eventOrder,
       cfSourceEventId = sourceEventId, cfFields = mergeConfig changes (latestFields cid db)\<rparr>]\<rparr>"

section \<open>The latest row\<close>

lemma latestRow_append:
  "\<forall>r \<in> set rs. configBefore r new \<Longrightarrow> latestRow (rs @ [new]) = Some new"
  by (induction rs) auto

lemma latestRow_in: "latestRow rs = Some r \<Longrightarrow> r \<in> set rs"
  by (induction rs arbitrary: r) (auto split: option.splits if_splits)

text \<open>The keys of all rows of a contract are below a position.\<close>

definition configsBelow :: "nat \<Rightarrow> int \<Rightarrow> nat \<Rightarrow> database \<Rightarrow> bool" where
  "configsBelow cid h n db \<longleftrightarrow> (\<forall>r \<in> set (dbConfigs db). cfContractId r = cid \<longrightarrow>
     cfValidFromBlock r < h \<or> cfValidFromBlock r = h \<and> cfEventOrder r < n)"

lemma configsBelow_mono: "configsBelow cid h n db \<Longrightarrow> n \<le> m \<Longrightarrow> configsBelow cid h m db"
  by (force simp: configsBelow_def)

lemma snapshot_latest:
  assumes "configsBelow cid h n db" "n \<le> k"
  shows "latestFields cid (appendContractConfigSnapshot cid h k src ch db) = mergeConfig ch (latestFields cid db)"
proof -
  let ?new = "\<lparr>cfContractId = cid, cfValidFromBlock = h, cfEventOrder = k, cfSourceEventId = src,
    cfFields = mergeConfig ch (latestFields cid db)\<rparr>"
  have "\<forall>r \<in> set (filter (\<lambda>r. cfContractId r = cid) (dbConfigs db)). configBefore r ?new"
    using assms by (force simp: configsBelow_def configBefore_def)
  from latestRow_append [OF this] show ?thesis
    by (simp add: latestFields_def getLatestConfig_def appendContractConfigSnapshot_def)
qed

lemma snapshot_below:
  "configsBelow cid h n db \<Longrightarrow> n \<le> k \<Longrightarrow> configsBelow cid h (Suc k) (appendContractConfigSnapshot cid h k src ch db)"
  by (force simp: configsBelow_def appendContractConfigSnapshot_def)

lemma latestFields_cong: "dbConfigs db' = dbConfigs db \<Longrightarrow> latestFields cid db' = latestFields cid db"
  by (simp add: latestFields_def getLatestConfig_def)

lemma configsBelow_cong: "dbConfigs db' = dbConfigs db \<Longrightarrow> configsBelow cid h n db' = configsBelow cid h n db"
  by (simp add: configsBelow_def)

end
