(* ===== verification/Indexer_Reorg.thy ===== *)
theory Indexer_Reorg
  imports Indexer_Db
begin

text \<open>
  Chain reorganisations in the indexer (\<open>detectAndRollbackReorg\<close>, \<open>rollbackAboveFork\<close> and
  \<open>deleteContract\<close> of \<open>indexer.ts\<close>): finding the fork point between the stored block headers and the
  node's best chain, and removing everything above it. Deletions cascade as \<open>schema.prisma\<close> declares.
\<close>

section \<open>The fork point\<close>

definition REORG_DETECTION_WINDOW :: int where
  "REORG_DETECTION_WINDOW = 290"

text \<open>The best chain, ascending; of two headers of one height the later entry counts.\<close>

definition chainByHeight :: "blockHeaderRow list \<Rightarrow> int \<Rightarrow> string option" where
  "chainByHeight headers = map_of (rev (map (\<lambda>h. (bhHeight h, bhBlockHash h)) headers))"

definition storedInWindow :: "blockHeaderRow list \<Rightarrow> database \<Rightarrow> blockHeaderRow list" where
  "storedInWindow headers db =
     sort_key bhHeight (filter (\<lambda>s. bhHeight (hd headers) \<le> bhHeight s \<and> bhHeight s \<le> bhHeight (last headers)) (dbHeaders db))"

text \<open>The walk down from the highest stored header: the agreed height at which it stops, the highest and
  the lowest mismatch it passed.\<close>

fun walkDown :: "(int \<Rightarrow> string option) \<Rightarrow> blockHeaderRow list \<Rightarrow> int option \<Rightarrow> int option
    \<Rightarrow> int option \<times> int option \<times> int option" where
  "walkDown chain [] highest lowest = (None, highest, lowest)"
| "walkDown chain (s # ss) highest lowest = (case chain (bhHeight s) of
       None \<Rightarrow> walkDown chain ss highest lowest
     | Some h \<Rightarrow> if h = bhBlockHash s then (Some (bhHeight s), highest, lowest)
         else walkDown chain ss (if highest = None then Some (bhHeight s) else highest) (Some (bhHeight s)))"

text \<open>The height to roll back to, and whether the recovery lacks an agreed predecessor.\<close>

definition reorgFork :: "blockHeaderRow list \<Rightarrow> database \<Rightarrow> (int \<times> bool) option" where
  "reorgFork headers db =
     (if headers = [] then None
      else let stored = storedInWindow headers db
        in if stored = [] then None
           else (case walkDown (chainByHeight headers) (rev stored) None None of
               (fork, None, lowest) \<Rightarrow> None
             | (Some fork, Some highest, lowest) \<Rightarrow> Some (fork, False)
             | (None, Some highest, Some lowest) \<Rightarrow> Some (lowest - 1, True)
             | (None, Some highest, None) \<Rightarrow> None))"

section \<open>Rolling back\<close>

definition deleteProposals :: "(proposalTableRow \<Rightarrow> bool) \<Rightarrow> database \<Rightarrow> database" where
  "deleteProposals which db =
     (let gone = ptId ` set (filter which (dbProposals db))
      in db\<lparr>dbProposals := filter (\<lambda>p. \<not> which p) (dbProposals db),
            dbApprovals := filter (\<lambda>a. apProposalId a \<notin> gone) (dbApprovals db),
            dbReceivers := filter (\<lambda>r. rtProposalId r \<notin> gone) (dbReceivers db),
            dbExecutions := filter (\<lambda>x. etProposalId x \<notin> gone) (dbExecutions db)\<rparr>)"

definition deleteContracts :: "(contractRow \<Rightarrow> bool) \<Rightarrow> database \<Rightarrow> database" where
  "deleteContracts which db =
     (let gone = coId ` set (filter which (dbContracts db));
          db1 = deleteProposals (\<lambda>p. ptContractId p \<in> gone) db
      in db1\<lparr>dbContracts := filter (\<lambda>c. \<not> which c) (dbContracts db1),
             dbConfigs := filter (\<lambda>r. cfContractId r \<notin> gone) (dbConfigs db1),
             dbMembers := filter (\<lambda>m. omContractId m \<notin> gone) (dbMembers db1),
             dbEvents := map (\<lambda>e. if erwContractId e \<in> Some ` gone then e\<lparr>erwContractId := None\<rparr> else e) (dbEvents db1)\<rparr>)"

definition setCursor :: "string \<Rightarrow> int \<Rightarrow> database \<Rightarrow> database" where
  "setCursor key height db = db\<lparr>dbCursors := upsertRow (\<lambda>c. fst c = key) (key, intToString height)
     (\<lambda>c. (fst c, intToString height)) (dbCursors db)\<rparr>"

definition rollbackAboveFork :: "int \<Rightarrow> bool \<Rightarrow> database \<Rightarrow> database" where
  "rollbackAboveFork forkHeight lite db =
     (let db1 = db\<lparr>dbHeaders := filter (\<lambda>h. bhHeight h \<le> forkHeight) (dbHeaders db),
            dbEvents := filter (\<lambda>e. erwBlockHeight e \<le> forkHeight) (dbEvents db),
            dbConfigs := filter (\<lambda>r. cfValidFromBlock r \<le> forkHeight) (dbConfigs db),
            dbMembers := filter (\<lambda>m. omValidFromBlock m \<le> forkHeight) (dbMembers db),
            dbExecutions := filter (\<lambda>x. etBlockHeight x \<le> forkHeight) (dbExecutions db),
            dbApprovals := filter (\<lambda>a. apBlockHeight a \<le> forkHeight) (dbApprovals db)\<rparr>;
          db2 = deleteProposals (\<lambda>p. ptCreatedAtBlock p > forkHeight) db1;
          db3 = (if lite then db2
            else deleteContracts (\<lambda>c. case coDiscoveredAtBlock c of Some b \<Rightarrow> b > forkHeight | None \<Rightarrow> False) db2);
          db4 = db3\<lparr>dbContracts := updateRow (\<lambda>c. \<not> list_ex (\<lambda>e. erwContractId e = Some (coId c)) (dbEvents db3))
            (\<lambda>c. c\<lparr>coReady := False, coPermissionsVerified := False\<rparr>) (dbContracts db3)\<rparr>
      in setCursor ''indexed_height'' forkHeight db4)"

text \<open>\<open>headers\<close> is what the node answers; a failed request skips the detection.\<close>

definition detectAndRollbackReorg :: "blockHeaderRow list result \<Rightarrow> bool \<Rightarrow> database \<Rightarrow> int option \<times> database" where
  "detectAndRollbackReorg headers lite db = (case headers of
       Inl _ \<Rightarrow> (None, db)
     | Inr hs \<Rightarrow> (case reorgFork hs db of
         None \<Rightarrow> (None, db)
       | Some (fork, warned) \<Rightarrow> (Some fork, rollbackAboveFork fork lite db)))"

definition deleteContract :: "nat \<Rightarrow> database \<Rightarrow> database" where
  "deleteContract cid db =
     deleteContracts (\<lambda>c. coId c = cid) (db\<lparr>dbEvents := filter (\<lambda>e. erwContractId e \<noteq> Some cid) (dbEvents db)\<rparr>)"

section \<open>The walk finds the highest agreement\<close>

definition comparable :: "(int \<Rightarrow> string option) \<Rightarrow> blockHeaderRow \<Rightarrow> bool" where
  "comparable chain s \<longleftrightarrow> chain (bhHeight s) \<noteq> None"

definition agrees :: "(int \<Rightarrow> string option) \<Rightarrow> blockHeaderRow \<Rightarrow> bool" where
  "agrees chain s \<longleftrightarrow> chain (bhHeight s) = Some (bhBlockHash s)"

lemma walkDown_filter: "walkDown chain ss h l = walkDown chain (filter (comparable chain) ss) h l"
  by (induction chain ss h l rule: walkDown.induct) (auto simp: comparable_def split: option.splits)

text \<open>Over comparable headers the walk splits them at the first agreement.\<close>

lemma walkDown_split:
  assumes "\<forall>s \<in> set ss. comparable chain s" "M = takeWhile (\<lambda>s. \<not> agrees chain s) ss" "R = dropWhile (\<lambda>s. \<not> agrees chain s) ss"
  shows "walkDown chain ss h l =
    (if R = [] then None else Some (bhHeight (hd R)),
     if h = None then (if M = [] then None else Some (bhHeight (hd M))) else h,
     if M = [] then l else Some (bhHeight (last M)))"
  using assms
proof (induction chain ss h l arbitrary: M R rule: walkDown.induct)
  case (2 chain s ss h l)
  obtain b where b: "chain (bhHeight s) = Some b" using 2(3) by (auto simp: comparable_def)
  show ?case
  proof (cases "b = bhBlockHash s")
    case True
    then have "agrees chain s" by (simp add: agrees_def b)
    with True 2(4,5) b show ?thesis by simp
  next
    case False
    then have ag: "\<not> agrees chain s" by (simp add: agrees_def b)
    let ?M = "takeWhile (\<lambda>s. \<not> agrees chain s) ss"
    note ih = 2(2) [OF b False _ refl refl]
    show ?thesis using ih 2(3,4,5) False b ag by (simp split: if_splits)
  qed
qed simp

lemma storedInWindow_comparable:
  assumes "sorted (map bhHeight headers)" "headers \<noteq> []"
  shows "set (filter (comparable (chainByHeight headers)) (storedInWindow headers db)) =
    {s \<in> set (dbHeaders db). comparable (chainByHeight headers) s}"
proof -
  have "bhHeight (hd headers) \<le> bhHeight s \<and> bhHeight s \<le> bhHeight (last headers)"
    if "comparable (chainByHeight headers) s" for s
  proof -
    have "bhHeight s \<in> bhHeight ` set headers"
      using that by (auto simp: comparable_def chainByHeight_def dest!: map_of_SomeD)
    then obtain i where i: "i < length headers" "bhHeight s = map bhHeight headers ! i" by (auto simp: in_set_conv_nth)
    have "map bhHeight headers ! 0 \<le> map bhHeight headers ! i"
      using i(1) by (intro sorted_nth_mono [OF assms(1)]) auto
    moreover have "map bhHeight headers ! i \<le> map bhHeight headers ! (length headers - 1)"
      using i(1) by (intro sorted_nth_mono [OF assms(1)]) auto
    ultimately show ?thesis using i assms(2) by (simp add: hd_conv_nth last_conv_nth)
  qed
  then show ?thesis by (auto simp: storedInWindow_def)
qed

text \<open>The comparable stored headers, highest first.\<close>

lemma descending_window:
  assumes "distinct (map bhHeight (dbHeaders db))"
  shows "sorted_wrt (\<lambda>a b. bhHeight b < bhHeight a) (filter P (rev (storedInWindow headers db)))"
proof -
  have "distinct (map bhHeight (storedInWindow headers db))"
    using assms by (auto simp: storedInWindow_def distinct_map inj_on_def)
  moreover have "sorted (map bhHeight (storedInWindow headers db))" by (simp add: storedInWindow_def)
  ultimately have "sorted_wrt (<) (map bhHeight (storedInWindow headers db))" by (simp add: strict_sorted_iff)
  then show ?thesis by (simp add: sorted_wrt_map sorted_wrt_rev sorted_wrt_filter)
qed

lemma reorgFork_walk:
  assumes "headers \<noteq> []"
    and "cs = filter (comparable (chainByHeight headers)) (rev (storedInWindow headers db))"
    and "M = takeWhile (\<lambda>s. \<not> agrees (chainByHeight headers) s) cs" "R = dropWhile (\<lambda>s. \<not> agrees (chainByHeight headers) s) cs"
  shows "reorgFork headers db = (if M = [] then None
     else if R = [] then Some (bhHeight (last M) - 1, True) else Some (bhHeight (hd R), False))"
proof -
  have "walkDown (chainByHeight headers) (rev (storedInWindow headers db)) None None =
    (if R = [] then None else Some (bhHeight (hd R)),
     if M = [] then None else Some (bhHeight (hd M)), if M = [] then None else Some (bhHeight (last M)))"
    by (subst walkDown_filter, subst walkDown_split [OF _ refl refl]) (simp_all add: assms(2-4))
  moreover have "M = []" if "storedInWindow headers db = []" using that assms(2,3) by simp
  ultimately show ?thesis using assms(1) by (auto simp: reorgFork_def Let_def)
qed

text \<open>C31: The indexer rolls back exactly when the highest stored header that the node's best chain still
  knows has another hash there. It then rolls back to the highest height at which a stored header agrees
  with the chain, so every comparable header above is orphaned and none that agrees is dropped; without
  any agreement it rolls back to just below the lowest comparable header.\<close>

theorem fork_point_exact:
  fixes headers :: "blockHeaderRow list" and db :: database
  defines "chain \<equiv> chainByHeight headers"
  defines "S \<equiv> {s \<in> set (dbHeaders db). comparable chain s}"
  assumes "sorted (map bhHeight headers)" "distinct (map bhHeight (dbHeaders db))"
  shows "case reorgFork headers db of
      Some (k, warned) \<Rightarrow> (\<exists>s \<in> S. k < bhHeight s \<and> (\<forall>t \<in> S. bhHeight t \<le> bhHeight s)) \<and>
        (\<forall>s \<in> S. k < bhHeight s \<longrightarrow> \<not> agrees chain s) \<and>
        (if warned then (\<forall>s \<in> S. k < bhHeight s) \<and> (\<exists>s \<in> S. bhHeight s = k + 1)
         else (\<exists>s \<in> S. bhHeight s = k \<and> agrees chain s))
    | None \<Rightarrow> headers = [] \<or> S = {} \<or> (\<exists>s \<in> S. agrees chain s \<and> (\<forall>t \<in> S. bhHeight t \<le> bhHeight s))"
proof (cases "headers = []")
  case True
  then show ?thesis by (simp add: reorgFork_def)
next
  case False
  define cs where "cs = filter (comparable chain) (rev (storedInWindow headers db))"
  define M where "M = takeWhile (\<lambda>s. \<not> agrees chain s) cs"
  define R where "R = dropWhile (\<lambda>s. \<not> agrees chain s) cs"
  have S: "S = set cs" using storedInWindow_comparable [OF assms(3) False, of db]
    by (simp add: S_def cs_def chain_def rev_filter [symmetric])
  have cs: "cs = M @ R" by (simp add: M_def R_def)
  have desc: "sorted_wrt (\<lambda>a b. bhHeight b < bhHeight a) (M @ R)"
    using descending_window [OF assms(4)] by (simp add: cs [symmetric] cs_def)
  have fork: "reorgFork headers db = (if M = [] then None
      else if R = [] then Some (bhHeight (last M) - 1, True) else Some (bhHeight (hd R), False))"
    by (rule reorgFork_walk [OF False]) (simp_all add: cs_def M_def R_def chain_def)
  have M: "\<not> agrees chain s" if "s \<in> set M" for s using that by (auto simp: M_def dest: set_takeWhileD)
  have R: "agrees chain (hd R)" if "R \<noteq> []" using hd_dropWhile [of "\<lambda>s. \<not> agrees chain s" cs] that by (simp add: R_def)
  consider (none) "M = []" "R = []" | (agreed) "M = []" "R \<noteq> []" | (lost) "M \<noteq> []" "R = []" | (found) "M \<noteq> []" "R \<noteq> []" by blast
  then show ?thesis
  proof cases
    case none
    then show ?thesis by (simp add: fork S cs)
  next
    case agreed
    then obtain r rs where r: "R = r # rs" by (cases R) auto
    with agreed R desc show ?thesis by (auto simp: fork S cs intro: less_imp_le)
  next
    case lost
    then obtain ms m where m: "M = ms @ [m]" by (cases M rule: rev_cases) auto
    obtain m0 ms0 where m0: "M = m0 # ms0" using lost by (cases M) auto
    have low: "bhHeight m \<le> bhHeight s" if "s \<in> set M" for s using that desc lost m by (auto simp: sorted_wrt_append)
    have high: "bhHeight s \<le> bhHeight m0" if "s \<in> set M" for s using that desc lost m0 by auto
    have "m \<in> set M" by (simp add: m)
    moreover have "m0 \<in> set M" by (simp add: m0)
    ultimately have "\<exists>s \<in> set M. bhHeight m - 1 < bhHeight s \<and> (\<forall>t \<in> set M. bhHeight t \<le> bhHeight s)"
      using low high by (intro bexI [of _ m0]) force+
    moreover have "\<forall>s \<in> set M. bhHeight m - 1 < bhHeight s" using low by force
    moreover have "\<exists>s \<in> set M. bhHeight s = bhHeight m - 1 + 1" by (intro bexI [of _ m]) (simp_all add: m)
    moreover have "reorgFork headers db = Some (bhHeight m - 1, True)" "S = set M" using fork lost m S cs by simp_all
    ultimately show ?thesis using M by simp
  next
    case found
    obtain r rs where r: "R = r # rs" using found by (cases R) auto
    obtain m0 ms0 where m0: "M = m0 # ms0" using found by (cases M) auto
    have above: "bhHeight r < bhHeight s" if "s \<in> set M" for s using that desc r by (auto simp: sorted_wrt_append)
    have below: "bhHeight s \<le> bhHeight r" if "s \<in> set R" for s using that desc r by (auto simp: sorted_wrt_append)
    have high: "bhHeight s \<le> bhHeight m0" if "s \<in> set M \<union> set R" for s using that desc m0 by (auto simp: less_imp_le)
    have "\<not> agrees chain s" if "s \<in> set M \<union> set R" "bhHeight r < bhHeight s" for s using that below M by force
    moreover have "m0 \<in> set M" "r \<in> set R" using m0 r by auto
    ultimately show ?thesis using found r high above R by (auto simp: fork S cs)
  qed
qed

section \<open>What a rollback leaves\<close>

lemma map_of_updateRow:
  "map_of (updateRow (\<lambda>c. fst c = k) (\<lambda>c. (fst c, v)) rows) j = (if j = k \<and> k \<in> fst ` set rows then Some v else map_of rows j)"
proof (induction rows)
  case (Cons r rows)
  then show ?case by (cases r; cases "j = k") (simp_all add: updateRow_def)
qed (simp add: updateRow_def)

lemma find_key_None: "find (\<lambda>c. fst c = k) rows = None \<longleftrightarrow> k \<notin> fst ` set rows"
  by (force simp: find_None_iff)

lemma map_of_setCursor: "map_of (dbCursors (setCursor key height db)) k =
    (if k = key then Some (intToString height) else map_of (dbCursors db) k)"
proof (cases "find (\<lambda>c. fst c = key) (dbCursors db) = None")
  case True
  then have "map_of (dbCursors db) key = None" by (simp add: find_key_None map_of_eq_None_iff)
  then show ?thesis using True by (simp add: setCursor_def upsertRow_def map_add_def split: option.split)
next
  case False
  then have "key \<in> fst ` set (dbCursors db)" unfolding find_key_None by simp
  then show ?thesis by (simp add: setCursor_def upsertRow_def if_not_P [OF False] map_of_updateRow del: not_None_eq)
qed

lemma setCursor_frame [simp]:
  "dbHeaders (setCursor k h db) = dbHeaders db" "dbContracts (setCursor k h db) = dbContracts db"
  "dbConfigs (setCursor k h db) = dbConfigs db" "dbMembers (setCursor k h db) = dbMembers db"
  "dbProposals (setCursor k h db) = dbProposals db" "dbReceivers (setCursor k h db) = dbReceivers db"
  "dbApprovals (setCursor k h db) = dbApprovals db" "dbExecutions (setCursor k h db) = dbExecutions db"
  "dbEvents (setCursor k h db) = dbEvents db" "dbNextId (setCursor k h db) = dbNextId db"
  by (simp_all add: setCursor_def)

lemma deleteProposals_frame [simp]:
  "dbHeaders (deleteProposals w db) = dbHeaders db" "dbContracts (deleteProposals w db) = dbContracts db"
  "dbConfigs (deleteProposals w db) = dbConfigs db" "dbMembers (deleteProposals w db) = dbMembers db"
  "dbEvents (deleteProposals w db) = dbEvents db" "dbCursors (deleteProposals w db) = dbCursors db"
  "dbNextId (deleteProposals w db) = dbNextId db" "dbProposals (deleteProposals w db) = filter (\<lambda>p. \<not> w p) (dbProposals db)"
  by (simp_all add: deleteProposals_def Let_def)

lemma deleteContracts_frame [simp]:
  "dbHeaders (deleteContracts w db) = dbHeaders db" "dbCursors (deleteContracts w db) = dbCursors db"
  "dbNextId (deleteContracts w db) = dbNextId db" "dbContracts (deleteContracts w db) = filter (\<lambda>c. \<not> w c) (dbContracts db)"
  "map erwFingerprint (dbEvents (deleteContracts w db)) = map erwFingerprint (dbEvents db)"
  by (simp_all add: deleteContracts_def Let_def)

text \<open>The steps of a rollback: the rows above the fork, the proposals, the contracts, and at last the
  readiness flags and the cursor.\<close>

definition truncateRows :: "int \<Rightarrow> database \<Rightarrow> database" where
  "truncateRows fork db = deleteProposals (\<lambda>p. ptCreatedAtBlock p > fork)
     (db\<lparr>dbHeaders := filter (\<lambda>h. bhHeight h \<le> fork) (dbHeaders db),
         dbEvents := filter (\<lambda>e. erwBlockHeight e \<le> fork) (dbEvents db),
         dbConfigs := filter (\<lambda>r. cfValidFromBlock r \<le> fork) (dbConfigs db),
         dbMembers := filter (\<lambda>m. omValidFromBlock m \<le> fork) (dbMembers db),
         dbExecutions := filter (\<lambda>x. etBlockHeight x \<le> fork) (dbExecutions db),
         dbApprovals := filter (\<lambda>a. apBlockHeight a \<le> fork) (dbApprovals db)\<rparr>)"

definition dropLateContracts :: "int \<Rightarrow> bool \<Rightarrow> database \<Rightarrow> database" where
  "dropLateContracts fork lite db = (if lite then db
     else deleteContracts (\<lambda>c. case coDiscoveredAtBlock c of Some b \<Rightarrow> b > fork | None \<Rightarrow> False) db)"

definition unreadyWithoutEvents :: "database \<Rightarrow> database" where
  "unreadyWithoutEvents db = db\<lparr>dbContracts := updateRow (\<lambda>c. \<not> list_ex (\<lambda>e. erwContractId e = Some (coId c)) (dbEvents db))
     (\<lambda>c. c\<lparr>coReady := False, coPermissionsVerified := False\<rparr>) (dbContracts db)\<rparr>"

lemma rollback_steps: "rollbackAboveFork fork lite db =
    setCursor ''indexed_height'' fork (unreadyWithoutEvents (dropLateContracts fork lite (truncateRows fork db)))"
  by (simp add: rollbackAboveFork_def truncateRows_def dropLateContracts_def unreadyWithoutEvents_def Let_def)

text \<open>What goes: the contracts first seen above the fork (the lite indexer keeps its subscriptions), and the
  proposals created above the fork or belonging to such a contract.\<close>

definition discoveredAbove :: "int \<Rightarrow> bool \<Rightarrow> contractRow \<Rightarrow> bool" where
  "discoveredAbove fork lite c \<longleftrightarrow> \<not> lite \<and> (case coDiscoveredAtBlock c of Some b \<Rightarrow> b > fork | None \<Rightarrow> False)"

definition lateContracts :: "int \<Rightarrow> bool \<Rightarrow> database \<Rightarrow> nat set" where
  "lateContracts fork lite db = coId ` set (filter (discoveredAbove fork lite) (dbContracts db))"

definition proposalGoes :: "int \<Rightarrow> bool \<Rightarrow> database \<Rightarrow> proposalTableRow \<Rightarrow> bool" where
  "proposalGoes fork lite db p \<longleftrightarrow> ptCreatedAtBlock p > fork \<or> ptContractId p \<in> lateContracts fork lite db"

definition goneProposals :: "int \<Rightarrow> bool \<Rightarrow> database \<Rightarrow> nat set" where
  "goneProposals fork lite db = ptId ` set (filter (proposalGoes fork lite db) (dbProposals db))"

definition unlinkEvent :: "nat set \<Rightarrow> eventRawRow \<Rightarrow> eventRawRow" where
  "unlinkEvent gone e = (if erwContractId e \<in> Some ` gone then e\<lparr>erwContractId := None\<rparr> else e)"

definition unready :: "contractRow \<Rightarrow> contractRow" where
  "unready c = c\<lparr>coReady := False, coPermissionsVerified := False\<rparr>"

lemma unlink_nothing [simp]: "unlinkEvent {} = (\<lambda>e. e)"
  by (simp add: unlinkEvent_def fun_eq_iff)

lemma truncateRows_rows:
  "dbHeaders (truncateRows fork db) = filter (\<lambda>h. bhHeight h \<le> fork) (dbHeaders db)"
  "dbEvents (truncateRows fork db) = filter (\<lambda>e. erwBlockHeight e \<le> fork) (dbEvents db)"
  "dbConfigs (truncateRows fork db) = filter (\<lambda>r. cfValidFromBlock r \<le> fork) (dbConfigs db)"
  "dbMembers (truncateRows fork db) = filter (\<lambda>m. omValidFromBlock m \<le> fork) (dbMembers db)"
  "dbContracts (truncateRows fork db) = dbContracts db"
  "dbCursors (truncateRows fork db) = dbCursors db"
  "dbProposals (truncateRows fork db) = filter (\<lambda>p. ptCreatedAtBlock p \<le> fork) (dbProposals db)"
  by (simp_all add: truncateRows_def deleteProposals_def Let_def not_less)

lemma lateContracts_truncate [simp]: "lateContracts fork lite (truncateRows fork db) = lateContracts fork lite db"
  by (simp add: lateContracts_def truncateRows_rows)

lemma lateContracts_lite [simp]: "lateContracts fork True db = {}"
  by (simp add: lateContracts_def discoveredAbove_def)

lemma dropLate_delete: "dropLateContracts fork False db = deleteContracts (discoveredAbove fork False) db"
  by (simp add: dropLateContracts_def discoveredAbove_def [abs_def])

lemma dropLate_rows:
  "dbHeaders (dropLateContracts fork lite db) = dbHeaders db"
  "dbCursors (dropLateContracts fork lite db) = dbCursors db"
  "dbEvents (dropLateContracts fork lite db) = map (unlinkEvent (lateContracts fork lite db)) (dbEvents db)"
  "dbConfigs (dropLateContracts fork lite db) = filter (\<lambda>r. cfContractId r \<notin> lateContracts fork lite db) (dbConfigs db)"
  "dbMembers (dropLateContracts fork lite db) = filter (\<lambda>m. omContractId m \<notin> lateContracts fork lite db) (dbMembers db)"
  "dbProposals (dropLateContracts fork lite db) = filter (\<lambda>p. ptContractId p \<notin> lateContracts fork lite db) (dbProposals db)"
  "dbContracts (dropLateContracts fork lite db) = filter (\<lambda>c. \<not> discoveredAbove fork lite c) (dbContracts db)"
  by (cases lite; simp add: dropLate_delete; simp add: dropLateContracts_def deleteContracts_def deleteProposals_def
      Let_def lateContracts_def discoveredAbove_def unlinkEvent_def)+

text \<open>The rows of a proposal fall in two cascades, one from the proposals above the fork and one from the
  late contracts; together they take exactly the rows of \<open>goneProposals\<close>.\<close>

definition lateProposalIds :: "int \<Rightarrow> bool \<Rightarrow> database \<Rightarrow> nat set" where
  "lateProposalIds fork lite db = ptId ` set (filter (\<lambda>p. ptContractId p \<in> lateContracts fork lite db) (dbProposals db))"

lemma dropLate_cascade:
  "dbApprovals (dropLateContracts fork lite db) = filter (\<lambda>a. apProposalId a \<notin> lateProposalIds fork lite db) (dbApprovals db)"
  "dbReceivers (dropLateContracts fork lite db) = filter (\<lambda>r. rtProposalId r \<notin> lateProposalIds fork lite db) (dbReceivers db)"
  "dbExecutions (dropLateContracts fork lite db) = filter (\<lambda>x. etProposalId x \<notin> lateProposalIds fork lite db) (dbExecutions db)"
  by (cases lite; simp add: lateProposalIds_def dropLate_delete; simp add: dropLateContracts_def deleteContracts_def
      deleteProposals_def Let_def lateContracts_def)+

lemma goneProposals_cascades: "goneProposals fork lite db =
    ptId ` set (filter (\<lambda>p. ptCreatedAtBlock p > fork) (dbProposals db)) \<union> lateProposalIds fork lite (truncateRows fork db)"
  by (simp add: goneProposals_def proposalGoes_def lateProposalIds_def truncateRows_rows image_Un [symmetric])
    (rule arg_cong [of _ _ "(`) ptId"], auto)

lemma truncateRows_cascade:
  "dbApprovals (truncateRows fork db) = filter (\<lambda>a. apBlockHeight a \<le> fork \<and>
     apProposalId a \<notin> ptId ` set (filter (\<lambda>p. ptCreatedAtBlock p > fork) (dbProposals db))) (dbApprovals db)"
  "dbReceivers (truncateRows fork db) = filter (\<lambda>r.
     rtProposalId r \<notin> ptId ` set (filter (\<lambda>p. ptCreatedAtBlock p > fork) (dbProposals db))) (dbReceivers db)"
  "dbExecutions (truncateRows fork db) = filter (\<lambda>x. etBlockHeight x \<le> fork \<and>
     etProposalId x \<notin> ptId ` set (filter (\<lambda>p. ptCreatedAtBlock p > fork) (dbProposals db))) (dbExecutions db)"
  by (simp_all add: truncateRows_def deleteProposals_def Let_def conj_commute)

lemma unready_frame [simp]:
  "dbHeaders (unreadyWithoutEvents db) = dbHeaders db" "dbConfigs (unreadyWithoutEvents db) = dbConfigs db"
  "dbMembers (unreadyWithoutEvents db) = dbMembers db" "dbProposals (unreadyWithoutEvents db) = dbProposals db"
  "dbReceivers (unreadyWithoutEvents db) = dbReceivers db" "dbApprovals (unreadyWithoutEvents db) = dbApprovals db"
  "dbExecutions (unreadyWithoutEvents db) = dbExecutions db" "dbEvents (unreadyWithoutEvents db) = dbEvents db"
  "dbNextId (unreadyWithoutEvents db) = dbNextId db" "dbCursors (unreadyWithoutEvents db) = dbCursors db"
  "map coId (dbContracts (unreadyWithoutEvents db)) = map coId (dbContracts db)"
  "map coAddress (dbContracts (unreadyWithoutEvents db)) = map coAddress (dbContracts db)"
  by (simp_all add: unreadyWithoutEvents_def updateRow_def)

lemma unready_contracts: "dbContracts (unreadyWithoutEvents db) =
    map (\<lambda>c. if \<exists>e \<in> set (dbEvents db). erwContractId e = Some (coId c) then c else unready c) (dbContracts db)"
  by (simp add: unreadyWithoutEvents_def updateRow_def list_ex_iff unready_def)

text \<open>C32: A rollback leaves exactly the prefix of the database up to the fork, and every table is given. The
  late contracts (none in lite mode) are the ones discovered above the fork; the gone proposals are the ones
  created above it or of a late contract. What is kept, in its order: the headers and the recorded events up
  to the fork (an event of a late contract loses its link); the configurations and memberships valid from a
  block up to the fork and of a kept contract; the proposals that are not gone; the approvals and executions
  of a block up to the fork, and the receivers, whose proposal is not gone; the contracts that are not late,
  unchanged when an event of theirs is left and otherwise shown as neither ready nor verified. The cursor is
  at the fork and the other cursors stay.\<close>

theorem rollback_leaves_prefix:
  fixes db :: database and fork :: int and lite :: bool
  defines "db' \<equiv> rollbackAboveFork fork lite db"
    and "late \<equiv> lateContracts fork lite db" and "gone \<equiv> goneProposals fork lite db"
  shows "dbHeaders db' = filter (\<lambda>h. bhHeight h \<le> fork) (dbHeaders db) \<and>
    dbEvents db' = map (unlinkEvent late) (filter (\<lambda>e. erwBlockHeight e \<le> fork) (dbEvents db)) \<and>
    dbConfigs db' = filter (\<lambda>r. cfValidFromBlock r \<le> fork \<and> cfContractId r \<notin> late) (dbConfigs db) \<and>
    dbMembers db' = filter (\<lambda>m. omValidFromBlock m \<le> fork \<and> omContractId m \<notin> late) (dbMembers db) \<and>
    dbProposals db' = filter (\<lambda>p. ptCreatedAtBlock p \<le> fork \<and> ptContractId p \<notin> late) (dbProposals db) \<and>
    dbApprovals db' = filter (\<lambda>a. apBlockHeight a \<le> fork \<and> apProposalId a \<notin> gone) (dbApprovals db) \<and>
    dbExecutions db' = filter (\<lambda>x. etBlockHeight x \<le> fork \<and> etProposalId x \<notin> gone) (dbExecutions db) \<and>
    dbReceivers db' = filter (\<lambda>r. rtProposalId r \<notin> gone) (dbReceivers db) \<and>
    dbContracts db' = map (\<lambda>c. if \<exists>e \<in> set (dbEvents db'). erwContractId e = Some (coId c) then c else unready c)
      (filter (\<lambda>c. \<not> discoveredAbove fork lite c) (dbContracts db)) \<and>
    map_of (dbCursors db') = (map_of (dbCursors db))(''indexed_height'' \<mapsto> intToString fork)"
proof -
  let ?t = "truncateRows fork db" and ?d = "dropLateContracts fork lite (truncateRows fork db)"
  have db': "db' = setCursor ''indexed_height'' fork (unreadyWithoutEvents ?d)" by (simp add: db'_def rollback_steps)
  have gone: "gone = ptId ` set (filter (\<lambda>p. ptCreatedAtBlock p > fork) (dbProposals db)) \<union> lateProposalIds fork lite ?t"
    unfolding gone_def by (rule goneProposals_cascades)
  have children: "dbApprovals db' = filter (\<lambda>a. apBlockHeight a \<le> fork \<and> apProposalId a \<notin> gone) (dbApprovals db)"
    "dbExecutions db' = filter (\<lambda>x. etBlockHeight x \<le> fork \<and> etProposalId x \<notin> gone) (dbExecutions db)"
    "dbReceivers db' = filter (\<lambda>r. rtProposalId r \<notin> gone) (dbReceivers db)"
    by (simp_all add: db' dropLate_cascade truncateRows_cascade gone conj_assoc del: set_filter)
  have rows: "dbHeaders db' = filter (\<lambda>h. bhHeight h \<le> fork) (dbHeaders db)"
    "dbEvents db' = map (unlinkEvent late) (filter (\<lambda>e. erwBlockHeight e \<le> fork) (dbEvents db))"
    "dbConfigs db' = filter (\<lambda>r. cfValidFromBlock r \<le> fork \<and> cfContractId r \<notin> late) (dbConfigs db)"
    "dbMembers db' = filter (\<lambda>m. omValidFromBlock m \<le> fork \<and> omContractId m \<notin> late) (dbMembers db)"
    "dbProposals db' = filter (\<lambda>p. ptCreatedAtBlock p \<le> fork \<and> ptContractId p \<notin> late) (dbProposals db)"
    by (simp_all add: db' late_def dropLate_rows truncateRows_rows)
  have contracts: "dbContracts db' = map (\<lambda>c. if \<exists>e \<in> set (dbEvents db'). erwContractId e = Some (coId c) then c else unready c)
      (filter (\<lambda>c. \<not> discoveredAbove fork lite c) (dbContracts db))"
    by (simp add: db' unready_contracts dropLate_rows(7) truncateRows_rows)
  have cursors: "map_of (dbCursors db') = (map_of (dbCursors db))(''indexed_height'' \<mapsto> intToString fork)"
    by (simp add: db' map_of_setCursor dropLate_rows truncateRows_rows fun_eq_iff)
  show ?thesis by (intro conjI rows children contracts cursors)
qed

end
