(* ===== verification/Submission_Check.thy ===== *)
theory Submission_Check
  imports Js_Map Decimal Machines "HOL-Library.List_Lexorder" "HOL-Library.Char_ord"
begin

text \<open>
  Reports of submitted transactions to the backend (\<open>submission-check.ts\<close>): the limiter of the checks
  that run at once, as a state machine whose steps are the start and the end of a check, and the check
  itself, whose answers from the Mina node are parameters, one per attempt.
\<close>

section \<open>The limiter\<close>

record report =
  rpProposalId :: nat
  rpAction :: string
  rpTxHash :: string

definition MAX_SUBMISSION_CHECKS_PER_PROPOSAL :: nat where
  "MAX_SUBMISSION_CHECKS_PER_PROPOSAL = 2"

definition MAX_CONCURRENT_SUBMISSION_CHECKS :: nat where
  "MAX_CONCURRENT_SUBMISSION_CHECKS = 16"

definition reportKey :: "report \<Rightarrow> string" where
  "reportKey r = decimal (rpProposalId r) @ '':'' @ rpAction r @ '':'' @ rpTxHash r"

text \<open>A running check is kept under its key with the proposal that its \<open>finally\<close> callback captured.\<close>

record limiter =
  liRunning :: "(string \<times> nat) list"
  liPerProposal :: "(nat \<times> nat) list"
  liTotal :: nat

definition createSubmissionCheckLimiter :: limiter where
  "createSubmissionCheckLimiter = \<lparr>liRunning = [], liPerProposal = [], liTotal = 0\<rparr>"

datatype runResult = Joined | Refused | Started

definition forProposal :: "nat \<Rightarrow> limiter \<Rightarrow> nat" where
  "forProposal p l = (case map_of (liPerProposal l) p of Some n \<Rightarrow> n | None \<Rightarrow> 0)"

definition runCheck :: "nat \<Rightarrow> nat \<Rightarrow> report \<Rightarrow> limiter \<Rightarrow> runResult \<times> limiter" where
  "runCheck maxTotal maxPer r l =
     (let key = reportKey r; p = rpProposalId r
      in if map_of (liRunning l) key \<noteq> None then (Joined, l)
         else if liTotal l \<ge> maxTotal \<or> forProposal p l \<ge> maxPer then (Refused, l)
         else (Started, l\<lparr>liTotal := liTotal l + 1,
                 liPerProposal := jsSet p (forProposal p l + 1) (liPerProposal l),
                 liRunning := jsSet key p (liRunning l)\<rparr>))"

definition finishCheck :: "string \<Rightarrow> nat \<Rightarrow> limiter \<Rightarrow> limiter" where
  "finishCheck key p l =
     (let left = (case map_of (liPerProposal l) p of Some n \<Rightarrow> n | None \<Rightarrow> 1) - 1
      in l\<lparr>liTotal := liTotal l - 1,
           liPerProposal := (if left > 0 then jsSet p left (liPerProposal l) else jsDelete p (liPerProposal l)),
           liRunning := jsDelete key (liRunning l)\<rparr>)"

inductive limiterStep :: "nat \<Rightarrow> nat \<Rightarrow> limiter \<Rightarrow> limiter \<Rightarrow> bool" for maxTotal maxPer where
  run: "runCheck maxTotal maxPer r l = (res, l') \<Longrightarrow> limiterStep maxTotal maxPer l l'"
| finish: "(key, p) \<in> set (liRunning l) \<Longrightarrow> limiterStep maxTotal maxPer l (finishCheck key p l)"

text \<open>The checks of one proposal that run.\<close>

definition runningFor :: "nat \<Rightarrow> limiter \<Rightarrow> (string \<times> nat) list" where
  "runningFor p l = filter (\<lambda>e. snd e = p) (liRunning l)"

definition limiterInv :: "nat \<Rightarrow> nat \<Rightarrow> limiter \<Rightarrow> bool" where
  "limiterInv maxTotal maxPer l \<longleftrightarrow> boundedMap maxTotal (liRunning l) \<and> liTotal l = length (liRunning l) \<and>
     (\<forall>p. map_of (liPerProposal l) p = (if runningFor p l = [] then None else Some (length (runningFor p l))) \<and>
          length (runningFor p l) \<le> maxPer)"

lemma limiterInv_new: "limiterInv maxTotal maxPer createSubmissionCheckLimiter"
  by (simp add: limiterInv_def createSubmissionCheckLimiter_def runningFor_def boundedMap_def)

lemma forProposal_inv: "limiterInv maxTotal maxPer l \<Longrightarrow> forProposal p l = length (runningFor p l)"
  by (simp add: limiterInv_def forProposal_def)

lemma limiterInv_run:
  assumes inv: "limiterInv maxTotal maxPer l" and r: "runCheck maxTotal maxPer r l = (res, l')"
  shows "limiterInv maxTotal maxPer l'"
proof (cases "res = Started")
  case False
  with r inv show ?thesis by (auto simp: runCheck_def Let_def split: if_splits)
next
  case True
  let ?k = "reportKey r" and ?p = "rpProposalId r"
  have new: "map_of (liRunning l) ?k = None" and room: "liTotal l < maxTotal" "forProposal ?p l < maxPer"
    and l': "l' = l\<lparr>liTotal := liTotal l + 1, liPerProposal := jsSet ?p (forProposal ?p l + 1) (liPerProposal l),
              liRunning := jsSet ?k ?p (liRunning l)\<rparr>"
    using r True by (auto simp: runCheck_def Let_def split: if_splits)
  have fresh: "?k \<notin> fst ` set (liRunning l)" using new by (simp add: map_of_eq_None_iff)
  then have run: "liRunning l' = liRunning l @ [(?k, ?p)]" by (simp add: l' jsSet_fresh)
  have rf: "runningFor p l' = runningFor p l @ (if p = ?p then [(?k, ?p)] else [])" for p
    by (simp add: runningFor_def run)
  have "boundedMap maxTotal (liRunning l')" using inv room(1) fresh by (auto simp: limiterInv_def boundedMap_def run)
  moreover have "liTotal l' = length (liRunning l')" using inv by (simp add: limiterInv_def run) (simp add: l')
  moreover have "map_of (liPerProposal l') p = (if runningFor p l' = [] then None else Some (length (runningFor p l')))
      \<and> length (runningFor p l') \<le> maxPer" for p
    using inv room(2) unfolding forProposal_inv [OF inv]
    by (simp add: limiterInv_def rf) (simp add: l' map_of_jsSet forProposal_inv [OF inv] limiterInv_def)
  ultimately show ?thesis by (simp add: limiterInv_def)
qed

lemma jsDelete_split:
  assumes "distinct (map fst (xs @ (k, v) # ys))"
  shows "jsDelete k (xs @ (k, v) # ys) = xs @ ys"
proof -
  have "k \<notin> fst ` set xs" "k \<notin> fst ` set ys" using assms by auto
  then have "jsDelete k xs = xs" "jsDelete k ys = ys" by (auto simp: jsDelete_def filter_id_conv)
  then show ?thesis by (simp add: jsDelete_def)
qed

lemma length_delete_distinct:
  assumes "distinct (map fst m)" "(k, v) \<in> set m"
  shows "length (filter P (jsDelete k m)) = length (filter P m) - (if P (k, v) then 1 else 0)"
proof -
  obtain xs ys where m: "m = xs @ (k, v) # ys" using split_list [OF assms(2)] by blast
  then have "jsDelete k m = xs @ ys" using assms(1) by (simp only: jsDelete_split)
  then show ?thesis by (simp add: m)
qed

lemma limiterInv_finish:
  assumes inv: "limiterInv maxTotal maxPer l" and k: "(key, p) \<in> set (liRunning l)"
  shows "limiterInv maxTotal maxPer (finishCheck key p l)"
proof -
  let ?l = "finishCheck key p l"
  have d: "distinct (map fst (liRunning l))" using inv by (simp add: limiterInv_def boundedMap_def)
  have run: "liRunning ?l = jsDelete key (liRunning l)" by (simp add: finishCheck_def Let_def)
  have len: "length (runningFor q ?l) = length (runningFor q l) - (if q = p then 1 else 0)" for q
    using length_delete_distinct [OF d k, of "\<lambda>e. snd e = q"] by (auto simp: runningFor_def run)
  have pos: "runningFor p l \<noteq> []" using k by (force simp: runningFor_def filter_empty_conv)
  then have left: "map_of (liPerProposal l) p = Some (length (runningFor p l))" using inv by (simp add: limiterInv_def)
  have "boundedMap maxTotal (liRunning ?l)"
    using inv length_jsDelete [of key "liRunning l"] distinct_jsDelete [OF d] by (auto simp: limiterInv_def boundedMap_def run)
  moreover have "liTotal ?l = length (liRunning ?l)"
    using inv length_delete_distinct [OF d k, of "\<lambda>_. True"] by (simp add: limiterInv_def run) (simp add: finishCheck_def Let_def)
  moreover have "map_of (liPerProposal ?l) q = (if length (runningFor q ?l) = 0 then None else Some (length (runningFor q ?l)))" for q
    using inv left unfolding len by (auto simp: finishCheck_def Let_def map_of_jsSet map_of_jsDelete limiterInv_def)
  moreover have "length (runningFor q ?l) \<le> maxPer" for q
  proof -
    have "length (runningFor q l) \<le> maxPer" using inv by (simp add: limiterInv_def)
    then show ?thesis unfolding len by simp
  qed
  ultimately show ?thesis by (simp add: limiterInv_def)
qed

lemma limiterInv_step:
  "limiterStep maxTotal maxPer l l' \<Longrightarrow> limiterInv maxTotal maxPer l \<Longrightarrow> limiterInv maxTotal maxPer l'"
  by (induction rule: limiterStep.induct) (simp_all add: limiterInv_run limiterInv_finish)

interpretation checkLimiter: machine "\<lambda>l. l = createSubmissionCheckLimiter" "limiterStep maxTotal maxPer"
    "limiterInv maxTotal maxPer"
  for maxTotal maxPer
  by unfold_locales (simp_all add: limiterInv_new limiterInv_step)

text \<open>After any interleaving of starting and ending checks at most \<open>limits.total\<close> checks run and at most
  \<open>limits.perProposal\<close> of one proposal, the counter equals the number of running checks (so ended checks give
  their slots back), and a report is refused only when one of the two limits is really reached by
  running checks.\<close>

lemma limiter_counts_running:
  assumes "(limiterStep maxTotal maxPer)\<^sup>*\<^sup>* createSubmissionCheckLimiter l"
  shows "liTotal l = length (liRunning l) \<and> liTotal l \<le> maxTotal \<and> length (runningFor p l) \<le> maxPer \<and>
    (fst (runCheck maxTotal maxPer r l) = Refused \<longrightarrow>
       length (liRunning l) = maxTotal \<or> length (runningFor (rpProposalId r) l) = maxPer)"
proof -
  have inv: "limiterInv maxTotal maxPer l" by (rule checkLimiter.inv_reachable [OF assms]) simp
  then have b: "length (liRunning l) \<le> maxTotal" "\<And>q. length (runningFor q l) \<le> maxPer" "liTotal l = length (liRunning l)"
    by (simp_all add: limiterInv_def boundedMap_def)
  have "length (liRunning l) = maxTotal \<or> length (runningFor (rpProposalId r) l) = maxPer"
    if "fst (runCheck maxTotal maxPer r l) = Refused"
    using that b(1) b(2) [of "rpProposalId r"] b(3) forProposal_inv [OF inv, of "rpProposalId r"]
    by (auto simp: runCheck_def Let_def split: if_splits)
  with b show ?thesis by simp
qed

section \<open>The check of a report\<close>

record commandUpdate =
  cuPublicKey :: string
  cuTokenId :: "string option"
  cuIsProved :: bool
  cuEvents :: "string list list"
  cuStateConditions :: "string option list option"

datatype submitAction = Approve | Execute

definition EVENT_NAMES :: "string list" where
  "EVENT_NAMES = sort [''deployed'', ''setup'', ''setupOwner'', ''proposal'', ''receiver'', ''approval'', ''execution'',
     ''ownerChange'', ''thresholdChange'', ''delegate'', ''createChild'', ''reclaimChild'', ''enableChildMultiSig'',
     ''createChildConfig'', ''createChildOwner'']"

fun indexOf :: "'a \<Rightarrow> 'a list \<Rightarrow> int" where
  "indexOf x [] = -1"
| "indexOf x (y # ys) = (if x = y then 0 else (let i = indexOf x ys in if i < 0 then -1 else i + 1))"

fun EVENT_INDEX :: "submitAction \<Rightarrow> string" where
  "EVENT_INDEX Approve = intToString (indexOf ''approval'' EVENT_NAMES)"
| "EVENT_INDEX Execute = intToString (indexOf ''execution'' EVENT_NAMES)"

definition LOOKUP_DELAYS_MS :: "nat list" where
  "LOOKUP_DELAYS_MS = [0, 1000, 2000, 4000]"

definition sameField :: "string \<Rightarrow> string \<Rightarrow> bool" where
  "sameField a b \<longleftrightarrow> allDigits a \<and> allDigits b \<and> parseDecimal a = parseDecimal b"

definition emitsProposalEvent :: "commandUpdate \<Rightarrow> submitAction \<Rightarrow> string \<Rightarrow> bool" where
  "emitsProposalEvent u action ph =
     (if \<not> cuIsProved u then False
      else list_ex (\<lambda>fs. length fs \<ge> 2 \<and> sameField (fs ! 0) (EVENT_INDEX action) \<and> sameField (fs ! 1) ph) (cuEvents u))"

definition matchesCurrentState :: "commandUpdate \<Rightarrow> string list option \<Rightarrow> bool" where
  "matchesCurrentState u state =
     (case cuStateConditions u of None \<Rightarrow> False
      | Some conds \<Rightarrow> list_all (\<lambda>(i, required). case required of None \<Rightarrow> True
          | Some v \<Rightarrow> (case state of None \<Rightarrow> False | Some st \<Rightarrow> i < length st \<and> sameField v (st ! i)))
          (zip [0..<length conds] conds))"

record submission =
  sbTxHash :: string
  sbAction :: submitAction
  sbProposalHash :: string
  sbAccounts :: "string list"

type_synonym accountStates = "string \<Rightarrow> string list option"

definition oursOf :: "string \<Rightarrow> submission \<Rightarrow> commandUpdate list \<Rightarrow> commandUpdate list" where
  "oursOf nativeToken s updates =
     filter (\<lambda>u. cuPublicKey u \<in> set (sbAccounts s) \<and> cuTokenId u = Some nativeToken) updates"

text \<open>\<open>pool i\<close> and \<open>states i\<close> are the answers of the node at attempt \<open>i\<close>.\<close>

fun verifyFrom :: "string \<Rightarrow> (nat \<Rightarrow> commandUpdate list option) \<Rightarrow> (nat \<Rightarrow> accountStates option) \<Rightarrow> submission \<Rightarrow> nat
    \<Rightarrow> nat list \<Rightarrow> bool" where
  "verifyFrom nativeToken pool states s i [] = False"
| "verifyFrom nativeToken pool states s i (d # ds) =
     (case pool i of None \<Rightarrow> verifyFrom nativeToken pool states s (Suc i) ds
      | Some updates \<Rightarrow> (let ours = oursOf nativeToken s updates
          in if \<not> list_ex (\<lambda>u. emitsProposalEvent u (sbAction s) (sbProposalHash s)) ours then False
             else (case states i of None \<Rightarrow> verifyFrom nativeToken pool states s (Suc i) ds
               | Some st \<Rightarrow> list_all (\<lambda>u. matchesCurrentState u (st (cuPublicKey u))) ours)))"

definition verifySubmittedTransaction :: "string \<Rightarrow> (nat \<Rightarrow> commandUpdate list option) \<Rightarrow> (nat \<Rightarrow> accountStates option)
    \<Rightarrow> submission \<Rightarrow> nat list \<Rightarrow> bool" where
  "verifySubmittedTransaction nativeToken pool states s delays = verifyFrom nativeToken pool states s 0 delays"

lemma EVENT_NAMES_sorted:
  "EVENT_NAMES = [''approval'', ''createChild'', ''createChildConfig'', ''createChildOwner'', ''delegate'', ''deployed'',
     ''enableChildMultiSig'', ''execution'', ''ownerChange'', ''proposal'', ''receiver'', ''reclaimChild'', ''setup'',
     ''setupOwner'', ''thresholdChange'']"
  by code_simp

lemma EVENT_INDEX_value: "EVENT_INDEX a = (case a of Approve \<Rightarrow> ''0'' | Execute \<Rightarrow> ''7'')"
  by (cases a; simp add: EVENT_NAMES_sorted; code_simp)

lemma matchesCurrentState_iff:
  "matchesCurrentState u state \<longleftrightarrow> (\<exists>conds. cuStateConditions u = Some conds \<and>
     (\<forall>i < length conds. \<forall>v. conds ! i = Some v \<longrightarrow>
        (\<exists>st. state = Some st \<and> i < length st \<and> sameField v (st ! i))))"
proof (cases "cuStateConditions u")
  case (Some conds)
  have "list_all P (zip [0..<length conds] conds) \<longleftrightarrow> (\<forall>i < length conds. P (i, conds ! i))" for P
    by (simp add: list_all_length)
  then show ?thesis using Some by (cases state) (auto simp: matchesCurrentState_def split: option.splits)
qed (simp add: matchesCurrentState_def)

text \<open>What an attempt decides: it is skipped when the pool lacks the transaction, or when it holds a
  matching one and the state lookup failed.\<close>

definition emittedIn :: "string \<Rightarrow> submission \<Rightarrow> commandUpdate list \<Rightarrow> bool" where
  "emittedIn nt s updates \<longleftrightarrow> (\<exists>u \<in> set (oursOf nt s updates). emitsProposalEvent u (sbAction s) (sbProposalHash s))"

definition skippedAt :: "string \<Rightarrow> (nat \<Rightarrow> commandUpdate list option) \<Rightarrow> (nat \<Rightarrow> accountStates option) \<Rightarrow> submission
    \<Rightarrow> nat \<Rightarrow> bool" where
  "skippedAt nt pool states s j \<longleftrightarrow>
     (case pool j of None \<Rightarrow> True | Some updates \<Rightarrow> emittedIn nt s updates \<and> states j = None)"

definition acceptedAt :: "string \<Rightarrow> (nat \<Rightarrow> commandUpdate list option) \<Rightarrow> (nat \<Rightarrow> accountStates option) \<Rightarrow> submission
    \<Rightarrow> nat \<Rightarrow> bool" where
  "acceptedAt nt pool states s j \<longleftrightarrow> (\<exists>updates st. pool j = Some updates \<and> states j = Some st \<and>
     emittedIn nt s updates \<and>
     (\<forall>u \<in> set (oursOf nt s updates). matchesCurrentState u (st (cuPublicKey u))))"

lemma verifyFrom_step:
  "verifyFrom nt pool states s i (d # ds) \<longleftrightarrow>
     acceptedAt nt pool states s i \<or> skippedAt nt pool states s i \<and> verifyFrom nt pool states s (Suc i) ds"
  by (auto simp: acceptedAt_def skippedAt_def emittedIn_def list_ex_iff list_all_iff Let_def
      split: option.splits)

lemma verifyFrom_iff:
  "verifyFrom nt pool states s i ds \<longleftrightarrow> (\<exists>j. i \<le> j \<and> j < i + length ds \<and> acceptedAt nt pool states s j \<and>
     (\<forall>k. i \<le> k \<and> k < j \<longrightarrow> skippedAt nt pool states s k))"
proof (induction ds arbitrary: i)
  case (Cons d ds)
  let ?A = "acceptedAt nt pool states s" and ?S = "skippedAt nt pool states s"
  have "(\<exists>j. i \<le> j \<and> j < i + length (d # ds) \<and> ?A j \<and> (\<forall>k. i \<le> k \<and> k < j \<longrightarrow> ?S k)) \<longleftrightarrow>
     ?A i \<or> ?S i \<and> (\<exists>j. Suc i \<le> j \<and> j < Suc i + length ds \<and> ?A j \<and> (\<forall>k. Suc i \<le> k \<and> k < j \<longrightarrow> ?S k))"
    (is "?L \<longleftrightarrow> ?R")
  proof
    assume ?L
    then obtain j where j: "i \<le> j" "j < i + length (d # ds)" "?A j" "\<forall>k. i \<le> k \<and> k < j \<longrightarrow> ?S k" by blast
    then show ?R by (cases "i = j") (auto intro!: exI [of _ j])
  next
    assume ?R
    then show ?L
    proof
      assume "?S i \<and> (\<exists>j. Suc i \<le> j \<and> j < Suc i + length ds \<and> ?A j \<and> (\<forall>k. Suc i \<le> k \<and> k < j \<longrightarrow> ?S k))"
      then obtain j where "?S i" "Suc i \<le> j" "j < Suc i + length ds" "?A j" "\<forall>k. Suc i \<le> k \<and> k < j \<longrightarrow> ?S k" by blast
      then show ?L by (intro exI [of _ j]) (auto, metis Suc_leI le_neq_implies_less)
    qed (auto intro!: exI [of _ i])
  qed
  then show ?case unfolding verifyFrom_step Cons.IH by blast
qed simp

text \<open>C27: A reported transaction is confirmed only if, at one of the attempts, the node's pool held it
  with a proof-authorised native-token update of one of the named accounts that emits the event of the
  reported action (type index 0 for an approval, 7 for an execution) for this proposal hash, and every
  native-token update of those accounts requires nothing but the current state of its account, in each
  slot that it constrains. Values are compared as decimal texts; a text that is no decimal matches nothing.\<close>

theorem confirmed_submission_is_genuine:
  assumes "verifySubmittedTransaction nt pool states s delays"
  shows "\<exists>j < length delays. \<exists>updates st. pool j = Some updates \<and> states j = Some st \<and>
    (\<exists>u \<in> set updates. cuPublicKey u \<in> set (sbAccounts s) \<and> cuTokenId u = Some nt \<and> cuIsProved u \<and>
       (\<exists>fs \<in> set (cuEvents u). 2 \<le> length fs \<and>
          allDigits (fs ! 0) \<and> allDigits (fs ! 1) \<and> allDigits (sbProposalHash s) \<and>
          parseDecimal (fs ! 0) = (case sbAction s of Approve \<Rightarrow> 0 | Execute \<Rightarrow> 7) \<and>
          parseDecimal (fs ! 1) = parseDecimal (sbProposalHash s))) \<and>
    (\<forall>u \<in> set updates. cuPublicKey u \<in> set (sbAccounts s) \<and> cuTokenId u = Some nt \<longrightarrow>
       (\<exists>conds. cuStateConditions u = Some conds \<and> (\<forall>i < length conds. \<forall>v. conds ! i = Some v \<longrightarrow>
          (\<exists>cur. st (cuPublicKey u) = Some cur \<and> i < length cur \<and> allDigits v \<and> allDigits (cur ! i) \<and> parseDecimal v = parseDecimal (cur ! i)))))"
proof -
  obtain j updates st where j: "j < length delays" "pool j = Some updates" "states j = Some st"
    and em: "emittedIn nt s updates"
    and ok: "\<forall>u \<in> set (oursOf nt s updates). matchesCurrentState u (st (cuPublicKey u))"
    using assms by (auto simp: verifySubmittedTransaction_def verifyFrom_iff acceptedAt_def)
  have idx: "parseDecimal (EVENT_INDEX a) = (case a of Approve \<Rightarrow> 0 | Execute \<Rightarrow> 7)" for a
    by (cases a; simp only: EVENT_INDEX_value submitAction.simps; code_simp)
  have "\<exists>u \<in> set updates. cuPublicKey u \<in> set (sbAccounts s) \<and> cuTokenId u = Some nt \<and> cuIsProved u \<and>
       (\<exists>fs \<in> set (cuEvents u). 2 \<le> length fs \<and>
          allDigits (fs ! 0) \<and> allDigits (fs ! 1) \<and> allDigits (sbProposalHash s) \<and>
          parseDecimal (fs ! 0) = (case sbAction s of Approve \<Rightarrow> 0 | Execute \<Rightarrow> 7) \<and>
          parseDecimal (fs ! 1) = parseDecimal (sbProposalHash s))"
    using em by (fastforce simp: emittedIn_def oursOf_def emitsProposalEvent_def sameField_def list_ex_iff idx
        split: if_splits)
  moreover have "\<exists>conds. cuStateConditions u = Some conds \<and> (\<forall>i < length conds. \<forall>v. conds ! i = Some v \<longrightarrow>
          (\<exists>cur. st (cuPublicKey u) = Some cur \<and> i < length cur \<and> allDigits v \<and> allDigits (cur ! i) \<and> parseDecimal v = parseDecimal (cur ! i)))"
    if "u \<in> set updates" "cuPublicKey u \<in> set (sbAccounts s)" "cuTokenId u = Some nt" for u
  proof -
    have "matchesCurrentState u (st (cuPublicKey u))" using ok that by (simp add: oursOf_def)
    then show ?thesis unfolding matchesCurrentState_iff sameField_def by blast
  qed
  ultimately show ?thesis using j by blast
qed

end
