(* ===== verification/Request_Validation.thy ===== *)
theory Request_Validation
  imports O1js Json Memo Complex_Main
begin

text \<open>
  Validation of request parameters and queries (\<open>request-validation.ts\<close>). A query value is whatever the
  framework hands over; JavaScript numbers are the rationals with \<open>NaN\<close> and the infinities. How
  \<open>Number\<close> reads a value that is not a number, and how a schema of the validation package parses, are
  parameters.
\<close>

datatype jsNum = NaN | PosInf | NegInf | Fin rat

datatype queryValue = QUndefined | QNum jsNum | QStr string | QBool bool | QOther json

section \<open>Schemas\<close>

definition minaPublicKeySchema :: "('m, 'w, 's) o1js \<Rightarrow> string \<Rightarrow> bool" where
  "minaPublicKeySchema E value \<longleftrightarrow> fromBase58 E value \<noteq> None"

definition proposalHashParamSchema :: "string \<Rightarrow> bool" where
  "proposalHashParamSchema value \<longleftrightarrow> allDigits value"

definition minaTxHashSchema :: "string \<Rightarrow> bool" where
  "minaTxHashSchema value \<longleftrightarrow> 40 \<le> length value \<and> length value \<le> 64 \<and> list_all (\<lambda>c. c \<in> set BASE58_ALPHABET) value"

definition numberOf :: "(queryValue \<Rightarrow> jsNum) \<Rightarrow> queryValue \<Rightarrow> jsNum" where
  "numberOf toNumber input = (case input of QNum n \<Rightarrow> n | _ \<Rightarrow> toNumber input)"

definition clampedIntQuerySchema :: "(queryValue \<Rightarrow> jsNum) \<Rightarrow> int \<Rightarrow> int \<Rightarrow> int \<Rightarrow> queryValue \<Rightarrow> int" where
  "clampedIntQuerySchema toNumber fallback lo hi input = (case numberOf toNumber input of
       Fin value \<Rightarrow> max lo (min hi \<lfloor>value\<rfloor>)
     | _ \<Rightarrow> fallback)"

definition nullableBlockQuerySchema :: "(queryValue \<Rightarrow> jsNum) \<Rightarrow> queryValue \<Rightarrow> int option" where
  "nullableBlockQuerySchema toNumber input =
     (let value = (case input of QNum n \<Rightarrow> n | QStr s \<Rightarrow> toNumber input | _ \<Rightarrow> NaN)
      in case value of Fin v \<Rightarrow> Some (max 0 \<lfloor>v\<rfloor>) | _ \<Rightarrow> None)"

definition optionalBooleanQuerySchema :: "queryValue \<Rightarrow> bool option" where
  "optionalBooleanQuerySchema input =
     (if input = QBool True \<or> input = QStr ''true'' then Some True
      else if input = QBool False \<or> input = QStr ''false'' then Some False
      else None)"

definition optionalNonEmptyStringQuerySchema :: "queryValue \<Rightarrow> string option" where
  "optionalNonEmptyStringQuerySchema input = (case input of QStr s \<Rightarrow> if s = [] then None else Some s | _ \<Rightarrow> None)"

section \<open>Middleware\<close>

text \<open>A parser either fails with issues, each with the first step of its path if that is a name, or
  yields the parsed data. The middleware answers status 400 with a message or calls the handler.\<close>

type_synonym 'd parsed = "string option list + 'd"

datatype 'd response = BadRequest string | Next 'd

definition getValidationMessage :: "string option list \<Rightarrow> (string \<rightharpoonup> string) \<Rightarrow> string \<Rightarrow> string" where
  "getValidationMessage issues fieldErrors fallback =
     (case (case issues of [] \<Rightarrow> None | path # _ \<Rightarrow> path) of
        None \<Rightarrow> fallback
      | Some field \<Rightarrow> if field = [] then [] else (case fieldErrors field of Some m \<Rightarrow> m | None \<Rightarrow> fallback))"

definition validateParams :: "('p \<Rightarrow> 'd parsed) \<Rightarrow> (string \<rightharpoonup> string) \<Rightarrow> string \<Rightarrow> 'p \<Rightarrow> 'd response" where
  "validateParams safeParse fieldErrors fallback params = (case safeParse params of
       Inl issues \<Rightarrow> BadRequest (getValidationMessage issues fieldErrors fallback)
     | Inr d \<Rightarrow> Next d)"

definition validateQuery :: "('p \<Rightarrow> 'd parsed) \<Rightarrow> string \<Rightarrow> 'p \<Rightarrow> 'd response" where
  "validateQuery safeParse errorMessage query = (case safeParse query of
       Inl issues \<Rightarrow> BadRequest errorMessage
     | Inr d \<Rightarrow> Next d)"

section \<open>Applying a schema twice\<close>

text \<open>A parsed value in the form in which the handler parses it again.\<close>

definition asQuery :: "int \<Rightarrow> queryValue" where
  "asQuery n = QNum (Fin (of_int n))"

lemma numberOf_asQuery [simp]: "numberOf toNumber (asQuery n) = Fin (of_int n)"
  by (simp add: numberOf_def asQuery_def)

lemma clamped_bounds:
  "lo \<le> fallback \<Longrightarrow> fallback \<le> hi \<Longrightarrow>
     lo \<le> clampedIntQuerySchema toNumber fallback lo hi v \<and> clampedIntQuerySchema toNumber fallback lo hi v \<le> hi"
  by (auto simp: clampedIntQuerySchema_def split: jsNum.splits)

text \<open>Whatever a request sends, and however \<open>Number\<close> reads it, a clamped query value lies within
  its bounds and a block filter is absent or not negative; parsing the parsed value again, as the
  middleware and the handler together do, changes neither of them, nor a boolean filter.\<close>

lemma query_values_bounded:
  assumes "lo \<le> fallback" "fallback \<le> hi"
  shows "lo \<le> clampedIntQuerySchema toNumber fallback lo hi v \<and> clampedIntQuerySchema toNumber fallback lo hi v \<le> hi \<and>
    clampedIntQuerySchema toNumber fallback lo hi (asQuery (clampedIntQuerySchema toNumber fallback lo hi v)) =
      clampedIntQuerySchema toNumber fallback lo hi v \<and>
    (\<forall>n. nullableBlockQuerySchema toNumber v = Some n \<longrightarrow>
       0 \<le> n \<and> nullableBlockQuerySchema toNumber (asQuery n) = Some n) \<and>
    (\<forall>b. optionalBooleanQuerySchema v = Some b \<longrightarrow> optionalBooleanQuerySchema (QBool b) = Some b)"
proof -
  let ?c = "clampedIntQuerySchema toNumber fallback lo hi v"
  have b: "lo \<le> ?c" "?c \<le> hi" using clamped_bounds [OF assms] by blast+
  have "clampedIntQuerySchema toNumber fallback lo hi (asQuery ?c) = max lo (min hi ?c)"
    by (subst clampedIntQuerySchema_def) simp
  also have "\<dots> = ?c" using b by simp
  finally have idem: "clampedIntQuerySchema toNumber fallback lo hi (asQuery ?c) = ?c" .
  have "0 \<le> n \<and> nullableBlockQuerySchema toNumber (asQuery n) = Some n" if "nullableBlockQuerySchema toNumber v = Some n" for n
    using that by (auto simp: nullableBlockQuerySchema_def asQuery_def split: queryValue.splits jsNum.splits)
  with b idem show ?thesis by (auto simp: optionalBooleanQuerySchema_def)
qed

end
