(* ===== verification/Status_Cache.thy ===== *)
theory Status_Cache
  imports Js_Map Machines
begin

text \<open>
  The answer cache for transaction status of the backend (\<open>tx-status-cache.ts\<close>). An asynchronous
  lookup is two steps of a state machine: a call of \<open>get\<close> starts a lookup or joins one, a later step
  settles it.
\<close>

section \<open>Transaction status cache\<close>

datatype txStatus = TxPending | TxIncluded | TxFailed | TxUnknown

datatype lookupResult = Answer txStatus | Rejected

text \<open>An entry: the lookup it stands for, and when it expires; \<open>None\<close> is the infinite expiry of a
  lookup that still runs.\<close>

record statusEntry =
  seLookup :: nat
  seExpires :: "int option"

record statusCache =
  scEntries :: "(string \<times> statusEntry) list"
  scNext :: nat
  scAnswers :: "nat \<Rightarrow> txStatus option"

definition newStatusCache :: statusCache where
  "newStatusCache = \<lparr>scEntries = [], scNext = 0, scAnswers = (\<lambda>_. None)\<rparr>"

definition isFresh :: "int \<Rightarrow> statusEntry \<Rightarrow> bool" where
  "isFresh now e = (case seExpires e of None \<Rightarrow> True | Some t \<Rightarrow> t > now)"

text \<open>A call of \<open>get\<close> up to its first \<open>await\<close>: the lookup whose answer the caller gets, and whether
  it was started by this call.\<close>

definition getStatus :: "nat \<Rightarrow> int \<Rightarrow> string \<Rightarrow> statusCache \<Rightarrow> (nat \<times> bool) \<times> statusCache" where
  "getStatus maxEntries now hash c =
     (case map_of (scEntries c) hash of
        Some e \<Rightarrow> if isFresh now e then ((seLookup e, False), c)
          else let entry = \<lparr>seLookup = scNext c, seExpires = None\<rparr>
            in ((scNext c, True), c\<lparr>scEntries := evictOldest maxEntries (jsSet hash entry (jsDelete hash (scEntries c))),
                  scNext := Suc (scNext c)\<rparr>)
      | None \<Rightarrow> let entry = \<lparr>seLookup = scNext c, seExpires = None\<rparr>
            in ((scNext c, True), c\<lparr>scEntries := evictOldest maxEntries (jsSet hash entry (scEntries c)),
                  scNext := Suc (scNext c)\<rparr>))"

text \<open>The lookup that a call started settles: an unknown or rejected answer is forgotten if the entry
  is still the one of this lookup, any other answer is kept for the time to live.\<close>

definition settleStatus :: "int \<Rightarrow> int \<Rightarrow> string \<Rightarrow> nat \<Rightarrow> lookupResult \<Rightarrow> statusCache \<Rightarrow> statusCache" where
  "settleStatus ttl now hash lookup r c =
     (let mine = (case map_of (scEntries c) hash of Some e \<Rightarrow> seLookup e = lookup | None \<Rightarrow> False)
      in case r of
           Rejected \<Rightarrow> if mine then c\<lparr>scEntries := jsDelete hash (scEntries c)\<rparr> else c
         | Answer TxUnknown \<Rightarrow> if mine then c\<lparr>scEntries := jsDelete hash (scEntries c)\<rparr> else c
         | Answer st \<Rightarrow> (let c1 = c\<lparr>scAnswers := (scAnswers c)(lookup := Some st)\<rparr>
             in if mine then c1\<lparr>scEntries := jsSet hash \<lparr>seLookup = lookup, seExpires = Some (now + ttl)\<rparr> (scEntries c)\<rparr> else c1))"

inductive statusStep :: "nat \<Rightarrow> int \<Rightarrow> statusCache \<Rightarrow> statusCache \<Rightarrow> bool" for maxEntries ttl where
  get: "getStatus maxEntries now hash c = (r, c') \<Longrightarrow> statusStep maxEntries ttl c c'"
| settle: "lookup < scNext c \<Longrightarrow> statusStep maxEntries ttl c (settleStatus ttl now hash lookup r c)"

text \<open>Every remembered entry that has settled holds an answer that is not \<open>unknown\<close>.\<close>

definition statusInv :: "nat \<Rightarrow> statusCache \<Rightarrow> bool" where
  "statusInv maxEntries c \<longleftrightarrow> boundedMap maxEntries (scEntries c) \<and>
     (\<forall>(h, e) \<in> set (scEntries c). seLookup e < scNext c \<and>
        (seExpires e \<noteq> None \<longrightarrow> (\<exists>st. scAnswers c (seLookup e) = Some st))) \<and>
     (\<forall>i. scAnswers c i \<noteq> Some TxUnknown)"

lemma boundedMap_set: "boundedMap n m \<Longrightarrow> k \<in> fst ` set m \<Longrightarrow> boundedMap n (jsSet k v m)"
  using jsSet_keys [of k v m] by (simp add: boundedMap_def) (metis length_map)

lemma boundedMap_delete: "boundedMap n m \<Longrightarrow> boundedMap n (jsDelete k m)"
  using length_jsDelete [of k m] by (auto simp: boundedMap_def distinct_jsDelete)

lemma boundedMap_insert: "distinct (map fst m) \<Longrightarrow> boundedMap n (evictOldest n (jsSet k v m))"
  by (rule evictOldest_bounded) (auto simp: jsSet_keys)

lemma set_evict: "set (evictOldest n m) \<subseteq> set m"
  by (auto simp: evictOldest_drop dest: in_set_dropD)

lemma set_jsSet: "set (jsSet k v m) \<subseteq> insert (k, v) (set m)"
  by (induction k v m rule: jsSet.induct) auto

lemma set_jsDelete: "set (jsDelete k m) \<subseteq> set m"
  by (auto simp: jsDelete_def)

definition entryOk :: "statusCache \<Rightarrow> string \<times> statusEntry \<Rightarrow> bool" where
  "entryOk c = (\<lambda>(h, e). seLookup e < scNext c \<and> (seExpires e \<noteq> None \<longrightarrow> (\<exists>st. scAnswers c (seLookup e) = Some st)))"

lemma statusInv_alt:
  "statusInv n c \<longleftrightarrow> boundedMap n (scEntries c) \<and> (\<forall>x \<in> set (scEntries c). entryOk c x) \<and> (\<forall>i. scAnswers c i \<noteq> Some TxUnknown)"
  by (simp add: statusInv_def entryOk_def case_prod_beta)

lemma entryOk_next: "entryOk c x \<Longrightarrow> entryOk (c\<lparr>scEntries := es, scNext := Suc (scNext c)\<rparr>) x"
  by (auto simp: entryOk_def)

lemma statusInv_get:
  assumes inv: "statusInv n c" and g: "getStatus n now h c = (r, c')"
  shows "statusInv n c'"
proof -
  let ?e = "\<lparr>seLookup = scNext c, seExpires = None\<rparr>"
  have add: "statusInv n (c\<lparr>scEntries := evictOldest n (jsSet h ?e m), scNext := Suc (scNext c)\<rparr>)"
    if m: "distinct (map fst m)" "set m \<subseteq> set (scEntries c)" for m
  proof -
    have sub: "set (evictOldest n (jsSet h ?e m)) \<subseteq> insert (h, ?e) (set (scEntries c))"
      using set_evict [of n "jsSet h ?e m"] set_jsSet [of h ?e m] m(2) by blast
    have "entryOk (c\<lparr>scEntries := es, scNext := Suc (scNext c)\<rparr>) x" if "x \<in> insert (h, ?e) (set (scEntries c))" for x es
      using that inv entryOk_next [of c x] by (auto simp: statusInv_alt entryOk_def)
    with sub inv boundedMap_insert [OF m(1)] show ?thesis by (auto simp: statusInv_alt)
  qed
  have d: "distinct (map fst (scEntries c))" using inv by (simp add: statusInv_alt boundedMap_def)
  show ?thesis
    using g inv add [OF d subset_refl] add [OF distinct_jsDelete [OF d] set_jsDelete]
    by (auto simp: getStatus_def Let_def split: option.splits if_splits)
qed

lemma statusInv_settle:
  assumes inv: "statusInv n c" and l: "lookup < scNext c"
  shows "statusInv n (settleStatus ttl now h lookup r c)"
proof -
  define c1 where "c1 = (\<lambda>st. c\<lparr>scAnswers := (scAnswers c)(lookup := Some st)\<rparr>)"
  have del: "statusInv n (c\<lparr>scEntries := jsDelete h (scEntries c)\<rparr>)"
    using inv set_jsDelete [of h "scEntries c"] boundedMap_delete by (fastforce simp: statusInv_alt entryOk_def)
  have ans: "statusInv n (c1 st)" if "st \<noteq> TxUnknown" for st
    using inv that by (auto simp: statusInv_alt entryOk_def c1_def)
  have upd: "statusInv n ((c1 st)\<lparr>scEntries := jsSet h \<lparr>seLookup = lookup, seExpires = Some t\<rparr> (scEntries c)\<rparr>)"
    if st: "st \<noteq> TxUnknown" and mine: "map_of (scEntries c) h = Some e" for st t e
  proof -
    have "h \<in> fst ` set (scEntries c)" using mine by (force dest: map_of_SomeD)
    then have b: "boundedMap n (jsSet h \<lparr>seLookup = lookup, seExpires = Some t\<rparr> (scEntries c))"
      using inv by (intro boundedMap_set) (auto simp: statusInv_alt)
    let ?m = "jsSet h \<lparr>seLookup = lookup, seExpires = Some t\<rparr> (scEntries c)"
    have ok: "entryOk ((c1 st)\<lparr>scEntries := es\<rparr>) x"
      if "x \<in> insert (h, \<lparr>seLookup = lookup, seExpires = Some t\<rparr>) (set (scEntries c))" for x es
      using that l ans [OF st] by (auto simp: statusInv_alt entryOk_def c1_def)
    have "entryOk ((c1 st)\<lparr>scEntries := ?m\<rparr>) x" if "x \<in> set ?m" for x
      by (rule ok) (rule subsetD [OF set_jsSet that])
    moreover have "\<forall>i. scAnswers (c1 st) i \<noteq> Some TxUnknown" using ans [OF st] by (simp add: statusInv_alt)
    ultimately show ?thesis using b by (simp add: statusInv_alt)
  qed
  have known: "statusInv n (let c' = c\<lparr>scAnswers := (scAnswers c)(lookup := Some st)\<rparr>
      in if mine then c'\<lparr>scEntries := jsSet h \<lparr>seLookup = lookup, seExpires = Some t\<rparr> (scEntries c)\<rparr> else c')"
    if "st \<noteq> TxUnknown" "mine \<longrightarrow> (\<exists>e. map_of (scEntries c) h = Some e)" for st t mine
    using ans [OF that(1)] upd [OF that(1)] that(2) by (auto simp: Let_def c1_def)
  define mine where "mine = (case map_of (scEntries c) h of Some e \<Rightarrow> seLookup e = lookup | None \<Rightarrow> False)"
  have m: "mine \<longrightarrow> (\<exists>e. map_of (scEntries c) h = Some e)" by (simp add: mine_def split: option.split)
  note known' = known [OF _ m]
  show ?thesis
  proof (cases r)
    case Rejected
    then show ?thesis using inv del by (simp add: settleStatus_def Let_def)
  next
    case (Answer st)
    show ?thesis
      unfolding settleStatus_def mine_def [symmetric]
      using Answer inv del known' by (cases st) (simp_all add: Let_def del: not_None_eq)
  qed
qed

lemma statusInv_new: "statusInv n newStatusCache"
  by (simp add: newStatusCache_def statusInv_def boundedMap_def)

lemma statusInv_step: "statusStep n ttl c c' \<Longrightarrow> statusInv n c \<Longrightarrow> statusInv n c'"
  by (induction rule: statusStep.induct) (simp_all add: statusInv_get statusInv_settle)

interpretation txCache: machine "\<lambda>c. c = newStatusCache" "statusStep maxEntries ttl" "statusInv maxEntries"
  for maxEntries ttl
  by unfold_locales (simp_all add: statusInv_new statusInv_step)

text \<open>After any interleaving of calls and settled lookups the status cache remembers at most
  \<open>maxEntries\<close> hashes; a call that finds an answer or a running lookup for its hash starts no lookup of
  its own, and what it is served is either that running lookup or an answer that is not \<open>unknown\<close> and
  has not expired.\<close>

lemma status_cache_serves:
  assumes "(statusStep maxEntries ttl)\<^sup>*\<^sup>* newStatusCache c"
  shows "length (scEntries c) \<le> maxEntries \<and>
    (getStatus maxEntries now hash c = ((i, False), c') \<longrightarrow> c' = c \<and>
      (\<exists>e. map_of (scEntries c) hash = Some e \<and> seLookup e = i \<and>
        (seExpires e = None \<or>
         (\<exists>t st. seExpires e = Some t \<and> now < t \<and> scAnswers c i = Some st \<and> st \<noteq> TxUnknown))))"
proof (intro conjI impI)
  have inv: "statusInv maxEntries c" by (rule txCache.inv_reachable [OF assms]) simp
  then show "length (scEntries c) \<le> maxEntries" by (simp add: statusInv_def boundedMap_def)
  assume g: "getStatus maxEntries now hash c = ((i, False), c')"
  obtain e where e: "map_of (scEntries c) hash = Some e" and fresh: "isFresh now e" and r: "seLookup e = i" "c' = c"
    using g by (auto simp: getStatus_def Let_def split: option.splits if_splits)
  show "c' = c" by (rule r)
  have "entryOk c (hash, e)" using inv map_of_SomeD [OF e] by (simp add: statusInv_alt)
  moreover have "scAnswers c i \<noteq> Some TxUnknown" using inv by (simp add: statusInv_def)
  ultimately have "seExpires e = None \<or>
      (\<exists>t st. seExpires e = Some t \<and> now < t \<and> scAnswers c i = Some st \<and> st \<noteq> TxUnknown)"
    using fresh r by (auto simp: entryOk_def isFresh_def split: option.splits)
  with e r show "\<exists>e. map_of (scEntries c) hash = Some e \<and> seLookup e = i \<and> (seExpires e = None \<or>
         (\<exists>t st. seExpires e = Some t \<and> now < t \<and> scAnswers c i = Some st \<and> st \<noteq> TxUnknown))" by blast
qed

end
