(* ===== verification/Backend_Routes.thy ===== *)
theory Backend_Routes
  imports Js_Values Indexer_Reorg Submission_Check Vault_Security Request_Validation Status_Cache
begin

text \<open>
  The API of the backend (\<open>backend/src/routes.ts\<close>) as functions from the indexer's database to replies.
  \<open>stamp\<close> gives the time stamp that the database set when it created the row with an id; the tables of
  \<open>Indexer_Db\<close> leave time stamps out. Routing, logging and the reading of the request body come from the
  web framework.
\<close>

section \<open>Replies\<close>

datatype 'a reply = Reply 'a | ErrorReply nat string

definition visible :: "contractRow \<Rightarrow> bool" where
  "visible c \<longleftrightarrow> coReady c \<and> coPermissionsVerified c"

text \<open>Every route of a vault answers 404 unless the vault is ready and its permissions are verified.\<close>

definition withContract :: "string \<Rightarrow> database \<Rightarrow> (contractRow \<Rightarrow> 'a reply) \<Rightarrow> 'a reply" where
  "withContract address db k = (case findContractAt address db of
       None \<Rightarrow> ErrorReply 404 ''Contract not found''
     | Some c \<Rightarrow> if visible c then k c else ErrorReply 404 ''Contract not found'')"

section \<open>Configurations and owners\<close>

definition latestContractConfig :: "nat \<Rightarrow> database \<Rightarrow> configFields option" where
  "latestContractConfig cid db = map_option cfFields (getLatestConfig cid db)"

definition toContractState :: "configFields option \<Rightarrow> contractState option" where
  "toContractState config = map_option (\<lambda>f. \<lparr>ctNonce = cfgNonce f, ctParentNonce = cfgParentNonce f,
     ctConfigNonce = cfgConfigNonce f\<rparr>) config"

text \<open>The state of the child a remote proposal targets, once the backend has indexed and verified it.\<close>

definition resolveChildState :: "string \<Rightarrow> database \<Rightarrow> contractState option" where
  "resolveChildState address db = (case findContractAt address db of
       Some c \<Rightarrow> if visible c then toContractState (latestContractConfig (coId c) db) else None
     | None \<Rightarrow> None)"

definition newestMemberships :: "nat \<Rightarrow> database \<Rightarrow> membershipRow list" where
  "newestMemberships cid db = sort_key (\<lambda>m. - omValidFromBlock m) (sort_key (\<lambda>m. - int (omEventOrder m))
     (rev (filter (\<lambda>m. omContractId m = cid) (dbMembers db))))"

fun firstPerAddress :: "membershipRow list \<Rightarrow> membershipRow list" where
  "firstPerAddress [] = []"
| "firstPerAddress (m # ms) = m # filter (\<lambda>x. omAddress x \<noteq> omAddress m) (firstPerAddress ms)"

record ownerJson =
  ojAddress :: string
  ojIndex :: "int option"
  ojActive :: bool
  ojCreatedAt :: int

definition collapseOwners :: "(nat \<Rightarrow> int) \<Rightarrow> membershipRow list \<Rightarrow> bool option \<Rightarrow> ownerJson list" where
  "collapseOwners stamp memberships active =
     (let shaped = sort_key (\<lambda>o'. orDefault (ojIndex o') MAX_SAFE_INTEGER) (sort_key ojCreatedAt
            (map (\<lambda>m. \<lparr>ojAddress = omAddress m, ojIndex = omIndex m, ojActive = omAdded m, ojCreatedAt = stamp (omSourceEventId m)\<rparr>)
              (firstPerAddress memberships)))
      in case active of None \<Rightarrow> shaped | Some a \<Rightarrow> filter (\<lambda>o'. ojActive o' = a) shaped)"

definition listOwners :: "(nat \<Rightarrow> int) \<Rightarrow> nat \<Rightarrow> bool option \<Rightarrow> database \<Rightarrow> ownerJson list" where
  "listOwners stamp cid active db = collapseOwners stamp (newestMemberships cid db) active"

definition ownersRoute :: "(nat \<Rightarrow> int) \<Rightarrow> string \<Rightarrow> queryValue \<Rightarrow> database \<Rightarrow> ownerJson list reply" where
  "ownersRoute stamp address active db =
     withContract address db (\<lambda>c. Reply (listOwners stamp (coId c) (optionalBooleanQuerySchema active) db))"

section \<open>Vaults\<close>

record contractJson =
  cjRow :: contractRow
  cjDiscoveredAt :: int
  cjConfig :: configFields
  cjOwnerCount :: "nat option"
  cjActiveOwners :: "string list option"

definition decorateContract :: "(nat \<Rightarrow> int) \<Rightarrow> contractRow \<Rightarrow> configFields option \<Rightarrow> nat option \<Rightarrow> contractJson" where
  "decorateContract stamp c config ownerCount = \<lparr>cjRow = c, cjDiscoveredAt = stamp (coId c),
     cjConfig = orDefault config noChanges, cjOwnerCount = ownerCount, cjActiveOwners = None\<rparr>"

definition ROUTE_PAGE_LIMIT :: int where
  "ROUTE_PAGE_LIMIT = 200"

text \<open>The list is paged: the rows after the cursor, newest first, the id breaking ties.\<close>

definition afterCursor :: "(nat \<Rightarrow> int) \<Rightarrow> (int \<times> nat) option \<Rightarrow> contractRow \<Rightarrow> bool" where
  "afterCursor stamp cursor c = (case cursor of None \<Rightarrow> True
     | Some (d, i) \<Rightarrow> stamp (coId c) < d \<or> stamp (coId c) = d \<and> coId c < i)"

definition newestContracts :: "(nat \<Rightarrow> int) \<Rightarrow> contractRow list \<Rightarrow> contractRow list" where
  "newestContracts stamp cs = rev (sort_key (\<lambda>c. stamp (coId c)) (sort_key coId cs))"

definition contractsPage :: "(nat \<Rightarrow> int) \<Rightarrow> nat \<Rightarrow> (int \<times> nat) option \<Rightarrow> database \<Rightarrow> contractRow list" where
  "contractsPage stamp limit cursor db =
     take limit (newestContracts stamp (filter (\<lambda>c. visible c \<and> afterCursor stamp cursor c) (dbContracts db)))"

definition contractsRoute ::
  "(nat \<Rightarrow> int) \<Rightarrow> (queryValue \<Rightarrow> jsNum) \<Rightarrow> queryValue \<Rightarrow> (int \<times> nat) option \<Rightarrow> database \<Rightarrow> contractJson list reply" where
  "contractsRoute stamp toNumber limit cursor db =
     Reply (map (\<lambda>c. let active = listOwners stamp (coId c) (Some True) db
         in (decorateContract stamp c (latestContractConfig (coId c) db) (Some (length active)))
              \<lparr>cjActiveOwners := Some (map ojAddress active)\<rparr>)
       (contractsPage stamp (nat (clampedIntQuerySchema toNumber ROUTE_PAGE_LIMIT 1 ROUTE_PAGE_LIMIT limit)) cursor db))"

definition contractRoute :: "(nat \<Rightarrow> int) \<Rightarrow> string \<Rightarrow> database \<Rightarrow> contractJson reply" where
  "contractRoute stamp address db = withContract address db (\<lambda>c.
     Reply (decorateContract stamp c (latestContractConfig (coId c) db) (Some (length (listOwners stamp (coId c) (Some True) db)))))"

definition childrenRoute :: "(nat \<Rightarrow> int) \<Rightarrow> string \<Rightarrow> database \<Rightarrow> contractJson list reply" where
  "childrenRoute stamp address db = Reply (map (\<lambda>c. decorateContract stamp c (latestContractConfig (coId c) db) None)
     (sort_key (\<lambda>c. stamp (coId c)) (filter (\<lambda>c. coParent c = Some address \<and> visible c) (dbContracts db))))"

section \<open>Proposals\<close>

definition proposalRowOf :: "(nat \<Rightarrow> int) \<Rightarrow> (nat \<Rightarrow> int) \<Rightarrow> database \<Rightarrow> proposalTableRow \<Rightarrow> proposalRow" where
  "proposalRowOf stamp changedAt db p = \<lparr>rowProposalHash = ptProposalHash p, rowProposer = ptProposer p,
     rowToAddress = ptToAddress p, rowTokenId = ptTokenId p, rowTxType = ptTxType p, rowData = ptData p,
     rowNonce = ptNonce p, rowConfigNonce = ptConfigNonce p, rowExpirySlot = ptExpirySlot p,
     rowGuardAddress = ptGuardAddress p, rowMemo = ptMemo p, rowMemoHash = ptMemoHash p,
     rowExecutionMemoHash = ptExecutionMemoHash p, rowDestination = ptDestination p, rowChildAccount = ptChildAccount p,
     rowApprovals = length (filter (\<lambda>a. apProposalId a = ptId p) (dbApprovals db)),
     rowCreatedAtBlock = Some (ptCreatedAtBlock p),
     rowLastApproveTxHash = ptLastApproveTxHash p, rowLastExecuteTxHash = ptLastExecuteTxHash p,
     rowLastApproveError = ptLastApproveError p, rowLastExecuteError = ptLastExecuteError p,
     rowCreatedAt = stamp (ptId p), rowUpdatedAt = changedAt (ptId p),
     rowReceivers = map (\<lambda>r. \<lparr>rrIdx = int (rtIdx r), rrAddress = rtAddress r, rrAmount = rtAmount r\<rparr>)
       (sort_key rtIdx (filter (\<lambda>r. rtProposalId r = ptId p) (dbReceivers db))),
     rowExecutions = map (\<lambda>x. \<lparr>erBlockHeight = etBlockHeight x, erTxHash = etTxHash x\<rparr>)
       (filter (\<lambda>x. etProposalId x = ptId p) (dbExecutions db))\<rparr>"

definition targetsChild :: "proposalTableRow \<Rightarrow> bool" where
  "targetsChild p \<longleftrightarrow> ptDestination p = Some ''remote'' \<and> ptTxType p \<noteq> Some ''5'' \<and> truthyText (ptChildAccount p)"

definition childStateFor :: "database \<Rightarrow> proposalTableRow \<Rightarrow> contractState option" where
  "childStateFor db p = (if targetsChild p then resolveChildState (the (ptChildAccount p)) db else None)"

definition buildChildStateMap :: "proposalTableRow list \<Rightarrow> database \<Rightarrow> string \<rightharpoonup> contractState" where
  "buildChildStateMap ps db = (\<lambda>address.
     if address \<in> set (map (\<lambda>p. the (ptChildAccount p)) (filter targetsChild ps)) then resolveChildState address db else None)"

definition childStateOf :: "(string \<rightharpoonup> contractState) \<Rightarrow> proposalTableRow \<Rightarrow> contractState option" where
  "childStateOf childStates p = (if truthyText (ptChildAccount p) then childStates (the (ptChildAccount p)) else None)"

definition newestProposals :: "(nat \<Rightarrow> int) \<Rightarrow> proposalTableRow list \<Rightarrow> proposalTableRow list" where
  "newestProposals stamp ps = rev (sort_key ptCreatedAtBlock (sort_key (\<lambda>p. stamp (ptId p)) (sort_key ptId ps)))"

definition DERIVED_STATUS_SCAN_LIMIT :: nat where
  "DERIVED_STATUS_SCAN_LIMIT = 1000"

definition hasExecution :: "database \<Rightarrow> proposalTableRow \<Rightarrow> bool" where
  "hasExecution db p \<longleftrightarrow> list_ex (\<lambda>x. etProposalId x = ptId p) (dbExecutions db)"

definition needsInMemoryStatusFilter :: "string option \<Rightarrow> bool" where
  "needsInMemoryStatusFilter status \<longleftrightarrow> status \<in> {Some ''pending'', Some ''expired'', Some ''invalidated''}"

definition statusOf ::
  "(nat \<Rightarrow> int) \<Rightarrow> (nat \<Rightarrow> int) \<Rightarrow> int \<Rightarrow> contractState option \<Rightarrow> database \<Rightarrow> contractState option \<Rightarrow> proposalTableRow \<Rightarrow> string" where
  "statusOf stamp changedAt latestSlot parentState db childState p =
     (let row = proposalRowOf stamp changedAt db p
      in deriveStatus row (hasExecution db p) latestSlot (deriveInvalidReason row parentState childState))"

text \<open>The scan stops once the page is full.\<close>

fun scanMatches :: "(proposalTableRow \<Rightarrow> bool) \<Rightarrow> nat \<Rightarrow> nat list \<Rightarrow> proposalTableRow list \<Rightarrow> nat list" where
  "scanMatches wanted full found [] = found"
| "scanMatches wanted full found (p # ps) =
     (let found' = (if wanted p then found @ [ptId p] else found)
      in if length found' = full then found' else scanMatches wanted full found' ps)"

definition selectProposalIdsByDerivedStatus ::
  "(nat \<Rightarrow> int) \<Rightarrow> (nat \<Rightarrow> int) \<Rightarrow> nat \<Rightarrow> string \<Rightarrow> int \<Rightarrow> contractState option \<Rightarrow> nat \<Rightarrow> nat \<Rightarrow> database \<Rightarrow> nat list" where
  "selectProposalIdsByDerivedStatus stamp changedAt cid status latestSlot parentState limit offset db =
     (let candidates = take DERIVED_STATUS_SCAN_LIMIT (newestProposals stamp (filter (\<lambda>p. ptContractId p = cid) (dbProposals db)));
          childStates = buildChildStateMap candidates db
      in drop offset (scanMatches (\<lambda>p. statusOf stamp changedAt latestSlot parentState db (childStateOf childStates p) p = status)
           (offset + limit) [] candidates))"

definition proposalsRoute ::
  "('m, 'w, 's) o1js \<Rightarrow> (nat \<Rightarrow> int) \<Rightarrow> (nat \<Rightarrow> int) \<Rightarrow> int \<Rightarrow> (queryValue \<Rightarrow> jsNum) \<Rightarrow> string \<Rightarrow> queryValue \<Rightarrow> queryValue
     \<Rightarrow> queryValue \<Rightarrow> database \<Rightarrow> serializedProposal list reply" where
  "proposalsRoute E stamp changedAt latestSlot toNumber address statusQuery limitQuery offsetQuery db =
     withContract address db (\<lambda>c.
       let status = optionalNonEmptyStringQuerySchema statusQuery;
           limit = nat (clampedIntQuerySchema toNumber 50 1 200 limitQuery);
           offset = nat (clampedIntQuerySchema toNumber 0 0 10000 offsetQuery);
           parentState = toContractState (latestContractConfig (coId c) db);
           rows = (if needsInMemoryStatusFilter status
             then (let ids = selectProposalIdsByDerivedStatus stamp changedAt (coId c) (the status) latestSlot parentState limit offset db
               in newestProposals stamp (filter (\<lambda>p. ptId p \<in> set ids) (dbProposals db)))
             else take limit (drop offset (newestProposals stamp (filter (\<lambda>p. ptContractId p = coId c \<and>
               (status = Some ''executed'' \<longrightarrow> hasExecution db p)) (dbProposals db)))));
           childStates = buildChildStateMap rows db;
           serialized = map (\<lambda>p. serializeProposalRecord E (proposalRowOf stamp changedAt db p) latestSlot parentState
             (childStateOf childStates p)) rows
       in Reply (case status of None \<Rightarrow> serialized | Some s \<Rightarrow> filter (\<lambda>r. spStatus r = s) serialized))"

definition withProposal :: "contractRow \<Rightarrow> string \<Rightarrow> database \<Rightarrow> (proposalTableRow \<Rightarrow> 'a reply) \<Rightarrow> 'a reply" where
  "withProposal c ph db k = (case findProposal (coId c) ph db of
       None \<Rightarrow> ErrorReply 404 ''Proposal not found'' | Some p \<Rightarrow> k p)"

definition proposalRoute ::
  "('m, 'w, 's) o1js \<Rightarrow> (nat \<Rightarrow> int) \<Rightarrow> (nat \<Rightarrow> int) \<Rightarrow> int \<Rightarrow> string \<Rightarrow> string \<Rightarrow> database \<Rightarrow> serializedProposal reply" where
  "proposalRoute E stamp changedAt latestSlot address ph db =
     withContract address db (\<lambda>c. withProposal c ph db (\<lambda>p.
       Reply (serializeProposalRecord E (proposalRowOf stamp changedAt db p) latestSlot
         (toContractState (latestContractConfig (coId c) db)) (childStateFor db p))))"

definition approvalsRoute :: "string \<Rightarrow> string \<Rightarrow> database \<Rightarrow> approvalRow list reply" where
  "approvalsRoute address ph db = withContract address db (\<lambda>c. withProposal c ph db (\<lambda>p.
     Reply (sort_key apBlockHeight (filter (\<lambda>a. apProposalId a = ptId p) (dbApprovals db)))))"

section \<open>Events\<close>

definition inBlocks :: "int option \<Rightarrow> int option \<Rightarrow> eventRawRow \<Rightarrow> bool" where
  "inBlocks fromBlock toBlock e \<longleftrightarrow> (case fromBlock of None \<Rightarrow> True | Some b \<Rightarrow> b \<le> erwBlockHeight e)
     \<and> (case toBlock of None \<Rightarrow> True | Some b \<Rightarrow> erwBlockHeight e \<le> b)"

text \<open>Newest first. Rows are created in the order of the table, so the later row is the newer one.\<close>

definition newestEvents :: "nat \<Rightarrow> int option \<Rightarrow> int option \<Rightarrow> database \<Rightarrow> eventRawRow list" where
  "newestEvents cid fromBlock toBlock db = sort_key (\<lambda>e. - erwBlockHeight e)
     (rev (filter (\<lambda>e. erwContractId e = Some cid \<and> inBlocks fromBlock toBlock e) (dbEvents db)))"

definition eventsRoute ::
  "(queryValue \<Rightarrow> jsNum) \<Rightarrow> string \<Rightarrow> queryValue \<Rightarrow> queryValue \<Rightarrow> queryValue \<Rightarrow> queryValue \<Rightarrow> database \<Rightarrow> eventRawRow list reply" where
  "eventsRoute toNumber address fromQuery toQuery limitQuery offsetQuery db = withContract address db (\<lambda>c.
     let limit = nat (clampedIntQuerySchema toNumber 100 1 500 limitQuery);
         offset = nat (clampedIntQuerySchema toNumber 0 0 50000 offsetQuery)
     in Reply (map (\<lambda>e. e\<lparr>erwApplyError := None\<rparr>) (take limit (drop offset (newestEvents (coId c)
          (nullableBlockQuerySchema toNumber fromQuery) (nullableBlockQuerySchema toNumber toQuery) db)))))"

section \<open>Reports of submitted transactions\<close>

definition actionText :: "submitAction \<Rightarrow> string" where
  "actionText a = (case a of Approve \<Rightarrow> ''approve'' | Execute \<Rightarrow> ''execute'')"

definition recordedReport :: "submitAction \<Rightarrow> proposalTableRow \<Rightarrow> string option \<times> string option" where
  "recordedReport a p = (case a of Approve \<Rightarrow> (ptLastApproveTxHash p, ptLastApproveError p)
     | Execute \<Rightarrow> (ptLastExecuteTxHash p, ptLastExecuteError p))"

definition recordReport :: "submitAction \<Rightarrow> string option \<Rightarrow> proposalTableRow \<Rightarrow> proposalTableRow" where
  "recordReport a h p = (case a of Approve \<Rightarrow> p\<lparr>ptLastApproveTxHash := h, ptLastApproveError := None\<rparr>
     | Execute \<Rightarrow> p\<lparr>ptLastExecuteTxHash := h, ptLastExecuteError := None\<rparr>)"

text \<open>The part before the check: the reply without a check, or the proposal and the accounts to check.\<close>

definition submissionTarget ::
  "string \<Rightarrow> string \<Rightarrow> submitAction \<Rightarrow> string \<Rightarrow> bool \<Rightarrow> database \<Rightarrow> unit reply + (contractRow \<times> proposalTableRow \<times> string list)" where
  "submissionTarget address ph action txHash configured db = (case findContractAt address db of
       None \<Rightarrow> Inl (ErrorReply 404 ''Contract not found'')
     | Some c \<Rightarrow> if \<not> visible c then Inl (ErrorReply 404 ''Contract not found'')
       else (case findProposal (coId c) ph db of
           None \<Rightarrow> Inl (ErrorReply 404 ''Proposal not found'')
         | Some p \<Rightarrow> if recordedReport action p = (Some txHash, None) then Inl (Reply ())
             else if \<not> configured then Inl (ErrorReply 503 ''Submission checks are unavailable'')
             else Inr (c, p, if action = Execute \<and> truthyText (ptChildAccount p) then [address, the (ptChildAccount p)] else [address])))"

text \<open>The part after it: the write, and then, for an approval whose event is already stored, its removal.\<close>

definition recordSubmission ::
  "proposalTableRow \<Rightarrow> submitAction \<Rightarrow> string \<Rightarrow> database \<Rightarrow> database" where
  "recordSubmission p action txHash db =
     db\<lparr>dbProposals := updateRow (\<lambda>q. ptId q = ptId p) (recordReport action (Some txHash)) (dbProposals db)\<rparr>"

definition clearApplied :: "contractRow \<Rightarrow> proposalTableRow \<Rightarrow> submitAction \<Rightarrow> string \<Rightarrow> database \<Rightarrow> database" where
  "clearApplied c p action txHash db =
     (if action = Approve \<and> list_ex (\<lambda>e. erwContractId e = Some (coId c) \<and> erwTxHash e = Some txHash \<and> erwEventType e = ''approval'')
         (dbEvents db)
      then db\<lparr>dbProposals := updateRow (\<lambda>q. ptId q = ptId p \<and> ptLastApproveTxHash q = Some txHash)
        (\<lambda>q. q\<lparr>ptLastApproveTxHash := None, ptLastApproveError := None\<rparr>) (dbProposals db)\<rparr>
      else db)"

text \<open>\<open>verified\<close> is the verdict of the check that runs for the report; a report whose check already runs joins
  it. The indexer works on while the route waits: \<open>during\<close> is what it does to the database before the write,
  \<open>between\<close> what it does before the events are read.\<close>

definition submissionsRoute ::
  "(submission \<Rightarrow> bool) \<Rightarrow> (database \<Rightarrow> database) \<Rightarrow> (database \<Rightarrow> database) \<Rightarrow> string \<Rightarrow> string \<Rightarrow> (submitAction \<times> string) option \<Rightarrow> bool \<Rightarrow> limiter \<Rightarrow> database
     \<Rightarrow> unit reply \<times> limiter \<times> database" where
  "submissionsRoute verified during between address ph body configured l db = (case body of
       None \<Rightarrow> (ErrorReply 400 ''Invalid submission payload'', l, db)
     | Some (action, txHash) \<Rightarrow> (case submissionTarget address ph action txHash configured db of
           Inl r \<Rightarrow> (r, l, db)
         | Inr (c, p, accs) \<Rightarrow>
            (let r = \<lparr>rpProposalId = ptId p, rpAction = actionText action, rpTxHash = txHash\<rparr>
             in case runCheck MAX_CONCURRENT_SUBMISSION_CHECKS MAX_SUBMISSION_CHECKS_PER_PROPOSAL r l of
                  (Refused, l') \<Rightarrow> (ErrorReply 429 ''Too many submission checks in progress'', l', db)
                | (res, l') \<Rightarrow>
                    (let l'' = (if res = Started then finishCheck (reportKey r) (ptId p) l' else l')
                     in if \<not> verified \<lparr>sbTxHash = txHash, sbAction = action, sbProposalHash = ph, sbAccounts = accs\<rparr>
                        then (ErrorReply 422 ''Transaction is not a known action of this proposal'', l'', during db)
                        else (Reply (), l'', clearApplied c p action txHash (between (recordSubmission p action txHash (during db))))))))"

section \<open>Balances\<close>

definition balanceRoute :: "bool \<Rightarrow> bool \<Rightarrow> json option \<Rightarrow> string option reply" where
  "balanceRoute configured ok answer =
     (if \<not> configured then ErrorReply 503 ''Mina endpoint not configured''
      else if \<not> ok then ErrorReply 502 ''Daemon request failed''
      else case Option.bind (Option.bind answer (\<lambda>a. jsGet a ''data'')) (\<lambda>d. jsGet d ''account'') of
          None \<Rightarrow> Reply None
        | Some JNull \<Rightarrow> Reply None
        | Some account \<Rightarrow> (case Option.bind (jsGet account ''balance'') (\<lambda>b. jsGet b ''total'') of
              Some (JStr amount) \<Rightarrow> Reply (Some amount) | _ \<Rightarrow> Reply (Some ''0'')))"

section \<open>Subscriptions of the lite mode\<close>

definition SUBSCRIBE_MARGIN :: int where
  "SUBSCRIBE_MARGIN = 5"

definition subscribeSecurity :: "vaultSecurityStatus \<Rightarrow> unit reply" where
  "subscribeSecurity s =
     (if \<not> accountFound s \<or> \<not> truthyText (verificationKeyHash s) then ErrorReply 404 ''Account not found on-chain or not a zkApp''
      else if \<not> verificationKeyMatches s then ErrorReply 400 ''Contract verification key does not match this app version.''
      else if \<not> safe s then ErrorReply 400 ''Contract has non-canonical MinaGuard permissions''
      else Reply ())"

definition addContract :: "string \<Rightarrow> int \<Rightarrow> bool \<Rightarrow> database \<Rightarrow> contractRow \<times> database" where
  "addContract address block verified db =
     (let c = \<lparr>coId = dbNextId db, coAddress = address, coParent = None, coReady = False, coPermissionsVerified = verified,
        coDiscoveredAtBlock = Some block, coSynced = False\<rparr>
      in (c, db\<lparr>dbContracts := dbContracts db @ [c], dbNextId := Suc (dbNextId db)\<rparr>))"

text \<open>\<open>security\<close> is the live answer about the account, which only a request with a first block asks for;
  \<open>height\<close> the newest block.\<close>

definition subscribeRoute ::
  "('m, 'w, 's) o1js \<Rightarrow> bool \<Rightarrow> vaultSecurityStatus \<Rightarrow> int \<Rightarrow> json option \<Rightarrow> json option \<Rightarrow> database
     \<Rightarrow> contractRow reply \<times> database" where
  "subscribeRoute E lite security height address fromBlock db =
     (if \<not> lite then (ErrorReply 404 ''Subscribe API is only available in lite mode'', db)
      else case address of
        Some (JStr a) \<Rightarrow>
          (if a = [] then (ErrorReply 400 ''address is required'', db)
           else if fromBase58 E a = None then (ErrorReply 400 ''Invalid Mina public key'', db)
           else case (case fromBlock of None \<Rightarrow> Inr None
               | Some (JNum n) \<Rightarrow> if n < 0 then Inl () else Inr (Some n) | Some _ \<Rightarrow> Inl ()) of
             Inl _ \<Rightarrow> (ErrorReply 400 ''fromBlock must be a non-negative integer'', db)
           | Inr start \<Rightarrow>
              (case (if start = None then Reply () else subscribeSecurity security) of
                 ErrorReply code m \<Rightarrow> (ErrorReply code m, db)
               | Reply _ \<Rightarrow>
                  (case findContractAt a db of
                     Some c \<Rightarrow> (if start \<noteq> None \<and> \<not> coPermissionsVerified c
                       then (Reply (c\<lparr>coPermissionsVerified := True\<rparr>),
                         db\<lparr>dbContracts := updateRow (\<lambda>r. coId r = coId c) (\<lambda>r. r\<lparr>coPermissionsVerified := True\<rparr>) (dbContracts db)\<rparr>)
                       else (Reply c, db))
                   | None \<Rightarrow> (case addContract a (case start of Some n \<Rightarrow> n | None \<Rightarrow> max 0 (height - SUBSCRIBE_MARGIN)) (start \<noteq> None) db of
                       (c, db') \<Rightarrow> (Reply c, db')))))
      | _ \<Rightarrow> (ErrorReply 400 ''address is required'', db))"

text \<open>The hierarchy has two levels, so the children of the vault are the only other ones to remove.\<close>

definition unsubscribeRoute :: "bool \<Rightarrow> string \<Rightarrow> database \<Rightarrow> unit reply \<times> database" where
  "unsubscribeRoute lite address db =
     (if \<not> lite then (ErrorReply 404 ''Subscribe API is only available in lite mode'', db)
      else case findContractAt address db of
        None \<Rightarrow> (ErrorReply 404 ''Contract not found'', db)
      | Some c \<Rightarrow>
         (let children = filter (\<lambda>d. coParent d = Some (coAddress c)) (dbContracts db)
          in (Reply (), deleteContract (coId c) (foldl (\<lambda>db d. deleteContract (coId d) db) db children))))"

section \<open>Status of a transaction\<close>

definition txStatusQuery :: "bool \<Rightarrow> json option \<Rightarrow> string reply" where
  "txStatusQuery configured query =
     (let hash = (case query of Some (JStr s) \<Rightarrow> jsTrim s | _ \<Rightarrow> [])
      in if hash = [] then ErrorReply 400 ''Missing or empty hash query param''
         else if \<not> minaTxHashSchema hash then ErrorReply 400 ''Invalid transaction hash''
         else if \<not> configured then ErrorReply 503 ''Backend config unavailable''
         else Reply hash)"

section \<open>The JSON of a proposal\<close>

definition jsonText :: "string option \<Rightarrow> json" where
  "jsonText v = (case v of None \<Rightarrow> JNull | Some s \<Rightarrow> JStr s)"

definition jsonNumber :: "int option \<Rightarrow> json" where
  "jsonNumber v = (case v of None \<Rightarrow> JNull | Some n \<Rightarrow> JNum n)"

definition jsonBool :: "bool option \<Rightarrow> json" where
  "jsonBool v = (case v of None \<Rightarrow> JNull | Some b \<Rightarrow> JBool b)"

fun invalidReasonText :: "invalidReason \<Rightarrow> string" where
  "invalidReasonText ConfigNonceStale = ''config_nonce_stale''"
| "invalidReasonText ProposalNonceStale = ''proposal_nonce_stale''"

definition receiverJson :: "receiverRow \<Rightarrow> json" where
  "receiverJson r = JObj [(''index'', JNum (rrIdx r)), (''address'', JStr (rrAddress r)), (''amount'', JStr (rrAmount r))]"

text \<open>The members of the record that \<open>serializeProposalRecord\<close> returns; \<open>dateText\<close> is the text of a time.\<close>

definition proposalJson :: "(int \<Rightarrow> string) \<Rightarrow> serializedProposal \<Rightarrow> json" where
  "proposalJson dateText s = (let row = spRow s in JObj
     [(''proposalHash'', JStr (rowProposalHash row)), (''proposer'', jsonText (rowProposer row)),
      (''toAddress'', jsonText (rowToAddress row)), (''tokenId'', jsonText (rowTokenId row)),
      (''txType'', jsonText (rowTxType row)), (''data'', jsonText (rowData row)), (''nonce'', jsonText (rowNonce row)),
      (''configNonce'', jsonText (rowConfigNonce row)), (''expirySlot'', jsonText (rowExpirySlot row)),
      (''guardAddress'', jsonText (rowGuardAddress row)), (''memo'', jsonText (rowMemo row)),
      (''memoHash'', jsonText (rowMemoHash row)), (''proposalMemoMatch'', jsonBool (spProposalMemoMatch s)),
      (''memoExecutionMatch'', jsonBool (spMemoExecutionMatch s)), (''destination'', jsonText (rowDestination row)),
      (''childAccount'', jsonText (rowChildAccount row)), (''status'', JStr (spStatus s)),
      (''invalidReason'', jsonText (map_option invalidReasonText (spInvalidReason s))),
      (''childTargetIndexed'', jsonBool (spChildTargetIndexed s)), (''approvalCount'', JNum (int (rowApprovals row))),
      (''createdAtBlock'', jsonNumber (rowCreatedAtBlock row)), (''executedAtBlock'', jsonNumber (spExecutedAtBlock s)),
      (''executionTxHash'', jsonText (spExecutionTxHash s)), (''lastApproveTxHash'', jsonText (rowLastApproveTxHash row)),
      (''lastExecuteTxHash'', jsonText (rowLastExecuteTxHash row)), (''lastApproveError'', jsonText (rowLastApproveError row)),
      (''lastExecuteError'', jsonText (rowLastExecuteError row)), (''createdAt'', JStr (dateText (rowCreatedAt row))),
      (''updatedAt'', JStr (dateText (rowUpdatedAt row))), (''receivers'', JArr (map receiverJson (spReceivers s))),
      (''recipientCount'', JNum (int (spRecipientCount s))), (''totalAmount'', jsonText (spTotalAmount s))])"

end
