(* ===== verification/Indexer_Order.thy ===== *)
theory Indexer_Order
  imports Chain_Events "HOL-Library.Product_Lexorder"
begin

text \<open>
  The order in which the indexer applies a batch of events (\<open>reverseEventsWithinEachTx\<close> and
  \<open>orderEventsForApply\<close> of \<open>indexer.ts\<close>): each transaction's events, which the archive lists newest
  first, are turned round, then the batch is sorted by block, by the rank of the event type and by
  position.
\<close>

section \<open>Groups of a transaction\<close>

definition groupKey :: "nat \<Rightarrow> chainEvent \<Rightarrow> string" where
  "groupKey n e = (case ceTxHash e of Some h \<Rightarrow> h | None \<Rightarrow> ''__no_tx_'' @ decimal n)"

fun pushGroup :: "string \<Rightarrow> chainEvent \<Rightarrow> (string \<times> chainEvent list) list \<Rightarrow> (string \<times> chainEvent list) list" where
  "pushGroup key e [] = [(key, [e])]"
| "pushGroup key e ((k, es) # groups) = (if k = key then (k, es @ [e]) # groups else (k, es) # pushGroup key e groups)"

definition groupEvents :: "chainEvent list \<Rightarrow> (string \<times> chainEvent list) list" where
  "groupEvents events = foldl (\<lambda>groups e. pushGroup (groupKey (length groups) e) e groups) [] events"

definition reverseEventsWithinEachTx :: "chainEvent list \<Rightarrow> chainEvent list" where
  "reverseEventsWithinEachTx events = concat (map (\<lambda>(k, es). rev es) (groupEvents events))"

section \<open>Rank\<close>

definition EVENT_TYPE_ORDER :: "(string \<times> nat) list" where
  "EVENT_TYPE_ORDER = [(''deployed'', 0), (''setup'', 1), (''setupOwner'', 2), (''proposal'', 3), (''approval'', 4),
     (''receiver'', 5), (''execution'', 6), (''ownerChange'', 7), (''thresholdChange'', 8), (''delegate'', 9),
     (''createChild'', 10), (''reclaimChild'', 11), (''enableChildMultiSig'', 12), (''createChildConfig'', 13),
     (''createChildOwner'', 14)]"

definition eventRank :: "chainEvent \<Rightarrow> nat" where
  "eventRank e = (case map_of EVENT_TYPE_ORDER (ceType e) of Some n \<Rightarrow> n | None \<Rightarrow> 99)"

definition orderEventsForApply :: "chainEvent list \<Rightarrow> chainEvent list" where
  "orderEventsForApply events =
     map fst (sort_key (\<lambda>(e, i). (ceBlockHeight e, eventRank e, i)) (zip events [0..<length events]))"

section \<open>Sorting with the position is stable sorting\<close>

definition applyKey :: "chainEvent \<Rightarrow> int \<times> nat" where
  "applyKey e = (ceBlockHeight e, eventRank e)"

lemma insort_indexed:
  assumes "\<forall>p \<in> set ps. i < snd p"
  shows "map fst (insort_key (\<lambda>(e, i). (ceBlockHeight e, eventRank e, i)) (x, i :: nat) ps) = insort_key applyKey x (map fst ps)"
  using assms
proof (induction ps)
  case (Cons p ps)
  obtain e j where p: "p = (e, j)" by (cases p)
  have "(ceBlockHeight x, eventRank x, i) \<le> (ceBlockHeight e, eventRank e, j) \<longleftrightarrow> applyKey x \<le> applyKey e"
    using Cons.prems p by (auto simp: applyKey_def less_eq_prod_def)
  with Cons p show ?case by (simp add: comp_def)
qed simp

lemma sort_indexed:
  "map fst (sort_key (\<lambda>(e, i). (ceBlockHeight e, eventRank e, i)) (zip es [n..<n + length es])) = sort_key applyKey es"
proof (induction es arbitrary: n)
  case (Cons e es)
  let ?f = "\<lambda>(e, i). (ceBlockHeight e, eventRank e, i :: nat)"
  have "zip (e # es) [n..<n + length (e # es)] = (e, n) # zip es [Suc n..<Suc n + length es]"
    by (simp add: upt_conv_Cons del: upt_Suc)
  moreover have "\<forall>p \<in> set (sort_key ?f (zip es [Suc n..<Suc n + length es])). n < snd p"
    by (auto dest!: set_zip_rightD simp del: upt_Suc)
  note insort_indexed [OF this, of e]
  ultimately show ?case using Cons.IH [of "Suc n"] by (simp add: comp_def)
qed simp

lemma orderEventsForApply_stable: "orderEventsForApply es = sort_key applyKey es"
  using sort_indexed [of es 0] by (simp add: orderEventsForApply_def)

section \<open>Groups hold the events of their transaction\<close>

definition inTx :: "string \<Rightarrow> chainEvent \<Rightarrow> bool" where
  "inTx t e \<longleftrightarrow> ceTxHash e = Some t"

definition groupsOk :: "chainEvent list \<Rightarrow> (string \<times> chainEvent list) list \<Rightarrow> bool" where
  "groupsOk es groups \<longleftrightarrow> distinct (map fst groups) \<and> mset (concat (map snd groups)) = mset es \<and>
     (\<forall>(k, g) \<in> set groups. g = filter (inTx k) es)"

lemma pushGroup_keys: "fst ` set (pushGroup key e groups) = insert key (fst ` set groups)"
  by (induction key e groups rule: pushGroup.induct) auto

lemma pushGroup_distinct: "distinct (map fst groups) \<Longrightarrow> distinct (map fst (pushGroup key e groups))"
proof (induction key e groups rule: pushGroup.induct)
  case (2 key e k es groups)
  then show ?case using pushGroup_keys [of key e groups] by (auto simp flip: set_map)
qed simp

lemma pushGroup_mset: "mset (concat (map snd (pushGroup key e groups))) = add_mset e (mset (concat (map snd groups)))"
  by (induction key e groups rule: pushGroup.induct) auto

lemma pushGroup_members:
  "distinct (map fst groups) \<Longrightarrow> (k, g) \<in> set (pushGroup key e groups) \<Longrightarrow>
     (k \<noteq> key \<and> (k, g) \<in> set groups) \<or> (k = key \<and> (\<exists>g0. (k, g0) \<in> set groups \<and> g = g0 @ [e])) \<or>
     (k = key \<and> key \<notin> fst ` set groups \<and> g = [e])"
  by (induction key e groups rule: pushGroup.induct) (auto split: if_splits simp: rev_image_eqI)

lemma groupsOk_push:
  assumes ok: "groupsOk es groups" and t: "ceTxHash e = Some t"
  shows "groupsOk (es @ [e]) (pushGroup t e groups)"
proof -
  have d: "distinct (map fst groups)" using ok by (simp add: groupsOk_def)
  have none: "filter (inTx t) es = []" if "t \<notin> fst ` set groups"
  proof -
    have "\<not> inTx t x" if x: "x \<in> set es" for x
    proof
      assume "inTx t x"
      have "x \<in># mset (concat (map snd groups))" using ok x by (simp add: groupsOk_def)
      then obtain k g where "(k, g) \<in> set groups" "x \<in> set g" by auto
      then have "inTx k x" using ok by (fastforce simp: groupsOk_def)
      with \<open>inTx t x\<close> \<open>(k, g) \<in> set groups\<close> \<open>t \<notin> fst ` set groups\<close> show False by (force simp: inTx_def)
    qed
    then show ?thesis by (simp add: filter_empty_conv)
  qed
  have "g = filter (inTx k) (es @ [e])" if "(k, g) \<in> set (pushGroup t e groups)" for k g
    using pushGroup_members [OF d that] ok none t by (fastforce simp: groupsOk_def inTx_def)
  then show ?thesis
    using ok pushGroup_distinct [OF d] by (auto simp: groupsOk_def pushGroup_mset)
qed

lemma groupEvents_ok:
  assumes "\<forall>e \<in> set es. ceTxHash e \<noteq> None"
  shows "groupsOk es (groupEvents es)"
  using assms
proof (induction es rule: rev_induct)
  case (snoc e es)
  then obtain t where t: "ceTxHash e = Some t" by auto
  have "groupEvents (es @ [e]) = pushGroup t e (groupEvents es)" by (simp add: groupEvents_def groupKey_def t)
  then show ?case using snoc groupsOk_push [OF _ t] by simp
qed (simp add: groupEvents_def groupsOk_def)

lemma concat_rev_mset: "mset (concat (map (\<lambda>(k, es). rev es) gs)) = mset (concat (map snd gs))"
  by (induction gs) auto

lemma filter_groups:
  assumes "distinct (map fst gs)" "\<forall>(k, g) \<in> set gs. g = filter (inTx k) es"
  shows "filter (inTx t) (concat (map (\<lambda>(k, es). rev es) gs)) = (if t \<in> fst ` set gs then rev (filter (inTx t) es) else [])"
  using assms
proof (induction gs)
  case (Cons kg gs)
  obtain k g where kg: "kg = (k, g)" by (cases kg)
  have g: "g = filter (inTx k) es" using Cons.prems kg by simp
  have "filter (inTx t) (rev g) = (if t = k then rev g else [])"
    by (auto simp: g rev_filter [symmetric] filter_empty_conv inTx_def intro!: filter_cong)
  with Cons kg g show ?case by auto
qed simp

lemma reverse_groups:
  assumes "\<forall>e \<in> set es. ceTxHash e \<noteq> None"
  shows "filter (inTx t) (reverseEventsWithinEachTx es) = rev (filter (inTx t) es)" (is ?A)
    and "mset (reverseEventsWithinEachTx es) = mset es" (is ?B)
proof -
  have ok: "groupsOk es (groupEvents es)" by (rule groupEvents_ok [OF assms])
  then show ?B by (simp add: reverseEventsWithinEachTx_def concat_rev_mset groupsOk_def)
  have f: "filter (inTx t) (reverseEventsWithinEachTx es) =
      (if t \<in> fst ` set (groupEvents es) then rev (filter (inTx t) es) else [])"
    using ok by (simp add: reverseEventsWithinEachTx_def filter_groups groupsOk_def)
  have "mset (filter (inTx t) (reverseEventsWithinEachTx es)) = mset (filter (inTx t) es)"
    using \<open>?B\<close> by (metis mset_filter)
  with f show ?A by (auto split: if_splits)
qed

text \<open>A batch is applied in canonical order: the same events, sorted by block height and within a
  block by the rank of their type, and among the events of one transaction that share block and rank
  the newest-first order of the archive is turned back into the order of emission.\<close>

lemma apply_order:
  assumes "\<forall>e \<in> set raw. ceTxHash e \<noteq> None"
  shows "mset (orderEventsForApply (reverseEventsWithinEachTx raw)) = mset raw \<and>
    sorted (map (\<lambda>e. (ceBlockHeight e, eventRank e)) (orderEventsForApply (reverseEventsWithinEachTx raw))) \<and>
    filter (\<lambda>e. ceTxHash e = Some t \<and> ceBlockHeight e = h \<and> eventRank e = r)
        (orderEventsForApply (reverseEventsWithinEachTx raw)) =
      rev (filter (\<lambda>e. ceTxHash e = Some t \<and> ceBlockHeight e = h \<and> eventRank e = r) raw)"
proof (intro conjI)
  let ?es = "reverseEventsWithinEachTx raw"
  have key: "(\<lambda>e. (ceBlockHeight e, eventRank e)) = applyKey" by (simp add: applyKey_def fun_eq_iff)
  show "mset (orderEventsForApply ?es) = mset raw"
    by (simp add: orderEventsForApply_stable reverse_groups(2) [OF assms])
  show "sorted (map (\<lambda>e. (ceBlockHeight e, eventRank e)) (orderEventsForApply ?es))"
    unfolding key orderEventsForApply_stable by simp
  have "filter (\<lambda>e. ceTxHash e = Some t \<and> ceBlockHeight e = h \<and> eventRank e = r) (orderEventsForApply ?es) =
      filter (inTx t) (filter (\<lambda>e. applyKey e = (h, r)) (sort_key applyKey ?es))"
    by (simp add: orderEventsForApply_stable inTx_def applyKey_def conj_ac)
  also have "\<dots> = filter (\<lambda>e. applyKey e = (h, r)) (filter (inTx t) ?es)"
    unfolding sort_key_stable by (simp add: conj_commute)
  also have "\<dots> = rev (filter (\<lambda>e. ceTxHash e = Some t \<and> ceBlockHeight e = h \<and> eventRank e = r) raw)"
    by (simp add: reverse_groups(1) [OF assms] rev_filter [symmetric] inTx_def applyKey_def conj_ac)
  finally show "filter (\<lambda>e. ceTxHash e = Some t \<and> ceBlockHeight e = h \<and> eventRank e = r) (orderEventsForApply ?es) =
      rev (filter (\<lambda>e. ceTxHash e = Some t \<and> ceBlockHeight e = h \<and> eventRank e = r) raw)" .
qed

end
