(* ===== verification/Indexer_Apply.thy ===== *)
theory Indexer_Apply
  imports Indexer_Db Indexer_Order
begin

text \<open>
  How the indexer turns an event into rows (\<open>applyEvent\<close> and the handlers it dispatches to, in
  \<open>indexer.ts\<close>). Each handler is a function on the database, run inside the transaction of its event;
  \<open>cid\<close> is the contract the event was emitted on, \<open>ord\<close> its position in the batch and \<open>src\<close> the id of
  its recorded row.
\<close>

record onChainState =
  ocThreshold :: int
  ocNumOwners :: int
  ocOwnersCommitment :: string

text \<open>What the handlers use beyond the database: o1js, SHA-256, the text decoder and the mode.\<close>

record ('m, 'w, 's) indexerEnv =
  ieO1js :: "('m, 'w, 's) o1js"
  ieSha256 :: "nat list \<Rightarrow> nat list"
  ieTextDecoder :: "nat list \<Rightarrow> string"
  ieLite :: bool

definition EMPTY_PUBLIC_KEY :: "('m, 'w, 's) indexerEnv \<Rightarrow> string" where
  "EMPTY_PUBLIC_KEY I = toBase58 (ieO1js I) emptyKey"

definition payloadOf :: "chainEvent \<Rightarrow> string \<Rightarrow> json option" where
  "payloadOf e key = jsGet (cePayload e) key"

definition decodedMemo :: "('m, 'w, 's) indexerEnv \<Rightarrow> string \<Rightarrow> string" where
  "decodedMemo I txMemo = (case decodeTxMemo (ieSha256 I) (ieTextDecoder I) txMemo of Inr m \<Rightarrow> m | Inl _ \<Rightarrow> txMemo)"

section \<open>Handlers\<close>

definition applySetupEvent ::
  "('m, 'w, 's) indexerEnv \<Rightarrow> nat \<Rightarrow> chainEvent \<Rightarrow> nat \<Rightarrow> nat \<Rightarrow> database \<Rightarrow> database" where
  "applySetupEvent I cid e ord src db =
     (let parent = asString (payloadOf e ''parent'');
          isRoot = (parent = None \<or> parent = Some (EMPTY_PUBLIC_KEY I));
          db1 = db\<lparr>dbContracts := updateRow (\<lambda>c. coId c = cid)
            (\<lambda>c. c\<lparr>coParent := if isRoot then None else parent\<rparr>) (dbContracts db)\<rparr>
      in appendContractConfigSnapshot cid (ceBlockHeight e) ord (Some src)
           (noChanges\<lparr>cfgThreshold := asNumber (payloadOf e ''threshold''), cfgNumOwners := asNumber (payloadOf e ''numOwners''),
              cfgNonce := Some 0, cfgParentNonce := Some 0, cfgConfigNonce := Some 0,
              cfgOwnersCommitment := asString (payloadOf e ''ownersCommitment''),
              cfgChildMultiSigEnabled := Some True\<rparr>) db1)"

definition applySetupOwnerEvent ::
  "('m, 'w, 's) indexerEnv \<Rightarrow> nat \<Rightarrow> chainEvent \<Rightarrow> nat \<Rightarrow> nat \<Rightarrow> onChainState option \<Rightarrow> database \<Rightarrow> database" where
  "applySetupOwnerEvent I cid e ord src setupFallback db =
     (case asString (payloadOf e ''owner'') of None \<Rightarrow> db
      | Some ownerAddress \<Rightarrow>
        if ownerAddress = [] \<or> length ownerAddress < 10 \<or> ownerAddress = EMPTY_PUBLIC_KEY I then db
        else (let db1 = db\<lparr>dbMembers := dbMembers db @ [\<lparr>omContractId = cid, omAddress = ownerAddress, omAdded = True,
                omIndex = asNumber (payloadOf e ''index''), omValidFromBlock = ceBlockHeight e, omEventOrder = ord,
                omSourceEventId = src\<rparr>]\<rparr>
          in if (case getLatestConfig cid db1 of Some r \<Rightarrow> cfgThreshold (cfFields r) \<noteq> None | None \<Rightarrow> False) then db1
             else (case setupFallback of None \<Rightarrow> db1
               | Some st \<Rightarrow> appendContractConfigSnapshot cid (ceBlockHeight e) ord (Some src)
                   (noChanges\<lparr>cfgThreshold := Some (ocThreshold st), cfgNumOwners := Some (ocNumOwners st),
                      cfgOwnersCommitment := Some (ocOwnersCommitment st)\<rparr>) db1)))"

definition proposalFromEvent ::
  "('m, 'w, 's) indexerEnv \<Rightarrow> chainEvent \<Rightarrow> proposalTableRow \<Rightarrow> proposalTableRow" where
  "proposalFromEvent I e row = row\<lparr>
     ptTokenId := asString (payloadOf e ''tokenId''), ptTxType := asString (payloadOf e ''txType''),
     ptData := asString (payloadOf e ''data''), ptMemoHash := asString (payloadOf e ''memoHash''),
     ptMemo := (case ceTxMemo e of None \<Rightarrow> None | Some m \<Rightarrow> if m = [] then None else Some (decodedMemo I m)),
     ptNonce := asString (payloadOf e ''nonce''), ptConfigNonce := asString (payloadOf e ''configNonce''),
     ptExpirySlot := asString (payloadOf e ''expirySlot''), ptGuardAddress := asString (payloadOf e ''guardAddress''),
     ptDestination := normalizeDestination (asString (payloadOf e ''destination'')),
     ptChildAccount := asNullableAddress (ieO1js I) (asString (payloadOf e ''childAccount''))\<rparr>"

definition emptyProposalRow :: "nat \<Rightarrow> nat \<Rightarrow> string \<Rightarrow> string option \<Rightarrow> int \<Rightarrow> proposalTableRow" where
  "emptyProposalRow rid cid ph proposer block = \<lparr>ptId = rid, ptContractId = cid, ptProposalHash = ph, ptProposer = proposer,
     ptToAddress = None, ptTokenId = None, ptTxType = None, ptData = None, ptMemoHash = None, ptMemo = None, ptNonce = None,
     ptConfigNonce = None, ptExpirySlot = None, ptGuardAddress = None, ptDestination = None, ptChildAccount = None,
     ptExecutionMemoHash = None, ptLastApproveTxHash = None, ptLastApproveError = None, ptLastExecuteTxHash = None,
     ptLastExecuteError = None, ptCreatedAtBlock = block\<rparr>"

text \<open>In lite mode a creation proposal subscribes to its child, so that the child's events are read.\<close>

definition subscribeChild :: "('m, 'w, 's) indexerEnv \<Rightarrow> nat \<Rightarrow> chainEvent \<Rightarrow> database \<Rightarrow> database" where
  "subscribeChild I cid e db =
     (if ieLite I \<and> asString (payloadOf e ''txType'') = Some ''5'' then
        (case (asNullableAddress (ieO1js I) (asString (payloadOf e ''childAccount'')), findContract cid db) of
           (Some childAddress, Some par) \<Rightarrow>
             if findContractAt childAddress db = None then
               db\<lparr>dbContracts := dbContracts db @ [\<lparr>coId = dbNextId db, coAddress = childAddress,
                    coParent = Some (coAddress par), coReady = False, coPermissionsVerified = False,
                    coDiscoveredAtBlock = Some (ceBlockHeight e), coSynced = False\<rparr>], dbNextId := Suc (dbNextId db)\<rparr>
             else db
         | _ \<Rightarrow> db)
      else db)"

definition applyProposalEvent :: "('m, 'w, 's) indexerEnv \<Rightarrow> nat \<Rightarrow> chainEvent \<Rightarrow> database \<Rightarrow> database" where
  "applyProposalEvent I cid e db =
     (case asString (payloadOf e ''proposalHash'') of None \<Rightarrow> db
      | Some ph \<Rightarrow>
        if ph = [] then db
        else (let row = emptyProposalRow (dbNextId db) cid ph (asString (payloadOf e ''proposer'')) (ceBlockHeight e);
                  db1 = db\<lparr>dbProposals := upsertRow (\<lambda>p. ptContractId p = cid \<and> ptProposalHash p = ph)
                    (proposalFromEvent I e row) (proposalFromEvent I e) (dbProposals db), dbNextId := Suc (dbNextId db)\<rparr>
          in subscribeChild I cid e db1))"

definition applyReceiverEvent :: "('m, 'w, 's) indexerEnv \<Rightarrow> nat \<Rightarrow> chainEvent \<Rightarrow> database \<Rightarrow> database" where
  "applyReceiverEvent I cid e db =
     (case (asString (payloadOf e ''proposalHash''), asString (payloadOf e ''receiver''), asString (payloadOf e ''amount'')) of
        (Some ph, Some address, Some amount) \<Rightarrow>
          if ph = [] \<or> address = [] \<or> amount = [] \<or> address = EMPTY_PUBLIC_KEY I then db
          else (case findProposal cid ph db of None \<Rightarrow> db
            | Some p \<Rightarrow>
              (let nextIndex = length (filter (\<lambda>r. rtProposalId r = ptId p) (dbReceivers db));
                   db1 = db\<lparr>dbReceivers := dbReceivers db @ [\<lparr>rtProposalId = ptId p, rtIdx = nextIndex,
                     rtAddress = address, rtAmount = amount\<rparr>]\<rparr>
               in if nextIndex = 0 \<and> ptTxType p \<in> {Some ''1'', Some ''2'', Some ''4''}
                  then db1\<lparr>dbProposals := updateRow (\<lambda>q. ptId q = ptId p) (\<lambda>q. q\<lparr>ptToAddress := Some address\<rparr>) (dbProposals db1)\<rparr>
                  else db1))
      | _ \<Rightarrow> db)"

definition applyApprovalEvent :: "nat \<Rightarrow> chainEvent \<Rightarrow> nat \<Rightarrow> database \<Rightarrow> database" where
  "applyApprovalEvent cid e ord db =
     (case (asString (payloadOf e ''proposalHash''), asString (payloadOf e ''approver'')) of
        (Some ph, Some approver) \<Rightarrow>
          if ph = [] \<or> approver = [] then db
          else (case findProposal cid ph db of None \<Rightarrow> db
            | Some p \<Rightarrow>
              (let raw = asString (payloadOf e ''approvalCount'');
                   db1 = db\<lparr>dbApprovals := upsertRow (\<lambda>a. apProposalId a = ptId p \<and> apApprover a = approver)
                     \<lparr>apProposalId = ptId p, apApprover = approver, apApprovalRaw = raw, apBlockHeight = ceBlockHeight e, apEventOrder = ord\<rparr>
                     (\<lambda>a. a\<lparr>apApprovalRaw := raw, apBlockHeight := ceBlockHeight e, apEventOrder := ord\<rparr>) (dbApprovals db)\<rparr>
               in if (ceTxHash e \<noteq> None \<and> ptLastApproveTxHash p = ceTxHash e) \<or> ptLastApproveError p \<noteq> None
                  then db1\<lparr>dbProposals := updateRow (\<lambda>q. ptId q = ptId p)
                    (\<lambda>q. q\<lparr>ptLastApproveTxHash := None, ptLastApproveError := None\<rparr>) (dbProposals db1)\<rparr>
                  else db1))
      | _ \<Rightarrow> db)"

definition upsertProposalExecution :: "nat \<Rightarrow> int \<Rightarrow> string option \<Rightarrow> nat \<Rightarrow> database \<Rightarrow> database" where
  "upsertProposalExecution pid block txHash ord db =
     db\<lparr>dbExecutions := upsertRow (\<lambda>x. etProposalId x = pid)
       \<lparr>etProposalId = pid, etBlockHeight = block, etTxHash = txHash, etEventOrder = ord\<rparr>
       (\<lambda>x. x\<lparr>etBlockHeight := block, etTxHash := txHash, etEventOrder := ord\<rparr>) (dbExecutions db)\<rparr>"

definition executionMemoHashOf :: "('m, 'w, 's) indexerEnv \<Rightarrow> chainEvent \<Rightarrow> string" where
  "executionMemoHashOf I e =
     (let observedMemo = (case ceTxMemo e of None \<Rightarrow> [] | Some m \<Rightarrow> if m = [] then [] else decodedMemo I m)
      in fieldToString (memoToField (ieO1js I) observedMemo))"

text \<open>What an execution writes about the proposal it found: the execution row, the observed memo, the
  cleared in-flight report, and a snapshot with the consumed nonce.\<close>

definition markProposalExecuted ::
  "('m, 'w, 's) indexerEnv \<Rightarrow> nat \<Rightarrow> chainEvent \<Rightarrow> nat \<Rightarrow> proposalTableRow \<Rightarrow> (int \<Rightarrow> configFields) \<Rightarrow> database \<Rightarrow> database" where
  "markProposalExecuted I cid e ord p consumed db =
     (let db1 = upsertProposalExecution (ptId p) (ceBlockHeight e) (ceTxHash e) ord db;
          clear = (ceTxHash e \<noteq> None \<and> ptLastExecuteTxHash p = ceTxHash e);
          db2 = db1\<lparr>dbProposals := updateRow (\<lambda>q. ptId q = ptId p)
            (\<lambda>q. let q1 = q\<lparr>ptExecutionMemoHash := Some (executionMemoHashOf I e)\<rparr>
              in if clear then q1\<lparr>ptLastExecuteTxHash := None, ptLastExecuteError := None\<rparr> else q1) (dbProposals db1)\<rparr>
      in case Option.bind (ptNonce p) jsNumber of
           None \<Rightarrow> db2
         | Some n \<Rightarrow> appendContractConfigSnapshot cid (ceBlockHeight e) ord None (consumed n) db2)"

definition applyExecutionEvent :: "('m, 'w, 's) indexerEnv \<Rightarrow> nat \<Rightarrow> chainEvent \<Rightarrow> nat \<Rightarrow> database \<Rightarrow> database" where
  "applyExecutionEvent I cid e ord db =
     (case asString (payloadOf e ''proposalHash'') of None \<Rightarrow> db
      | Some ph \<Rightarrow>
        if ph = [] then db
        else (case findProposal cid ph db of
          Some local \<Rightarrow> markProposalExecuted I cid e ord local (\<lambda>n. noChanges\<lparr>cfgNonce := Some n\<rparr>) db
        | None \<Rightarrow>
          (case Option.bind (findContract cid db) coParent of None \<Rightarrow> db
           | Some parentAddress \<Rightarrow>
             if parentAddress = [] then db
             else (case findContractAt parentAddress db of None \<Rightarrow> db
             | Some par \<Rightarrow> (case findProposal (coId par) ph db of None \<Rightarrow> db
               | Some remote \<Rightarrow> markProposalExecuted I cid e ord remote (\<lambda>n. noChanges\<lparr>cfgParentNonce := Some n\<rparr>) db)))))"

definition applyOwnerChangeEvent :: "nat \<Rightarrow> chainEvent \<Rightarrow> nat \<Rightarrow> nat \<Rightarrow> database \<Rightarrow> database" where
  "applyOwnerChangeEvent cid e ord src db =
     (case asString (payloadOf e ''owner'') of None \<Rightarrow> db
      | Some owner \<Rightarrow>
        if owner = [] then db
        else (let added = (asString (payloadOf e ''added'') = Some ''1'');
                  db1 = db\<lparr>dbMembers := dbMembers db @ [\<lparr>omContractId = cid, omAddress = owner, omAdded = added, omIndex = None,
                    omValidFromBlock = ceBlockHeight e, omEventOrder = ord, omSourceEventId = src\<rparr>]\<rparr>;
                  changes = noChanges\<lparr>cfgNumOwners := asNumber (payloadOf e ''newNumOwners''),
                    cfgConfigNonce := asNumber (payloadOf e ''configNonce''),
                    cfgOwnersCommitment := asString (payloadOf e ''newOwnersCommitment'')\<rparr>
          in if changes \<noteq> noChanges
             then appendContractConfigSnapshot cid (ceBlockHeight e) ord (Some src) changes db1 else db1))"

definition applyThresholdChangeEvent :: "nat \<Rightarrow> chainEvent \<Rightarrow> nat \<Rightarrow> nat \<Rightarrow> database \<Rightarrow> database" where
  "applyThresholdChangeEvent cid e ord src db =
     (case asNumber (payloadOf e ''newThreshold'') of None \<Rightarrow> db
      | Some newThreshold \<Rightarrow> appendContractConfigSnapshot cid (ceBlockHeight e) ord (Some src)
          (noChanges\<lparr>cfgThreshold := Some newThreshold, cfgConfigNonce := asNumber (payloadOf e ''configNonce'')\<rparr>) db)"

definition applyDelegateEvent :: "nat \<Rightarrow> chainEvent \<Rightarrow> nat \<Rightarrow> nat \<Rightarrow> database \<Rightarrow> database" where
  "applyDelegateEvent cid e ord src db =
     (case asString (payloadOf e ''delegate'') of None \<Rightarrow> db
      | Some delegate \<Rightarrow> appendContractConfigSnapshot cid (ceBlockHeight e) ord (Some src)
          (noChanges\<lparr>cfgDelegate := Some delegate\<rparr>) db)"

definition applyEnableChildMultiSigEvent :: "nat \<Rightarrow> chainEvent \<Rightarrow> nat \<Rightarrow> nat \<Rightarrow> database \<Rightarrow> database" where
  "applyEnableChildMultiSigEvent cid e ord src db =
     (case asNumber (payloadOf e ''enabled'') of None \<Rightarrow> db
      | Some enabled \<Rightarrow> appendContractConfigSnapshot cid (ceBlockHeight e) ord (Some src)
          (noChanges\<lparr>cfgChildMultiSigEnabled := Some (enabled = 1), cfgConfigNonce := asNumber (payloadOf e ''configNonce'')\<rparr>) db)"

definition applyEvent ::
  "('m, 'w, 's) indexerEnv \<Rightarrow> nat \<Rightarrow> chainEvent \<Rightarrow> nat \<Rightarrow> nat \<Rightarrow> onChainState option \<Rightarrow> database \<Rightarrow> database" where
  "applyEvent I cid e ord src setupFallback db =
     (if ceType e = ''setup'' then applySetupEvent I cid e ord src db
      else if ceType e = ''setupOwner'' then applySetupOwnerEvent I cid e ord src setupFallback db
      else if ceType e = ''proposal'' then applyProposalEvent I cid e db
      else if ceType e = ''approval'' then applyApprovalEvent cid e ord db
      else if ceType e = ''execution'' then applyExecutionEvent I cid e ord db
      else if ceType e = ''enableChildMultiSig'' then applyEnableChildMultiSigEvent cid e ord src db
      else if ceType e = ''receiver'' then applyReceiverEvent I cid e db
      else if ceType e = ''ownerChange'' then applyOwnerChangeEvent cid e ord src db
      else if ceType e = ''thresholdChange'' then applyThresholdChangeEvent cid e ord src db
      else if ceType e = ''delegate'' then applyDelegateEvent cid e ord src db
      else db)"

text \<open>No handler touches the recorded events, the headers or the cursors.\<close>

definition sameLog :: "database \<Rightarrow> database \<Rightarrow> bool" where
  "sameLog db db' \<longleftrightarrow> dbEvents db' = dbEvents db \<and> dbHeaders db' = dbHeaders db \<and> dbCursors db' = dbCursors db"

lemma sameLog_refl [simp]: "sameLog db db"
  by (simp add: sameLog_def)

lemma sameLog_trans: "sameLog a b \<Longrightarrow> sameLog b c \<Longrightarrow> sameLog a c"
  by (simp add: sameLog_def)

lemma sameLog_snapshot: "sameLog db db' \<Longrightarrow> sameLog db (appendContractConfigSnapshot cid h ord src ch db')"
  by (simp add: sameLog_def appendContractConfigSnapshot_def)

lemma sameLog_setup: "sameLog db (applySetupEvent I cid e ord src db)"
  by (simp add: applySetupEvent_def Let_def sameLog_def appendContractConfigSnapshot_def)

lemma sameLog_setupOwner: "sameLog db (applySetupOwnerEvent I cid e ord src fb db)"
  unfolding applySetupOwnerEvent_def Let_def
  by (cases "asString (payloadOf e ''owner'')"; cases fb) (simp_all add: sameLog_snapshot sameLog_def appendContractConfigSnapshot_def)

lemma sameLog_subscribe: "sameLog db (subscribeChild I cid e db)"
  unfolding subscribeChild_def by (simp add: sameLog_def split: option.split)

lemma sameLog_proposal: "sameLog db (applyProposalEvent I cid e db)"
proof (cases "asString (payloadOf e ''proposalHash'')")
  case (Some ph)
  have "sameLog db (subscribeChild I cid e db')" if "sameLog db db'" for db'
    using sameLog_trans [OF that sameLog_subscribe] .
  then show ?thesis by (simp add: applyProposalEvent_def Some Let_def) (simp add: sameLog_def)
qed (simp add: applyProposalEvent_def)

lemma sameLog_receiver: "sameLog db (applyReceiverEvent I cid e db)"
  unfolding applyReceiverEvent_def Let_def by (simp add: sameLog_def split: option.split)

lemma sameLog_approval: "sameLog db (applyApprovalEvent cid e ord db)"
  unfolding applyApprovalEvent_def Let_def by (simp add: sameLog_def split: option.split)

lemma sameLog_marked: "sameLog db (markProposalExecuted I cid e ord p consumed db)"
  unfolding markProposalExecuted_def Let_def upsertProposalExecution_def
  by (cases "Option.bind (ptNonce p) jsNumber") (simp_all add: sameLog_def appendContractConfigSnapshot_def)

lemma sameLog_execution: "sameLog db (applyExecutionEvent I cid e ord db)"
  unfolding applyExecutionEvent_def by (simp add: sameLog_marked split: option.split)

lemma sameLog_ownerChange: "sameLog db (applyOwnerChangeEvent cid e ord src db)"
  unfolding applyOwnerChangeEvent_def Let_def
  by (cases "asString (payloadOf e ''owner'')") (simp_all add: sameLog_def appendContractConfigSnapshot_def)

lemma sameLog_config:
  "sameLog db (applyThresholdChangeEvent cid e ord src db)" "sameLog db (applyDelegateEvent cid e ord src db)"
  "sameLog db (applyEnableChildMultiSigEvent cid e ord src db)"
  by (simp_all add: applyThresholdChangeEvent_def applyDelegateEvent_def applyEnableChildMultiSigEvent_def sameLog_snapshot
      split: option.split)

lemmas sameLog_handlers = sameLog_setup sameLog_setupOwner sameLog_proposal sameLog_receiver sameLog_approval
  sameLog_execution sameLog_ownerChange sameLog_config

lemma applyEvent_log: "sameLog db (applyEvent I cid e ord src fb db)"
  unfolding applyEvent_def by (simp only: sameLog_handlers sameLog_refl split: if_split) simp

end
