(* ===== verification/Indexer_Sync.thy ===== *)
theory Indexer_Sync
  imports Indexer_Apply Vault_Security
begin

text \<open>
  Ingesting events (\<open>indexer.ts\<close>): recording an event and applying it in one transaction, retries and
  quarantine, and the synchronisation of one contract over a range of blocks. What the network answers
  and which transactions the database fails are parameters; a failed transaction leaves the database
  as it was.
\<close>

section \<open>Database errors\<close>

datatype dbError = KnownRequestError string | InitializationError | RustPanicError | UnknownRequestError
  | OtherThrown string

definition TRANSIENT_DB_ERROR_CODES :: "string list" where
  "TRANSIENT_DB_ERROR_CODES = [''P1001'', ''P1002'', ''P1008'', ''P1017'', ''P2024'', ''P2028'', ''P2034'']"

fun isTransientDbError :: "dbError \<Rightarrow> bool" where
  "isTransientDbError (KnownRequestError code) = (code \<in> set TRANSIENT_DB_ERROR_CODES)"
| "isTransientDbError InitializationError = True"
| "isTransientDbError RustPanicError = True"
| "isTransientDbError UnknownRequestError = True"
| "isTransientDbError (OtherThrown m) = False"

fun describeError :: "dbError \<Rightarrow> string" where
  "describeError (KnownRequestError code) = ''PrismaClientKnownRequestError: '' @ code"
| "describeError InitializationError = ''PrismaClientInitializationError''"
| "describeError RustPanicError = ''PrismaClientRustPanicError''"
| "describeError UnknownRequestError = ''PrismaClientUnknownRequestError''"
| "describeError (OtherThrown m) = m"

section \<open>Recording\<close>

definition fingerprintEvent :: "string \<Rightarrow> chainEvent \<Rightarrow> string" where
  "fingerprintEvent address e = joinWith ''::'' [address, ceType e, intToString (ceBlockHeight e),
     (case ceTxHash e of Some h \<Rightarrow> h | None \<Rightarrow> ''no-hash''), jsonStringify (cePayload e)]"

text \<open>The header and the event row; a missing contract violates the foreign key, a repeated
  fingerprint the unique key.\<close>

definition recordEvent :: "nat \<Rightarrow> chainEvent \<Rightarrow> string \<Rightarrow> string option \<Rightarrow> database \<Rightarrow> dbError + (nat \<times> database)" where
  "recordEvent cid e fingerprint applyError db =
     (if findContract cid db = None then Inl (KnownRequestError ''P2003'')
      else if isRecorded fingerprint db then Inl (KnownRequestError ''P2002'')
      else Inr (dbNextId db, db\<lparr>
        dbHeaders := (if ceBlockHash e = [] then dbHeaders db
          else upsertRow (\<lambda>h. bhHeight h = ceBlockHeight e)
            \<lparr>bhHeight = ceBlockHeight e, bhBlockHash = ceBlockHash e, bhParentHash = ceParentHash e\<rparr> id (dbHeaders db)),
        dbEvents := dbEvents db @ [\<lparr>erwId = dbNextId db, erwContractId = Some cid, erwBlockHeight = ceBlockHeight e,
          erwTxHash = ceTxHash e, erwEventType = ceType e, erwPayload = jsonStringify (cePayload e),
          erwFingerprint = fingerprint, erwApplyError = applyError\<rparr>],
        dbNextId := Suc (dbNextId db)\<rparr>))"

datatype ingestOutcome = Applied | Quarantined | Duplicate

text \<open>\<open>fault i\<close> is what the database reports for transaction \<open>i\<close> of this event, if it fails it.\<close>

definition runTransaction :: "dbError option \<Rightarrow> dbError + database \<Rightarrow> dbError + database" where
  "runTransaction fault body = (case fault of Some f \<Rightarrow> Inl f | None \<Rightarrow> body)"

definition recordFailedEvent ::
  "(nat \<Rightarrow> dbError option) \<Rightarrow> nat \<Rightarrow> chainEvent \<Rightarrow> string \<Rightarrow> string \<Rightarrow> database \<Rightarrow> dbError + (ingestOutcome \<times> database)" where
  "recordFailedEvent fault cid e fingerprint reason db =
     (case runTransaction (fault 2) (map_sum id snd (recordEvent cid e fingerprint (Some reason) db)) of
        Inr db' \<Rightarrow> Inr (Quarantined, db')
      | Inl f \<Rightarrow> if isRecorded fingerprint db then Inr (Duplicate, db) else Inl f)"

definition attemptEvent ::
  "('m, 'w, 's) indexerEnv \<Rightarrow> (nat \<Rightarrow> dbError option) \<Rightarrow> nat \<Rightarrow> nat \<Rightarrow> chainEvent \<Rightarrow> nat \<Rightarrow> string \<Rightarrow> onChainState option
     \<Rightarrow> database \<Rightarrow> dbError + database" where
  "attemptEvent I fault attempt cid e ord fingerprint fb db =
     runTransaction (fault attempt) (map_sum id (\<lambda>(eid, db1). applyEvent I cid e ord eid fb db1)
       (recordEvent cid e fingerprint None db))"

definition ingestEvent ::
  "('m, 'w, 's) indexerEnv \<Rightarrow> (nat \<Rightarrow> dbError option) \<Rightarrow> nat \<Rightarrow> chainEvent \<Rightarrow> nat \<Rightarrow> string \<Rightarrow> onChainState option
     \<Rightarrow> database \<Rightarrow> dbError + (ingestOutcome \<times> database)" where
  "ingestEvent I fault cid e ord fingerprint fb db = (case ceDecodeError e of
       Some err \<Rightarrow> recordFailedEvent fault cid e fingerprint (''Malformed event: '' @ err) db
     | None \<Rightarrow> (case attemptEvent I fault 0 cid e ord fingerprint fb db of
         Inr db' \<Rightarrow> Inr (Applied, db')
       | Inl f \<Rightarrow> if isRecorded fingerprint db then Inr (Duplicate, db)
           else if isTransientDbError f then Inl f
           else (case attemptEvent I fault 1 cid e ord fingerprint fb db of
             Inr db' \<Rightarrow> Inr (Applied, db')
           | Inl f' \<Rightarrow> if isRecorded fingerprint db then Inr (Duplicate, db)
               else if isTransientDbError f' then Inl f'
               else recordFailedEvent fault cid e fingerprint (describeError f') db)))"

section \<open>Synchronising a contract\<close>

datatype syncError = NetError error | DbError dbError

record network =
  netSecurity :: "string \<Rightarrow> vaultSecurityStatus result"
  netEvents :: "string \<Rightarrow> int \<Rightarrow> int \<Rightarrow> chainEvent list result"
  netOnChain :: "string \<Rightarrow> onChainState option result"
  netFault :: "string \<Rightarrow> nat \<Rightarrow> dbError option"

definition fetchSetupFallback :: "network \<Rightarrow> nat \<Rightarrow> string \<Rightarrow> database \<Rightarrow> onChainState option result" where
  "fetchSetupFallback N cid address db =
     (if cfgThreshold (latestFields cid db) \<noteq> None then Inr None else netOnChain N address)"

fun syncEvents ::
  "('m, 'w, 's) indexerEnv \<Rightarrow> network \<Rightarrow> nat \<Rightarrow> string \<Rightarrow> nat \<Rightarrow> chainEvent list \<Rightarrow> bool \<Rightarrow> database
     \<Rightarrow> (syncError + bool) \<times> database" where
  "syncEvents I N cid address seq [] ingested db = (Inr ingested, db)"
| "syncEvents I N cid address seq (e # es) ingested db =
     (let fingerprint = fingerprintEvent address e
      in if isRecorded fingerprint db then syncEvents I N cid address (Suc seq) es ingested db
         else (case (if ceType e = ''setupOwner'' then fetchSetupFallback N cid address db else Inr None) of
             Inl err \<Rightarrow> (Inl (NetError err), db)
           | Inr fb \<Rightarrow> (case ingestEvent I (netFault N fingerprint) cid e seq fingerprint fb db of
               Inl f \<Rightarrow> (Inl (DbError f), db)
             | Inr (outcome, db') \<Rightarrow> syncEvents I N cid address (Suc seq) es (ingested \<or> outcome = Applied) db')))"

definition updateContract :: "nat \<Rightarrow> (contractRow \<Rightarrow> contractRow) \<Rightarrow> database \<Rightarrow> database" where
  "updateContract cid change db = db\<lparr>dbContracts := updateRow (\<lambda>c. coId c = cid) change (dbContracts db)\<rparr>"

text \<open>The result is \<open>Inr None\<close> when the account is missing or refused.\<close>

definition syncSingleContract ::
  "('m, 'w, 's) indexerEnv \<Rightarrow> network \<Rightarrow> nat \<Rightarrow> string \<Rightarrow> int \<Rightarrow> int \<Rightarrow> bool \<Rightarrow> bool \<Rightarrow> database
     \<Rightarrow> (syncError + bool option) \<times> database" where
  "syncSingleContract I N cid address fromHeight toHeight finish readyFromStoredEvents db =
     (let readEvents = (\<lambda>db1. case netEvents N address fromHeight toHeight of
            Inl err \<Rightarrow> (Inl (NetError err), db1)
          | Inr fetched \<Rightarrow>
            (case syncEvents I N cid address 0 (orderEventsForApply (reverseEventsWithinEachTx fetched)) False db1 of
               (Inl err, db2) \<Rightarrow> (Inl err, db2)
             | (Inr ingested, db2) \<Rightarrow>
               if finish then
                 (let ready = (ingested \<or> (readyFromStoredEvents \<and>
                        list_ex (\<lambda>e. erwContractId e = Some cid \<and> erwApplyError e = None) (dbEvents db2)))
                  in (Inr (Some ingested), updateContract cid (\<lambda>c. if ready then c\<lparr>coSynced := True, coReady := True\<rparr>
                        else c\<lparr>coSynced := True\<rparr>) db2))
               else (Inr (Some ingested), db2)))
      in if (case findContract cid db of Some c \<Rightarrow> coPermissionsVerified c | None \<Rightarrow> False) then readEvents db
         else (case netSecurity N address of
             Inl err \<Rightarrow> (Inl (NetError err), db)
           | Inr security \<Rightarrow>
             if \<not> accountFound security then (Inr None, db)
             else if findContract cid db = None then (Inl (DbError (KnownRequestError ''P2025'')), db)
             else if \<not> safe security then
               (Inr None, updateContract cid (\<lambda>c. c\<lparr>coReady := False, coPermissionsVerified := False\<rparr>) db)
             else readEvents (updateContract cid (\<lambda>c. c\<lparr>coPermissionsVerified := True\<rparr>) db)))"

section \<open>Each event is ingested once and as a whole\<close>

lemma isRecorded_iff: "isRecorded fp db \<longleftrightarrow> fp \<in> erwFingerprint ` set (dbEvents db)"
  by (auto simp: isRecorded_def find_None_iff)

lemma isRecorded_cong: "dbEvents db' = dbEvents db \<Longrightarrow> isRecorded fp db' = isRecorded fp db"
  by (simp add: isRecorded_def)

text \<open>The database without the log of events and headers and without the id counter.\<close>

definition stateOf :: "database \<Rightarrow> database" where
  "stateOf db = db\<lparr>dbHeaders := [], dbEvents := [], dbNextId := 0\<rparr>"

lemma recordEvent_Inr:
  assumes "recordEvent cid e fp err db = Inr (eid, db')"
  shows "\<not> isRecorded fp db" "isRecorded x db' \<longleftrightarrow> isRecorded x db \<or> x = fp" "stateOf db' = stateOf db"
    "\<exists>row. dbEvents db' = dbEvents db @ [row] \<and> erwFingerprint row = fp \<and> erwApplyError row = err \<and>
       erwBlockHeight row = ceBlockHeight e \<and> erwContractId row = Some cid"
  using assms by (auto simp: recordEvent_def isRecorded_iff stateOf_def split: if_splits)

lemma recordFailed_Inr:
  assumes "recordFailedEvent fault cid e fp reason db = Inr (outcome, db')"
  obtains "outcome = Quarantined" "\<exists>eid. recordEvent cid e fp (Some reason) db = Inr (eid, db')"
  | "outcome = Duplicate" "db' = db" "isRecorded fp db"
  using assms
  by (cases "recordEvent cid e fp (Some reason) db")
    (auto simp: recordFailedEvent_def runTransaction_def split: option.splits if_splits)

lemma attempt_Inr:
  assumes "attemptEvent I fault i cid e ord fp fb db = Inr db'"
  shows "\<exists>eid db1. recordEvent cid e fp None db = Inr (eid, db1) \<and> db' = applyEvent I cid e ord eid fb db1"
  using assms by (cases "recordEvent cid e fp None db") (auto simp: attemptEvent_def runTransaction_def split: option.splits)

lemma ingest_cases:
  assumes "ingestEvent I fault cid e ord fp fb db = Inr (outcome, db')"
  obtains eid db1 where "outcome = Applied" "recordEvent cid e fp None db = Inr (eid, db1)" "db' = applyEvent I cid e ord eid fb db1"
    "ceDecodeError e = None"
  | reason eid where "outcome = Quarantined" "recordEvent cid e fp (Some reason) db = Inr (eid, db')"
  | "outcome = Duplicate" "db' = db" "isRecorded fp db"
  using assms
  by (auto simp: ingestEvent_def split: option.splits sum.splits if_splits dest!: attempt_Inr elim!: recordFailed_Inr)

lemma ingest_records:
  assumes "ingestEvent I fault cid e ord fp fb db = Inr (outcome, db')"
  shows "isRecorded x db' \<longleftrightarrow> isRecorded x db \<or> x = fp"
  using assms
proof (cases rule: ingest_cases)
  case (1 eid db1)
  have "dbEvents db' = dbEvents db1" using applyEvent_log [of db1 I cid e ord eid fb] 1(3) by (simp add: sameLog_def)
  then show ?thesis using recordEvent_Inr(2) [OF 1(2)] isRecorded_cong by blast
qed (auto dest: recordEvent_Inr(2))

text \<open>C29: Ingesting an event is all or nothing. It ends with the event recorded and in one of three ways:
  recorded without error and with all its changes applied, recorded once with a reason and with no other
  change than its block header, or left alone because it was recorded before. An error leaves the database
  as it was: it is transient, or no transaction could record the event at all.\<close>

theorem ingest_atomic:
  "case ingestEvent I fault cid e ord fp fb db of
     Inr (outcome, db') \<Rightarrow> isRecorded fp db' \<and>
       (case outcome of
          Applied \<Rightarrow> \<not> isRecorded fp db \<and> ceDecodeError e = None \<and>
            (\<exists>eid db1. recordEvent cid e fp None db = Inr (eid, db1) \<and> db' = applyEvent I cid e ord eid fb db1)
        | Quarantined \<Rightarrow> \<not> isRecorded fp db \<and> stateOf db' = stateOf db \<and>
            (\<exists>row reason. dbEvents db' = dbEvents db @ [row] \<and> erwFingerprint row = fp \<and> erwApplyError row = Some reason)
        | Duplicate \<Rightarrow> db' = db)
   | Inl f \<Rightarrow> \<not> isRecorded fp db \<and> (isTransientDbError f \<or> (\<exists>g. fault 2 = Some g) \<or> findContract cid db = None)"
proof (cases "ingestEvent I fault cid e ord fp fb db")
  case (Inl f)
  have failed: "\<not> isRecorded fp db \<and> (fault 2 \<noteq> None \<or> findContract cid db = None)"
    if "recordFailedEvent fault cid e fp reason db = Inl f" for reason
    using that by (auto simp: recordFailedEvent_def runTransaction_def recordEvent_def split: option.splits sum.splits if_splits)
  show ?thesis
    using Inl failed by (auto simp: ingestEvent_def split: option.splits sum.splits if_splits)
next
  case (Inr r)
  obtain outcome db' where r: "r = (outcome, db')" by (cases r)
  have i: "ingestEvent I fault cid e ord fp fb db = Inr (outcome, db')" using Inr r by simp
  have rec: "isRecorded fp db'" using ingest_records [OF i] by simp
  from i have "case outcome of
          Applied \<Rightarrow> \<not> isRecorded fp db \<and> ceDecodeError e = None \<and>
            (\<exists>eid db1. recordEvent cid e fp None db = Inr (eid, db1) \<and> db' = applyEvent I cid e ord eid fb db1)
        | Quarantined \<Rightarrow> \<not> isRecorded fp db \<and> stateOf db' = stateOf db \<and>
            (\<exists>row reason. dbEvents db' = dbEvents db @ [row] \<and> erwFingerprint row = fp \<and> erwApplyError row = Some reason)
        | Duplicate \<Rightarrow> db' = db"
  proof (cases rule: ingest_cases)
    case (1 eid db1)
    then show ?thesis using recordEvent_Inr(1) by fastforce
  next
    case (2 reason eid)
    then show ?thesis using recordEvent_Inr(1,3,4) [OF 2(2)] by auto
  qed auto
  with i rec show ?thesis by simp
qed

section \<open>Replaying changes nothing\<close>

lemma syncEvents_records:
  "syncEvents I N cid address seq es ing db = (Inr ing', db') \<Longrightarrow>
     (isRecorded x db \<longrightarrow> isRecorded x db') \<and> (\<forall>e \<in> set es. isRecorded (fingerprintEvent address e) db')"
proof (induction es arbitrary: seq ing db x)
  case (Cons e es)
  let ?fp = "fingerprintEvent address e"
  show ?case
  proof (cases "isRecorded ?fp db")
    case True
    then have s: "syncEvents I N cid address (Suc seq) es ing db = (Inr ing', db')" using Cons.prems by simp
    show ?thesis using Cons.IH [OF s] True by auto
  next
    case False
    then obtain fb outcome db1 where
      g: "ingestEvent I (netFault N ?fp) cid e seq ?fp fb db = Inr (outcome, db1)" and
      s: "syncEvents I N cid address (Suc seq) es (ing \<or> outcome = Applied) db1 = (Inr ing', db')"
      using Cons.prems by (auto simp: Let_def split: sum.splits)
    show ?thesis using Cons.IH [OF s] ingest_records [OF g] by auto
  qed
qed simp

lemma syncEvents_skip:
  "\<forall>e \<in> set es. isRecorded (fingerprintEvent address e) db \<Longrightarrow> syncEvents I N cid address seq es ing db = (Inr ing, db)"
  by (induction es arbitrary: seq) auto

text \<open>C30: Replaying events is harmless: once a batch was ingested, ingesting any of its events again, in
  any order, at any position and whatever the network and the database answer, changes no row and
  reports nothing new.\<close>

theorem replay_changes_nothing:
  assumes "syncEvents I N cid address seq es ing db = (Inr ing', db')" "set es' \<subseteq> set es"
  shows "syncEvents I N' cid address seq' es' False db' = (Inr False, db')"
  using syncEvents_records [OF assms(1)] assms(2) by (intro syncEvents_skip) blast

end
