(* ===== verification/Indexer_Keys.thy ===== *)
theory Indexer_Keys
  imports Indexer_Sync Indexer_Reorg Machines
begin

text \<open>
  The keys of the indexer's tables. Every operation on the database, in any order, keeps the unique keys
  and the references that \<open>schema.prisma\<close> declares, and the receivers of a proposal numbered from zero.
\<close>

section \<open>Well-formed databases\<close>

definition contractIds :: "database \<Rightarrow> nat list" where
  "contractIds db = map coId (dbContracts db)"

definition proposalIds :: "database \<Rightarrow> nat list" where
  "proposalIds db = map ptId (dbProposals db)"

definition proposalKeys :: "database \<Rightarrow> (nat \<times> string) list" where
  "proposalKeys db = map (\<lambda>p. (ptContractId p, ptProposalHash p)) (dbProposals db)"

definition receiverSlots :: "nat \<Rightarrow> database \<Rightarrow> nat list" where
  "receiverSlots pid db = map rtIdx (filter (\<lambda>r. rtProposalId r = pid) (dbReceivers db))"

definition contractsOk :: "database \<Rightarrow> bool" where
  "contractsOk db \<longleftrightarrow> distinct (contractIds db) \<and> distinct (map coAddress (dbContracts db)) \<and>
     (\<forall>i \<in> set (contractIds db). i < dbNextId db)"

definition proposalsOk :: "database \<Rightarrow> bool" where
  "proposalsOk db \<longleftrightarrow> distinct (proposalIds db) \<and> distinct (proposalKeys db) \<and> (\<forall>i \<in> set (proposalIds db). i < dbNextId db)"

definition votesOk :: "database \<Rightarrow> bool" where
  "votesOk db \<longleftrightarrow> distinct (map (\<lambda>a. (apProposalId a, apApprover a)) (dbApprovals db)) \<and>
     distinct (map etProposalId (dbExecutions db)) \<and> (\<forall>pid. receiverSlots pid db = [0..<length (receiverSlots pid db)])"

definition logOk :: "database \<Rightarrow> bool" where
  "logOk db \<longleftrightarrow> distinct (map erwFingerprint (dbEvents db)) \<and> distinct (map bhHeight (dbHeaders db))"

definition refsOk :: "database \<Rightarrow> bool" where
  "refsOk db \<longleftrightarrow> fst ` set (proposalKeys db) \<subseteq> set (contractIds db) \<and>
     cfContractId ` set (dbConfigs db) \<subseteq> set (contractIds db) \<and> omContractId ` set (dbMembers db) \<subseteq> set (contractIds db) \<and>
     rtProposalId ` set (dbReceivers db) \<subseteq> set (proposalIds db) \<and> apProposalId ` set (dbApprovals db) \<subseteq> set (proposalIds db) \<and>
     etProposalId ` set (dbExecutions db) \<subseteq> set (proposalIds db)"

definition dbOk :: "database \<Rightarrow> bool" where
  "dbOk db \<longleftrightarrow> contractsOk db \<and> proposalsOk db \<and> votesOk db \<and> logOk db \<and> refsOk db"

lemmas ok_defs = dbOk_def contractsOk_def proposalsOk_def votesOk_def logOk_def refsOk_def contractIds_def proposalIds_def
  proposalKeys_def receiverSlots_def

section \<open>Operations beside events\<close>

definition emptyDatabase :: database where
  "emptyDatabase = \<lparr>dbHeaders = [], dbContracts = [], dbConfigs = [], dbMembers = [], dbProposals = [], dbReceivers = [],
     dbApprovals = [], dbExecutions = [], dbEvents = [], dbCursors = [], dbNextId = 0\<rparr>"

text \<open>A discovered or subscribed contract; its address is unique.\<close>

definition trackContract :: "string \<Rightarrow> int option \<Rightarrow> bool \<Rightarrow> database \<Rightarrow> database" where
  "trackContract address discoveredAt verified db =
     (if findContractAt address db \<noteq> None then db
      else db\<lparr>dbContracts := dbContracts db @ [\<lparr>coId = dbNextId db, coAddress = address, coParent = None, coReady = False,
             coPermissionsVerified = verified, coDiscoveredAtBlock = discoveredAt, coSynced = False\<rparr>],
           dbNextId := Suc (dbNextId db)\<rparr>)"

inductive dbStep :: "('m, 'w, 's) indexerEnv \<Rightarrow> database \<Rightarrow> database \<Rightarrow> bool" for I where
  ingest: "ingestEvent I fault cid e ord fp fb db = Inr (outcome, db') \<Longrightarrow> dbStep I db db'"
| rollback: "dbStep I db (rollbackAboveFork fork lite db)"
| unsubscribe: "dbStep I db (deleteContract cid db)"
| track: "dbStep I db (trackContract address discoveredAt verified db)"
| flags: "(\<And>c. coId (change c) = coId c) \<Longrightarrow> (\<And>c. coAddress (change c) = coAddress c) \<Longrightarrow> dbStep I db (updateContract cid change db)"
| report: "(\<And>p. ptId (change p) = ptId p) \<Longrightarrow> (\<And>p. ptContractId (change p) = ptContractId p) \<Longrightarrow>
     (\<And>p. ptProposalHash (change p) = ptProposalHash p) \<Longrightarrow>
     dbStep I db (db\<lparr>dbProposals := updateRow which change (dbProposals db)\<rparr>)"
| cursor: "dbStep I db (setCursor key height db)"

section \<open>Rows\<close>

lemma map_updateRow: "(\<And>r. key (change r) = key r) \<Longrightarrow> map key (updateRow which change rows) = map key rows"
  by (simp add: updateRow_def comp_def)

lemma find_unique_None: "find which rows = None \<longleftrightarrow> (\<forall>r \<in> set rows. \<not> which r)"
  by (auto simp: find_None_iff)

lemma map_upsertRow:
  "(\<And>r. key (change r) = key r) \<Longrightarrow> map key (upsertRow which create change rows) =
     (if \<exists>r \<in> set rows. which r then map key rows else map key rows @ [key create])"
  by (auto simp: upsertRow_def map_updateRow find_unique_None)

lemma findContract_in: "findContract cid db = Some c \<Longrightarrow> cid \<in> set (contractIds db)"
  by (auto simp: findContract_def find_Some_iff contractIds_def)

lemma findProposal_in: "findProposal cid ph db = Some p \<Longrightarrow> ptId p \<in> set (proposalIds db)"
  by (auto simp: findProposal_def find_Some_iff proposalIds_def)

lemma ok_cong:
  assumes "map coId (dbContracts db') = map coId (dbContracts db)" "map coAddress (dbContracts db') = map coAddress (dbContracts db)"
    "map ptId (dbProposals db') = map ptId (dbProposals db)"
    "map (\<lambda>p. (ptContractId p, ptProposalHash p)) (dbProposals db') = map (\<lambda>p. (ptContractId p, ptProposalHash p)) (dbProposals db)"
    "dbReceivers db' = dbReceivers db" "dbApprovals db' = dbApprovals db" "dbExecutions db' = dbExecutions db"
    "dbEvents db' = dbEvents db" "dbHeaders db' = dbHeaders db" "dbConfigs db' = dbConfigs db" "dbMembers db' = dbMembers db"
    "dbNextId db \<le> dbNextId db'" "dbOk db"
  shows "dbOk db'"
proof -
  have ids: "contractIds db' = contractIds db" "proposalIds db' = proposalIds db" "proposalKeys db' = proposalKeys db"
    using assms by (simp_all add: contractIds_def proposalIds_def proposalKeys_def)
  have slots: "receiverSlots pid db' = receiverSlots pid db" for pid using assms by (simp add: receiverSlots_def)
  have less: "i < dbNextId db \<Longrightarrow> i < dbNextId db'" for i using assms(12) by simp
  have "contractsOk db'" using assms(2,13) less by (simp add: dbOk_def contractsOk_def ids)
  moreover have "proposalsOk db'" using assms(13) less by (simp add: dbOk_def proposalsOk_def ids)
  moreover have "votesOk db'" using assms(13) unfolding dbOk_def votesOk_def slots assms(6,7) by simp
  moreover have "logOk db'" using assms(13) unfolding dbOk_def logOk_def assms(8,9) by simp
  moreover have "refsOk db'" using assms(13) unfolding dbOk_def refsOk_def ids assms(5-7,10,11) by simp
  ultimately show ?thesis by (simp add: dbOk_def)
qed

lemma ok_updateProposals:
  assumes "dbOk db" "\<And>p. ptId (change p) = ptId p" "\<And>p. ptContractId (change p) = ptContractId p"
    "\<And>p. ptProposalHash (change p) = ptProposalHash p"
  shows "dbOk (db\<lparr>dbProposals := updateRow which change (dbProposals db)\<rparr>)"
  by (rule ok_cong [where db = db]) (use assms in \<open>simp_all add: map_updateRow\<close>)

lemma ok_updateContract:
  assumes "dbOk db" "\<And>c. coId (change c) = coId c" "\<And>c. coAddress (change c) = coAddress c"
  shows "dbOk (db\<lparr>dbContracts := updateRow which change (dbContracts db)\<rparr>)"
  by (rule ok_cong [where db = db]) (use assms in \<open>simp_all add: map_updateRow\<close>)

lemma ok_config:
  "dbOk db \<Longrightarrow> cid \<in> set (contractIds db) \<Longrightarrow> dbOk (appendContractConfigSnapshot cid h ord src ch db)"
  by (simp add: ok_defs appendContractConfigSnapshot_def)

lemma ok_member:
  "dbOk db \<Longrightarrow> omContractId m \<in> set (contractIds db) \<Longrightarrow> dbOk (db\<lparr>dbMembers := dbMembers db @ [m]\<rparr>)"
  by (simp add: ok_defs)

lemma ok_contract:
  assumes ok: "dbOk db" and new: "findContractAt (coAddress c) db = None" "coId c = dbNextId db"
  shows "dbOk (db\<lparr>dbContracts := dbContracts db @ [c], dbNextId := Suc (dbNextId db)\<rparr>)" (is "dbOk ?db")
proof -
  have ids: "contractIds ?db = contractIds db @ [dbNextId db]" by (simp add: contractIds_def new(2))
  have "coAddress c \<notin> coAddress ` set (dbContracts db)" using new(1) by (auto simp: findContractAt_def find_None_iff)
  then have "contractsOk ?db" using ok by (auto simp: dbOk_def contractsOk_def ids less_Suc_eq)
  moreover have "proposalsOk ?db" using ok by (auto simp: dbOk_def proposalsOk_def proposalIds_def proposalKeys_def less_Suc_eq)
  moreover have "votesOk ?db" "logOk ?db" using ok by (simp_all add: dbOk_def votesOk_def logOk_def receiverSlots_def)
  moreover have "refsOk ?db" using ok unfolding dbOk_def refsOk_def ids by (auto simp: proposalIds_def proposalKeys_def)
  ultimately show ?thesis by (simp add: dbOk_def)
qed

lemma ok_proposal:
  assumes "dbOk db" "cid \<in> set (contractIds db)" "ptId create = dbNextId db" "ptContractId create = cid" "ptProposalHash create = ph"
    "\<And>p. ptId (change p) = ptId p" "\<And>p. ptContractId (change p) = ptContractId p" "\<And>p. ptProposalHash (change p) = ptProposalHash p"
  shows "dbOk (db\<lparr>dbProposals := upsertRow (\<lambda>p. ptContractId p = cid \<and> ptProposalHash p = ph) create change (dbProposals db),
      dbNextId := Suc (dbNextId db)\<rparr>)"
proof (cases "\<exists>p \<in> set (dbProposals db). ptContractId p = cid \<and> ptProposalHash p = ph")
  case True
  show ?thesis by (rule ok_cong [where db = db]) (use assms True in \<open>simp_all add: map_upsertRow\<close>)
next
  case False
  let ?db = "db\<lparr>dbProposals := upsertRow (\<lambda>p. ptContractId p = cid \<and> ptProposalHash p = ph) create change (dbProposals db),
      dbNextId := Suc (dbNextId db)\<rparr>"
  have rows: "dbProposals ?db = dbProposals db @ [create]"
    using False by (simp add: upsertRow_def find_unique_None)
  have fresh: "dbNextId db \<notin> set (proposalIds db)" "(cid, ph) \<notin> set (proposalKeys db)"
    using assms(1) False by (auto simp: dbOk_def proposalsOk_def proposalKeys_def)
  have keys: "proposalIds ?db = proposalIds db @ [dbNextId db]" "proposalKeys ?db = proposalKeys db @ [(cid, ph)]"
    "contractIds ?db = contractIds db"
    using rows assms(3-5) by (simp_all add: proposalIds_def proposalKeys_def contractIds_def)
  have "contractsOk ?db" using assms(1) by (auto simp: dbOk_def contractsOk_def contractIds_def less_Suc_eq)
  moreover have "proposalsOk ?db" using assms(1) fresh unfolding dbOk_def proposalsOk_def keys by (auto simp: less_Suc_eq)
  moreover have "votesOk ?db" "logOk ?db" using assms(1) by (simp_all add: dbOk_def votesOk_def logOk_def receiverSlots_def)
  moreover have "refsOk ?db" using assms(1,2) unfolding dbOk_def refsOk_def keys by auto
  ultimately show ?thesis by (simp add: dbOk_def)
qed

lemma upt_snoc: "xs = [0..<length xs] \<Longrightarrow> xs @ [length xs] = [0..<length (xs @ [length xs])]"
  by (metis length_append_singleton upt_Suc_append zero_le)

lemma ok_receiver:
  assumes ok: "dbOk db" and p: "pid \<in> set (proposalIds db)"
    and r: "rtProposalId r = pid" "rtIdx r = length (filter (\<lambda>r. rtProposalId r = pid) (dbReceivers db))"
  shows "dbOk (db\<lparr>dbReceivers := dbReceivers db @ [r]\<rparr>)" (is "dbOk ?db")
proof -
  have slots: "receiverSlots q ?db = receiverSlots q db @ (if q = pid then [length (receiverSlots q db)] else [])" for q
    using r by (simp add: receiverSlots_def)
  have "receiverSlots q ?db = [0..<length (receiverSlots q ?db)]" for q
  proof -
    have "receiverSlots q db = [0..<length (receiverSlots q db)]" using ok by (simp add: dbOk_def votesOk_def)
    from this upt_snoc [OF this] show ?thesis unfolding slots by (cases "q = pid") (simp_all only: simp_thms if_True if_False append_Nil2)
  qed
  then have "votesOk ?db" using ok by (simp add: dbOk_def votesOk_def)
  moreover have "contractsOk ?db" "proposalsOk ?db" "logOk ?db"
    using ok by (simp_all add: dbOk_def contractsOk_def proposalsOk_def logOk_def contractIds_def proposalIds_def proposalKeys_def)
  moreover have "refsOk ?db"
    using ok p r(1) by (simp add: dbOk_def refsOk_def contractIds_def proposalIds_def proposalKeys_def)
  ultimately show ?thesis by (simp add: dbOk_def)
qed

lemma ok_approval:
  assumes ok: "dbOk db" and p: "pid \<in> set (proposalIds db)"
    and a: "apProposalId create = pid" "apApprover create = approver"
    and ch: "\<And>a. apProposalId (change a) = apProposalId a" "\<And>a. apApprover (change a) = apApprover a"
  shows "dbOk (db\<lparr>dbApprovals := upsertRow (\<lambda>a. apProposalId a = pid \<and> apApprover a = approver) create change (dbApprovals db)\<rparr>)"
    (is "dbOk (db\<lparr>dbApprovals := ?rows\<rparr>)")
proof -
  let ?key = "\<lambda>a. (apProposalId a, apApprover a)"
  have keys: "map ?key ?rows = (if \<exists>a \<in> set (dbApprovals db). apProposalId a = pid \<and> apApprover a = approver
      then map ?key (dbApprovals db) else map ?key (dbApprovals db) @ [(pid, approver)])"
    using map_upsertRow [of ?key change] ch a by simp
  have "distinct (map ?key ?rows)" using ok unfolding keys by (auto simp: dbOk_def votesOk_def)
  moreover have "fst ` set (map ?key ?rows) \<subseteq> set (proposalIds db)"
    using ok p unfolding keys by (auto simp: dbOk_def refsOk_def)
  then have "apProposalId ` set ?rows \<subseteq> set (proposalIds db)" by (simp add: image_image)
  ultimately show ?thesis using ok by (simp add: ok_defs)
qed

lemma ok_execution:
  assumes ok: "dbOk db" and p: "pid \<in> set (proposalIds db)"
  shows "dbOk (upsertProposalExecution pid h tx ord db)"
proof -
  let ?rows = "dbExecutions (upsertProposalExecution pid h tx ord db)"
  have keys: "map etProposalId ?rows = (if \<exists>x \<in> set (dbExecutions db). etProposalId x = pid
      then map etProposalId (dbExecutions db) else map etProposalId (dbExecutions db) @ [pid])"
    by (simp add: upsertProposalExecution_def map_upsertRow)
  have "distinct (map etProposalId ?rows)" using ok unfolding keys by (auto simp: dbOk_def votesOk_def)
  moreover have "set (map etProposalId ?rows) \<subseteq> set (proposalIds db)"
    using ok p unfolding keys by (auto simp: dbOk_def refsOk_def)
  then have "etProposalId ` set ?rows \<subseteq> set (proposalIds db)" by simp
  ultimately show ?thesis using ok by (simp add: ok_defs upsertProposalExecution_def)
qed

section \<open>Handlers\<close>

text \<open>Only the setup and the proposal of a child touch the table of contracts.\<close>

lemma contracts_same:
  "dbContracts (applySetupOwnerEvent I cid e ord src fb db) = dbContracts db"
  "dbContracts (applyApprovalEvent cid e ord db) = dbContracts db"
  "dbContracts (applyReceiverEvent I cid e db) = dbContracts db"
  "dbContracts (applyOwnerChangeEvent cid e ord src db) = dbContracts db"
  "dbContracts (applyThresholdChangeEvent cid e ord src db) = dbContracts db"
  "dbContracts (applyDelegateEvent cid e ord src db) = dbContracts db"
  "dbContracts (applyEnableChildMultiSigEvent cid e ord src db) = dbContracts db"
  "dbContracts (applyExecutionEvent I cid e ord db) = dbContracts db"
proof -
  have marked: "dbContracts (markProposalExecuted I cid e ord p f db) = dbContracts db" for p f
    by (simp add: markProposalExecuted_def upsertProposalExecution_def appendContractConfigSnapshot_def Let_def split: option.split)
  show "dbContracts (applyExecutionEvent I cid e ord db) = dbContracts db"
    unfolding applyExecutionEvent_def by (simp add: marked split: option.split)
qed (simp_all add: applySetupOwnerEvent_def applyApprovalEvent_def applyReceiverEvent_def applyOwnerChangeEvent_def
    applyThresholdChangeEvent_def applyDelegateEvent_def applyEnableChildMultiSigEvent_def appendContractConfigSnapshot_def
    Let_def split: option.split)

lemma contractIds_updateRow [simp]:
  "contractIds (db\<lparr>dbProposals := ps\<rparr>) = contractIds db" "contractIds (db\<lparr>dbMembers := ms\<rparr>) = contractIds db"
  "contractIds (upsertProposalExecution pid h tx ord db) = contractIds db"
  by (simp_all add: contractIds_def upsertProposalExecution_def)

lemma ok_setup: "dbOk db \<Longrightarrow> cid \<in> set (contractIds db) \<Longrightarrow> dbOk (applySetupEvent I cid e ord src db)"
  unfolding applySetupEvent_def Let_def
  by (intro ok_config ok_updateContract) (simp_all add: contractIds_def updateRow_def image_iff, metis)

lemma ok_setupOwner:
  assumes "dbOk db" "cid \<in> set (contractIds db)"
  shows "dbOk (applySetupOwnerEvent I cid e ord src fb db)"
  using assms
  by (auto simp: applySetupOwnerEvent_def Let_def split: option.split intro!: ok_member ok_config)

lemma ok_subscribe: "dbOk db \<Longrightarrow> dbOk (subscribeChild I cid e db)"
  by (auto simp: subscribeChild_def split: option.split intro!: ok_contract)

lemma ok_applyProposal:
  assumes "dbOk db" "cid \<in> set (contractIds db)"
  shows "dbOk (applyProposalEvent I cid e db)"
  using assms
  by (auto simp: applyProposalEvent_def Let_def proposalFromEvent_def emptyProposalRow_def split: option.split
      intro!: ok_subscribe ok_proposal)

lemma ok_applyReceiver: "dbOk db \<Longrightarrow> dbOk (applyReceiverEvent I cid e db)"
  by (auto simp: applyReceiverEvent_def Let_def split: option.split dest!: findProposal_in
      intro!: ok_updateProposals [where db = "db\<lparr>dbReceivers := rs\<rparr>" for rs, simplified] ok_receiver)

lemma ok_applyApproval: "dbOk db \<Longrightarrow> dbOk (applyApprovalEvent cid e ord db)"
  by (auto simp: applyApprovalEvent_def Let_def split: option.split dest!: findProposal_in
      intro!: ok_updateProposals [where db = "db\<lparr>dbApprovals := rs\<rparr>" for rs, simplified] ok_approval)

lemma ok_marked:
  assumes "dbOk db" "cid \<in> set (contractIds db)" "ptId p \<in> set (proposalIds db)"
  shows "dbOk (markProposalExecuted I cid e ord p consumed db)"
proof -
  have "dbOk (upsertProposalExecution (ptId p) (ceBlockHeight e) (ceTxHash e) ord db)" by (rule ok_execution [OF assms(1,3)])
  then show ?thesis using assms(2)
    by (auto simp: markProposalExecuted_def Let_def split: option.split intro!: ok_config ok_updateProposals)
qed

lemma ok_applyExecution:
  assumes "dbOk db" "cid \<in> set (contractIds db)"
  shows "dbOk (applyExecutionEvent I cid e ord db)"
  using assms by (auto simp: applyExecutionEvent_def split: option.split dest!: findProposal_in intro!: ok_marked)

lemma ok_applyOwnerChange:
  assumes "dbOk db" "cid \<in> set (contractIds db)"
  shows "dbOk (applyOwnerChangeEvent cid e ord src db)"
  using assms by (auto simp: applyOwnerChangeEvent_def Let_def split: option.split intro!: ok_member ok_config)

lemma ok_applyConfig:
  assumes "dbOk db" "cid \<in> set (contractIds db)"
  shows "dbOk (applyThresholdChangeEvent cid e ord src db)" "dbOk (applyDelegateEvent cid e ord src db)"
    "dbOk (applyEnableChildMultiSigEvent cid e ord src db)"
  using assms by (auto simp: applyThresholdChangeEvent_def applyDelegateEvent_def applyEnableChildMultiSigEvent_def
      split: option.split intro!: ok_config)

lemma ok_applyEvent:
  assumes "dbOk db" "cid \<in> set (contractIds db)"
  shows "dbOk (applyEvent I cid e ord src fb db)"
  using assms unfolding applyEvent_def
  by (simp only: ok_setup ok_setupOwner ok_applyProposal ok_applyReceiver ok_applyApproval ok_applyExecution
      ok_applyOwnerChange ok_applyConfig split: if_split) simp

section \<open>Recording, deleting and rolling back\<close>

lemma ok_record:
  assumes ok: "dbOk db" and r: "recordEvent cid e fp err db = Inr (eid, db')"
  shows "dbOk db'" "cid \<in> set (contractIds db')"
proof -
  have known: "findContract cid db \<noteq> None" and new: "fp \<notin> erwFingerprint ` set (dbEvents db)"
    using r by (auto simp: recordEvent_def isRecorded_iff split: if_splits)
  have same: "dbContracts db' = dbContracts db" "dbConfigs db' = dbConfigs db" "dbMembers db' = dbMembers db"
    "dbProposals db' = dbProposals db" "dbReceivers db' = dbReceivers db" "dbApprovals db' = dbApprovals db"
    "dbExecutions db' = dbExecutions db" "dbNextId db' = Suc (dbNextId db)"
    "map erwFingerprint (dbEvents db') = map erwFingerprint (dbEvents db) @ [fp]"
    "dbHeaders db' = (if ceBlockHash e = [] then dbHeaders db else upsertRow (\<lambda>h. bhHeight h = ceBlockHeight e)
        \<lparr>bhHeight = ceBlockHeight e, bhBlockHash = ceBlockHash e, bhParentHash = ceParentHash e\<rparr> id (dbHeaders db))"
    using r by (auto simp: recordEvent_def split: if_splits)
  have "distinct (map bhHeight (dbHeaders db'))"
    using ok by (auto simp: same map_upsertRow dbOk_def logOk_def)
  then have "logOk db'" using ok new by (simp add: dbOk_def logOk_def same)
  then show "dbOk db'" using ok by (auto simp: ok_defs same less_Suc_eq)
  show "cid \<in> set (contractIds db')" using known findContract_in by (auto simp: contractIds_def same)
qed

lemma ok_ingest:
  assumes "dbOk db" "ingestEvent I fault cid e ord fp fb db = Inr (outcome, db')"
  shows "dbOk db'"
  using assms(2)
proof (cases rule: ingest_cases)
  case (1 eid db1)
  then show ?thesis using ok_record [OF assms(1) 1(2)] ok_applyEvent by blast
next
  case (2 reason eid)
  then show ?thesis using ok_record [OF assms(1) 2(2)] by blast
qed (use assms(1) in simp)

lemma distinct_map_filter: "distinct (map f xs) \<Longrightarrow> distinct (map f (filter P xs))"
  by (simp add: distinct_map inj_on_def)

lemma ok_truncate:
  assumes "dbOk db"
  shows "dbOk (db\<lparr>dbHeaders := filter P1 (dbHeaders db), dbEvents := filter P2 (dbEvents db), dbConfigs := filter P3 (dbConfigs db),
     dbMembers := filter P4 (dbMembers db), dbExecutions := filter P5 (dbExecutions db), dbApprovals := filter P6 (dbApprovals db)\<rparr>)"
  using assms by (auto simp: ok_defs distinct_map_filter)

lemma ok_deleteProposals:
  assumes ok: "dbOk db"
  shows "dbOk (deleteProposals w db)" (is "dbOk ?db")
proof -
  let ?gone = "ptId ` set (filter w (dbProposals db))"
  have ids: "contractIds ?db = contractIds db" by (simp add: contractIds_def)
  have kept: "set (proposalIds ?db) = set (proposalIds db) - ?gone"
  proof -
    have "inj_on ptId (set (dbProposals db))" using ok by (simp add: dbOk_def proposalsOk_def proposalIds_def distinct_map)
    then show ?thesis by (auto simp: proposalIds_def dest: inj_onD)
  qed
  have rows: "dbApprovals ?db = filter (\<lambda>a. apProposalId a \<notin> ?gone) (dbApprovals db)"
    "dbReceivers ?db = filter (\<lambda>r. rtProposalId r \<notin> ?gone) (dbReceivers db)"
    "dbExecutions ?db = filter (\<lambda>x. etProposalId x \<notin> ?gone) (dbExecutions db)"
    by (simp_all add: deleteProposals_def Let_def)
  have slots: "receiverSlots pid ?db = (if pid \<in> ?gone then [] else receiverSlots pid db)" for pid
    unfolding receiverSlots_def rows by (auto simp: filter_empty_conv intro!: arg_cong [where f = "map rtIdx"] filter_cong)
  have "contractsOk ?db" using ok unfolding dbOk_def contractsOk_def ids by simp
  moreover have "proposalsOk ?db"
    using ok by (auto simp: dbOk_def proposalsOk_def proposalIds_def proposalKeys_def distinct_map_filter)
  moreover have "votesOk ?db"
  proof -
    have "receiverSlots pid ?db = [0..<length (receiverSlots pid ?db)]" for pid
    proof (cases "pid \<in> ?gone")
      case False
      have "receiverSlots pid db = [0..<length (receiverSlots pid db)]" using ok by (simp add: dbOk_def votesOk_def)
      then show ?thesis unfolding slots if_not_P [OF False] .
    qed (simp add: slots)
    then show ?thesis using ok unfolding dbOk_def votesOk_def rows by (simp add: distinct_map_filter)
  qed
  moreover have "logOk ?db" using ok by (simp add: dbOk_def logOk_def)
  moreover have "refsOk ?db"
    using ok unfolding dbOk_def refsOk_def rows kept ids by (auto simp: proposalKeys_def)
  ultimately show ?thesis by (simp add: dbOk_def)
qed

lemma ok_deleteContracts:
  assumes "dbOk db"
  shows "dbOk (deleteContracts w db)"
proof -
  define gone where "gone = coId ` set (filter w (dbContracts db))"
  define db1 where "db1 = deleteProposals (\<lambda>p. ptContractId p \<in> gone) db"
  have ok: "dbOk db1" unfolding db1_def by (rule ok_deleteProposals [OF assms])
  define db2 where "db2 = deleteContracts w db"
  have rows: "dbProposals db2 = dbProposals db1" "dbReceivers db2 = dbReceivers db1" "dbApprovals db2 = dbApprovals db1"
    "dbExecutions db2 = dbExecutions db1" "dbHeaders db2 = dbHeaders db1" "dbNextId db2 = dbNextId db1"
    "map erwFingerprint (dbEvents db2) = map erwFingerprint (dbEvents db1)"
    "dbContracts db2 = filter (\<lambda>c. \<not> w c) (dbContracts db)" "dbConfigs db2 = filter (\<lambda>r. cfContractId r \<notin> gone) (dbConfigs db1)"
    "dbMembers db2 = filter (\<lambda>m. omContractId m \<notin> gone) (dbMembers db1)" "dbContracts db1 = dbContracts db"
    by (simp_all add: db2_def deleteContracts_def Let_def gone_def db1_def)
  have "inj_on coId (set (dbContracts db))" using assms by (simp add: ok_defs distinct_map)
  then have kept: "set (contractIds db2) = set (contractIds db1) - gone"
    by (auto simp: contractIds_def rows gone_def dest: inj_onD)
  have left: "ptContractId p \<notin> gone" if "p \<in> set (dbProposals db1)" for p
    using that by (simp add: db1_def)
  have "contractsOk db2" using ok by (auto simp: dbOk_def contractsOk_def contractIds_def rows distinct_map_filter)
  moreover have "proposalsOk db2" "votesOk db2" "logOk db2"
    using ok by (simp_all add: dbOk_def proposalsOk_def votesOk_def logOk_def proposalIds_def proposalKeys_def receiverSlots_def rows)
  moreover have "refsOk db2"
  proof -
    have "fst ` set (proposalKeys db2) \<subseteq> set (contractIds db2)"
      using ok left unfolding kept by (auto simp: dbOk_def refsOk_def proposalKeys_def rows)
    moreover have "cfContractId ` set (dbConfigs db2) \<subseteq> set (contractIds db2)"
      "omContractId ` set (dbMembers db2) \<subseteq> set (contractIds db2)"
      using ok unfolding kept by (auto simp: dbOk_def refsOk_def rows)
    ultimately show ?thesis using ok by (simp add: dbOk_def refsOk_def rows proposalIds_def)
  qed
  ultimately show ?thesis by (simp add: dbOk_def db2_def)
qed

lemma ok_cursor: "dbOk db \<Longrightarrow> dbOk (setCursor key h db)"
  by (rule ok_cong [where db = db]) simp_all

lemma ok_rollback:
  assumes "dbOk db"
  shows "dbOk (rollbackAboveFork fork lite db)"
proof -
  have "dbOk (truncateRows fork db)" unfolding truncateRows_def by (intro ok_deleteProposals ok_truncate assms)
  then have "dbOk (dropLateContracts fork lite (truncateRows fork db))"
    by (simp add: dropLateContracts_def ok_deleteContracts)
  then have "dbOk (unreadyWithoutEvents (dropLateContracts fork lite (truncateRows fork db)))"
    unfolding unreadyWithoutEvents_def by (rule ok_updateContract) simp_all
  then show ?thesis by (simp add: rollback_steps ok_cursor)
qed

lemma ok_deleteContract: "dbOk db \<Longrightarrow> dbOk (deleteContract cid db)"
  unfolding deleteContract_def
  by (rule ok_deleteContracts) (auto simp: ok_defs distinct_map_filter)

lemma ok_track: "dbOk db \<Longrightarrow> dbOk (trackContract address discoveredAt verified db)"
  by (auto simp: trackContract_def intro!: ok_contract)

lemma ok_step: "dbStep I db db' \<Longrightarrow> dbOk db \<Longrightarrow> dbOk db'"
  by (induction rule: dbStep.induct)
    (auto simp: ok_rollback ok_deleteContract ok_track ok_cursor updateContract_def intro: ok_ingest ok_updateProposals ok_updateContract)

interpretation indexDb: machine "\<lambda>db. db = emptyDatabase" "dbStep I" dbOk for I
  by unfold_locales (simp_all add: ok_step, simp add: ok_defs emptyDatabase_def)

text \<open>C33: Whatever sequence of ingested events, rollbacks, subscriptions, deletions and status updates the
  database goes through, its keys stay unique and its references closed: one row per contract address,
  per proposal of a contract, per approver of a proposal and per execution, one record per event
  fingerprint and one header per height, no orphaned child row, and the receivers of every proposal
  numbered 0, 1, 2 and so on in order.\<close>

theorem database_stays_well_formed:
  assumes "(dbStep I)\<^sup>*\<^sup>* emptyDatabase db"
  shows "distinct (map coAddress (dbContracts db)) \<and>
    distinct (map (\<lambda>p. (ptContractId p, ptProposalHash p)) (dbProposals db)) \<and>
    distinct (map (\<lambda>a. (apProposalId a, apApprover a)) (dbApprovals db)) \<and>
    distinct (map etProposalId (dbExecutions db)) \<and>
    distinct (map erwFingerprint (dbEvents db)) \<and> distinct (map bhHeight (dbHeaders db)) \<and>
    ptContractId ` set (dbProposals db) \<subseteq> coId ` set (dbContracts db) \<and>
    rtProposalId ` set (dbReceivers db) \<union> apProposalId ` set (dbApprovals db) \<union> etProposalId ` set (dbExecutions db)
      \<subseteq> ptId ` set (dbProposals db) \<and>
    map rtIdx (filter (\<lambda>r. rtProposalId r = pid) (dbReceivers db)) =
      [0..<length (filter (\<lambda>r. rtProposalId r = pid) (dbReceivers db))]"
proof -
  have ok: "dbOk db" by (rule indexDb.inv_reachable [OF assms]) simp
  have "receiverSlots pid db = [0..<length (receiverSlots pid db)]" using ok by (simp add: dbOk_def votesOk_def)
  moreover have "ptContractId ` set (dbProposals db) = fst ` set (proposalKeys db)" by (simp add: proposalKeys_def image_image)
  ultimately show ?thesis using ok
    by (simp add: dbOk_def contractsOk_def proposalsOk_def votesOk_def logOk_def refsOk_def contractIds_def proposalIds_def
        receiverSlots_def proposalKeys_def)
qed

end
