(* ===== verification/Indexer_Mirror.thy ===== *)
theory Indexer_Mirror
  imports Indexer_Keys Guard_Safety
begin

text \<open>
  The indexer's configuration rows follow the contract: ingesting the events of one call brings the
  latest snapshot of the contract from the state before the call to the state after it.
\<close>

section \<open>Events of a transaction\<close>

text \<open>An event of the contract as the archive client hands it to the indexer, for a transaction \<open>tx\<close> in
  the block at height \<open>h\<close>.\<close>

definition eventAt :: "('m, 'w, 's) o1js \<Rightarrow> int \<Rightarrow> string \<Rightarrow> string \<Rightarrow> string \<Rightarrow> string option \<Rightarrow> event \<Rightarrow> chainEvent" where
  "eventAt E h bh pbh tx memo ev = \<lparr>ceType = eventType (indexEvent E (Some h) ev), cePayload = payload (indexEvent E (Some h) ev),
     ceBlockHeight = h, ceBlockHash = bh, ceParentHash = pbh, ceTxHash = Some tx, ceTxMemo = memo, ceDecodeError = None\<rparr>"

lemma eventAt_simps [simp]:
  "ceBlockHeight (eventAt E h bh pbh tx memo ev) = h" "ceTxHash (eventAt E h bh pbh tx memo ev) = Some tx"
  "ceDecodeError (eventAt E h bh pbh tx memo ev) = None" "ceType (eventAt E h bh pbh tx memo ev) = eventName ev"
  "payloadOf (eventAt E h bh pbh tx memo ev) k = jsGet (payload (indexEvent E (Some h) ev)) k"
  by (simp_all add: eventAt_def payloadOf_def eventName_index [symmetric])

section \<open>One event\<close>

definition recorded :: "nat \<Rightarrow> chainEvent \<Rightarrow> string \<Rightarrow> database \<Rightarrow> database" where
  "recorded cid e fp db = snd (projr (recordEvent cid e fp None db))"

lemma record_ok:
  assumes "findContract cid db \<noteq> None" "\<not> isRecorded fp db"
  shows "recordEvent cid e fp None db = Inr (dbNextId db, recorded cid e fp db)"
    "dbConfigs (recorded cid e fp db) = dbConfigs db" "dbContracts (recorded cid e fp db) = dbContracts db"
    "dbProposals (recorded cid e fp db) = dbProposals db"
  using assms by (cases "findContract cid db"; simp add: recorded_def recordEvent_def)+

text \<open>What the proofs carry along a batch.\<close>

definition tracked :: "nat \<Rightarrow> int \<Rightarrow> nat \<Rightarrow> database \<Rightarrow> bool" where
  "tracked cid h seq db \<longleftrightarrow> findContract cid db \<noteq> None \<and> configsBelow cid h seq db"

lemma tracked_mono: "tracked cid h n db \<Longrightarrow> n \<le> m \<Longrightarrow> tracked cid h m db"
  by (auto simp: tracked_def configsBelow_mono)

lemma tracked_recorded:
  assumes "tracked cid h seq db" "\<not> isRecorded fp db"
  shows "tracked cid h seq (recorded cid e fp db)" "latestFields cid (recorded cid e fp db) = latestFields cid db"
    "findProposal q ph (recorded cid e fp db) = findProposal q ph db"
    "findContract q (recorded cid e fp db) = findContract q db" "findContractAt ad (recorded cid e fp db) = findContractAt ad db"
proof -
  have f: "findContract cid db \<noteq> None" using assms(1) by (simp add: tracked_def)
  note r = record_ok(2-4) [OF f assms(2), of e]
  show fc: "findContract q (recorded cid e fp db) = findContract q db" for q by (simp add: findContract_def r)
  show "findContractAt ad (recorded cid e fp db) = findContractAt ad db" by (simp add: findContractAt_def r)
  show "findProposal q ph (recorded cid e fp db) = findProposal q ph db" by (simp add: findProposal_def r)
  show "latestFields cid (recorded cid e fp db) = latestFields cid db" by (rule latestFields_cong [OF r(1)])
  show "tracked cid h seq (recorded cid e fp db)"
    using assms(1) configsBelow_cong [OF r(1), of cid h seq] fc [of cid] by (simp add: tracked_def)
qed

lemma sync_fresh:
  assumes "tracked cid h seq db" "\<not> isRecorded (fingerprintEvent address e) db" "ceDecodeError e = None"
    "\<And>fp i. netFault N fp i = None" "ceType e = ''setupOwner'' \<Longrightarrow> cfgThreshold (latestFields cid db) \<noteq> None"
  shows "syncEvents I N cid address seq (e # es) ing db = syncEvents I N cid address (Suc seq) es True
     (applyEvent I cid e seq (dbNextId db) None (recorded cid e (fingerprintEvent address e) db))"
  using assms record_ok [of cid db "fingerprintEvent address e" e]
  by (auto simp: tracked_def ingestEvent_def attemptEvent_def runTransaction_def fetchSetupFallback_def Let_def)

lemma findContract_ids: "findContract cid db \<noteq> None \<longleftrightarrow> cid \<in> coId ` set (dbContracts db)"
  by (auto simp: findContract_def find_None_iff)

lemma contracts_kept_subscribe: "coId ` set (dbContracts db) \<subseteq> coId ` set (dbContracts (subscribeChild I cid e db))"
  unfolding subscribeChild_def by (auto split: option.split)

lemma contracts_kept: "coId ` set (dbContracts db) \<subseteq> coId ` set (dbContracts (applyEvent I cid e ord src fb db))"
proof -
  have init: "coId ` set (dbContracts (applySetupEvent I cid e ord src db)) = coId ` set (dbContracts db)"
  proof -
    have u: "map coId (updateRow w (coParent_update (\<lambda>_. p)) cs) = map coId cs" for w p cs by (rule map_updateRow) simp
    have "map coId (dbContracts (applySetupEvent I cid e ord src db)) = map coId (dbContracts db)"
      by (simp add: applySetupEvent_def Let_def appendContractConfigSnapshot_def u)
    then show ?thesis by (metis set_map)
  qed
  have prp: "coId ` set (dbContracts db) \<subseteq> coId ` set (dbContracts (applyProposalEvent I cid e db))"
  proof (cases "asString (payloadOf e ''proposalHash'')")
    case (Some ph)
    have "coId ` set (dbContracts db) \<subseteq> coId ` set (dbContracts (subscribeChild I cid e db'))"
      if "dbContracts db' = dbContracts db" for db'
      using contracts_kept_subscribe [of db'] that by simp
    then show ?thesis by (simp add: applyProposalEvent_def Some Let_def)
  qed (simp add: applyProposalEvent_def)
  show ?thesis unfolding applyEvent_def using prp by (simp add: init contracts_same)
qed

lemma tracked_step:
  assumes "tracked cid h seq db" "configsBelow cid h seq' (applyEvent I cid e ord src fb db)"
  shows "tracked cid h seq' (applyEvent I cid e ord src fb db)"
  using assms contracts_kept [of db I cid e ord src fb] unfolding tracked_def findContract_ids by blast

section \<open>Events that leave the configuration alone\<close>

definition quietTypes :: "string list" where
  "quietTypes = [''deployed'', ''proposal'', ''approval'', ''receiver'', ''createChild'', ''reclaimChild'',
     ''createChildConfig'', ''createChildOwner'']"

lemma quiet_apply:
  assumes "ceType e \<in> set quietTypes"
  shows "dbConfigs (applyEvent I cid e ord src fb db) = dbConfigs db"
proof -
  have sub: "dbConfigs (subscribeChild I cid e db) = dbConfigs db" for db
    by (simp add: subscribeChild_def split: option.split)
  have "dbConfigs (applyProposalEvent I cid e db) = dbConfigs db" "dbConfigs (applyApprovalEvent cid e ord db) = dbConfigs db"
    "dbConfigs (applyReceiverEvent I cid e db) = dbConfigs db"
    by (simp_all add: applyProposalEvent_def applyApprovalEvent_def applyReceiverEvent_def sub Let_def split: option.split)
  then show ?thesis using assms by (auto simp: quietTypes_def applyEvent_def)
qed

text \<open>After a setup event the owners' events are quiet as well.\<close>

lemma setupOwner_apply:
  assumes "cfgThreshold (latestFields cid db) \<noteq> None"
  shows "dbConfigs (applySetupOwnerEvent I cid e ord src fb db) = dbConfigs db"
    "dbProposals (applySetupOwnerEvent I cid e ord src fb db) = dbProposals db"
proof -
  obtain r where "getLatestConfig cid db = Some r" "cfgThreshold (cfFields r) \<noteq> None"
    using assms by (auto simp: latestFields_def noChanges_def split: option.splits)
  then have "case getLatestConfig cid (db\<lparr>dbMembers := ms\<rparr>) of Some r \<Rightarrow> cfgThreshold (cfFields r) \<noteq> None | None \<Rightarrow> False" for ms
    by (simp add: getLatestConfig_def)
  then show "dbConfigs (applySetupOwnerEvent I cid e ord src fb db) = dbConfigs db"
    "dbProposals (applySetupOwnerEvent I cid e ord src fb db) = dbProposals db"
    by (simp_all add: applySetupOwnerEvent_def Let_def split: option.split)
qed

definition calm :: "nat \<Rightarrow> database \<Rightarrow> chainEvent \<Rightarrow> bool" where
  "calm cid db e \<longleftrightarrow> ceType e \<in> set quietTypes \<or> ceType e = ''setupOwner'' \<and> cfgThreshold (latestFields cid db) \<noteq> None"

lemma calm_apply:
  assumes "calm cid db e"
  shows "dbConfigs (applyEvent I cid e ord src fb db) = dbConfigs db"
  using assms quiet_apply [of e] setupOwner_apply(1) [of cid db] by (auto simp: calm_def applyEvent_def)

lemma calm_batch:
  assumes "\<forall>e \<in> set es. calm cid db e \<and> ceDecodeError e = None" "tracked cid h seq db" "\<And>fp i. netFault N fp i = None"
  shows "\<exists>ing' db'. (\<forall>rest. syncEvents I N cid address seq (es @ rest) ing db =
      syncEvents I N cid address (seq + length es) rest ing' db') \<and>
    latestFields cid db' = latestFields cid db \<and> tracked cid h (seq + length es) db' \<and>
    (\<forall>fp. isRecorded fp db' \<longrightarrow> isRecorded fp db \<or> fp \<in> fingerprintEvent address ` set es)"
  using assms
proof (induction es arbitrary: seq ing db)
  case (Cons e es)
  let ?fp = "fingerprintEvent address e"
  have c: "calm cid db e" "ceDecodeError e = None" using Cons.prems by auto
  show ?case
  proof (cases "isRecorded ?fp db")
    case True
    have "tracked cid h (Suc seq) db" by (rule tracked_mono [OF Cons.prems(2)]) simp
    from Cons.IH [OF _ this Cons.prems(3), where ing = ing] Cons.prems(1) obtain ing' db' where
      ih: "\<forall>rest. syncEvents I N cid address (Suc seq) (es @ rest) ing db = syncEvents I N cid address (Suc seq + length es) rest ing' db'"
        "latestFields cid db' = latestFields cid db" "tracked cid h (Suc seq + length es) db'"
        "\<forall>fp. isRecorded fp db' \<longrightarrow> isRecorded fp db \<or> fp \<in> fingerprintEvent address ` set es" by auto
    then show ?thesis using True by (intro exI [of _ ing'] exI [of _ db']) auto
  next
    case False
    let ?r = "recorded cid e ?fp db"
    let ?db = "applyEvent I cid e seq (dbNextId db) None ?r"
    have lt: "latestFields cid ?r = latestFields cid db" by (rule tracked_recorded(2) [OF Cons.prems(2) False])
    have cr: "calm cid ?r x = calm cid db x" for x by (simp add: calm_def lt)
    have same: "dbConfigs ?db = dbConfigs ?r" by (rule calm_apply) (simp add: cr c)
    have l: "latestFields cid ?db = latestFields cid db" using latestFields_cong [OF same] lt by simp
    have tr: "tracked cid h seq ?r" by (rule tracked_recorded(1) [OF Cons.prems(2) False])
    have "configsBelow cid h (Suc seq) ?db"
      using tr configsBelow_cong [OF same, of cid h seq] configsBelow_mono [of cid h seq ?db "Suc seq"] by (simp add: tracked_def)
    then have t: "tracked cid h (Suc seq) ?db" by (rule tracked_step [OF tr])
    have step: "syncEvents I N cid address seq (e # xs) ing db = syncEvents I N cid address (Suc seq) xs True ?db" for xs
      using c by (intro sync_fresh [OF Cons.prems(2) False]) (auto simp: Cons.prems(3) calm_def quietTypes_def)
    have rec: "isRecorded fp ?db \<longleftrightarrow> isRecorded fp db \<or> fp = ?fp" for fp
    proof -
      have "dbEvents ?db = dbEvents ?r" using applyEvent_log [of ?r I cid e seq "dbNextId db" None] by (simp add: sameLog_def)
      then have "isRecorded fp ?db = isRecorded fp ?r" by (rule isRecorded_cong)
      also have "\<dots> \<longleftrightarrow> isRecorded fp db \<or> fp = ?fp"
        using recordEvent_Inr(2) [OF record_ok(1)] Cons.prems(2) False by (simp add: tracked_def)
      finally show ?thesis .
    qed
    have "\<forall>x \<in> set es. calm cid ?db x \<and> ceDecodeError x = None" using Cons.prems(1) by (simp add: calm_def l)
    from Cons.IH [OF this t Cons.prems(3), where ing = True] obtain ing' db' where
      ih: "\<forall>rest. syncEvents I N cid address (Suc seq) (es @ rest) True ?db = syncEvents I N cid address (Suc seq + length es) rest ing' db'"
        "latestFields cid db' = latestFields cid ?db" "tracked cid h (Suc seq + length es) db'"
        "\<forall>fp. isRecorded fp db' \<longrightarrow> isRecorded fp ?db \<or> fp \<in> fingerprintEvent address ` set es" by auto
    then show ?thesis using step rec l by (intro exI [of _ ing'] exI [of _ db']) auto
  qed
qed auto

section \<open>Events that write a snapshot\<close>

lemma snapshot_cong:
  "dbConfigs db1 = dbConfigs db \<Longrightarrow>
     dbConfigs (appendContractConfigSnapshot cid h k s ch db1) = dbConfigs (appendContractConfigSnapshot cid h k s ch db)"
  using latestFields_cong [of db1 db cid] by (simp add: appendContractConfigSnapshot_def)

lemma snapshot_step:
  assumes t: "tracked cid h seq db" and n: "\<not> isRecorded (fingerprintEvent address e) db"
    and e: "ceDecodeError e = None" "ceType e \<noteq> ''setupOwner''" and f: "\<And>fp i. netFault N fp i = None"
    and w: "dbConfigs (applyEvent I cid e seq (dbNextId db) None (recorded cid e (fingerprintEvent address e) db)) =
      dbConfigs (appendContractConfigSnapshot cid h seq s ch (recorded cid e (fingerprintEvent address e) db))"
  obtains db' where "\<And>es ing. syncEvents I N cid address seq (e # es) ing db = syncEvents I N cid address (Suc seq) es True db'"
    "latestFields cid db' = mergeConfig ch (latestFields cid db)" "tracked cid h (Suc seq) db'"
    "\<And>fp. isRecorded fp db' \<longleftrightarrow> isRecorded fp db \<or> fp = fingerprintEvent address e"
    "db' = applyEvent I cid e seq (dbNextId db) None (recorded cid e (fingerprintEvent address e) db)"
proof -
  let ?fp = "fingerprintEvent address e"
  let ?r = "recorded cid e ?fp db"
  let ?db = "applyEvent I cid e seq (dbNextId db) None ?r"
  have tr: "tracked cid h seq ?r" by (rule tracked_recorded(1) [OF t n])
  have b: "configsBelow cid h seq ?r" using tr by (simp add: tracked_def)
  have "latestFields cid ?db = latestFields cid (appendContractConfigSnapshot cid h seq s ch ?r)" by (rule latestFields_cong [OF w])
  then have l: "latestFields cid ?db = mergeConfig ch (latestFields cid db)"
    using snapshot_latest [OF b order_refl] tracked_recorded(2) [OF t n] by simp
  have "configsBelow cid h (Suc seq) ?db"
    using configsBelow_cong [OF w, of cid h "Suc seq"] snapshot_below [OF b order_refl] by simp
  then have t': "tracked cid h (Suc seq) ?db" by (rule tracked_step [OF tr])
  have step: "syncEvents I N cid address seq (e # es) ing db = syncEvents I N cid address (Suc seq) es True ?db" for es ing
    using e by (intro sync_fresh [OF t n]) (auto simp: f)
  have "dbEvents ?db = dbEvents ?r" using applyEvent_log [of ?r I cid e seq "dbNextId db" None] by (simp add: sameLog_def)
  then have r: "isRecorded fp ?db \<longleftrightarrow> isRecorded fp db \<or> fp = ?fp" for fp
    using isRecorded_cong [of ?db ?r] recordEvent_Inr(2) [OF record_ok(1) [OF _ n]] t by (simp add: tracked_def)
  from that [OF step l t' r refl] show ?thesis .
qed

text \<open>The changes an event of a call carries; \<open>n\<close> is the nonce of the executed proposal.\<close>

definition consumedBy :: "bool \<Rightarrow> int \<Rightarrow> configFields" where
  "consumedBy isLocal n = (if isLocal then noChanges\<lparr>cfgNonce := Some n\<rparr> else noChanges\<lparr>cfgParentNonce := Some n\<rparr>)"

fun carried :: "('m, 'w, 's) o1js \<Rightarrow> bool \<Rightarrow> int \<Rightarrow> event \<Rightarrow> configFields" where
  "carried E isLocal n (ExecutionEvent ph ty r) = consumedBy isLocal n"
| "carried E isLocal n (OwnerChangeEvent ph pk added num comm cn) =
     noChanges\<lparr>cfgNumOwners := Some num, cfgConfigNonce := Some cn, cfgOwnersCommitment := Some (fieldToString comm)\<rparr>"
| "carried E isLocal n (ThresholdChangeEvent ph old new cn) = noChanges\<lparr>cfgThreshold := Some new, cfgConfigNonce := Some cn\<rparr>"
| "carried E isLocal n (DelegateEvent ph pk) = noChanges\<lparr>cfgDelegate := Some (toBase58 E pk)\<rparr>"
| "carried E isLocal n (EnableChildMultiSigEvent ph pk en cn) =
     noChanges\<lparr>cfgChildMultiSigEnabled := Some (en = 1), cfgConfigNonce := Some cn\<rparr>"
| "carried E isLocal n ev = noChanges"

lemma payload_texts [simp]:
  "asString (Some (jField x)) = Some (fieldToString x)" "asString (Some (jKey E pk)) = Some (toBase58 E pk)"
  by (simp_all add: asString_def jField_def jKey_def)

lemma asNumber_field: "0 \<le> x \<Longrightarrow> asNumber (Some (jField x)) = Some x"
  using fieldToString_nonempty [of x] by (simp add: asNumber_def textNumber)

lemma writes_ownerChange:
  assumes "base58Laws E" "0 \<le> num" "0 \<le> cn"
  shows "dbConfigs (applyEvent I cid (eventAt E h bh pbh tx memo (OwnerChangeEvent ph pk added num comm cn)) k src fb db) =
    dbConfigs (appendContractConfigSnapshot cid h k (Some src) (carried E isLocal n (OwnerChangeEvent ph pk added num comm cn)) db)"
proof -
  let ?e = "eventAt E h bh pbh tx memo (OwnerChangeEvent ph pk added num comm cn)"
  have p: "asString (payloadOf ?e ''owner'') = Some (toBase58 E pk)" "asNumber (payloadOf ?e ''newNumOwners'') = Some num"
    "asNumber (payloadOf ?e ''configNonce'') = Some cn" "asString (payloadOf ?e ''newOwnersCommitment'') = Some (fieldToString comm)"
    using assms(2,3) by (simp_all add: asNumber_field)
  have "toBase58 E pk \<noteq> []" by (rule base58_nonempty [OF assms(1)])
  moreover have "ceType ?e = ''ownerChange''" by simp
  ultimately show ?thesis
    unfolding applyEvent_def applyOwnerChangeEvent_def p Let_def carried.simps eventAt_simps(1)
    by (simp add: noChanges_def) (rule snapshot_cong, simp)
qed

lemma writes_thresholdChange:
  assumes "0 \<le> new" "0 \<le> cn"
  shows "dbConfigs (applyEvent I cid (eventAt E h bh pbh tx memo (ThresholdChangeEvent ph old new cn)) k src fb db) =
    dbConfigs (appendContractConfigSnapshot cid h k (Some src) (carried E isLocal n (ThresholdChangeEvent ph old new cn)) db)"
  using assms by (simp add: applyEvent_def applyThresholdChangeEvent_def asNumber_field)

lemma writes_delegate:
  "dbConfigs (applyEvent I cid (eventAt E h bh pbh tx memo (DelegateEvent ph pk)) k src fb db) =
    dbConfigs (appendContractConfigSnapshot cid h k (Some src) (carried E isLocal n (DelegateEvent ph pk)) db)"
  by (simp add: applyEvent_def applyDelegateEvent_def)

lemma writes_enable:
  assumes "0 \<le> en" "0 \<le> cn"
  shows "dbConfigs (applyEvent I cid (eventAt E h bh pbh tx memo (EnableChildMultiSigEvent ph pk en cn)) k src fb db) =
    dbConfigs (appendContractConfigSnapshot cid h k (Some src) (carried E isLocal n (EnableChildMultiSigEvent ph pk en cn)) db)"
  using assms by (simp add: applyEvent_def applyEnableChildMultiSigEvent_def asNumber_field)

text \<open>The row of the executed proposal: under the contract itself for a local one, under its parent for a
  remote one.\<close>

definition rowIndexed :: "nat \<Rightarrow> string \<Rightarrow> bool \<Rightarrow> int \<Rightarrow> database \<Rightarrow> bool" where
  "rowIndexed cid ph isLocal n db \<longleftrightarrow>
     (if isLocal then \<exists>row. findProposal cid ph db = Some row \<and> ptNonce row = Some (fieldToString n)
      else findProposal cid ph db = None \<and> (\<exists>con pa par row. findContract cid db = Some con \<and> coParent con = Some pa \<and> pa \<noteq> [] \<and>
        findContractAt pa db = Some par \<and> findProposal (coId par) ph db = Some row \<and> ptNonce row = Some (fieldToString n)))"

lemma marked_configs:
  assumes "ptNonce row = Some (fieldToString n)" "0 \<le> n"
  shows "dbConfigs (markProposalExecuted I cid e k row consumed db) =
    dbConfigs (appendContractConfigSnapshot cid (ceBlockHeight e) k None (consumed n) db)"
  using assms unfolding markProposalExecuted_def Let_def
  by (simp add: textNumber) (rule snapshot_cong, simp add: upsertProposalExecution_def)

lemma writes_execution:
  assumes "rowIndexed cid (fieldToString ph) isLocal n db" "0 \<le> n"
  shows "dbConfigs (applyEvent I cid (eventAt E h bh pbh tx memo (ExecutionEvent ph ty r)) k src fb db) =
    dbConfigs (appendContractConfigSnapshot cid h k None (carried E isLocal n (ExecutionEvent ph ty r)) db)"
  using assms fieldToString_nonempty [of ph]
  by (cases isLocal) (auto simp: applyEvent_def applyExecutionEvent_def rowIndexed_def consumedBy_def marked_configs)

section \<open>The events of one transaction\<close>

lemma one_group:
  "\<forall>e \<in> set es. ceTxHash e = Some t \<Longrightarrow> groupEvents es = (if es = [] then [] else [(t, es)])"
  by (induction es rule: rev_induct) (auto simp: groupEvents_def groupKey_def)

lemma one_transaction:
  assumes "\<forall>e \<in> set es. ceTxHash e = Some t"
  shows "reverseEventsWithinEachTx (rev es) = es"
  using one_group [of "rev es" t] assms by (simp add: reverseEventsWithinEachTx_def)

lemma eventName_plain: "CHR '':'' \<notin> set (eventName ev)"
  by (cases ev) simp_all

lemma fingerprint_name:
  assumes "fingerprintEvent address (eventAt E h bh pbh tx memo x) = fingerprintEvent address (eventAt E h bh pbh tx memo y)"
  shows "eventName x = eventName y"
proof -
  have cut: "takeWhile (\<lambda>c. c \<noteq> CHR '':'') (eventName ev @ CHR '':'' # rest) = eventName ev" for ev rest
    using eventName_plain [of ev] by (subst takeWhile_append2) auto
  from assms obtain r r' where "eventName x @ CHR '':'' # r = eventName y @ CHR '':'' # r'"
    by (auto simp: fingerprintEvent_def)
  then show ?thesis using cut [of x r] cut [of y r'] by simp
qed

text \<open>The events that may follow an execution event.\<close>

fun follows :: "event \<Rightarrow> bool" where
  "follows (OwnerChangeEvent ph pk added num comm cn) = (0 \<le> num \<and> 0 \<le> cn)"
| "follows (ThresholdChangeEvent ph old new cn) = (0 \<le> new \<and> 0 \<le> cn)"
| "follows (DelegateEvent ph pk) = True"
| "follows (EnableChildMultiSigEvent ph pk en cn) = (0 \<le> en \<and> 0 \<le> cn)"
| "follows (ReclaimChildEvent ph pk amount) = True"
| "follows ev = False"

lemma merge_noChanges [simp]: "mergeConfig noChanges f = f"
  by (simp add: mergeConfig_def noChanges_def orElse_def)

lemma follows_step:
  assumes t: "tracked cid h seq db" and n: "\<not> isRecorded (fingerprintEvent address (eventAt E h bh pbh tx memo ev)) db"
    and f: "\<And>fp i. netFault N fp i = None" and ev: "follows ev" and E: "base58Laws E"
  obtains ing' db' where
    "\<And>es. syncEvents I N cid address seq (eventAt E h bh pbh tx memo ev # es) ing db = syncEvents I N cid address (Suc seq) es ing' db'"
    "latestFields cid db' = mergeConfig (carried E isLocal n ev) (latestFields cid db)" "tracked cid h (Suc seq) db'"
    "\<And>fp. isRecorded fp db' \<Longrightarrow> isRecorded fp db \<or> fp = fingerprintEvent address (eventAt E h bh pbh tx memo ev)"
proof (cases "\<exists>ph pk amount. ev = ReclaimChildEvent ph pk amount")
  case True
  then have "\<forall>e \<in> set [eventAt E h bh pbh tx memo ev]. calm cid db e \<and> ceDecodeError e = None"
    by (auto simp: calm_def quietTypes_def)
  from calm_batch [OF this t f, where ing = ing] obtain ing' db' where
    b: "\<forall>rest. syncEvents I N cid address seq ([eventAt E h bh pbh tx memo ev] @ rest) ing db =
        syncEvents I N cid address (seq + length [eventAt E h bh pbh tx memo ev]) rest ing' db'"
      "latestFields cid db' = latestFields cid db" "tracked cid h (seq + length [eventAt E h bh pbh tx memo ev]) db'"
      "\<forall>fp. isRecorded fp db' \<longrightarrow> isRecorded fp db \<or> fp \<in> fingerprintEvent address ` set [eventAt E h bh pbh tx memo ev]" by blast
  show ?thesis by (rule that [of ing' db']) (use b True in auto)
next
  case False
  have w: "\<exists>s. dbConfigs (applyEvent I cid (eventAt E h bh pbh tx memo ev) k src None r) =
      dbConfigs (appendContractConfigSnapshot cid h k s (carried E isLocal n ev) r)" for k src r
  proof (cases ev)
    case (OwnerChangeEvent ph pk added num comm cn)
    then show ?thesis using writes_ownerChange [OF E] ev by fastforce
  next
    case (ThresholdChangeEvent ph old new cn)
    then show ?thesis using writes_thresholdChange ev by fastforce
  next
    case (DelegateEvent ph pk)
    then show ?thesis using writes_delegate by fastforce
  next
    case (EnableChildMultiSigEvent ph pk en cn)
    then show ?thesis using writes_enable ev by fastforce
  qed (use ev False in auto)
  have ty: "ceType (eventAt E h bh pbh tx memo ev) \<noteq> ''setupOwner''" using ev by (cases ev) auto
  from w obtain s where "dbConfigs (applyEvent I cid (eventAt E h bh pbh tx memo ev) seq (dbNextId db) None
        (recorded cid (eventAt E h bh pbh tx memo ev) (fingerprintEvent address (eventAt E h bh pbh tx memo ev)) db)) =
      dbConfigs (appendContractConfigSnapshot cid h seq s (carried E isLocal n ev)
        (recorded cid (eventAt E h bh pbh tx memo ev) (fingerprintEvent address (eventAt E h bh pbh tx memo ev)) db))" by blast
  from snapshot_step [OF t n eventAt_simps(3) ty f this] obtain db' where
    "\<And>es ing. syncEvents I N cid address seq (eventAt E h bh pbh tx memo ev # es) ing db = syncEvents I N cid address (Suc seq) es True db'"
    "latestFields cid db' = mergeConfig (carried E isLocal n ev) (latestFields cid db)" "tracked cid h (Suc seq) db'"
    "\<And>fp. isRecorded fp db' \<longleftrightarrow> isRecorded fp db \<or> fp = fingerprintEvent address (eventAt E h bh pbh tx memo ev)" by blast
  then show ?thesis by (intro that [of True db']) auto
qed

definition afterEvents :: "('m, 'w, 's) o1js \<Rightarrow> bool \<Rightarrow> int \<Rightarrow> event list \<Rightarrow> configFields \<Rightarrow> configFields" where
  "afterEvents E isLocal n evs f = foldl (\<lambda>f ev. mergeConfig (carried E isLocal n ev) f) f evs"

lemma follows_batch:
  assumes "tracked cid h seq db" "\<forall>ev \<in> set evs. follows ev \<and>
      \<not> isRecorded (fingerprintEvent address (eventAt E h bh pbh tx memo ev)) db" "distinct (map eventName evs)"
    and f: "\<And>fp i. netFault N fp i = None" and E: "base58Laws E"
  shows "\<exists>ing' db'. syncEvents I N cid address seq (map (eventAt E h bh pbh tx memo) evs) ing db = (Inr ing', db') \<and>
    latestFields cid db' = afterEvents E isLocal n evs (latestFields cid db)"
  using assms(1-3)
proof (induction evs arbitrary: seq ing db)
  case (Cons ev evs)
  let ?at = "eventAt E h bh pbh tx memo"
  have ev: "\<not> isRecorded (fingerprintEvent address (?at ev)) db" "follows ev" using Cons.prems(2) by auto
  obtain ing' db' where
    s: "\<And>es. syncEvents I N cid address seq (?at ev # es) ing db = syncEvents I N cid address (Suc seq) es ing' db'"
      "latestFields cid db' = mergeConfig (carried E isLocal n ev) (latestFields cid db)" "tracked cid h (Suc seq) db'"
      "\<And>fp. isRecorded fp db' \<Longrightarrow> isRecorded fp db \<or> fp = fingerprintEvent address (?at ev)"
    using follows_step [where I = I and ing = ing and isLocal = isLocal and n = n, OF Cons.prems(1) ev(1) f ev(2) E] by blast
  have "\<not> isRecorded (fingerprintEvent address (?at x)) db'" if "x \<in> set evs" for x
    using that Cons.prems(2,3) s(4) [of "fingerprintEvent address (?at x)"] fingerprint_name [of address E h bh pbh tx memo x ev] by (auto simp: image_iff)
  then have "\<forall>x \<in> set evs. follows x \<and> \<not> isRecorded (fingerprintEvent address (?at x)) db'" using Cons.prems(2) by simp
  from Cons.IH [OF s(3) this] Cons.prems(3) show ?case by (simp add: s(1,2) afterEvents_def del: syncEvents.simps)
qed (simp add: afterEvents_def)

lemma execution_batch:
  assumes t: "tracked cid h 0 db" and row: "rowIndexed cid (fieldToString ph) isLocal n db" "0 \<le> n"
    and new: "\<forall>ev \<in> set (ExecutionEvent ph ty r # rest). \<not> isRecorded (fingerprintEvent address (eventAt E h bh pbh tx memo ev)) db"
    and rest: "\<forall>ev \<in> set rest. follows ev" "distinct (map eventName (ExecutionEvent ph ty r # rest))"
    and f: "\<And>fp i. netFault N fp i = None" and E: "base58Laws E"
  shows "\<exists>ing' db'. syncEvents I N cid address 0 (map (eventAt E h bh pbh tx memo) (ExecutionEvent ph ty r # rest)) ing db = (Inr ing', db') \<and>
    latestFields cid db' = afterEvents E isLocal n (ExecutionEvent ph ty r # rest) (latestFields cid db)"
proof -
  let ?at = "eventAt E h bh pbh tx memo"
  let ?x = "?at (ExecutionEvent ph ty r)"
  have n: "\<not> isRecorded (fingerprintEvent address ?x) db" using new by simp
  have "rowIndexed cid (fieldToString ph) isLocal n (recorded cid ?x (fingerprintEvent address ?x) db)"
    using row(1) unfolding rowIndexed_def tracked_recorded(3-5) [OF t n] .
  note w = writes_execution [OF this row(2), of I E h bh pbh tx memo ty r 0 "dbNextId db" None]
  have ty: "ceType ?x \<noteq> ''setupOwner''" by simp
  obtain db' where
    s: "\<And>es ing. syncEvents I N cid address 0 (?x # es) ing db = syncEvents I N cid address (Suc 0) es True db'"
      "latestFields cid db' = mergeConfig (carried E isLocal n (ExecutionEvent ph ty r)) (latestFields cid db)" "tracked cid h (Suc 0) db'"
      "\<And>fp. isRecorded fp db' \<longleftrightarrow> isRecorded fp db \<or> fp = fingerprintEvent address ?x"
    using snapshot_step [OF t n eventAt_simps(3) ty f w] by blast
  have "\<not> isRecorded (fingerprintEvent address (?at x)) db'" if "x \<in> set rest" for x
    using that new rest(2) s(4) fingerprint_name [of address E h bh pbh tx memo x "ExecutionEvent ph ty r"] by (auto simp: image_iff)
  then have "\<forall>x \<in> set rest. follows x \<and> \<not> isRecorded (fingerprintEvent address (?at x)) db'" using rest(1) by simp
  from follows_batch [OF s(3) this _ f E, where ing = True and isLocal = isLocal and n = n and I = I] rest(2)
  show ?thesis by (simp add: s(1,2) afterEvents_def del: syncEvents.simps carried.simps)
qed

section \<open>The configuration of a guard\<close>

text \<open>The snapshot shows the state of the guard.\<close>

definition mirrors :: "('m, 'w, 's) o1js \<Rightarrow> guard \<Rightarrow> configFields \<Rightarrow> bool" where
  "mirrors E g f \<longleftrightarrow> cfgThreshold f = Some (threshold g) \<and> cfgNumOwners f = Some (numOwners g) \<and>
     cfgNonce f = Some (nonce g) \<and> cfgParentNonce f = Some (parentNonce g) \<and> cfgConfigNonce f = Some (configNonce g) \<and>
     cfgChildMultiSigEnabled f = Some (childMultiSigEnabled g = 1) \<and>
     cfgOwnersCommitment f = Some (fieldToString (ownersCommitment g)) \<and>
     (cfgDelegate f = None \<or> cfgDelegate f = Some (toBase58 E (accDelegate g)))"

lemmas mirror_defs = mirrors_def afterEvents_def mergeConfig_def noChanges_def consumedBy_def orElse_def

definition lifecycleRank :: "event \<Rightarrow> nat" where
  "lifecycleRank ev = (case map_of EVENT_TYPE_ORDER (eventName ev) of Some n \<Rightarrow> n | None \<Rightarrow> 99)"

lemma executed_shape:
  assumes "callMethod E w a g c = Inr (g', evs, sends)" "localExecution c = Some p \<or> lifecycleExecution c = Some p" "0 < fieldOrder E"
  shows "\<exists>r. evs = ExecutionEvent (proposalHash E p) (pTxType p) r # tl evs" "\<forall>ev \<in> set (tl evs). follows ev"
    "distinct (map eventName evs)" "sorted (map lifecycleRank evs)" "0 \<le> pNonce p"
proof -
  note shape = method_defs write_defs case_prod_beta Let_def assertExecutable_Inr assertLifecycle_Inr assertParentApprovalState_Inr
  show "\<exists>r. evs = ExecutionEvent (proposalHash E p) (pTxType p) r # tl evs" using assms by (cases c) (auto simp: shape)
  show "\<forall>ev \<in> set (tl evs). follows ev" using assms by (cases c) (auto simp: shape fieldAdd_def fieldSub_def)
  show "distinct (map eventName evs)" using assms by (cases c) (auto simp: shape)
  show "sorted (map lifecycleRank evs)" using assms by (cases c) (auto simp: shape lifecycleRank_def EVENT_TYPE_ORDER_def)
  show "0 \<le> pNonce p" using assms by (cases c) (auto simp: shape fieldAdd_def)
qed

lemma local_mirrors:
  assumes "callMethod E w a g c = Inr (g', evs, sends)" "localExecution c = Some p" "mirrors E g f"
  shows "mirrors E g' (afterEvents E True (pNonce p) evs f)"
  using assms by (cases c) (auto simp: method_defs write_defs case_prod_beta Let_def assertExecutable_Inr mirror_defs)

lemma lifecycle_mirrors:
  assumes "callMethod E w a g c = Inr (g', evs, sends)" "lifecycleExecution c = Some p" "mirrors E g f"
  shows "mirrors E g' (afterEvents E False (pNonce p) evs f)"
  using assms by (cases c) (auto simp: method_defs write_defs case_prod_beta Let_def assertLifecycle_Inr mirror_defs)

lemma vote_call:
  assumes "callMethod E w a g c = Inr (g', evs, sends)" "\<not> initialises c" "localExecution c = None" "lifecycleExecution c = None"
  shows "\<forall>ev \<in> set evs. eventName ev \<in> set quietTypes" "mirrors E g f \<Longrightarrow> mirrors E g' f"
  using assms by (cases c; auto simp: method_defs case_prod_beta Let_def quietTypes_def mirrors_def emitReceiversEvent_def)+

lemma batch_order:
  assumes "sorted (map lifecycleRank evs)"
  shows "orderEventsForApply (reverseEventsWithinEachTx (rev (map (eventAt E h bh pbh tx memo) evs))) = map (eventAt E h bh pbh tx memo) evs"
proof -
  have k: "applyKey (eventAt E h bh pbh tx memo ev) = (h, lifecycleRank ev)" for ev
    by (simp add: applyKey_def eventRank_def lifecycleRank_def)
  have "sorted (map applyKey (map (eventAt E h bh pbh tx memo) evs))"
    using assms by (induction evs) (auto simp: k)
  then show ?thesis
    by (subst one_transaction [of _ tx]) (auto simp: orderEventsForApply_stable sort_key_id_if_sorted)
qed

text \<open>C39: The indexer mirrors the contract. Take a call that succeeds on an initialised guard, and the
  events it emitted as the archive delivers them, newest first, in a block above all snapshots of the
  contract. If the latest snapshot shows the guard before the call, and the proposal that the call
  executes (if any) was indexed, then the batch is ingested and the latest snapshot shows the guard after
  the call: its threshold, owner count, owners commitment, both nonces, configuration nonce and
  flag, and the delegate once one was set.\<close>

theorem indexer_mirrors_call:
  assumes E: "base58Laws E" "0 < fieldOrder E"
    and ok: "callMethod E w a g c = Inr (g', evs, sends)" "\<not> initialises c"
    and db: "findContract cid db \<noteq> None" "configsBelow cid h 0 db" "mirrors E g (latestFields cid db)"
      "list_all (\<lambda>ev. \<not> isRecorded (fingerprintEvent address (eventAt E h bh pbh tx memo ev)) db) evs"
    and row: "\<And>p. localExecution c = Some p \<Longrightarrow> rowIndexed cid (fieldToString (proposalHash E p)) True (pNonce p) db"
      "\<And>p. lifecycleExecution c = Some p \<Longrightarrow> rowIndexed cid (fieldToString (proposalHash E p)) False (pNonce p) db"
    and f: "\<And>fp i. netFault N fp i = None"
  shows "\<exists>ing db'. syncEvents I N cid address 0
      (orderEventsForApply (reverseEventsWithinEachTx (rev (map (eventAt E h bh pbh tx memo) evs)))) False db = (Inr ing, db') \<and>
    mirrors E g' (latestFields cid db')"
proof -
  let ?at = "eventAt E h bh pbh tx memo"
  have t: "tracked cid h 0 db" using db(1,2) by (simp add: tracked_def)
  have run: "\<exists>ing db'. syncEvents I N cid address 0 (orderEventsForApply (reverseEventsWithinEachTx (rev (map ?at evs)))) False db =
      (Inr ing, db') \<and> latestFields cid db' = afterEvents E isLocal (pNonce p) evs (latestFields cid db)"
    if p: "localExecution c = Some p \<or> lifecycleExecution c = Some p"
      and r: "rowIndexed cid (fieldToString (proposalHash E p)) isLocal (pNonce p) db" for p isLocal
  proof -
    note s = executed_shape [OF ok(1) p E(2)]
    obtain r where evs: "evs = ExecutionEvent (proposalHash E p) (pTxType p) r # tl evs" using s(1) ..
    have new: "\<forall>ev \<in> set (ExecutionEvent (proposalHash E p) (pTxType p) r # tl evs). \<not> isRecorded (fingerprintEvent address (?at ev)) db"
      using db(4) by (subst evs [symmetric]) (simp add: list_all_iff)
    have d: "distinct (map eventName (ExecutionEvent (proposalHash E p) (pTxType p) r # tl evs))"
      using s(3) by (subst evs [symmetric])
    from execution_batch [OF t that(2) s(5) new s(2) d f E(1), where I = I and ing = False]
    show ?thesis unfolding batch_order [OF s(4)] evs [symmetric] .
  qed
  consider p where "localExecution c = Some p" | p where "lifecycleExecution c = Some p"
    | "localExecution c = None" "lifecycleExecution c = None" by fastforce
  then show ?thesis
  proof cases
    case 1
    from run [OF disjI1 [OF 1] row(1) [OF 1]] local_mirrors [OF ok(1) 1 db(3)] show ?thesis by metis
  next
    case 2
    from run [OF disjI2 [OF 2] row(2) [OF 2]] lifecycle_mirrors [OF ok(1) 2 db(3)] show ?thesis by metis
  next
    case 3
    let ?es = "orderEventsForApply (reverseEventsWithinEachTx (rev (map ?at evs)))"
    have "set ?es = ?at ` set evs" by (subst one_transaction [of _ tx]) (auto simp: orderEventsForApply_stable)
    then have "\<forall>e \<in> set ?es. calm cid db e \<and> ceDecodeError e = None"
      using vote_call(1) [OF ok 3] by (auto simp: calm_def)
    from calm_batch [OF this t f, where I = I and ing = False and address = address] obtain ing db' where
      "\<forall>rest. syncEvents I N cid address 0 (?es @ rest) False db = syncEvents I N cid address (0 + length ?es) rest ing db'"
      "latestFields cid db' = latestFields cid db" by blast
    then show ?thesis using vote_call(2) [OF ok 3 db(3)] by (metis append_Nil2 syncEvents.simps(1))
  qed
qed

section \<open>Two executions in one block\<close>

lemma find_updateRow:
  assumes "\<And>r. P (change r) = P r"
  shows "find P (updateRow which change rows) = map_option (\<lambda>r. if which r then change r else r) (find P rows)"
  using assms by (induction rows) (auto simp: updateRow_def)

lemma rowIndexed_executed:
  assumes "rowIndexed cid ph True n db"
  shows "rowIndexed cid ph True n (applyEvent I cid (eventAt E h bh pbh tx memo (ExecutionEvent x ty r)) k src fb db)"
proof -
  have u: "rowIndexed cid ph True n db'" if "dbProposals db' = updateRow which change (dbProposals db)"
      "\<And>q. ptContractId (change q) = ptContractId q" "\<And>q. ptProposalHash (change q) = ptProposalHash q" "\<And>q. ptNonce (change q) = ptNonce q"
    for db' which change
    using assms that by (auto simp: rowIndexed_def findProposal_def find_updateRow) metis
  have m: "rowIndexed cid ph True n (markProposalExecuted I cid e k row consumed db)" for e row consumed
    unfolding markProposalExecuted_def Let_def
    by (rule u [of _ "\<lambda>q. ptId q = ptId row" "\<lambda>q. if ceTxHash e \<noteq> None \<and> ptLastExecuteTxHash row = ceTxHash e
        then q\<lparr>ptExecutionMemoHash := Some (executionMemoHashOf I e), ptLastExecuteTxHash := None, ptLastExecuteError := None\<rparr>
        else q\<lparr>ptExecutionMemoHash := Some (executionMemoHashOf I e)\<rparr>"])
      (auto simp: upsertProposalExecution_def appendContractConfigSnapshot_def split: option.split)
  show ?thesis
    using assms m by (simp add: applyEvent_def applyExecutionEvent_def split: option.split)
qed

lemma execution_step:
  assumes t: "tracked cid h seq db" and row: "rowIndexed cid (fieldToString ph) True n db" "0 \<le> n"
    and new: "\<not> isRecorded (fingerprintEvent address (eventAt E h bh pbh tx memo (ExecutionEvent ph ty r))) db"
    and f: "\<And>fp i. netFault N fp i = None"
  obtains db' where "\<forall>es ing. syncEvents I N cid address seq (eventAt E h bh pbh tx memo (ExecutionEvent ph ty r) # es) ing db =
      syncEvents I N cid address (Suc seq) es True db'"
    "latestFields cid db' = mergeConfig (consumedBy True n) (latestFields cid db)" "tracked cid h (Suc seq) db'"
    "\<forall>fp. isRecorded fp db' \<longleftrightarrow> isRecorded fp db \<or> fp = fingerprintEvent address (eventAt E h bh pbh tx memo (ExecutionEvent ph ty r))"
    "\<forall>q m. rowIndexed cid q True m db \<longrightarrow> rowIndexed cid q True m db'"
proof -
  let ?x = "eventAt E h bh pbh tx memo (ExecutionEvent ph ty r)"
  let ?r = "recorded cid ?x (fingerprintEvent address ?x) db"
  have keep: "rowIndexed cid q isLocal m ?r \<longleftrightarrow> rowIndexed cid q isLocal m db" for q isLocal m
    unfolding rowIndexed_def tracked_recorded(3-5) [OF t new] ..
  note w = writes_execution [OF iffD2 [OF keep row(1)] row(2), of I E h bh pbh tx memo ty r seq "dbNextId db" None]
  have ty: "ceType ?x \<noteq> ''setupOwner''" by simp
  obtain db' where
    s: "\<And>es ing. syncEvents I N cid address seq (?x # es) ing db = syncEvents I N cid address (Suc seq) es True db'"
      "latestFields cid db' = mergeConfig (carried E True n (ExecutionEvent ph ty r)) (latestFields cid db)" "tracked cid h (Suc seq) db'"
      "\<And>fp. isRecorded fp db' \<longleftrightarrow> isRecorded fp db \<or> fp = fingerprintEvent address ?x"
      "db' = applyEvent I cid ?x seq (dbNextId db) None ?r"
    using snapshot_step [OF t new eventAt_simps(3) ty f w] by blast
  have "rowIndexed cid q True m db'" if "rowIndexed cid q True m db" for q m
    unfolding s(5) by (rule rowIndexed_executed) (simp add: keep that)
  then show ?thesis using s by (intro that [of db']) (simp_all del: syncEvents.simps)
qed

lemma fingerprint_hash:
  assumes "fingerprintEvent address (eventAt E h bh pbh tx1 memo1 (ExecutionEvent ph1 ty1 r1)) =
    fingerprintEvent address (eventAt E h bh pbh tx2 memo2 (ExecutionEvent ph2 ty2 r2))" "length tx1 = length tx2"
  shows "tx1 = tx2"
  using assms by (simp add: fingerprintEvent_def eventAt_def)

text \<open>When two transactions of one block each execute an indexed local proposal, the latest snapshot
  ends with the nonce of the transaction that the archive lists last. The rank of both events is the same,
  so only the order of the archive's answer decides: listed against the order of execution, the indexed
  nonce falls behind the nonce of the contract.\<close>

lemma same_block_last_wins:
  assumes t: "findContract cid db \<noteq> None" "configsBelow cid h 0 db"
    and row: "rowIndexed cid (fieldToString ph1) True n1 db" "rowIndexed cid (fieldToString ph2) True n2 db" "0 \<le> n1" "0 \<le> n2"
    and tx: "tx1 \<noteq> tx2" "length tx1 = length tx2"
    and e: "e1 = eventAt E h bh pbh tx1 memo1 (ExecutionEvent ph1 ty1 r1)" "e2 = eventAt E h bh pbh tx2 memo2 (ExecutionEvent ph2 ty2 r2)"
    and new: "\<not> isRecorded (fingerprintEvent address e1) db" "\<not> isRecorded (fingerprintEvent address e2) db"
    and f: "\<And>fp i. netFault N fp i = None"
  shows "\<exists>db'. syncEvents I N cid address 0 (orderEventsForApply (reverseEventsWithinEachTx [e1, e2])) False db = (Inr True, db') \<and>
    cfgNonce (latestFields cid db') = Some n2"
proof -
  have o: "orderEventsForApply (reverseEventsWithinEachTx [e1, e2]) = [e1, e2]"
    using tx(1) by (simp add: reverseEventsWithinEachTx_def groupEvents_def groupKey_def orderEventsForApply_stable applyKey_def eventRank_def e)
  have t0: "tracked cid h 0 db" using t by (simp add: tracked_def)
  obtain db1 where s1: "\<forall>es ing. syncEvents I N cid address 0 (e1 # es) ing db = syncEvents I N cid address (Suc 0) es True db1"
      "latestFields cid db1 = mergeConfig (consumedBy True n1) (latestFields cid db)"
      "tracked cid h (Suc 0) db1" "\<forall>fp. isRecorded fp db1 \<longleftrightarrow> isRecorded fp db \<or> fp = fingerprintEvent address e1"
      "\<forall>q m. rowIndexed cid q True m db \<longrightarrow> rowIndexed cid q True m db1"
    unfolding e(1) by (rule execution_step [where I = I, OF t0 row(1,3) new(1) [unfolded e(1)] f])
  have "\<not> isRecorded (fingerprintEvent address e2) db1"
    using s1(4) new(2) tx fingerprint_hash [of address E h bh pbh tx1 memo1 ph1 ty1 r1 tx2 memo2 ph2 ty2 r2] by (auto simp: e)
  note new2 = this [unfolded e(2)]
  have row2: "rowIndexed cid (fieldToString ph2) True n2 db1" using s1(5) row(2) by blast
  obtain db2 where s2: "\<forall>es ing. syncEvents I N cid address (Suc 0) (e2 # es) ing db1 = syncEvents I N cid address (Suc (Suc 0)) es True db2"
      "latestFields cid db2 = mergeConfig (consumedBy True n2) (latestFields cid db1)"
    unfolding e(2) by (rule execution_step [where I = I, OF s1(3) row2 row(4) new2 f])
  have "syncEvents I N cid address 0 [e1, e2] False db = (Inr True, db2)" using s1(1) s2(1) by (simp del: syncEvents.simps(2))
  moreover have "cfgNonce (latestFields cid db2) = Some n2"
    by (simp add: s2(2) consumedBy_def mergeConfig_def noChanges_def orElse_def)
  ultimately show ?thesis unfolding o by blast
qed

end
