(* ===== verification/Published_Proposal.thy ===== *)
theory Published_Proposal
  imports Backend_Routes Web_Worker Indexer_Keys Indexer_Mirror
begin

text \<open>
  The way of a proposal from the contract to an owner's screen: the events of \<open>propose\<close>, the rows the indexer
  makes of them, the record the backend serves, the record the browser makes of its JSON, and the struct the
  worker rebuilds from that. The lemmas follow it step by step; the property says that the owner's worker
  rebuilds exactly the proposal that was proposed.
\<close>

section \<open>Texts of the fields\<close>

lemma asString_JStr [simp]: "asString (Some (JStr s)) = Some s"
  by (simp add: asString_def)

lemma asJsonText_jsonText [simp]: "asJsonText (Some (jsonText v)) = v"
  by (cases v) (simp_all add: asJsonText_def jsonText_def)

lemma asJsonText_JStr [simp]: "asJsonText (Some (JStr s)) = Some s"
  by (simp add: asJsonText_def)

lemma normalize_type: "webNormalizeTxType (Some (fieldToString (TxType t))) = Some t"
  by (cases t; simp only:; code_simp)

lemma normalize_destination:
  "normalizeDestination (Some (fieldToString (Destination LOCAL))) = Some ''local''"
  "normalizeDestination (Some (fieldToString (Destination REMOTE))) = Some ''remote''"
  by code_simp+

lemma web_destination:
  "webNormalizeDestination (Some ''local'') = Some LocalDestination"
  "webNormalizeDestination (Some ''remote'') = Some RemoteDestination"
  by (simp_all add: webNormalizeDestination_def)

lemma webSafePublicKey_base58:
  "base58Laws E \<Longrightarrow> onCurve E (pkX pk) \<Longrightarrow> webSafePublicKey E (Some (toBase58 E pk)) = pk"
  using base58_nonempty [of E pk] by (simp add: webSafePublicKey_def truthyText_def base58_decode)

section \<open>The row of a proposal\<close>

text \<open>The row that carries the fields of a proposal. The target address is left open: the first receiver of
  some types sets it.\<close>

definition destinationText :: "proposal \<Rightarrow> string" where
  "destinationText p = (if pDestination p = Destination REMOTE then ''remote'' else ''local'')"

definition carries :: "('m, 'w, 's) o1js \<Rightarrow> field \<Rightarrow> proposal \<Rightarrow> proposalTableRow \<Rightarrow> bool" where
  "carries E h p row \<longleftrightarrow> ptProposalHash row = fieldToString h \<and>
     ptTokenId row = Some (fieldToString (pTokenId p)) \<and> ptTxType row = Some (fieldToString (pTxType p)) \<and>
     ptData row = Some (fieldToString (pData p)) \<and> ptMemoHash row = Some (fieldToString (pMemoHash p)) \<and>
     ptNonce row = Some (fieldToString (pNonce p)) \<and> ptConfigNonce row = Some (fieldToString (pConfigNonce p)) \<and>
     ptExpirySlot row = Some (fieldToString (pExpirySlot p)) \<and> ptGuardAddress row = Some (toBase58 E (pGuardAddress p)) \<and>
     ptDestination row = Some (destinationText p) \<and>
     ptChildAccount row = (if pChildAccount p = emptyKey then None else Some (toBase58 E (pChildAccount p)))"

definition proposalEventOf :: "field \<Rightarrow> pubkey \<Rightarrow> proposal \<Rightarrow> event" where
  "proposalEventOf h proposer p = ProposalEvent h proposer (pTokenId p) (pTxType p) (pData p) (pMemoHash p) (pNonce p)
     (pConfigNonce p) (pExpirySlot p) (pGuardAddress p) (pDestination p) (pChildAccount p)"

lemma normalize_destinationText:
  "pDestination p = Destination LOCAL \<or> pDestination p = Destination REMOTE \<Longrightarrow>
   normalizeDestination (Some (fieldToString (pDestination p))) = Some (destinationText p)"
  by (auto simp: normalize_destination [simplified] destinationText_def)

lemma asNullableAddress_child:
  "base58Laws E \<Longrightarrow> asNullableAddress E (Some (toBase58 E pk)) = (if pk = emptyKey then None else Some (toBase58 E pk))"
  using base58_nonempty [of E pk] by (auto simp: asNullableAddress_def base58Laws_def)

lemma proposalFromEvent_carries:
  assumes E: "E = ieO1js I" and b58: "base58Laws E"
    and dst: "pDestination p = Destination LOCAL \<or> pDestination p = Destination REMOTE"
    and h: "ptProposalHash row = fieldToString h"
  shows "carries E h p (proposalFromEvent I (eventAt E b bh pbh tx memo (proposalEventOf h proposer p)) row)"
  using h unfolding carries_def proposalFromEvent_def
  by (simp add: proposalEventOf_def jField_def jKey_def jsGet_def E [symmetric] normalize_destinationText [OF dst]
      asNullableAddress_child [OF b58])

section \<open>Ingesting the events of a proposal\<close>

text \<open>What holds of the database once the proposal is in it, with its first receivers.\<close>

definition receiverRows :: "('m, 'w, 's) o1js \<Rightarrow> nat \<Rightarrow> receiver list \<Rightarrow> receiverTableRow list" where
  "receiverRows E pid rs = map (\<lambda>(i, r). \<lparr>rtProposalId = pid, rtIdx = i, rtAddress = toBase58 E (rAddress r),
     rtAmount = decimal (unat (rAmount r))\<rparr>) (List.enumerate 0 rs)"

definition holds ::
  "('m, 'w, 's) o1js \<Rightarrow> nat \<Rightarrow> nat \<Rightarrow> field \<Rightarrow> proposal \<Rightarrow> receiver list \<Rightarrow> contractRow \<Rightarrow> string \<Rightarrow> database \<Rightarrow> bool" where
  "holds E cid pid h p rs c address db \<longleftrightarrow>
     (\<exists>row. findProposal cid (fieldToString h) db = Some row \<and> ptId row = pid \<and> carries E h p row) \<and>
     (\<forall>q \<in> set (dbProposals db). ptId q = pid \<longrightarrow> carries E h p q) \<and>
     filter (\<lambda>r. rtProposalId r = pid) (dbReceivers db) = receiverRows E pid rs \<and>
     findContractAt address db = Some c"

lemma receiverRows_snoc:
  "receiverRows E pid (rs @ [r]) = receiverRows E pid rs @ [\<lparr>rtProposalId = pid, rtIdx = length rs,
     rtAddress = toBase58 E (rAddress r), rtAmount = decimal (unat (rAmount r))\<rparr>]"
  by (simp add: receiverRows_def enumerate_append_eq)

lemma receiverRows_length [simp]: "length (receiverRows E pid rs) = length rs"
  by (simp add: receiverRows_def)

lemma carries_toAddress: "carries E h p (q\<lparr>ptToAddress := a\<rparr>) = carries E h p q"
  "carries E h p (q\<lparr>ptLastApproveTxHash := b, ptLastApproveError := e\<rparr>) = carries E h p q"
  by (simp_all add: carries_def)

lemma find_map_same:
  "find P xs = Some x \<Longrightarrow> (\<And>y. P (f y) = P y) \<Longrightarrow> find P (map f xs) = Some (f x)"
  by (induction xs) (auto split: if_splits)

text \<open>Changing rows of the table in fields that are not signed keeps the proposal.\<close>

lemma holds_update:
  assumes "holds E cid pid h p rs c address db"
    and f: "\<And>q. ptContractId (f q) = ptContractId q" "\<And>q. ptProposalHash (f q) = ptProposalHash q" "\<And>q. ptId (f q) = ptId q"
      "\<And>q. carries E h p (f q) = carries E h p q"
    and db': "dbProposals db' = updateRow w f (dbProposals db)"
      "filter (\<lambda>r. rtProposalId r = pid) (dbReceivers db') = receiverRows E pid rs'" "dbContracts db' = dbContracts db"
  shows "holds E cid pid h p rs' c address db'"
proof -
  let ?g = "\<lambda>q. if w q then f q else q"
  obtain row where row: "findProposal cid (fieldToString h) db = Some row" "ptId row = pid" "carries E h p row"
    using assms(1) by (auto simp: holds_def)
  have "findProposal cid (fieldToString h) db' = Some (?g row)"
    using row(1) unfolding findProposal_def db'(1) updateRow_def by (rule find_map_same) (simp add: f)
  moreover have "\<forall>q \<in> set (dbProposals db'). ptId q = pid \<longrightarrow> carries E h p q"
    using assms(1) by (auto simp: holds_def db'(1) updateRow_def f)
  ultimately show ?thesis using row assms(1) db' by (auto simp: holds_def findContractAt_def f)
qed

lemma holds_receiver:
  assumes E: "E = ieO1js I" and b58: "base58Laws E" and st: "holds E cid pid h p rs c address db"
    and addr: "rAddress r \<noteq> emptyKey"
  shows "holds E cid pid h p (rs @ [r]) c address
    (applyReceiverEvent I cid (eventAt E b bh pbh tx memo (ReceiverEvent h (rAddress r) (rAmount r))) db)"
proof -
  obtain row where row: "findProposal cid (fieldToString h) db = Some row" "ptId row = pid" using st by (auto simp: holds_def)
  have ne: "toBase58 E (rAddress r) \<noteq> toBase58 E emptyKey" using b58 addr by (auto simp: base58Laws_def)
  let ?db1 = "db\<lparr>dbReceivers := dbReceivers db @ [\<lparr>rtProposalId = pid, rtIdx = length rs,
     rtAddress = toBase58 E (rAddress r), rtAmount = decimal (unat (rAmount r))\<rparr>]\<rparr>"
  have rec: "filter (\<lambda>r. rtProposalId r = pid) (dbReceivers db) = receiverRows E pid rs" using st by (simp add: holds_def)
  then have rec1: "filter (\<lambda>x. rtProposalId x = pid) (dbReceivers ?db1) = receiverRows E pid (rs @ [r])"
    by (simp add: receiverRows_snoc)
  have h1: "holds E cid pid h p (rs @ [r]) c address ?db1"
    by (rule holds_update [OF st, where f = id and w = "\<lambda>_. False", OF _ _ _ _ _ rec1]) (simp_all add: updateRow_def)
  have h2: "holds E cid pid h p (rs @ [r]) c address (?db1\<lparr>dbProposals := updateRow (\<lambda>q. ptId q = pid)
      (\<lambda>q. q\<lparr>ptToAddress := Some (toBase58 E (rAddress r))\<rparr>) (dbProposals ?db1)\<rparr>)"
    by (rule holds_update [OF h1, where f = "\<lambda>q. q\<lparr>ptToAddress := Some (toBase58 E (rAddress r))\<rparr>" and w = "\<lambda>q. ptId q = pid"])
      (use rec1 in \<open>simp_all add: carries_toAddress\<close>)
  have payload: "asString (payloadOf (eventAt E b bh pbh tx memo (ReceiverEvent h (rAddress r) (rAmount r))) ''proposalHash'') = Some (fieldToString h)"
    "asString (payloadOf (eventAt E b bh pbh tx memo (ReceiverEvent h (rAddress r) (rAmount r))) ''receiver'') = Some (toBase58 E (rAddress r))"
    "asString (payloadOf (eventAt E b bh pbh tx memo (ReceiverEvent h (rAddress r) (rAmount r))) ''amount'') = Some (decimal (unat (rAmount r)))"
    by (simp_all add: jsGet_def jField_def jKey_def jAmount_def)
  have len: "length (filter (\<lambda>r. rtProposalId r = pid) (dbReceivers db)) = length rs" by (simp add: rec)
  have amt: "decimal (unat (rAmount r)) \<noteq> []" by (metis decimal_nonempty)
  show ?thesis
    unfolding applyReceiverEvent_def payload option.case prod.case Let_def row len EMPTY_PUBLIC_KEY_def E [symmetric]
    using h1 h2 ne base58_nonempty [OF b58, of "rAddress r"] amt by (cases rs) simp_all
qed

lemma receiver_skipped:
  assumes "E = ieO1js I"
  shows "applyReceiverEvent I cid (eventAt E b bh pbh tx memo (ReceiverEvent h emptyKey a)) db = db"
  unfolding applyReceiverEvent_def
  by (simp add: jsGet_def jField_def jKey_def jAmount_def EMPTY_PUBLIC_KEY_def assms)

lemma findContractAt_append:
  "findContractAt address db = Some c \<Longrightarrow> dbContracts db' = dbContracts db @ cs \<Longrightarrow> findContractAt address db' = Some c"
proof -
  have "find P (xs @ ys) = (case find P xs of None \<Rightarrow> find P ys | Some x \<Rightarrow> Some x)" for P and xs ys :: "contractRow list"
    by (induction xs) auto
  then show "findContractAt address db = Some c \<Longrightarrow> dbContracts db' = dbContracts db @ cs \<Longrightarrow> findContractAt address db' = Some c"
    by (simp add: findContractAt_def)
qed

text \<open>A new proposal is the last row of the table.\<close>

lemma holds_proposal:
  assumes E: "E = ieO1js I" and b58: "base58Laws E" and ok: "dbOk db"
    and dst: "pDestination p = Destination LOCAL \<or> pDestination p = Destination REMOTE"
    and fresh: "findProposal cid (fieldToString h) db = None" and c: "findContractAt address db = Some c"
  shows "holds E cid (dbNextId db) h p [] c address
    (applyProposalEvent I cid (eventAt E b bh pbh tx memo (proposalEventOf h proposer p)) db)"
proof -
  let ?e = "eventAt E b bh pbh tx memo (proposalEventOf h proposer p)"
  define new where "new = proposalFromEvent I ?e (emptyProposalRow (dbNextId db) cid (fieldToString h) (asString (payloadOf ?e ''proposer'')) b)"
  have car: "carries E h p new" unfolding new_def
    by (rule proposalFromEvent_carries [OF E b58 dst]) (simp add: emptyProposalRow_def)
  have new: "ptContractId new = cid" "ptProposalHash new = fieldToString h" "ptId new = dbNextId db"
    by (simp_all add: new_def proposalFromEvent_def emptyProposalRow_def)
  have ph: "asString (payloadOf ?e ''proposalHash'') = Some (fieldToString h)" by (simp add: proposalEventOf_def jsGet_def jField_def)
  let ?db1 = "db\<lparr>dbProposals := dbProposals db @ [new], dbNextId := Suc (dbNextId db)\<rparr>"
  define db2 where "db2 = subscribeChild I cid ?e ?db1"
  have step: "applyProposalEvent I cid ?e db = db2"
    using fresh unfolding applyProposalEvent_def ph option.case Let_def upsertRow_def findProposal_def db2_def new_def by simp
  have "\<exists>cs. dbContracts (subscribeChild I cid ?e d) = dbContracts d @ cs \<and>
     dbProposals (subscribeChild I cid ?e d) = dbProposals d \<and> dbReceivers (subscribeChild I cid ?e d) = dbReceivers d" for d
    unfolding subscribeChild_def by (simp split: option.split)
  from this [of ?db1] obtain cs where sub: "dbContracts db2 = dbContracts db @ cs"
    "dbProposals db2 = dbProposals db @ [new]" "dbReceivers db2 = dbReceivers db"
    unfolding db2_def [symmetric] by auto
  have ids: "\<forall>q \<in> set (dbProposals db). ptId q < dbNextId db" using ok by (auto simp: ok_defs)
  then have "\<forall>r \<in> set (dbReceivers db). rtProposalId r < dbNextId db" using ok by (force simp: ok_defs)
  then have rec: "filter (\<lambda>r. rtProposalId r = dbNextId db) (dbReceivers db) = []" by (auto simp: filter_empty_conv)
  have "find P (xs @ [x]) = Some x" if "find P xs = None" "P x" for P and xs and x :: proposalTableRow
    using that by (induction xs) (auto split: if_splits)
  then have found: "findProposal cid (fieldToString h) db2 = Some new" using fresh new by (simp add: findProposal_def sub(2))
  have contract: "findContractAt address db2 = Some c" by (rule findContractAt_append [OF c sub(1)])
  show ?thesis unfolding step holds_def found contract sub rec using car new ids by (auto simp: receiverRows_def)
qed

lemma holds_approval:
  assumes st: "holds E cid pid h p rs c address db"
  shows "holds E cid pid h p rs c address (applyApprovalEvent cid e n db)"
proof -
  have id: "holds E cid pid h p rs c address (db\<lparr>dbApprovals := as\<rparr>)" for as
    by (rule holds_update [OF st, where f = id and w = "\<lambda>_. False"]) (use st in \<open>simp_all add: holds_def updateRow_def\<close>)
  have upd: "holds E cid pid h p rs c address (db\<lparr>dbApprovals := as, dbProposals := updateRow w
      (\<lambda>q. q\<lparr>ptLastApproveTxHash := None, ptLastApproveError := None\<rparr>) (dbProposals db)\<rparr>)" for as w
    by (rule holds_update [OF st, where f = "\<lambda>q. q\<lparr>ptLastApproveTxHash := None, ptLastApproveError := None\<rparr>" and w = w])
      (use st in \<open>simp_all add: holds_def carries_toAddress\<close>)
  show ?thesis unfolding applyApprovalEvent_def Let_def using st id upd by (simp split: option.split)
qed

section \<open>The batch of a proposal\<close>

text \<open>Recording an event touches neither proposals nor receivers nor contracts, so the next event of the batch
  is applied to a database that holds as much of the proposal.\<close>

lemma recorded_tables:
  assumes "findContract cid db \<noteq> None" "\<not> isRecorded fp db"
  shows "dbReceivers (recorded cid e fp db) = dbReceivers db" "holds E q pid h p rs c address (recorded cid e fp db) = holds E q pid h p rs c address db"
    "findProposal q ph (recorded cid e fp db) = findProposal q ph db" "findContractAt ad (recorded cid e fp db) = findContractAt ad db"
proof -
  show r: "dbReceivers (recorded cid e fp db) = dbReceivers db"
    using assms by (cases "findContract cid db"; simp add: recorded_def recordEvent_def)
  note t = record_ok(2-4) [OF assms, of e]
  show "findProposal q ph (recorded cid e fp db) = findProposal q ph db" for q ph by (simp add: findProposal_def t)
  show "findContractAt ad (recorded cid e fp db) = findContractAt ad db" for ad by (simp add: findContractAt_def t)
  show "holds E q pid h p rs c address (recorded cid e fp db) = holds E q pid h p rs c address db"
    by (simp add: holds_def findProposal_def findContractAt_def t r)
qed

text \<open>One event of the batch that was not recorded before.\<close>

lemma sync_next:
  assumes c: "findContract cid db \<noteq> None" and n: "\<not> isRecorded (fingerprintEvent address e) db"
    and e: "ceDecodeError e = None" "ceType e \<noteq> ''setupOwner''" and f: "\<And>fp i. netFault N fp i = None"
  shows "syncEvents I N cid address seq (e # es) ing db = syncEvents I N cid address (Suc seq) es True
     (applyEvent I cid e seq (dbNextId db) None (recorded cid e (fingerprintEvent address e) db))"
    "isRecorded fp (applyEvent I cid e seq (dbNextId db) None (recorded cid e (fingerprintEvent address e) db)) \<longleftrightarrow>
      isRecorded fp db \<or> fp = fingerprintEvent address e"
    "findContract cid (applyEvent I cid e seq (dbNextId db) None (recorded cid e (fingerprintEvent address e) db)) \<noteq> None"
proof -
  let ?r = "recorded cid e (fingerprintEvent address e) db"
  note r = record_ok [OF c n, of e]
  show "syncEvents I N cid address seq (e # es) ing db = syncEvents I N cid address (Suc seq) es True (applyEvent I cid e seq (dbNextId db) None ?r)"
    using n e f r(1) by (auto simp: ingestEvent_def attemptEvent_def runTransaction_def Let_def)
  have "dbEvents (applyEvent I cid e seq (dbNextId db) None ?r) = dbEvents ?r"
    using applyEvent_log [of ?r I cid e seq "dbNextId db" None] by (simp add: sameLog_def)
  then show "isRecorded fp (applyEvent I cid e seq (dbNextId db) None ?r) \<longleftrightarrow> isRecorded fp db \<or> fp = fingerprintEvent address e"
    using isRecorded_cong recordEvent_Inr(2) [OF r(1)] by metis
  have "findContract cid ?r \<noteq> None" using c by (simp add: findContract_def r(3))
  then show "findContract cid (applyEvent I cid e seq (dbNextId db) None ?r) \<noteq> None"
    using contracts_kept [of ?r I cid e seq "dbNextId db" None] unfolding findContract_ids by blast
qed

text \<open>Two receiver events with the same fingerprint have the same receiver and the same amount.\<close>

lemma escapeChar_eq: "escapeChar c @ x = escapeChar d @ y \<Longrightarrow> c = d"
proof -
  have hex: "a = b" if "hexDigit a = hexDigit b" "a < 16" "b < 16" for a b
    using that arg_cong [OF that(1), of "of_char :: char \<Rightarrow> nat"] by (auto simp: hexDigit_def digitChar_def split: if_splits)
  have two: "c = d" if "hexDigit (of_char c div 16) = hexDigit (of_char d div 16)" "hexDigit (of_char c mod 16) = hexDigit (of_char d mod 16)"
      "(of_char c :: nat) < 32" "(of_char d :: nat) < 32"
  proof -
    have "(of_char c :: nat) div 16 = of_char d div 16" "(of_char c :: nat) mod 16 = of_char d mod 16"
      using that by (auto intro!: hex)
    then have "(of_char c :: nat) = of_char d" by (metis div_mult_mod_eq)
    then show ?thesis by simp
  qed
  assume "escapeChar c @ x = escapeChar d @ y"
  then show ?thesis by (auto simp: escapeChar_def split: if_splits intro: two)
qed

lemma escapeChar_quote: "escapeChar c @ x \<noteq> CHR 0x22 # y"
  by (auto simp: escapeChar_def)

lemma quoted_eq:
  "concat (map escapeChar s) @ CHR 0x22 # x = concat (map escapeChar t) @ CHR 0x22 # y \<Longrightarrow> s = t \<and> x = y"
proof (induction s arbitrary: t)
  case Nil
  then show ?case using escapeChar_quote by (cases t) (auto, metis append_assoc)
next
  case (Cons a s)
  show ?case
  proof (cases t)
    case Nil
    then show ?thesis using Cons.prems escapeChar_quote [of a "concat (map escapeChar s) @ CHR 0x22 # x"] by simp
  next
    case (Cons b u)
    then have "escapeChar a @ (concat (map escapeChar s) @ CHR 0x22 # x) = escapeChar b @ (concat (map escapeChar u) @ CHR 0x22 # y)"
      using \<open>concat (map escapeChar (a # s)) @ CHR 0x22 # x = concat (map escapeChar t) @ CHR 0x22 # y\<close> by simp
    moreover from this have "a = b" by (rule escapeChar_eq)
    ultimately show ?thesis using Cons.IH [of u] Cons by simp
  qed
qed

abbreviation receiverEvent :: "field \<Rightarrow> receiver \<Rightarrow> event" where
  "receiverEvent h r \<equiv> ReceiverEvent h (rAddress r) (rAmount r)"

lemma fingerprint_receiver:
  assumes E: "base58Laws E"
    and eq: "fingerprintEvent address (eventAt E b bh pbh tx memo (receiverEvent h r)) = fingerprintEvent address (eventAt E b bh pbh tx memo (receiverEvent h r'))"
  shows "r = r'"
proof -
  have "concat (map escapeChar (toBase58 E (rAddress r))) @ CHR 0x22 # '','' @ quoteText ''amount'' @ '':'' @ quoteText (decimal (unat (rAmount r))) @ ''}'' =
    concat (map escapeChar (toBase58 E (rAddress r'))) @ CHR 0x22 # '','' @ quoteText ''amount'' @ '':'' @ quoteText (decimal (unat (rAmount r'))) @ ''}''"
    using eq by (simp add: fingerprintEvent_def eventAt_def jField_def jKey_def jAmount_def quoteText_def)
  from quoted_eq [OF this] have a: "toBase58 E (rAddress r) = toBase58 E (rAddress r')"
    and q: "quoteText (decimal (unat (rAmount r))) @ ''}'' = quoteText (decimal (unat (rAmount r'))) @ ''}''" by simp_all
  have "decimal (unat (rAmount r)) = decimal (unat (rAmount r'))"
    using q quoted_eq [of "decimal (unat (rAmount r))" "''}''" "decimal (unat (rAmount r'))" "''}''"] by (simp add: quoteText_def)
  then have "unat (rAmount r) = unat (rAmount r')" by (metis parseDecimal_decimal)
  then have "rAmount r = rAmount r'" by (simp add: word_unat_eq_iff)
  moreover have "rAddress r = rAddress r'" using a base58_inj [OF E] by blast
  ultimately show ?thesis by simp
qed

lemma sync_receivers:
  assumes E: "E = ieO1js I" and b58: "base58Laws E" and f: "\<And>fp i. netFault N fp i = None"
  shows "holds E cid pid h p rs c address db \<Longrightarrow> findContract cid db \<noteq> None \<Longrightarrow> distinct live \<Longrightarrow>
    \<forall>r \<in> set live. rAddress r \<noteq> emptyKey \<and> \<not> isRecorded (fingerprintEvent address (eventAt E b bh pbh tx memo (receiverEvent h r))) db \<Longrightarrow>
    \<exists>seq' ing' db'. syncEvents I N cid address seq (map (\<lambda>r. eventAt E b bh pbh tx memo (receiverEvent h r)) live @ es) ing db =
        syncEvents I N cid address seq' es ing' db' \<and>
      holds E cid pid h p (rs @ live) c address db' \<and> findContract cid db' \<noteq> None"
proof (induction live arbitrary: rs db seq ing)
  case (Cons r live)
  let ?at = "\<lambda>r. eventAt E b bh pbh tx memo (receiverEvent h r)"
  let ?fp = "\<lambda>r. fingerprintEvent address (?at r)"
  let ?r = "recorded cid (?at r) (?fp r) db"
  let ?db = "applyEvent I cid (?at r) seq (dbNextId db) None ?r"
  have r: "rAddress r \<noteq> emptyKey" "\<not> isRecorded (?fp r) db" using Cons.prems(4) by simp_all
  have ty: "ceType (?at r) \<noteq> ''setupOwner''" by simp
  note n = sync_next [where I = I and seq = seq, OF Cons.prems(2) r(2) eventAt_simps(3) ty f]
  have "?db = applyReceiverEvent I cid (?at r) ?r" by (simp add: applyEvent_def)
  moreover have "holds E cid pid h p rs c address ?r" using Cons.prems(1) by (simp add: recorded_tables(2) [OF Cons.prems(2) r(2)])
  ultimately have h: "holds E cid pid h p (rs @ [r]) c address ?db" using holds_receiver [OF E b58 _ r(1)] by simp
  have "\<not> isRecorded (?fp x) ?db" if "x \<in> set live" for x
    using that Cons.prems(3,4) fingerprint_receiver [OF b58, of address b bh pbh tx memo h x r] by (auto simp: n(2))
  then have "\<forall>x \<in> set live. rAddress x \<noteq> emptyKey \<and> \<not> isRecorded (?fp x) ?db" using Cons.prems(4) by simp
  from Cons.IH [OF h n(3) _ this, of "Suc seq" True] Cons.prems(3) show ?case by (simp add: n(1) del: syncEvents.simps)
qed (simp, blast)

lemma sync_empties:
  assumes E: "E = ieO1js I" and f: "\<And>fp i. netFault N fp i = None"
  shows "holds E cid pid h p rs c address db \<Longrightarrow> findContract cid db \<noteq> None \<Longrightarrow>
    \<exists>ing' db'. syncEvents I N cid address seq (map (\<lambda>_. eventAt E b bh pbh tx memo (ReceiverEvent h emptyKey 0)) xs) ing db = (Inr ing', db') \<and>
      holds E cid pid h p rs c address db'"
proof (induction xs arbitrary: db seq ing)
  case (Cons x xs)
  let ?e = "eventAt E b bh pbh tx memo (ReceiverEvent h emptyKey 0)"
  show ?case
  proof (cases "isRecorded (fingerprintEvent address ?e) db")
    case True
    then show ?thesis using Cons.IH [OF Cons.prems] by simp
  next
    case False
    have ty: "ceType ?e \<noteq> ''setupOwner''" by simp
    note n = sync_next [where I = I and seq = seq, OF Cons.prems(2) False eventAt_simps(3) ty f]
    let ?r = "recorded cid ?e (fingerprintEvent address ?e) db"
    have a: "applyEvent I cid ?e seq (dbNextId db) None ?r = ?r" by (simp add: applyEvent_def receiver_skipped [OF E])
    have "holds E cid pid h p rs c address ?r" using Cons.prems(1) by (simp add: recorded_tables(2) [OF Cons.prems(2) False])
    from Cons.IH [OF this n(3) [unfolded a], of "Suc seq" True] show ?thesis using n(1) unfolding a by (simp del: syncEvents.simps)
  qed
qed simp

text \<open>The events of \<open>propose\<close> in the order in which they are applied: the approval comes before the receivers.\<close>

lemma proposal_order:
  fixes P A :: event
  assumes "eventName P = ''proposal''" "eventName A = ''approval''" "\<forall>ev \<in> set rs. eventName ev = ''receiver''"
  shows "orderEventsForApply (reverseEventsWithinEachTx (rev (map (eventAt E b bh pbh tx memo) (P # rs @ [A])))) =
    map (eventAt E b bh pbh tx memo) (P # A # rs)"
proof -
  let ?at = "eventAt E b bh pbh tx memo"
  have k: "applyKey (?at P) = (b, 3)" "applyKey (?at A) = (b, 4)" "\<And>ev. ev \<in> set rs \<Longrightarrow> applyKey (?at ev) = (b, 5)"
    using assms by (simp_all add: applyKey_def eventRank_def EVENT_TYPE_ORDER_def)
  have "sort_key applyKey (map ?at (P # rs @ [A])) = map ?at (P # A # rs)"
  proof (rule properties_for_sort_key)
    show "sorted (map applyKey (map ?at (P # A # rs)))"
      using k by (auto simp: sorted_wrt_map intro: sorted_wrt_mono_rel [of _ "\<lambda>_ _. True"])
    fix e assume "e \<in> set (map ?at (P # A # rs))"
    have none: "filter (\<lambda>x. (b, 3) = applyKey x) (map ?at rs) = []" "filter (\<lambda>x. (b, 4) = applyKey x) (map ?at rs) = []"
      using k(3) by (auto simp: filter_empty_conv)
    have all: "filter (\<lambda>x. (b, 5) = applyKey x) (map ?at rs) = map ?at rs" using k(3) by (auto intro: filter_True)
    from \<open>e \<in> set (map ?at (P # A # rs))\<close> consider "applyKey e = (b, 3)" | "applyKey e = (b, 4)" | "applyKey e = (b, 5)" using k by auto
    then show "filter (\<lambda>x. applyKey e = applyKey x) (map ?at (P # A # rs)) = filter (\<lambda>x. applyKey e = applyKey x) (map ?at (P # rs @ [A]))"
      by cases (simp_all add: k none all)
  qed simp
  then show ?thesis by (subst one_transaction [of _ tx]) (auto simp: orderEventsForApply_stable)
qed

lemma sync_published:
  assumes E: "E = ieO1js I" and b58: "base58Laws E" and ok: "dbOk db"
    and dst: "pDestination p = Destination LOCAL \<or> pDestination p = Destination REMOTE"
    and fresh: "findProposal cid (fieldToString h) db = None" and c: "findContractAt address db = Some c" "findContract cid db \<noteq> None"
    and rs: "pReceivers p = live @ replicate n emptyReceiver" "\<forall>r \<in> set live. rAddress r \<noteq> emptyKey" "distinct live"
    and evs: "evs = [proposalEventOf h proposer p] @ emitReceiversEvent p h @ [ApprovalEvent h pk k ar nr]"
    and new: "list_all (\<lambda>ev. \<not> isRecorded (fingerprintEvent address (eventAt E b bh pbh tx memo ev)) db) evs"
    and f: "\<And>fp i. netFault N fp i = None"
  shows "\<exists>ing db' pid. syncEvents I N cid address 0
      (orderEventsForApply (reverseEventsWithinEachTx (rev (map (eventAt E b bh pbh tx memo) evs)))) False db = (Inr ing, db') \<and>
    holds E cid pid h p live c address db'"
proof -
  let ?at = "eventAt E b bh pbh tx memo"
  let ?fp = "\<lambda>ev. fingerprintEvent address (?at ev)"
  let ?P = "proposalEventOf h proposer p" and ?A = "ApprovalEvent h pk k ar nr"
  have "map (\<lambda>r. ReceiverEvent h (rAddress r) (if rAddress r = emptyKey then 0 else rAmount r)) live = map (receiverEvent h) live"
    using rs(2) by auto
  then have recs: "emitReceiversEvent p h = map (receiverEvent h) live @ map (\<lambda>_. ReceiverEvent h emptyKey 0) [0..<n]"
    by (simp add: emitReceiversEvent_def Let_def rs(1) emptyReceiver_def map_replicate_const)
  have names: "eventName ?P = ''proposal''" "eventName ?A = ''approval''" "\<forall>ev \<in> set (emitReceiversEvent p h). eventName ev = ''receiver''"
    by (auto simp: proposalEventOf_def emitReceiversEvent_def Let_def)
  have order: "orderEventsForApply (reverseEventsWithinEachTx (rev (map ?at evs))) =
      ?at ?P # ?at ?A # map (\<lambda>r. ?at (receiverEvent h r)) live @ map (\<lambda>_. ?at (ReceiverEvent h emptyKey 0)) [0..<n]"
    using proposal_order [OF names] by (simp add: evs recs o_def)
  have new: "\<not> isRecorded (?fp ?P) db" "\<not> isRecorded (?fp ?A) db" "\<And>r. r \<in> set live \<Longrightarrow> \<not> isRecorded (?fp (receiverEvent h r)) db"
    using new by (auto simp: evs recs list_all_iff)
  have ty: "ceType (?at ?P) \<noteq> ''setupOwner''" "ceType (?at ?A) \<noteq> ''setupOwner''" by (simp_all add: names)
  let ?r1 = "recorded cid (?at ?P) (?fp ?P) db"
  let ?db1 = "applyEvent I cid (?at ?P) 0 (dbNextId db) None ?r1"
  note n1 = sync_next [where I = I and seq = 0, OF c(2) new(1) eventAt_simps(3) ty(1) f]
  have "dbOk ?r1" by (rule ok_record [OF ok record_ok(1) [OF c(2) new(1)]])
  then have "holds E cid (dbNextId ?r1) h p [] c address (applyProposalEvent I cid (?at ?P) ?r1)"
    using fresh c(1) by (intro holds_proposal [OF E b58 _ dst]) (simp_all add: recorded_tables(3,4) [OF c(2) new(1)])
  moreover have "?db1 = applyProposalEvent I cid (?at ?P) ?r1" by (simp add: applyEvent_def names)
  ultimately have h1: "holds E cid (dbNextId ?r1) h p [] c address ?db1" by simp
  have new2: "\<not> isRecorded (?fp ?A) ?db1" using new(2) fingerprint_name [of address E b bh pbh tx memo ?A ?P] names by (auto simp: n1(2))
  let ?r2 = "recorded cid (?at ?A) (?fp ?A) ?db1"
  let ?db2 = "applyEvent I cid (?at ?A) (Suc 0) (dbNextId ?db1) None ?r2"
  note n2 = sync_next [where I = I and seq = "Suc 0", OF n1(3) new2 eventAt_simps(3) ty(2) f]
  have "?db2 = applyApprovalEvent cid (?at ?A) (Suc 0) ?r2" by (simp add: applyEvent_def)
  then have h2: "holds E cid (dbNextId ?r1) h p [] c address ?db2"
    using h1 by (simp add: holds_approval recorded_tables(2) [OF n1(3) new2])
  have "\<not> isRecorded (?fp (receiverEvent h r)) ?db2" if "r \<in> set live" for r
    using new(3) [OF that] names fingerprint_name [of address E b bh pbh tx memo "receiverEvent h r" ?A]
      fingerprint_name [of address E b bh pbh tx memo "receiverEvent h r" ?P] by (auto simp: n1(2) n2(2))
  then have "\<forall>r \<in> set live. rAddress r \<noteq> emptyKey \<and> \<not> isRecorded (?fp (receiverEvent h r)) ?db2" using rs(2) by blast
  from sync_receivers [OF E b58 f h2 n2(3) rs(3) this, of "Suc (Suc 0)" "map (\<lambda>_. ?at (ReceiverEvent h emptyKey 0)) [0..<n]" True]
  obtain seq' ing' db' where
    r: "syncEvents I N cid address (Suc (Suc 0)) (map (\<lambda>r. ?at (receiverEvent h r)) live @ map (\<lambda>_. ?at (ReceiverEvent h emptyKey 0)) [0..<n]) True ?db2 =
        syncEvents I N cid address seq' (map (\<lambda>_. ?at (ReceiverEvent h emptyKey 0)) [0..<n]) ing' db'"
      "holds E cid (dbNextId ?r1) h p ([] @ live) c address db'" "findContract cid db' \<noteq> None" by blast
  obtain ing'' db'' where
    "syncEvents I N cid address seq' (map (\<lambda>_. ?at (ReceiverEvent h emptyKey 0)) [0..<n]) ing' db' = (Inr ing'', db'')"
    "holds E cid (dbNextId ?r1) h p ([] @ live) c address db''"
    using sync_empties [OF E f r(2,3)] by blast
  then show ?thesis unfolding order n1(1) n2(1) r(1) by auto
qed

section \<open>Reading the record in the browser\<close>

lemma proposalJson_get:
  "jsGet (proposalJson d s) ''proposalHash'' = Some (JStr (rowProposalHash (spRow s)))"
  "jsGet (proposalJson d s) ''tokenId'' = Some (jsonText (rowTokenId (spRow s)))"
  "jsGet (proposalJson d s) ''txType'' = Some (jsonText (rowTxType (spRow s)))"
  "jsGet (proposalJson d s) ''data'' = Some (jsonText (rowData (spRow s)))"
  "jsGet (proposalJson d s) ''nonce'' = Some (jsonText (rowNonce (spRow s)))"
  "jsGet (proposalJson d s) ''configNonce'' = Some (jsonText (rowConfigNonce (spRow s)))"
  "jsGet (proposalJson d s) ''expirySlot'' = Some (jsonText (rowExpirySlot (spRow s)))"
  "jsGet (proposalJson d s) ''guardAddress'' = Some (jsonText (rowGuardAddress (spRow s)))"
  "jsGet (proposalJson d s) ''memo'' = Some (jsonText (rowMemo (spRow s)))"
  "jsGet (proposalJson d s) ''memoHash'' = Some (jsonText (rowMemoHash (spRow s)))"
  "jsGet (proposalJson d s) ''destination'' = Some (jsonText (rowDestination (spRow s)))"
  "jsGet (proposalJson d s) ''childAccount'' = Some (jsonText (rowChildAccount (spRow s)))"
  "jsGet (proposalJson d s) ''receivers'' = Some (JArr (map receiverJson (spReceivers s)))"
  by (simp_all add: proposalJson_def jsGet_def Let_def)

lemma asReceivers_json:
  "asReceivers (Some (JArr (map receiverJson rs))) = map (\<lambda>r. \<lparr>urIndex = rrIdx r, urAddress = rrAddress r, urAmount = rrAmount r\<rparr>) rs"
proof -
  have "map (\<lambda>(index, item). \<lparr>urIndex = orDefault (asNullableNumber (jsGet item ''index'')) (int index),
      urAddress = orDefault (asJsonText (jsGet item ''address'')) '''',
      urAmount = orDefault (asJsonText (jsGet item ''amount'')) ''0''\<rparr>) (List.enumerate k (map receiverJson rs)) =
    map (\<lambda>r. \<lparr>urIndex = rrIdx r, urAddress = rrAddress r, urAmount = rrAmount r\<rparr>) rs" for k
    by (induction rs arbitrary: k) (simp_all add: receiverJson_def jsGet_def asNullableNumber_def)
  then show ?thesis by (simp add: asReceivers_def)
qed

text \<open>The record the backend serves: the row, with the receivers in their order.\<close>

definition receiverTexts :: "('m, 'w, 's) o1js \<Rightarrow> receiver list \<Rightarrow> (string \<times> string) list" where
  "receiverTexts E rs = map (\<lambda>r. (toBase58 E (rAddress r), decimal (unat (rAmount r)))) rs"

definition servedAs :: "('m, 'w, 's) o1js \<Rightarrow> field \<Rightarrow> proposal \<Rightarrow> receiver list \<Rightarrow> serializedProposal \<Rightarrow> bool" where
  "servedAs E h p live s \<longleftrightarrow> (let row = spRow s in
    rowProposalHash row = fieldToString h \<and> rowTokenId row = Some (fieldToString (pTokenId p)) \<and>
    rowTxType row = Some (fieldToString (pTxType p)) \<and> rowData row = Some (fieldToString (pData p)) \<and>
    rowMemoHash row = Some (fieldToString (pMemoHash p)) \<and> rowNonce row = Some (fieldToString (pNonce p)) \<and>
    rowConfigNonce row = Some (fieldToString (pConfigNonce p)) \<and> rowExpirySlot row = Some (fieldToString (pExpirySlot p)) \<and>
    rowGuardAddress row = Some (toBase58 E (pGuardAddress p)) \<and> rowDestination row = Some (destinationText p) \<and>
    rowChildAccount row = (if pChildAccount p = emptyKey then None else Some (toBase58 E (pChildAccount p))) \<and>
    map (\<lambda>r. (rrAddress r, rrAmount r)) (spReceivers s) = receiverTexts E live)"

lemma receiverRows_idx: "map rtIdx (receiverRows E pid rs) = [0..<length rs]"
  by (induction rs rule: rev_induct) (simp_all add: receiverRows_snoc, simp add: receiverRows_def)

lemma receiverRows_texts: "map (\<lambda>r. (rtAddress r, rtAmount r)) (receiverRows E pid rs) = receiverTexts E rs"
  by (induction rs rule: rev_induct) (simp_all add: receiverRows_snoc receiverTexts_def, simp add: receiverRows_def)

lemma served_record:
  assumes st: "holds E cid pid h p live c address db" and c: "visible c" "coId c = cid"
  shows "\<exists>s. proposalRoute E stamp changedAt slot address (fieldToString h) db = Reply s \<and> servedAs E h p live s"
proof -
  obtain row where row: "findProposal cid (fieldToString h) db = Some row" "ptId row = pid" "carries E h p row"
    and rec: "filter (\<lambda>r. rtProposalId r = pid) (dbReceivers db) = receiverRows E pid live"
    and cn: "findContractAt address db = Some c" using st by (auto simp: holds_def)
  define s where "s = serializeProposalRecord E (proposalRowOf stamp changedAt db row) slot
    (toContractState (latestContractConfig (coId c) db)) (childStateFor db row)"
  have route: "proposalRoute E stamp changedAt slot address (fieldToString h) db = Reply s"
    using c by (simp add: proposalRoute_def withContract_def withProposal_def cn row(1) s_def)
  let ?f = "\<lambda>r. \<lparr>rrIdx = int (rtIdx r), rrAddress = rtAddress r, rrAmount = rtAmount r\<rparr>"
  let ?rows = "map ?f (receiverRows E pid live)"
  have "sorted (map rtIdx (receiverRows E pid live))" by (simp add: receiverRows_idx)
  then have rows: "rowReceivers (proposalRowOf stamp changedAt db row) = ?rows"
    by (simp add: proposalRowOf_def row(2) rec sort_key_id_if_sorted)
  have "map rrIdx ?rows = map int (map rtIdx (receiverRows E pid live))" by simp
  then have "sorted (map rrIdx ?rows)" unfolding receiverRows_idx by (simp add: sorted_iff_nth_mono)
  then have "spReceivers s = ?rows" unfolding s_def serializeProposalRecord_def Let_def rows by (simp add: sort_key_id_if_sorted)
  then have "map (\<lambda>r. (rrAddress r, rrAmount r)) (spReceivers s) = receiverTexts E live"
    by (simp add: comp_def receiverRows_texts)
  moreover have "spRow s = proposalRowOf stamp changedAt db row" by (simp add: s_def serializeProposalRecord_def Let_def)
  ultimately show ?thesis using route row(3) by (simp add: servedAs_def proposalRowOf_def carries_def)
qed

text \<open>The record the browser makes of it.\<close>

definition shownAs :: "('m, 'w, 's) o1js \<Rightarrow> field \<Rightarrow> proposal \<Rightarrow> receiver list \<Rightarrow> txType \<Rightarrow> webProposal \<Rightarrow> bool" where
  "shownAs E h p live t q \<longleftrightarrow> wpProposalHash q = fieldToString h \<and> wpTxType q = Some t \<and>
    map (\<lambda>r. (urAddress r, urAmount r)) (wpReceivers q) = receiverTexts E live \<and>
    wpTokenId q = Some (fieldToString (pTokenId p)) \<and> wpData q = Some (fieldToString (pData p)) \<and>
    wpMemoHash q = Some (fieldToString (pMemoHash p)) \<and> wpNonce q = Some (fieldToString (pNonce p)) \<and>
    wpConfigNonce q = Some (fieldToString (pConfigNonce p)) \<and> wpExpirySlot q = Some (fieldToString (pExpirySlot p)) \<and>
    wpGuardAddress q = Some (toBase58 E (pGuardAddress p)) \<and>
    (wpDestination q = Some RemoteDestination \<longleftrightarrow> pDestination p = Destination REMOTE) \<and>
    wpChildAccount q = (if pChildAccount p = emptyKey then None else Some (toBase58 E (pChildAccount p)))"

lemma receiver_amounts:
  assumes "map (\<lambda>r. (urAddress r, urAmount r)) ui = receiverTexts E live"
  shows "\<exists>n. sumReceiverAmounts ui = Inr n"
proof -
  have "map urAmount ui = map (\<lambda>r. decimal (unat (rAmount r))) live"
    using arg_cong [OF assms, of "map snd"] by (simp add: comp_def receiverTexts_def)
  then have "traverse (\<lambda>r. toBigInt (urAmount r)) ui = Inr (map (\<lambda>r. int (unat (rAmount r))) live)"
    using traverse_map [of toBigInt urAmount ui] traverse_map [of toBigInt "\<lambda>r. decimal (unat (rAmount r))" live]
      traverse_total [of live "\<lambda>r. toBigInt (decimal (unat (rAmount r)))" "\<lambda>r. int (unat (rAmount r))"] by simp
  then show ?thesis by (simp add: sumReceiverAmounts_def)
qed

lemma shown_record:
  assumes s: "servedAs E h p live s" and t: "pTxType p = TxType t" and len: "length live \<le> MAX_RECEIVERS"
  shows "\<exists>q. toProposal (proposalJson dateText s) = Inr q \<and> shownAs E h p live t q"
proof -
  note s = s [unfolded servedAs_def Let_def]
  define ui where "ui = map (\<lambda>r. \<lparr>urIndex = rrIdx r, urAddress = rrAddress r, urAmount = rrAmount r\<rparr>) (spReceivers s)"
  have uiT: "map (\<lambda>r. (urAddress r, urAmount r)) ui = receiverTexts E live" using s by (simp add: ui_def comp_def)
  have "length ui \<le> MAX_RECEIVERS" using arg_cong [OF uiT, of length] len by (simp add: receiverTexts_def)
  then have uiR: "take MAX_RECEIVERS (asReceivers (jsGet (proposalJson dateText s) ''receivers'')) = ui"
    by (simp add: proposalJson_get asReceivers_json ui_def)
  obtain n where n: "sumReceiverAmounts ui = Inr n" using receiver_amounts [OF uiT] by blast
  have none: "receiverTexts E live = []" if "ui = []" using uiT that by simp
  show ?thesis unfolding toProposal_def Let_def uiR using n s none
    by (cases "ui = []") (simp_all add: proposalJson_get t normalize_type destinationText_def web_destination uiT shownAs_def)
qed

section \<open>Rebuilding the struct\<close>

lemma receivers_read_back:
  assumes b58: "base58Laws E" and live: "\<forall>r \<in> set live. onCurve E (pkX (rAddress r))" and len: "length live \<le> MAX_RECEIVERS"
  shows "webTransferReceivers E (receiverTexts E live) = Inr (live @ replicate (MAX_RECEIVERS - length live) emptyReceiver)"
proof -
  have "webReceiver E (toBase58 E (rAddress r)) (decimal (unat (rAmount r))) = Inr r" if "r \<in> set live" for r
  proof -
    have "fromBase58 E (toBase58 E (rAddress r)) = Some (rAddress r)" using base58_decode(1) [OF b58] live that by blast
    moreover from this have "toBase58 E (rAddress r) \<noteq> EMPTY_PUBKEY_B58 E"
      using base58_decode(2) [OF b58] by (auto simp: EMPTY_PUBKEY_B58_def)
    ultimately show ?thesis by (simp add: webReceiver_def parseKey_def uint64FromText_decimal)
  qed
  then have "traverse (\<lambda>(a, x). webReceiver E a x) (receiverTexts E live) = Inr live"
    unfolding receiverTexts_def traverse_map by (subst traverse_total [where g = id]) simp_all
  moreover have "pushEmpty n rs = rs @ replicate n emptyReceiver" for n rs
    by (induction n arbitrary: rs) (simp_all add: replicate_append_same [symmetric])
  ultimately show ?thesis using len by (simp add: webTransferReceivers_def)
qed

lemma rebuilt_struct:
  assumes q: "shownAs E h p live t q" and b58: "base58Laws E"
    and dst: "pDestination p = Destination LOCAL \<or> pDestination p = Destination REMOTE"
    and rs: "pReceivers p = live @ replicate (MAX_RECEIVERS - length live) emptyReceiver" "length live \<le> MAX_RECEIVERS"
      "\<forall>r \<in> set live. onCurve E (pkX (rAddress r))"
    and keys: "onCurve E (pkX (pGuardAddress p))" "pChildAccount p = emptyKey \<or> onCurve E (pkX (pChildAccount p))"
    and fields: "pTxType p = TxType t" "\<forall>f \<in> {pTokenId p, pData p, pMemoHash p, pNonce p, pConfigNonce p, pExpirySlot p}. inField E f"
  shows "webProposalStruct E (signedFieldsOf q) fallback = Inr p"
proof -
  note q = q [unfolded shownAs_def]
  then have qf: "wpTxType q = Some t" "map (\<lambda>r. (urAddress r, urAmount r)) (wpReceivers q) = receiverTexts E live"
    "wpTokenId q = Some (fieldToString (pTokenId p))" "wpData q = Some (fieldToString (pData p))"
    "wpMemoHash q = Some (fieldToString (pMemoHash p))" "wpNonce q = Some (fieldToString (pNonce p))"
    "wpConfigNonce q = Some (fieldToString (pConfigNonce p))" "wpExpirySlot q = Some (fieldToString (pExpirySlot p))"
    "wpGuardAddress q = Some (toBase58 E (pGuardAddress p))" by simp_all
  have "webTxTypeToField t = TxType t" by (cases t) simp_all
  moreover have "webSafePublicKey E (Some (toBase58 E (pGuardAddress p))) = pGuardAddress p"
    by (rule webSafePublicKey_base58 [OF b58 keys(1)])
  moreover have "(if truthyText (wpChildAccount q) then webSafePublicKey E (wpChildAccount q) else emptyKey) = pChildAccount p"
    using q keys(2) webSafePublicKey_base58 [OF b58] base58_nonempty [OF b58] by (auto simp: truthyText_def)
  moreover have "(if wpDestination q = Some RemoteDestination then Destination REMOTE else Destination LOCAL) = pDestination p"
    using q dst by auto
  ultimately show ?thesis using receivers_read_back [OF b58 rs(3,2)] rs(1) fields
    by (cases p) (auto simp: webProposalStruct_def signedFieldsOf_def qf split: if_split_asm)
qed

text \<open>
  C23: A proposal reaches the owners as it was proposed. Take a call of \<open>propose\<close> that the contract accepts and
  the events it emitted as the archive delivers them, newest first: the indexer ingests the batch, through its
  reordering and its check for events it has already recorded, the backend then serves a record for the
  proposal's hash, the browser reads its JSON, and the worker rebuilds from that exactly the proposal of the
  call; the hash it compares before it asks for a signature is the proposal's. The database fails no
  transaction of the batch and holds none of its events yet, the receivers come before the empty slots, their
  addresses, the vault and the child are points of the curve, and no two receivers have the same address and
  the same amount: of two identical receivers the indexer drops the second, because their events have the
  same fingerprint.
\<close>
theorem published_proposal_round_trip:
  assumes call: "propose E w a g p ow pk sg vw aw = Inr (g', evs, sends)"
    and E: "E = ieO1js I" "base58Laws E"
    and db: "dbOk db" "findProposal (coId c) (fieldToString (proposalHash E p)) db = None" "findContractAt address db = Some c" "visible c"
      "list_all (\<lambda>ev. \<not> isRecorded (fingerprintEvent address (eventAt E b bh pbh tx memo ev)) db) evs"
    and N: "\<And>fp i. netFault N fp i = None"
    and rs: "pReceivers p = live @ replicate (MAX_RECEIVERS - length live) emptyReceiver" "length live \<le> MAX_RECEIVERS" "distinct live"
      "\<forall>r \<in> set live. rAddress r \<noteq> emptyKey \<and> onCurve E (pkX (rAddress r))"
    and keys: "onCurve E (pkX a)" "pChildAccount p = emptyKey \<or> onCurve E (pkX (pChildAccount p))"
    and fields: "pTxType p = TxType t" "\<forall>f \<in> {pTokenId p, pData p, pMemoHash p, pNonce p, pConfigNonce p, pExpirySlot p}. inField E f"
  shows "\<exists>ing db' s q. syncEvents I N (coId c) address 0
      (orderEventsForApply (reverseEventsWithinEachTx (rev (map (eventAt E b bh pbh tx memo) evs)))) False db = (Inr ing, db') \<and>
    proposalRoute E stamp changedAt slot address (fieldToString (proposalHash E p)) db' = Reply s \<and>
    toProposal (proposalJson dateText s) = Inr q \<and> webProposalStruct E (signedFieldsOf q) fallback = Inr p \<and>
    webAssertRecomputedHash (proposalHash E p) (wpProposalHash q) = Inr ()"
proof -
  let ?h = "proposalHash E p"
  have dst: "pDestination p = Destination LOCAL \<or> pDestination p = Destination REMOTE" and guard: "pGuardAddress p = a"
    and "\<exists>k ar nr. evs = [proposalEventOf ?h pk p] @ emitReceiversEvent p ?h @ [ApprovalEvent ?h pk k ar nr]"
    using call unfolding propose_def Let_def proposalEventOf_def
    by (auto simp: assertProposalDestinationAndChildAccount_def assertProposalConfigNetworkAndGuard_def
        assertValidProposalConfigNetworkAndGuard_def Let_def)
  then obtain k ar nr where ev: "evs = [proposalEventOf ?h pk p] @ emitReceiversEvent p ?h @ [ApprovalEvent ?h pk k ar nr]" by blast
  have c: "findContract (coId c) db \<noteq> None"
  proof -
    have "c \<in> set (dbContracts db)" using db(3) by (auto simp: findContractAt_def find_Some_iff)
    then show ?thesis by (auto simp: findContract_def find_None_iff)
  qed
  have ne: "\<forall>r \<in> set live. rAddress r \<noteq> emptyKey" using rs(4) by blast
  obtain ing db' pid where sync: "syncEvents I N (coId c) address 0
      (orderEventsForApply (reverseEventsWithinEachTx (rev (map (eventAt E b bh pbh tx memo) evs)))) False db = (Inr ing, db')"
    and "holds E (coId c) pid ?h p live c address db'"
    using sync_published [OF E db(1) dst db(2,3) c rs(1) ne rs(3) ev db(5) N] by blast
  from served_record [OF this(2) db(4) refl] obtain s where s: "servedAs E ?h p live s"
    "proposalRoute E stamp changedAt slot address (fieldToString ?h) db' = Reply s" by blast
  obtain q where q: "toProposal (proposalJson dateText s) = Inr q" "shownAs E ?h p live t q"
    using shown_record [OF s(1) fields(1) rs(2)] by blast
  have "webProposalStruct E (signedFieldsOf q) fallback = Inr p"
    by (rule rebuilt_struct [OF q(2) E(2) dst rs(1,2) _ _ keys(2) fields]) (use rs(4) keys(1) guard in auto)
  then show ?thesis using sync s(2) q by (auto simp: webAssertRecomputedHash_def shownAs_def)
qed

end
