(* ===== verification/Rebuild_Sync.thy ===== *)
theory Rebuild_Sync
  imports Owner_Rebuild Guard_Liveness
begin

text \<open>
  The events of a call carry exactly what it did to the two vote maps: stores that mirror a guard
  before a call mirror it afterwards, once the events of the call have been applied to them.
\<close>

definition mapsSynced :: "('m, 'w, 's) o1js \<Rightarrow> guard \<Rightarrow> 'm mapStores \<Rightarrow> bool" where
  "mapsSynced E g st \<longleftrightarrow> approvalRoot g = getApprovalRoot E (fst st) \<and>
     voteNullifierRoot g = getNullifierRoot E (snd st) \<and> nullifierStoreInv E (snd st) \<and>
     (\<forall>h. inField E (getCount E (fst st) h))"

section \<open>The effect of each event\<close>

lemma toField_text [simp]: "inField E f \<Longrightarrow> toField E (fieldToString f) = Inr f"
proof -
  assume f: "inField E f"
  then have "allDigits (fieldToString f)" by (simp add: inField_def fieldToString_decimal)
  with f show ?thesis by (simp add: toField_def)
qed

definition isRemoteType :: "field \<Rightarrow> bool" where
  "isRemoteType ty \<longleftrightarrow> ty \<in> TxType ` {CREATE_CHILD, RECLAIM_CHILD, DESTROY_CHILD, ENABLE_CHILD_MULTI_SIG}"

lemma remote_text: "fieldToString ty \<in> set REMOTE_EXECUTION_TYPES \<longleftrightarrow> isRemoteType ty"
  by (auto simp: REMOTE_EXECUTION_TYPES_def isRemoteType_def)

lemma effect_proposal:
  "base58Laws E \<Longrightarrow> inField E ph \<Longrightarrow>
     mapEffect E (indexEvent E b (ProposalEvent ph pr tok ty d mh n cn ex ga dst ch)) =
       Inr (Some (ph, fieldAdd E PROPOSED_MARKER 1, fromBase58 E (toBase58 E pr)))"
  by (simp add: mapEffect_def payloadKey_key)

lemma effect_approval:
  "base58Laws E \<Longrightarrow> inField E ph \<Longrightarrow> inField E c \<Longrightarrow>
     mapEffect E (indexEvent E b (ApprovalEvent ph pk c ar nr)) = Inr (Some (ph, c, fromBase58 E (toBase58 E pk)))"
  by (simp add: mapEffect_def payloadKey_key)

lemma effect_execution:
  "inField E ph \<Longrightarrow> mapEffect E (indexEvent E b (ExecutionEvent ph ty r)) =
     Inr (if isRemoteType ty then None else Some (ph, EXECUTED_MARKER E, None))"
  by (simp add: mapEffect_def isLocalExecution_def isExecution_def txTypeText_def remote_text)

lemma effect_other:
  "inField E ph \<Longrightarrow> mapEffect E (indexEvent E b (ReceiverEvent ph r amt)) = Inr None"
  "inField E ph \<Longrightarrow> mapEffect E (indexEvent E b (OwnerChangeEvent ph pk ad n c cn)) = Inr None"
  "inField E ph \<Longrightarrow> mapEffect E (indexEvent E b (ThresholdChangeEvent ph t t' cn)) = Inr None"
  "inField E ph \<Longrightarrow> mapEffect E (indexEvent E b (DelegateEvent ph pk)) = Inr None"
  "inField E ph \<Longrightarrow> mapEffect E (indexEvent E b (ReclaimChildEvent ph pk amt)) = Inr None"
  "inField E ph \<Longrightarrow> mapEffect E (indexEvent E b (EnableChildMultiSigEvent ph pk en cn)) = Inr None"
  by (simp_all add: mapEffect_def isLocalExecution_def isExecution_def)

lemmas effects = effect_proposal effect_approval effect_execution effect_other

lemma apply_receivers:
  "inField E ph \<Longrightarrow> applyMapEvents E (map (indexEvent E b) (emitReceiversEvent p ph) @ es) st = applyMapEvents E es st"
proof -
  assume f: "inField E ph"
  have "applyMapEvents E (map (indexEvent E b) (map (\<lambda>r. ReceiverEvent ph (rAddress r) (amt r)) rs) @ es) st =
      applyMapEvents E es st" for amt rs
    by (induction rs) (simp_all del: indexEvent.simps add: applyMapEvent_effect effects f applyEffect_def)
  from this [of "\<lambda>r. if rAddress r = emptyKey then 0 else rAmount r"] show ?thesis
    by (simp add: emitReceiversEvent_def Let_def)
qed

section \<open>Votes and executions\<close>

lemma approval_leaf:
  assumes "merkleLaws E" "mapsSynced E g st" "computeRootAndKey E aw c = (approvalRoot g, h)"
  shows "getCount E (fst st) h = c" "fst (computeRootAndKey E aw c') = getApprovalRoot E (setCount E (fst st) h c')"
proof -
  have w: "computeRootAndKey E aw c = (mapRoot E (asMap (fst st)), h)"
    using assms(2,3) by (simp add: mapsSynced_def getApprovalRoot_def)
  show "getCount E (fst st) h = c" using witness_opens [OF assms(1) w] by (simp add: getCount_def)
  show "fst (computeRootAndKey E aw c') = getApprovalRoot E (setCount E (fst st) h c')"
    using witness_updates [OF assms(1) w] by (simp add: getApprovalRoot_def setCount_def)
qed

lemma nullifier_leaf:
  assumes "merkleLaws E" "mapsSynced E g st" "computeRootAndKey E vw c = (voteNullifierRoot g, voteNullifierKey E h pk)"
  shows "fst (computeRootAndKey E vw 1) = getNullifierRoot E (nullify E (snd st) h pk)"
proof -
  have "computeRootAndKey E vw c = (mapRoot E (vnMap (snd st)), voteNullifierKey E h pk)"
    using assms(2,3) by (simp add: mapsSynced_def getNullifierRoot_def)
  from witness_updates [OF assms(1) this] show ?thesis
    using assms(2) nullify_root [OF assms(1)] by (simp add: mapsSynced_def)
qed

lemma nullify_twice: "nullify E (nullify E nus h pk) h pk = nullify E nus h pk"
  by (auto simp: nullify_def Let_def)

lemma raiseTo_raise: "c' > getCount E aps h \<Longrightarrow> raiseTo E aps h c' = setCount E aps h c'"
  by (simp add: raiseTo_def)

lemma mapsSynced_vote:
  assumes E: "merkleLaws E" and s: "mapsSynced E g st" and c': "inField E c'"
    and aw: "computeRootAndKey E aw c = (approvalRoot g, h)"
    and vw: "computeRootAndKey E vw 0 = (voteNullifierRoot g, voteNullifierKey E h pk)"
  shows "mapsSynced E (g\<lparr>voteNullifierRoot := fst (computeRootAndKey E vw 1), approvalRoot := fst (computeRootAndKey E aw c')\<rparr>)
    (setCount E (fst st) h c', nullify E (snd st) h pk)"
  using approval_leaf(2) [OF E s aw] nullifier_leaf [OF E s vw] s c' nullifierStoreInv_nullify [OF E]
  by (simp add: mapsSynced_def ap.read_write [OF E])

lemma mapsSynced_execute:
  assumes E: "merkleLaws E" and s: "mapsSynced E g st" and m: "inField E (EXECUTED_MARKER E)"
    and aw: "computeRootAndKey E aw c = (approvalRoot g, h)"
    and g': "approvalRoot g' = fst (computeRootAndKey E aw (EXECUTED_MARKER E))" "voteNullifierRoot g' = voteNullifierRoot g"
  shows "mapsSynced E g' (setCount E (fst st) h (EXECUTED_MARKER E), snd st)"
  using approval_leaf(2) [OF E s aw] s m g' by (simp add: mapsSynced_def ap.read_write [OF E])

lemma inField_facts:
  assumes "soundEnv E"
  shows "inField E (EXECUTED_MARKER E)" "fieldAdd E PROPOSED_MARKER 1 = 2" "inField E 2"
    "inField E c \<Longrightarrow> c \<noteq> EXECUTED_MARKER E \<Longrightarrow> c < EXECUTED_MARKER E \<and> fieldAdd E c 1 = c + 1 \<and> inField E (c + 1)"
  using fieldLarge_pos [OF soundEnv_fieldLarge [OF assms]] EXECUTED_MARKER_eq [OF soundEnv_fieldLarge [OF assms]]
  by (auto simp: inField_def fieldAdd_def PROPOSED_MARKER_def)

definition quiet :: "('m, 'w, 's) o1js \<Rightarrow> event \<Rightarrow> bool" where
  "quiet E e \<longleftrightarrow> (\<forall>b. mapEffect E (indexEvent E b e) = Inr None)"

lemma apply_quiet: "\<forall>e \<in> set es. quiet E e \<Longrightarrow> applyMapEvents E (map (indexEvent E b) es) st = Inr st"
  by (induction es) (auto simp: quiet_def applyMapEvent_effect applyEffect_def)

lemma apply_execution:
  "inField E ph \<Longrightarrow> \<forall>e \<in> set es. quiet E e \<Longrightarrow>
     applyMapEvents E (map (indexEvent E b) (ExecutionEvent ph ty r # es)) st =
       Inr (if isRemoteType ty then st else (raiseTo E (fst st) ph (EXECUTED_MARKER E), snd st))"
  by (simp del: indexEvent.simps add: applyMapEvent_effect effects applyEffect_def apply_quiet)

lemma local_events:
  assumes "callMethod E w a g c = Inr (g', evs, sends)" "localExecution c = Some p" "inField E (proposalHash E p)"
  obtains aw k r es where "computeRootAndKey E aw k = (approvalRoot g, proposalHash E p)" "k \<noteq> EXECUTED_MARKER E"
    "evs = ExecutionEvent (proposalHash E p) (pTxType p) r # es" "\<forall>e \<in> set es. quiet E e" "\<not> isRemoteType (pTxType p)"
    "approvalRoot g' = fst (computeRootAndKey E aw (EXECUTED_MARKER E))" "voteNullifierRoot g' = voteNullifierRoot g"
  using assms
  by (cases c) (auto simp: method_defs write_defs case_prod_beta Let_def assertExecutable_Inr isRemoteType_def quiet_def effects
      simp del: indexEvent.simps)

lemma lifecycle_events:
  assumes "callMethod E w a g c = Inr (g', evs, sends)" "lifecycleExecution c = Some p" "inField E (proposalHash E p)"
  obtains r es where "evs = ExecutionEvent (proposalHash E p) (pTxType p) r # es" "\<forall>e \<in> set es. quiet E e"
    "isRemoteType (pTxType p)" "approvalRoot g' = approvalRoot g" "voteNullifierRoot g' = voteNullifierRoot g"
  using assms
  by (cases c) (auto simp: method_defs write_defs case_prod_beta Let_def assertLifecycle_Inr assertParentApprovalState_Inr
      isRemoteType_def quiet_def effects simp del: indexEvent.simps)

lemma execution_rebuild:
  assumes E: "soundEnv E" and s: "mapsSynced E g st" and f: "inField E (proposalHash E p)"
    and ok: "callMethod E w a g c = Inr (g', evs, sends)" and p: "localExecution c = Some p \<or> lifecycleExecution c = Some p"
  shows "\<exists>st'. applyMapEvents E (map (indexEvent E b) evs) st = Inr st' \<and> mapsSynced E g' st'"
  using p
proof
  assume le: "localExecution c = Some p"
  obtain aw k r es where x: "computeRootAndKey E aw k = (approvalRoot g, proposalHash E p)" "k \<noteq> EXECUTED_MARKER E"
    "evs = ExecutionEvent (proposalHash E p) (pTxType p) r # es" "\<forall>e \<in> set es. quiet E e" "\<not> isRemoteType (pTxType p)"
    "approvalRoot g' = fst (computeRootAndKey E aw (EXECUTED_MARKER E))" "voteNullifierRoot g' = voteNullifierRoot g"
    by (rule local_events [OF ok le f])
  note m = soundEnv_merkle [OF E]
  have k: "getCount E (fst st) (proposalHash E p) = k" by (rule approval_leaf(1) [OF m s x(1)])
  then have "k < EXECUTED_MARKER E" using s inField_facts(4) [OF E _ x(2)] by (auto simp: mapsSynced_def)
  then have "raiseTo E (fst st) (proposalHash E p) (EXECUTED_MARKER E) = setCount E (fst st) (proposalHash E p) (EXECUTED_MARKER E)"
    by (simp add: raiseTo_raise k)
  then show ?thesis
    unfolding x(3) apply_execution [OF f x(4)] using x(5) mapsSynced_execute [OF m s inField_facts(1) [OF E] x(1,6,7)] by simp
next
  assume le: "lifecycleExecution c = Some p"
  obtain r es where x: "evs = ExecutionEvent (proposalHash E p) (pTxType p) r # es" "\<forall>e \<in> set es. quiet E e"
    "isRemoteType (pTxType p)" "approvalRoot g' = approvalRoot g" "voteNullifierRoot g' = voteNullifierRoot g"
    by (rule lifecycle_events [OF ok le f])
  show ?thesis
    unfolding x(1) apply_execution [OF f x(2)] using x(3-5) s by (simp add: mapsSynced_def)
qed

lemma vote_apply:
  assumes b: "base58Laws E" and f: "inField E h" "inField E c'" and pk: "onCurve E (pkX pk)"
  shows "applyMapEvents E [indexEvent E b0 (ApprovalEvent h pk c' ar nr)] st =
      Inr (raiseTo E (fst st) h c', nullify E (snd st) h pk)"
    "fieldAdd E PROPOSED_MARKER 1 = c' \<Longrightarrow>
     applyMapEvent E (indexEvent E b0 (ProposalEvent h pk tok ty d mh n cn ex ga dst ch)) st =
      Inr (raiseTo E (fst st) h c', nullify E (snd st) h pk)"
  using base58_decode(1) [OF b pk]
  by (simp_all del: indexEvent.simps add: applyMapEvent_effect effects b f applyEffect_def)

lemma propose_rebuild:
  assumes E: "soundEnv E" "base58Laws E" and s: "mapsSynced E g st" and f: "inField E (proposalHash E p)"
    and ok: "propose E w a g p ow pk sg vw aw = Inr (g', evs, sends)" and pk: "onCurve E (pkX pk)"
  shows "\<exists>st'. applyMapEvents E (map (indexEvent E b) evs) st = Inr st' \<and> mapsSynced E g' st'"
proof -
  let ?h = "proposalHash E p"
  note m = soundEnv_merkle [OF E(1)] and i = inField_facts [OF E(1)]
  from ok have aw: "computeRootAndKey E aw 0 = (approvalRoot g, ?h)"
    and vw: "computeRootAndKey E vw 0 = (voteNullifierRoot g, voteNullifierKey E ?h pk)"
    and g': "g' = g\<lparr>voteNullifierRoot := fst (computeRootAndKey E vw 1), approvalRoot := fst (computeRootAndKey E aw 2)\<rparr>"
    and evs: "\<exists>tok ty d mh n cn ex ga dst ch ar nr. evs = [ProposalEvent ?h pk tok ty d mh n cn ex ga dst ch] @
      emitReceiversEvent p ?h @ [ApprovalEvent ?h pk 2 ar nr]"
    by (auto simp: propose_def assertApprovalWitnessValue_def Let_def i(2))
  let ?st = "(setCount E (fst st) ?h 2, nullify E (snd st) ?h pk)"
  have c: "getCount E (fst st) ?h = 0" by (rule approval_leaf(1) [OF m s aw])
  have r: "raiseTo E (fst st) ?h 2 = setCount E (fst st) ?h 2" by (rule raiseTo_raise) (simp add: c)
  have r2: "raiseTo E (setCount E (fst st) ?h 2) ?h 2 = setCount E (fst st) ?h 2"
    by (simp add: raiseTo_def ap.read_write [OF m])
  have "applyMapEvents E (map (indexEvent E b) evs) st = Inr ?st"
    using evs by (auto simp del: indexEvent.simps simp: vote_apply(2) [OF E(2) f i(3) pk i(2)]
        apply_receivers [OF f] vote_apply(1) [OF E(2) f i(3) pk, simplified] r r2 nullify_twice)
  moreover have "mapsSynced E g' ?st" unfolding g' by (rule mapsSynced_vote [OF m s i(3) aw vw])
  ultimately show ?thesis by blast
qed

lemma approve_rebuild:
  assumes E: "soundEnv E" "base58Laws E" and s: "mapsSynced E g st" and f: "inField E (proposalHash E p)"
    and ok: "approveProposal E w a g p sg pk ow aw c vw = Inr (g', evs, sends)" and pk: "onCurve E (pkX pk)"
  shows "\<exists>st'. applyMapEvents E (map (indexEvent E b) evs) st = Inr st' \<and> mapsSynced E g' st'"
proof -
  let ?h = "proposalHash E p"
  note m = soundEnv_merkle [OF E(1)]
  from ok have aw: "computeRootAndKey E aw c = (approvalRoot g, ?h)" and ne: "c \<noteq> EXECUTED_MARKER E"
    and vw: "computeRootAndKey E vw 0 = (voteNullifierRoot g, voteNullifierKey E ?h pk)"
    and g': "g' = g\<lparr>voteNullifierRoot := fst (computeRootAndKey E vw 1), approvalRoot := fst (computeRootAndKey E aw (fieldAdd E c 1))\<rparr>"
    and evs: "\<exists>ar nr. evs = [ApprovalEvent ?h pk (fieldAdd E c 1) ar nr]"
    by (auto simp: approveProposal_def assertApprovalWitnessValue_def assertNotExecuted_def Let_def)
  have k: "getCount E (fst st) ?h = c" by (rule approval_leaf(1) [OF m s aw])
  then have "inField E c" using s by (auto simp: mapsSynced_def)
  note c = inField_facts(4) [OF E(1) this ne]
  let ?st = "(setCount E (fst st) ?h (c + 1), nullify E (snd st) ?h pk)"
  have r: "raiseTo E (fst st) ?h (c + 1) = setCount E (fst st) ?h (c + 1)" by (rule raiseTo_raise) (simp add: k)
  have i: "inField E (c + 1)" using c by simp
  have "applyMapEvents E (map (indexEvent E b) evs) st = Inr ?st"
    using evs c by (auto simp del: indexEvent.simps applyMapEvents.simps simp: vote_apply(1) [OF E(2) f i pk] r)
  moreover have "mapsSynced E g' ?st" using mapsSynced_vote [OF m s i aw vw] c unfolding g' by simp
  ultimately show ?thesis by blast
qed

text \<open>C17: The events of a call keep rebuilt stores in step with the guard. For a call on an initialised
  guard of a reachable ledger that votes on or executes a proposal, applying the call's events to stores
  that mirror the approval and nullifier roots before the call succeeds and yields stores that mirror
  the roots after it.\<close>

theorem events_mirror_call:
  assumes E: "soundEnv E" "base58Laws E" and r: "reach E n l" "int n + 1 < fieldOrder E" and gen: "genuine l a"
    and acc: "accounts l a = Some g" and ok: "callMethod E (ledgerWorld l) a g c = Inr (g', evs, sends)"
    and p: "votesOrExecutes c = Some p \<or> lifecycleExecution c = Some p" "inField E (proposalHash E p)"
    and s: "mapsSynced E g st"
  shows "\<exists>st'. applyMapEvents E (map (indexEvent E b) evs) st = Inr st' \<and> mapsSynced E g' st'"
proof -
  have "\<not> initialises c" using p(1) by (cases c) auto
  then have nz: "ownersCommitment g \<noteq> 0" using callMethod_frame [OF ok] by simp
  obtain v where v: "vaultInv E a g v" by (rule reach_vault [OF E(1) r gen acc nz])
  have curve: "onCurve E (pkX pk)" if "assertOwnerMembership E (ownersCommitment g) pk ow = Inr ()" for pk ow
    using represents_member [OF E(1) vaultInv_represents [OF v] that] vaultInv_valid [OF v] by (auto simp: validOwnerList_def)
  show ?thesis
  proof (cases "localExecution c = Some p \<or> lifecycleExecution c = Some p")
    case True
    then show ?thesis by (rule execution_rebuild [OF E(1) s p(2) ok])
  next
    case False
    with p(1) consider ow pk sg vw aw where "c = Propose p ow pk sg vw aw"
      | sg pk ow aw k vw where "c = ApproveProposal p sg pk ow aw k vw" by (cases c) auto
    then show ?thesis
    proof cases
      case 1
      with ok have "propose E (ledgerWorld l) a g p ow pk sg vw aw = Inr (g', evs, sends)"
        and "assertOwnerMembership E (ownersCommitment g) pk ow = Inr ()"
        by (auto simp: propose_def getInitializedOwnersCommitment_def)
      then show ?thesis using curve by (intro propose_rebuild [OF E s p(2)])
    next
      case 2
      with ok have "approveProposal E (ledgerWorld l) a g p sg pk ow aw k vw = Inr (g', evs, sends)"
        and "assertOwnerMembership E (ownersCommitment g) pk ow = Inr ()"
        by (auto simp: approveProposal_def getInitializedOwnersCommitment_def)
      then show ?thesis using curve by (intro approve_rebuild [OF E s p(2)])
    qed
  qed
qed

end
