(* ===== verification/Scenario.thy ===== *)
theory Scenario
  imports Guard_Liveness Rebuild_Sync
begin

text \<open>
  A concrete run, on the concrete instance of the o1js parameters: two owners set up a 2-of-2 guard,
  vote on a transfer, on a threshold change, on the creation of a child and on a reclaim from it.
  The states of the run are reachable ledgers, at which the properties are instantiated.
\<close>

section \<open>Parties and states\<close>

definition keyA :: pubkey where "keyA = PublicKey 5 False"

definition keyB :: pubkey where "keyB = PublicKey 7 False"

definition keyG :: pubkey where "keyG = PublicKey 11 False"

definition keyC :: pubkey where "keyC = PublicKey 17 False"

definition keyR :: pubkey where "keyR = PublicKey 13 False"

lemmas key_defs = keyA_def keyB_def keyG_def keyC_def keyR_def emptyKey_def

definition localProposal :: "txType \<Rightarrow> field \<Rightarrow> receiver list \<Rightarrow> proposal" where
  "localProposal ty d rs = \<lparr>pReceivers = rs @ replicate (9 - length rs) emptyReceiver, pTokenId = 1, pTxType = TxType ty,
     pData = d, pMemoHash = 0, pNonce = 1, pConfigNonce = 0, pExpirySlot = 0, pGuardAddress = keyG,
     pDestination = Destination LOCAL, pChildAccount = emptyKey\<rparr>"

definition transferProposal :: proposal where
  "transferProposal = localProposal TRANSFER 0 [\<lparr>rAddress = keyR, rAmount = 10\<rparr>]"

definition thresholdProposal :: proposal where
  "thresholdProposal = localProposal CHANGE_THRESHOLD 1 []"

text \<open>The concrete parameters: those of \<open>baseEnv\<close> with a field large enough to hold the hashes of the
  two local proposals.\<close>

definition sampleEnv :: "(sampleMap, sampleMap \<times> field, bool) o1js" where
  "sampleEnv = baseEnv\<lparr>fieldOrder := fieldOrder baseEnv + proposalHash baseEnv transferProposal
     + proposalHash baseEnv thresholdProposal\<rparr>"

lemma add_two_pos: "x < (a :: int) \<Longrightarrow> 0 < b \<Longrightarrow> 0 < c \<Longrightarrow> x < a + b + c"
  by simp

lemma sampleHash_pos: "0 < sampleHash s xs"
  by (simp add: sampleHash_def)

lemma baseHash_pos: "0 < proposalHash baseEnv p"
  by (simp add: proposalHash_def baseEnv_def sampleHash_pos)

lemma sampleHash_same: "proposalHash sampleEnv p = proposalHash baseEnv p"
  by (simp add: proposalHash_def proposalFields_def NETWORK_DOMAIN_def sampleEnv_def)

lemma sampleOrder_eq: "fieldOrder sampleEnv = fieldOrder baseEnv + proposalHash baseEnv transferProposal
     + proposalHash baseEnv thresholdProposal"
  by (simp add: sampleEnv_def)

lemma baseOrder: "2 ^ 254 < fieldOrder baseEnv"
  using soundEnv_fieldLarge [OF baseEnv_sound] by (simp only: fieldLarge_def)

lemma sampleOrder: "2 ^ 254 < fieldOrder sampleEnv"
  unfolding sampleOrder_eq by (rule add_two_pos [OF baseOrder baseHash_pos baseHash_pos])

lemma sampleOrder_big: "1000 < fieldOrder sampleEnv"
  using sampleOrder by (rule less_trans [rotated]) simp

lemma sampleEnv_merkle: "merkleLaws sampleEnv"
  using baseEnv_merkle by (simp only: sampleEnv_def merkleLaws_order)

lemma sampleEnv_sound: "soundEnv sampleEnv"
proof -
  have "collisionFree sampleEnv" "generatorOnCurve sampleEnv"
    using baseEnv_sound by (simp_all add: soundEnv_def collisionFree_def generatorOnCurve_def sampleEnv_def)
  then show ?thesis using sampleOrder by (simp add: soundEnv_def fieldLarge_def sampleEnv_merkle)
qed

lemma sampleEnv_base58: "base58Laws sampleEnv"
  using baseEnv_base58 by (simp only: sampleEnv_def base58Laws_order)

lemma sampleEnv_simps:
  "onCurve sampleEnv x = (x \<noteq> 0)" "generatorKey sampleEnv = PublicKey 1 False" "verifySignature sampleEnv sg pk msg = sg"
  by (simp_all add: sampleEnv_def baseEnv_def)

lemma sampleAdd: "0 \<le> a + b \<Longrightarrow> a + b < 1000 \<Longrightarrow> fieldAdd sampleEnv a b = a + b"
  using sampleOrder_big by (simp add: fieldAdd_def)

lemma sampleMarker: "fieldSub sampleEnv 0 1 = fieldOrder sampleEnv - 1"
  using EXECUTED_MARKER_eq [OF soundEnv_fieldLarge [OF sampleEnv_sound]] by (simp add: EXECUTED_MARKER_def)

lemma sampleHash_inField: "inField sampleEnv (proposalHash sampleEnv transferProposal)"
proof -
  have pos: "0 < fieldOrder baseEnv" using baseOrder by (rule less_trans [rotated]) simp
  have "proposalHash baseEnv transferProposal < proposalHash baseEnv transferProposal + fieldOrder baseEnv + proposalHash baseEnv thresholdProposal"
    using pos baseHash_pos [of thresholdProposal] by (simp add: add.assoc)
  then show ?thesis
    using baseHash_pos [of transferProposal] by (simp add: inField_def sampleHash_same sampleOrder_eq)
qed

definition ownerArray :: "pubkey list" where
  "ownerArray = [keyA, keyB] @ replicate 18 emptyKey"

definition freshLedger :: ledger where
  "freshLedger = \<lparr>accounts = (\<lambda>_. None), balances = (\<lambda>_. 100), globalSlot = 1, genuine = (\<lambda>_. False)\<rparr>"

definition deployedGuard :: "pubkey \<Rightarrow> guard" where
  "deployedGuard a = fst (deploy a)"

definition initializedGuard :: "pubkey \<Rightarrow> pubkey \<Rightarrow> guard" where
  "initializedGuard a par = \<lparr> ownersCommitment = computeOwnerChain sampleEnv [keyA, keyB], threshold = 2, numOwners = 2,
     nonce = 0, voteNullifierRoot = EMPTY_MERKLE_MAP_ROOT sampleEnv, approvalRoot = EMPTY_MERKLE_MAP_ROOT sampleEnv,
     configNonce = 0, parent = par, parentNonce = 0, childExecutionRoot = EMPTY_MERKLE_MAP_ROOT sampleEnv,
     childMultiSigEnabled = 1, reservedConfigHash = 0, accPermissions = GUARD_PERMISSIONS, accDelegate = a \<rparr>"

definition setAccount :: "pubkey \<Rightarrow> guard \<Rightarrow> ledger \<Rightarrow> ledger" where
  "setAccount a g l = l\<lparr>accounts := (accounts l)(a := Some g)\<rparr>"

definition addGenuine :: "pubkey \<Rightarrow> ledger \<Rightarrow> ledger" where
  "addGenuine a l = l\<lparr>genuine := (genuine l)(a := True)\<rparr>"

definition rootLedger :: ledger where
  "rootLedger = setAccount keyG (initializedGuard keyG emptyKey) (addGenuine keyG (setAccount keyG (deployedGuard keyG) freshLedger))"

section \<open>Steps\<close>

lemma setAccount_simps [simp]:
  "accounts (setAccount a g l) = (accounts l)(a := Some g)" "balances (setAccount a g l) = balances l"
  "globalSlot (setAccount a g l) = globalSlot l" "genuine (setAccount a g l) = genuine l"
  "accounts (addGenuine a l) = accounts l" "balances (addGenuine a l) = balances l"
  "globalSlot (addGenuine a l) = globalSlot l" "genuine (addGenuine a l) = (genuine l)(a := True)"
  by (simp_all add: setAccount_def addGenuine_def)

lemma step_deploy:
  assumes "accounts l a = None" "a \<noteq> emptyKey"
  shows "guardStep E l (addGenuine a (setAccount a (deployedGuard a) l))"
proof -
  have "transact E (ledgerWorld l) a Deploy =
      Inr ((ledgerWorld l)\<lparr>accounts := (accounts l)(a := Some (deployedGuard a))\<rparr>, [DeployEvent a])"
    using assms by (simp add: transact_def deploy_def deployedGuard_def)
  from guardStep.create [OF assms(1) this] show ?thesis by (simp add: setAccount_def addGenuine_def)
qed

lemma step_call:
  assumes "accounts l a = Some g" "typedCall c" "callMethod E (ledgerWorld l) a g c = Inr (g', evs, [])"
  shows "guardStep E l (setAccount a g' l)"
    "transact E (ledgerWorld l) a c = Inr ((ledgerWorld l)\<lparr>accounts := (accounts l)(a := Some g')\<rparr>, evs)"
proof -
  show t: "transact E (ledgerWorld l) a c = Inr ((ledgerWorld l)\<lparr>accounts := (accounts l)(a := Some g')\<rparr>, evs)"
    using assms by (simp add: transact_def)
  from guardStep.invoke [OF _ t] assms(1) show "guardStep E l (setAccount a g' l)" by (simp add: setAccount_def)
qed

lemma step_world:
  assumes "accounts l a \<noteq> None"
    "transact E (ledgerWorld l) a c = Inr ((ledgerWorld l)\<lparr>accounts := (accounts l)(a := Some g')\<rparr>, evs)"
  shows "guardStep E l (setAccount a g' l)"
  using guardStep.invoke [OF assms] by (simp add: setAccount_def)

section \<open>Setup\<close>

lemma coherent_owners: "assertCoherentSetupOwners sampleEnv ownerArray 2 = Inr ()"
  "computeSetupOwnersChain sampleEnv ownerArray 2 = computeOwnerChain sampleEnv [keyA, keyB]"
  "length ownerArray = MAX_OWNERS"
proof -
  have a: "activeOwners ownerArray 2 = [keyA, keyB]" "drop 2 ownerArray = replicate 18 emptyKey"
    by (simp_all add: activeOwners_def ownerArray_def)
  have "validOwnerList sampleEnv [keyA, keyB]"
    by (simp add: validOwnerList_def key_defs sampleEnv_simps)
  then show "assertCoherentSetupOwners sampleEnv ownerArray 2 = Inr ()"
    using a by (subst assertCoherentSetupOwners_Inr [OF soundEnv_generator [OF sampleEnv_sound]]) simp
  show "computeSetupOwnersChain sampleEnv ownerArray 2 = computeOwnerChain sampleEnv [keyA, keyB]"
    by (simp add: computeSetupOwnersChain_active a)
  show "length ownerArray = MAX_OWNERS" by (simp add: ownerArray_def MAX_OWNERS_def)
qed

lemma initialize_sample:
  assumes "ownersCommitment g = 0"
  shows "\<exists>evs. initializeState sampleEnv g 2 2 par 0 0 ownerArray = Inr (g\<lparr>
      ownersCommitment := computeOwnerChain sampleEnv [keyA, keyB], threshold := 2, numOwners := 2, nonce := 0,
      approvalRoot := EMPTY_MERKLE_MAP_ROOT sampleEnv, voteNullifierRoot := EMPTY_MERKLE_MAP_ROOT sampleEnv,
      parent := par, parentNonce := 0, childExecutionRoot := EMPTY_MERKLE_MAP_ROOT sampleEnv,
      childMultiSigEnabled := 1\<rparr>, evs)"
  using assms by (simp add: initializeState_Inr coherent_owners MAX_OWNERS_def)

lemma setup_root: "\<exists>evs. setupRoot sampleEnv (deployedGuard keyG) 2 2 ownerArray = Inr (initializedGuard keyG emptyKey, evs, [])"
  using initialize_sample [of "(deployedGuard keyG)\<lparr>accPermissions := GUARD_PERMISSIONS\<rparr>" emptyKey]
  by (auto simp: setupRoot_def lockPermissions_def deployedGuard_def deploy_def initializedGuard_def GUARD_DEPLOY_PERMISSIONS_def)

lemma reach_rootLedger: "reach sampleEnv 2 rootLedger"
proof -
  have 0: "reach sampleEnv 0 freshLedger" by (rule reach.start) (simp_all add: freshLedger_def)
  have 1: "reach sampleEnv 1 (addGenuine keyG (setAccount keyG (deployedGuard keyG) freshLedger))"
    using reach.step [OF 0 step_deploy [of freshLedger keyG]] by (simp add: freshLedger_def key_defs)
  obtain evs where "callMethod sampleEnv w keyG (deployedGuard keyG) (Setup 2 2 ownerArray) =
      Inr (initializedGuard keyG emptyKey, evs, [])" for w using setup_root by auto
  from reach.step [OF 1 step_call(1) [OF _ _ this]] show ?thesis
    by (simp add: coherent_owners(3) rootLedger_def numeral_2_eq_2)
qed

section \<open>Two votes\<close>

abbreviation sampleOwners :: "pubkey list" where
  "sampleOwners \<equiv> [keyA, keyB]"

definition votedApprovals :: "proposal \<Rightarrow> sampleMap approvalStore \<Rightarrow> sampleMap approvalStore" where
  "votedApprovals p aps = setCount sampleEnv (setCount sampleEnv aps (proposalHash sampleEnv p) 2) (proposalHash sampleEnv p) 3"

definition votedNullifiers :: "proposal \<Rightarrow> sampleMap nullifierStore \<Rightarrow> sampleMap nullifierStore" where
  "votedNullifiers p nus = nullify sampleEnv (nullify sampleEnv nus (proposalHash sampleEnv p) keyA) (proposalHash sampleEnv p) keyB"

definition votedGuard ::
  "proposal \<Rightarrow> sampleMap approvalStore \<Rightarrow> sampleMap nullifierStore \<Rightarrow> guard \<Rightarrow> guard" where
  "votedGuard p aps nus g = g\<lparr>voteNullifierRoot := getNullifierRoot sampleEnv (votedNullifiers p nus),
     approvalRoot := getApprovalRoot sampleEnv (votedApprovals p aps)\<rparr>"

lemma sample_owner [simp]: "isOwner sampleEnv sampleOwners keyA" "isOwner sampleEnv sampleOwners keyB"
  by (simp_all add: isOwner_def)

lemma sample_signature [simp]: "verifySignature sampleEnv True pk msg"
  by (simp add: sampleEnv_simps)

lemmas sampleLaws = sampleEnv_sound sampleEnv_base58

lemma two_votes:
  assumes acc: "accounts l keyG = Some g" and s: "synced sampleEnv g sampleOwners aps nus"
    and v: "votable (ledgerWorld l) keyG g p" and ty: "typedProposal p"
    and sh: "assertProposalShape sampleEnv g p = Inr ()"
    and c: "getCount sampleEnv aps (proposalHash sampleEnv p) = 0"
    and n: "\<not> isNullified sampleEnv nus (proposalHash sampleEnv p) keyA" "\<not> isNullified sampleEnv nus (proposalHash sampleEnv p) keyB"
  shows "(guardStep sampleEnv ^^ 2) l (setAccount keyG (votedGuard p aps nus g) l)"
    "synced sampleEnv (votedGuard p aps nus g) sampleOwners (votedApprovals p aps) (votedNullifiers p nus)"
proof -
  let ?h = "proposalHash sampleEnv p"
  let ?g1 = "voteUpdate sampleEnv aps nus ?h keyA 2 g"
  let ?l1 = "setAccount keyG ?g1 l"
  have len: "length sampleOwners \<le> MAX_OWNERS" by (simp add: MAX_OWNERS_def)
  have acc': "accounts (ledgerWorld l) keyG = Some g" using acc by simp
  obtain evs where "transact sampleEnv (ledgerWorld l) keyG (Propose p (getOwnerWitness sampleOwners) keyA True
       (getNullifierWitness sampleEnv nus ?h keyA) (getApprovalWitness sampleEnv aps ?h)) =
    Inr ((ledgerWorld l)\<lparr>accounts := (accounts (ledgerWorld l))(keyG := Some ?g1)\<rparr>, evs)"
    using propose_transact [OF sampleLaws s v sample_owner(1) len n(1) c sh sample_signature acc' ty] by blast
  then have 1: "guardStep sampleEnv l ?l1" using acc by (intro step_world) auto
  have s1: "synced sampleEnv ?g1 sampleOwners (setCount sampleEnv aps ?h 2) (nullify sampleEnv nus ?h keyA)"
    by (rule synced_vote [OF sampleEnv_sound s])
  have w1: "ledgerWorld ?l1 = (ledgerWorld l)\<lparr>accounts := (accounts (ledgerWorld l))(keyG := Some ?g1)\<rparr>"
    by (simp add: ledgerWorld_def)
  have v1: "votable (ledgerWorld ?l1) keyG ?g1 p"
    unfolding w1 using v votable_vote [OF acc', of ?g1] by (simp add: voteUpdate_def)
  have inv: "nullifierStoreInv sampleEnv nus" using s by (simp add: synced_def)
  have n1: "\<not> isNullified sampleEnv (nullify sampleEnv nus ?h keyA) ?h keyB"
    using n(2) isNullified_nullify [OF sampleEnv_sound inv] by (simp add: key_defs)
  have c1: "getCount sampleEnv (setCount sampleEnv aps ?h 2) ?h = int 2"
    by (simp add: ap.read_write [OF sampleEnv_merkle])
  have st: "voteState sampleEnv keyG p sampleOwners ?g1 2 (ledgerWorld ?l1, setCount sampleEnv aps ?h 2, nullify sampleEnv nus ?h keyA)"
    using s1 v1 c1 by (simp add: voteState_def)
  have big: "int 2 + 1 < fieldOrder sampleEnv" using sampleOrder_big by simp
  obtain w' g' evs' where 2:
    "transact sampleEnv (ledgerWorld ?l1) keyG (ApproveProposal p True keyB (getOwnerWitness sampleOwners)
       (getApprovalWitness sampleEnv (setCount sampleEnv aps ?h 2) ?h) (int 2)
       (getNullifierWitness sampleEnv (nullify sampleEnv nus ?h keyA) ?h keyB)) = Inr (w', evs')"
    "g' = voteUpdate sampleEnv (setCount sampleEnv aps ?h 2) (nullify sampleEnv nus ?h keyA) ?h keyB (int (Suc 2)) ?g1"
    "w' = (ledgerWorld ?l1)\<lparr>accounts := (accounts (ledgerWorld ?l1))(keyG := Some g')\<rparr>"
    by (rule vote_one [OF sampleLaws st ty sample_owner(2) len n1 _ big sample_signature]) auto
  have g': "g' = votedGuard p aps nus g"
    unfolding 2(2) by (simp add: voteUpdate_def votedGuard_def votedApprovals_def votedNullifiers_def)
  have "guardStep sampleEnv ?l1 (setAccount keyG g' ?l1)"
    using 2(1) by (intro step_world) (auto simp: 2(3))
  then have 3: "guardStep sampleEnv ?l1 (setAccount keyG g' l)" by (simp add: setAccount_def)
  have "(guardStep sampleEnv ^^ Suc 0) l ?l1" using 1 by (simp add: eq_OO)
  then have "(guardStep sampleEnv ^^ Suc (Suc 0)) l (setAccount keyG g' l)" using 3 by (rule relpowp_Suc_I)
  then show "(guardStep sampleEnv ^^ 2) l (setAccount keyG (votedGuard p aps nus g) l)"
    unfolding g' by (simp only: numeral_2_eq_2)
  show "synced sampleEnv (votedGuard p aps nus g) sampleOwners (votedApprovals p aps) (votedNullifiers p nus)"
    using synced_vote [OF sampleEnv_sound s1, of ?h keyB 3] unfolding g' [symmetric] 2(2)
    by (simp add: votedApprovals_def votedNullifiers_def)
qed

lemma votedApprovals_count:
  "getCount sampleEnv (votedApprovals p aps) h = (if h = proposalHash sampleEnv p then 3 else getCount sampleEnv aps h)"
  by (simp add: votedApprovals_def ap.read_write [OF sampleEnv_merkle])

lemma votedNullifiers_voted:
  "nullifierStoreInv sampleEnv nus \<Longrightarrow> isNullified sampleEnv (votedNullifiers p nus) h pk \<longleftrightarrow>
     h = proposalHash sampleEnv p \<and> pk \<in> {keyA, keyB} \<or> isNullified sampleEnv nus h pk"
  by (auto simp: votedNullifiers_def isNullified_nullify [OF sampleEnv_sound] nullifierStoreInv_nullify [OF sampleEnv_merkle])

lemma votedApprovals_executed: "\<not> isExecuted sampleEnv (votedApprovals p aps) (proposalHash sampleEnv p)"
  using votedApprovals_count [of p aps "proposalHash sampleEnv p"] sampleOrder_big
  by (simp add: isExecuted_def getCount_def sampleMarker)

lemma reach_relpowp: "(guardStep E ^^ m) l l' \<Longrightarrow> reach E n l \<Longrightarrow> reach E (n + m) l'"
proof (induction m arbitrary: l')
  case (Suc m)
  then show ?case by (auto intro: reach.step)
qed simp

section \<open>The transfer\<close>

definition newStores :: "sampleMap approvalStore \<times> sampleMap nullifierStore" where
  "newStores = (newApprovalStore sampleEnv, newNullifierStore sampleEnv)"

abbreviation rootGuard :: guard where
  "rootGuard \<equiv> initializedGuard keyG emptyKey"

definition votedRoot :: "proposal \<Rightarrow> guard" where
  "votedRoot p = votedGuard p (newApprovalStore sampleEnv) (newNullifierStore sampleEnv) rootGuard"

definition votedLedger :: "proposal \<Rightarrow> ledger" where
  "votedLedger p = setAccount keyG (votedRoot p) rootLedger"

lemma synced_new: "synced sampleEnv (initializedGuard a par) sampleOwners (newApprovalStore sampleEnv) (newNullifierStore sampleEnv)"
  by (simp add: synced_def initializedGuard_def getCommitment_def getApprovalRoot_def getNullifierRoot_def
      newApprovalStore_def newNullifierStore_def EMPTY_MERKLE_MAP_ROOT_def nullifierStoreInv_new [OF sampleEnv_merkle, unfolded newNullifierStore_def])

lemma new_counts: "getCount sampleEnv (newApprovalStore sampleEnv) h = 0" "\<not> isNullified sampleEnv (newNullifierStore sampleEnv) h pk"
  by (simp_all add: getCount_def newApprovalStore_def isNullified_def newNullifierStore_def mapGet_empty [OF sampleEnv_merkle])

lemma shape_local:
  assumes "p = transferProposal \<or> p = thresholdProposal"
  shows "assertProposalShape sampleEnv rootGuard p = Inr ()" "typedProposal p"
  using assms by (auto simp: transferProposal_def thresholdProposal_def localProposal_def assertProposalShape_def
      isTx_def emptyReceiver_def NATIVE_TOKEN_ID_def initializedGuard_def atMostOneReceiver_def assertOnCurveIf_def
      ON_CURVE_KEY_def key_defs sampleEnv_simps typedProposal_def MAX_RECEIVERS_def numeral_nat Let_def)

lemma rootLedger_guard: "accounts rootLedger keyG = Some rootGuard" "genuine rootLedger keyG" "globalSlot rootLedger = 1"
  "balances rootLedger = (\<lambda>_. 100)"
  by (simp_all add: rootLedger_def freshLedger_def)

lemma votable_root:
  assumes "p = transferProposal \<or> p = thresholdProposal"
  shows "votable (ledgerWorld rootLedger) keyG rootGuard p"
proof -
  have "pDestination p = Destination LOCAL" using assms by (auto simp: transferProposal_def thresholdProposal_def localProposal_def)
  from votable_local [OF this] show ?thesis using assms
    by (auto simp: transferProposal_def thresholdProposal_def localProposal_def rootLedger_guard notExpired_def initializedGuard_def)
qed

lemma votedLedger_run:
  assumes "p = transferProposal \<or> p = thresholdProposal"
  shows "(guardStep sampleEnv ^^ 2) rootLedger (votedLedger p)" "reach sampleEnv 4 (votedLedger p)"
    "synced sampleEnv (votedRoot p) sampleOwners (votedApprovals p (newApprovalStore sampleEnv))
       (votedNullifiers p (newNullifierStore sampleEnv))"
proof -
  note tv = two_votes [OF rootLedger_guard(1) synced_new votable_root [OF assms] shape_local(2,1) [OF assms] new_counts(1) new_counts(2) new_counts(2)]
  show r: "(guardStep sampleEnv ^^ 2) rootLedger (votedLedger p)"
    "synced sampleEnv (votedRoot p) sampleOwners (votedApprovals p (newApprovalStore sampleEnv))
       (votedNullifiers p (newNullifierStore sampleEnv))"
    using tv by (simp_all add: votedLedger_def votedRoot_def)
  show "reach sampleEnv 4 (votedLedger p)" using reach_relpowp [OF r(1) reach_rootLedger] by simp
qed

section \<open>Executing on the voted ledger\<close>

abbreviation votedWitness :: "proposal \<Rightarrow> sampleMap approvalStore \<Rightarrow> sampleMap \<times> field" where
  "votedWitness p aps \<equiv> getApprovalWitness sampleEnv (votedApprovals p aps) (proposalHash sampleEnv p)"

definition transferCall :: "(sampleMap \<times> field, bool) call" where
  "transferCall = ExecuteTransfer transferProposal (votedWitness transferProposal (newApprovalStore sampleEnv)) 3"

definition thresholdCall :: "(sampleMap \<times> field, bool) call" where
  "thresholdCall = ExecuteThresholdChange thresholdProposal (votedWitness thresholdProposal (newApprovalStore sampleEnv)) 3 1"

lemma votedLedger_guard: "accounts (votedLedger p) keyG = Some (votedRoot p)" "genuine (votedLedger p) keyG"
  "ledgerWorld (votedLedger p) = (ledgerWorld rootLedger)\<lparr>accounts := (accounts rootLedger)(keyG := Some (votedRoot p))\<rparr>"
  by (simp_all add: votedLedger_def rootLedger_guard ledgerWorld_def)

lemma voted_executable:
  assumes "p = transferProposal \<or> p = thresholdProposal"
  shows "executable sampleEnv (ledgerWorld (votedLedger p)) keyG (votedRoot p) p"
  using assms by (auto simp: executable_def votedRoot_def votedGuard_def initializedGuard_def transferProposal_def
      thresholdProposal_def localProposal_def notExpired_def votedLedger_def rootLedger_guard sampleAdd)

lemma voted_count:
  "getCount sampleEnv (votedApprovals p aps) (proposalHash sampleEnv p) = 3"
  "fieldAdd sampleEnv 2 1 = 3"
  by (simp add: votedApprovals_count) (simp add: sampleAdd)

lemma transferCall_ok: "isOk (transact sampleEnv (ledgerWorld (votedLedger transferProposal)) keyG transferCall)"
proof -
  have p: "transferProposal = transferProposal \<or> transferProposal = thresholdProposal" by simp
  have "isOk (transact sampleEnv (ledgerWorld (votedLedger transferProposal)) keyG
      (ExecuteTransfer transferProposal (votedWitness transferProposal (newApprovalStore sampleEnv))
        (getCount sampleEnv (votedApprovals transferProposal (newApprovalStore sampleEnv)) (proposalHash sampleEnv transferProposal))))"
    by (rule transfer_transact [OF sampleEnv_sound votedLedger_run(3) [OF p] voted_executable [OF p] shape_local(2) [OF p]])
      (simp_all add: transferProposal_def localProposal_def votedLedger_def votedApprovals_executed votedRoot_def
        votedGuard_def initializedGuard_def rootLedger_guard emptyReceiver_def sum_list_replicate voted_count [unfolded transferProposal_def localProposal_def])
  then show ?thesis by (simp add: transferCall_def voted_count)
qed

definition executedThreshold :: guard where
  "executedThreshold = (votedRoot thresholdProposal)\<lparr>nonce := 1, threshold := 1, configNonce := 1,
     approvalRoot := getApprovalRoot sampleEnv (setCount sampleEnv (votedApprovals thresholdProposal (newApprovalStore sampleEnv))
       (proposalHash sampleEnv thresholdProposal) (EXECUTED_MARKER sampleEnv))\<rparr>"

lemma thresholdCall_ok:
  "\<exists>evs. callMethod sampleEnv (ledgerWorld (votedLedger thresholdProposal)) keyG (votedRoot thresholdProposal) thresholdCall =
     Inr (executedThreshold, evs, [])"
proof -
  have p: "thresholdProposal = transferProposal \<or> thresholdProposal = thresholdProposal" by simp
  have t: "threshold (votedRoot thresholdProposal) = 2" "ownersCommitment (votedRoot thresholdProposal) \<noteq> 0"
    "parent (votedRoot thresholdProposal) = emptyKey" "numOwners (votedRoot thresholdProposal) = 2"
    "nonce (votedRoot thresholdProposal) = 0" "configNonce (votedRoot thresholdProposal) = 0"
    by (simp_all add: votedRoot_def votedGuard_def initializedGuard_def computeOwnerChain_nonzero soundEnv_collisionFree [OF sampleEnv_sound])
  have c: "fieldAdd sampleEnv (threshold (votedRoot thresholdProposal)) 1 \<le>
      getCount sampleEnv (votedApprovals thresholdProposal (newApprovalStore sampleEnv)) (proposalHash sampleEnv thresholdProposal)"
    "1 \<le> getCount sampleEnv (votedApprovals thresholdProposal (newApprovalStore sampleEnv)) (proposalHash sampleEnv thresholdProposal)"
    by (simp_all add: voted_count t)
  note x = execute_live [OF sampleEnv_sound votedLedger_run(3) [OF p] voted_executable [OF p] c votedApprovals_executed,
      unfolded voted_count]
  have a: "fieldAdd sampleEnv 0 1 = 1" by (simp add: sampleAdd)
  have d: "pTxType thresholdProposal = TxType CHANGE_THRESHOLD" "pDestination thresholdProposal = Destination LOCAL" "pData thresholdProposal = 1"
    by (simp_all add: thresholdProposal_def localProposal_def)
  show ?thesis
    by (simp add: thresholdCall_def executeThresholdChange_def assertChildMultiSigEnabledIfChild_def
        getInitializedOwnersCommitment_def assertLocalProposal_def x d t a Let_def setGovernanceState_def
        bumpConfigNonce_def executedThreshold_def)
qed

section \<open>A child\<close>

definition sampleConfigHash :: field where
  "sampleConfigHash = childConfigHash sampleEnv (computeOwnerChain sampleEnv sampleOwners) 2 2"

definition remoteProposal :: "txType \<Rightarrow> field \<Rightarrow> field \<Rightarrow> proposal" where
  "remoteProposal ty d n = \<lparr>pReceivers = replicate 9 emptyReceiver, pTokenId = 1, pTxType = TxType ty,
     pData = d, pMemoHash = 0, pNonce = n, pConfigNonce = 0, pExpirySlot = 0, pGuardAddress = keyG,
     pDestination = Destination REMOTE, pChildAccount = keyC\<rparr>"

definition createProposal :: proposal where
  "createProposal = remoteProposal CREATE_CHILD sampleConfigHash 0"

definition reclaimProposal :: proposal where
  "reclaimProposal = remoteProposal RECLAIM_CHILD 5 1"

definition reservedChild :: guard where
  "reservedChild = (deployedGuard keyC)\<lparr>accPermissions := GUARD_PERMISSIONS, parent := keyG, reservedConfigHash := sampleConfigHash\<rparr>"

definition reservedLedger :: ledger where
  "reservedLedger = setAccount keyC reservedChild (addGenuine keyC (setAccount keyC (deployedGuard keyC) rootLedger))"

definition createLedger :: ledger where
  "createLedger = setAccount keyG (votedRoot createProposal) reservedLedger"

abbreviation childGuard :: guard where
  "childGuard \<equiv> initializedGuard keyC keyG"

definition childLedger :: ledger where
  "childLedger = setAccount keyC childGuard createLedger"

definition reclaimRoot :: guard where
  "reclaimRoot = votedGuard reclaimProposal (votedApprovals createProposal (newApprovalStore sampleEnv))
     (votedNullifiers createProposal (newNullifierStore sampleEnv)) (votedRoot createProposal)"

definition reclaimLedger :: ledger where
  "reclaimLedger = setAccount keyG reclaimRoot childLedger"

lemma keys_differ [simp]: "keyC \<noteq> keyG" "keyG \<noteq> keyC" "keyG \<noteq> emptyKey" "keyC \<noteq> emptyKey" "emptyKey \<noteq> keyG" "emptyKey \<noteq> keyC"
  "keyR \<noteq> emptyKey" "keyR \<noteq> keyG"
  by (simp_all add: key_defs)

lemma reach_reserved: "reach sampleEnv 4 reservedLedger"
proof -
  let ?l = "addGenuine keyC (setAccount keyC (deployedGuard keyC) rootLedger)"
  have free: "accounts rootLedger keyC = None" by (simp add: rootLedger_def freshLedger_def)
  have 3: "reach sampleEnv 3 ?l" using reach.step [OF reach_rootLedger step_deploy [OF free]] by (simp add: numeral_3_eq_3 numeral_2_eq_2)
  have nz: "ownersCommitment rootGuard \<noteq> 0" "parent rootGuard = emptyKey"
    by (simp_all add: initializedGuard_def computeOwnerChain_nonzero soundEnv_collisionFree [OF sampleEnv_sound])
  have curve: "onCurve sampleEnv (pkX keyG)" by (simp add: key_defs sampleEnv_simps)
  have "\<exists>evs. callMethod sampleEnv (ledgerWorld ?l) keyC (deployedGuard keyC) (ReserveForParent keyG 0 2 2 ownerArray) = Inr (reservedChild, evs, [])"
    using nz curve by (simp add: reserveForParent_def lockPermissions_def deployedGuard_def deploy_def GUARD_DEPLOY_PERMISSIONS_def
        lookupGuard_def rootLedger_guard assertValidInitialGovernance_def MAX_OWNERS_def coherent_owners(1,2) reservedChild_def
        sampleConfigHash_def Let_def)
  then obtain evs where c: "callMethod sampleEnv (ledgerWorld ?l) keyC (deployedGuard keyC) (ReserveForParent keyG 0 2 2 ownerArray) = Inr (reservedChild, evs, [])" ..
  have "guardStep sampleEnv ?l (setAccount keyC reservedChild ?l)"
    by (rule step_call(1) [OF _ _ c]) (simp_all add: coherent_owners(3))
  from reach.step [OF 3 this] show ?thesis by (simp add: reservedLedger_def numeral_eq_Suc)
qed

lemma shape_remote:
  assumes "p = createProposal \<or> p = reclaimProposal"
  shows "assertProposalShape sampleEnv g p = Inr ()" "typedProposal p"
  using assms by (auto simp: createProposal_def reclaimProposal_def remoteProposal_def assertProposalShape_def
      isTx_def emptyReceiver_def NATIVE_TOKEN_ID_def atMostOneReceiver_def assertOnCurveIf_def
      ON_CURVE_KEY_def key_defs sampleEnv_simps typedProposal_def MAX_RECEIVERS_def Let_def list_all_iff)

lemma votable_create: "votable (ledgerWorld reservedLedger) keyG rootGuard createProposal"
  by (simp add: votable_def createProposal_def remoteProposal_def reservedLedger_def rootLedger_guard notExpired_def
      initializedGuard_def assertProposalDestinationAndChildAccount_def assertFreshProposalNonce_def lookupGuard_def Let_def)

lemma create_votes:
  "(guardStep sampleEnv ^^ 2) reservedLedger createLedger"
  "synced sampleEnv (votedRoot createProposal) sampleOwners (votedApprovals createProposal (newApprovalStore sampleEnv))
     (votedNullifiers createProposal (newNullifierStore sampleEnv))"
proof -
  have acc: "accounts reservedLedger keyG = Some rootGuard" by (simp add: reservedLedger_def rootLedger_guard)
  have p: "createProposal = createProposal \<or> createProposal = reclaimProposal" by simp
  from two_votes [OF acc synced_new votable_create shape_remote(2,1) [OF p] new_counts(1) new_counts(2) new_counts(2)]
  show "(guardStep sampleEnv ^^ 2) reservedLedger createLedger"
    "synced sampleEnv (votedRoot createProposal) sampleOwners (votedApprovals createProposal (newApprovalStore sampleEnv))
       (votedNullifiers createProposal (newNullifierStore sampleEnv))"
    by (simp_all add: createLedger_def votedRoot_def)
qed

definition createCall :: "(sampleMap \<times> field, bool) call" where
  "createCall = ExecuteSetupChild 2 2 ownerArray createProposal (votedWitness createProposal (newApprovalStore sampleEnv)) 3"

lemma createLedger_guards: "accounts createLedger keyG = Some (votedRoot createProposal)"
  "accounts createLedger keyC = Some reservedChild" "globalSlot createLedger = 1" "genuine createLedger keyG" "genuine createLedger keyC"
  by (simp_all add: createLedger_def reservedLedger_def rootLedger_guard)

lemma parent_approved:
  assumes "accounts w keyG = Some pg" "globalSlot w = 1" "synced sampleEnv pg sampleOwners (votedApprovals p aps) nus"
    and "threshold pg = 2" "configNonce pg = 0" "pConfigNonce p = 0" "pGuardAddress p = keyG" "pExpirySlot p = 0"
  shows "assertParentApprovalState sampleEnv w p keyG (votedWitness p aps) 3 = Inr (proposalHash sampleEnv p)"
proof -
  have w: "computeRootAndKey sampleEnv (votedWitness p aps) 3 = (approvalRoot pg, proposalHash sampleEnv p)"
    using approval_witness(1) [OF sampleEnv_sound assms(3), of "proposalHash sampleEnv p"] by (simp add: voted_count)
  have m: "3 \<noteq> EXECUTED_MARKER sampleEnv"
    using EXECUTED_MARKER_eq [OF soundEnv_fieldLarge [OF sampleEnv_sound]] sampleOrder_big by simp
  show ?thesis
    using assms w m synced_nonzero [OF sampleEnv_sound assms(3)]
    by (auto simp: assertParentApprovalState_Inr notExpired_def voted_count)
qed

lemma createCall_ok:
  "\<exists>evs. callMethod sampleEnv (ledgerWorld createLedger) keyC reservedChild createCall = Inr (childGuard, evs, [])"
proof -
  have ap: "assertParentApprovalState sampleEnv (ledgerWorld createLedger) createProposal keyG
      (votedWitness createProposal (newApprovalStore sampleEnv)) 3 = Inr (proposalHash sampleEnv createProposal)"
    by (rule parent_approved [OF _ _ create_votes(2)])
      (simp_all add: createLedger_guards votedRoot_def votedGuard_def initializedGuard_def createProposal_def remoteProposal_def)
  obtain evs where init: "initializeState sampleEnv reservedChild 2 2 keyG 0 0 ownerArray = Inr (reservedChild\<lparr>
      ownersCommitment := computeOwnerChain sampleEnv [keyA, keyB], threshold := 2, numOwners := 2, nonce := 0,
      approvalRoot := EMPTY_MERKLE_MAP_ROOT sampleEnv, voteNullifierRoot := EMPTY_MERKLE_MAP_ROOT sampleEnv,
      parent := keyG, parentNonce := 0, childExecutionRoot := EMPTY_MERKLE_MAP_ROOT sampleEnv,
      childMultiSigEnabled := 1\<rparr>, evs)"
    using initialize_sample [of reservedChild keyG] by (auto simp: reservedChild_def deployedGuard_def deploy_def)
  have d: "pGuardAddress createProposal = keyG" "pTxType createProposal = TxType CREATE_CHILD" "pNonce createProposal = 0"
    "pDestination createProposal = Destination REMOTE" "pChildAccount createProposal = keyC" "pData createProposal = sampleConfigHash"
    by (simp_all add: createProposal_def remoteProposal_def)
  have r: "parent reservedChild = keyG" "reservedConfigHash reservedChild = sampleConfigHash" by (simp_all add: reservedChild_def)
  have e: "(reservedChild\<lparr>
      ownersCommitment := computeOwnerChain sampleEnv [keyA, keyB], threshold := 2, numOwners := 2, nonce := 0,
      approvalRoot := EMPTY_MERKLE_MAP_ROOT sampleEnv, voteNullifierRoot := EMPTY_MERKLE_MAP_ROOT sampleEnv,
      parent := keyG, parentNonce := 0, childExecutionRoot := EMPTY_MERKLE_MAP_ROOT sampleEnv,
      childMultiSigEnabled := 1\<rparr>)\<lparr>reservedConfigHash := 0\<rparr> = childGuard"
    by (simp add: reservedChild_def deployedGuard_def deploy_def initializedGuard_def)
  show ?thesis
    using init ap by (simp add: createCall_def executeSetupChild_def d r coherent_owners(1,2) Let_def e flip: sampleConfigHash_def)
qed

lemma reach_createLedger: "reach sampleEnv 6 createLedger"
  using reach_relpowp [OF create_votes(1) reach_reserved] by simp

lemma reach_childLedger: "reach sampleEnv 7 childLedger"
proof -
  obtain evs where c: "callMethod sampleEnv (ledgerWorld createLedger) keyC reservedChild createCall = Inr (childGuard, evs, [])"
    using createCall_ok ..
  have p: "createProposal = createProposal \<or> createProposal = reclaimProposal" by simp
  have "guardStep sampleEnv createLedger childLedger"
    unfolding childLedger_def
    by (rule step_call(1) [OF createLedger_guards(2) _ c])
      (simp add: createCall_def coherent_owners(3) shape_remote(2) [OF p])
  from reach.step [OF reach_createLedger this] show ?thesis by (simp add: numeral_eq_Suc)
qed

lemma childLedger_guards: "accounts childLedger keyG = Some (votedRoot createProposal)"
  "accounts childLedger keyC = Some childGuard" "globalSlot childLedger = 1" "genuine childLedger keyG" "genuine childLedger keyC"
  by (simp_all add: childLedger_def createLedger_guards)

lemma reclaim_votes:
  "(guardStep sampleEnv ^^ 2) childLedger reclaimLedger"
  "synced sampleEnv reclaimRoot sampleOwners
     (votedApprovals reclaimProposal (votedApprovals createProposal (newApprovalStore sampleEnv)))
     (votedNullifiers reclaimProposal (votedNullifiers createProposal (newNullifierStore sampleEnv)))"
proof -
  have p: "reclaimProposal = createProposal \<or> reclaimProposal = reclaimProposal" by simp
  have ne: "proposalHash sampleEnv reclaimProposal \<noteq> proposalHash sampleEnv createProposal"
    using proposalHash_eq [OF soundEnv_collisionFree [OF sampleEnv_sound]] shape_remote(2)
    by (metis createProposal_def reclaimProposal_def remoteProposal_def TxType_eq proposal.ext_inject txType.distinct)
  have v: "votable (ledgerWorld childLedger) keyG (votedRoot createProposal) reclaimProposal"
    by (simp add: votable_def reclaimProposal_def remoteProposal_def childLedger_guards notExpired_def votedRoot_def votedGuard_def
        initializedGuard_def assertProposalDestinationAndChildAccount_def assertFreshProposalNonce_def lookupGuard_def Let_def
        computeOwnerChain_nonzero soundEnv_collisionFree [OF sampleEnv_sound])
  have c: "getCount sampleEnv (votedApprovals createProposal (newApprovalStore sampleEnv)) (proposalHash sampleEnv reclaimProposal) = 0"
    using ne by (simp add: votedApprovals_count new_counts)
  have n: "\<not> isNullified sampleEnv (votedNullifiers createProposal (newNullifierStore sampleEnv)) (proposalHash sampleEnv reclaimProposal) pk" for pk
    using ne by (simp add: votedNullifiers_voted nullifierStoreInv_new [OF sampleEnv_merkle] new_counts)
  from two_votes [OF childLedger_guards(1) create_votes(2) v shape_remote(2,1) [OF p] c n n]
  show "(guardStep sampleEnv ^^ 2) childLedger reclaimLedger"
    "synced sampleEnv reclaimRoot sampleOwners
       (votedApprovals reclaimProposal (votedApprovals createProposal (newApprovalStore sampleEnv)))
       (votedNullifiers reclaimProposal (votedNullifiers createProposal (newNullifierStore sampleEnv)))"
    by (simp_all add: reclaimLedger_def reclaimRoot_def)
qed

lemma reach_reclaimLedger: "reach sampleEnv 9 reclaimLedger"
  using reach_relpowp [OF reclaim_votes(1) reach_childLedger] by simp

lemma reclaimLedger_guards: "accounts reclaimLedger keyG = Some reclaimRoot" "accounts reclaimLedger keyC = Some childGuard"
  "globalSlot reclaimLedger = 1" "genuine reclaimLedger keyG" "genuine reclaimLedger keyC" "balances reclaimLedger = (\<lambda>_. 100)"
  by (simp_all add: reclaimLedger_def childLedger_guards) (simp add: childLedger_def createLedger_def reservedLedger_def rootLedger_guard)

definition reclaimCall :: "(sampleMap \<times> field, bool) call" where
  "reclaimCall = ExecuteReclaimToParent reclaimProposal
     (votedWitness reclaimProposal (votedApprovals createProposal (newApprovalStore sampleEnv))) 3
     (mapWitness sampleEnv (emptyMap sampleEnv) (proposalHash sampleEnv reclaimProposal)) 5"

lemma reclaimCall_ok: "isOk (transact sampleEnv (ledgerWorld reclaimLedger) keyC reclaimCall)"
proof -
  let ?h = "proposalHash sampleEnv reclaimProposal"
  have ap: "assertParentApprovalState sampleEnv (ledgerWorld reclaimLedger) reclaimProposal keyG
      (votedWitness reclaimProposal (votedApprovals createProposal (newApprovalStore sampleEnv))) 3 = Inr ?h"
    by (rule parent_approved [OF _ _ reclaim_votes(2)])
      (simp_all add: reclaimLedger_guards reclaimRoot_def votedRoot_def votedGuard_def initializedGuard_def reclaimProposal_def remoteProposal_def)
  have cw: "computeRootAndKey sampleEnv (mapWitness sampleEnv (emptyMap sampleEnv) ?h) 0 = (childExecutionRoot childGuard, ?h)"
    using mm.wit_reads [OF sampleEnv_merkle, of "emptyMap sampleEnv" ?h]
    by (simp add: mapGet_empty [OF sampleEnv_merkle] initializedGuard_def EMPTY_MERKLE_MAP_ROOT_def)
  have g: "parent childGuard = keyG" "parentNonce childGuard = 0" "ownersCommitment childGuard \<noteq> 0"
    by (simp_all add: initializedGuard_def computeOwnerChain_nonzero soundEnv_collisionFree [OF sampleEnv_sound])
  have d: "pTxType reclaimProposal = TxType RECLAIM_CHILD" "pNonce reclaimProposal = 1" "pData reclaimProposal = 5"
    "pDestination reclaimProposal = Destination REMOTE" "pChildAccount reclaimProposal = keyC"
    by (simp_all add: reclaimProposal_def remoteProposal_def)
  have a: "fieldAdd sampleEnv 0 1 = 1" by (simp add: sampleAdd)
  have l: "assertLifecycle sampleEnv (ledgerWorld reclaimLedger) keyC childGuard RECLAIM_CHILD ''Not a reclaim child tx'' reclaimProposal
      (votedWitness reclaimProposal (votedApprovals createProposal (newApprovalStore sampleEnv))) 3
      (mapWitness sampleEnv (emptyMap sampleEnv) ?h) = Inr (?h, childGuard\<lparr>parentNonce := 1\<rparr>)"
    using ap cw g d a by (simp add: assertLifecycle_Inr)
  have p: "reclaimProposal = createProposal \<or> reclaimProposal = reclaimProposal" by simp
  show ?thesis
    using l g d shape_remote(2) [OF p]
    by (simp add: reclaimCall_def transact_def reclaimLedger_guards executeReclaimToParent_def Let_def case_prod_beta)
qed

end
