(* ===== verification/Witnesses.thy ===== *)
theory Witnesses
  imports Scenario
begin

text \<open>
  The contract properties instantiated on the concrete run of \<open>Scenario\<close>, one witness each: every
  hypothesis is discharged there.
\<close>

lemma sampleSmall [simp]: "x < 1000 \<Longrightarrow> x < fieldOrder sampleEnv"
  using sampleOrder_big by simp

lemmas transferRun = votedLedger_run [of transferProposal, OF disjI1, OF refl]

lemmas thresholdRun = votedLedger_run [of thresholdProposal, OF disjI2, OF refl]

lemma transferCall_Inr:
  obtains w evs where "transact sampleEnv (ledgerWorld (votedLedger transferProposal)) keyG transferCall = Inr (w, evs)"
  using transferCall_ok by (auto simp: isOk_iff)

lemma reclaimCall_Inr:
  obtains w evs where "transact sampleEnv (ledgerWorld reclaimLedger) keyC reclaimCall = Inr (w, evs)"
  using reclaimCall_ok by (auto simp: isOk_iff)

theorem execution_needs_quorum_witness: "approvedBy sampleEnv (votedRoot transferProposal) transferProposal"
proof -
  obtain w evs where t: "transact sampleEnv (ledgerWorld (votedLedger transferProposal)) keyG transferCall = Inr (w, evs)"
    by (rule transferCall_Inr)
  show ?thesis
    by (rule execution_needs_quorum [OF sampleEnv_sound transferRun(2) _ votedLedger_guard(2,1) t])
      (simp_all add: sampleSmall transferCall_def)
qed

theorem lifecycle_needs_parent_quorum_witness:
  "pChildAccount reclaimProposal = keyC \<and> pGuardAddress reclaimProposal = keyG \<and> approvedBy sampleEnv reclaimRoot reclaimProposal"
proof -
  obtain w evs where t: "transact sampleEnv (ledgerWorld reclaimLedger) keyC reclaimCall = Inr (w, evs)"
    by (rule reclaimCall_Inr)
  have p: "parent childGuard = keyG" by (simp add: initializedGuard_def)
  show ?thesis
    using lifecycle_needs_parent_quorum [OF sampleEnv_sound reach_reclaimLedger _ reclaimLedger_guards(2) t, of reclaimProposal]
    by (simp add: sampleSmall reclaimCall_def p reclaimLedger_guards)
qed

lemma settle_zeros: "settle a (replicate n (a, 0)) b = Inr b"
  by (induction n) auto

theorem funds_leave_only_with_quorum_witness:
  "\<exists>c p w evs. transact sampleEnv (ledgerWorld (votedLedger transferProposal)) keyG c = Inr (w, evs) \<and>
     balances w keyR = 110 \<and> balances w keyG = 90 \<and>
     (localExecution c = Some p \<and> approvedBy sampleEnv (votedRoot transferProposal) p \<or>
      lifecycleExecution c = Some p \<and> pChildAccount p = keyG)"
proof -
  obtain w evs where t: "transact sampleEnv (ledgerWorld (votedLedger transferProposal)) keyG transferCall = Inr (w, evs)"
    by (rule transferCall_Inr)
  obtain g' sends where c: "callMethod sampleEnv (ledgerWorld (votedLedger transferProposal)) keyG (votedRoot transferProposal)
      transferCall = Inr (g', evs, sends)"
    and st: "settle keyG sends (balances (votedLedger transferProposal)) = Inr (balances w)"
    by (rule invoke_call [OF votedLedger_guard(1) t])
  have "sends = executeTransfers keyG transferProposal"
    using c by (auto simp: transferCall_def executeTransfer_def Let_def case_prod_beta)
  then have "sends = (keyR, 10) # replicate 8 (keyG, 0)"
    by (simp add: executeTransfers_def transferProposal_def localProposal_def emptyReceiver_def Let_def)
  moreover have b0: "balances (votedLedger transferProposal) = (\<lambda>_. 100)" by (simp add: votedLedger_def rootLedger_guard)
  ultimately have bw: "balances w = ((\<lambda>_. 100)(keyG := 90, keyR := 110))" using st by (simp add: settle_zeros)
  then have b: "balances w keyG = 90" "balances w keyR = 110" "balances (votedLedger transferProposal) keyG = 100"
    using b0 keys_differ(8) by (simp_all del: keys_differ add: key_defs)
  have s: "guardStep sampleEnv (votedLedger transferProposal) (afterCall (votedLedger transferProposal) w)"
    unfolding afterCall_def using votedLedger_guard(1) t by (intro guardStep.invoke) auto
  have less: "balances (afterCall (votedLedger transferProposal) w) keyG < balances (votedLedger transferProposal) keyG"
    using b by (simp add: afterCall_def)
  have n: "int 4 + 1 < fieldOrder sampleEnv" by (simp add: sampleSmall)
  from funds_leave_only_with_quorum [OF sampleEnv_sound transferRun(2) n votedLedger_guard(2) s less]
  obtain g c p w' evs' where r: "accounts (votedLedger transferProposal) keyG = Some g"
    "transact sampleEnv (ledgerWorld (votedLedger transferProposal)) keyG c = Inr (w', evs')"
    "afterCall (votedLedger transferProposal) w = afterCall (votedLedger transferProposal) w'"
    "localExecution c = Some p \<and> approvedBy sampleEnv g p \<or> lifecycleExecution c = Some p \<and> pChildAccount p = keyG"
    by blast
  have "balances w' = balances w" using arg_cong [OF r(3), of balances] by (simp add: afterCall_def)
  moreover have "g = votedRoot transferProposal" using r(1) votedLedger_guard(1) by simp
  ultimately show ?thesis using r(2,4) b by metis
qed

theorem local_never_replayed_witness:
  "\<exists>w evs. transact sampleEnv (ledgerWorld (votedLedger transferProposal)) keyG transferCall = Inr (w, evs) \<and>
     \<not> isOk (transact sampleEnv (ledgerWorld (afterCall (votedLedger transferProposal) w)) keyG transferCall)"
proof -
  obtain w evs where t: "transact sampleEnv (ledgerWorld (votedLedger transferProposal)) keyG transferCall = Inr (w, evs)"
    by (rule transferCall_Inr)
  have "(guardStep sampleEnv ^^ 0) (afterCall (votedLedger transferProposal) w) (afterCall (votedLedger transferProposal) w)" by simp
  from local_never_replayed [OF sampleEnv_sound transferRun(2) votedLedger_guard(2,1) t _ this, of transferProposal transferCall] t
  show ?thesis by (auto simp: sampleSmall transferCall_def)
qed

theorem lifecycle_never_replayed_witness:
  "\<exists>w evs. transact sampleEnv (ledgerWorld reclaimLedger) keyC reclaimCall = Inr (w, evs) \<and>
     \<not> isOk (transact sampleEnv (ledgerWorld (afterCall reclaimLedger w)) keyC reclaimCall)"
proof -
  obtain w evs where t: "transact sampleEnv (ledgerWorld reclaimLedger) keyC reclaimCall = Inr (w, evs)"
    by (rule reclaimCall_Inr)
  have "(guardStep sampleEnv ^^ 0) (afterCall reclaimLedger w) (afterCall reclaimLedger w)" by simp
  from lifecycle_never_replayed [OF sampleEnv_sound reach_reclaimLedger reclaimLedger_guards(5,2) t _ this, of reclaimProposal reclaimCall] t
  show ?thesis by (auto simp: sampleSmall reclaimCall_def)
qed

theorem config_change_kills_pending_witness:
  "\<not> isOk (transact sampleEnv (ledgerWorld (setAccount keyG executedThreshold (votedLedger thresholdProposal))) keyG transferCall)"
proof -
  obtain evs where c: "callMethod sampleEnv (ledgerWorld (votedLedger thresholdProposal)) keyG (votedRoot thresholdProposal) thresholdCall =
     Inr (executedThreshold, evs, [])" using thresholdCall_ok ..
  have ty: "typedCall thresholdCall" using shape_local(2) [of thresholdProposal] by (simp add: thresholdCall_def)
  note t = step_call(2) [OF votedLedger_guard(1) ty c]
  define w where "w = (ledgerWorld (votedLedger thresholdProposal))\<lparr>accounts := (accounts (votedLedger thresholdProposal))(keyG := Some executedThreshold)\<rparr>"
  have same: "afterCall (votedLedger thresholdProposal) w = setAccount keyG executedThreshold (votedLedger thresholdProposal)"
    by (simp add: afterCall_def w_def setAccount_def)
  have 0: "(guardStep sampleEnv ^^ 0) (afterCall (votedLedger thresholdProposal) w) (setAccount keyG executedThreshold (votedLedger thresholdProposal))"
    by (simp add: same)
  have w: "accounts w keyG = Some executedThreshold" by (simp add: w_def)
  have cn: "configNonce executedThreshold \<noteq> configNonce (votedRoot thresholdProposal)"
    by (simp add: executedThreshold_def votedRoot_def votedGuard_def initializedGuard_def)
  have v: "actsOn transferCall = Some transferProposal" by (simp add: transferCall_def actsOn_def)
  have pc: "pGuardAddress transferProposal = keyG" "pConfigNonce transferProposal = configNonce (votedRoot thresholdProposal)"
    by (simp_all add: transferProposal_def localProposal_def votedRoot_def votedGuard_def initializedGuard_def)
  show ?thesis
    by (rule config_change_kills_pending [OF sampleEnv_sound thresholdRun(2) votedLedger_guard(2,1) t [folded w_def] w cn 0 _ v pc])
      (simp add: sampleSmall)
qed

theorem governance_always_witness: "0 < threshold rootGuard \<and> threshold rootGuard \<le> numOwners rootGuard"
proof -
  have "ownersCommitment rootGuard \<noteq> 0"
    by (simp add: initializedGuard_def computeOwnerChain_nonzero soundEnv_collisionFree [OF sampleEnv_sound])
  from governance_always [OF sampleEnv_sound reach_rootLedger _ rootLedger_guard(2,1) this] show ?thesis
    by (simp add: sampleSmall)
qed

theorem permissions_sealed_witness:
  "\<exists>g'. accounts (votedLedger transferProposal) keyG = Some g' \<and> accPermissions g' = GUARD_PERMISSIONS"
proof -
  have nz: "ownersCommitment rootGuard \<noteq> 0"
    by (simp add: initializedGuard_def computeOwnerChain_nonzero soundEnv_collisionFree [OF sampleEnv_sound])
  from permissions_sealed [OF sampleEnv_sound reach_rootLedger rootLedger_guard(2,1) _ transferRun(1) nz] show ?thesis
    by (auto simp: sampleSmall)
qed


theorem guard_refines_vault_witness:
  "\<exists>v. vaultInv sampleEnv keyG (votedRoot thresholdProposal) v \<and> vaultInv sampleEnv keyG executedThreshold (absCall thresholdCall v)"
proof -
  obtain evs where c: "callMethod sampleEnv (ledgerWorld (votedLedger thresholdProposal)) keyG (votedRoot thresholdProposal) thresholdCall =
     Inr (executedThreshold, evs, [])" using thresholdCall_ok ..
  have nz: "ownersCommitment (votedRoot thresholdProposal) \<noteq> 0"
    by (simp add: votedRoot_def votedGuard_def initializedGuard_def computeOwnerChain_nonzero soundEnv_collisionFree [OF sampleEnv_sound])
  have n: "int 4 + 1 < fieldOrder sampleEnv" by (simp add: sampleSmall)
  obtain v where v: "vaultInv sampleEnv keyG (votedRoot thresholdProposal) v" "nonce (votedRoot thresholdProposal) + 1 < fieldOrder sampleEnv"
    "configNonce (votedRoot thresholdProposal) + 1 < fieldOrder sampleEnv" "parentNonce (votedRoot thresholdProposal) + 1 < fieldOrder sampleEnv"
    by (rule reach_vault [OF sampleEnv_sound thresholdRun(2) n votedLedger_guard(2,1) nz])
  have ty: "typedCall thresholdCall" "\<not> initialises thresholdCall"
    using shape_local(2) [of thresholdProposal] by (simp_all add: thresholdCall_def)
  show ?thesis using guard_refines_vault [OF sampleEnv_sound v(1) ty v(2-4) c] v(1) by blast
qed

definition proposedRoot :: guard where
  "proposedRoot = voteUpdate sampleEnv (newApprovalStore sampleEnv) (newNullifierStore sampleEnv)
     (proposalHash sampleEnv transferProposal) keyA 2 rootGuard"

definition proposedWorld :: world where
  "proposedWorld = (ledgerWorld rootLedger)\<lparr>accounts := (accounts rootLedger)(keyG := Some proposedRoot)\<rparr>"

theorem owners_can_execute_witness:
  "\<exists>w' aps' nus'. voteAll sampleEnv keyG transferProposal sampleOwners
      (proposedWorld, setCount sampleEnv (newApprovalStore sampleEnv) (proposalHash sampleEnv transferProposal) 2,
       nullify sampleEnv (newNullifierStore sampleEnv) (proposalHash sampleEnv transferProposal) keyA) [(keyB, True)] = Inr (w', aps', nus') \<and>
    isOk (transact sampleEnv w' keyG (ExecuteTransfer transferProposal
      (getApprovalWitness sampleEnv aps' (proposalHash sampleEnv transferProposal)) (getCount sampleEnv aps' (proposalHash sampleEnv transferProposal))))"
proof -
  let ?h = "proposalHash sampleEnv transferProposal"
  have s: "synced sampleEnv proposedRoot sampleOwners (setCount sampleEnv (newApprovalStore sampleEnv) ?h 2)
      (nullify sampleEnv (newNullifierStore sampleEnv) ?h keyA)"
    unfolding proposedRoot_def by (rule synced_vote [OF sampleEnv_sound synced_new])
  have x: "executable sampleEnv proposedWorld keyG proposedRoot transferProposal"
    by (simp add: executable_def proposedRoot_def proposedWorld_def voteUpdate_def initializedGuard_def transferProposal_def
        localProposal_def notExpired_def rootLedger_guard sampleAdd)
  have v: "\<forall>(pk, sg) \<in> set [(keyB, True)]. isOwner sampleEnv sampleOwners pk \<and>
      \<not> isNullified sampleEnv (nullify sampleEnv (newNullifierStore sampleEnv) ?h keyA) ?h pk \<and>
      verifySignature sampleEnv sg pk [proposalSigningMessage sampleEnv ?h ActApprove]"
    by (simp add: isNullified_nullify [OF sampleEnv_sound nullifierStoreInv_new [OF sampleEnv_merkle]] new_counts)
      (simp add: key_defs)
  have t: "pTxType transferProposal = TxType TRANSFER" "pChildAccount transferProposal = emptyKey"
    by (simp_all add: transferProposal_def localProposal_def)
  have g: "nonce proposedRoot = 0" "threshold proposedRoot = 2" by (simp_all add: proposedRoot_def voteUpdate_def initializedGuard_def)
  have acc: "accounts proposedWorld keyG = Some proposedRoot" and bal: "balances proposedWorld = (\<lambda>_. 100)"
    by (simp_all add: proposedWorld_def rootLedger_guard)
  have sum: "(\<Sum>r \<leftarrow> pReceivers transferProposal. if rAddress r = emptyKey then 0 else unat (rAmount r)) \<le> balances proposedWorld keyG"
    by (simp add: transferProposal_def localProposal_def emptyReceiver_def sum_list_replicate bal)
  show ?thesis
    by (rule owners_can_execute [OF sampleEnv_sound sampleEnv_base58 shape_local(2) t(1) x t(2) acc s, of 2 "[(keyB, True)]"])
      (use v sum in \<open>simp_all add: MAX_OWNERS_def g sampleSmall ap.read_write [OF sampleEnv_merkle]\<close>)
qed

section \<open>Rebuild\<close>

definition sampleExecution :: indexedEvent where
  "sampleExecution = mkEvent (Some 8) ''execution'' [(''proposalHash'', jField 5), (''txType'', jField 0), (''root'', jField 9)]"

definition sampleVote :: indexedEvent where
  "sampleVote = mkEvent (Some 7) ''approval'' [(''proposalHash'', jField 5), (''approver'', jKey sampleEnv keyA), (''approvalCount'', jField 2)]"

lemma sampleEvents_ok: "\<exists>s. rebuildStores sampleEnv [sampleExecution, sampleVote] None = Inr s"
proof -
  have "inField sampleEnv 5" "inField sampleEnv 2" using sampleOrder_big by (simp_all add: inField_def)
  then have ok: "isOk (mapEffect sampleEnv sampleExecution)" "isOk (mapEffect sampleEnv sampleVote)"
    by (simp_all add: sampleExecution_def sampleVote_def mapEffect_def isLocalExecution_def isExecution_def)
  then show ?thesis using rebuildStores_isOk [of sampleEnv "[sampleExecution, sampleVote]" None] by (simp add: isOk_iff)
qed

theorem rebuild_order_independent_witness:
  "\<exists>s s'. rebuildStores sampleEnv [sampleExecution, sampleVote] None = Inr s \<and>
     rebuildStores sampleEnv [sampleVote, sampleExecution] None = Inr s' \<and>
     getApprovalRoot sampleEnv (rsApprovals s') = getApprovalRoot sampleEnv (rsApprovals s)"
proof -
  obtain s where s: "rebuildStores sampleEnv [sampleExecution, sampleVote] None = Inr s" using sampleEvents_ok ..
  have "mset [sampleExecution, sampleVote] = mset [sampleVote, sampleExecution]" by simp
  from rebuild_order_independent [OF sampleEnv_merkle this s] s show ?thesis by blast
qed

definition sampleSetupEvents :: "indexedEvent list" where
  "sampleSetupEvents = map (indexEvent sampleEnv (Some 3)) (ownerEvents SetupOwnerEvent ownerArray 2)"

definition sampleChanges :: "ownerChange list" where
  "sampleChanges = [(1, keyR, True, [keyA, keyR, keyB]), (2, keyA, False, [keyR, keyB])]"

definition sampleChangeEvents :: "indexedEvent list" where
  "sampleChangeEvents = map (changeEvent sampleEnv (\<lambda>_. Some 4) (\<lambda>c. c)) sampleChanges"

theorem rebuild_owners_exact_witness:
  "rebuildOwners sampleEnv (rev (sampleSetupEvents @ sampleChangeEvents)) None = [keyR, keyB]"
proof (rule rebuild_owners_exact [OF sampleEnv_base58 soundEnv_collisionFree [OF sampleEnv_sound]
      soundEnv_generator [OF sampleEnv_sound]])
  show "mset (rev (sampleSetupEvents @ sampleChangeEvents)) =
    mset (map (indexEvent sampleEnv (Some 3)) (ownerEvents SetupOwnerEvent ownerArray 2) @
        map (changeEvent sampleEnv (\<lambda>_. Some 4) (\<lambda>c. c)) sampleChanges @ [])"
    by (simp add: sampleSetupEvents_def sampleChangeEvents_def)
  have "[keyA, keyR, keyB] = spliceAt 1 keyR [keyA, keyB]" by (simp add: spliceAt_def)
  then have "\<exists>i \<le> length [keyA, keyB]. [keyA, keyR, keyB] = spliceAt i keyR [keyA, keyB]" by (intro exI [of _ 1]) simp
  moreover have "activeOwners ownerArray 2 = [keyA, keyB]" by (simp add: activeOwners_def ownerArray_def)
  moreover have "filter (\<lambda>q. q \<noteq> keyA) [keyA, keyR, keyB] = [keyR, keyB]" by (simp add: key_defs)
  ultimately show "ownerRun (activeOwners ownerArray 2) sampleChanges = Some [keyR, keyB]"
    by (simp add: sampleChanges_def)
qed (auto simp: coherent_owners MAX_OWNERS_def sampleChanges_def sampleEnv_simps key_defs)

theorem events_mirror_call_witness:
  "\<exists>g' evs sends st'. callMethod sampleEnv (ledgerWorld (votedLedger transferProposal)) keyG (votedRoot transferProposal) transferCall
       = Inr (g', evs, sends) \<and>
     applyMapEvents sampleEnv (map (indexEvent sampleEnv (Some 9)) evs)
       (votedApprovals transferProposal (newApprovalStore sampleEnv), votedNullifiers transferProposal (newNullifierStore sampleEnv)) = Inr st' \<and>
     mapsSynced sampleEnv g' st'"
proof -
  obtain w evs where t: "transact sampleEnv (ledgerWorld (votedLedger transferProposal)) keyG transferCall = Inr (w, evs)"
    by (rule transferCall_Inr)
  obtain g' sends where c: "callMethod sampleEnv (ledgerWorld (votedLedger transferProposal)) keyG (votedRoot transferProposal)
      transferCall = Inr (g', evs, sends)"
    by (rule invoke_call [OF votedLedger_guard(1) t])
  have s: "mapsSynced sampleEnv (votedRoot transferProposal)
      (votedApprovals transferProposal (newApprovalStore sampleEnv), votedNullifiers transferProposal (newNullifierStore sampleEnv))"
    using transferRun(3) sampleOrder_big by (simp add: mapsSynced_def synced_def inField_def votedApprovals_count new_counts)
  have p: "votesOrExecutes transferCall = Some transferProposal \<or> lifecycleExecution transferCall = Some transferProposal"
    by (simp add: transferCall_def)
  have n: "int 4 + 1 < fieldOrder sampleEnv" by simp
  from events_mirror_call [OF sampleEnv_sound sampleEnv_base58 transferRun(2) n votedLedger_guard(2,1) c p sampleHash_inField s] c
  show ?thesis by blast
qed

end
