(* ===== verification/Backend_Witnesses.thy ===== *)
theory Backend_Witnesses
  imports Witnesses Checkpoint Proposal_Record Status_Cache Submission_Check Request_Validation
begin

text \<open>
  The properties of the stores' checkpoints and of the backend's checks, instantiated on concrete
  stores, proposals and answers.
\<close>

section \<open>Checkpoints\<close>

definition sampleStores :: "sampleMap rebuiltStores" where
  "sampleStores = \<lparr>rsOwners = [keyA, keyB], rsApprovals = setCount sampleEnv (newApprovalStore sampleEnv) 5 2,
     rsNullifiers = newNullifierStore sampleEnv, rsDivergentApproval = None, rsDivergentNullifier = None\<rparr>"

definition sampleScope :: storeScope where
  "sampleScope = \<lparr>scNetwork = ''devnet'', scAddress = ''vault''\<rparr>"

lemma sampleMerkle: "merkleLaws sampleEnv"
  by (rule sampleEnv_merkle)

lemma sampleStores_ok: "storesOk sampleEnv sampleStores"
proof -
  have keys: "asKeys (rsApprovals sampleStores) = [5]"
    by (simp add: sampleStores_def setCount_def newApprovalStore_def)
  have n: "getCount sampleEnv (rsApprovals sampleStores) 5 = 2"
    by (simp add: sampleStores_def ap.read_write [OF sampleMerkle])
  have "inField sampleEnv 5" "inField sampleEnv 2" by (simp_all add: inField_def sampleSmall)
  then show ?thesis using keys n
    by (simp add: storesOk_def)
      (simp add: sampleStores_def MAX_OWNERS_def key_defs sampleEnv_simps nullifierStoreInv_new [OF sampleMerkle]
        approvalStoreInv_setCount [OF sampleMerkle approvalStoreInv_new [OF sampleMerkle]]; simp add: newNullifierStore_def)
qed

definition sampleChain :: chainState where
  "sampleChain = cpRoots (checkpointStores sampleEnv sampleStores sampleScope None)"

definition sampleRequest :: offlineRequest where
  "sampleRequest = \<lparr>orVersion = 3, orNetwork = ''devnet'', orContract = ''vault'', orEvents = [],
     orCheckpoint = Some (checkpointStores sampleEnv sampleStores sampleScope None)\<rparr>"

lemma sampleRequest_accepted: "\<exists>s. storesFromOfflineRequest sampleEnv sampleRequest sampleChain = Inr s"
proof -
  have t: "case None of None \<Rightarrow> True | Some b \<Rightarrow> isSafeInteger b \<and> 0 \<le> b" by simp
  obtain s where r: "restoreStoreCheckpoint sampleEnv (checkpointStores sampleEnv sampleStores sampleScope None) sampleScope = Inr s"
    by (rule checkpoint_restores [OF sampleEnv_sound sampleEnv_base58 sampleStores_ok t])
  have v: "requireRoots sampleChain = Inr ()" "assertStoresMatchChain sampleEnv s sampleChain = Inr ()"
    using r by (auto simp: sampleChain_def restoreStoreCheckpoint_def Let_def)
  then show ?thesis using r
    by (simp add: storesFromOfflineRequest_def sampleRequest_def OFFLINE_REQUEST_VERSION_def sampleScope_def)
qed

definition sampleSource :: "chainState \<Rightarrow> checkpointSource" where
  "sampleSource chain = \<lparr>csKey = ''vault'', csScope = sampleScope,
     csRead = Inr (Some (checkpointStores sampleEnv sampleStores sampleScope (Some 7))),
     csEvents = (\<lambda>_. Inr []), csChain = (\<lambda>_. Inr chain)\<rparr>"

lemma sampleLoad: "\<exists>s cache cp. load sampleEnv (sampleSource sampleChain) [] = (Inr s, cache, cp)"
proof -
  have t: "case Some 7 of None \<Rightarrow> True | Some b \<Rightarrow> isSafeInteger b \<and> 0 \<le> b" by (simp add: isSafeInteger_def MAX_SAFE_INTEGER_def)
  obtain s where r: "restoreStoreCheckpoint sampleEnv (checkpointStores sampleEnv sampleStores sampleScope (Some 7)) sampleScope = Inr s"
    by (rule checkpoint_restores [OF sampleEnv_sound sampleEnv_base58 sampleStores_ok t])
  have same: "cpRoots (checkpointStores sampleEnv sampleStores sampleScope (Some 7)) = sampleChain"
    by (simp add: sampleChain_def checkpointStores_def)
  have v: "requireRoots sampleChain = Inr ()" "assertStoresMatchChain sampleEnv s sampleChain = Inr ()"
    using r by (auto simp: restoreStoreCheckpoint_def same Let_def)
  have th: "cpThroughBlock (checkpointStores sampleEnv sampleStores sampleScope (Some 7)) = Some 7"
    by (simp add: checkpointStores_def)
  have c: "cachedFor sampleEnv (sampleSource sampleChain) [] = Some (s, Some 7)"
    by (simp add: cachedFor_def sampleSource_def r th)
  have rb: "rebuildStores sampleEnv [] (Some s) = Inr (s\<lparr>rsDivergentApproval := None, rsDivergentNullifier := None\<rparr>)"
    by (simp add: rebuildStores_def blockHeights_def List.map_filter_simps rebuildOwners_def orderedChanges_def setupOwnersFrom_def)
  have src: "csEvents (sampleSource sampleChain) b = Inr []" "csChain (sampleSource sampleChain) b = Inr sampleChain" for b
    by (simp_all add: sampleSource_def)
  have same_roots: "assertStoresMatchChain sampleEnv (s\<lparr>rsDivergentApproval := None, rsDivergentNullifier := None\<rparr>) sampleChain = Inr ()"
    using v(2) by (simp add: assertStoresMatchChain_Inr)
  have "loadAttempt sampleEnv (sampleSource sampleChain) (Some (s, Some 7)) =
      Inr (s\<lparr>rsDivergentApproval := None, rsDivergentNullifier := None\<rparr>, Some 7)"
    by (simp add: loadAttempt_def src rb v(1) same_roots)
  then show ?thesis by (simp add: load_def c loadFinish_def)
qed

theorem load_fails_closed_witness:
  "\<exists>s cache cp chain b. load sampleEnv (sampleSource sampleChain) [] = (Inr s, cache, cp) \<and>
     csChain (sampleSource sampleChain) b = Inr chain \<and> storesVerified sampleEnv s chain"
  using sampleLoad load_fails_closed by metis

section \<open>Proposals\<close>

definition sampleRow :: proposalRow where
  "sampleRow = \<lparr>rowProposalHash = ''1'', rowProposer = None, rowToAddress = None, rowTokenId = None,
     rowTxType = Some (fieldToString (pTxType transferProposal)), rowData = None,
     rowNonce = Some (fieldToString 1), rowConfigNonce = Some (fieldToString 0), rowExpirySlot = Some (fieldToString 0),
     rowGuardAddress = None, rowMemo = None, rowMemoHash = None, rowExecutionMemoHash = None,
     rowDestination = Some ''local'', rowChildAccount = None, rowApprovals = 2, rowCreatedAtBlock = None,
     rowLastApproveTxHash = None, rowLastExecuteTxHash = None, rowLastApproveError = None, rowLastExecuteError = None,
     rowCreatedAt = 0, rowUpdatedAt = 0, rowReceivers = [], rowExecutions = []\<rparr>"

lemma sampleRow_of: "rowOf sampleRow transferProposal"
  by (simp add: rowOf_def sampleRow_def transferProposal_def localProposal_def)

text \<open>The guard after its first local execution: the proposal's nonce is used up.\<close>

definition spentGuard :: guard where
  "spentGuard = (initializedGuard keyG emptyKey)\<lparr>nonce := 1\<rparr>"

definition spentWorld :: world where
  "spentWorld = ledgerWorld (setAccount keyG spentGuard freshLedger)"

theorem reported_stale_is_rejected_witness:
  "deriveInvalidReason sampleRow (Some (countersOf spentGuard)) None = Some ProposalNonceStale \<and>
   \<not> isOk (callMethod sampleEnv spentWorld keyG spentGuard transferCall)"
proof -
  have acc: "accounts spentWorld keyG = Some spentGuard" "accounts spentWorld emptyKey = None"
    by (simp_all add: spentWorld_def freshLedger_def key_defs)
  have p: "pGuardAddress transferProposal = keyG" "pChildAccount transferProposal = emptyKey"
    by (simp_all add: transferProposal_def localProposal_def)
  have bad: "deriveInvalidReason sampleRow (Some (countersOf spentGuard)) None = Some ProposalNonceStale"
    unfolding deriveInvalidReason_row [OF sampleRow_of]
    by (simp add: spentGuard_def initializedGuard_def transferProposal_def localProposal_def)
  have "\<not> isOk (callMethod sampleEnv spentWorld keyG spentGuard transferCall)"
  proof -
    have c: "deriveInvalidReason sampleRow (Some (countersOf spentGuard)) (map_option countersOf (accounts spentWorld (pChildAccount transferProposal))) \<noteq> None"
      using bad by (simp add: p(2) acc(2))
    have b: "0 \<le> nonce spentGuard" "nonce spentGuard + 1 < fieldOrder sampleEnv"
      by (simp_all add: spentGuard_def sampleSmall)
    have v: "actsOn transferCall = Some transferProposal" by (simp add: transferCall_def actsOn_def)
    show ?thesis
      by (rule reported_stale_is_rejected [OF sampleRow_of acc(1) p(1) c b _ acc(1) v]) (simp add: p(2) acc(2))
  qed
  with bad show ?thesis ..
qed

section \<open>Statuses and reports\<close>

text \<open>A lookup is started and answered; the next call is served from the cache.\<close>

definition sampleReport :: report where
  "sampleReport = \<lparr>rpProposalId = 1, rpAction = ''approve'', rpTxHash = ''tx''\<rparr>"

definition sampleUpdate :: commandUpdate where
  "sampleUpdate = \<lparr>cuPublicKey = ''vault'', cuTokenId = Some ''mina'', cuIsProved = True, cuEvents = [[''0'', ''42'']],
     cuStateConditions = Some [Some ''7'', None]\<rparr>"

definition sampleSubmission :: submission where
  "sampleSubmission = \<lparr>sbTxHash = ''tx'', sbAction = Approve, sbProposalHash = ''42'', sbAccounts = [''vault'']\<rparr>"

theorem confirmed_submission_is_genuine_witness:
  "verifySubmittedTransaction ''mina'' (\<lambda>i. if i = 0 then None else Some [sampleUpdate]) (\<lambda>_. Some (\<lambda>_. Some [''07'', ''1'']))
     sampleSubmission LOOKUP_DELAYS_MS \<and> parseDecimal ''7'' = parseDecimal ''07''"
proof -
  let ?v = "verifySubmittedTransaction ''mina'' (\<lambda>i. if i = 0 then None else Some [sampleUpdate]) (\<lambda>_. Some (\<lambda>_. Some [''07'', ''1'']))
     sampleSubmission LOOKUP_DELAYS_MS"
  have v: ?v by code_simp
  from confirmed_submission_is_genuine [OF this] v show ?thesis
    by (auto simp: sampleUpdate_def sampleSubmission_def split: if_splits)
qed

end
