(* ===== verification/Offline_Witnesses.thy ===== *)
theory Offline_Witnesses
  imports Offline_Summary Backend_Witnesses
begin

text \<open>
  The properties of the offline command line on one concrete vault: two owners, a transfer that has been
  proposed, and the bundles a client exports for it. The parameters are those of \<open>baseEnv\<close> with a field
  large enough for the hashes that occur.
\<close>

section \<open>The vault\<close>

definition memoProposal :: proposal where
  "memoProposal = transferProposal\<lparr>pMemoHash := memoToField baseEnv ''rent''\<rparr>"

definition offApprovals :: "sampleMap approvalStore" where
  "offApprovals = setCount baseEnv (newApprovalStore baseEnv) (proposalHash baseEnv memoProposal) 2"

definition offStores :: "sampleMap rebuiltStores" where
  "offStores = \<lparr>rsOwners = [keyA, keyB], rsApprovals = offApprovals, rsNullifiers = newNullifierStore baseEnv,
     rsDivergentApproval = None, rsDivergentNullifier = None\<rparr>"

text \<open>The values that have to fit into the field.\<close>

definition offValues :: "field list" where
  "offValues = [memoToField baseEnv ''rent'', proposalHash baseEnv memoProposal, getCommitment baseEnv [keyA, keyB],
     getApprovalRoot baseEnv offApprovals, getNullifierRoot baseEnv (newNullifierStore baseEnv)]"

definition offEnv :: "(sampleMap, sampleMap \<times> field, bool) o1js" where
  "offEnv = baseEnv\<lparr>fieldOrder := fieldOrder baseEnv + sum_list (map abs offValues)\<rparr>"

lemma offOrder: "fieldOrder baseEnv \<le> fieldOrder offEnv" "2 ^ 254 < fieldOrder offEnv"
proof -
  have "0 \<le> sum_list (map abs offValues)" by (rule sum_list_nonneg) auto
  then show le: "fieldOrder baseEnv \<le> fieldOrder offEnv" by (simp add: offEnv_def)
  show "2 ^ 254 < fieldOrder offEnv" by (rule less_le_trans [OF baseOrder le])
qed

lemma offEnv_sound: "soundEnv offEnv"
proof -
  have "collisionFree offEnv" "generatorOnCurve offEnv"
    using baseEnv_sound by (simp_all add: soundEnv_def collisionFree_def generatorOnCurve_def offEnv_def)
  moreover have "merkleLaws offEnv" using baseEnv_merkle by (simp only: offEnv_def merkleLaws_order)
  ultimately show ?thesis using offOrder(2) by (simp add: soundEnv_def fieldLarge_def)
qed

lemma offEnv_base58: "base58Laws offEnv"
  using baseEnv_base58 by (simp only: offEnv_def base58Laws_order)

lemma offEnv_same:
  "memoToField offEnv m = memoToField baseEnv m" "proposalHash offEnv p = proposalHash baseEnv p"
  "getCommitment offEnv os = getCommitment baseEnv os" "getApprovalRoot offEnv aps = getApprovalRoot baseEnv aps"
  "getNullifierRoot offEnv nus = getNullifierRoot baseEnv nus"
  "newApprovalStore offEnv = newApprovalStore baseEnv" "newNullifierStore offEnv = newNullifierStore baseEnv"
  "setCount offEnv aps k v = setCount baseEnv aps k v" "getCount offEnv aps k = getCount baseEnv aps k"
  by (simp_all add: memoToField_def proposalHash_def proposalFields_def NETWORK_DOMAIN_def getCommitment_def computeOwnerChain_def
      INITIAL_OWNER_CHAIN_def ownerChainLink_def [abs_def] getApprovalRoot_def getNullifierRoot_def newApprovalStore_def
      newNullifierStore_def setCount_def getCount_def offEnv_def)

lemma offEnv_simps: "toBase58 offEnv = sampleBase58" "fromBase58 offEnv = sampleFromBase58" "onCurve offEnv x = (x \<noteq> 0)"
  "verifySignature offEnv sg pk msg = sg" "networkDomainName offEnv = Testnet"
  by (simp_all add: offEnv_def baseEnv_def)

lemma offValues_nonneg: "list_all (\<lambda>x. 0 \<le> x) offValues"
proof -
  have "0 \<le> getCommitment baseEnv os" for os
    by (induction os rule: rev_induct)
      (simp_all add: getCommitment_def computeOwnerChain_def INITIAL_OWNER_CHAIN_def ownerChainLink_def baseEnv_def sampleHash_def)
  moreover have "0 \<le> mapRoot baseEnv m" for m by (simp add: baseEnv_def sampleRoot_def)
  ultimately show ?thesis
    using baseHash_pos [of memoProposal]
    by (simp add: offValues_def memoToField_def baseEnv_def sampleHash_def getApprovalRoot_def getNullifierRoot_def)
qed

lemma offValue: "x \<in> set offValues \<Longrightarrow> inField offEnv x"
proof -
  assume x: "x \<in> set offValues"
  then have "0 \<le> x" using offValues_nonneg by (simp add: list_all_iff)
  moreover have "abs x \<le> sum_list (map abs offValues)" using x by (intro member_le_sum_list) auto
  moreover have "0 < fieldOrder baseEnv" using baseOrder by (rule less_trans [rotated]) simp
  ultimately show ?thesis by (simp add: inField_def offEnv_def)
qed

lemma offValue_small: "0 \<le> x \<Longrightarrow> x < 1000 \<Longrightarrow> inField offEnv x"
proof -
  have "1000 < fieldOrder offEnv" using offOrder(2) by (rule less_trans [rotated]) simp
  then show "0 \<le> x \<Longrightarrow> x < 1000 \<Longrightarrow> inField offEnv x" by (simp add: inField_def)
qed

section \<open>The bundles\<close>

definition vaultText :: string where
  "vaultText = sampleBase58 keyG"

text \<open>The snapshot of the vault, in the order of the state fields of the contract.\<close>

definition vaultState :: "field list" where
  "vaultState = [getCommitment baseEnv [keyA, keyB], 2, 2, 0, getNullifierRoot baseEnv (newNullifierStore baseEnv),
     getApprovalRoot baseEnv offApprovals, 0, 0, 0, 0, 0, 1]"

definition vaultAccount :: bundleAccount where
  "vaultAccount = \<lparr>baToken = '''', baNonce = ''0'', baBalance = ''0'', baZkappState = Some (map fieldToString vaultState),
     baVerificationKey = None\<rparr>"

definition offSigner :: "bool signer" where
  "offSigner = \<lparr>sgSignFields = (\<lambda>_ _. Some True), sgPublicKey = sampleFromBase58, sgTokenId = (\<lambda>_. None),
     sgState = (\<lambda>a i. Option.bind (caAppState a) (\<lambda>l. if i < length l then Some (l ! i) else None))\<rparr>"

definition offProposal :: bundleProposal where
  "offProposal = \<lparr>bpProposalHash = fieldToString (proposalHash baseEnv memoProposal), bpTxType = Some ''transfer'',
     bpTokenId = None, bpData = None, bpNonce = Some ''1'', bpConfigNonce = None, bpExpirySlot = None, bpGuardAddress = None,
     bpDestination = None, bpChildAccount = None, bpMemoHash = Some (fieldToString (memoToField baseEnv ''rent'')),
     bpMemo = Some ''rent'', bpReceivers = [\<lparr>brAddress = sampleBase58 keyR, brAmount = ''10''\<rparr>]\<rparr>"

definition offExecute :: executeBundle where
  "offExecute = \<lparr>bbVersion = 3,
     bbCheckpoint = Some (checkpointStores offEnv offStores \<lparr>scNetwork = ''testnet'', scAddress = vaultText\<rparr> None),
     bbNetwork = ''testnet'', bbContract = vaultText, bbFeePayer = sampleBase58 keyB, bbFee = Some (JNum 50000000),
     bbAccounts = [(vaultText, vaultAccount)], bbEvents = [], abProposal = offProposal, abChildAddress = None,
     abChildOwners = None, abChildThreshold = None, ebReceiverAccountExists = None, ebChildEvents = None\<rparr>"

definition offApprove :: approveBundle where
  "offApprove = approveBundle.truncate offExecute"

lemmas bundle_defs = offApprove_def approveBundle.truncate_def offExecute_def

lemma sampleKeys: "sampleFromBase58 (sampleBase58 keyG) = Some keyG" "sampleFromBase58 (sampleBase58 keyB) = Some keyB"
  "sampleFromBase58 (sampleBase58 keyR) = Some keyR" "sampleFromBase58 vaultText = Some keyG" "sampleBase58 keyR \<noteq> sampleBase58 emptyKey"
proof -
  have d: "pkX pk \<noteq> 0 \<Longrightarrow> sampleFromBase58 (sampleBase58 pk) = Some pk" for pk
    using offEnv_base58 unfolding base58Laws_def offEnv_simps by blast
  have i: "sampleBase58 pk = sampleBase58 pk' \<Longrightarrow> pk = pk'" for pk pk'
    using offEnv_base58 unfolding base58Laws_def offEnv_simps by blast
  show "sampleFromBase58 (sampleBase58 keyG) = Some keyG" "sampleFromBase58 (sampleBase58 keyB) = Some keyB"
    "sampleFromBase58 (sampleBase58 keyR) = Some keyR" "sampleFromBase58 vaultText = Some keyG"
    unfolding vaultText_def by (rule d, simp add: key_defs)+
  show "sampleBase58 keyR \<noteq> sampleBase58 emptyKey" using i [of keyR emptyKey] by (auto simp: key_defs)
qed

section \<open>What the command line computes\<close>

lemma offText: "toBigInt ''10'' = Inr 10" "toBigInt ''0'' = Inr 0" "toBigInt ''1'' = Inr 1"
proof -
  have t: "''10'' = decimal 10" "''0'' = decimal 0" "''1'' = decimal 1" by code_simp+
  show "toBigInt ''10'' = Inr 10" "toBigInt ''0'' = Inr 0" "toBigInt ''1'' = Inr 1"
    using toBigInt_decimal [of 10] toBigInt_decimal [of 0] toBigInt_decimal [of 1] unfolding t [symmetric] by simp_all
qed

lemma offReceivers: "buildTransferReceivers offEnv (bpReceivers offProposal) = Inr (pReceivers memoProposal)"
  by (simp add: buildTransferReceivers_def offProposal_def transferReceiver_def EMPTY_PUBKEY_B58_def offEnv_simps sampleKeys
      uint64FromText_def offText padReceivers_def memoProposal_def transferProposal_def localProposal_def MAX_RECEIVERS_def parseKey_def)

lemma offStruct: "buildProposalStruct offEnv (offProposal\<lparr>bpGuardAddress := Some vaultText\<rparr>) vaultText = Inr memoProposal"
proof -
  have "normalizeTxType (Some ''transfer'') = Some TRANSFER" using normalizeTxType_name [of TRANSFER] by simp
  then have t: "requireTxType (bpTxType offProposal) = Inr TRANSFER" by (simp add: requireTxType_def offProposal_def)
  have m: "inField offEnv (memoToField baseEnv ''rent'')" by (rule offValue) (simp add: offValues_def)
  have n: "fieldFromText offEnv ''1'' = Inr 1" "fieldFromText offEnv ''0'' = Inr 0"
    using offValue_small [of 1] offValue_small [of 0] by (simp_all add: fieldFromText_def offText)
  have k: "fieldFromText offEnv (fieldToString NATIVE_TOKEN_ID) = Inr 1"
    using offValue_small [of 1] by (simp add: NATIVE_TOKEN_ID_def)
  show ?thesis
    using offReceivers m n k t
    by (simp add: buildProposalStruct_def offProposal_def safePublicKey_def offEnv_simps sampleKeys truthyText_def
        memoProposal_def transferProposal_def localProposal_def)
      (simp add: vaultText_def sampleBase58_def)
qed

lemma offStores_ok: "storesOk offEnv offStores"
proof -
  have m: "merkleLaws offEnv" by (rule soundEnv_merkle [OF offEnv_sound])
  have keys: "asKeys (rsApprovals offStores) = [proposalHash baseEnv memoProposal]"
    by (simp add: offStores_def offApprovals_def setCount_def newApprovalStore_def)
  have n: "getCount offEnv (rsApprovals offStores) (proposalHash baseEnv memoProposal) = 2"
    using ap.read_write [OF m] by (simp add: offStores_def offApprovals_def offEnv_same)
  have h: "inField offEnv (proposalHash baseEnv memoProposal)" by (rule offValue) (simp add: offValues_def)
  have a: "approvalStoreInv offEnv (rsApprovals offStores)"
    using approvalStoreInv_setCount [OF m approvalStoreInv_new [OF m]] by (simp add: offStores_def offApprovals_def offEnv_same)
  have v: "nullifierStoreInv offEnv (newNullifierStore baseEnv)" using nullifierStoreInv_new [OF m] by (simp add: offEnv_same)
  show ?thesis
    using keys n h a v offValue_small [of 2]
    by (simp add: storesOk_def) (simp add: offStores_def MAX_OWNERS_def key_defs offEnv_simps newNullifierStore_def)
qed


section \<open>The handlers succeed\<close>

abbreviation offScope :: storeScope where
  "offScope \<equiv> \<lparr>scNetwork = ''testnet'', scAddress = vaultText\<rparr>"

lemma offCache: "\<exists>acct. injectAccounts offEnv offSigner [(vaultText, vaultAccount)] = [((keyG, NATIVE_TOKEN_ID), acct)] \<and>
    caAppState acct = Some vaultState"
proof -
  have "inField offEnv x" if "x \<in> set vaultState" for x
    using that offValue offValue_small by (auto simp: vaultState_def offValues_def)
  then have "traverse (fieldFromText offEnv) (map fieldToString vaultState) = Inr (map id vaultState)"
    by (subst traverse_map, intro traverse_total) simp
  then show ?thesis
    by (simp add: injectAccounts_def partialAccount_def parseKey_def offEnv_simps sampleKeys vaultAccount_def uint32FromText_def
        uint64FromText_def offText)
qed

definition offSnapshot :: snapshot where
  "offSnapshot = \<lparr>csOwnersCommitment = Some (fieldToString (getCommitment baseEnv [keyA, keyB])),
     csApprovalRoot = Some (fieldToString (getApprovalRoot baseEnv offApprovals)),
     csVoteNullifierRoot = Some (fieldToString (getNullifierRoot baseEnv (newNullifierStore baseEnv))),
     ssChildExecutionRoot = Some (fieldToString 0)\<rparr>"

lemma offSnapshot_read: "snapshotState offEnv offSigner (injectAccounts offEnv offSigner [(vaultText, vaultAccount)]) vaultText = Inr offSnapshot"
  using offCache
  by (auto simp: snapshotState_def parseKey_def offEnv_simps sampleKeys offSigner_def vaultState_def offSnapshot_def)

lemma offRebuilt: "\<exists>stores. rsOwners stores = [keyA, keyB] \<and>
    storesFromOfflineRequest offEnv (requestOf offApprove) (chainState.truncate offSnapshot) = Inr stores"
proof -
  have t: "case None of None \<Rightarrow> True | Some b \<Rightarrow> isSafeInteger b \<and> 0 \<le> b" by simp
  obtain n where r: "restoreStoreCheckpoint offEnv (checkpointStores offEnv offStores offScope None) offScope =
      Inr \<lparr>rsOwners = rsOwners offStores,
       rsApprovals = deserializeApprovals offEnv (serializeApprovals offEnv (rsApprovals offStores)), rsNullifiers = n,
       rsDivergentApproval = None, rsDivergentNullifier = None\<rparr>" (is "_ = Inr ?s")
    by (rule checkpoint_restores [OF offEnv_sound offEnv_base58 offStores_ok t])
  have same: "cpRoots (checkpointStores offEnv offStores offScope None) = chainState.truncate offSnapshot"
    by (simp add: checkpointStores_def offStores_def offSnapshot_def chainState.truncate_def offEnv_same)
  have v: "requireRoots (chainState.truncate offSnapshot) = Inr ()" "assertStoresMatchChain offEnv ?s (chainState.truncate offSnapshot) = Inr ()"
    using r by (auto simp: restoreStoreCheckpoint_def same Let_def)
  show ?thesis
    by (intro exI [of _ ?s])
      (simp add: storesFromOfflineRequest_def requestOf_def bundle_defs OFFLINE_REQUEST_VERSION_def v r, simp add: offStores_def)
qed

lemma offRequest_same: "requestOf offExecute = requestOf offApprove"
  by (simp add: requestOf_def bundle_defs)

lemma offStores_rebuilt: "\<exists>stores. rsOwners stores = [keyA, keyB] \<and>
    rebuildVerifiedStores offEnv offSigner (injectAccounts offEnv offSigner (bbAccounts offApprove)) offApprove = Inr stores \<and>
    rebuildVerifiedStores offEnv offSigner (injectAccounts offEnv offSigner (bbAccounts offExecute)) offExecute = Inr stores"
proof -
  have b: "bbAccounts offApprove = [(vaultText, vaultAccount)]" "bbContract offApprove = vaultText"
    "bbAccounts offExecute = [(vaultText, vaultAccount)]" "bbContract offExecute = vaultText" by (simp_all add: bundle_defs)
  show ?thesis using offRebuilt unfolding rebuildVerifiedStores_def b offSnapshot_read offRequest_same by simp
qed

lemma offMemo: "assertBundleMemo offEnv offProposal = Inr ()"
  by (simp add: assertBundleMemo_def offProposal_def offEnv_same)

lemma offTx: "requireTxType (bpTxType offProposal) = Inr TRANSFER"
  using normalizeTxType_name [of TRANSFER] by (simp add: requireTxType_def offProposal_def)

lemma offNetwork: "assertBundleNetwork ''testnet'' (Some (domainText Testnet)) = Inr ()"
  by (simp add: assertBundleNetwork_def domainText_def)

lemma offFee: "resolveBundleFee offApprove = Inr 50000000" "resolveBundleFee offExecute = Inr 50000000"
  by (simp_all add: resolveBundleFee_def bundle_defs OFFLINE_MIN_FEE_NANOMINA_def OFFLINE_MAX_FEE_NANOMINA_def isSafeInteger_def
      MAX_SAFE_INTEGER_def)

lemma offBundle: "bbNetwork offApprove = ''testnet''" "bbContract offApprove = vaultText" "bbFeePayer offApprove = sampleBase58 keyB"
  "abProposal offApprove = offProposal" "bbNetwork offExecute = ''testnet''" "bbContract offExecute = vaultText"
  "bbFeePayer offExecute = sampleBase58 keyB" "abProposal offExecute = offProposal"
  by (simp_all add: bundle_defs)

lemma offGuardText: "orDefault (bpGuardAddress offProposal) vaultText = vaultText"
  by (simp add: offProposal_def)

lemma offHash: "assertRecomputedProposalHash (proposalHash offEnv memoProposal) (bpProposalHash offProposal) = Inr ()"
  by (simp add: assertRecomputedProposalHash_def offProposal_def offEnv_same)

lemma offTransfer: "pTxType memoProposal = TxType TRANSFER" "pTxType memoProposal \<noteq> TxType ADD_OWNER"
  by (simp_all add: memoProposal_def transferProposal_def localProposal_def)

lemma offApprove_ok: "\<exists>out. handleApprove offEnv offSigner offApprove ''key'' = Inr out"
proof -
  obtain stores where st: "rebuildVerifiedStores offEnv offSigner (injectAccounts offEnv offSigner (bbAccounts offApprove)) offApprove = Inr stores"
    using offStores_rebuilt by blast
  have a: "assertExecutableAddOwnerData offEnv memoProposal os = Inr ()" for os
    using offTransfer(2) by (simp add: assertExecutableAddOwnerData_def del: TxType.simps)
  have c: "assertCreateChildBundleConfig offEnv offApprove = Inr None"
    by (simp add: assertCreateChildBundleConfig_def offBundle offTx)
  show ?thesis
    unfolding handleApprove_def Let_def offBundle offGuardText
    by (simp add: offNetwork offFee st offStruct a c offHash offMemo signMessage_def parseKey_def offEnv_simps sampleKeys)
      (auto simp: offSigner_def)
qed

lemma offExecute_ok: "\<exists>out. handleExecute offEnv offSigner offExecute = Inr out"
proof -
  obtain stores where st: "rebuildVerifiedStores offEnv offSigner (injectAccounts offEnv offSigner (bbAccounts offExecute)) offExecute = Inr stores"
    using offStores_rebuilt by blast
  have x: "executeProposal TRANSFER offExecute = offProposal\<lparr>bpGuardAddress := Some vaultText\<rparr>"
    by (simp add: executeProposal_def offBundle offGuardText CHILD_LIFECYCLE_TYPES_def)
  have n: "countExecuteNewAccounts offEnv offExecute = Inr 1"
    by (simp add: countExecuteNewAccounts_def offBundle offTx offReceivers memoProposal_def transferProposal_def localProposal_def
        keyIsEmpty_def key_defs emptyReceiver_def existsFlag_def numeral_nat)
      (simp add: bundle_defs)
  have l: "\<exists>tx. executeLocal offEnv offExecute TRANSFER fee memoProposal stores executor = Inr tx" for fee executor
    by (simp add: executeLocal_def n localCall_def Let_def offBundle parseKey_def offEnv_simps sampleKeys)
  show ?thesis
    using l unfolding handleExecute_def Let_def offBundle offGuardText
    by (simp add: offNetwork offFee offTx st x offStruct offHash offMemo parseKey_def offEnv_simps sampleKeys CHILD_LIFECYCLE_TYPES_def)
qed


section \<open>The properties\<close>

lemma offDeclared: "declaredProposal offEnv (bpProposalHash (abProposal offApprove)) memoProposal"
proof -
  have "typedProposal transferProposal" by (rule shape_local(2)) simp
  then show ?thesis by (simp add: declaredProposal_def offBundle offProposal_def offEnv_same memoProposal_def typedProposal_def)
qed

theorem offline_approval_signs_declared_witness:
  "\<exists>out sg ow aw n vw. handleApprove offEnv offSigner offApprove ''key'' = Inr out \<and>
     btSteps (soTransaction out) = [CallMethod keyG (ApproveProposal memoProposal sg keyB ow aw n vw)]"
proof -
  obtain out where ok: "handleApprove offEnv offSigner offApprove ''key'' = Inr out" using offApprove_ok ..
  note u = declaredProposal_unique [OF soundEnv_collisionFree [OF offEnv_sound] _ offDeclared]
  from offline_approval_signs_declared [OF soundEnv_collisionFree [OF offEnv_sound] ok]
  obtain p sg approver contract ow aw n vw where p: "declaredProposal offEnv (bpProposalHash (abProposal offApprove)) p"
    and c: "fromBase58 offEnv (bbContract offApprove) = Some contract"
      "btSteps (soTransaction out) = [CallMethod contract (ApproveProposal p sg approver ow aw n vw)]" by blast
  obtain stores q sg' approver' contract' fee where r: "approvalRun offEnv offSigner offApprove ''key'' stores q sg' approver' contract' fee out"
    using handleApprove_Inr [OF ok] by blast
  then have "approver = keyB" using c(2) by (auto simp: approvalRun_def signedOutput_def offBundle offEnv_simps sampleKeys)
  moreover have "contract = keyG" using c(1) by (simp add: offBundle offEnv_simps sampleKeys)
  ultimately show ?thesis using ok c(2) u [OF p] by auto
qed

theorem offline_execution_runs_declared_witness:
  "\<exists>out executor callee c n. handleExecute offEnv offSigner offExecute = Inr out \<and> executes c TRANSFER memoProposal \<and>
     btSteps (soTransaction out) = executionSteps executor n callee c"
proof -
  obtain out where ok: "handleExecute offEnv offSigner offExecute = Inr out" using offExecute_ok ..
  have d: "declaredProposal offEnv (bpProposalHash (abProposal offExecute)) memoProposal" using offDeclared by (simp add: offBundle)
  note u = declaredProposal_unique [OF soundEnv_collisionFree [OF offEnv_sound] _ d]
  from offline_execution_runs_declared [OF offEnv_sound ok]
  obtain p t executor callee c where p: "declaredProposal offEnv (bpProposalHash (abProposal offExecute)) p"
    "requireTxType (bpTxType (abProposal offExecute)) = Inr t" "executes c t p"
    "btSteps (soTransaction out) = executionSteps executor (newAccounts offEnv offExecute t p) callee c" by blast
  then show ?thesis using ok u [OF p(1)] by (auto simp: offBundle offTx)
qed

theorem offline_screen_shows_payments_witness:
  "\<exists>p n. declaredProposal offEnv (bpProposalHash offProposal) p \<and>
     paymentScreen offEnv ''EXECUTE'' offExecute p [chargeLine n] (renderBundleSummary offEnv (ExecuteBundle offExecute))"
proof -
  obtain out where ok: "handleExecute offEnv offSigner offExecute = Inr out" using offExecute_ok ..
  have n: "emptyTexts offEnv"
    by (auto simp: emptyTexts_def offEnv_simps sampleFromBase58_def emptyKey_def Let_def split: list.splits if_splits)
  have t: "requireTxType (bpTxType (abProposal offExecute)) = Inr TRANSFER" by (simp add: offBundle offTx)
  have m: "TRANSFER \<in> {TRANSFER, ALLOCATE_CHILD}" by simp
  show ?thesis using offline_screen_shows_payments [OF offEnv_sound n t m ok] by (auto simp: offBundle)
qed

text \<open>The vault the bundle was exported from, and a ledger that holds it.\<close>

definition offGuard :: guard where
  "offGuard = (initializedGuard keyG emptyKey)\<lparr>ownersCommitment := getCommitment baseEnv [keyA, keyB],
     approvalRoot := getApprovalRoot baseEnv offApprovals,
     voteNullifierRoot := getNullifierRoot baseEnv (newNullifierStore baseEnv)\<rparr>"

definition offWorld :: world where
  "offWorld = ledgerWorld (setAccount keyG offGuard freshLedger)"

theorem offline_approval_accepted_witness:
  "\<exists>out call evs w'. handleApprove offEnv offSigner offApprove ''key'' = Inr out \<and>
     btSteps (soTransaction out) = [CallMethod keyG call] \<and> transact offEnv offWorld keyG call = Inr (w', evs)"
proof -
  have m: "merkleLaws offEnv" by (rule soundEnv_merkle [OF offEnv_sound])
  obtain out where ok: "handleApprove offEnv offSigner offApprove ''key'' = Inr out" using offApprove_ok ..
  obtain acct where acct: "injectAccounts offEnv offSigner [(vaultText, vaultAccount)] = [((keyG, NATIVE_TOKEN_ID), acct)]"
    "caAppState acct = Some vaultState" using offCache by blast
  have snap: "snapshotShows offEnv offSigner offApprove keyG offGuard"
    using acct by (simp add: snapshotShows_def bundle_defs offEnv_simps sampleKeys offSigner_def vaultState_def offGuard_def)
  have acc: "accounts offWorld keyG = Some offGuard" by (simp add: offWorld_def)
  have mirror: "synced offEnv offGuard [keyA, keyB] offApprovals (newNullifierStore baseEnv)"
    using nullifierStoreInv_new [OF m] by (simp add: synced_def offGuard_def offEnv_same)
  have v: "votable offWorld keyG offGuard memoProposal"
    by (subst votable_local) (simp_all add: memoProposal_def transferProposal_def localProposal_def notExpired_def offGuard_def initializedGuard_def offWorld_def freshLedger_def)
  have n: "getCount offEnv offApprovals (proposalHash offEnv memoProposal) = 2"
    using ap.read_write [OF m] by (simp add: offApprovals_def offEnv_same)
  have big: "3 < fieldOrder offEnv" using offOrder(2) by (rule less_trans [rotated]) simp
  have x: "\<not> isExecuted offEnv offApprovals (proposalHash offEnv memoProposal)"
    using n big EXECUTED_MARKER_eq [OF soundEnv_fieldLarge [OF offEnv_sound]] by (simp add: isExecuted_def getCount_def EXECUTED_MARKER_def)
  have o: "isOwner offEnv [keyA, keyB] keyB" by (simp add: isOwner_def)
  have nu: "\<not> isNullified offEnv (newNullifierStore baseEnv) h keyB" for h
    using mapGet_empty [OF m] by (simp add: isNullified_def newNullifierStore_def) (simp add: offEnv_def)
  have pk: "fromBase58 offEnv (bbFeePayer offApprove) = Some keyB" by (simp add: offBundle offEnv_simps sampleKeys)
  have c: "PROPOSED_MARKER \<le> getCount offEnv offApprovals (proposalHash offEnv memoProposal)" by (simp add: n PROPOSED_MARKER_def)
  have sig: "sgSignFields offSigner msg ''key'' = Some sg \<Longrightarrow> verifySignature offEnv sg keyB msg" for msg sg
    by (simp add: offSigner_def offEnv_simps)
  show ?thesis
    using offline_approval_accepted [OF offEnv_sound offEnv_base58 ok snap acc mirror offDeclared v c x pk o nu sig] ok by blast
qed

end
