(* ===== verification/Node_Client.thy ===== *)
theory Node_Client
  imports Web_Preflight Submission_Check Vault_Security Indexer_Db
begin

text \<open>
  The requests of the backend to the daemon and the archive (\<open>mina-client.ts\<close>): one GraphQL request with its
  fallback endpoint, and what the best chain, the genesis constants, the archive tip, the pool and the
  accounts are read into. What an endpoint answers is a parameter; \<open>None\<close> is a request that failed.
\<close>

section \<open>Requests\<close>

definition hasErrors :: "json \<Rightarrow> bool" where
  "hasErrors body = (case jsGet body ''errors'' of Some (JArr (_ # _)) \<Rightarrow> True | Some (JStr (_ # _)) \<Rightarrow> True
     | Some (JObj fs) \<Rightarrow> truthy (map_of fs ''length'') | _ \<Rightarrow> False)"

definition runGraphqlQuery :: "nodeResponse option \<Rightarrow> json result" where
  "runGraphqlQuery response = (case response of
       None \<Rightarrow> Inl (AssertFail ''Unknown request error'')
     | Some r \<Rightarrow> require (nrOk r) ''HTTP error''
        (case nrBody r of
           None \<Rightarrow> Inl (AssertFail ''Unknown request error'')
         | Some body \<Rightarrow> require (body \<noteq> JNull \<and> \<not> hasErrors body) ''GraphQL error''
            (require (truthy (jsGet body ''data'')) ''GraphQL response missing data'' (Inr (the (jsGet body ''data''))))))"

text \<open>The second endpoint is asked only if it is configured and the first one failed; the error is that of
  the first one.\<close>

definition graphqlRequest :: "nodeResponse option \<Rightarrow> nodeResponse option option \<Rightarrow> json result" where
  "graphqlRequest primary fallback = (case runGraphqlQuery primary of
       Inr d \<Rightarrow> Inr d
     | Inl e \<Rightarrow> (case fallback of
         None \<Rightarrow> Inl e
       | Some f \<Rightarrow> (case runGraphqlQuery f of Inr d \<Rightarrow> Inr d | Inl _ \<Rightarrow> Inl e)))"

text \<open>The members of a list that may be absent. A member that is null cannot be read from.\<close>

definition itemsOf :: "json option \<Rightarrow> json list result" where
  "itemsOf v = (case nullish v None of
       None \<Rightarrow> Inr []
     | Some (JArr xs) \<Rightarrow> require (JNull \<notin> set xs) ''Cannot read properties of null'' (Inr xs)
     | Some _ \<Rightarrow> Inl (AssertFail ''not iterable''))"

section \<open>The best chain\<close>

definition headerOf :: "json \<Rightarrow> blockHeaderRow option" where
  "headerOf block = (case (jsGet block ''stateHash'', jsPath block [''protocolState'', ''previousStateHash''],
         jsPath block [''protocolState'', ''consensusState'', ''blockHeight'']) of
       (Some (JStr stateHash), Some (JStr parentHash), Some heightRaw) \<Rightarrow>
         (if stateHash = [] \<or> parentHash = [] then None
          else map_option (\<lambda>height. \<lparr>bhHeight = height, bhBlockHash = stateHash, bhParentHash = parentHash\<rparr>)
            (numberOfJson (Some heightRaw)))
     | _ \<Rightarrow> None)"

definition fetchBestChainHeaders :: "json result \<Rightarrow> blockHeaderRow list result" where
  "fetchBestChainHeaders answer = andThen answer (\<lambda>d. andThen (itemsOf (jsGet d ''bestChain'')) (\<lambda>blocks.
     Inr (sort_key bhHeight (List.map_filter headerOf blocks))))"

text \<open>\<open>parse\<close> is \<open>Date.parse\<close>.\<close>

definition fetchGenesisConstants :: "(string \<Rightarrow> int option) \<Rightarrow> json result \<Rightarrow> (int \<times> int) result" where
  "fetchGenesisConstants parse answer = andThen answer (\<lambda>d.
     let tsRaw = jsPath d [''genesisConstants'', ''genesisTimestamp''];
         slotRaw = nullish (jsPath d [''daemonStatus'', ''consensusConfiguration'', ''slotDuration'']) None
     in require (truthy tsRaw \<and> slotRaw \<noteq> None) ''Failed to fetch genesisConstants/slotDuration from daemon''
       (case (parse (jsString (the tsRaw)), numberOfJson slotRaw) of
          (Some ts, Some slot) \<Rightarrow> require (slot > 0) ''Invalid genesisConstants response'' (Inr (ts, slot))
        | _ \<Rightarrow> Inl (AssertFail ''Invalid genesisConstants response'')))"

definition fetchLatestBlockHeight :: "json result \<Rightarrow> int result" where
  "fetchLatestBlockHeight answer = andThen answer (\<lambda>d.
     let raw = nullish (jsPath d [''networkState'', ''maxBlockHeight'', ''pendingMaxBlockHeight'']) None
     in case (raw, numberOfJson raw) of
          (Some _, Some height) \<Rightarrow> require (isSafeInteger height \<and> \<not> height < 0)
            ''Archive networkState has no valid pendingMaxBlockHeight'' (Inr height)
        | _ \<Rightarrow> Inl (AssertFail ''Archive networkState has no valid pendingMaxBlockHeight''))"

section \<open>Transactions of recent blocks\<close>

definition commandsOf :: "json \<Rightarrow> json list result" where
  "commandsOf block = itemsOf (jsPath block [''transactions'', ''zkappCommands''])"

definition recentCommands :: "json result \<Rightarrow> json list result" where
  "recentCommands answer = andThen answer (\<lambda>d. andThen (itemsOf (jsGet d ''bestChain'')) (\<lambda>blocks.
     andThen (traverse commandsOf blocks) (\<lambda>css. Inr (concat css))))"

text \<open>Accounts on which a verification key is set, each once, in the order of their first appearance.\<close>

definition candidateOf :: "json \<Rightarrow> string option" where
  "candidateOf upd = (case jsPath upd [''body'', ''publicKey''] of
       Some (JStr pk) \<Rightarrow> (if pk \<noteq> [] \<and> truthy (jsPath upd [''body'', ''update'', ''verificationKey'', ''hash'']) then Some pk else None)
     | _ \<Rightarrow> None)"

definition addNew :: "'a \<Rightarrow> 'a list \<Rightarrow> 'a list" where
  "addNew x xs = (if x \<in> set xs then xs else xs @ [x])"

definition discoverCandidateAddresses :: "json result \<Rightarrow> string list result" where
  "discoverCandidateAddresses answer = andThen (recentCommands answer) (\<lambda>cmds.
     andThen (traverse (\<lambda>cmd. itemsOf (jsPath cmd [''zkappCommand'', ''accountUpdates''])) cmds) (\<lambda>uss.
     Inr (fold addNew (List.map_filter candidateOf (concat uss)) [])))"

datatype zkappTxStatus = TxPending | TxIncluded | TxFailed "string option" | TxUnknown

definition failureTexts :: "json \<Rightarrow> string list" where
  "failureTexts cmd = concat (map (\<lambda>r. case jsGet r ''failures'' of
       Some (JArr fs) \<Rightarrow> List.map_filter (\<lambda>f. case f of JStr s \<Rightarrow> (if s = [] then None else Some s) | _ \<Rightarrow> None) fs
     | _ \<Rightarrow> []) (case jsGet cmd ''failureReason'' of Some (JArr rs) \<Rightarrow> rs | _ \<Rightarrow> []))"

text \<open>A failed lookup is unknown, not pending.\<close>

definition fetchZkappTxStatus :: "json result \<Rightarrow> string \<Rightarrow> zkappTxStatus" where
  "fetchZkappTxStatus answer txHash = (case recentCommands answer of
       Inl _ \<Rightarrow> TxUnknown
     | Inr cmds \<Rightarrow> (case find (\<lambda>cmd. jsGet cmd ''hash'' = Some (JStr txHash)) cmds of
         None \<Rightarrow> TxPending
       | Some cmd \<Rightarrow> (if failureTexts cmd \<noteq> [] then TxFailed (Some (joinWith ''; '' (failureTexts cmd))) else TxIncluded)))"

section \<open>The pool and accounts\<close>

definition fetchMempoolHashes :: "json result \<Rightarrow> json set option" where
  "fetchMempoolHashes answer = (case andThen answer (\<lambda>d. itemsOf (jsGet d ''pooledZkappCommands'')) of
       Inl _ \<Rightarrow> None
     | Inr cs \<Rightarrow> Some (set (List.map_filter (\<lambda>c. jsGet c ''hash'') cs)))"

definition textItem :: "json \<Rightarrow> string option" where
  "textItem v = (case v of JStr s \<Rightarrow> Some s | _ \<Rightarrow> None)"

definition textsOf :: "json \<Rightarrow> string list" where
  "textsOf v = (case v of JArr xs \<Rightarrow> List.map_filter textItem xs | _ \<Rightarrow> [])"

text \<open>An account update as the node reports it; what is missing is read so that the check fails.\<close>

definition commandUpdateOf :: "json \<Rightarrow> commandUpdate" where
  "commandUpdateOf upd = \<lparr>
     cuPublicKey = (case jsPath upd [''body'', ''publicKey''] of Some (JStr pk) \<Rightarrow> pk | _ \<Rightarrow> []),
     cuTokenId = Option.bind (jsPath upd [''body'', ''tokenId'']) textItem,
     cuIsProved = (jsPath upd [''body'', ''authorizationKind'', ''isProved''] = Some (JBool True)),
     cuEvents = (case jsPath upd [''body'', ''events''] of Some (JArr es) \<Rightarrow> map textsOf es | _ \<Rightarrow> []),
     cuStateConditions = (case jsPath upd [''body'', ''preconditions'', ''account'', ''state''] of
         Some (JArr xs) \<Rightarrow> Some (map textItem xs) | _ \<Rightarrow> None)\<rparr>"

definition fetchPooledZkappCommand :: "json result \<Rightarrow> string \<Rightarrow> commandUpdate list option" where
  "fetchPooledZkappCommand answer txHash = (case andThen answer (\<lambda>d. itemsOf (jsGet d ''pooledZkappCommands'')) of
       Inl _ \<Rightarrow> None
     | Inr cs \<Rightarrow> (case find (\<lambda>c. jsGet c ''hash'' = Some (JStr txHash)) cs of
         None \<Rightarrow> None
       | Some c \<Rightarrow> (case itemsOf (jsPath c [''zkappCommand'', ''accountUpdates'']) of
           Inl _ \<Rightarrow> None | Inr us \<Rightarrow> Some (map commandUpdateOf us))))"

text \<open>The security of a vault, from the \<open>account\<close> member of the answer.\<close>

definition nodeVaultSecurity :: "string \<Rightarrow> string option \<Rightarrow> json result \<Rightarrow> vaultSecurityStatus result" where
  "nodeVaultSecurity currentVersion minaguardVkHash answer = andThen answer (\<lambda>d.
     Inr (fetchVaultSecurityStatus currentVersion minaguardVkHash (jsGet d ''account'')))"

text \<open>The state of each address, in the order asked for; the answer names them \<open>a0\<close>, \<open>a1\<close> and so on.\<close>

definition fetchZkappStates :: "json result \<Rightarrow> string list \<Rightarrow> (string \<times> string list option) list option" where
  "fetchZkappStates answer addresses = (case answer of
       Inl _ \<Rightarrow> None
     | Inr d \<Rightarrow> Some (map (\<lambda>(i, a). (a, case jsPath d [''a'' @ decimal i, ''zkappState''] of
         Some (JArr xs) \<Rightarrow> Some (textsOf (JArr xs)) | _ \<Rightarrow> None)) (List.enumerate 0 addresses)))"

section \<open>Facts\<close>

text \<open>The chain that the reorganisation check walks over is ascending, whatever order the node answers in.\<close>

lemma headers_ascending: "fetchBestChainHeaders answer = Inr hs \<Longrightarrow> sorted (map bhHeight hs)"
  by (auto simp: fetchBestChainHeaders_def andThen_Inr)

lemma addNew_distinct: "distinct acc \<Longrightarrow> distinct (fold addNew xs acc)"
  by (induction xs arbitrary: acc) (simp_all add: addNew_def)

lemma candidates_distinct: "discoverCandidateAddresses answer = Inr as \<Longrightarrow> distinct as"
  by (auto simp: discoverCandidateAddresses_def andThen_Inr addNew_distinct)

text \<open>A transaction is called failed, included or pending only on an answer of the node.\<close>

lemma status_unknown: "fetchZkappTxStatus (Inl e) txHash = TxUnknown"
  by (simp add: fetchZkappTxStatus_def recentCommands_def andThen_def)

lemma status_failed:
  assumes "fetchZkappTxStatus answer txHash = TxFailed reason"
  shows "\<exists>cmds cmd. recentCommands answer = Inr cmds \<and> cmd \<in> set cmds \<and> jsGet cmd ''hash'' = Some (JStr txHash) \<and>
    failureTexts cmd \<noteq> []"
  using assms by (fastforce simp: fetchZkappTxStatus_def find_Some_iff in_set_conv_nth split: sum.split_asm option.split_asm if_split_asm)

text \<open>A request succeeds if one of the endpoints that are asked answers with data and without errors.\<close>

lemma request_ok: "isOk (graphqlRequest p f) \<longleftrightarrow> isOk (runGraphqlQuery p) \<or> (\<exists>r. f = Some r \<and> isOk (runGraphqlQuery r))"
  by (auto simp: graphqlRequest_def isOk_iff split: sum.split option.split)

end
