(* ===== verification/Indexer_Tick.thy ===== *)
theory Indexer_Tick
  imports Node_Client Indexer_Keys
begin

text \<open>
  The polling loop of the indexer (\<open>tick\<close> of \<open>indexer.ts\<close> and what it calls): the check for a
  reorganisation, the discovery of vaults, their first scans, the sweep over the known vaults, the cursor,
  and the submissions that are still in flight. Ticks never overlap, so one tick is one function of the
  indexer's memory, the database and the answers it gets. An error ends the tick with what was done so far.
\<close>

section \<open>Memory, settings and answers\<close>

definition EVENT_REPLAY_BLOCKS :: int where
  "EVENT_REPLAY_BLOCKS = REORG_DETECTION_WINDOW"

definition DROPPED_TX_GRACE_MS :: int where
  "DROPPED_TX_GRACE_MS = 20 * 60 * 1000"

definition FIRST_SCAN_STEPS_PER_TICK :: nat where
  "FIRST_SCAN_STEPS_PER_TICK = 5"

record tickConfig =
  tcStartHeight :: int
  tcArchive :: bool
  tcVkHash :: "string option"

record firstScan =
  fsAddress :: string
  fsStart :: int
  fsNext :: int

record indexerState =
  isRunning :: bool
  isPolling :: bool
  isLatestChainHeight :: int
  isLatestSlot :: int
  isIndexedHeight :: int
  isLastError :: "syncError option"
  isLastWarning :: bool
  isDiscovered :: nat
  isFirstScans :: "(nat \<times> firstScan) list"
  isScannedUnready :: "(string \<times> int \<times> nat) list"
  isGenesis :: "(int \<times> int) option"

definition initialIndexer :: "int option \<Rightarrow> indexerState" where
  "initialIndexer fixedSlot = \<lparr>isRunning = False, isPolling = False, isLatestChainHeight = 0, isLatestSlot = orDefault fixedSlot 0, isIndexedHeight = 0,
     isLastError = None, isLastWarning = False, isDiscovered = 0, isFirstScans = [], isScannedUnready = [], isGenesis = None\<rparr>"

text \<open>What a tick asks for: the archive's tip, the time, the best chain, candidates, the vaults' accounts and
  events while scanning and while sweeping, the status of transactions, the pool, and how long ago a
  proposal was written.\<close>

record tickAnswers =
  taLatestHeight :: "int result"
  taNow :: int
  taHeaders :: "blockHeaderRow list result"
  taDaemonHeaders :: "blockHeaderRow list result"
  taCandidates :: "int \<Rightarrow> string list result"
  taArchiveCandidates :: "int \<Rightarrow> int \<Rightarrow> (string \<times> int) list result"
  taScanNet :: network
  taSweepNet :: network
  taStatus :: "string \<Rightarrow> zkappTxStatus"
  taMempool :: "json set option"
  taAge :: "nat \<Rightarrow> int"

section \<open>Cursors\<close>

definition cursorHeight :: "string \<Rightarrow> database \<Rightarrow> int option" where
  "cursorHeight key db = Option.bind (map_of (dbCursors db) key) jsNumber"

definition getIndexedHeight :: "tickConfig \<Rightarrow> database \<Rightarrow> int" where
  "getIndexedHeight cfg db = orDefault (cursorHeight ''indexed_height'' db) (tcStartHeight cfg)"

definition setIndexedHeight :: "int \<Rightarrow> database \<Rightarrow> database" where
  "setIndexedHeight height db = setCursor ''indexed_height'' height db"

definition getArchiveDiscoveredHeight :: "database \<Rightarrow> int option" where
  "getArchiveDiscoveredHeight db = cursorHeight ''archive_discovered_height'' db"

definition setArchiveDiscoveredHeight :: "int \<Rightarrow> database \<Rightarrow> database" where
  "setArchiveDiscoveredHeight height db = setCursor ''archive_discovered_height'' height db"

section \<open>Discovery\<close>

definition backfillContract ::
  "('m, 'w, 's) indexerEnv \<Rightarrow> tickConfig \<Rightarrow> network \<Rightarrow> nat \<Rightarrow> string \<Rightarrow> database \<Rightarrow> (syncError + bool option) \<times> database" where
  "backfillContract I cfg N cid address db =
     (let indexedHeight = getIndexedHeight cfg db;
          backfillFrom = (if ieLite I \<or> tcArchive cfg then tcStartHeight cfg else max 0 (indexedHeight - 300))
      in if indexedHeight > backfillFrom then syncSingleContract I N cid address backfillFrom indexedHeight True False db
         else (Inr None, db))"

text \<open>One candidate; the flag tells whether it threw.\<close>

definition processCandidate ::
  "('m, 'w, 's) indexerEnv \<Rightarrow> tickConfig \<Rightarrow> network \<Rightarrow> string \<times> int \<Rightarrow> database \<Rightarrow> bool \<times> database" where
  "processCandidate I cfg N = (\<lambda>(address, deployBlock) db.
     if findContractAt address db \<noteq> None then (False, db)
     else (case netSecurity N address of
         Inl _ \<Rightarrow> (True, db)
       | Inr security \<Rightarrow>
           if \<not> safe security then (False, db)
           else (case backfillContract I cfg N (dbNextId db) address (trackContract address (Some deployBlock) True db) of
               (Inl _, db') \<Rightarrow> (True, db') | (Inr _, db') \<Rightarrow> (False, db'))))"

fun processCandidateAddresses ::
  "('m, 'w, 's) indexerEnv \<Rightarrow> tickConfig \<Rightarrow> network \<Rightarrow> (string \<times> int) list \<Rightarrow> database \<Rightarrow> nat \<times> database" where
  "processCandidateAddresses I cfg N [] db = (0, db)"
| "processCandidateAddresses I cfg N (c # cs) db =
     (let (threw, db1) = processCandidate I cfg N c db;
          (failures, db2) = processCandidateAddresses I cfg N cs db1
      in (of_bool threw + failures, db2))"

text \<open>The archive is searched from the last discovery, less the window of a reorganisation; the daemon over
  the part of its best chain that may be new, whose lowest height is then the candidates' height.\<close>

definition discoveryCandidates :: "tickConfig \<Rightarrow> tickAnswers \<Rightarrow> int \<Rightarrow> int \<Rightarrow> database \<Rightarrow> (string \<times> int) list result" where
  "discoveryCandidates cfg A latestHeight indexedHeight db =
     (if tcArchive cfg \<and> truthyText (tcVkHash cfg)
      then taArchiveCandidates A (case getArchiveDiscoveredHeight db of
             None \<Rightarrow> tcStartHeight cfg
           | Some lastDiscovered \<Rightarrow> max (tcStartHeight cfg) (lastDiscovered - REORG_DETECTION_WINDOW + 1)) latestHeight
      else andThen (taDaemonHeaders A) (\<lambda>hs.
        require (hs \<noteq> []) ''Daemon bestChain has no height for contract discovery''
       (let daemonHeight = bhHeight (last hs);
            discoveryWindow = max 1 (min 290 (daemonHeight - indexedHeight + 5));
            scanFloor = max (tcStartHeight cfg) (daemonHeight - discoveryWindow + 1)
        in andThen (taCandidates A discoveryWindow) (\<lambda>addrs. Inr (map (\<lambda>address. (address, scanFloor)) addrs)))))"

definition discoverContracts ::
  "('m, 'w, 's) indexerEnv \<Rightarrow> tickConfig \<Rightarrow> tickAnswers \<Rightarrow> int \<Rightarrow> int \<Rightarrow> indexerState \<Rightarrow> database
     \<Rightarrow> (syncError + unit) \<times> indexerState \<times> database" where
  "discoverContracts I cfg A latestHeight indexedHeight st db =
     (if ieLite I then (Inr (), st, db)
      else (case discoveryCandidates cfg A latestHeight indexedHeight db of
          Inl e \<Rightarrow> (Inl (NetError e), st, db)
        | Inr candidates \<Rightarrow>
            let (failureCount, db1) = processCandidateAddresses I cfg (taScanNet A) candidates db
            in (Inr (), st\<lparr>isDiscovered := length (dbContracts db1)\<rparr>,
                if tcArchive cfg \<and> failureCount = 0 then setArchiveDiscoveredHeight latestHeight db1 else db1)))"

section \<open>First scans\<close>

definition countFailedEvents :: "nat \<Rightarrow> database \<Rightarrow> nat" where
  "countFailedEvents cid db = length (filter (\<lambda>e. erwContractId e = Some cid \<and> erwApplyError e \<noteq> None) (dbEvents db))"

text \<open>The end of a first scan; a vault that is not ready yet is reported at once.\<close>

definition finishScan :: "contractRow \<Rightarrow> int \<Rightarrow> indexerState \<Rightarrow> database \<Rightarrow> indexerState" where
  "finishScan c start st db =
     (let st1 = st\<lparr>isFirstScans := jsDelete (coId c) (isFirstScans st)\<rparr>
      in case findContract (coId c) db of
           Some row \<Rightarrow> (if coReady row then st1
             else st1\<lparr>isScannedUnready := isScannedUnready st1 @ [(coAddress c, start, countFailedEvents (coId c) db)]\<rparr>)
         | None \<Rightarrow> st1)"

text \<open>Steps of one scan while the budget lasts; the rest of the budget is returned.\<close>

fun scanSteps ::
  "('m, 'w, 's) indexerEnv \<Rightarrow> network \<Rightarrow> int \<Rightarrow> contractRow \<Rightarrow> nat \<Rightarrow> firstScan \<Rightarrow> indexerState \<Rightarrow> database
     \<Rightarrow> (syncError + nat) \<times> indexerState \<times> database" where
  "scanSteps I N latestHeight c 0 scan st db = (Inr 0, st, db)"
| "scanSteps I N latestHeight c (Suc steps) scan st db =
     (let to = min (fsNext scan + EVENT_QUERY_BLOCK_SPAN - 1) latestHeight;
          finish = (to = latestHeight)
      in case syncSingleContract I N (coId c) (coAddress c) (fsNext scan) to finish True db of
           (Inl e, db1) \<Rightarrow> (Inl e, st, db1)
         | (Inr None, db1) \<Rightarrow> (Inr steps, st, db1)
         | (Inr (Some _), db1) \<Rightarrow>
             if finish then (Inr steps, finishScan c (fsStart scan) st db1, db1)
             else (let scan' = scan\<lparr>fsNext := to + 1\<rparr>
               in scanSteps I N latestHeight c steps scan' (st\<lparr>isFirstScans := jsSet (coId c) scan' (isFirstScans st)\<rparr>) db1))"

definition rescanContract ::
  "('m, 'w, 's) indexerEnv \<Rightarrow> tickConfig \<Rightarrow> network \<Rightarrow> int \<Rightarrow> int \<Rightarrow> contractRow \<Rightarrow> nat \<Rightarrow> indexerState \<Rightarrow> database
     \<Rightarrow> (syncError + nat) \<times> indexerState \<times> database" where
  "rescanContract I cfg N fromHeight latestHeight c steps st db =
     (if coSynced c then
        (let from = max (orDefault (coDiscoveredAtBlock c) 0) fromHeight
         in if from > latestHeight then (Inr steps, st, db)
            else (case syncSingleContract I N (coId c) (coAddress c) from latestHeight True False db of
                (Inl e, db1) \<Rightarrow> (Inl e, st, db1) | (Inr _, db1) \<Rightarrow> (Inr steps, st, db1)))
      else
        (let start = orDefault (coDiscoveredAtBlock c) (tcStartHeight cfg)
         in if start > latestHeight then (Inr steps, st, db)
            else (let fresh = \<lparr>fsAddress = coAddress c, fsStart = start, fsNext = start\<rparr>;
                      scan = (case map_of (isFirstScans st) (coId c) of Some s \<Rightarrow> (if fsStart s = start then s else fresh) | None \<Rightarrow> fresh)
              in scanSteps I N latestHeight c steps scan (st\<lparr>isFirstScans := jsSet (coId c) scan (isFirstScans st)\<rparr>) db)))"

fun rescanLoop ::
  "('m, 'w, 's) indexerEnv \<Rightarrow> tickConfig \<Rightarrow> network \<Rightarrow> int \<Rightarrow> int \<Rightarrow> contractRow list \<Rightarrow> nat \<Rightarrow> indexerState \<Rightarrow> database
     \<Rightarrow> (syncError + unit) \<times> indexerState \<times> database" where
  "rescanLoop I cfg N fromHeight latestHeight [] steps st db = (Inr (), st, db)"
| "rescanLoop I cfg N fromHeight latestHeight (c # cs) steps st db =
     (case rescanContract I cfg N fromHeight latestHeight c steps st db of
        (Inl e, st1, db1) \<Rightarrow> (Inl e, st1, db1)
      | (Inr steps', st1, db1) \<Rightarrow> rescanLoop I cfg N fromHeight latestHeight cs steps' st1 db1)"

definition rescanUnreadyContracts ::
  "('m, 'w, 's) indexerEnv \<Rightarrow> tickConfig \<Rightarrow> network \<Rightarrow> int \<Rightarrow> int \<Rightarrow> indexerState \<Rightarrow> database
     \<Rightarrow> (syncError + unit) \<times> indexerState \<times> database" where
  "rescanUnreadyContracts I cfg N fromHeight latestHeight st db =
     (let unready = filter (\<lambda>c. \<not> coReady c) (dbContracts db);
          pending = set (map coId (filter (\<lambda>c. \<not> coSynced c) unready));
          scanned = map (\<lambda>c. (coAddress c, orDefault (coDiscoveredAtBlock c) (tcStartHeight cfg),
            if ieLite I then countFailedEvents (coId c) db else 0)) (filter coSynced unready)
      in rescanLoop I cfg N fromHeight latestHeight unready FIRST_SCAN_STEPS_PER_TICK
           (st\<lparr>isScannedUnready := scanned, isFirstScans := filter (\<lambda>s. fst s \<in> pending) (isFirstScans st)\<rparr>) db)"

section \<open>The sweep and the submissions in flight\<close>

fun sweepContracts ::
  "('m, 'w, 's) indexerEnv \<Rightarrow> network \<Rightarrow> int \<Rightarrow> int \<Rightarrow> contractRow list \<Rightarrow> database \<Rightarrow> (syncError + unit) \<times> database" where
  "sweepContracts I N fromHeight toHeight [] db = (Inr (), db)"
| "sweepContracts I N fromHeight toHeight (c # cs) db =
     (case syncSingleContract I N (coId c) (coAddress c) fromHeight toHeight True False db of
        (Inl e, db1) \<Rightarrow> (Inl e, db1)
      | (Inr _, db1) \<Rightarrow> sweepContracts I N fromHeight toHeight cs db1)"

definition syncKnownContracts ::
  "('m, 'w, 's) indexerEnv \<Rightarrow> network \<Rightarrow> int \<Rightarrow> int \<Rightarrow> database \<Rightarrow> (syncError + unit) \<times> database" where
  "syncKnownContracts I N fromHeight toHeight db = sweepContracts I N fromHeight toHeight (filter coReady (dbContracts db)) db"

text \<open>A transaction counts as dropped only when the best chain was read and lacks it, the pool was read and
  lacks it, and its report is old enough.\<close>

definition pollOne :: "tickAnswers \<Rightarrow> nat \<Rightarrow> string \<Rightarrow> string \<Rightarrow> string option" where
  "pollOne A pid txHash failedText = (case taStatus A txHash of
       TxFailed reason \<Rightarrow> Some (orDefault reason failedText)
     | TxPending \<Rightarrow>
         (if taAge A pid > DROPPED_TX_GRACE_MS \<and> (case taMempool A of None \<Rightarrow> False | Some hashes \<Rightarrow> JStr txHash \<notin> hashes)
          then Some ''Transaction was dropped from the mempool'' else None)
     | _ \<Rightarrow> None)"

definition executeInFlight :: "bool \<Rightarrow> proposalTableRow \<Rightarrow> bool" where
  "executeInFlight executed p \<longleftrightarrow> truthyText (ptLastExecuteTxHash p) \<and> \<not> truthyText (ptLastExecuteError p) \<and> \<not> executed"

definition approveInFlight :: "proposalTableRow \<Rightarrow> bool" where
  "approveInFlight p \<longleftrightarrow> truthyText (ptLastApproveTxHash p) \<and> \<not> truthyText (ptLastApproveError p)"

definition inFlight :: "bool \<Rightarrow> proposalTableRow \<Rightarrow> bool" where
  "inFlight executed p \<longleftrightarrow> ptLastExecuteTxHash p \<noteq> None \<and> ptLastExecuteError p = None \<and> \<not> executed \<or>
     ptLastApproveTxHash p \<noteq> None \<and> ptLastApproveError p = None"

definition pollProposal :: "tickAnswers \<Rightarrow> bool \<Rightarrow> proposalTableRow \<Rightarrow> proposalTableRow" where
  "pollProposal A executed p = p\<lparr>
     ptLastExecuteError := (if executeInFlight executed p
       then orElse (pollOne A (ptId p) (the (ptLastExecuteTxHash p)) ''Execution transaction failed on-chain'') (ptLastExecuteError p)
       else ptLastExecuteError p),
     ptLastApproveError := (if approveInFlight p
       then orElse (pollOne A (ptId p) (the (ptLastApproveTxHash p)) ''Approval transaction failed on-chain'') (ptLastApproveError p)
       else ptLastApproveError p)\<rparr>"

definition pollPendingSubmissions :: "tickAnswers \<Rightarrow> database \<Rightarrow> database" where
  "pollPendingSubmissions A db = db\<lparr>dbProposals := map (\<lambda>p.
     let executed = list_ex (\<lambda>x. etProposalId x = ptId p) (dbExecutions db)
     in if inFlight executed p then pollProposal A executed p else p) (dbProposals db)\<rparr>"

section \<open>One tick\<close>

definition rewindScan :: "int \<Rightarrow> firstScan \<Rightarrow> firstScan" where
  "rewindScan fork scan = scan\<lparr>fsNext := max (fsStart scan) (min (fsNext scan) (fork + 1))\<rparr>"

text \<open>The part of a tick after the check for a reorganisation.\<close>

definition tickSync ::
  "('m, 'w, 's) indexerEnv \<Rightarrow> tickConfig \<Rightarrow> tickAnswers \<Rightarrow> int \<Rightarrow> indexerState \<Rightarrow> database
     \<Rightarrow> (syncError + unit) \<times> indexerState \<times> database" where
  "tickSync I cfg A latestHeight st db =
     (let indexedHeight = getIndexedHeight cfg db;
          st0 = st\<lparr>isIndexedHeight := indexedHeight\<rparr>;
          fromHeight = max (tcStartHeight cfg) (indexedHeight - EVENT_REPLAY_BLOCKS + 1)
      in if latestHeight < indexedHeight \<or> latestHeight < fromHeight
         then (Inl (NetError (AssertFail ''indexing paused until the archive catches up or the reorg is investigated.'')), st0, db)
         else (case discoverContracts I cfg A latestHeight indexedHeight st0 db of
             (Inl e, st1, db1) \<Rightarrow> (Inl e, st1, db1)
           | (Inr _, st1, db1) \<Rightarrow> (case rescanUnreadyContracts I cfg (taScanNet A) fromHeight latestHeight st1 db1 of
               (Inl e, st2, db2) \<Rightarrow> (Inl e, st2, db2)
             | (Inr _, st2, db2) \<Rightarrow> (case syncKnownContracts I (taSweepNet A) fromHeight latestHeight db2 of
                 (Inl e, db3) \<Rightarrow> (Inl e, st2, db3)
               | (Inr _, db3) \<Rightarrow>
                   (Inr (), st2\<lparr>isIndexedHeight := latestHeight\<rparr>, pollPendingSubmissions A (setIndexedHeight latestHeight db3))))))"

definition currentSlot :: "(int \<times> int) option \<Rightarrow> int \<Rightarrow> int \<Rightarrow> int" where
  "currentSlot genesis now before = (case genesis of None \<Rightarrow> before
     | Some (timestamp, duration) \<Rightarrow> (if now - timestamp > 0 then (now - timestamp) div duration else 0))"

definition tickBody ::
  "('m, 'w, 's) indexerEnv \<Rightarrow> tickConfig \<Rightarrow> tickAnswers \<Rightarrow> indexerState \<Rightarrow> database
     \<Rightarrow> (syncError + unit) \<times> indexerState \<times> database" where
  "tickBody I cfg A st db = (case taLatestHeight A of
       Inl e \<Rightarrow> (Inl (NetError e), st, db)
     | Inr latestHeight \<Rightarrow>
        (let st1 = st\<lparr>isLatestChainHeight := latestHeight, isLatestSlot := currentSlot (isGenesis st) (taNow A) (isLatestSlot st)\<rparr>;
             (rolledBackTo, db1) = detectAndRollbackReorg (taHeaders A) (ieLite I) db;
             st2 = st1\<lparr>isLastWarning := isLastWarning st1 \<or>
               (case taHeaders A of Inr hs \<Rightarrow> (case reorgFork hs db of Some (_, warned) \<Rightarrow> warned | None \<Rightarrow> False) | Inl _ \<Rightarrow> False)\<rparr>
         in case rolledBackTo of
              Some fork \<Rightarrow> (Inr (), st2\<lparr>isFirstScans := map (\<lambda>(cid, scan). (cid, rewindScan fork scan)) (isFirstScans st2),
                isIndexedHeight := fork\<rparr>, db1)
            | None \<Rightarrow> tickSync I cfg A latestHeight st2 db1))"

definition tick ::
  "('m, 'w, 's) indexerEnv \<Rightarrow> tickConfig \<Rightarrow> tickAnswers \<Rightarrow> indexerState \<Rightarrow> database \<Rightarrow> indexerState \<times> database" where
  "tick I cfg A st db = (case tickBody I cfg A st db of
       (Inl e, st', db') \<Rightarrow> (st'\<lparr>isLastError := Some e\<rparr>, db')
     | (Inr _, st', db') \<Rightarrow> (st'\<lparr>isLastError := None\<rparr>, db'))"

text \<open>Starting reads the genesis constants, runs the first tick and sets the timer; without the constants the
  start fails, and with the timer set it does nothing.\<close>

definition startIndexer ::
  "('m, 'w, 's) indexerEnv \<Rightarrow> tickConfig \<Rightarrow> tickAnswers \<Rightarrow> (int \<times> int) result \<Rightarrow> indexerState \<Rightarrow> database
     \<Rightarrow> indexerState \<times> database" where
  "startIndexer I cfg A genesis st db =
     (if isPolling st then (st, db)
      else (case genesis of
          Inl _ \<Rightarrow> (st\<lparr>isRunning := True\<rparr>, db)
        | Inr g \<Rightarrow> apfst (isPolling_update (\<lambda>_. True)) (tick I cfg A (st\<lparr>isRunning := True, isGenesis := Some g\<rparr>) db)))"

definition stopIndexer :: "indexerState \<Rightarrow> indexerState" where
  "stopIndexer st = st\<lparr>isRunning := False, isPolling := False\<rparr>"

section \<open>The reported status\<close>

record scanReport =
  srAddress :: string
  srStartHeight :: int
  srScannedHeight :: int
  srFinished :: bool
  srFailedEvents :: nat

definition firstScanReports :: "bool \<Rightarrow> indexerState \<Rightarrow> scanReport list" where
  "firstScanReports lite st = (if \<not> lite then [] else
     map (\<lambda>(_, scan). \<lparr>srAddress = fsAddress scan, srStartHeight = fsStart scan, srScannedHeight = fsNext scan - 1,
       srFinished = False, srFailedEvents = 0\<rparr>) (isFirstScans st) @
     map (\<lambda>(address, start, failedEvents). \<lparr>srAddress = address, srStartHeight = start, srScannedHeight = isIndexedHeight st,
       srFinished = True, srFailedEvents = failedEvents\<rparr>) (isScannedUnready st))"

record publicStatus =
  psRunning :: bool
  psLatestChainHeight :: int
  psLatestSlot :: int
  psIndexedHeight :: int
  psLastRunFailed :: bool
  psLastWarning :: bool
  psDiscovered :: nat
  psFirstScans :: "scanReport list"

definition toPublicIndexerStatus :: "bool \<Rightarrow> indexerState \<Rightarrow> publicStatus" where
  "toPublicIndexerStatus lite st = \<lparr>psRunning = isRunning st, psLatestChainHeight = isLatestChainHeight st,
     psLatestSlot = isLatestSlot st, psIndexedHeight = isIndexedHeight st, psLastRunFailed = (isLastError st \<noteq> None),
     psLastWarning = isLastWarning st, psDiscovered = isDiscovered st, psFirstScans = firstScanReports lite st\<rparr>"

section \<open>What a synchronisation does to the table of contracts\<close>

definition flagsOf :: "contractRow \<Rightarrow> nat \<times> string \<times> bool \<times> bool" where
  "flagsOf c = (coId c, coAddress c, coReady c, coPermissionsVerified c)"

definition allFlags :: "database \<Rightarrow> (nat \<times> string \<times> bool \<times> bool) set" where
  "allFlags db = flagsOf ` set (dbContracts db)"

text \<open>Rows stay with their flags; a new row is not ready.\<close>

definition rowsKept :: "database \<Rightarrow> database \<Rightarrow> bool" where
  "rowsKept db db' \<longleftrightarrow> allFlags db \<subseteq> allFlags db' \<and> {(i, a, r, v) \<in> allFlags db'. r} \<subseteq> allFlags db"

lemma rowsKept_flags: "map flagsOf (dbContracts db') = map flagsOf (dbContracts db) \<Longrightarrow> rowsKept db db'"
  unfolding rowsKept_def allFlags_def set_map [symmetric] by auto

lemma rowsKept_same: "dbContracts db' = dbContracts db \<Longrightarrow> rowsKept db db'"
  by (simp add: rowsKept_flags)

lemma rowsKept_trans: "rowsKept a b \<Longrightarrow> rowsKept b c \<Longrightarrow> rowsKept a c"
  unfolding rowsKept_def by blast

lemma rowsKept_subscribe: "rowsKept db (subscribeChild I cid e db)"
  by (auto simp: subscribeChild_def rowsKept_def allFlags_def flagsOf_def split: option.split)

lemma rowsKept_apply: "rowsKept db (applyEvent I cid e ord src fb db)"
proof -
  have init: "rowsKept db (applySetupEvent I cid e ord src db)"
    by (rule rowsKept_flags)
      (simp add: applySetupEvent_def Let_def appendContractConfigSnapshot_def updateRow_def flagsOf_def comp_def if_distrib cong: if_cong)
  have sub: "rowsKept db (subscribeChild I cid e db')" if "dbContracts db' = dbContracts db" for db'
    using rowsKept_trans [OF rowsKept_same [OF that] rowsKept_subscribe] .
  have prp: "rowsKept db (applyProposalEvent I cid e db)"
    by (auto simp: applyProposalEvent_def Let_def rowsKept_same intro!: sub split: option.split)
  show ?thesis
    unfolding applyEvent_def using init prp by (simp add: rowsKept_same contracts_same)
qed

lemma record_contracts: "recordEvent cid e fp err db = Inr (eid, db') \<Longrightarrow> dbContracts db' = dbContracts db \<and> dbCursors db' = dbCursors db"
  by (auto simp: recordEvent_def split: if_split_asm)

lemma ingest_frame:
  assumes "ingestEvent I fault cid e ord fp fb db = Inr (outcome, db')"
  shows "rowsKept db db'" "dbCursors db' = dbCursors db"
proof -
  have "rowsKept db db' \<and> dbCursors db' = dbCursors db" using assms
  proof (cases rule: ingest_cases)
    case (1 eid db1)
    then show ?thesis
      using record_contracts [OF 1(2)] rowsKept_trans [OF rowsKept_same rowsKept_apply] applyEvent_log [of db1 I cid e ord eid fb]
      by (metis sameLog_def)
  next
    case (2 reason eid)
    then show ?thesis using record_contracts [OF 2(2)] by (auto intro: rowsKept_same)
  qed (simp add: rowsKept_same)
  then show "rowsKept db db'" "dbCursors db' = dbCursors db" by blast+
qed

text \<open>The events of a vault, whether they end with an error or not.\<close>

lemma syncEvents_frame:
  assumes "dbOk db" "syncEvents I N cid address seq es ing db = (r, db')"
  shows "dbOk db' \<and> rowsKept db db' \<and> dbCursors db' = dbCursors db \<and> (isRecorded x db \<longrightarrow> isRecorded x db')"
  using assms
proof (induction es arbitrary: seq ing db)
  case (Cons e es)
  let ?fp = "fingerprintEvent address e"
  show ?case
  proof (cases "isRecorded ?fp db")
    case True
    then show ?thesis using Cons by simp
  next
    case False
    show ?thesis
    proof (cases "if ceType e = ''setupOwner'' then fetchSetupFallback N cid address db else Inr None")
      case (Inl err)
      then show ?thesis using Cons.prems False by (auto simp: rowsKept_same)
    next
      case (Inr fb)
      show ?thesis
      proof (cases "ingestEvent I (netFault N ?fp) cid e seq ?fp fb db")
        case (Inl f)
        then show ?thesis using Cons.prems False Inr by (auto simp: rowsKept_same)
      next
        case ing1: (Inr o')
        obtain outcome db1 where o': "o' = (outcome, db1)" by (cases o')
        note g = ing1 [unfolded o']
        have s: "syncEvents I N cid address (Suc seq) es (ing \<or> outcome = Applied) db1 = (r, db')"
          using Cons.prems False Inr g by simp
        from Cons.IH [OF ok_ingest [OF Cons.prems(1) g] s] ingest_frame [OF g] ingest_records [OF g]
        show ?thesis using rowsKept_trans by (metis (no_types))
      qed
    qed
  qed
qed (simp add: rowsKept_same)

text \<open>A vault that is ready has had its permissions verified.\<close>

definition readyVerified :: "database \<Rightarrow> bool" where
  "readyVerified db \<longleftrightarrow> (\<forall>(i, a, r, v)\<in>allFlags db. r \<longrightarrow> v)"

text \<open>Synchronising vaults: the keys, the cursors and the records stay, no other vault becomes ready, and no
  vault loses its address or its verification.\<close>

definition syncFrame :: "nat set \<Rightarrow> database \<Rightarrow> database \<Rightarrow> bool" where
  "syncFrame C db db' \<longleftrightarrow> dbOk db' \<and> readyVerified db' \<and> dbCursors db' = dbCursors db \<and>
     (\<forall>x. isRecorded x db \<longrightarrow> isRecorded x db') \<and>
     (\<forall>(i, a, r, v)\<in>allFlags db. \<exists>r' v'. (i, a, r', v') \<in> allFlags db' \<and> (v \<longrightarrow> v')) \<and>
     (\<forall>(i, a, r, v)\<in>allFlags db'. r \<longrightarrow> i \<in> C \<or> (\<exists>a v. (i, a, True, v) \<in> allFlags db))"

lemma readyVerifiedI: "(\<And>i a v. (i, a, True, v) \<in> allFlags db \<Longrightarrow> v) \<Longrightarrow> readyVerified db"
  by (auto simp: readyVerified_def)

lemma frameI:
  assumes "dbOk b" "readyVerified b" "dbCursors b = dbCursors a" "\<And>x. isRecorded x a \<Longrightarrow> isRecorded x b"
    "\<And>i x r v. (i, x, r, v) \<in> allFlags a \<Longrightarrow> \<exists>r' v'. (i, x, r', v') \<in> allFlags b \<and> (v \<longrightarrow> v')"
    "\<And>i x v. (i, x, True, v) \<in> allFlags b \<Longrightarrow> i \<in> C \<or> (\<exists>a' v. (i, a', True, v) \<in> allFlags a)"
  shows "syncFrame C a b"
proof -
  have "\<forall>(i, x, r, v)\<in>allFlags a. \<exists>r' v'. (i, x, r', v') \<in> allFlags b \<and> (v \<longrightarrow> v')" using assms(5) by auto
  moreover have "\<forall>(i, x, r, v)\<in>allFlags b. r \<longrightarrow> i \<in> C \<or> (\<exists>a' v. (i, a', True, v) \<in> allFlags a)"
  proof clarify
    fix i x r v assume "(i, x, r, v) \<in> allFlags b" r "\<nexists>a' v. (i, a', True, v) \<in> allFlags a"
    then show "i \<in> C" using assms(6) [of i x v] by simp
  qed
  ultimately show ?thesis using assms(1-4) unfolding syncFrame_def by blast
qed

lemma frameD:
  assumes "syncFrame C a b"
  shows "dbOk b" "readyVerified b" "dbCursors b = dbCursors a" "isRecorded x a \<Longrightarrow> isRecorded x b"
    "(i, y, r, v) \<in> allFlags a \<Longrightarrow> \<exists>r' v'. (i, y, r', v') \<in> allFlags b \<and> (v \<longrightarrow> v')"
    "(i, y, True, v) \<in> allFlags b \<Longrightarrow> i \<in> C \<or> (\<exists>a' v. (i, a', True, v) \<in> allFlags a)"
  using assms unfolding syncFrame_def by fast+

lemma frame_kept:
  assumes "dbOk db'" "readyVerified db" "rowsKept db db'" "dbCursors db' = dbCursors db" "\<And>x. isRecorded x db \<Longrightarrow> isRecorded x db'"
  shows "syncFrame C db db'"
proof (rule frameI)
  have keep: "f \<in> allFlags db'" if "f \<in> allFlags db" for f using assms(3) that by (auto simp: rowsKept_def)
  have past: "(i, a, True, v) \<in> allFlags db" if "(i, a, True, v) \<in> allFlags db'" for i a v
    using assms(3) that by (auto simp: rowsKept_def)
  show "readyVerified db'" using assms(2) past by (fastforce simp: readyVerified_def)
  show "\<exists>r' v'. (i, x, r', v') \<in> allFlags db' \<and> (v \<longrightarrow> v')" if "(i, x, r, v) \<in> allFlags db" for i x r v using keep [OF that] by blast
  show "i \<in> C \<or> (\<exists>a' v. (i, a', True, v) \<in> allFlags db)" if "(i, x, True, v) \<in> allFlags db'" for i x v using past [OF that] by blast
qed (use assms in simp_all)

lemma frame_refl: "dbOk db \<Longrightarrow> readyVerified db \<Longrightarrow> syncFrame C db db"
  by (rule frame_kept) (simp_all add: rowsKept_same)

lemma frame_trans:
  assumes ab: "syncFrame C a b" and bc: "syncFrame D b c" and sub: "C \<union> D \<subseteq> F"
  shows "syncFrame F a c"
proof (rule frameI)
  show "\<exists>r' v'. (i, x, r', v') \<in> allFlags c \<and> (v \<longrightarrow> v')" if "(i, x, r, v) \<in> allFlags a" for i x r v
    using frameD(5) [OF ab that] frameD(5) [OF bc] by blast
  show "i \<in> F \<or> (\<exists>a' v. (i, a', True, v) \<in> allFlags a)" if "(i, x, True, v) \<in> allFlags c" for i x v
    using frameD(6) [OF bc that] frameD(6) [OF ab] sub by blast
qed (use frameD(1-4) [OF ab] frameD(1-4) [OF bc] in simp_all)

lemma frame_mono: "syncFrame C a b \<Longrightarrow> C \<subseteq> F \<Longrightarrow> syncFrame F a b"
  by (rule frame_trans [where D = "{}" and b = b]) (simp_all add: frame_refl frameD(1,2))

lemma fst_flagsOf: "fst (flagsOf c) = coId c"
  by (simp add: flagsOf_def)

lemma allFlags_update:
  assumes "\<And>c. flagsOf (change c) = g (flagsOf c)"
  shows "allFlags (updateContract cid change db) = (\<lambda>f. if fst f = cid then g f else f) ` allFlags db"
proof -
  have "flagsOf (if coId c = cid then change c else c) = (if fst (flagsOf c) = cid then g (flagsOf c) else flagsOf c)" for c
    by (cases "coId c = cid") (simp_all add: assms fst_flagsOf)
  moreover have "dbContracts (db\<lparr>dbContracts := rows\<rparr>) = rows" for rows by simp
  ultimately show ?thesis unfolding allFlags_def updateContract_def updateRow_def by (simp only: set_map image_image)
qed

lemma frame_update:
  fixes change g
  assumes ok: "dbOk db" "readyVerified db" and change: "\<And>c. coId (change c) = coId c" "\<And>c. coAddress (change c) = coAddress c"
    and flags: "allFlags (updateContract cid change db) = (\<lambda>f. if fst f = cid then g f else f) ` allFlags db"
    and g: "\<And>a r v. (cid, a, r, v) \<in> allFlags db \<Longrightarrow> \<exists>r' v'. g (cid, a, r, v) = (cid, a, r', v') \<and> (v \<longrightarrow> v') \<and> (r' \<longrightarrow> v')"
  shows "syncFrame {cid} db (updateContract cid change db)"
proof (rule frameI)
  let ?h = "\<lambda>f. if fst f = cid then g f else f"
  show "dbOk (updateContract cid change db)" unfolding updateContract_def by (rule ok_updateContract) (simp_all add: ok change)
  have img: "\<exists>r' v'. ?h (i, a, r, v) = (i, a, r', v') \<and> (v \<longrightarrow> v') \<and> (r' \<longrightarrow> v') \<and> (r' \<longrightarrow> r \<or> i = cid)"
    if "(i, a, r, v) \<in> allFlags db" for i a r v
    using g [of a r v] that ok(2) by (cases "i = cid") (auto simp: readyVerified_def)
  show "readyVerified (updateContract cid change db)"
  proof (rule readyVerifiedI)
    fix i a v assume "(i, a, True, v) \<in> allFlags (updateContract cid change db)"
    then have "(i, a, True, v) \<in> ?h ` allFlags db" by (simp only: flags)
    then obtain f where f: "f \<in> allFlags db" "(i, a, True, v) = ?h f" by (rule imageE) (rule that)
    obtain i0 a0 r0 v0 where c: "f = (i0, a0, r0, v0)" by (cases f)
    show v using img [of i0 a0 r0 v0] f unfolding c by auto
  qed
  show "\<exists>r' v'. (i, x, r', v') \<in> allFlags (updateContract cid change db) \<and> (v \<longrightarrow> v')" if f: "(i, x, r, v) \<in> allFlags db" for i x r v
  proof -
    obtain r' v' where h: "?h (i, x, r, v) = (i, x, r', v')" "v \<longrightarrow> v'" using img [OF f] by blast
    have "(i, x, r', v') \<in> ?h ` allFlags db" using imageI [OF f, of ?h] by (simp only: h(1))
    then show ?thesis using h(2) unfolding flags by blast
  qed
  show "i \<in> {cid} \<or> (\<exists>a' v. (i, a', True, v) \<in> allFlags db)" if "(i, x, True, v) \<in> allFlags (updateContract cid change db)" for i x v
    using that unfolding flags by (cases "i = cid") (auto dest: img)
qed (simp_all add: updateContract_def isRecorded_def)

section \<open>Synchronising one vault\<close>

lemma groupEvents_mset: "mset (concat (map snd (groupEvents es))) = mset es"
  by (induction es rule: rev_induct) (simp_all add: groupEvents_def pushGroup_mset)

lemma set_ordered: "set (orderEventsForApply (reverseEventsWithinEachTx es)) = set es"
proof -
  have "mset (reverseEventsWithinEachTx es) = mset es"
    by (simp only: reverseEventsWithinEachTx_def concat_rev_mset groupEvents_mset)
  then show ?thesis unfolding orderEventsForApply_stable set_sort by (rule mset_eq_setD)
qed

lemma flags_unique:
  assumes "dbOk db" "(i, a, r, v) \<in> allFlags db" "(i, a', r', v') \<in> allFlags db"
  shows "a' = a \<and> r' = r \<and> v' = v"
proof -
  obtain c c' where c: "c \<in> set (dbContracts db)" "c' \<in> set (dbContracts db)" "flagsOf c = (i, a, r, v)" "flagsOf c' = (i, a', r', v')"
    using assms(2,3) by (force simp: allFlags_def)
  have "distinct (map coId (dbContracts db))" using assms(1) by (simp add: ok_defs)
  then have "c = c'" using c by (auto simp: distinct_map inj_on_def flagsOf_def)
  then show ?thesis using c(3,4) by simp
qed

lemma found_flags:
  assumes "findContract cid db = Some c"
  shows "(cid, coAddress c, coReady c, coPermissionsVerified c) \<in> allFlags db"
proof -
  have "c \<in> set (dbContracts db)" "coId c = cid" using assms by (auto simp: findContract_def find_Some_iff)
  then show ?thesis by (auto simp: allFlags_def flagsOf_def image_iff intro!: bexI [of _ c])
qed

text \<open>The part of a synchronisation behind the check of the permissions.\<close>

lemma read_frame:
  assumes ok: "dbOk db" "readyVerified db" and v: "(cid, a, r, True) \<in> allFlags db"
    and s: "syncEvents I N cid address seq es ing db = (res, db2)"
  shows "syncFrame {cid} db db2"
    "syncFrame {cid} db (updateContract cid (\<lambda>c. if ready then c\<lparr>coSynced := True, coReady := True\<rparr> else c\<lparr>coSynced := True\<rparr>) db2)"
proof -
  have f: "dbOk db2" "rowsKept db db2" "dbCursors db2 = dbCursors db" "isRecorded x db \<Longrightarrow> isRecorded x db2" for x
    using syncEvents_frame [OF ok(1) s] by blast+
  show one: "syncFrame {cid} db db2" by (rule frame_kept [OF f(1) ok(2) f(2,3,4)])
  let ?change = "\<lambda>c. if ready then c\<lparr>coSynced := True, coReady := True\<rparr> else c\<lparr>coSynced := True\<rparr>"
  have v2: "(cid, a, r, True) \<in> allFlags db2" using v f(2) by (auto simp: rowsKept_def)
  have "syncFrame {cid} db2 (updateContract cid ?change db2)"
  proof (rule frame_update [where g = "\<lambda>(i, a, r, v). (i, a, r \<or> ready, v)"])
    show "allFlags (updateContract cid ?change db2) =
        (\<lambda>f. if fst f = cid then case f of (i, a, r, v) \<Rightarrow> (i, a, r \<or> ready, v) else f) ` allFlags db2"
      by (rule allFlags_update) (simp add: flagsOf_def)
    show "\<exists>r' v'. (case (cid, b, q, w) of (i, a, r, v) \<Rightarrow> (i, a, r \<or> ready, v)) = (cid, b, r', v') \<and> (w \<longrightarrow> v') \<and> (r' \<longrightarrow> v')"
      if "(cid, b, q, w) \<in> allFlags db2" for b q w
      using flags_unique [OF f(1) v2 that] by (auto simp: ex_bool_eq)
  qed (use frameD(1,2) [OF one] in simp_all)
  then show "syncFrame {cid} db (updateContract cid ?change db2)" using frame_trans [OF one] by simp
qed

lemma verify_frame:
  assumes "dbOk db" "readyVerified db"
  shows "syncFrame {cid} db (updateContract cid (\<lambda>c. c\<lparr>coPermissionsVerified := True\<rparr>) db)"
    "findContract cid db \<noteq> None \<Longrightarrow>
      \<exists>a r. (cid, a, r, True) \<in> allFlags (updateContract cid (\<lambda>c. c\<lparr>coPermissionsVerified := True\<rparr>) db)"
proof -
  have flags: "allFlags (updateContract cid (\<lambda>c. c\<lparr>coPermissionsVerified := True\<rparr>) db) =
      (\<lambda>f. if fst f = cid then case f of (i, a, r, v) \<Rightarrow> (i, a, r, True) else f) ` allFlags db"
    by (rule allFlags_update) (simp add: flagsOf_def)
  show "syncFrame {cid} db (updateContract cid (\<lambda>c. c\<lparr>coPermissionsVerified := True\<rparr>) db)"
    by (rule frame_update [OF assms _ _ flags]) (simp_all add: ex_bool_eq)
  show "\<exists>a r. (cid, a, r, True) \<in> allFlags (updateContract cid (\<lambda>c. c\<lparr>coPermissionsVerified := True\<rparr>) db)"
    if found: "findContract cid db \<noteq> None"
  proof -
    obtain c where "findContract cid db = Some c" using found by blast
    then have "(cid, coAddress c, coReady c, True) \<in> (\<lambda>f. if fst f = cid then case f of (i, a, r, v) \<Rightarrow> (i, a, r, True) else f) ` allFlags db"
      by (intro image_eqI [where x = "(cid, coAddress c, coReady c, coPermissionsVerified c)"]) (simp_all add: found_flags)
    then show ?thesis unfolding flags by blast
  qed
qed

lemma refuse_frame:
  assumes "dbOk db" "readyVerified db" "\<And>c. findContract cid db = Some c \<Longrightarrow> \<not> coPermissionsVerified c"
  shows "syncFrame {cid} db (updateContract cid (\<lambda>c. c\<lparr>coReady := False, coPermissionsVerified := False\<rparr>) db)"
proof (rule frame_update [where g = "\<lambda>(i, a, r, v). (i, a, False, False)", OF assms(1,2)])
  show "allFlags (updateContract cid (\<lambda>c. c\<lparr>coReady := False, coPermissionsVerified := False\<rparr>) db) =
      (\<lambda>f. if fst f = cid then case f of (i, a, r, v) \<Rightarrow> (i, a, False, False) else f) ` allFlags db"
    by (rule allFlags_update) (simp add: flagsOf_def)
  show "\<exists>r' v'. (case (cid, a, r, v) of (i, a, r, v) \<Rightarrow> (i, a, False, False)) = (cid, a, r', v') \<and> (v \<longrightarrow> v') \<and> (r' \<longrightarrow> v')"
    if f: "(cid, a, r, v) \<in> allFlags db" for a r v
  proof -
    obtain c where "c \<in> set (dbContracts db)" "coId c = cid" using f by (auto simp: allFlags_def flagsOf_def)
    then obtain c' where c': "findContract cid db = Some c'" by (fastforce simp: findContract_def find_None_iff)
    then show ?thesis using flags_unique [OF assms(1) found_flags [OF c'] f] assms(3) by (simp add: ex_bool_eq)
  qed
qed simp_all

text \<open>A synchronisation is refused without reading events, or reads them all in order.\<close>

lemma sync_cases:
  assumes "syncSingleContract I N cid address lo hi finish stored db = (res, db')"
  obtains (stopped) "res = Inr None \<or> (\<exists>e. res = Inl e)" "\<And>c. findContract cid db = Some c \<Longrightarrow> \<not> coPermissionsVerified c"
      "db' = db \<or> db' = updateContract cid (\<lambda>c. c\<lparr>coReady := False, coPermissionsVerified := False\<rparr>) db"
  | (failed) db1 e where "db1 = db \<and> (\<exists>c. findContract cid db = Some c \<and> coPermissionsVerified c) \<or>
        db1 = updateContract cid (\<lambda>c. c\<lparr>coPermissionsVerified := True\<rparr>) db \<and> findContract cid db \<noteq> None"
      "netEvents N address lo hi = Inl e" "res = Inl (NetError e)" "db' = db1"
  | (read) db1 fetched res' db2 ready where "db1 = db \<and> (\<exists>c. findContract cid db = Some c \<and> coPermissionsVerified c) \<or>
        db1 = updateContract cid (\<lambda>c. c\<lparr>coPermissionsVerified := True\<rparr>) db \<and> findContract cid db \<noteq> None"
      "netEvents N address lo hi = Inr fetched"
      "syncEvents I N cid address 0 (orderEventsForApply (reverseEventsWithinEachTx fetched)) False db1 = (res', db2)"
      "res = map_sum id Some res'"
      "db' = db2 \<or> db' = updateContract cid (\<lambda>c. if ready then c\<lparr>coSynced := True, coReady := True\<rparr> else c\<lparr>coSynced := True\<rparr>) db2"
proof -
  let ?verified = "case findContract cid db of Some c \<Rightarrow> coPermissionsVerified c | None \<Rightarrow> False"
  let ?read = "\<lambda>db1. case netEvents N address lo hi of
            Inl err \<Rightarrow> (Inl (NetError err), db1)
          | Inr fetched \<Rightarrow>
            (case syncEvents I N cid address 0 (orderEventsForApply (reverseEventsWithinEachTx fetched)) False db1 of
               (Inl err, db2) \<Rightarrow> (Inl err, db2)
             | (Inr ingested, db2) \<Rightarrow>
               if finish then
                 (let ready = (ingested \<or> (stored \<and>
                        list_ex (\<lambda>e. erwContractId e = Some cid \<and> erwApplyError e = None) (dbEvents db2)))
                  in (Inr (Some ingested), updateContract cid (\<lambda>c. if ready then c\<lparr>coSynced := True, coReady := True\<rparr>
                        else c\<lparr>coSynced := True\<rparr>) db2))
               else (Inr (Some ingested), db2))"
  have go: thesis if "(res, db') = ?read db1" "db1 = db \<and> (\<exists>c. findContract cid db = Some c \<and> coPermissionsVerified c) \<or>
        db1 = updateContract cid (\<lambda>c. c\<lparr>coPermissionsVerified := True\<rparr>) db \<and> findContract cid db \<noteq> None" for db1
  proof (cases "netEvents N address lo hi")
    case (Inl e)
    then show ?thesis using failed that by simp
  next
    case (Inr fetched)
    obtain res' db2 where s: "syncEvents I N cid address 0 (orderEventsForApply (reverseEventsWithinEachTx fetched)) False db1 = (res', db2)"
      by fastforce
    let ?ready = "case res' of Inr ing \<Rightarrow> ing \<or> (stored \<and>
      list_ex (\<lambda>e. erwContractId e = Some cid \<and> erwApplyError e = None) (dbEvents db2)) | Inl _ \<Rightarrow> False"
    show ?thesis
      by (rule read [OF that(2) Inr s, where ready = ?ready]) (use that(1) Inr s in \<open>auto simp: Let_def split: sum.split_asm if_split_asm\<close>)
  qed
  show ?thesis
  proof (cases ?verified)
    case True
    then have "(res, db') = ?read db" using assms by (simp add: syncSingleContract_def Let_def)
    then show ?thesis by (rule go) (use True in \<open>auto split: option.split_asm\<close>)
  next
    case False
    then have nv: "\<And>c. findContract cid db = Some c \<Longrightarrow> \<not> coPermissionsVerified c" by auto
    show ?thesis
    proof (cases "netSecurity N address")
      case (Inl e)
      then show ?thesis using assms False nv by (intro stopped) (auto simp: syncSingleContract_def Let_def)
    next
      case (Inr sec)
      show ?thesis
      proof (cases "accountFound sec \<and> findContract cid db \<noteq> None \<and> safe sec")
        case True
        then have "(res, db') = ?read (updateContract cid (\<lambda>c. c\<lparr>coPermissionsVerified := True\<rparr>) db)"
          using assms nv Inr by (auto simp: syncSingleContract_def Let_def)
        then show ?thesis by (rule go) (use True in blast)
      next
        case no: False
        then show ?thesis using assms False nv Inr
          by (intro stopped) (auto simp: syncSingleContract_def Let_def split: if_split_asm)
      qed
    qed
  qed
qed

lemma sync_frame:
  assumes ok: "dbOk db" "readyVerified db" and s: "syncSingleContract I N cid address lo hi finish stored db = (res, db')"
  shows "syncFrame {cid} db db'"
proof -
  have start: "\<exists>a r. (cid, a, r, True) \<in> allFlags db1 \<and> syncFrame {cid} db db1"
    if "db1 = db \<and> (\<exists>c. findContract cid db = Some c \<and> coPermissionsVerified c) \<or>
      db1 = updateContract cid (\<lambda>c. c\<lparr>coPermissionsVerified := True\<rparr>) db \<and> findContract cid db \<noteq> None" for db1
    using that verify_frame [OF ok, of cid] found_flags frame_refl [OF ok] by (metis (full_types))
  from s show ?thesis
  proof (cases rule: sync_cases)
    case stopped
    then show ?thesis using frame_refl [OF ok] refuse_frame [OF ok] by blast
  next
    case (failed db1 e)
    then show ?thesis using start by blast
  next
    case (read db1 fetched res' db2 ready)
    obtain a r where db1: "(cid, a, r, True) \<in> allFlags db1" "syncFrame {cid} db db1" using start [OF read(1)] by blast
    have "syncFrame {cid} db1 db'"
      using read_frame [OF frameD(1,2) [OF db1(2)] db1(1) read(3)] read(5) by auto
    then show ?thesis using frame_trans [OF db1(2)] by simp
  qed
qed

lemma sync_reads:
  assumes "syncSingleContract I N cid address lo hi finish stored db = (Inr (Some ing), db')"
  shows "\<exists>es. netEvents N address lo hi = Inr es \<and> (\<forall>e\<in>set es. isRecorded (fingerprintEvent address e) db')"
  using assms
proof (cases rule: sync_cases)
  case (read db1 fetched res' db2 ready)
  then have "syncEvents I N cid address 0 (orderEventsForApply (reverseEventsWithinEachTx fetched)) False db1 = (Inr ing, db2)"
    by (cases res') auto
  from syncEvents_records [OF this] have "\<forall>e\<in>set fetched. isRecorded (fingerprintEvent address e) db2" by (simp add: set_ordered)
  moreover have "dbEvents db' = dbEvents db2" using read(5) by (auto simp: updateContract_def)
  ultimately show ?thesis using read(2) isRecorded_cong by blast
qed auto

lemma sync_verified:
  assumes "dbOk db" "(cid, a, r, True) \<in> allFlags db" "syncSingleContract I N cid address lo hi finish stored db = (Inr x, db')"
  shows "x \<noteq> None"
  using assms(3)
proof (cases rule: sync_cases)
  case stopped
  obtain c where "c \<in> set (dbContracts db)" "coId c = cid" using assms(2) by (auto simp: allFlags_def flagsOf_def)
  then obtain c' where c': "findContract cid db = Some c'" by (fastforce simp: findContract_def find_None_iff)
  then show ?thesis using flags_unique [OF assms(1) found_flags [OF c'] assms(2)] stopped(2) [OF c'] by simp
next
  case (read db1 fetched res' db2 ready)
  then show ?thesis by (cases res') auto
qed simp

section \<open>The invariant of the loop\<close>

definition loopInv :: "database \<Rightarrow> bool" where
  "loopInv db \<longleftrightarrow> dbOk db \<and> readyVerified db"

lemma inv_frame: "syncFrame C db db' \<Longrightarrow> loopInv db'"
  by (simp add: loopInv_def frameD(1,2))

lemma inv_sync: "loopInv db \<Longrightarrow> syncSingleContract I N cid address lo hi finish stored db = (res, db') \<Longrightarrow> loopInv db'"
  unfolding loopInv_def [of db] by (rule inv_frame [OF sync_frame]) simp_all

lemma inv_track: "loopInv db \<Longrightarrow> loopInv (trackContract address b v db)"
proof -
  assume inv: "loopInv db"
  then have "dbOk (trackContract address b v db)" by (simp add: loopInv_def ok_track)
  moreover have "readyVerified (trackContract address b v db)"
    using inv by (auto simp: loopInv_def trackContract_def readyVerified_def allFlags_def flagsOf_def)
  ultimately show ?thesis by (simp add: loopInv_def)
qed

lemma inv_rows: "loopInv db \<Longrightarrow> dbContracts db' = dbContracts db \<Longrightarrow> dbOk db' \<Longrightarrow> loopInv db'"
  by (simp add: loopInv_def readyVerified_def allFlags_def)

lemma inv_cursor: "loopInv db \<Longrightarrow> loopInv (setCursor key h db)"
  by (rule inv_rows) (simp_all add: loopInv_def ok_cursor)

lemma inv_poll: "loopInv db \<Longrightarrow> loopInv (pollPendingSubmissions A db)"
proof -
  assume inv: "loopInv db"
  let ?change = "\<lambda>p. if inFlight (list_ex (\<lambda>x. etProposalId x = ptId p) (dbExecutions db)) p
    then pollProposal A (list_ex (\<lambda>x. etProposalId x = ptId p) (dbExecutions db)) p else p"
  have "pollPendingSubmissions A db = db\<lparr>dbProposals := updateRow (\<lambda>_. True) ?change (dbProposals db)\<rparr>"
    by (simp add: pollPendingSubmissions_def updateRow_def Let_def)
  moreover have "dbOk (db\<lparr>dbProposals := updateRow (\<lambda>_. True) ?change (dbProposals db)\<rparr>)"
    by (rule ok_updateProposals) (use inv in \<open>simp_all add: loopInv_def pollProposal_def\<close>)
  ultimately show ?thesis using inv_rows [OF inv] by simp
qed

lemma inv_backfill: "loopInv db \<Longrightarrow> backfillContract I cfg N cid address db = (res, db') \<Longrightarrow> loopInv db'"
  by (auto simp: backfillContract_def Let_def intro: inv_sync split: if_split_asm)

lemma inv_candidate: "loopInv db \<Longrightarrow> processCandidate I cfg N c db = (threw, db') \<Longrightarrow> loopInv db'"
  by (cases c) (auto simp: processCandidate_def split: if_split_asm sum.split_asm prod.split_asm intro: inv_backfill [OF inv_track])

lemma inv_candidates: "loopInv db \<Longrightarrow> processCandidateAddresses I cfg N cs db = (n, db') \<Longrightarrow> loopInv db'"
proof (induction cs arbitrary: db n)
  case (Cons c cs)
  obtain threw db1 where c: "processCandidate I cfg N c db = (threw, db1)" by fastforce
  obtain m where "processCandidateAddresses I cfg N cs db1 = (m, db')"
    using Cons.prems(2) c by (auto simp: Let_def split: prod.split_asm)
  then show ?case by (rule Cons.IH [OF inv_candidate [OF Cons.prems(1) c]])
qed simp

lemma inv_discover:
  assumes "loopInv db" "discoverContracts I cfg A latest indexed st db = (res, st', db')"
  shows "loopInv db'"
proof (cases "ieLite I \<or> (\<exists>e. discoveryCandidates cfg A latest indexed db = Inl e)")
  case True
  then show ?thesis using assms by (auto simp: discoverContracts_def split: if_split_asm)
next
  case False
  then obtain cs where cs: "discoveryCandidates cfg A latest indexed db = Inr cs" by (cases "discoveryCandidates cfg A latest indexed db") auto
  obtain n db1 where d: "processCandidateAddresses I cfg (taScanNet A) cs db = (n, db1)" by fastforce
  have "db' = db1 \<or> db' = setArchiveDiscoveredHeight latest db1"
    using assms(2) False cs d by (auto simp: discoverContracts_def split: if_split_asm)
  then show ?thesis using inv_candidates [OF assms(1) d] inv_cursor by (auto simp: setArchiveDiscoveredHeight_def)
qed

lemma inv_scan: "loopInv db \<Longrightarrow> scanSteps I N latest c steps scan st db = (res, st', db') \<Longrightarrow> loopInv db'"
proof (induction steps arbitrary: scan st db)
  case (Suc steps)
  let ?to = "min (fsNext scan + EVENT_QUERY_BLOCK_SPAN - 1) latest"
  obtain r db1 where s: "syncSingleContract I N (coId c) (coAddress c) (fsNext scan) ?to (?to = latest) True db = (r, db1)"
    by fastforce
  show ?case
    using Suc.prems(2) Suc.IH inv_sync [OF Suc.prems(1) s] s by (auto simp: Let_def split: sum.split_asm option.split_asm if_split_asm)
qed simp

lemma inv_rescan: "loopInv db \<Longrightarrow> rescanContract I cfg N lo latest c steps st db = (res, st', db') \<Longrightarrow> loopInv db'"
  by (auto simp: rescanContract_def Let_def split: if_split_asm sum.split_asm prod.split_asm intro: inv_sync inv_scan)

lemma inv_rescanLoop: "loopInv db \<Longrightarrow> rescanLoop I cfg N lo latest cs steps st db = (res, st', db') \<Longrightarrow> loopInv db'"
proof (induction cs arbitrary: steps st db)
  case (Cons c cs)
  obtain r st1 db1 where r: "rescanContract I cfg N lo latest c steps st db = (r, st1, db1)" by (cases "rescanContract I cfg N lo latest c steps st db") auto
  show ?case using Cons.prems(2) Cons.IH inv_rescan [OF Cons.prems(1) r] r by (auto split: sum.split_asm)
qed simp

lemma inv_rescanAll: "loopInv db \<Longrightarrow> rescanUnreadyContracts I cfg N lo latest st db = (res, st', db') \<Longrightarrow> loopInv db'"
  unfolding rescanUnreadyContracts_def Let_def by (rule inv_rescanLoop)

lemma sweep_frame:
  "loopInv db \<Longrightarrow> sweepContracts I N lo hi cs db = (res, db') \<Longrightarrow> syncFrame (coId ` set cs) db db'"
proof (induction cs arbitrary: db)
  case Nil
  then show ?case by (auto simp: loopInv_def intro: frame_refl)
next
  case (Cons c cs)
  obtain r db1 where s: "syncSingleContract I N (coId c) (coAddress c) lo hi True False db = (r, db1)" by fastforce
  have one: "syncFrame {coId c} db db1" by (rule sync_frame [OF _ _ s]) (use Cons.prems(1) in \<open>simp_all add: loopInv_def\<close>)
  show ?case
  proof (cases r)
    case (Inl e)
    then show ?thesis using Cons.prems(2) s frame_mono [OF one] by auto
  next
    case (Inr x)
    then have rest: "sweepContracts I N lo hi cs db1 = (res, db')" using Cons.prems(2) s by simp
    show ?thesis by (rule frame_trans [OF one Cons.IH [OF inv_frame [OF one] rest]]) auto
  qed
qed

text \<open>A sweep that succeeds has recorded every event of every vault it went over.\<close>

lemma sweep_reads:
  assumes "loopInv db" "sweepContracts I N lo hi cs db = (Inr u, db')" "\<forall>c\<in>set cs. \<exists>a r. (coId c, a, r, True) \<in> allFlags db" "c \<in> set cs"
  shows "\<exists>es. netEvents N (coAddress c) lo hi = Inr es \<and> (\<forall>e\<in>set es. isRecorded (fingerprintEvent (coAddress c) e) db')"
  using assms
proof (induction cs arbitrary: db)
  case (Cons d cs)
  obtain r db1 where s: "syncSingleContract I N (coId d) (coAddress d) lo hi True False db = (r, db1)" by fastforce
  have one: "syncFrame {coId d} db db1" by (rule sync_frame [OF _ _ s]) (use Cons.prems(1) in \<open>simp_all add: loopInv_def\<close>)
  obtain x where x: "r = Inr x" using Cons.prems(2) s by (cases r) auto
  obtain a q where d: "(coId d, a, q, True) \<in> allFlags db" using Cons.prems(3) by auto
  have "dbOk db" using Cons.prems(1) by (simp add: loopInv_def)
  then obtain ing where ing: "x = Some ing" using sync_verified [OF _ d s [unfolded x]] by blast
  have rest: "sweepContracts I N lo hi cs db1 = (Inr u, db')" using Cons.prems(2) s x by simp
  have "\<forall>c\<in>set cs. \<exists>a r. (coId c, a, r, True) \<in> allFlags db1" using Cons.prems(3) frameD(5) [OF one] by fastforce
  from Cons.IH [OF inv_frame [OF one] rest this] have tl: "c \<in> set cs \<Longrightarrow> ?thesis" .
  show ?case
  proof (cases "c = d")
    case True
    obtain es where es: "netEvents N (coAddress d) lo hi = Inr es" "\<forall>e\<in>set es. isRecorded (fingerprintEvent (coAddress d) e) db1"
      using sync_reads [OF s [unfolded x ing]] by blast
    then show ?thesis using True frameD(4) [OF sweep_frame [OF inv_frame [OF one] rest]] by blast
  next
    case False
    then show ?thesis using tl Cons.prems(4) by simp
  qed
qed simp

section \<open>Ticks\<close>

lemma inv_rollback: "loopInv db \<Longrightarrow> loopInv (rollbackAboveFork fork lite db)"
proof -
  assume inv: "loopInv db"
  have "readyVerified (rollbackAboveFork fork lite db)"
  proof (rule readyVerifiedI)
    fix i a v assume "(i, a, True, v) \<in> allFlags (rollbackAboveFork fork lite db)"
    then obtain c where c: "c \<in> set (dbContracts (rollbackAboveFork fork lite db))" "flagsOf c = (i, a, True, v)"
      by (auto simp: allFlags_def)
    then have "c \<in> set (dbContracts db)"
      by (auto simp: rollbackAboveFork_def Let_def deleteContracts_def deleteProposals_def setCursor_def updateRow_def flagsOf_def split: if_split_asm)
    then show v using c(2) inv by (force simp: loopInv_def readyVerified_def allFlags_def)
  qed
  then show ?thesis using inv by (simp add: loopInv_def ok_rollback)
qed

lemma inv_detect: "loopInv db \<Longrightarrow> detectAndRollbackReorg hs lite db = (fork, db') \<Longrightarrow> loopInv db'"
  by (auto simp: detectAndRollbackReorg_def split: sum.split_asm option.split_asm intro: inv_rollback)

lemma inv_tickSync:
  assumes inv: "loopInv db" and t: "tickSync I cfg A latest st db = (res, st', db')"
  shows "loopInv db'"
proof -
  let ?indexed = "getIndexedHeight cfg db"
  let ?st = "st\<lparr>isIndexedHeight := ?indexed\<rparr>"
  let ?lo = "max (tcStartHeight cfg) (?indexed - EVENT_REPLAY_BLOCKS + 1)"
  show ?thesis
  proof (cases "latest < ?indexed \<or> latest < ?lo")
    case True
    then show ?thesis using t inv by (auto simp: tickSync_def Let_def)
  next
    case False
    obtain r1 st1 db1 where d: "discoverContracts I cfg A latest ?indexed ?st db = (r1, st1, db1)"
      by (cases "discoverContracts I cfg A latest ?indexed ?st db") auto
    obtain r2 st2 db2 where s: "rescanUnreadyContracts I cfg (taScanNet A) ?lo latest st1 db1 = (r2, st2, db2)"
      by (cases "rescanUnreadyContracts I cfg (taScanNet A) ?lo latest st1 db1") auto
    obtain r3 db3 where k: "syncKnownContracts I (taSweepNet A) ?lo latest db2 = (r3, db3)" by fastforce
    have i1: "loopInv db1" by (rule inv_discover [OF inv d])
    have i2: "loopInv db2" by (rule inv_rescanAll [OF i1 s])
    have i3: "loopInv db3" using k unfolding syncKnownContracts_def by (rule inv_frame [OF sweep_frame [OF i2]])
    have "db' \<in> {db1, db2, db3, pollPendingSubmissions A (setIndexedHeight latest db3)}"
      using t False d s k by (auto simp: tickSync_def Let_def split: sum.split_asm)
    then show ?thesis using i1 i2 i3 inv_poll inv_cursor by (auto simp: setIndexedHeight_def)
  qed
qed

lemma inv_tick:
  assumes inv: "loopInv db" and t: "tick I cfg A st db = (st', db')"
  shows "loopInv db'"
proof -
  obtain res st1 where b: "tickBody I cfg A st db = (res, st1, db')"
    using t by (auto simp: tick_def split: prod.split_asm sum.split_asm)
  show ?thesis
  proof (cases "taLatestHeight A")
    case (Inl e)
    then show ?thesis using b inv by (simp add: tickBody_def)
  next
    case (Inr latest)
    obtain fork db1 where d: "detectAndRollbackReorg (taHeaders A) (ieLite I) db = (fork, db1)" by fastforce
    show ?thesis using b Inr d inv_detect [OF inv d] inv_tickSync [OF inv_detect [OF inv d]]
      by (auto simp: tickBody_def Let_def split: option.split_asm)
  qed
qed

text \<open>The database under the loop and the routes: a start, a tick, a stop, a subscription, a subscription of
  a vault that is already tracked, a removal, a report.\<close>

inductive loopStep :: "('m, 'w, 's) indexerEnv \<Rightarrow> tickConfig \<Rightarrow> indexerState \<times> database \<Rightarrow> indexerState \<times> database \<Rightarrow> bool"
  for I cfg where
  ticked: "tick I cfg A st db = (st', db') \<Longrightarrow> loopStep I cfg (st, db) (st', db')"
| started: "startIndexer I cfg A genesis st db = (st', db') \<Longrightarrow> loopStep I cfg (st, db) (st', db')"
| stopped: "loopStep I cfg (st, db) (stopIndexer st, db)"
| verified: "loopStep I cfg (st, db) (st, updateContract cid (\<lambda>c. c\<lparr>coPermissionsVerified := True\<rparr>) db)"
| subscribed: "loopStep I cfg (st, db) (st, trackContract address startAt verified db)"
| removed: "loopStep I cfg (st, db) (st, deleteContract cid db)"
| reported: "(\<And>p. ptId (change p) = ptId p) \<Longrightarrow> (\<And>p. ptContractId (change p) = ptContractId p) \<Longrightarrow>
     (\<And>p. ptProposalHash (change p) = ptProposalHash p) \<Longrightarrow>
     loopStep I cfg (st, db) (st, db\<lparr>dbProposals := updateRow which change (dbProposals db)\<rparr>)"

lemma inv_delete: "loopInv db \<Longrightarrow> loopInv (deleteContract cid db)"
proof -
  assume inv: "loopInv db"
  have "set (dbContracts (deleteContract cid db)) \<subseteq> set (dbContracts db)"
    by (auto simp: deleteContract_def deleteContracts_def deleteProposals_def Let_def)
  then have "readyVerified (deleteContract cid db)" using inv by (fastforce simp: loopInv_def readyVerified_def allFlags_def)
  then show ?thesis using inv by (simp add: loopInv_def ok_deleteContract)
qed

lemma inv_start: "loopInv db \<Longrightarrow> startIndexer I cfg A genesis st db = (st', db') \<Longrightarrow> loopInv db'"
  by (auto simp: startIndexer_def apfst_def map_prod_def split: if_split_asm sum.split_asm prod.split_asm intro: inv_tick)

lemma inv_verified: "loopInv db \<Longrightarrow> loopInv (updateContract cid (\<lambda>c. c\<lparr>coPermissionsVerified := True\<rparr>) db)"
proof -
  assume inv: "loopInv db"
  have "dbOk (updateContract cid (\<lambda>c. c\<lparr>coPermissionsVerified := True\<rparr>) db)"
    unfolding updateContract_def by (rule ok_updateContract) (use inv in \<open>simp_all add: loopInv_def\<close>)
  moreover have "readyVerified (updateContract cid (\<lambda>c. c\<lparr>coPermissionsVerified := True\<rparr>) db)"
    using inv by (fastforce simp: loopInv_def readyVerified_def allFlags_def flagsOf_def updateContract_def updateRow_def)
  ultimately show ?thesis by (simp add: loopInv_def)
qed

lemma inv_step: "loopStep I cfg s s' \<Longrightarrow> loopInv (snd s) \<Longrightarrow> loopInv (snd s')"
proof (induction rule: loopStep.induct)
  case (reported change st db which)
  then show ?case using inv_rows [of db] by (simp add: ok_updateProposals loopInv_def)
qed (auto intro: inv_tick inv_track inv_delete inv_start inv_verified)

interpretation indexerLoop: machine "\<lambda>(st, db). db = emptyDatabase" "loopStep I cfg" "\<lambda>(st, db). loopInv db" for I cfg
proof unfold_locales
  show "case s of (st, db) \<Rightarrow> loopInv db" if "case s of (st, db) \<Rightarrow> db = emptyDatabase" for s :: "indexerState \<times> database"
    using that by (auto simp: loopInv_def readyVerified_def allFlags_def ok_defs emptyDatabase_def)
  show "case s' of (st, db) \<Rightarrow> loopInv db" if "case s of (st, db) \<Rightarrow> loopInv db" "loopStep I cfg s s'" for s s'
    using inv_step [OF that(2)] that(1) by (cases s; cases s') simp
qed

section \<open>The cursor\<close>

lemma jsNumber_intToString: "jsNumber (intToString n) = Some n"
proof (cases "n < 0")
  case True
  have "\<not> allDigits (CHR ''-'' # decimal (nat (- n)))" using minus_not_digit by (simp add: allDigits_def)
  then show ?thesis using True by (simp add: intToString_def jsNumber_def)
next
  case False
  then show ?thesis by (simp add: intToString_nonneg)
qed

lemma indexed_set: "getIndexedHeight cfg (pollPendingSubmissions A (setIndexedHeight h db)) = h"
  by (simp add: getIndexedHeight_def cursorHeight_def pollPendingSubmissions_def setIndexedHeight_def map_of_setCursor jsNumber_intToString)

lemma poll_frame: "dbContracts (pollPendingSubmissions A (setIndexedHeight h db)) = dbContracts db"
  "isRecorded fp (pollPendingSubmissions A (setIndexedHeight h db)) = isRecorded fp db"
  by (simp_all add: pollPendingSubmissions_def setIndexedHeight_def setCursor_def isRecorded_def)

lemma tick_success:
  assumes "tick I cfg A st db = (st', db')" "isLastError st' = None"
    and "fst (detectAndRollbackReorg (taHeaders A) (ieLite I) db) = None" "loopInv db"
  obtains latest db2 db3 where "taLatestHeight A = Inr latest" "getIndexedHeight cfg db \<le> latest"
    "max (tcStartHeight cfg) (getIndexedHeight cfg db - EVENT_REPLAY_BLOCKS + 1) \<le> latest" "loopInv db2"
    "syncKnownContracts I (taSweepNet A) (max (tcStartHeight cfg) (getIndexedHeight cfg db - EVENT_REPLAY_BLOCKS + 1)) latest db2 = (Inr (), db3)"
    "db' = pollPendingSubmissions A (setIndexedHeight latest db3)"
proof -
  have same: "detectAndRollbackReorg (taHeaders A) (ieLite I) db = (None, db)"
    using assms(3) by (auto simp: detectAndRollbackReorg_def split: sum.split option.split)
  obtain u st1 where b: "tickBody I cfg A st db = (Inr u, st1, db')"
    using assms(1,2) by (auto simp: tick_def split: prod.split_asm sum.split_asm)
  obtain latest where l: "taLatestHeight A = Inr latest" using b by (cases "taLatestHeight A") (auto simp: tickBody_def)
  obtain st2 where t: "tickSync I cfg A latest st2 db = (Inr u, st1, db')" using b l same by (auto simp: tickBody_def Let_def)
  let ?indexed = "getIndexedHeight cfg db"
  let ?st = "st2\<lparr>isIndexedHeight := ?indexed\<rparr>"
  let ?lo = "max (tcStartHeight cfg) (?indexed - EVENT_REPLAY_BLOCKS + 1)"
  have h: "\<not> (latest < ?indexed \<or> latest < ?lo)" using t by (auto simp: tickSync_def Let_def split: if_split_asm)
  obtain r3 st3 db1 where d: "discoverContracts I cfg A latest ?indexed ?st db = (r3, st3, db1)"
    by (cases "discoverContracts I cfg A latest ?indexed ?st db") auto
  obtain r4 st4 db2 where s: "rescanUnreadyContracts I cfg (taScanNet A) ?lo latest st3 db1 = (r4, st4, db2)"
    by (cases "rescanUnreadyContracts I cfg (taScanNet A) ?lo latest st3 db1") auto
  obtain r5 db3 where k: "syncKnownContracts I (taSweepNet A) ?lo latest db2 = (r5, db3)" by fastforce
  have i: "loopInv db2" by (rule inv_rescanAll [OF inv_discover [OF assms(4) d] s])
  have e: "r5 = Inr ()" "db' = pollPendingSubmissions A (setIndexedHeight latest db3)"
    using t h d s k by (auto simp: tickSync_def Let_def split: sum.split_asm)
  show ?thesis by (rule that [OF l _ _ i k [unfolded e(1)] e(2)]) (use h in linarith)+
qed

text \<open>
  C19: The cursor leaves no gap. From any state the indexer can get into, a tick that ends without an error and
  finds no reorganisation moves the cursor to the archive's tip, never backwards, and every vault that is then
  listed as ready was asked for its events from the configured start, or from a whole window of a
  reorganisation below the old cursor, up to the new one. Each event the archive answered with is recorded.
\<close>
theorem cursor_leaves_no_gap:
  assumes reach: "(loopStep I cfg)\<^sup>*\<^sup>* (initialIndexer slot, emptyDatabase) (st, db)"
    and t: "tick I cfg A st db = (st', db')" "isLastError st' = None"
    and calm: "fst (detectAndRollbackReorg (taHeaders A) (ieLite I) db) = None"
  shows "let lo = max (tcStartHeight cfg) (getIndexedHeight cfg db - REORG_DETECTION_WINDOW + 1); hi = getIndexedHeight cfg db'
    in taLatestHeight A = Inr hi \<and> getIndexedHeight cfg db \<le> hi \<and> lo \<le> hi \<and>
      (\<forall>c\<in>set (dbContracts db'). coReady c \<longrightarrow>
        (\<exists>es. netEvents (taSweepNet A) (coAddress c) lo hi = Inr es \<and> (\<forall>e\<in>set es. isRecorded (fingerprintEvent (coAddress c) e) db')))"
proof -
  let ?lo = "max (tcStartHeight cfg) (getIndexedHeight cfg db - EVENT_REPLAY_BLOCKS + 1)"
  have inv: "loopInv db" using indexerLoop.inv_reachable [OF reach] by simp
  obtain latest db2 db3 where s: "taLatestHeight A = Inr latest" "getIndexedHeight cfg db \<le> latest" "?lo \<le> latest" "loopInv db2"
    "syncKnownContracts I (taSweepNet A) ?lo latest db2 = (Inr (), db3)" "db' = pollPendingSubmissions A (setIndexedHeight latest db3)"
    by (rule tick_success [OF t calm inv])
  let ?cs = "filter coReady (dbContracts db2)"
  note sweep = s(5) [unfolded syncKnownContracts_def]
  have frame: "syncFrame (coId ` set ?cs) db2 db3" by (rule sweep_frame [OF s(4) sweep])
  have listed: "\<forall>c\<in>set ?cs. \<exists>a r. (coId c, a, r, True) \<in> allFlags db2"
  proof
    fix c assume "c \<in> set ?cs"
    then have "flagsOf c \<in> allFlags db2" "coReady c" by (auto simp: allFlags_def)
    then show "\<exists>a r. (coId c, a, r, True) \<in> allFlags db2" using s(4) by (force simp: loopInv_def readyVerified_def flagsOf_def)
  qed
  have "\<exists>es. netEvents (taSweepNet A) (coAddress c) ?lo latest = Inr es \<and> (\<forall>e\<in>set es. isRecorded (fingerprintEvent (coAddress c) e) db3)"
    if c: "c \<in> set (dbContracts db3)" "coReady c" for c
  proof -
    have f: "(coId c, coAddress c, True, coPermissionsVerified c) \<in> allFlags db3" using c by (force simp: allFlags_def flagsOf_def)
    then obtain d where d: "d \<in> set ?cs" "coId d = coId c"
      using frameD(6) [OF frame f] by (force simp: allFlags_def flagsOf_def)
    have "(coId d, coAddress d, coReady d, coPermissionsVerified d) \<in> allFlags db2" using d(1) by (auto simp: allFlags_def flagsOf_def)
    then obtain r' v' where "(coId c, coAddress d, r', v') \<in> allFlags db3" using frameD(5) [OF frame] d(2) by metis
    then have "coAddress d = coAddress c" using flags_unique [OF frameD(1) [OF frame] f] by simp
    then show ?thesis using sweep_reads [OF s(4) sweep listed d(1)] by simp
  qed
  then show ?thesis
    using s(1-3) unfolding Let_def s(6) indexed_set poll_frame by (simp add: EVENT_REPLAY_BLOCKS_def)
qed

section \<open>A rollback can move the cursor up\<close>

text \<open>After a tick that failed half way, headers of the vaults it reached lie above the cursor. If one of them
  is replaced, the rollback of the next tick writes the fork into the cursor even if that is above it. What
  lies between, beyond the window that the following tick replays, is then never read for the vaults that
  the failed tick did not reach.\<close>

definition halfSyncedDb :: database where
  "halfSyncedDb = emptyDatabase\<lparr>
     dbHeaders := [\<lparr>bhHeight = 49998, bhBlockHash = ''a'', bhParentHash = ''z''\<rparr>, \<lparr>bhHeight = 50000, bhBlockHash = ''c'', bhParentHash = ''b''\<rparr>],
     dbCursors := [(''indexed_height'', ''10'')]\<rparr>"

lemma rollback_can_skip:
  assumes "taLatestHeight A = Inr latest"
    and "taHeaders A = Inr [\<lparr>bhHeight = 49998, bhBlockHash = ''a'', bhParentHash = ''z''\<rparr>,
      \<lparr>bhHeight = 49999, bhBlockHash = ''b'', bhParentHash = ''a''\<rparr>, \<lparr>bhHeight = 50000, bhBlockHash = ''d'', bhParentHash = ''b''\<rparr>]"
  shows "getIndexedHeight cfg halfSyncedDb = 10"
    "\<exists>st' db'. tick I cfg A st halfSyncedDb = (st', db') \<and> isLastError st' = None \<and> getIndexedHeight cfg db' = 49998"
proof -
  have "jsNumber ''10'' = Some 10" by code_simp
  then show "getIndexedHeight cfg halfSyncedDb = 10" by (simp add: getIndexedHeight_def cursorHeight_def halfSyncedDb_def)
  have fork: "reorgFork [\<lparr>bhHeight = 49998, bhBlockHash = ''a'', bhParentHash = ''z''\<rparr>,
      \<lparr>bhHeight = 49999, bhBlockHash = ''b'', bhParentHash = ''a''\<rparr>, \<lparr>bhHeight = 50000, bhBlockHash = ''d'', bhParentHash = ''b''\<rparr>] halfSyncedDb
      = Some (49998, False)"
    by code_simp
  have "getIndexedHeight cfg (rollbackAboveFork 49998 lite db) = 49998" for lite db
    by (simp add: rollbackAboveFork_def Let_def getIndexedHeight_def cursorHeight_def map_of_setCursor jsNumber_intToString)
  then show "\<exists>st' db'. tick I cfg A st halfSyncedDb = (st', db') \<and> isLastError st' = None \<and> getIndexedHeight cfg db' = 49998"
    by (simp add: tick_def tickBody_def assms detectAndRollbackReorg_def fork)
qed

end
