(* ===== verification/Indexer_Witnesses.thy ===== *)
theory Indexer_Witnesses
  imports Indexer_Tick Witnesses Indexer_Mirror
begin

text \<open>
  The properties of the archive client and of the indexer, instantiated on concrete answers, events and
  databases.
\<close>

section \<open>The archive\<close>

theorem event_decode_round_trip_witness:
  "decodeMinaGuardEvent sampleEnv (emittedJson (ApprovalEvent 42 keyA 2 5 6)) =
     Inr (eventType (indexEvent sampleEnv None (ApprovalEvent 42 keyA 2 5 6)), payload (indexEvent sampleEnv None (ApprovalEvent 42 keyA 2 5 6)))"
  by (rule event_decode_round_trip) (simp_all add: key_defs keyToFields_def boolToField_def sampleSmall less_imp_le)

definition emptyBlock :: "int \<Rightarrow> archiveEventBlock" where
  "emptyBlock h = \<lparr>abHeight = h, abStateHash = ''s'', abParentHash = ''p'', abEventData = None\<rparr>"

theorem archive_range_covered_witness:
  "fetchArchiveEventBlocks (\<lambda>lo hi. Inr (Some [emptyBlock lo])) 0 7000 = Inr (map (\<lambda>w. emptyBlock (fst w)) (archiveWindows 0 7000)) \<and>
   length (archiveWindows 0 7000) = 2"
proof -
  have wide: "fst w < snd w" if "w \<in> set (archiveWindows 0 7000)" for w
    using that windows_in [of "fst w" "snd w" 0 7000] by simp
  have "\<forall>w \<in> set (archiveWindows 0 7000). Inr (Some [emptyBlock (fst w)]) = Inr (Some [emptyBlock (fst w)]) \<and>
       (\<forall>b \<in> set [emptyBlock (fst w)]. fst w \<le> abHeight b \<and> abHeight b < snd w)"
    using wide by (simp add: emptyBlock_def)
  from archive_range_covered [of 0 7000 "\<lambda>lo hi. Inr (Some [emptyBlock lo])" "\<lambda>w. [emptyBlock (fst w)]", OF _ _ _ this]
  have "fetchArchiveEventBlocks (\<lambda>lo hi. Inr (Some [emptyBlock lo])) 0 7000 = Inr (concat (map (\<lambda>w. [emptyBlock (fst w)]) (archiveWindows 0 7000)))"
    "length (archiveWindows 0 7000) = nat (7000 div 5000 + 1)" by simp_all
  then show ?thesis by (simp add: concat_map_singleton)
qed

definition rawWith :: "string \<Rightarrow> rawEvent" where
  "rawWith kind = \<lparr>reInfo = Some \<lparr>tiHash = Some ''tx'', tiMemo = None, tiStatus = None, tiAuthorizationKind = Some kind\<rparr>, reData = JNull\<rparr>"

definition rawBlock :: archiveEventBlock where
  "rawBlock = \<lparr>abHeight = 4, abStateHash = ''s'', abParentHash = ''p'', abEventData = Some [Some (rawWith ''Proof''), Some (rawWith ''Signature'')]\<rparr>"

theorem only_proved_events_indexed_witness:
  "decodeContractEvents sampleEnv [rawBlock] = Inr [toChainEvent sampleEnv (rawBlock, rawWith ''Proof'')]"
proof -
  have a: "appliedEvents [rawBlock] = [(rawBlock, rawWith ''Proof''), (rawBlock, rawWith ''Signature'')]"
    by (simp add: appliedEvents_def rawEvents_def rawBlock_def rawWith_def isFromAppliedTransaction_def infoOf_def)
  have k: "normalizedKind (rawWith ''Proof'') = Some ''proof''" "normalizedKind (rawWith ''Signature'') = Some ''signature''"
    by code_simp+
  show ?thesis unfolding only_proved_events_indexed by (simp add: a k)
qed

section \<open>The indexer\<close>

definition sampleEvent :: "string \<Rightarrow> string \<Rightarrow> (string \<times> json) list \<Rightarrow> chainEvent" where
  "sampleEvent ty tx fs = \<lparr>ceType = ty, cePayload = JObj fs, ceBlockHeight = 9, ceBlockHash = ''b9'', ceParentHash = ''b8'',
     ceTxHash = Some tx, ceTxMemo = None, ceDecodeError = None\<rparr>"

definition sampleDelegate :: chainEvent where
  "sampleDelegate = sampleEvent ''delegate'' ''tx1'' [(''delegate'', JStr ''keyR'')]"

definition sampleIndexer :: "(sampleMap, sampleMap \<times> field, bool) indexerEnv" where
  "sampleIndexer = \<lparr>ieO1js = sampleEnv, ieSha256 = (\<lambda>_. []), ieTextDecoder = (\<lambda>_. []), ieLite = False\<rparr>"

definition sampleNetwork :: network where
  "sampleNetwork = \<lparr>netSecurity = (\<lambda>_. Inl (AssertFail ''down'')), netEvents = (\<lambda>_ _ _. Inr []), netOnChain = (\<lambda>_. Inr None),
     netFault = (\<lambda>_ _. None)\<rparr>"

definition sampleDb :: database where
  "sampleDb = trackContract ''vault'' (Some 3) True emptyDatabase"

lemma sampleSync: "\<exists>db'. syncEvents sampleIndexer sampleNetwork 0 ''vault'' 0 [sampleDelegate] False sampleDb = (Inr True, db')"
  by (simp add: syncEvents.simps ingestEvent_def attemptEvent_def runTransaction_def recordEvent_def sampleNetwork_def sampleDelegate_def
      sampleEvent_def sampleDb_def trackContract_def emptyDatabase_def findContract_def findContractAt_def isRecorded_def Let_def)

theorem replay_changes_nothing_witness:
  "\<exists>db'. syncEvents sampleIndexer sampleNetwork 0 ''vault'' 0 [sampleDelegate] False sampleDb = (Inr True, db') \<and>
     syncEvents sampleIndexer sampleNetwork 0 ''vault'' 5 [sampleDelegate, sampleDelegate] False db' = (Inr False, db')"
proof -
  obtain db' where s: "syncEvents sampleIndexer sampleNetwork 0 ''vault'' 0 [sampleDelegate] False sampleDb = (Inr True, db')"
    using sampleSync ..
  from replay_changes_nothing [OF s, of "[sampleDelegate, sampleDelegate]" sampleNetwork 5] s show ?thesis by simp
qed

section \<open>Reorganisations\<close>

definition header :: "int \<Rightarrow> string \<Rightarrow> blockHeaderRow" where
  "header h hash = \<lparr>bhHeight = h, bhBlockHash = hash, bhParentHash = ''p''\<rparr>"

definition forkedDb :: database where
  "forkedDb = sampleDb\<lparr>dbHeaders := [header 7 ''a'', header 8 ''b'', header 9 ''c'']\<rparr>"

definition bestChain :: "blockHeaderRow list" where
  "bestChain = [header 7 ''a'', header 8 ''x'', header 9 ''y'']"

theorem fork_point_exact_witness:
  "reorgFork bestChain forkedDb = Some (7, False) \<and> agrees (chainByHeight bestChain) (header 7 ''a'')"
proof -
  have r: "reorgFork bestChain forkedDb = Some (7, False)"
    by (simp add: reorgFork_def storedInWindow_def bestChain_def forkedDb_def header_def chainByHeight_def)
  have s: "sorted (map bhHeight bestChain)" "distinct (map bhHeight (dbHeaders forkedDb))"
    by (simp_all add: bestChain_def forkedDb_def header_def)
  from fork_point_exact [OF s] r
  obtain s where "s \<in> set (dbHeaders forkedDb)" "bhHeight s = 7" "agrees (chainByHeight bestChain) s" by auto
  then show ?thesis using r by (auto simp: forkedDb_def header_def)
qed

text \<open>A proposal of block 5 with votes of blocks 6 and 8, and one of block 8.\<close>

definition vote :: "nat \<Rightarrow> string \<Rightarrow> int \<Rightarrow> approvalRow" where
  "vote pid who b = \<lparr>apProposalId = pid, apApprover = who, apApprovalRaw = None, apBlockHeight = b, apEventOrder = 0\<rparr>"

definition receiverOf :: "nat \<Rightarrow> receiverTableRow" where
  "receiverOf pid = \<lparr>rtProposalId = pid, rtIdx = 0, rtAddress = ''keyR'', rtAmount = ''1''\<rparr>"

definition votedDb :: database where
  "votedDb = forkedDb\<lparr>dbProposals := [emptyProposalRow 1 0 ''h1'' None 5, emptyProposalRow 2 0 ''h2'' None 8],
     dbApprovals := [vote 1 ''keyA'' 6, vote 1 ''keyB'' 8, vote 2 ''keyA'' 8], dbReceivers := [receiverOf 1, receiverOf 2]\<rparr>"

theorem rollback_leaves_prefix_witness:
  "dbHeaders (rollbackAboveFork 7 False votedDb) = [header 7 ''a''] \<and>
   dbProposals (rollbackAboveFork 7 False votedDb) = [emptyProposalRow 1 0 ''h1'' None 5] \<and>
   dbApprovals (rollbackAboveFork 7 False votedDb) = [vote 1 ''keyA'' 6] \<and>
   dbReceivers (rollbackAboveFork 7 False votedDb) = [receiverOf 1]"
proof -
  have late: "lateContracts 7 False votedDb = {}"
    by (simp add: lateContracts_def discoveredAbove_def votedDb_def forkedDb_def sampleDb_def trackContract_def emptyDatabase_def findContractAt_def)
  have goes: "proposalGoes 7 False votedDb = (\<lambda>p. ptCreatedAtBlock p > 7)" by (simp add: fun_eq_iff proposalGoes_def late)
  have gone: "goneProposals 7 False votedDb = {2}"
    unfolding goneProposals_def goes by (simp add: votedDb_def emptyProposalRow_def)
  show ?thesis using rollback_leaves_prefix [of 7 False votedDb] unfolding late gone
    by (simp add: votedDb_def forkedDb_def header_def emptyProposalRow_def vote_def receiverOf_def)
qed

theorem database_stays_well_formed_witness:
  "(dbStep sampleIndexer)\<^sup>*\<^sup>* emptyDatabase sampleDb \<and> distinct (map coAddress (dbContracts sampleDb))"
proof -
  have "(dbStep sampleIndexer)\<^sup>*\<^sup>* emptyDatabase sampleDb" unfolding sampleDb_def by (rule r_into_rtranclp) (rule dbStep.track)
  with database_stays_well_formed [OF this] show ?thesis by blast
qed

section \<open>The mirrored configuration\<close>

text \<open>A tracked contract whose snapshot shows the guard on which the transfer was voted, with the voted
  proposal indexed.\<close>

definition mirrorDb :: database where
  "mirrorDb = sampleDb\<lparr>
     dbConfigs := [\<lparr>cfContractId = 0, cfValidFromBlock = 5, cfEventOrder = 0, cfSourceEventId = None,
       cfFields = noChanges\<lparr>cfgThreshold := Some 2, cfgNumOwners := Some 2, cfgNonce := Some 0, cfgParentNonce := Some 0,
         cfgConfigNonce := Some 0, cfgChildMultiSigEnabled := Some True,
         cfgOwnersCommitment := Some (fieldToString (computeOwnerChain sampleEnv [keyA, keyB]))\<rparr>\<rparr>],
     dbProposals := [(emptyProposalRow 1 0 (fieldToString (proposalHash sampleEnv transferProposal)) None 5)\<lparr>ptNonce := Some (fieldToString 1)\<rparr>]\<rparr>"

lemma sampleDb_simps [simp]:
  "findContract 0 (sampleDb\<lparr>dbConfigs := cs, dbProposals := ps\<rparr>) \<noteq> None"
  "isRecorded fp (sampleDb\<lparr>dbConfigs := cs, dbProposals := ps\<rparr>) = False"
  by (simp_all add: sampleDb_def trackContract_def emptyDatabase_def findContract_def findContractAt_def isRecorded_def)

theorem indexer_mirrors_call_witness:
  "\<exists>g' evs sends ing db'. callMethod sampleEnv (ledgerWorld (votedLedger transferProposal)) keyG (votedRoot transferProposal) transferCall =
       Inr (g', evs, sends) \<and>
     syncEvents sampleIndexer sampleNetwork 0 ''vault'' 0
       (orderEventsForApply (reverseEventsWithinEachTx (rev (map (eventAt sampleEnv 9 ''b9'' ''b8'' ''tx'' None) evs)))) False mirrorDb = (Inr ing, db') \<and>
     mirrors sampleEnv g' (latestFields 0 db') \<and> nonce g' = 1"
proof -
  obtain w evs where t: "transact sampleEnv (ledgerWorld (votedLedger transferProposal)) keyG transferCall = Inr (w, evs)"
    by (rule transferCall_Inr)
  obtain g' sends where c: "callMethod sampleEnv (ledgerWorld (votedLedger transferProposal)) keyG (votedRoot transferProposal)
      transferCall = Inr (g', evs, sends)" by (rule invoke_call [OF votedLedger_guard(1) t])
  have m: "mirrors sampleEnv (votedRoot transferProposal) (latestFields 0 mirrorDb)"
    by (simp add: mirrors_def latestFields_def getLatestConfig_def mirrorDb_def noChanges_def votedRoot_def votedGuard_def initializedGuard_def)
  have b: "configsBelow 0 9 0 mirrorDb" by (simp add: configsBelow_def mirrorDb_def)
  have row: "rowIndexed 0 (fieldToString (proposalHash sampleEnv p)) True (pNonce p) mirrorDb" if "localExecution transferCall = Some p" for p
  proof -
    have p: "p = transferProposal" using that by (simp add: transferCall_def)
    have n: "pNonce transferProposal = 1" by (simp add: transferProposal_def localProposal_def)
    show ?thesis unfolding p n by (simp add: rowIndexed_def findProposal_def mirrorDb_def emptyProposalRow_def)
  qed
  have no: "lifecycleExecution transferCall = None" "\<not> initialises transferCall" by (simp_all add: transferCall_def)
  have f: "netFault sampleNetwork fp i = None" for fp i by (simp add: sampleNetwork_def)
  have new: "list_all (\<lambda>ev. \<not> isRecorded (fingerprintEvent ''vault'' (eventAt sampleEnv 9 ''b9'' ''b8'' ''tx'' None ev)) mirrorDb) evs"
    by (simp add: mirrorDb_def list_all_iff)
  have con: "findContract 0 mirrorDb \<noteq> None" by (simp add: mirrorDb_def)
  have pos: "0 < fieldOrder sampleEnv" by (rule sampleSmall) simp
  have n: "nonce g' = 1"
    using c by (auto simp: transferCall_def executeTransfer_def Let_def case_prod_beta assertExecutable_Inr markExecuted_def
        votedRoot_def votedGuard_def initializedGuard_def sampleAdd)
  from indexer_mirrors_call [OF sampleEnv_base58 pos c no(2) con b m new row _ f, of sampleIndexer] no(1) c n
  show ?thesis by auto
qed

text \<open>The proposal with nonce 1 was executed before the one with nonce 2; the archive lists its transaction
  last, and the indexed nonce ends at 1.\<close>

definition twoDb :: database where
  "twoDb = sampleDb\<lparr>dbConfigs := [], dbProposals :=
     [(emptyProposalRow 1 0 (fieldToString 42) None 5)\<lparr>ptNonce := Some (fieldToString 1)\<rparr>,
      (emptyProposalRow 2 0 (fieldToString 43) None 5)\<lparr>ptNonce := Some (fieldToString 2)\<rparr>]\<rparr>"

section \<open>One tick\<close>

definition liteIndexer :: "(sampleMap, sampleMap \<times> field, bool) indexerEnv" where
  "liteIndexer = sampleIndexer\<lparr>ieLite := True\<rparr>"

definition tickSettings :: tickConfig where
  "tickSettings = \<lparr>tcStartHeight = 0, tcArchive = False, tcVkHash = None\<rparr>"

definition delegateNetwork :: network where
  "delegateNetwork = sampleNetwork\<lparr>netEvents := (\<lambda>_ _ _. Inr [sampleDelegate])\<rparr>"

definition firstAnswers :: tickAnswers where
  "firstAnswers = \<lparr>taLatestHeight = Inr 12, taNow = 0, taHeaders = Inr [], taDaemonHeaders = Inr [], taCandidates = (\<lambda>_. Inr []),
     taArchiveCandidates = (\<lambda>_ _. Inr []), taScanNet = delegateNetwork, taSweepNet = delegateNetwork, taStatus = (\<lambda>_. TxPending),
     taMempool = None, taAge = (\<lambda>_. 0)\<rparr>"

definition scannedDb :: database where
  "scannedDb = snd (syncSingleContract liteIndexer delegateNetwork 0 ''vault'' 3 12 True True sampleDb)"

lemma one_event: "orderEventsForApply (reverseEventsWithinEachTx [sampleDelegate]) = [sampleDelegate]"
  by (simp add: orderEventsForApply_stable reverseEventsWithinEachTx_def groupEvents_def)

lemma first_scan: "syncSingleContract liteIndexer delegateNetwork 0 ''vault'' 3 12 True True sampleDb = (Inr (Some True), scannedDb)"
  "dbContracts scannedDb = [\<lparr>coId = 0, coAddress = ''vault'', coParent = None, coReady = True, coPermissionsVerified = True,
     coDiscoveredAtBlock = Some 3, coSynced = True\<rparr>]" "isRecorded (fingerprintEvent ''vault'' sampleDelegate) scannedDb"
proof -
  have n: "netEvents delegateNetwork a lo hi = Inr [sampleDelegate]" "netFault delegateNetwork fp i = None" for a lo hi fp i
    by (simp_all add: delegateNetwork_def sampleNetwork_def)
  have d: "ceType sampleDelegate = ''delegate''" "ceDecodeError sampleDelegate = None" by (simp_all add: sampleDelegate_def sampleEvent_def)
  have c: "findContract 0 sampleDb = Some \<lparr>coId = 0, coAddress = ''vault'', coParent = None, coReady = False, coPermissionsVerified = True,
     coDiscoveredAtBlock = Some 3, coSynced = False\<rparr>" "\<not> isRecorded fp sampleDb" for fp
    by (simp_all add: sampleDb_def trackContract_def emptyDatabase_def findContract_def findContractAt_def isRecorded_def)
  obtain eid db1 where r: "recordEvent 0 sampleDelegate (fingerprintEvent ''vault'' sampleDelegate) None sampleDb = Inr (eid, db1)"
    by (simp add: recordEvent_def c)
  let ?db2 = "applyEvent liteIndexer 0 sampleDelegate 0 eid None db1"
  have s: "syncEvents liteIndexer delegateNetwork 0 ''vault'' 0 [sampleDelegate] False sampleDb = (Inr True, ?db2)"
    by (simp add: c d n ingestEvent_def attemptEvent_def runTransaction_def r Let_def)
  have f: "syncSingleContract liteIndexer delegateNetwork 0 ''vault'' 3 12 True True sampleDb =
      (Inr (Some True), updateContract 0 (\<lambda>c. c\<lparr>coSynced := True, coReady := True\<rparr>) ?db2)"
    by (simp add: syncSingleContract_def Let_def c n one_event s del: syncEvents.simps)
  then show one: "syncSingleContract liteIndexer delegateNetwork 0 ''vault'' 3 12 True True sampleDb = (Inr (Some True), scannedDb)"
    by (simp add: scannedDb_def)
  have db: "scannedDb = updateContract 0 (\<lambda>c. c\<lparr>coSynced := True, coReady := True\<rparr>) ?db2" using f by (simp add: scannedDb_def)
  have "dbContracts ?db2 = dbContracts sampleDb" using record_contracts [OF r] by (simp add: applyEvent_def d contracts_same)
  then show "dbContracts scannedDb = [\<lparr>coId = 0, coAddress = ''vault'', coParent = None, coReady = True, coPermissionsVerified = True,
     coDiscoveredAtBlock = Some 3, coSynced = True\<rparr>]"
    by (simp add: db updateContract_def updateRow_def sampleDb_def trackContract_def emptyDatabase_def findContractAt_def)
  from sync_reads [OF one] n(1) show "isRecorded (fingerprintEvent ''vault'' sampleDelegate) scannedDb" by auto
qed

text \<open>The sweep of the same tick reads the event again and skips it.\<close>

lemma next_sweep: "\<exists>db'. syncSingleContract liteIndexer delegateNetwork 0 ''vault'' 0 12 True False scannedDb = (Inr (Some False), db')"
proof -
  have c: "\<exists>c. findContract 0 scannedDb = Some c \<and> coPermissionsVerified c" by (simp add: findContract_def first_scan(2))
  have n: "netEvents delegateNetwork a lo hi = Inr [sampleDelegate]" for a lo hi by (simp add: delegateNetwork_def)
  show ?thesis using c by (auto simp: syncSingleContract_def Let_def n one_event first_scan(3))
qed

lemma first_tick: "\<exists>st' db'. tick liteIndexer tickSettings firstAnswers (initialIndexer None) sampleDb = (st', db') \<and> isLastError st' = None"
proof -
  have lite: "ieLite liteIndexer" by (simp add: liteIndexer_def)
  have h: "getIndexedHeight tickSettings sampleDb = 0"
    by (simp add: getIndexedHeight_def cursorHeight_def tickSettings_def sampleDb_def trackContract_def emptyDatabase_def findContractAt_def)
  have rows: "dbContracts sampleDb = [\<lparr>coId = 0, coAddress = ''vault'', coParent = None, coReady = False, coPermissionsVerified = True,
     coDiscoveredAtBlock = Some 3, coSynced = False\<rparr>]"
    by (simp add: sampleDb_def trackContract_def emptyDatabase_def findContractAt_def)
  obtain db' where sw: "syncSingleContract liteIndexer delegateNetwork 0 ''vault'' 0 12 True False scannedDb = (Inr (Some False), db')"
    using next_sweep ..
  have scan: "\<exists>st'. scanSteps liteIndexer delegateNetwork 12 (hd (dbContracts sampleDb)) 5 \<lparr>fsAddress = ''vault'', fsStart = 3, fsNext = 3\<rparr> st sampleDb =
      (Inr 4, st', scannedDb) \<and> isLastError st' = isLastError st" for st
    by (simp add: rows numeral_nat Let_def EVENT_QUERY_BLOCK_SPAN_def first_scan(1)) (simp add: finishScan_def Let_def split: option.split)
  have rescan: "\<exists>st'. rescanUnreadyContracts liteIndexer tickSettings delegateNetwork 0 12 st sampleDb = (Inr (), st', scannedDb)"
    if st: "isFirstScans st = []" for st
  proof -
    let ?scan = "\<lparr>fsAddress = ''vault'', fsStart = 3, fsNext = 3\<rparr>"
    obtain st' where sc: "scanSteps liteIndexer delegateNetwork 12 (hd (dbContracts sampleDb)) 5 ?scan
        (st\<lparr>isScannedUnready := [], isFirstScans := [(0, ?scan)]\<rparr>) sampleDb = (Inr 4, st', scannedDb)"
      using scan by blast
    have "rescanContract liteIndexer tickSettings delegateNetwork 0 12 (hd (dbContracts sampleDb)) 5
        (st\<lparr>isScannedUnready := [], isFirstScans := []\<rparr>) sampleDb = (Inr 4, st', scannedDb)"
      using sc by (simp add: rescanContract_def rows Let_def)
    then show ?thesis by (simp add: rescanUnreadyContracts_def rows st Let_def FIRST_SCAN_STEPS_PER_TICK_def)
  qed
  let ?st = "initialIndexer None\<lparr>isLatestChainHeight := 12, isIndexedHeight := 0\<rparr>"
  obtain st' where r: "rescanUnreadyContracts liteIndexer tickSettings delegateNetwork 0 12 ?st sampleDb = (Inr (), st', scannedDb)"
    using rescan [of ?st] by (auto simp: initialIndexer_def)
  have known: "syncKnownContracts liteIndexer delegateNetwork 0 12 scannedDb = (Inr (), db')"
    by (simp add: syncKnownContracts_def first_scan(2) sw)
  have body: "tickBody liteIndexer tickSettings firstAnswers (initialIndexer None) sampleDb =
      (Inr (), st'\<lparr>isIndexedHeight := 12\<rparr>, pollPendingSubmissions firstAnswers (setIndexedHeight 12 db'))"
    using r known lite h
    by (simp add: tickBody_def firstAnswers_def detectAndRollbackReorg_def reorgFork_def Let_def tickSync_def discoverContracts_def
        EVENT_REPLAY_BLOCKS_def REORG_DETECTION_WINDOW_def tickSettings_def currentSlot_def initialIndexer_def)
  show ?thesis by (simp add: tick_def body)
qed

theorem cursor_leaves_no_gap_witness:
  "\<exists>st' db'. tick liteIndexer tickSettings firstAnswers (initialIndexer None) sampleDb = (st', db') \<and>
     getIndexedHeight tickSettings db' = 12 \<and>
     (\<forall>c\<in>set (dbContracts db'). coReady c \<longrightarrow> isRecorded (fingerprintEvent (coAddress c) sampleDelegate) db')"
proof -
  obtain st' db' where t: "tick liteIndexer tickSettings firstAnswers (initialIndexer None) sampleDb = (st', db')" "isLastError st' = None"
    using first_tick by blast
  have reach: "(loopStep liteIndexer tickSettings)\<^sup>*\<^sup>* (initialIndexer None, emptyDatabase) (initialIndexer None, sampleDb)"
    unfolding sampleDb_def by (rule r_into_rtranclp) (rule loopStep.subscribed)
  have calm: "fst (detectAndRollbackReorg (taHeaders firstAnswers) (ieLite liteIndexer) sampleDb) = None"
    by (simp add: firstAnswers_def detectAndRollbackReorg_def reorgFork_def)
  from cursor_leaves_no_gap [OF reach t calm] t(1) show ?thesis
    by (auto simp: Let_def firstAnswers_def delegateNetwork_def)
qed

end
