(* ===== verification/Web_Witnesses.thy ===== *)
theory Web_Witnesses
  imports Web_Form Web_Pending Web_Checks Web_Offline Web_Equivalence Web_Broadcast Web_Reservation Published_Proposal Offline_Witnesses Indexer_Witnesses
begin

text \<open>
  The properties of the web interface and of the routes on concrete inputs: the transfer of \<open>Scenario\<close> as it
  is proposed and served, the approval of \<open>Offline_Witnesses\<close> prepared in the browser, and a transaction with
  one precondition.
\<close>

section \<open>A published proposal\<close>

definition listedDb :: database where
  "listedDb = sampleDb\<lparr>dbContracts := [\<lparr>coId = 0, coAddress = ''vault'', coParent = None, coReady = True,
     coPermissionsVerified = True, coDiscoveredAtBlock = Some 3, coSynced = True\<rparr>]\<rparr>"

lemma sample_proposed: "\<exists>g' evs sends. propose sampleEnv (ledgerWorld rootLedger) keyG rootGuard transferProposal (getOwnerWitness sampleOwners) keyA True
    (getNullifierWitness sampleEnv (newNullifierStore sampleEnv) (proposalHash sampleEnv transferProposal) keyA)
    (getApprovalWitness sampleEnv (newApprovalStore sampleEnv) (proposalHash sampleEnv transferProposal)) = Inr (g', evs, sends)"
proof -
  have acc: "accounts (ledgerWorld rootLedger) keyG = Some rootGuard" by (simp add: rootLedger_guard)
  have len: "length sampleOwners \<le> MAX_OWNERS" by (simp add: MAX_OWNERS_def)
  from propose_transact [OF sampleLaws synced_new votable_root sample_owner(1) len new_counts(2) new_counts(1) shape_local(1)
      sample_signature acc shape_local(2)]
  obtain w evs where t: "transact sampleEnv (ledgerWorld rootLedger) keyG (Propose transferProposal (getOwnerWitness sampleOwners) keyA True
    (getNullifierWitness sampleEnv (newNullifierStore sampleEnv) (proposalHash sampleEnv transferProposal) keyA)
    (getApprovalWitness sampleEnv (newApprovalStore sampleEnv) (proposalHash sampleEnv transferProposal))) = Inr (w, evs)" by blast
  show ?thesis by (rule invoke_call [OF rootLedger_guard(1) t]) auto
qed

theorem published_proposal_round_trip_witness:
  "\<exists>evs ing db' s q. syncEvents sampleIndexer sampleNetwork 0 ''vault'' 0 (orderEventsForApply (reverseEventsWithinEachTx
      (rev (map (eventAt sampleEnv 9 ''b9'' ''b8'' ''tx'' None) evs)))) False listedDb = (Inr ing, db') \<and>
     proposalRoute sampleEnv (\<lambda>_. 0) (\<lambda>_. 0) 1 ''vault'' (fieldToString (proposalHash sampleEnv transferProposal)) db' = Reply s \<and>
     toProposal (proposalJson (\<lambda>_. '''') s) = Inr q \<and>
     webProposalStruct sampleEnv (signedFieldsOf q) '''' = Inr transferProposal"
proof -
  obtain g' evs sends where p: "propose sampleEnv (ledgerWorld rootLedger) keyG rootGuard transferProposal (getOwnerWitness sampleOwners) keyA True
    (getNullifierWitness sampleEnv (newNullifierStore sampleEnv) (proposalHash sampleEnv transferProposal) keyA)
    (getApprovalWitness sampleEnv (newApprovalStore sampleEnv) (proposalHash sampleEnv transferProposal)) = Inr (g', evs, sends)"
    using sample_proposed by blast
  let ?c = "\<lparr>coId = 0, coAddress = ''vault'', coParent = None, coReady = True, coPermissionsVerified = True,
     coDiscoveredAtBlock = Some 3, coSynced = True\<rparr>"
  have I: "sampleEnv = ieO1js sampleIndexer" by (simp add: sampleIndexer_def)
  have db: "dbOk listedDb" "findProposal (coId ?c) h listedDb = None" "findContractAt ''vault'' listedDb = Some ?c" "visible ?c" for h
    by (simp_all add: listedDb_def sampleDb_def trackContract_def emptyDatabase_def findContractAt_def findProposal_def visible_def
        ok_defs)
  have new: "list_all (\<lambda>ev. \<not> isRecorded (fingerprintEvent ''vault'' (eventAt sampleEnv 9 ''b9'' ''b8'' ''tx'' None ev)) listedDb) evs"
    by (simp add: list_all_iff isRecorded_iff listedDb_def sampleDb_def trackContract_def emptyDatabase_def)
  have N: "netFault sampleNetwork fp i = None" for fp i by (simp add: sampleNetwork_def)
  have rs: "pReceivers transferProposal = [\<lparr>rAddress = keyR, rAmount = 10\<rparr>] @ replicate (MAX_RECEIVERS - length [\<lparr>rAddress = keyR, rAmount = 10\<rparr> :: receiver]) emptyReceiver"
    "length [\<lparr>rAddress = keyR, rAmount = 10\<rparr> :: receiver] \<le> MAX_RECEIVERS" "distinct [\<lparr>rAddress = keyR, rAmount = 10\<rparr> :: receiver]"
    "\<forall>r \<in> set [\<lparr>rAddress = keyR, rAmount = 10\<rparr>]. rAddress r \<noteq> emptyKey \<and> onCurve sampleEnv (pkX (rAddress r))"
    by (simp_all add: transferProposal_def localProposal_def MAX_RECEIVERS_def key_defs sampleEnv_simps)
  have keys: "onCurve sampleEnv (pkX keyG)" "pChildAccount transferProposal = emptyKey \<or> onCurve sampleEnv (pkX (pChildAccount transferProposal))"
    by (simp_all add: key_defs sampleEnv_simps transferProposal_def localProposal_def)
  have "0 < fieldOrder sampleEnv" "1 < fieldOrder sampleEnv" using sampleOrder_big by simp_all
  then have f: "pTxType transferProposal = TxType TRANSFER"
    "\<forall>f \<in> {pTokenId transferProposal, pData transferProposal, pMemoHash transferProposal, pNonce transferProposal,
       pConfigNonce transferProposal, pExpirySlot transferProposal}. inField sampleEnv f"
    by (simp_all add: transferProposal_def localProposal_def inField_def)
  from published_proposal_round_trip [OF p I sampleEnv_base58 db new N rs keys f]
  show ?thesis unfolding contractRow.select_convs by blast
qed

section \<open>One approval, prepared twice\<close>

definition webState0 :: webState where
  "webState0 = \<lparr>wsOwnersCommitment = getCommitment baseEnv [keyA, keyB], wsThreshold = 2, wsNumOwners = 2, wsNonce = 0,
     wsVoteNullifierRoot = getNullifierRoot baseEnv (newNullifierStore baseEnv), wsApprovalRoot = getApprovalRoot baseEnv offApprovals,
     wsConfigNonce = 0, wsChildExecutionRoot = 0\<rparr>"

definition webNode :: "bool node" where
  "webNode = \<lparr>ndState = (\<lambda>_ _. Some webState0), ndAccount = (\<lambda>_ _. NoAccount), ndBalance = (\<lambda>_. None), ndSign = (\<lambda>_. Some True)\<rparr>"

definition sharedProposal :: bundleProposal where
  "sharedProposal = offProposal\<lparr>bpConfigNonce := Some ''0''\<rparr>"

definition sharedApprove :: approveBundle where
  "sharedApprove = offApprove\<lparr>abProposal := sharedProposal\<rparr>"

definition sharedRecord :: webProposal where
  "sharedRecord = \<lparr>wpProposalHash = bpProposalHash sharedProposal, wpProposer = None, wpToAddress = None, wpTokenId = None,
     wpTxType = Some TRANSFER, wpData = None, wpNonce = Some ''1'', wpConfigNonce = Some ''0'', wpExpirySlot = None,
     wpGuardAddress = None, wpMemo = Some ''rent'', wpMemoHash = bpMemoHash sharedProposal, wpProposalMemoMatch = None,
     wpMemoExecutionMatch = None, wpDestination = None, wpChildAccount = None, wpStatus = PendingStatus, wpInvalidReason = None,
     wpChildTargetIndexed = None, wpApprovalCount = 1, wpCreatedAtBlock = None, wpExecutedAtBlock = None, wpExecutionTxHash = None,
     wpLastApproveTxHash = None, wpLastExecuteTxHash = None, wpLastApproveError = None, wpLastExecuteError = None,
     wpCreatedAt = [], wpUpdatedAt = [], wpReceivers = [\<lparr>urIndex = 0, urAddress = sampleBase58 keyR, urAmount = ''10''\<rparr>],
     wpRecipientCount = 1, wpTotalAmount = None\<rparr>"

lemma shared_same: "sameRecord sharedRecord sharedProposal"
  using normalizeTxType_name [of TRANSFER]
  by (simp add: sameRecord_def sharedRecord_def sharedProposal_def offProposal_def)

lemma shared_bundle:
  "bbNetwork sharedApprove = ''testnet''" "bbContract sharedApprove = vaultText" "bbFeePayer sharedApprove = sampleBase58 keyB"
  "abProposal sharedApprove = sharedProposal" "bbAccounts sharedApprove = bbAccounts offApprove"
  "requestOf sharedApprove = requestOf offApprove" "bbFee sharedApprove = bbFee offApprove"
  by (simp_all add: sharedApprove_def offBundle requestOf_def)

lemma shared_stores:
  obtains stores where "rebuildVerifiedStores offEnv offSigner (injectAccounts offEnv offSigner (bbAccounts sharedApprove)) sharedApprove = Inr stores"
    "assertStoresMatchChain offEnv stores (chainOf webState0) = Inr ()"
proof -
  obtain stores where st: "storesFromOfflineRequest offEnv (requestOf offApprove) (chainState.truncate offSnapshot) = Inr stores"
    using offRebuilt by blast
  have "bbAccounts offApprove = [(vaultText, vaultAccount)]" by (simp add: bundle_defs)
  then have "rebuildVerifiedStores offEnv offSigner (injectAccounts offEnv offSigner (bbAccounts sharedApprove)) sharedApprove = Inr stores"
    using st unfolding rebuildVerifiedStores_def shared_bundle by (simp add: offSnapshot_read)
  moreover have "chainOf webState0 = chainState.truncate offSnapshot"
    by (simp add: chainOf_def webState0_def offSnapshot_def chainState.truncate_def)
  ultimately show ?thesis using that st by (auto simp: storesFromOfflineRequest_def andAlso_Inr andThen_Inr split: option.split_asm)
qed

lemma shared_struct:
  "buildProposalStruct offEnv (sharedProposal\<lparr>bpGuardAddress := Some vaultText\<rparr>) vaultText = Inr memoProposal"
  "webProposalStruct offEnv (withDefaults sharedRecord webState0 vaultText) vaultText = Inr memoProposal"
proof -
  have "buildProposalStruct offEnv (sharedProposal\<lparr>bpGuardAddress := Some vaultText\<rparr>) vaultText =
      buildProposalStruct offEnv (offProposal\<lparr>bpGuardAddress := Some vaultText\<rparr>) vaultText"
    by (simp add: buildProposalStruct_def sharedProposal_def offProposal_def)
  then show b: "buildProposalStruct offEnv (sharedProposal\<lparr>bpGuardAddress := Some vaultText\<rparr>) vaultText = Inr memoProposal"
    by (simp only: offStruct)
  have "orDefault (bpGuardAddress sharedProposal) vaultText = vaultText" by (simp add: sharedProposal_def offProposal_def)
  then show "webProposalStruct offEnv (withDefaults sharedRecord webState0 vaultText) vaultText = Inr memoProposal"
    using webProposalStruct_same [OF shared_same, of offEnv webState0 vaultText memoProposal] b by simp
qed

lemma shared_checks:
  "requireTxType (bpTxType sharedProposal) = Inr TRANSFER" "orDefault (bpGuardAddress sharedProposal) vaultText = vaultText"
  "assertRecomputedProposalHash (proposalHash offEnv memoProposal) (bpProposalHash sharedProposal) = Inr ()"
  "assertBundleMemo offEnv sharedProposal = Inr ()" "resolveBundleFee sharedApprove = Inr 50000000"
  "assertExecutableAddOwnerData offEnv memoProposal os = Inr ()" "assertCreateChildBundleConfig offEnv sharedApprove = Inr None"
proof -
  have x: "bpTxType sharedProposal = bpTxType offProposal" "bpGuardAddress sharedProposal = bpGuardAddress offProposal"
    "bpProposalHash sharedProposal = bpProposalHash offProposal" "bpMemoHash sharedProposal = bpMemoHash offProposal"
    "bpMemo sharedProposal = bpMemo offProposal" by (simp_all add: sharedProposal_def)
  show t: "requireTxType (bpTxType sharedProposal) = Inr TRANSFER" unfolding x by (rule offTx)
  show "orDefault (bpGuardAddress sharedProposal) vaultText = vaultText" unfolding x by (rule offGuardText)
  show "assertRecomputedProposalHash (proposalHash offEnv memoProposal) (bpProposalHash sharedProposal) = Inr ()" unfolding x by (rule offHash)
  show "assertBundleMemo offEnv sharedProposal = Inr ()" using offMemo unfolding assertBundleMemo_def x .
  show "resolveBundleFee sharedApprove = Inr 50000000" using offFee(1) unfolding resolveBundleFee_def shared_bundle .
  show "assertExecutableAddOwnerData offEnv memoProposal os = Inr ()"
    using offTransfer(2) by (simp add: assertExecutableAddOwnerData_def del: TxType.simps)
  show "assertCreateChildBundleConfig offEnv sharedApprove = Inr None" by (simp add: assertCreateChildBundleConfig_def shared_bundle t)
qed

lemma shared_offline: "\<exists>out. handleApprove offEnv offSigner sharedApprove ''key'' = Inr out"
proof (rule shared_stores)
  fix stores
  assume st: "rebuildVerifiedStores offEnv offSigner (injectAccounts offEnv offSigner (bbAccounts sharedApprove)) sharedApprove = Inr stores"
  show ?thesis
    unfolding handleApprove_def Let_def shared_bundle(1-4) shared_checks(2)
    by (simp add: offNetwork shared_checks st shared_struct signMessage_def parseKey_def offEnv_simps sampleKeys)
      (auto simp: offSigner_def)
qed

lemma shared_online:
  assumes "assertStoresMatchChain offEnv stores (chainOf webState0) = Inr ()"
  shows "\<exists>tx. approveProposalOnchain offEnv webNode (Inr stores) ''testnet'' 50000000 vaultText (sampleBase58 keyB) sharedRecord = Inr (Some tx)"
proof -
  have net: "webConfigureNetwork offEnv ''testnet'' = Inr ()"
    by (simp add: webConfigureNetwork_def networkAllowed_def domainText_def offEnv_def baseEnv_def)
  have a: "webAssertExecutableAddOwner offEnv memoProposal (rsOwners stores) = Inr ()"
    using shared_checks(6) by (simp only: webAssertExecutable_same)
  have h: "webAssertRecomputedHash (proposalHash offEnv memoProposal) (wpProposalHash sharedRecord) = Inr ()"
    by (simp add: webAssertRecomputedHash_def sharedRecord_def sharedProposal_def offProposal_def offEnv_same)
  have m: "assertApprovedMemo offEnv (wpMemo sharedRecord) memoProposal = Inr ()"
    by (simp add: assertApprovedMemo_def sharedRecord_def memoProposal_def offEnv_same)
  have n: "ndState webNode i c = Some webState0" "ndSign webNode f = Some True" for i c f by (simp_all add: webNode_def)
  show ?thesis
    unfolding approveProposalOnchain_def Let_def orNone_def signProposalAuthorization_def verifyStores_def requireContractState_def n
    by (simp add: net assms shared_struct a h m parseKey_def offEnv_simps sampleKeys)
qed

theorem same_approval_online_offline_witness:
  "\<exists>out tx stores. handleApprove offEnv offSigner sharedApprove ''key'' = Inr out \<and>
     approveProposalOnchain offEnv webNode (Inr stores) ''testnet'' 50000000 vaultText (sampleBase58 keyB) sharedRecord = Inr (Some tx) \<and>
     soTransaction out = tx"
proof (rule shared_stores)
  fix stores
  assume st: "rebuildVerifiedStores offEnv offSigner (injectAccounts offEnv offSigner (bbAccounts sharedApprove)) sharedApprove = Inr stores"
    and c: "assertStoresMatchChain offEnv stores (chainOf webState0) = Inr ()"
  obtain out where off: "handleApprove offEnv offSigner sharedApprove ''key'' = Inr out" using shared_offline by blast
  obtain tx where on: "approveProposalOnchain offEnv webNode (Inr stores) ''testnet'' 50000000 vaultText (sampleBase58 keyB) sharedRecord = Inr (Some tx)"
    using shared_online [OF c] by blast
  have w: "sgSignFields offSigner [m] ''key'' = ndSign webNode m" for m by (simp add: offSigner_def webNode_def)
  have "soTransaction out = tx"
    by (rule same_approval_online_offline [of offEnv webNode stores "''testnet''" 50000000 sharedApprove sharedRecord, OF _ off _ st w shared_checks(5)])
      (simp_all add: shared_bundle on shared_same)
  then show ?thesis using off on by blast
qed

section \<open>A signed response with a precondition\<close>

definition guardedTx :: json where
  "guardedTx = JObj [(''accountUpdates'', JArr [JObj [(''body'', JObj [(''publicKey'', JStr ''vault''), (''tokenId'', JStr ''1''),
     (''preconditions'', JObj [(''account'', JObj [(''state'', JArr [JStr ''5'', JNull])])]),
     (''update'', JObj [(''appState'', JArr [JStr ''6'', JNull])])])]]),
     (''feePayer'', JObj [(''body'', JObj [(''fee'', JStr ''50000000''), (''publicKey'', JStr ''keyB'')])])]"

definition currentReader :: accountReader where
  "currentReader _ _ = Some (AppState [JStr ''5'', JStr ''9''])"

definition signedResponse :: json where
  "signedResponse = JObj [(''type'', JStr ''offline-signed-tx''), (''version'', JNum OFFLINE_RESPONSE_VERSION),
     (''action'', JStr ''approve''), (''transaction'', JStr ''tx''), (''contractAddress'', JStr ''vault'')]"

definition uploadParse :: "string \<Rightarrow> json option" where
  "uploadParse = [''signed'' \<mapsto> signedResponse, ''tx'' \<mapsto> guardedTx]"

definition approvalUpload :: uploadProps where
  "approvalUpload = \<lparr>upAcceptActions = [''approve'', ''execute''], upExpectedFees = [''approve'' \<mapsto> 50000000],
     upExpectedContract = Some ''vault'', upExpectedProposal = None, upOnRecreate = None\<rparr>"

definition emptyPanel :: uploadPanel where
  "emptyPanel = \<lparr>uaProcessing = False, uaPending = None, uaError = None, uaDone = False, uaRecreated = False\<rparr>"

definition quietConfirm :: confirmEnv where
  "quietConfirm = \<lparr>cbParse = uploadParse, cbConfig = ''config'', cbGateBusy = False, cbGeneration = 1,
     cbRounds = [\<lparr>prGeneration = 1, prBefore = Inr (), prAccounts = currentReader, prGenerationAfter = 1, prConfigAfter = ''config'',
       prAssess = Inr RetryUnknown, prHosts = 1, prGenerationAsked = 1, prChoice = CancelChoice\<rparr>],
     cbProposal = (\<lambda>_. Inr None), cbAssess = (\<lambda>_ _. Inr RetryUnknown), cbSend = (\<lambda>_. None)\<rparr>"

lemma guarded_current: "checkTransactionState currentReader (Some guardedTx) = CurrentState"
  by code_simp

lemma guarded_fee: "signedOwnerFeeNanomina guardedTx (Some 50000000) = Inr 50000000"
proof -
  have fee: "jsPath guardedTx [''feePayer'', ''body'', ''fee''] = Some (JStr ''50000000'')" by code_simp
  have "canonicalDecimal ''50000000''" by code_simp
  moreover have "parseDecimal ''50000000'' = 50000000" by (simp add: parseDecimal_def digitVal_def)
  ultimately show ?thesis
    by (simp add: signedOwnerFeeNanomina_def fee isSafeInteger_def MAX_SAFE_INTEGER_def OFFLINE_MIN_FEE_NANOMINA_def
        OFFLINE_MAX_FEE_NANOMINA_def del: jsPath.simps)
qed

lemma upload_texts: "uploadParse ''signed'' = Some signedResponse" "uploadParse ''tx'' = Some guardedTx"
  by (simp_all add: uploadParse_def)

lemma upload_pending: "uaPending (processFile uploadParse approvalUpload ''config'' ''signed'' emptyPanel) =
    Some \<lparr>puResponse = signedResponse, puTxJson = ''tx'', puFee = 50000000, puFeePayer = ''keyB'', puConfig = ''config''\<rparr>"
proof -
  have p: "jsPath guardedTx [''feePayer'', ''body'', ''publicKey''] = Some (JStr ''keyB'')" by code_simp
  have "checkUpload uploadParse approvalUpload ''config'' ''signed'' =
      Inr \<lparr>puResponse = signedResponse, puTxJson = ''tx'', puFee = 50000000, puFeePayer = ''keyB'', puConfig = ''config''\<rparr>"
    unfolding checkUpload_def upload_texts
    by (simp add: signedResponse_def upload_texts responseText_def jsGet_def approvalUpload_def truthy_def truthyText_def
        assertOfflineResponseVersion_def guarded_fee p Let_def del: jsPath.simps)
  then show ?thesis by (simp add: processFile_def emptyPanel_def)
qed

theorem sent_transaction_is_current_witness:
  "leaves (sendingEffects (UploadSend quietConfirm approvalUpload
       (processFile uploadParse approvalUpload ''config'' ''signed'' emptyPanel) :: bool sending)) guardedTx \<and>
   checkedCurrent (cbRounds quietConfirm) 1 ''config'' guardedTx"
proof -
  define panel where "panel = processFile uploadParse approvalUpload ''config'' ''signed'' emptyPanel"
  define u where "u = \<lparr>puResponse = signedResponse, puTxJson = ''tx'', puFee = 50000000, puFeePayer = ''keyB'', puConfig = ''config''\<rparr>"
  have pending: "uaPending panel = Some u" "\<not> uaProcessing panel"
    unfolding panel_def u_def using upload_pending by (auto simp: processFile_def emptyPanel_def split: sum.split)
  have fee: "upExpectedFees approvalUpload (responseText (puResponse u) ''action'') = Some 50000000"
    by (simp add: approvalUpload_def u_def signedResponse_def responseText_def jsGet_def)
  have pass: "uploadPreflight quietConfirm approvalUpload u = PreflightPassed"
    by (simp add: uploadPreflight_def preflightBeforeSend_def assessedRounds_def quietConfirm_def u_def upload_texts guarded_current)
  have same: "cbConfig quietConfirm = puConfig u" "cbParse quietConfirm (puTxJson u) = Some guardedTx"
    by (simp_all add: quietConfirm_def u_def upload_texts)
  obtain e where "broadcastSignedTx (cbParse quietConfirm) (cbSend quietConfirm) (puTxJson u) = ([Broadcast guardedTx], Inl e)"
    by (simp add: broadcastSignedTx_def same) (simp add: quietConfirm_def)
  then have "leaves (fst (broadcastReviewed quietConfirm approvalUpload panel)) guardedTx"
    by (simp add: broadcastReviewed_def pending same fee guarded_fee pass leaves_def)
  then have sent: "leaves (sendingEffects (UploadSend quietConfirm approvalUpload panel :: bool sending)) guardedTx" by simp
  from sent_transaction_is_current [OF this] sent show ?thesis by (simp add: panel_def quietConfirm_def)
qed

section \<open>An approval on its way\<close>

definition sentApproval :: pendingTx where
  "sentApproval = \<lparr>pdKind = ApprovePending, pdContract = ''vault'', pdProposal = ''p'', pdTxHash = ''hash'', pdSigner = ''B'',
     pdCreatedAt = ''then'', pdSummary = None, pdUntracked = False, pdRecorded = False\<rparr>"

definition openRow :: webProposal where
  "openRow = sharedRecord\<lparr>wpProposalHash := ''p''\<rparr>"

definition firstPass :: passReads where
  "firstPass = \<lparr>prdFailed = (\<lambda>_. False), prdApprovers = (\<lambda>_. [''A'']), prdPrevCounts = (\<lambda>_. None)\<rparr>"

lemma approval_saved: "(pendingStep (\<lambda>_. Some 0))\<^sup>*\<^sup>* [] [sentApproval]"
proof -
  have "savePendingTx (\<lambda>_. Some 0) 0 sentApproval [] = [sentApproval]"
    by (simp add: savePendingTx_def pruneStale_def freshTx_def shortLived_def sentApproval_def PENDING_TX_TTL_MS_def)
  then show ?thesis using pendingStep.save [of "\<lambda>_. Some 0" "[]" 0 sentApproval] by auto
qed

lemma approval_unknown: "outcomeUnknown firstPass [openRow] sentApproval"
  by (simp add: outcomeUnknown_def indexedBy_def openRow_def sharedRecord_def sentApproval_def firstPass_def truthyText_def)

theorem broadcast_locks_until_known_witness:
  "tlLocked (contractTxLock (Some ''vault'') (getPendingTxsForContract (\<lambda>_. Some 0) 60000 ''vault''
      (refreshPending (\<lambda>_. Some 0) 60000 firstPass ''vault'' [openRow] [sentApproval])) [openRow])
    \<and> sentApproval \<notin> set (getPendingTxs (\<lambda>_. Some 0) PENDING_TX_TTL_MS [sentApproval])"
  using broadcast_locks_until_known [OF approval_saved _ _ _ _ refl _ approval_unknown, of "''vault''" 60000]
  by (simp add: sentApproval_def UNTRACKED_PENDING_TX_TTL_MS_def)

section \<open>An exported approval\<close>

text \<open>The node knows the vault's account and none of the fee payer; its pool cannot be read.\<close>

definition onlyVault :: exportEnv where
  "onlyVault = \<lparr>xeNetworkId = ''testnet'',
     xeAsk = (\<lambda>a. \<lparr>nrOk = True, nrBody = Some (JObj [(''data'', JObj [(''account'', if a = vaultText
       then JObj [(''nonce'', JStr ''0''), (''balance'', JObj []), (''zkappState'', JArr [])] else JNull)])])\<rparr>),
     xeRead = (\<lambda>_. vaultAccount), xePool = \<lparr>nrOk = False, nrBody = None\<rparr>,
     xeCheckpoint = exportStoreCheckpoint offEnv (Inr offStores) ''testnet'' vaultText, xeChildEvents = (\<lambda>_. Inr [])\<rparr>"

lemma vault_answered:
  "fetchGraphQLAccount (xeAsk onlyVault vaultText) =
     Inr (Some (JObj [(''nonce'', JStr ''0''), (''balance'', JObj []), (''zkappState'', JArr [])]))"
  "a \<noteq> vaultText \<Longrightarrow> fetchGraphQLAccount (xeAsk onlyVault a) = Inr None"
  by (simp_all add: fetchGraphQLAccount_def onlyVault_def jsGet_def truthy_def nullish_def)

lemma vault_verified: "storesVerified offEnv offStores (chainState.truncate offSnapshot)"
  by (simp add: storesVerified_def offStores_def offSnapshot_def chainState.truncate_def offEnv_same)

text \<open>A proposal to create a child whose reservation is among the child's events.\<close>

definition subHash :: field where
  "subHash = childConfigHash offEnv (computeSetupOwnersChain offEnv ownerArray 2) 2 2"

definition subEvents :: "event list" where
  "subEvents = CreateChildConfigEvent 0 keyC (computeSetupOwnersChain offEnv ownerArray 2) 2 2 # ownerEvents (CreateChildOwnerEvent 0) ownerArray 2"

definition subProposal :: bundleProposal where
  "subProposal = offProposal\<lparr>bpTxType := Some ''createChild'', bpChildAccount := Some (sampleBase58 keyC),
     bpData := Some (fieldToString subHash)\<rparr>"

definition subExport :: exportEnv where
  "subExport = onlyVault\<lparr>xeChildEvents := (\<lambda>_. Inr (map (indexEvent offEnv (Some 3)) subEvents))\<rparr>"

lemma sub_owners: "activeOwners ownerArray 2 = [keyA, keyB]"
  by (simp add: activeOwners_def ownerArray_def)

lemma sub_reserved:
  "\<exists>g'. reserveForParent offEnv (ledgerWorld rootLedger) keyC (deployedGuard keyC) keyG 0 2 2 ownerArray = Inr (g', subEvents, []) \<and>
     reservedConfigHash g' = subHash"
proof -
  have nz: "ownersCommitment rootGuard \<noteq> 0" "parent rootGuard = emptyKey"
    by (simp_all add: initializedGuard_def computeOwnerChain_nonzero soundEnv_collisionFree [OF sampleEnv_sound])
  have curve: "onCurve offEnv (pkX keyG)" by (simp add: key_defs offEnv_simps)
  have "validOwnerList offEnv [keyA, keyB]" by (simp add: validOwnerList_def key_defs offEnv_simps)
  moreover have "drop 2 ownerArray = replicate 18 emptyKey" by (simp add: ownerArray_def)
  ultimately have co: "assertCoherentSetupOwners offEnv ownerArray 2 = Inr ()"
    using sub_owners by (subst assertCoherentSetupOwners_Inr [OF soundEnv_generator [OF offEnv_sound]]) simp
  show ?thesis
    using nz curve by (simp add: reserveForParent_def lockPermissions_def deployedGuard_def deploy_def GUARD_DEPLOY_PERMISSIONS_def
        lookupGuard_def rootLedger_guard assertValidInitialGovernance_def MAX_OWNERS_def co subEvents_def subHash_def Let_def)
qed

lemma sub_events: "filter reservationEvent (map (indexEvent offEnv (Some 3)) subEvents) = map (indexEvent offEnv (Some 3)) subEvents"
  by (rule filter_True) (auto simp: subEvents_def ownerEvents_def reservationEvent_def)

lemma sub_child: "childReserved offEnv subExport subProposal ownerArray 2 2"
proof -
  obtain g' where r: "reserveForParent offEnv (ledgerWorld rootLedger) keyC (deployedGuard keyC) keyG 0 2 2 ownerArray = Inr (g', subEvents, [])"
    using sub_reserved by blast
  have m: "mset (filter reservationEvent (map (indexEvent offEnv (Some 3)) subEvents)) = mset (map (indexEvent offEnv (Some 3)) subEvents)"
    by (simp only: sub_events)
  have c: "bpChildAccount subProposal = Some (toBase58 offEnv keyC)"
    "xeChildEvents subExport (toBase58 offEnv keyC) = Inr (map (indexEvent offEnv (Some 3)) subEvents)"
    by (simp_all add: subExport_def subProposal_def offEnv_simps)
  show ?thesis unfolding childReserved_def using r coherent_owners(3) c m by blast
qed

lemma sub_exported:
  "\<exists>b. buildOfflineApproveBundle offEnv subExport vaultText ''payer'' subProposal = Inr b \<and> bbAccounts b = [(vaultText, vaultAccount)]"
proof -
  have c: "bpChildAccount subProposal = Some (sampleBase58 keyC)" "bpTxType subProposal = Some ''createChild''"
    "bpData subProposal = Some (fieldToString subHash)" "truthyText (Some (sampleBase58 keyC))"
    by (simp_all add: subProposal_def truthyText_def sampleBase58_def)
  have x: "minaNetwork (xeNetworkId subExport) = Inr ''testnet''"
    "xeCheckpoint subExport = Inr (checkpointStores offEnv offStores \<lparr>scNetwork = ''testnet'', scAddress = vaultText\<rparr> None)"
    by (simp_all add: subExport_def onlyVault_def minaNetwork_def exportStoreCheckpoint_def)
  have "sampleBase58 keyC \<noteq> sampleBase58 keyG" using base58_inj [OF offEnv_base58, of keyC keyG] by (simp add: offEnv_simps)
  then have p: "''payer'' \<noteq> vaultText" "sampleBase58 keyC \<noteq> vaultText" by (simp_all add: vaultText_def sampleBase58_def)
  have e: "xeAsk subExport = xeAsk onlyVault" "xeRead subExport = xeRead onlyVault" by (simp_all add: subExport_def)
  have acc: "exportAccounts subExport vaultText ''payer'' (Some (sampleBase58 keyC)) = Inr [(vaultText, vaultAccount)]"
    by (simp add: exportAccounts_def accountEntry_def e vault_answered p c(4)) (simp add: onlyVault_def)
  obtain g' where r: "reserveForParent offEnv (ledgerWorld rootLedger) keyC (deployedGuard keyC) keyG 0 2 2 ownerArray = Inr (g', subEvents, [])"
    "reservedConfigHash g' = subHash" using sub_reserved by blast
  have "mset (filter reservationEvent (map (indexEvent offEnv (Some 3)) subEvents)) = mset (map (indexEvent offEnv (Some 3)) subEvents)"
    by (simp only: sub_events)
  from reservation_round_trip [OF offEnv_sound offEnv_base58 r(1) coherent_owners(3) this, of "Some (fieldToString subHash)"]
  have "\<exists>r. verifiedChild offEnv subExport subProposal = Inr r"
    by (simp add: verifiedChild_def c fetchVerifiedChildConfig_def subExport_def offEnv_simps r(2))
  then show ?thesis by (auto simp: buildOfflineApproveBundle_def x c acc)
qed

theorem exported_request_accepted_witness:
  "\<exists>b s. buildOfflineApproveBundle offEnv subExport vaultText ''payer'' subProposal = Inr b \<and>
    checkBundle offEnv (ApproveBundle b) = Inr (ApproveBundle b) \<and>
    abChildOwners b = Some (JArr [JStr (sampleBase58 keyA), JStr (sampleBase58 keyB)]) \<and>
    rebuildVerifiedStores offEnv offSigner (injectAccounts offEnv offSigner (bbAccounts b)) b = Inr s \<and> rsOwners s = [keyA, keyB]"
proof -
  obtain b where b: "buildOfflineApproveBundle offEnv subExport vaultText ''payer'' subProposal = Inr b"
    "bbAccounts b = [(vaultText, vaultAccount)]" using sub_exported by blast
  have cp: "xeCheckpoint subExport = exportStoreCheckpoint offEnv (Inr offStores) (xeNetworkId subExport) vaultText"
    and net: "networkAllowed (networkDomainName offEnv) (xeNetworkId subExport)"
    by (simp_all add: subExport_def onlyVault_def networkAllowed_def offEnv_simps)
  have snap: "snapshotState offEnv offSigner (injectAccounts offEnv offSigner (bbAccounts b)) vaultText = Inr offSnapshot"
    unfolding b(2) by (rule offSnapshot_read)
  have t: "bpTxType subProposal = Some (txTypeName CREATE_CHILD)" by (simp add: subProposal_def)
  have memo: "assertBundleMemo offEnv subProposal = Inr ()"
    using offMemo by (simp add: assertBundleMemo_def subProposal_def offProposal_def)
  from exported_request_accepted [OF offEnv_sound offEnv_base58 offStores_ok cp b(1) net t sub_child snap vault_verified] b(1) memo
  show ?thesis by (auto simp: offStores_def sub_owners offEnv_simps)
qed

section \<open>The proposal form\<close>

text \<open>Two payments with an empty row between them, smaller than anything but a few nanomina.\<close>

definition formEnv :: "(sampleMap, sampleMap \<times> field, bool) o1js" where
  "formEnv = baseEnv\<lparr>toBase58 := (\<lambda>pk. if pk = keyA then ''B62qra'' else if pk = keyB then ''B62qrb'' else if pk = keyG then ''B62qvau'' else ''B62q''),
     fromBase58 := (\<lambda>s. if s = ''B62qra'' then Some keyA else if s = ''B62qrb'' then Some keyB
     else if s = ''B62qvau'' then Some keyG else None)\<rparr>"

definition payForm :: formProps where
  "payForm = \<lparr>fpOwners = [], fpCurrentThreshold = 1, fpNumOwners = 2, fpTxType = TRANSFER, fpChildren = [], fpInitialNonce = None,
     fpCurrentNonce = Some 2, fpProposals = [], fpDeleteMode = False, fpDeleteTarget = None, fpTargetBalance = None\<rparr>"

definition payFields :: formFields where
  "payFields = \<lparr>ffRecipients = [(''B62qra'', '' 0.00000002''), ([], []), (''B62qrb '', ''0.0000000199'')], ffNewOwner = [], ffRemoveOwner = [],
     ffNewThreshold = 1, ffDelegate = [], ffUndelegate = False, ffExpirySlot = ''0'', ffMemo = ''rent'', ffTargetChild = [],
     ffReclaimAmount = [], ffDestroyConfirm = False, ffNonce = ''3''\<rparr>"



lemma pay_input: "isOk (getInput formEnv payForm payFields)"
  by code_simp

lemma pay_receivers:
  "case getInput formEnv payForm payFields of Inl _ \<Rightarrow> False
     | Inr i \<Rightarrow> isOk (webReceiversForProposal formEnv i) \<and> wiTxType i = TRANSFER \<and> wiChildAccount i = None"
  by code_simp

theorem form_proposes_what_was_entered_witness:
  "\<exists>input p rs. getInput formEnv payForm payFields = Inr input \<and> buildNewProposal formEnv input 0 ''B62qvau'' [] = Inr p \<and>
     list_all2 (paysRow formEnv) [(''B62qra'', '' 0.00000002''), (''B62qrb '', ''0.0000000199'')] rs \<and>
     pReceivers p = rs @ replicate (MAX_RECEIVERS - length rs) emptyReceiver"
proof -
  obtain input where i: "getInput formEnv payForm payFields = Inr input" using pay_input by (auto simp: isOk_iff)
  then obtain receivers where r: "webReceiversForProposal formEnv input = Inr receivers" "wiTxType input = TRANSFER" "wiChildAccount input = None"
    using pay_receivers by (auto simp: isOk_iff)
  have "parseKey formEnv ''B62qvau'' = Inr keyG" by (simp add: formEnv_def)
  then obtain p where p: "buildNewProposal formEnv input 0 ''B62qvau'' [] = Inr p"
    using r by (simp add: buildNewProposal_def webProposalDataField_def Let_def)
  have mode: "\<not> fpDeleteMode payForm" "fpTxType payForm = TRANSFER \<or> fpTxType payForm = ALLOCATE_CHILD" by (simp_all add: payForm_def)
  have rows: "filter (\<lambda>r. \<not> rowEmpty r) (ffRecipients payFields) = [(''B62qra'', '' 0.00000002''), (''B62qrb '', ''0.0000000199'')]"
    by code_simp
  from form_proposes_what_was_entered [OF i p mode] show ?thesis unfolding rows Let_def using i p by blast
qed

end
