(* ===== verification/Vault_Verdict.thy ===== *)
theory Vault_Verdict
  imports Web_Checks Node_Client
begin

text \<open>
  The two verdicts on a vault from one answer of the node: the browser's (\<open>fetchVaultSecurityStatus\<close> and
  \<open>isCanonicalVaultSecurity\<close> of \<open>ui/lib/api.ts\<close>, in \<open>Web_Checks\<close>) and the backend's
  (\<open>fetchVaultSecurityStatus\<close> of \<open>mina-client.ts\<close>, in \<open>Vault_Security\<close> over the requests of \<open>Node_Client\<close>).
\<close>

section \<open>The browser and the backend judge a vault alike\<close>

lemma kind_of_text: "permissionKind (Some (JStr s)) = Some k \<longleftrightarrow> s = kindName k"
  by (cases k) (auto simp: permissionKind_def kindName_def readBool_def jsGet_def Let_def split: if_split_asm)

lemma all_names: "list_all P GUARD_PERMISSION_NAMES \<longleftrightarrow> (\<forall>n. P n)"
  using GUARD_PERMISSION_NAMES_complete by (auto simp: list_all_iff)

lemma text_kind:
  assumes "permissionText (permissionsOf acc) n = Some s"
  shows "permissionKindVector (jsGet acc ''permissions'') n = permissionKind (Some (JStr s))"
proof (cases "jsGet acc ''permissions''")
  case None
  then show ?thesis using assms by (simp add: permissionsOf_def nullish_def permissionText_def jsGet_def Let_def split: if_split_asm)
next
  case (Some p)
  then obtain fs where p: "p = JObj fs" using assms
    by (cases p) (auto simp: permissionsOf_def nullish_def permissionText_def jsGet_def Let_def split: if_split_asm)
  show ?thesis using assms unfolding permissionKindVector_def Some p permissionText_def permissionsOf_def Let_def
    by (cases "map_of fs (permissionKey n)") (auto simp: nullish_def jsGet_def split: if_split_asm option.split_asm json.split_asm)
qed

lemma differing_none: "filter (\<lambda>n. kinds n \<noteq> Some (EXPECTED_PERMISSION_KINDS n)) GUARD_PERMISSION_NAMES = [] \<longleftrightarrow>
    (\<forall>n. kinds n = Some (EXPECTED_PERMISSION_KINDS n))"
  using GUARD_PERMISSION_NAMES_complete by (auto simp: filter_empty_conv)

text \<open>What the browser accepts: the configured key, every permission given as its canonical text, and the
  transaction version current or an older decimal.\<close>

definition canonicalAccount :: "string option \<Rightarrow> json \<Rightarrow> bool" where
  "canonicalAccount expected acc \<longleftrightarrow> (\<exists>h v. expected = Some h \<and> keyHashOf acc = Some h \<and>
     (\<forall>n. permissionText (permissionsOf acc) n = Some (EXPECTED_PERMISSION_KINDS n)) \<and>
     transactionVersion (storedVersion (jsGet acc ''permissions'')) = Some v \<and>
     (v = GUARD_SET_VERIFICATION_KEY_TXN_VERSION \<or>
        canonicalDecimal v \<and> parseDecimal v < parseDecimal GUARD_SET_VERIFICATION_KEY_TXN_VERSION))"

lemma version_same: "map_option jsString (nullish (Option.bind (jsGet (permissionsOf acc) ''setVerificationKey'') (\<lambda>v. jsGet v ''txnVersion'')) None) =
    transactionVersion (storedVersion (jsGet acc ''permissions''))"
proof -
  have n: "map_option jsString (nullish v None) = transactionVersion v" for v
    by (auto simp: nullish_def transactionVersion_def split: option.split json.split)
  have s: "Option.bind (jsGet (permissionsOf acc) ''setVerificationKey'') (\<lambda>v. jsGet v ''txnVersion'') = storedVersion (jsGet acc ''permissions'')"
    by (auto simp: permissionsOf_def storedVersion_def nullish_def jsGet_def split: option.split json.split)
  show ?thesis unfolding s by (rule n)
qed

lemma accountSecurity_canonical: "isCanonicalVaultSecurity (Some (accountSecurity expected acc)) \<longleftrightarrow> canonicalAccount expected acc"
proof -
  define kinds where "kinds = permissionText (permissionsOf acc)"
  define ver where "ver = transactionVersion (storedVersion (jsGet acc ''permissions''))"
  have v: "orDefault ver [] \<noteq> GUARD_SET_VERIFICATION_KEY_TXN_VERSION \<longleftrightarrow> ver \<noteq> Some GUARD_SET_VERIFICATION_KEY_TXN_VERSION"
    by (cases ver) (auto simp: GUARD_SET_VERIFICATION_KEY_TXN_VERSION_def)
  show ?thesis
  proof (cases "\<forall>n. kinds n = Some (EXPECTED_PERMISSION_KINDS n)")
    case False
    then show ?thesis by (auto simp: isCanonicalVaultSecurity_def accountSecurity_def canonicalAccount_def all_names kinds_def Let_def)
  next
    case True
    then have d: "filter (\<lambda>n. kinds n \<noteq> Some (EXPECTED_PERMISSION_KINDS n)) GUARD_PERMISSION_NAMES = []" by simp
    show ?thesis
      unfolding isCanonicalVaultSecurity_def accountSecurity_def Let_def version_same ver_def [symmetric] kinds_def [symmetric] d v
      using True by (auto simp: all_names canonicalAccount_def kinds_def ver_def split: option.split)
  qed
qed

lemma canonical_safe: "canonicalAccount e acc \<longleftrightarrow>
    safe (fetchVaultSecurityStatus GUARD_SET_VERIFICATION_KEY_TXN_VERSION e (Some acc)) \<and> (\<forall>n. permissionText (permissionsOf acc) n \<noteq> None)"
proof -
  have k: "keyHashOf acc = Some h \<longleftrightarrow> Option.bind (jsGet acc ''verificationKey'') (\<lambda>k. jsGet k ''hash'') = Some (JStr h)" for h
    by (auto simp: keyHashOf_def split: option.splits json.splits)
  have null: "acc \<noteq> JNull" if "keyHashOf acc = Some h" for h using that by (auto simp: keyHashOf_def jsGet_def)
  have t: "permissionText (permissionsOf acc) n = Some (EXPECTED_PERMISSION_KINDS n) \<longleftrightarrow>
      permissionKindVector (jsGet acc ''permissions'') n = Some (GUARD_PERMISSION_KINDS n) \<and> permissionText (permissionsOf acc) n \<noteq> None" for n
    by (cases "permissionText (permissionsOf acc) n") (auto simp: text_kind kind_of_text EXPECTED_PERMISSION_KINDS_def)
  show ?thesis unfolding canonicalAccount_def safe_vault_is_canonical t using k null by blast
qed

text \<open>The browser reads the whole answer itself: the account must be there, and be canonical.\<close>

lemma web_verdict: "isCanonicalVaultSecurity (webFetchVaultSecurityStatus configured response) \<longleftrightarrow>
    nrOk response \<and> (\<exists>body acc. nrBody response = Some body \<and> \<not> truthy (jsGet body ''errors'') \<and>
      jsPath body [''data'', ''account''] = Some acc \<and> canonicalAccount (expectedVkHashOf configured) acc)" (is "?l \<longleftrightarrow> ?r")
proof -
  have object: "truthy (Some acc)" if "canonicalAccount e acc" for e acc
    using that by (cases acc) (auto simp: canonicalAccount_def keyHashOf_def jsGet_def truthy_def)
  have none: "\<not> isCanonicalVaultSecurity None" "\<not> isCanonicalVaultSecurity (Some noAccountSecurity)"
    by (simp_all add: isCanonicalVaultSecurity_def noAccountSecurity_def)
  show ?thesis
  proof
    assume ?l
    then obtain body where b: "nrOk response" "nrBody response = Some body" "\<not> truthy (jsGet body ''errors'')"
      "truthy (jsPath body [''data'', ''account''])"
      "canonicalAccount (expectedVkHashOf configured) (the (jsPath body [''data'', ''account'']))"
      using none by (auto simp: webFetchVaultSecurityStatus_def Let_def accountSecurity_canonical split: bool.split_asm option.split_asm if_split_asm)
    from b(4) obtain acc where "jsPath body [''data'', ''account''] = Some acc" by (auto simp: truthy_def split: option.split_asm)
    then show ?r using b by auto
  next
    assume ?r
    then obtain body acc where b: "nrOk response" "nrBody response = Some body" "\<not> truthy (jsGet body ''errors'')"
      "jsPath body [''data'', ''account''] = Some acc" "canonicalAccount (expectedVkHashOf configured) acc" by blast
    have "body \<noteq> JNull" using b(4) by (auto simp: jsGet_def)
    then show ?l using b object [OF b(5)] by (simp add: webFetchVaultSecurityStatus_def Let_def accountSecurity_canonical del: jsPath.simps)
  qed
qed

text \<open>An answer that is complete, carries no \<open>errors\<close> member that counts, and gives each of the thirteen
  permissions as a text, as the GraphQL schema of the node does.\<close>

definition plainAnswer :: "nodeResponse \<Rightarrow> bool" where
  "plainAnswer response \<longleftrightarrow> nrOk response \<and> (case nrBody response of None \<Rightarrow> False
     | Some body \<Rightarrow> \<not> truthy (jsGet body ''errors'') \<and> (case jsPath body [''data'', ''account''] of None \<Rightarrow> False
         | Some acc \<Rightarrow> list_all (\<lambda>n. permissionText (permissionsOf acc) n \<noteq> None) GUARD_PERMISSION_NAMES))"

lemma plainAnswer_iff: "plainAnswer response \<longleftrightarrow> nrOk response \<and> (\<exists>body acc. nrBody response = Some body \<and>
    \<not> truthy (jsGet body ''errors'') \<and> jsPath body [''data'', ''account''] = Some acc \<and>
    (\<forall>n. permissionText (permissionsOf acc) n \<noteq> None))"
  by (simp add: plainAnswer_def all_names del: jsPath.simps split: option.split)

text \<open>The backend's reading of the same answer, at whatever fallback endpoint.\<close>

lemma backend_answer:
  assumes "nrOk response" "nrBody response = Some body" "\<not> truthy (jsGet body ''errors'')"
    "jsPath body [''data'', ''account''] = Some acc"
  shows "nodeVaultSecurity v e (graphqlRequest (Some response) fallback) = Inr (fetchVaultSecurityStatus v e (Some acc))"
proof -
  obtain d where d: "jsGet body ''data'' = Some d" "jsGet d ''account'' = Some acc"
    using assms(4) by (auto split: option.split_asm bind_split_asm)
  have "truthy (Some d)" using d(2) by (cases d) (simp_all add: jsGet_def truthy_def)
  moreover have "body \<noteq> JNull" using d(1) by (auto simp: jsGet_def)
  moreover have "\<not> hasErrors body" using assms(3) by (auto simp: hasErrors_def truthy_def split: option.split_asm json.split_asm list.split_asm)
  ultimately have "runGraphqlQuery (Some response) = Inr d" using assms(1,2) d(1) by (simp add: runGraphqlQuery_def)
  then show ?thesis using d(2) by (simp add: graphqlRequest_def nodeVaultSecurity_def)
qed

text \<open>
  C37: The browser and the backend judge a vault alike from one answer of the node. With the same configured
  key hash, and whatever fallback endpoint the backend has, the browser accepts an answer exactly if the
  answer is plain and the backend finds the vault safe in it. Plain means complete, without errors, and each
  of the thirteen permissions given as a text (the node gives texts; the backend also reads the objects of
  o1js, which the browser refuses). So the verdicts on plain answers are the same, and the browser never
  accepts what the backend refuses. Both are strict: what the browser accepts holds an account
  whose key hash is the configured one, whose permissions are the canonical texts, and whose transaction
  version is the current one or an older decimal.
\<close>
theorem browser_and_backend_agree:
  "(isCanonicalVaultSecurity (webFetchVaultSecurityStatus configured response) \<longleftrightarrow>
      plainAnswer response \<and>
      (\<exists>status. nodeVaultSecurity GUARD_SET_VERIFICATION_KEY_TXN_VERSION (expectedVkHashOf configured)
          (graphqlRequest (Some response) fallback) = Inr status \<and> safe status)) \<and>
   (isCanonicalVaultSecurity (webFetchVaultSecurityStatus configured response) \<longleftrightarrow>
      nrOk response \<and> (\<exists>body acc. nrBody response = Some body \<and> \<not> truthy (jsGet body ''errors'') \<and>
        jsPath body [''data'', ''account''] = Some acc \<and> canonicalAccount (expectedVkHashOf configured) acc))"
proof (intro conjI web_verdict)
  show "isCanonicalVaultSecurity (webFetchVaultSecurityStatus configured response) \<longleftrightarrow> plainAnswer response \<and>
      (\<exists>status. nodeVaultSecurity GUARD_SET_VERIFICATION_KEY_TXN_VERSION (expectedVkHashOf configured)
          (graphqlRequest (Some response) fallback) = Inr status \<and> safe status)" (is "?l \<longleftrightarrow> plainAnswer response \<and> ?r")
  proof
    assume ?l
    then obtain body acc where b: "nrOk response" "nrBody response = Some body" "\<not> truthy (jsGet body ''errors'')"
      "jsPath body [''data'', ''account''] = Some acc" "canonicalAccount (expectedVkHashOf configured) acc"
      unfolding web_verdict by blast
    note s = b(5) [unfolded canonical_safe]
    have "plainAnswer response" unfolding plainAnswer_iff using b(1-4) s by blast
    moreover have ?r using backend_answer [OF b(1-4)] s by blast
    ultimately show "plainAnswer response \<and> ?r" ..
  next
    assume "plainAnswer response \<and> ?r"
    then obtain body acc status where b: "nrOk response" "nrBody response = Some body" "\<not> truthy (jsGet body ''errors'')"
      "jsPath body [''data'', ''account''] = Some acc" "\<forall>n. permissionText (permissionsOf acc) n \<noteq> None"
      "nodeVaultSecurity GUARD_SET_VERIFICATION_KEY_TXN_VERSION (expectedVkHashOf configured)
          (graphqlRequest (Some response) fallback) = Inr status" "safe status"
      unfolding plainAnswer_iff by blast
    have "canonicalAccount (expectedVkHashOf configured) acc"
      unfolding canonical_safe using b(5-7) backend_answer [OF b(1-4)] by simp
    then show ?l unfolding web_verdict using b(1-4) by blast
  qed
qed

end
