(* ===== verification/Offline_Migration.thy ===== *)
theory Offline_Migration
  imports Web_Offline Offline_Summary
begin

text \<open>
  The key migration of the offline command line (\<open>offline-cli/src/migrate-vk.ts\<close>, and the branch of
  \<open>index.ts\<close> that runs it): what a request must contain, what the operator reads, and what the deploy key of
  the vault signs. The snapshots are the JSON of the request. The key the release compiles to is a parameter;
  a transaction is the update it makes, with its signatures as in \<open>Offline_Handlers\<close>.
\<close>

section \<open>The request\<close>

record migrationFile = migrationBundle +
  mfVersion :: int
  mfAction :: string

text \<open>A member of the vault's permissions: the one for the key is an object, whose authorisation counts.\<close>

definition permissionMember :: "json \<Rightarrow> guardPermissionName \<Rightarrow> json option" where
  "permissionMember permissions name = (if name = SetVerificationKey
     then jsPath permissions [permissionKey name, ''auth''] else jsGet permissions (permissionKey name))"

definition storedTxnVersion :: "json \<Rightarrow> string" where
  "storedTxnVersion permissions =
     (case jsPath permissions [permissionKey SetVerificationKey, ''txnVersion''] of None \<Rightarrow> ''undefined'' | Some v \<Rightarrow> jsString v)"

definition validateMigrationBundle :: "networkDomainName \<Rightarrow> migrationFile \<Rightarrow> unit result" where
  "validateMigrationBundle domain b =
     andAlso (assertBundleNetwork (mbNetwork b) (Some (domainText domain)))
     (require (mfVersion b = OFFLINE_REQUEST_VERSION \<and> mfAction b = ''migrate-verification-key'') ''Unsupported migration format''
     (let vault = map_of (mbAccounts b) (mbContract b);
          payer = map_of (mbAccounts b) (mbFeePayer b);
          member = (\<lambda>name. Option.bind vault (\<lambda>v. jsGet v name))
      in require (truthy vault \<and> truthy payer \<and> truthy (member ''verificationKey'') \<and> truthy (member ''zkappState'') \<and>
           Option.bind (member ''verificationKey'') (\<lambda>k. jsGet k ''hash'') = Some (JStr (mbSourceHash b)))
         ''Migration request has no matching vault and fee payer snapshots''
        (require (truthy (member ''permissions'')) ''Migration request is missing vault permissions''
        (let permissions = the (member ''permissions'')
         in require (list_all (\<lambda>name. permissionMember permissions name = Some (JStr (kindName (GUARD_PERMISSION_KINDS name))))
              GUARD_PERMISSION_NAMES) ''Noncanonical vault permission''
           (require (storedTxnVersion permissions = mbSourceVersion b \<and>
              mbTargetVersion b = GUARD_SET_VERIFICATION_KEY_TXN_VERSION \<and> allDigits (mbSourceVersion b) \<and>
              parseDecimal (mbSourceVersion b) < parseDecimal (mbTargetVersion b))
             ''This vault does not have an older transaction version''
           (require (mbSourceHash b \<noteq> mbTargetHash b) ''Replacement key is identical to the installed key'' (Inr ())))))))"

section \<open>The screen\<close>

text \<open>The entries in source order. The fee is the constant \<open>ZKAPP_TX_FEE\<close>; 0x2014 is the dash of the title.\<close>

definition migrationEntries :: "migrationFile \<Rightarrow> screenText list" where
  "migrationEntries b =
     [asText ''MIGRATE VAULT VERIFICATION KEY '' @ [0x2014] @ asText '' deploy-key authority'',
      asText (''Network: '' @ mbNetwork b),
      asText (''Vault: '' @ mbContract b),
      asText (''Fee payer: '' @ mbFeePayer b),
      asText ''Fee: 0.1 MINA'',
      asText (''Installed VK hash: '' @ mbSourceHash b),
      asText (''Replacement VK hash: '' @ mbTargetHash b),
      asText (''Stored transaction version: '' @ mbSourceVersion b),
      asText (''Replacement release version: '' @ mbTargetVersion b),
      asText ''This bypasses owner voting. Verify this CLI release and replacement VK hash independently.'',
      asText ''Never use a saved deploy key on a connected machine.'']"

definition renderMigrationSummary :: "networkDomainName \<Rightarrow> migrationFile \<Rightarrow> screenText result" where
  "renderMigrationSummary domain b = andAlso (validateMigrationBundle domain b)
     (Inr (joinLines (map escapeTerminalText (migrationEntries b))))"

section \<open>The signed response\<close>

text \<open>A snapshot of the declared type; any other cannot be read.\<close>

definition textMember :: "json \<Rightarrow> string list \<Rightarrow> string option" where
  "textMember v ks = (case jsPath v ks of Some (JStr s) \<Rightarrow> Some s | _ \<Rightarrow> None)"

definition isText :: "json \<Rightarrow> bool" where
  "isText v = (case v of JStr _ \<Rightarrow> True | _ \<Rightarrow> False)"

definition textArray :: "json \<Rightarrow> string list option" where
  "textArray v = (case v of
       JArr xs \<Rightarrow> (if list_all isText xs then Some (map (\<lambda>x. case x of JStr s \<Rightarrow> s | _ \<Rightarrow> []) xs) else None)
     | _ \<Rightarrow> None)"

definition snapshotKey :: "json \<Rightarrow> (string \<times> string) option result" where
  "snapshotKey v = (if nullish (jsGet v ''verificationKey'') None = None then Inr None
     else case (textMember v [''verificationKey'', ''verificationKey''], textMember v [''verificationKey'', ''hash'']) of
       (Some key, Some hash) \<Rightarrow> Inr (Some (key, hash)) | _ \<Rightarrow> Inl (AssertFail ''snapshot''))"

definition readSnapshot :: "json \<Rightarrow> bundleAccount result" where
  "readSnapshot v = (case (textMember v [''nonce''], textMember v [''balance'', ''total'']) of
       (Some nonceText, Some balanceText) \<Rightarrow>
         (let account = \<lparr>baToken = orDefault (textMember v [''token'']) [], baNonce = nonceText, baBalance = balanceText,
                baZkappState = None, baVerificationKey = None\<rparr>
          in case nullish (jsGet v ''zkappState'') None of
               None \<Rightarrow> Inr account
             | Some state \<Rightarrow> (case textArray state of
                 None \<Rightarrow> Inl (AssertFail ''snapshot'')
               | Some values \<Rightarrow> andThen (snapshotKey v) (\<lambda>key.
                   Inr (account\<lparr>baZkappState := Some values, baVerificationKey := key\<rparr>))))
     | _ \<Rightarrow> Inl (AssertFail ''snapshot''))"

definition cacheMigrationAccount ::
  "('m, 'w, 's) o1js \<Rightarrow> 's signer \<Rightarrow> migrationFile \<Rightarrow> string \<Rightarrow> accountCache \<Rightarrow> accountCache result" where
  "cacheMigrationAccount E S b address cache = (case map_of (mbAccounts b) address of
       None \<Rightarrow> Inl (AssertFail ''snapshot'')
     | Some v \<Rightarrow> andThen (readSnapshot v) (\<lambda>a. andThen (partialAccount E S address a) (\<lambda>(key, account).
         Inr (jsSet key account cache))))"

text \<open>The two addresses as a set, so one address is cached once.\<close>

definition migrationCache :: "('m, 'w, 's) o1js \<Rightarrow> 's signer \<Rightarrow> migrationFile \<Rightarrow> accountCache result" where
  "migrationCache E S b = andThen (cacheMigrationAccount E S b (mbContract b) []) (\<lambda>cache.
     if mbFeePayer b = mbContract b then Inr cache else cacheMigrationAccount E S b (mbFeePayer b) cache)"

text \<open>The only call inside the transaction: a signed update of the vault that sets the compiled key. The text
  of a public key is its base58 form.\<close>

record 'a migrationOutput =
  moVersion :: int
  moContract :: string
  moFeePayer :: string
  moSourceHash :: string
  moTargetHash :: string
  moKeyHash :: string
  moFee :: int
  moTransaction :: "'a jsonTx"

definition unsignedMigration :: "string \<Rightarrow> string \<Rightarrow> 'a jsonTx" where
  "unsignedMigration feePayer vault = \<lparr>jtFeePayer = feePayer, jtFeePayerAuthorization = None,
     jtAccountUpdates = [\<lparr>juPublicKey = vault, juIsSigned = True, juAuthorization = None\<rparr>]\<rparr>"

definition ZKAPP_TX_FEE :: int where
  "ZKAPP_TX_FEE = 100000000"

definition privateKeyOf :: "'s signer \<Rightarrow> string \<Rightarrow> pubkey result" where
  "privateKeyOf S k = (case sgPublicKey S k of None \<Rightarrow> Inl (AssertFail ''PrivateKey.fromBase58'') | Some pk \<Rightarrow> Inr pk)"

definition handleMigration ::
  "('m, 'w, 's) o1js \<Rightarrow> 's signer \<Rightarrow> 'a txSigner \<Rightarrow> field result \<Rightarrow> migrationFile \<Rightarrow> string \<Rightarrow> string \<Rightarrow> 'a migrationOutput result" where
  "handleMigration E S sign compiled b deployKey feeKey =
     andAlso (validateMigrationBundle (networkDomainName E) b)
     (andThen (privateKeyOf S deployKey) (\<lambda>vault.
      andThen (privateKeyOf S feeKey) (\<lambda>payer.
      require (toBase58 E vault = mbContract b) ''Deploy key does not match the vault address''
     (require (toBase58 E payer = mbFeePayer b) ''Fee payer key does not match the request''
     (andThen (migrationCache E S b) (\<lambda>_.
      andThen compiled (\<lambda>hash.
      require (fieldToString hash = mbTargetHash b) ''This CLI release does not compile to the requested replacement VK hash''
     (andThen (signChildAccount sign (signFeePayer sign (unsignedMigration (toBase58 E payer) (toBase58 E vault)) feeKey)
         (toBase58 E vault) deployKey) (\<lambda>tx.
      Inr \<lparr>moVersion = 2, moContract = mbContract b, moFeePayer = mbFeePayer b, moSourceHash = mbSourceHash b,
        moTargetHash = mbTargetHash b, moKeyHash = fieldToString hash, moFee = ZKAPP_TX_FEE, moTransaction = tx\<rparr>)))))))))"

text \<open>The branch of \<open>main\<close>: the version, the screen with its question, and only then the keys. Without a key of
  its own the fee payer is the vault's deploy key.\<close>

definition runMigration ::
  "('m, 'w, 's) o1js \<Rightarrow> 's signer \<Rightarrow> 'a txSigner \<Rightarrow> field result \<Rightarrow> bool \<Rightarrow> string option option \<Rightarrow> migrationFile
     \<Rightarrow> string \<Rightarrow> string option \<Rightarrow> 'a migrationOutput result" where
  "runMigration E S sign compiled assumeYes tty b privateKey feeKey =
     require (mfVersion b = OFFLINE_REQUEST_VERSION) ''Unsupported bundle version''
     (andThen (renderMigrationSummary (networkDomainName E) b) (\<lambda>_.
      require (confirms assumeYes tty) ''Aborted. No transaction was signed.''
     (handleMigration E S sign compiled b privateKey (orDefault feeKey privateKey))))"

section \<open>What is signed\<close>

text \<open>What a valid request says about the snapshot of the vault.\<close>

lemma validate_migration:
  assumes "validateMigrationBundle domain b = Inr ()"
  obtains permissions where "Option.bind (map_of (mbAccounts b) (mbContract b)) (\<lambda>v. jsGet v ''permissions'') = Some permissions"
    "\<And>name. permissionMember permissions name = Some (JStr (kindName (GUARD_PERMISSION_KINDS name)))"
    "storedTxnVersion permissions = mbSourceVersion b"
    "parseDecimal (mbSourceVersion b) < parseDecimal GUARD_SET_VERIFICATION_KEY_TXN_VERSION" "mbSourceHash b \<noteq> mbTargetHash b"
proof -
  let ?p = "Option.bind (map_of (mbAccounts b) (mbContract b)) (\<lambda>v. jsGet v ''permissions'')"
  have v: "truthy ?p" "list_all (\<lambda>name. permissionMember (the ?p) name = Some (JStr (kindName (GUARD_PERMISSION_KINDS name)))) GUARD_PERMISSION_NAMES"
    "storedTxnVersion (the ?p) = mbSourceVersion b" "mbTargetVersion b = GUARD_SET_VERIFICATION_KEY_TXN_VERSION"
    "parseDecimal (mbSourceVersion b) < parseDecimal (mbTargetVersion b)" "mbSourceHash b \<noteq> mbTargetHash b"
    using assms by (auto simp: validateMigrationBundle_def Let_def)
  obtain permissions where p: "?p = Some permissions" using v(1) by (cases ?p) (auto simp: truthy_def)
  show ?thesis by (rule that [OF p]) (use v p GUARD_PERMISSION_NAMES_complete in \<open>auto simp: list_all_iff\<close>)
qed

text \<open>Whatever the request says: a signed migration sets the key that this release compiles to, which is the
  one on the screen and not the installed one, on the vault whose deploy key was given, and on nothing else;
  the vault had the canonical permissions of an older version; and the signature of the fee payer is the one
  the fee payer made.\<close>

lemma migration_signs_the_key_only:
  assumes "handleMigration E S sign compiled b deployKey feeKey = Inr r"
  obtains vault payer hash permissions
  where "sgPublicKey S deployKey = Some vault" "toBase58 E vault = mbContract b"
    "sgPublicKey S feeKey = Some payer" "toBase58 E payer = mbFeePayer b"
    "compiled = Inr hash" "moKeyHash r = fieldToString hash" "moKeyHash r = mbTargetHash b" "moKeyHash r \<noteq> mbSourceHash b"
    "Option.bind (map_of (mbAccounts b) (mbContract b)) (\<lambda>v. jsGet v ''permissions'') = Some permissions"
    "\<And>name. permissionMember permissions name = Some (JStr (kindName (GUARD_PERMISSION_KINDS name)))"
    "parseDecimal (storedTxnVersion permissions) < parseDecimal GUARD_SET_VERIFICATION_KEY_TXN_VERSION"
    "moFee r = ZKAPP_TX_FEE"
    "jtFeePayerAuthorization (moTransaction r) = jtFeePayerAuthorization (sign (unsignedMigration (mbFeePayer b) (mbContract b)) feeKey)"
proof -
  have h: "validateMigrationBundle (networkDomainName E) b = Inr ()"
    using assms by (simp add: handleMigration_def)
  obtain vault payer hash tx where k: "sgPublicKey S deployKey = Some vault" "sgPublicKey S feeKey = Some payer"
      "toBase58 E vault = mbContract b" "toBase58 E payer = mbFeePayer b" "compiled = Inr hash" "fieldToString hash = mbTargetHash b"
    and tx: "signChildAccount sign (signFeePayer sign (unsignedMigration (mbFeePayer b) (mbContract b)) feeKey) (mbContract b) deployKey = Inr tx"
    and r: "moKeyHash r = fieldToString hash" "moFee r = ZKAPP_TX_FEE" "moTransaction r = tx"
    using assms by (auto simp: handleMigration_def privateKeyOf_def split: option.split_asm)
  have auth: "jtFeePayerAuthorization tx = jtFeePayerAuthorization (sign (unsignedMigration (mbFeePayer b) (mbContract b)) feeKey)"
    using tx by (auto simp: signChildAccount_def signFeePayer_def Let_def)
  obtain permissions where p: "Option.bind (map_of (mbAccounts b) (mbContract b)) (\<lambda>v. jsGet v ''permissions'') = Some permissions"
    "\<And>name. permissionMember permissions name = Some (JStr (kindName (GUARD_PERMISSION_KINDS name)))"
    "storedTxnVersion permissions = mbSourceVersion b"
    "parseDecimal (mbSourceVersion b) < parseDecimal GUARD_SET_VERIFICATION_KEY_TXN_VERSION" "mbSourceHash b \<noteq> mbTargetHash b"
    using validate_migration [OF h] by blast
  show ?thesis by (rule that [OF k(1,3,2,4,5) _ _ _ p(1,2)]) (use k r p(3-) auth in auto)
qed

text \<open>Nothing is signed unless the operator said yes to a screen that has the entries of the request, each on a
  line of its own and with no character that acts on the terminal.\<close>

lemma migration_is_shown:
  assumes "runMigration E S sign compiled assumeYes tty b k fk = Inr r"
  obtains screen where "renderMigrationSummary (networkDomainName E) b = Inr screen"
    "splitLines screen = map escapeTerminalText (migrationEntries b)" "confirms assumeYes tty"
proof -
  have run: "validateMigrationBundle (networkDomainName E) b = Inr ()" "confirms assumeYes tty"
    using assms by (auto simp: runMigration_def renderMigrationSummary_def)
  show ?thesis
  proof (rule that [OF _ _ run(2)])
    show "renderMigrationSummary (networkDomainName E) b = Inr (joinLines (map escapeTerminalText (migrationEntries b)))"
      by (simp add: renderMigrationSummary_def run(1))
    show "splitLines (joinLines (map escapeTerminalText (migrationEntries b))) = map escapeTerminalText (migrationEntries b)"
      by (rule splitLines_join) (auto simp: migrationEntries_def escape_no_newline)
  qed
qed

text \<open>The browser compares the response with its request before it reads the command, and they match.\<close>

lemma migration_response_matches:
  assumes "handleMigration E S sign compiled b deployKey feeKey = Inr r"
  shows "moVersion r = 2 \<and> moContract r = mbContract b \<and> moFeePayer r = mbFeePayer b \<and>
    moSourceHash r = mbSourceHash b \<and> moTargetHash r = mbTargetHash b"
  using assms by (auto simp: handleMigration_def split: sum.split_asm)

text \<open>A request as the test of the command line makes it is valid; with the current version it is not.\<close>

definition sampleMigration :: "string \<Rightarrow> migrationFile" where
  "sampleMigration version = \<lparr>mbNetwork = ''testnet'', mbContract = ''vault'', mbFeePayer = ''payer'',
     mbAccounts = [(''vault'', JObj [(''nonce'', JStr ''0''), (''balance'', JObj [(''total'', JStr ''0'')]), (''zkappState'', JArr []),
         (''verificationKey'', JObj [(''verificationKey'', JStr ''source''), (''hash'', JStr ''123'')]),
         (''permissions'', JObj (map (\<lambda>n. (permissionKey n, if n = SetVerificationKey
            then JObj [(''auth'', JStr ''Impossible''), (''txnVersion'', JStr version)]
            else JStr (kindName (GUARD_PERMISSION_KINDS n)))) GUARD_PERMISSION_NAMES))]),
       (''payer'', JObj [(''nonce'', JStr ''0''), (''balance'', JObj [(''total'', JStr ''1000000000'')])])],
     mbSourceHash = ''123'', mbSourceVersion = version, mbTargetHash = ''456'', mbTargetVersion = GUARD_SET_VERIFICATION_KEY_TXN_VERSION,
     mfVersion = 3, mfAction = ''migrate-verification-key''\<rparr>"

lemma sample_migration:
  "validateMigrationBundle Testnet (sampleMigration ''3'') = Inr ()"
  "\<not> isOk (validateMigrationBundle Testnet (sampleMigration ''4''))"
  by code_simp+

end
