(* ===== verification/Backend_Config.thy ===== *)
theory Backend_Config
  imports Indexer_Tick Web_Form
begin

text \<open>
  The configuration of the backend (\<open>backend/src/config.ts\<close>): the environment is a map from names to texts, and
  reading it gives a configuration or the error that stops the process. The last part says which settings of
  the polling loop a configuration stands for.
\<close>

type_synonym environment = "string \<Rightarrow> string option"

datatype indexerMode = FullMode | LiteMode

datatype discoveryBackend = DaemonDiscovery | ArchiveDiscovery

record archiveDbConfig =
  adHost :: string
  adPort :: int
  adUser :: string
  adPassword :: string
  adDatabase :: string

record backendConfig =
  bcPort :: int
  bcDatabaseUrl :: string
  bcMinaEndpoint :: string
  bcArchiveEndpoint :: string
  bcLightnetAccountManager :: "string option"
  bcMinaFallbackEndpoint :: "string option"
  bcArchiveFallbackEndpoint :: "string option"
  bcIndexPollIntervalMs :: int
  bcIndexStartHeight :: int
  bcVkHash :: "string option"
  bcIndexerMode :: indexerMode
  bcIndexerDisabled :: bool
  bcFixedLatestSlot :: "int option"
  bcDiscoveryBackend :: discoveryBackend
  bcCorsOrigins :: "string list option"
  bcArchiveDb :: "archiveDbConfig option"

definition requireEnv :: "environment \<Rightarrow> string \<Rightarrow> string result" where
  "requireEnv env name = require (truthyText (env name)) ''Missing required env var'' (Inr (the (env name)))"

definition numericEnv :: "environment \<Rightarrow> string \<Rightarrow> int \<Rightarrow> int result" where
  "numericEnv env name fallback =
     (if \<not> truthyText (env name) then Inr fallback
      else case jsNumber (the (env name)) of None \<Rightarrow> Inl (AssertFail ''Env var must be a valid number'') | Some n \<Rightarrow> Inr n)"

text \<open>One entry of the list of origins: trimmed, without slashes at its end, in lower case.\<close>

definition corsOrigin :: "string \<Rightarrow> string" where
  "corsOrigin entry = lowerText (rev (dropWhile (\<lambda>c. c = CHR ''/'') (rev (jsTrim entry))))"

definition parseCorsOrigins :: "string option \<Rightarrow> string list option" where
  "parseCorsOrigins value =
     (let origins = filter (\<lambda>x. x \<noteq> []) (map corsOrigin (splitOn (CHR '','') (orDefault value [])))
      in if origins \<noteq> [] \<and> ''*'' \<notin> set origins then Some origins else None)"

definition readMode :: "environment \<Rightarrow> indexerMode result" where
  "readMode env = (let raw = orDefault (env ''INDEXER_MODE'') ''full''
     in if raw = ''full'' then Inr FullMode else if raw = ''lite'' then Inr LiteMode
        else Inl (AssertFail ''Env var INDEXER_MODE must be 'full' or 'lite'.''))"

definition readDiscovery :: "environment \<Rightarrow> discoveryBackend result" where
  "readDiscovery env = (let raw = orDefault (env ''DISCOVERY_BACKEND'') ''daemon''
     in if raw = ''daemon'' then Inr DaemonDiscovery else if raw = ''archive'' then Inr ArchiveDiscovery
        else Inl (AssertFail ''Env var DISCOVERY_BACKEND must be 'daemon' or 'archive'.''))"

definition readArchiveDb :: "environment \<Rightarrow> discoveryBackend \<Rightarrow> archiveDbConfig option result" where
  "readArchiveDb env backend = (case backend of
       DaemonDiscovery \<Rightarrow> Inr None
     | ArchiveDiscovery \<Rightarrow>
        require (truthyText (env ''MINAGUARD_VK_HASH'')) ''DISCOVERY_BACKEND=archive requires MINAGUARD_VK_HASH to be set''
       (andThen (requireEnv env ''ARCHIVE_DB_HOST'') (\<lambda>host.
        andThen (numericEnv env ''ARCHIVE_DB_PORT'' 5432) (\<lambda>port.
        andThen (requireEnv env ''ARCHIVE_DB_USER'') (\<lambda>user.
        andThen (requireEnv env ''ARCHIVE_DB_PASSWORD'') (\<lambda>password.
        andThen (requireEnv env ''ARCHIVE_DB_NAME'') (\<lambda>name.
        Inr (Some \<lparr>adHost = host, adPort = port, adUser = user, adPassword = password, adDatabase = name\<rparr>))))))))"

definition loadConfig :: "environment \<Rightarrow> backendConfig result" where
  "loadConfig env =
     andThen (numericEnv env ''PORT'' 4000) (\<lambda>port.
     andThen (requireEnv env ''DATABASE_URL'') (\<lambda>databaseUrl.
     andThen (requireEnv env ''MINA_ENDPOINT'') (\<lambda>minaEndpoint.
     andThen (requireEnv env ''ARCHIVE_ENDPOINT'') (\<lambda>archiveEndpoint.
     andThen (readMode env) (\<lambda>mode.
     andThen (readDiscovery env) (\<lambda>backend.
     andThen (readArchiveDb env backend) (\<lambda>archiveDb.
     andThen (numericEnv env ''INDEX_POLL_INTERVAL_MS'' 15000) (\<lambda>interval.
     andThen (numericEnv env ''INDEX_START_HEIGHT'' 0) (\<lambda>start.
     andThen (if env ''INDEXER_FIXED_LATEST_SLOT'' = None then Inr None
        else andThen (numericEnv env ''INDEXER_FIXED_LATEST_SLOT'' 0) (\<lambda>slot. Inr (Some slot))) (\<lambda>fixedSlot.
     Inr \<lparr>bcPort = port, bcDatabaseUrl = databaseUrl, bcMinaEndpoint = minaEndpoint, bcArchiveEndpoint = archiveEndpoint,
       bcLightnetAccountManager = env ''LIGHTNET_ACCOUNT_MANAGER'', bcMinaFallbackEndpoint = env ''MINA_FALLBACK_ENDPOINT'',
       bcArchiveFallbackEndpoint = env ''ARCHIVE_FALLBACK_ENDPOINT'', bcIndexPollIntervalMs = interval, bcIndexStartHeight = start,
       bcVkHash = (if truthyText (env ''MINAGUARD_VK_HASH'') then env ''MINAGUARD_VK_HASH'' else None),
       bcIndexerMode = mode, bcIndexerDisabled = (env ''INDEXER_DISABLED'' = Some ''true''), bcFixedLatestSlot = fixedSlot,
       bcDiscoveryBackend = backend, bcCorsOrigins = parseCorsOrigins (env ''CORS_ORIGINS''), bcArchiveDb = archiveDb\<rparr>))))))))))"

section \<open>What a configuration means for the indexer\<close>

definition tickConfigOf :: "backendConfig \<Rightarrow> tickConfig" where
  "tickConfigOf c = \<lparr>tcStartHeight = bcIndexStartHeight c, tcArchive = (bcDiscoveryBackend c = ArchiveDiscovery), tcVkHash = bcVkHash c\<rparr>"

text \<open>Archive discovery is never replaced by the scan of the daemon: its configuration names the key it filters by
  and the database.\<close>

lemma archive_config:
  assumes "loadConfig env = Inr c" "bcDiscoveryBackend c = ArchiveDiscovery"
  shows "truthyText (bcVkHash c)" "bcArchiveDb c \<noteq> None"
    "discoveryCandidates (tickConfigOf c) A latest indexed db = taArchiveCandidates A
       (case getArchiveDiscoveredHeight db of None \<Rightarrow> bcIndexStartHeight c
        | Some h \<Rightarrow> max (bcIndexStartHeight c) (h - REORG_DETECTION_WINDOW + 1)) latest"
proof -
  obtain archiveDb where "readArchiveDb env ArchiveDiscovery = Inr archiveDb" "bcArchiveDb c = archiveDb"
    "bcVkHash c = (if truthyText (env ''MINAGUARD_VK_HASH'') then env ''MINAGUARD_VK_HASH'' else None)"
    using assms by (auto simp: loadConfig_def)
  then show "truthyText (bcVkHash c)" "bcArchiveDb c \<noteq> None" by (auto simp: readArchiveDb_def dest: sym [of "Some _"])
  then show "discoveryCandidates (tickConfigOf c) A latest indexed db = taArchiveCandidates A
       (case getArchiveDiscoveredHeight db of None \<Rightarrow> bcIndexStartHeight c
        | Some h \<Rightarrow> max (bcIndexStartHeight c) (h - REORG_DETECTION_WINDOW + 1)) latest"
    by (simp add: discoveryCandidates_def tickConfigOf_def assms(2) split: option.split)
qed

text \<open>A list of origins never stands for every origin.\<close>

lemma cors_restricts: "parseCorsOrigins value = Some origins \<Longrightarrow> origins \<noteq> [] \<and> ''*'' \<notin> set origins \<and> [] \<notin> set origins"
  by (auto simp: parseCorsOrigins_def Let_def split: if_split_asm)

end
