(* ===== verification/Spec2Isabelle.thy ===== *)
theory Spec2Isabelle
  imports Web_Witnesses Vault_Verdict Offline_Migration Backend_Config Vault_Security Memo
begin

text \<open>
  \<^bold>\<open>MinaGuard.\<close> A multi-signature vault on the Mina blockchain: a smart contract, the off-chain stores that
  produce its Merkle witnesses, a backend that indexes its events, and two clients that prepare
  transactions: a web interface and an offline command line. This development models the contract, the
  stores, the backend with its polling loop and routes, the proving worker and the checks of the web
  interface, and the command line, and proves what a vault owner relies on.

  \<^bold>\<open>Parts and how they interact.\<close> The contract (\<open>contracts/src/MinaGuard.ts\<close>) keeps eight commitments and
  counters on chain. Owners propose and approve proposals; each vote adds a nullifier and raises a leaf
  of the approval map, and a proposal with enough approvals is executed, on the guard itself or, for the
  lifecycle of a child guard, on the child. Clients hold the lists and maps behind the commitments in
  stores (\<open>storage.ts\<close>), rebuild them from events (\<open>event-rebuild.ts\<close>), and keep checkpoints of them
  (\<open>store-checkpoint.ts\<close>). The backend fetches events from an archive node (\<open>mina-client.ts\<close>), checks the
  permissions of the accounts it follows (\<open>vault-security.ts\<close>), writes events into database tables and
  rolls them back after a reorganisation (\<open>indexer.ts\<close>), and serves proposals with a status
  (\<open>proposal-record.ts\<close>) over its routes (\<open>routes.ts\<close>). The web interface reads these records
  (\<open>ui/lib/api.ts\<close>, \<open>ui/lib/types.ts\<close>), and its worker rebuilds proposals and stores, compares them with the
  chain and prepares the transaction (\<open>multisigClient.worker.ts\<close>), which is checked once more against the
  node before it is sent (\<open>transaction-preflight.ts\<close>, \<open>preflight-flow.ts\<close>) and then tracked until its outcome is
  known (\<open>ui/lib/storage.ts\<close>). For owners who sign on another machine it exports request bundles
  (\<open>offline-signing.ts\<close>), from which the command line (\<open>offline-cli\<close>) shows a summary and signs.

  \<^bold>\<open>Theories and sources.\<close>

  \<^item> \<open>Prelude\<close>: the result type with its sequencing operators and shared list lemmas. \<open>Machines\<close>: the locale
    of state machines with an invariant, interpreted on every state machine below. \<open>Js_Map\<close>, \<open>Json\<close>,
    \<open>Decimal\<close>: insertion-ordered maps, JSON values, number texts.
  \<^item> \<open>O1js\<close>: the parameters that stand for o1js (Poseidon, signatures, the curve, Merkle maps, base58) as a
    record, with their laws as named predicates (\<open>collisionFree\<close>, \<open>merkleLaws\<close>, \<open>base58Laws\<close>,
    \<open>fieldLarge\<close>; \<open>soundEnv\<close> collects them) and a concrete instance that satisfies all of them.
  \<^item> \<open>Constants\<close> (\<open>constants.ts\<close>, \<open>network-domain.ts\<close>, \<open>hash-domains.ts\<close>, \<open>proposal-signing.ts\<close>),
    \<open>Owner_List\<close> (\<open>list-commitment.ts\<close>), \<open>Guard_Types\<close> (the structs and events of \<open>MinaGuard.ts\<close> and the
    permission policy), \<open>Guard_Checks\<close> (its assertion helpers), \<open>Guard_Methods\<close> (its methods),
    \<open>Guard_World\<close> (transactions on a ledger of accounts as the step relation \<open>guardStep\<close>).
  \<^item> \<open>Vault_Spec\<close>: the abstract vault, a set of owners and the votes on each proposal. \<open>Guard_Refine\<close>,
    \<open>Guard_Safety\<close>: each method simulates the abstract vault and keeps the ledger's invariant.
    \<open>Guard_Properties\<close>: quorum, replay, staleness, governance, permissions, hierarchy and error
    properties over all reachable ledgers. \<open>Guard_Liveness\<close>: a threshold of owners can always execute.
  \<^item> \<open>Owner_Store\<close>, \<open>Map_Store\<close> (\<open>storage.ts\<close>), \<open>Event_Rebuild\<close>, \<open>Owner_Rebuild\<close> (\<open>event-rebuild.ts\<close>),
    \<open>Rebuild_Sync\<close> (the rebuilt stores follow the contract), \<open>Checkpoint\<close> (\<open>store-checkpoint.ts\<close>),
    \<open>Memo\<close> (\<open>memo.ts\<close>).
  \<^item> \<open>Proposal_Record\<close>, \<open>Status_Cache\<close>, \<open>Submission_Check\<close>, \<open>Request_Validation\<close>, \<open>Vault_Security\<close>: the
    backend files \<open>proposal-record.ts\<close>, \<open>tx-status-cache.ts\<close>, \<open>submission-check.ts\<close>,
    \<open>request-validation.ts\<close> and \<open>vault-security.ts\<close> with \<open>fetchVaultSecurityStatus\<close> of \<open>mina-client.ts\<close>.
  \<^item> \<open>Chain_Events\<close>: the archive query and the decoding of events in \<open>mina-client.ts\<close>. \<open>Indexer_Db\<close>: the
    tables of \<open>schema.prisma\<close> and the row helpers of \<open>indexer.ts\<close>. \<open>Indexer_Order\<close>, \<open>Indexer_Apply\<close>,
    \<open>Indexer_Sync\<close>, \<open>Indexer_Reorg\<close>: the order of application, the event handlers, ingestion and
    synchronisation, and reorganisations. \<open>Indexer_Keys\<close>: the tables stay well formed.
    \<open>Indexer_Mirror\<close>: the indexed configuration follows the contract. \<open>Node_Client\<close>: the GraphQL requests of
    \<open>mina-client.ts\<close>. \<open>Indexer_Tick\<close>: the polling loop with discovery, first scans and submissions in flight.
    \<open>Backend_Config\<close>: the reading of the environment in \<open>config.ts\<close>.
  \<^item> \<open>Backend_Routes\<close>: the routes of \<open>routes.ts\<close> as functions from the tables to replies. \<open>Js_Values\<close>: how
    JavaScript reads numbers and conditions, shared by the clients.
  \<^item> \<open>Offline_Build\<close>, \<open>Offline_Bundle\<close>, \<open>Offline_Handlers\<close> (\<open>offline-cli/src/build-tx.ts\<close>), \<open>Offline_Summary\<close>
    (\<open>summary.ts\<close>, \<open>terminal-safe.ts\<close>): what the command line checks, shows and signs. \<open>Offline_Properties\<close>:
    what its signature means. \<open>Offline_Migration\<close> (\<open>migrate-vk.ts\<close>): the migration of a vault's verification key.
  \<^item> \<open>Web_Records\<close> (\<open>types.ts\<close> and the readers of \<open>api.ts\<close>), \<open>Web_Worker\<close>, \<open>Web_Operations\<close>
    (\<open>multisigClient.worker.ts\<close>), \<open>Web_Preflight\<close> (\<open>transaction-preflight.ts\<close>, \<open>preflight-flow.ts\<close> and the page's
    side in \<open>multisigClient.ts\<close>), \<open>Web_Form\<close> (\<open>ProposalForm.tsx\<close>, from the entered texts to the input of the
    worker), \<open>Web_Reservation\<close> (the child reservation as it is read back), \<open>Web_Pending\<close>
    (\<open>storage.ts\<close>, \<open>useTransactions.ts\<close>, \<open>useContractTxLock.ts\<close>), \<open>Web_Checks\<close> (the browser's own verdict on a
    vault, fees, key and network checks), \<open>Web_Broadcast\<close> (the upload of signed responses in
    \<open>OfflineSigningFlow.tsx\<close> and of signed migrations in \<open>VaultVerificationKeyMigration.tsx\<close>), \<open>Web_Offline\<close>
    (\<open>offline-signing.ts\<close>). \<open>Vault_Verdict\<close>: the verdicts of browser and backend on one answer.
    \<open>Web_Equivalence\<close>: both clients build the same. \<open>Published_Proposal\<close>: a proposal from the contract through the indexer and the routes to
    the worker of another owner.
  \<^item> \<open>Scenario\<close>: a concrete run of the contract. \<open>Witnesses\<close>, \<open>Backend_Witnesses\<close>, \<open>Indexer_Witnesses\<close>,
    \<open>Offline_Witnesses\<close>, \<open>Web_Witnesses\<close>: every property with hypotheses, applied to a concrete input that satisfies them.

  \<^bold>\<open>What is shown.\<close> For the contract: nothing executes and no funds leave without the signatures of
  threshold distinct owners, and then exactly the amounts they signed, to the receivers they signed; nothing
  executes twice, a configuration change kills what was pending, on the guard and on its children,
  the governance invariant, the permissions and the two-level hierarchy hold for ever, the contract
  refines the abstract vault, and a quorum can always act. For the stores: rebuilding does not depend on
  the order of delivery and reproduces the owner list, checkpoints round-trip, and whatever cache or file
  they come from, stores are used only if they reproduce the roots on chain. For the backend: what it
  calls stale or expired is what the contract rejects, only proof-authorised events of applied
  transactions are indexed and they decode to what was emitted, an account is trusted exactly if its key
  and permissions are canonical, each event is applied once and as a whole, rollbacks go to the fork and
  leave exactly the prefix of every table, the keys of all tables stay unique, the indexed configuration is the one on
  chain, and a tick that moves the cursor has read every ready vault from a whole window below the old
  cursor up to the new one. For the clients: the form proposes exactly the
  payments that were entered; an offline signature covers exactly the declared proposal,
  which the screen shows and the contract accepts; both clients build the same proposals and approvals
  from the same values; the record of a proposal leads every owner back to the proposal itself; the
  browser reaches the verdict of the backend on every plain answer of the node; exported requests of all ten
  kinds are accepted by the command line with the stores of the vault; fees stay in their bounds; a vault
  transaction that is sent, prepared here or signed offline, was checked against the node in exactly that
  form; and a broadcast transaction of unknown outcome keeps its vault locked.

  \<^bold>\<open>Idealisations.\<close> A field element is an integer below \<open>fieldOrder\<close>; hashes are injective functions, not
  computationally hard ones. A method of the contract reads its account and foreign accounts from the
  ledger of the step, which is what the preconditions of a transaction enforce. Amounts are 64-bit
  words. An asynchronous operation of the backend is split into the steps between its suspensions.
  Texts are their UTF-8 bytes; the screen of the command line reads their code points, and white space is
  what JavaScript trims. JavaScript numbers that the code reads from texts are integers; query values are rationals with
  infinities and \<open>NaN\<close>. JSON documents are their parsed form. A database table is the list of its rows, a
  transaction that fails leaves it unchanged, ids come from one counter, and time stamps are left out.
  Error messages that no code reads are abbreviated. What a tick asks for is one record of answers.
  Questions to the user and repeated checks are lists of rounds.
  Answers of nodes, archives and storage are parameters without assumptions, except where a property
  names one.

  \<^bold>\<open>Bounds and termination.\<close> Every definition is a total function; no fuel is used. The archive loop
  terminates by a measure, the circuits are folds over arrays of \<open>MAX_OWNERS\<close> and \<open>MAX_RECEIVERS\<close>
  entries. Properties over reachable ledgers carry the number of steps taken and require it to stay
  below the field order, since counters wrap there.

  \<^bold>\<open>Not modelled.\<close> Zero-knowledge proofs and the o1js runtime, which are parameters; the other pages and
  components of the web interface, the transports of the wallets and the compile cache; the routes for
  health, the raw security status and the faucet of test networks, which relay what other parts compute;
  the SQL of the archive database and logging; the desktop shell; deployment and test code. They render data, move it between the parts modelled here, or belong to other programs.
\<close>

end
